(* ===== verification/FM_Prelude.thy ===== *)
theory FM_Prelude
  imports Complex_Main "HOL-Library.AList"
begin

text \<open>
  Shared vocabulary of the development: names for the scalar types of the code, the
  result type of code that may raise, Python dictionaries as association lists, the
  string helpers of the standard library that the code calls, and the rewrite rules
  the component theories share.

  A Python dictionary keeps its insertion order, so it is an association list updated
  by \<open>AList.update\<close>, which overwrites in place and appends a new key at the end.
\<close>

section \<open>Scalars\<close>

type_synonym timestamp = int
type_synonym uuid = string
type_synonym app_id = string

section \<open>Code that may raise\<close>

text \<open>\<open>Inl e\<close> is the exception raised, \<open>Inr x\<close> the value returned.\<close>

fun ebind :: "'e + 'a \<Rightarrow> ('a \<Rightarrow> 'e + 'b) \<Rightarrow> 'e + 'b" where
  "ebind (Inl e) f = Inl e"
| "ebind (Inr x) f = f x"

definition ensure :: "bool \<Rightarrow> 'e \<Rightarrow> 'e + unit" where
  "ensure b e = (if b then Inr () else Inl e)"

fun emap :: "('a \<Rightarrow> 'e + 'b) \<Rightarrow> 'a list \<Rightarrow> 'e + 'b list" where
  "emap f [] = Inr []"
| "emap f (x # xs) = ebind (f x) (\<lambda>y. ebind (emap f xs) (\<lambda>ys. Inr (y # ys)))"

fun is_ok :: "'e + 'a \<Rightarrow> bool" where
  "is_ok (Inl e) = False"
| "is_ok (Inr x) = True"

named_theorems result_elims "what a successful step of a computation implies"

lemma ebind_Inr_iff [result_elims]:
  "ebind r f = Inr y \<longleftrightarrow> (\<exists>x. r = Inr x \<and> f x = Inr y)"
  by (cases r) auto

lemma ebind_Inl_iff:
  "ebind r f = Inl e \<longleftrightarrow> r = Inl e \<or> (\<exists>x. r = Inr x \<and> f x = Inl e)"
  by (cases r) auto

lemma ensure_Inr_iff [result_elims]: "ensure b e = Inr u \<longleftrightarrow> b"
  by (auto simp: ensure_def)

lemma ensure_Inl_iff: "ensure b e = Inl e' \<longleftrightarrow> \<not> b \<and> e' = e"
  by (auto simp: ensure_def)

lemma ensure_simps [simp]:
  "ensure True e = Inr ()" "ensure False e = Inl e"
  by (simp_all add: ensure_def)

lemma emap_Inr_length: "emap f xs = Inr ys \<Longrightarrow> length ys = length xs"
  by (induction xs arbitrary: ys) (auto simp: result_elims)

lemma emap_Inr_nth:
  "emap f xs = Inr ys \<Longrightarrow> i < length xs \<Longrightarrow> f (xs ! i) = Inr (ys ! i)"
  by (induction xs arbitrary: ys i) (auto simp: result_elims nth_Cons split: nat.splits)

lemma is_ok_iff: "is_ok r \<longleftrightarrow> (\<exists>x. r = Inr x)"
  by (cases r) auto

text \<open>The exception classes of Python that the code distinguishes when it catches.\<close>

datatype py_exn =
    ValueError string
  | RuntimeError string
  | KeyError string
  | OtherException string

definition raising_value :: "string + 'a \<Rightarrow> py_exn + 'a" where
  "raising_value r = (case r of Inl m \<Rightarrow> Inl (ValueError m) | Inr x \<Rightarrow> Inr x)"

lemma raising_value_Inr [result_elims]: "raising_value r = Inr x \<longleftrightarrow> r = Inr x"
  by (cases r) (auto simp: raising_value_def)

section \<open>Operations on a world\<close>

text \<open>
  An operation that changes a world and may raise: the exception or the value, with the world
  it leaves. An exception keeps the changes made before it.
\<close>

type_synonym ('w, 'e, 'a) io = "'w \<Rightarrow> ('e + 'a) \<times> 'w"

definition io_ret :: "'a \<Rightarrow> ('w, 'e, 'a) io" where
  "io_ret x w = (Inr x, w)"

definition io_raise :: "'e \<Rightarrow> ('w, 'e, 'a) io" where
  "io_raise e w = (Inl e, w)"

definition io_lift :: "('e + 'a) \<Rightarrow> ('w, 'e, 'a) io" where
  "io_lift r w = (r, w)"

definition io_bind :: "('w, 'e, 'a) io \<Rightarrow> ('a \<Rightarrow> ('w, 'e, 'b) io) \<Rightarrow> ('w, 'e, 'b) io" where
  "io_bind m f w = (case m w of (Inl e, w') \<Rightarrow> (Inl e, w') | (Inr x, w') \<Rightarrow> f x w')"

definition io_ensure :: "bool \<Rightarrow> 'e \<Rightarrow> ('w, 'e, unit) io" where
  "io_ensure b e w = (if b then (Inr (), w) else (Inl e, w))"

fun io_each :: "('x \<Rightarrow> ('w, 'e, unit) io) \<Rightarrow> 'x list \<Rightarrow> ('w, 'e, unit) io" where
  "io_each f [] w = (Inr (), w)"
| "io_each f (x # xs) w = (case f x w of (Inl e, w') \<Rightarrow> (Inl e, w') | (Inr _, w') \<Rightarrow> io_each f xs w')"

text \<open>\<open>try\<close> and \<open>except\<close>: the handler sees the exception and the world it left.\<close>

definition io_catch :: "('w, 'e, 'a) io \<Rightarrow> ('e \<Rightarrow> ('w, 'f, 'a) io) \<Rightarrow> ('w, 'f, 'a) io" where
  "io_catch m handler w = (case m w of (Inl e, w') \<Rightarrow> handler e w' | (Inr x, w') \<Rightarrow> (Inr x, w'))"

named_theorems io_elims

lemma io_bind_Inr [io_elims]:
  "io_bind m f w = (Inr y, w'') \<longleftrightarrow> (\<exists>x w'. m w = (Inr x, w') \<and> f x w' = (Inr y, w''))"
  by (auto simp: io_bind_def split: prod.splits sum.splits)

lemma io_ensure_Inr [io_elims]: "io_ensure b e w = (Inr u, w') \<longleftrightarrow> b \<and> w' = w"
  by (auto simp: io_ensure_def)

lemma io_lift_Inr [io_elims]: "io_lift r w = (Inr x, w') \<longleftrightarrow> r = Inr x \<and> w' = w"
  by (auto simp: io_lift_def)

lemma io_ret_Inr [io_elims]: "io_ret x w = (Inr y, w') \<longleftrightarrow> y = x \<and> w' = w"
  by (auto simp: io_ret_def)

lemma io_raise_Inr [io_elims]: "io_raise e w \<noteq> (Inr y, w')"
  by (simp add: io_raise_def)

lemma io_simps [simp]:
  "io_bind (io_ret x) f = f x"
  "io_bind (io_raise e) f = io_raise e"
  "io_ensure True e = io_ret ()"
  "io_ensure False e = io_raise e"
  "io_lift (Inr x) = io_ret x"
  "io_lift (Inl e) = io_raise e"
  by (auto simp: fun_eq_iff io_bind_def io_ret_def io_raise_def io_ensure_def io_lift_def)

section \<open>Dictionaries\<close>

abbreviation dict_get :: "('k \<times> 'v) list \<Rightarrow> 'k \<Rightarrow> 'v option" where
  "dict_get \<equiv> map_of"

abbreviation dict_set :: "'k \<Rightarrow> 'v \<Rightarrow> ('k \<times> 'v) list \<Rightarrow> ('k \<times> 'v) list" where
  "dict_set \<equiv> AList.update"

abbreviation dict_pop :: "'k \<Rightarrow> ('k \<times> 'v) list \<Rightarrow> ('k \<times> 'v) list" where
  "dict_pop \<equiv> AList.delete"

definition dict_wf :: "('k \<times> 'v) list \<Rightarrow> bool" where
  "dict_wf d \<longleftrightarrow> distinct (map fst d)"

definition dict_of :: "('k \<times> 'v) list \<Rightarrow> ('k \<times> 'v) list" where
  "dict_of kvs = fold (\<lambda>(k, v). dict_set k v) kvs []"

lemma dict_wf_Nil [simp]: "dict_wf []"
  by (simp add: dict_wf_def)

lemma dict_wf_set [simp]: "dict_wf d \<Longrightarrow> dict_wf (dict_set k v d)"
  by (simp add: dict_wf_def distinct_update)

lemma dict_wf_pop [simp]: "dict_wf d \<Longrightarrow> dict_wf (dict_pop k d)"
  by (simp add: dict_wf_def distinct_delete)

lemma dict_get_set [simp]:
  "dict_get (dict_set k v d) k' = (if k' = k then Some v else dict_get d k')"
  by (simp add: update_conv)

lemma dict_get_pop [simp]:
  "dict_get (dict_pop k d) k' = (if k' = k then None else dict_get d k')"
  by (simp add: delete_conv)

lemma dict_get_in_iff: "dict_wf d \<Longrightarrow> (k, v) \<in> set d \<longleftrightarrow> dict_get d k = Some v"
  by (simp add: dict_wf_def)

lemma keys_update: "fst ` set (dict_set k v d) = insert k (fst ` set d)"
  by (induction d) auto

lemma update_new: "k \<notin> fst ` set d \<Longrightarrow> dict_set k v d = d @ [(k, v)]"
  by (induction d) auto

lemma fold_update_distinct:
  "distinct (map fst (d @ kvs)) \<Longrightarrow> fold (\<lambda>(k, v). dict_set k v) kvs d = d @ kvs"
proof (induction kvs arbitrary: d)
  case Nil
  then show ?case by simp
next
  case (Cons kv kvs)
  obtain k v where kv: "kv = (k, v)" by (cases kv)
  with Cons.prems have "k \<notin> fst ` set d" by auto
  then have "dict_set k v d = d @ [(k, v)]" by (rule update_new)
  with Cons.IH [of "d @ [(k, v)]"] Cons.prems kv show ?case by simp
qed

text \<open>A dictionary built from pairs: with distinct keys it is the list of pairs itself.\<close>

lemma dict_of_distinct: "distinct (map fst kvs) \<Longrightarrow> dict_of kvs = kvs"
  using fold_update_distinct [of "[]" kvs] by (simp add: dict_of_def)

lemma fold_update_keys:
  "dict_wf d \<Longrightarrow> dict_wf (fold (\<lambda>(k, v). dict_set k v) kvs d) \<and>
     fst ` set (fold (\<lambda>(k, v). dict_set k v) kvs d) = fst ` set d \<union> fst ` set kvs"
proof (induction kvs arbitrary: d)
  case Nil
  then show ?case by simp
next
  case (Cons kv kvs)
  obtain k v where kv: "kv = (k, v)" by (cases kv)
  have "fst ` set (dict_set k v d) = insert k (fst ` set d)"
    by (rule keys_update)
  with Cons.IH [of "dict_set k v d"] Cons.prems kv show ?case by auto
qed

lemma dict_wf_of [simp]: "dict_wf (dict_of kvs)"
  using fold_update_keys [of "[]" kvs] by (simp add: dict_of_def)

lemma keys_dict_of [simp]: "fst ` set (dict_of kvs) = fst ` set kvs"
  using fold_update_keys [of "[]" kvs] by (simp add: dict_of_def)

lemma length_dict_of: "length (dict_of kvs) = length kvs \<longleftrightarrow> distinct (map fst kvs)"
proof
  assume l: "length (dict_of kvs) = length kvs"
  have "length (dict_of kvs) = card (fst ` set kvs)"
    using distinct_card [of "map fst (dict_of kvs)"] dict_wf_of [of kvs] by (simp add: dict_wf_def)
  with l show "distinct (map fst kvs)" by (intro card_distinct) simp
qed (simp add: dict_of_distinct)

lemma length_dict_of_map:
  "length (dict_of (map f xs)) = length xs \<longleftrightarrow> distinct (map (fst \<circ> f) xs)"
  using length_dict_of [of "map f xs"] by simp

section \<open>Strings of the standard library\<close>

text \<open>
  Strings are lists of characters. \<open>str_nat\<close> is \<open>str(n)\<close> of a natural number,
  \<open>is_space\<close> the ASCII white space that \<open>str.strip\<close> removes, \<open>casefold\<close> the ASCII
  part of \<open>str.casefold\<close>.
\<close>

definition digit_char :: "nat \<Rightarrow> char" where
  "digit_char d = char_of (48 + d)"

fun str_nat :: "nat \<Rightarrow> string" where
  "str_nat n = (if n < 10 then [digit_char n] else str_nat (n div 10) @ [digit_char (n mod 10)])"

declare str_nat.simps [simp del]

definition str_int :: "int \<Rightarrow> string" where
  "str_int i = (if i < 0 then CHR ''-'' # str_nat (nat (- i)) else str_nat (nat i))"

definition is_digit :: "char \<Rightarrow> bool" where
  "is_digit c \<longleftrightarrow> 48 \<le> (of_char c :: int) \<and> (of_char c :: int) \<le> 57"

definition digit_val :: "char \<Rightarrow> nat" where
  "digit_val c = of_char c - 48"

definition nat_of_digits :: "string \<Rightarrow> nat" where
  "nat_of_digits s = foldl (\<lambda>n c. 10 * n + digit_val c) 0 s"

definition is_space :: "char \<Rightarrow> bool" where
  "is_space c \<longleftrightarrow> (let n = (of_char c :: int) in n = 32 \<or> (9 \<le> n \<and> n \<le> 13) \<or> (28 \<le> n \<and> n \<le> 31))"

definition strip :: "string \<Rightarrow> string" where
  "strip s = rev (dropWhile is_space (rev (dropWhile is_space s)))"

definition lower_char :: "char \<Rightarrow> char" where
  "lower_char c = (let n = (of_char c :: int) in if 65 \<le> n \<and> n \<le> 90 then char_of (n + 32) else c)"

definition casefold :: "string \<Rightarrow> string" where
  "casefold s = map lower_char s"

fun starts_with :: "'a list \<Rightarrow> 'a list \<Rightarrow> bool" where
  "starts_with [] s = True"
| "starts_with (p # ps) [] = False"
| "starts_with (p # ps) (c # cs) = (p = c \<and> starts_with ps cs)"

fun contains_str :: "'a list \<Rightarrow> 'a list \<Rightarrow> bool" where
  "contains_str p [] = (p = [])"
| "contains_str p (c # cs) = (starts_with p (c # cs) \<or> contains_str p cs)"

definition ends_with :: "'a list \<Rightarrow> 'a list \<Rightarrow> bool" where
  "ends_with p s = starts_with (rev p) (rev s)"

fun join_str :: "string \<Rightarrow> string list \<Rightarrow> string" where
  "join_str sep [] = []"
| "join_str sep [x] = x"
| "join_str sep (x # y # zs) = x @ sep @ join_str sep (y # zs)"

definition hex_sha256 :: "string \<Rightarrow> bool" where
  "hex_sha256 s \<longleftrightarrow> int (length s) = 64 \<and> list_all (\<lambda>c. c \<in> set ''0123456789abcdef'') s"

lemma starts_with_iff: "starts_with p s \<longleftrightarrow> (\<exists>t. s = p @ t)"
  by (induction p s rule: starts_with.induct) auto

lemma contains_str_iff: "contains_str p s \<longleftrightarrow> (\<exists>a b. s = a @ p @ b)"
proof (induction s)
  case Nil
  then show ?case by auto
next
  case (Cons c cs)
  show ?case
  proof
    assume "contains_str p (c # cs)"
    then consider t where "c # cs = p @ t" | a b where "cs = a @ p @ b"
      using Cons by (auto simp: starts_with_iff)
    then show "\<exists>a b. c # cs = a @ p @ b"
      by cases (metis append_Nil, metis append_Cons)
  next
    assume "\<exists>a b. c # cs = a @ p @ b"
    then obtain a b where ab: "c # cs = a @ p @ b" by blast
    show "contains_str p (c # cs)"
    proof (cases a)
      case Nil
      with ab have "starts_with p (c # cs)" unfolding starts_with_iff by simp
      then show ?thesis by simp
    next
      case (Cons x xs)
      with ab have "cs = xs @ p @ b" by simp
      then show ?thesis using \<open>contains_str p cs = (\<exists>a b. cs = a @ p @ b)\<close> by auto
    qed
  qed
qed

lemma digit_char_is_digit:
  assumes "d < 10"
  shows "is_digit (digit_char d)"
proof -
  have "(of_char (digit_char d) :: int) = int (of_char (digit_char d))" by (simp only: of_nat_of_char)
  also have "\<dots> = int ((48 + d) mod 256)" by (simp only: digit_char_def of_char_of)
  finally show ?thesis using assms by (simp add: is_digit_def)
qed

lemma digit_val_char [simp]: "d < 10 \<Longrightarrow> digit_val (digit_char d) = d"
  by (simp add: digit_val_def digit_char_def)

lemma str_nat_nonempty [simp]: "str_nat n \<noteq> []"
  by (subst str_nat.simps) simp

lemma str_nat_digits: "list_all is_digit (str_nat n)"
proof (induction n rule: str_nat.induct)
  case (1 n)
  then show ?case
    by (subst str_nat.simps) (simp add: digit_char_is_digit)
qed

lemma nat_of_str_nat [simp]: "nat_of_digits (str_nat n) = n"
proof (induction n rule: str_nat.induct)
  case (1 n)
  then show ?case
    by (subst str_nat.simps) (simp add: nat_of_digits_def)
qed

lemma str_nat_inj [simp]: "str_nat m = str_nat n \<longleftrightarrow> m = n"
  by (metis nat_of_str_nat)

lemma length_str_nat: "n < 10 ^ Suc k \<Longrightarrow> length (str_nat n) \<le> Suc k"
proof (induction k arbitrary: n)
  case (Suc k)
  show ?case
  proof (cases "n < 10")
    case False
    have "n div 10 < 10 ^ Suc k" using Suc.prems by (simp add: less_mult_imp_div_less mult.commute)
    with Suc.IH False show ?thesis by (subst str_nat.simps) auto
  qed (subst str_nat.simps, simp)
qed (subst str_nat.simps, simp)

section \<open>Lists\<close>

lemma length_remdups_distinct: "length xs \<noteq> length (remdups xs) \<longleftrightarrow> \<not> distinct xs"
  by (metis length_remdups_eq remdups_id_iff_distinct)

definition first_some :: "('a \<Rightarrow> 'b option) \<Rightarrow> 'a list \<Rightarrow> 'b option" where
  "first_some f xs = (case List.map_filter f xs of [] \<Rightarrow> None | y # _ \<Rightarrow> Some y)"

text \<open>The \<open>max_length\<close> bound of a field.\<close>

definition max_items :: "int \<Rightarrow> 'a list \<Rightarrow> bool" where
  "max_items n xs \<longleftrightarrow> int (length xs) \<le> n"

definition index_of :: "'a \<Rightarrow> 'a list \<Rightarrow> nat" where
  "index_of x xs = length (takeWhile (\<lambda>y. y \<noteq> x) xs)"

lemma index_of_nth: "x \<in> set xs \<Longrightarrow> index_of x xs < length xs \<and> xs ! index_of x xs = x"
  unfolding index_of_def
  by (metis (mono_tags, lifting) nth_length_takeWhile set_takeWhileD takeWhile_eq_all_conv
      length_takeWhile_le le_neq_implies_less takeWhile_eq_take take_all_iff order_refl)

end
