(* ===== verification/FM_Decimal.thy ===== *)
theory FM_Decimal
  imports FM_Prelude
begin

text \<open>
  Python's \<open>decimal.Decimal\<close>, as far as the code uses it: finite values built from text,
  numeric comparison, subtraction in the default context (28 significant digits, round
  half even), \<open>str\<close> and the format \<open>:+\<close>. A value is a sign, a coefficient and an
  exponent, so that \<open>Decimal(''12'')\<close> and \<open>Decimal(''12.0'')\<close> are equal as numbers
  and differ as text, which is what the guardrail on cited values observes.
\<close>

datatype decimal = Dec (dec_neg: bool) (dec_coeff: nat) (dec_exp: int)

definition pow10 :: "int \<Rightarrow> rat" where
  "pow10 e = (if 0 \<le> e then 10 ^ nat e else 1 / 10 ^ nat (- e))"

definition dval :: "decimal \<Rightarrow> rat" where
  "dval d = (if dec_neg d then - 1 else 1) * of_nat (dec_coeff d) * pow10 (dec_exp d)"

definition dec_le :: "decimal \<Rightarrow> decimal \<Rightarrow> bool" where
  "dec_le a b \<longleftrightarrow> dval a \<le> dval b"

definition dec_lt :: "decimal \<Rightarrow> decimal \<Rightarrow> bool" where
  "dec_lt a b \<longleftrightarrow> dval a < dval b"

definition dec_eq :: "decimal \<Rightarrow> decimal \<Rightarrow> bool" where
  "dec_eq a b \<longleftrightarrow> dval a = dval b"

definition dec_of_nat :: "nat \<Rightarrow> decimal" where
  "dec_of_nat n = Dec False n 0"

lemma pow10_pos [simp]: "0 < pow10 e"
  by (simp add: pow10_def)

lemma pow10_nonzero [simp]: "pow10 e \<noteq> 0"
  using pow10_pos [of e] by (metis less_irrefl)

lemma dval_of_nat [simp]: "dval (dec_of_nat n) = of_nat n"
  by (simp add: dval_def dec_of_nat_def pow10_def)

lemma dec_eq_refl [simp]: "dec_eq a a"
  by (simp add: dec_eq_def)

section \<open>Text\<close>

text \<open>
  \<open>dec_body\<close> is the text without the sign: plain notation when the exponent is not
  positive and the leading digit is at most six places behind the point, scientific
  notation otherwise.
\<close>

definition dec_body :: "decimal \<Rightarrow> string" where
  "dec_body d =
     (let ds = str_nat (dec_coeff d);
          n = int (length ds);
          leftdigits = dec_exp d + n;
          dotplace = (if dec_exp d \<le> 0 \<and> - 6 < leftdigits then leftdigits else 1);
          body =
            (if dotplace \<le> 0 then ''0.'' @ replicate (nat (- dotplace)) (CHR ''0'') @ ds
             else if n \<le> dotplace then ds @ replicate (nat (dotplace - n)) (CHR ''0'')
             else take (nat dotplace) ds @ ''.'' @ drop (nat dotplace) ds);
          e = leftdigits - dotplace
      in if e = 0 then body
         else body @ ''E'' @ (if 0 < e then ''+'' else []) @ str_int e)"

definition str_decimal :: "decimal \<Rightarrow> string" where
  "str_decimal d = (if dec_neg d then ''-'' else []) @ dec_body d"

definition format_plus :: "decimal \<Rightarrow> string" where
  "format_plus d = (if dec_neg d then ''-'' else ''+'') @ dec_body d"

section \<open>Subtraction in the default context\<close>

definition dec_signed :: "decimal \<Rightarrow> int \<Rightarrow> int" where
  "dec_signed d e = (if dec_neg d then - 1 else 1) * int (dec_coeff d) * 10 ^ nat (dec_exp d - e)"

definition dec_round28 :: "decimal \<Rightarrow> decimal" where
  "dec_round28 d =
     (let k = length (str_nat (dec_coeff d)) - 28 in
      if k = 0 then d
      else let q = dec_coeff d div 10 ^ k; r = 2 * (dec_coeff d mod 10 ^ k);
               up = (10 ^ k < r \<or> (r = 10 ^ k \<and> odd q));
               q' = (if up then q + 1 else q)
           in if length (str_nat q') = 28 then Dec (dec_neg d) q' (dec_exp d + int k)
              else Dec (dec_neg d) (q' div 10) (dec_exp d + int k + 1))"

definition dec_sub :: "decimal \<Rightarrow> decimal \<Rightarrow> decimal" where
  "dec_sub a b =
     (let e = min (dec_exp a) (dec_exp b);
          v = dec_signed a e - dec_signed b e;
          neg = (if v = 0 then dec_coeff a = 0 \<and> dec_coeff b = 0 \<and> dec_neg a \<and> \<not> dec_neg b
                 else v < 0)
      in dec_round28 (Dec neg (nat \<bar>v\<bar>) e))"

section \<open>Reading a number\<close>

text \<open>
  \<open>Decimal(text)\<close> of plain decimal notation, with an optional sign, fraction and
  exponent. Text of any other form is the error \<open>None\<close>.
\<close>

definition split_sign :: "string \<Rightarrow> bool \<times> string" where
  "split_sign s = (case s of
      [] \<Rightarrow> (False, [])
    | c # cs \<Rightarrow> if c = CHR ''-'' then (True, cs) else if c = CHR ''+'' then (False, cs) else (False, s))"

definition parse_exponent :: "string \<Rightarrow> int option" where
  "parse_exponent s = (case s of
      [] \<Rightarrow> Some 0
    | c # cs \<Rightarrow>
        if c = CHR ''e'' \<or> c = CHR ''E'' then
          (let (neg, ds) = split_sign cs in
           if ds \<noteq> [] \<and> list_all is_digit ds
           then Some (if neg then - int (nat_of_digits ds) else int (nat_of_digits ds))
           else None)
        else None)"

definition decimal_of_string :: "string \<Rightarrow> decimal option" where
  "decimal_of_string text =
     (let (neg, s) = split_sign (strip text);
          ip = takeWhile is_digit s; rest = dropWhile is_digit s;
          fp = (case rest of c # cs \<Rightarrow> if c = CHR ''.'' then takeWhile is_digit cs else [] | [] \<Rightarrow> []);
          rest' = (case rest of c # cs \<Rightarrow> if c = CHR ''.'' then dropWhile is_digit cs else rest | [] \<Rightarrow> [])
      in if ip @ fp = [] then None
         else map_option (\<lambda>e. Dec neg (nat_of_digits (ip @ fp)) (e - int (length fp)))
                (parse_exponent rest'))"

section \<open>Integers\<close>

definition to_integral :: "decimal \<Rightarrow> int" where
  "to_integral d = (let v = dval d in if v < 0 then - \<lfloor>- v\<rfloor> else \<lfloor>v\<rfloor>)"

definition is_integral :: "decimal \<Rightarrow> bool" where
  "is_integral d \<longleftrightarrow> of_int \<lfloor>dval d\<rfloor> = dval d"

lemma is_integral_value: "is_integral d \<Longrightarrow> of_int (to_integral d) = dval d"
  by (auto simp: is_integral_def to_integral_def Let_def floor_minus)

lemma dval_zero_iff: "dval d = 0 \<longleftrightarrow> dec_coeff d = 0"
  by (auto simp: dval_def)

end
