(* ===== verification/FM_Contract.thy ===== *)
theory FM_Contract
  imports FM_Decimal
begin

text \<open>
  The extraction contract of \<open>clients/findociq_contract.py\<close>: citations, figures, and
  the ingestion requests and responses with the validators that the models run when they
  are built. Coordinates are exact rationals. A model whose validator raises is \<open>Inl\<close>
  of the message.
\<close>

section \<open>Citations\<close>

record bbox =
  bx0 :: rat
  by0 :: rat
  bx1 :: rat
  by1 :: rat

definition validate_coordinates :: "bbox \<Rightarrow> string + bbox" where
  "validate_coordinates b =
     (if bx1 b < bx0 b \<or> by1 b < by0 b
      then Inl ''bbox coordinates must satisfy x0 <= x1 and y0 <= y1''
      else Inr b)"

record citation =
  ct_document_id :: string
  ct_page_number :: nat
  ct_bbox :: bbox

definition valid_citation :: "citation \<Rightarrow> bool" where
  "valid_citation c \<longleftrightarrow> 1 \<le> ct_page_number c \<and> is_ok (validate_coordinates (ct_bbox c))"

record figure =
  fg_label :: string
  fg_value :: string
  fg_unit :: "string option"
  fg_period :: "string option"
  fg_citation :: citation

section \<open>Ingestion\<close>

datatype contract_version = V1 | V2

record ingest_document_request =
  iq_version :: contract_version
  iq_filename :: string
  iq_sha256 :: string
  iq_content :: string
  iq_application_id :: "string option"
  iq_command_id :: "string option"
  iq_policy_hash :: "string option"

text \<open>\<open>all((a, b, c))\<close> of optional strings: each present and not empty.\<close>

definition truthy_str :: "string option \<Rightarrow> bool" where
  "truthy_str s = (case s of None \<Rightarrow> False | Some t \<Rightarrow> t \<noteq> [])"

definition require_v2_scope :: "ingest_document_request \<Rightarrow> string + ingest_document_request" where
  "require_v2_scope q =
     (if iq_version q = V2 \<and>
         \<not> (truthy_str (iq_application_id q) \<and> truthy_str (iq_command_id q) \<and>
            truthy_str (iq_policy_hash q))
      then Inl ''v2 ingestion requires application_id, command_id, and policy_hash''
      else Inr q)"

record ingest_batch_request =
  ib_version :: contract_version
  ib_batch_id :: "string option"
  ib_documents :: "ingest_document_request list"

definition consistent_contract :: "ingest_batch_request \<Rightarrow> string + ingest_batch_request" where
  "consistent_contract b =
     (if list_ex (\<lambda>q. iq_version q \<noteq> ib_version b) (ib_documents b)
      then Inl ''batch and document contract versions must match''
      else if ib_version b = V2 \<and>
              length (remdups (map iq_application_id (ib_documents b))) \<noteq> 1
      then Inl ''production batch must belong to one application''
      else Inr b)"

record ingest_document_response =
  ir_document_id :: string
  ir_filename :: string
  ir_sha256 :: string
  ir_page_count :: nat
  ir_chunk_count :: nat
  ir_chunk_ids :: "string list"
  ir_config_hash :: string
  ir_application_id :: "string option"
  ir_policy_hash :: "string option"
  ir_scan_status :: "string option"
  ir_scan_receipt :: "string option"
  ir_dlp_receipt :: "string option"
  ir_storage_receipt :: "string option"
  ir_ownership_receipt :: "string option"

record extract_response =
  xr_figures :: "figure list"
  xr_application_id :: "string option"
  xr_command_id :: "string option"
  xr_policy_hash :: "string option"

lemma consistent_batch_one_application:
  assumes "consistent_contract b = Inr b'" and "ib_version b = V2"
  shows "\<exists>a. \<forall>q \<in> set (ib_documents b). iq_application_id q = a"
proof -
  from assms have "length (remdups (map iq_application_id (ib_documents b))) = 1"
    by (auto simp: consistent_contract_def split: if_splits)
  then obtain a where "remdups (map iq_application_id (ib_documents b)) = [a]"
    by (metis One_nat_def length_0_conv length_Suc_conv)
  then have "set (map iq_application_id (ib_documents b)) = {a}"
    by (metis set_remdups list.set(1) list.set(2))
  then show ?thesis by auto
qed

end
