(* ===== verification/FM_Precedent.thy ===== *)
theory FM_Precedent
  imports FM_Contract
begin

text \<open>
  The precedent data model of \<open>precedent/schema.py\<close>: the normalized financial profile,
  cited evidence, reviewer comments, the human decision, and the decided case with the
  validators its constructor runs.
\<close>

section \<open>Facts\<close>

datatype fact_name =
    Annual_revenue_crore | Ebitda_margin_pct | Dscr | Pat_crore | Debt_to_equity
  | Debt_to_ebitda | Collateral_cover | Years_operating | Employee_count
  | Borrower_name | Industry | Sub_industry | Region

fun fact_str :: "fact_name \<Rightarrow> string" where
  "fact_str Annual_revenue_crore = ''annual_revenue_crore''"
| "fact_str Ebitda_margin_pct = ''ebitda_margin_pct''"
| "fact_str Dscr = ''dscr''"
| "fact_str Pat_crore = ''pat_crore''"
| "fact_str Debt_to_equity = ''debt_to_equity''"
| "fact_str Debt_to_ebitda = ''debt_to_ebitda''"
| "fact_str Collateral_cover = ''collateral_cover''"
| "fact_str Years_operating = ''years_operating''"
| "fact_str Employee_count = ''employee_count''"
| "fact_str Borrower_name = ''borrower_name''"
| "fact_str Industry = ''industry''"
| "fact_str Sub_industry = ''sub_industry''"
| "fact_str Region = ''region''"

definition text_facts :: "fact_name list" where
  "text_facts = [Borrower_name, Industry, Sub_industry, Region]"

datatype fact_value = FNum decimal | FText string

text \<open>Python's \<open>==\<close> on \<open>Decimal | str\<close>, and \<open>str\<close> of such a value.\<close>

fun fact_eq :: "fact_value \<Rightarrow> fact_value \<Rightarrow> bool" where
  "fact_eq (FNum a) (FNum b) = dec_eq a b"
| "fact_eq (FText a) (FText b) = (a = b)"
| "fact_eq _ _ = False"

fun str_fact :: "fact_value \<Rightarrow> string" where
  "str_fact (FNum d) = str_decimal d"
| "str_fact (FText s) = s"

lemma fact_eq_refl [simp]: "fact_eq v v"
  by (cases v) auto

record financial_profile =
  fp_annual_revenue_crore :: decimal
  fp_requested_amount_crore :: decimal
  fp_ebitda_margin_pct :: decimal
  fp_pat_crore :: decimal
  fp_dscr :: decimal
  fp_debt_to_equity :: decimal
  fp_debt_to_ebitda :: decimal
  fp_collateral_cover :: decimal
  fp_years_operating :: int
  fp_employee_count :: int

definition valid_profile :: "financial_profile \<Rightarrow> bool" where
  "valid_profile p \<longleftrightarrow>
     0 < dval (fp_annual_revenue_crore p) \<and> 0 < dval (fp_requested_amount_crore p) \<and>
     - 100 \<le> dval (fp_ebitda_margin_pct p) \<and> dval (fp_ebitda_margin_pct p) \<le> 100 \<and>
     0 < dval (fp_dscr p) \<and> 0 \<le> dval (fp_debt_to_equity p) \<and>
     0 \<le> dval (fp_debt_to_ebitda p) \<and> 0 \<le> dval (fp_collateral_cover p) \<and>
     0 \<le> fp_years_operating p \<and> 0 < fp_employee_count p"

record evidence_metric =
  em_name :: fact_name
  em_value :: fact_value
  em_unit :: string
  em_period :: string
  em_citation :: citation

definition normalize_value :: "fact_name \<Rightarrow> fact_value \<Rightarrow> string + fact_value" where
  "normalize_value name value =
     (if name \<in> set text_facts then
        (let text = strip (str_fact value) in
         if text = [] then Inl ''text evidence cannot be empty'' else Inr (FText text))
      else (case value of
              FNum d \<Rightarrow> Inr (FNum d)
            | FText s \<Rightarrow> (case decimal_of_string s of
                            Some d \<Rightarrow> Inr (FNum d)
                          | None \<Rightarrow> Inl ''InvalidOperation'')))"

section \<open>Evidence against the profile\<close>

text \<open>
  \<open>expected_fact\<close> is the dictionary \<open>expected\<close> that both \<open>BorrowerApplication\<close> and
  \<open>DecidedLoanCase\<close> build; \<open>metrics\<close> is a dictionary, so a later duplicate wins.
\<close>

definition dec_of_int :: "int \<Rightarrow> decimal" where
  "dec_of_int i = Dec (i < 0) (nat \<bar>i\<bar>) 0"

fun expected_fact ::
  "financial_profile \<Rightarrow> string \<Rightarrow> string \<Rightarrow> string \<Rightarrow> string \<Rightarrow> fact_name \<Rightarrow> fact_value" where
  "expected_fact p b i s r Annual_revenue_crore = FNum (fp_annual_revenue_crore p)"
| "expected_fact p b i s r Ebitda_margin_pct = FNum (fp_ebitda_margin_pct p)"
| "expected_fact p b i s r Dscr = FNum (fp_dscr p)"
| "expected_fact p b i s r Pat_crore = FNum (fp_pat_crore p)"
| "expected_fact p b i s r Debt_to_equity = FNum (fp_debt_to_equity p)"
| "expected_fact p b i s r Debt_to_ebitda = FNum (fp_debt_to_ebitda p)"
| "expected_fact p b i s r Collateral_cover = FNum (fp_collateral_cover p)"
| "expected_fact p b i s r Years_operating = FNum (dec_of_int (fp_years_operating p))"
| "expected_fact p b i s r Employee_count = FNum (dec_of_int (fp_employee_count p))"
| "expected_fact p b i s r Borrower_name = FText b"
| "expected_fact p b i s r Industry = FText i"
| "expected_fact p b i s r Sub_industry = FText s"
| "expected_fact p b i s r Region = FText r"

definition metric_dict :: "evidence_metric list \<Rightarrow> (fact_name \<times> fact_value) list" where
  "metric_dict es = dict_of (map (\<lambda>e. (em_name e, em_value e)) es)"

definition required_facts :: "fact_name list" where
  "required_facts = [Annual_revenue_crore, Ebitda_margin_pct, Dscr]"

definition evidence_matches ::
  "financial_profile \<Rightarrow> string \<Rightarrow> string \<Rightarrow> string \<Rightarrow> string \<Rightarrow> evidence_metric list \<Rightarrow> bool" where
  "evidence_matches p b i s r es =
     (let metrics = metric_dict es in
      list_all (\<lambda>n. dict_get metrics n \<noteq> None) required_facts \<and>
      list_all (\<lambda>(n, v). fact_eq (expected_fact p b i s r n) v) metrics)"

section \<open>Decisions and cases\<close>

datatype decision_outcome = APPROVED | REJECTED | APPROVED_WITH_CONDITIONS
datatype precedent_status = ACTIVE | REVOKED | SUPERSEDED
datatype team = Finance | Operations

record reviewer_comment =
  rc_team :: team
  rc_author :: string
  rc_text :: string
  rc_created_at :: timestamp

record decision_override =
  ov_criterion :: string
  ov_original_result :: string
  ov_justification :: string

record human_decision =
  hd_outcome :: decision_outcome
  hd_funder_id :: string
  hd_decided_by :: string
  hd_decided_at :: timestamp
  hd_rationale :: string
  hd_conditions :: "string list"
  hd_overrides :: "decision_override list"

definition validate_decision_conditions :: "human_decision \<Rightarrow> string + human_decision" where
  "validate_decision_conditions d =
     (if (hd_conditions d \<noteq> []) \<noteq> (hd_outcome d = APPROVED_WITH_CONDITIONS)
      then Inl ''conditions must be present only for approved_with_conditions decisions''
      else Inr d)"

record decided_loan_case =
  dc_case_id :: string
  dc_borrower_name :: string
  dc_industry :: string
  dc_sub_industry :: string
  dc_region :: string
  dc_loan_type :: string
  dc_profile :: financial_profile
  dc_evidence :: "evidence_metric list"
  dc_comments :: "reviewer_comment list"
  dc_decision :: human_decision
  dc_lifecycle_status :: precedent_status
  dc_policy_hash :: "string option"
  dc_valid_until :: "timestamp option"
  dc_supersedes_case_id :: "string option"

definition validate_internal_consistency :: "decided_loan_case \<Rightarrow> string + decided_loan_case" where
  "validate_internal_consistency c =
     (if \<not> evidence_matches (dc_profile c) (dc_borrower_name c) (dc_industry c)
             (dc_sub_industry c) (dc_region c) (dc_evidence c)
      then Inl ''evidence metrics must exactly match normalized profile values''
      else if set (map rc_team (dc_comments c)) \<noteq> {Finance, Operations}
      then Inl ''each precedent requires finance and operations comments''
      else if (case dc_valid_until c of None \<Rightarrow> False | Some v \<Rightarrow> v \<le> hd_decided_at (dc_decision c))
      then Inl ''precedent validity must extend beyond its human decision''
      else Inr c)"

text \<open>
  What \<open>DecidedLoanCase.model_validate\<close> checks: the field constraints, the nested
  models, then the validator of the class. \<open>valid_case_id\<close> is the pattern of \<open>case_id\<close>.
\<close>

definition is_alnum :: "char \<Rightarrow> bool" where
  "is_alnum c \<longleftrightarrow> is_digit c \<or>
     (let n = (of_char c :: int) in (65 \<le> n \<and> n \<le> 90) \<or> (97 \<le> n \<and> n \<le> 122))"

definition id_tail_char :: "char \<Rightarrow> bool" where
  "id_tail_char c \<longleftrightarrow> is_alnum c \<or> c = CHR ''.'' \<or> c = CHR ''_'' \<or> c = CHR ''-''"

definition valid_case_id :: "string \<Rightarrow> bool" where
  "valid_case_id s = (3 \<le> length s \<and> max_items 200 s \<and>
     (case s of [] \<Rightarrow> False | c # cs \<Rightarrow> is_alnum c \<and> list_all id_tail_char cs))"

text \<open>The constraints of a cited metric, and the pattern of \<open>loan_type\<close>.\<close>

definition valid_metric :: "evidence_metric \<Rightarrow> bool" where
  "valid_metric e \<longleftrightarrow> em_unit e \<noteq> [] \<and> em_period e \<noteq> [] \<and> valid_citation (em_citation e)"

definition is_lower :: "char \<Rightarrow> bool" where
  "is_lower c \<longleftrightarrow> (let n = (of_char c :: int) in 97 \<le> n \<and> n \<le> 122)"

definition valid_loan_code :: "string \<Rightarrow> bool" where
  "valid_loan_code s = (2 \<le> length s \<and> max_items 80 s \<and>
     (case s of [] \<Rightarrow> False | c # cs \<Rightarrow> is_lower c \<and> list_all (\<lambda>x. is_lower x \<or> is_digit x \<or> x = CHR ''_'') cs))"

definition case_fields_ok :: "decided_loan_case \<Rightarrow> bool" where
  "case_fields_ok c \<longleftrightarrow>
     valid_case_id (dc_case_id c) \<and> dc_borrower_name c \<noteq> [] \<and> dc_industry c \<noteq> [] \<and>
     dc_sub_industry c \<noteq> [] \<and> dc_region c \<noteq> [] \<and> valid_loan_code (dc_loan_type c) \<and>
     valid_profile (dc_profile c) \<and> list_all valid_metric (dc_evidence c) \<and>
     3 \<le> length (dc_evidence c) \<and> length (dc_evidence c) \<le> 20 \<and> 2 \<le> length (dc_comments c) \<and>
     list_all (\<lambda>m. rc_author m \<noteq> [] \<and> rc_text m \<noteq> [] \<and> max_items 2000 (rc_text m)) (dc_comments c) \<and>
     hd_funder_id (dc_decision c) \<noteq> [] \<and> hd_decided_by (dc_decision c) \<noteq> [] \<and>
     hd_rationale (dc_decision c) \<noteq> [] \<and> max_items 2000 (hd_rationale (dc_decision c)) \<and>
     (case dc_policy_hash c of None \<Rightarrow> True | Some h \<Rightarrow> hex_sha256 h)"

definition validate_case :: "decided_loan_case \<Rightarrow> string + decided_loan_case" where
  "validate_case c =
     ebind (ensure (case_fields_ok c) ''validation error'') (\<lambda>_.
     ebind (validate_decision_conditions (dc_decision c)) (\<lambda>_.
     validate_internal_consistency c))"

definition is_retrievable :: "decided_loan_case \<Rightarrow> timestamp \<Rightarrow> bool" where
  "is_retrievable c now \<longleftrightarrow>
     dc_lifecycle_status c = ACTIVE \<and>
     (case dc_valid_until c of None \<Rightarrow> True | Some v \<Rightarrow> now < v)"

end
