(* ===== verification/FM_Rules.thy ===== *)
theory FM_Rules
  imports FM_Precedent "HOL-Library.List_Lexorder" "HOL-Library.Char_ord"
begin

text \<open>
  The eligibility rules: the borrower application, the funder policies and the rule
  results of \<open>rules/schema.py\<close>, and the engine of \<open>rules/engine.py\<close>. A frozen set of
  the code is a list here, read through membership and through \<open>sorted\<close> only.
\<close>

section \<open>Applications\<close>

datatype loan_type =
    Term_loan | Working_capital | Equipment_finance | Invoice_finance | Loan_against_property | Other_loan

fun loan_type_value :: "loan_type \<Rightarrow> string" where
  "loan_type_value Term_loan = ''term_loan''"
| "loan_type_value Working_capital = ''working_capital''"
| "loan_type_value Equipment_finance = ''equipment_finance''"
| "loan_type_value Invoice_finance = ''invoice_finance''"
| "loan_type_value Loan_against_property = ''loan_against_property''"
| "loan_type_value Other_loan = ''other''"

record borrower_application =
  ba_application_id :: app_id
  ba_borrower_name :: string
  ba_industry :: string
  ba_sub_industry :: string
  ba_region :: string
  ba_loan_type :: loan_type
  ba_profile :: financial_profile
  ba_evidence :: "evidence_metric list"
  ba_finance_context :: string
  ba_operations_context :: string

definition application_fields_ok :: "borrower_application \<Rightarrow> bool" where
  "application_fields_ok a \<longleftrightarrow>
     ba_application_id a \<noteq> [] \<and> ba_borrower_name a \<noteq> [] \<and> ba_industry a \<noteq> [] \<and>
     ba_sub_industry a \<noteq> [] \<and> ba_region a \<noteq> [] \<and> valid_profile (ba_profile a) \<and>
     list_all valid_metric (ba_evidence a) \<and>
     3 \<le> length (ba_evidence a) \<and> length (ba_evidence a) \<le> 20 \<and>
     ba_finance_context a \<noteq> [] \<and> max_items 2000 (ba_finance_context a) \<and>
     ba_operations_context a \<noteq> [] \<and> max_items 2000 (ba_operations_context a)"

definition validate_evidence :: "borrower_application \<Rightarrow> string + borrower_application" where
  "validate_evidence a =
     (if evidence_matches (ba_profile a) (ba_borrower_name a) (ba_industry a) (ba_sub_industry a)
           (ba_region a) (ba_evidence a)
      then Inr a
      else Inl ''application evidence must match its normalized profile'')"

definition validate_application :: "borrower_application \<Rightarrow> string + borrower_application" where
  "validate_application a =
     ebind (ensure (application_fields_ok a) ''validation error'') (\<lambda>_. validate_evidence a)"

definition profile_sentence ::
  "string \<Rightarrow> string \<Rightarrow> string \<Rightarrow> string \<Rightarrow> financial_profile \<Rightarrow> string" where
  "profile_sentence industry sub_industry region loan_type p =
     ''Industry: '' @ industry @ ''. Sub-industry: '' @ sub_industry @ ''. '' @
     ''Region: '' @ region @ ''. Loan type: '' @ loan_type @ ''. '' @
     ''Revenue INR '' @ str_decimal (fp_annual_revenue_crore p) @ '' crore. '' @
     ''Requested amount INR '' @ str_decimal (fp_requested_amount_crore p) @ '' crore. '' @
     ''EBITDA margin '' @ str_decimal (fp_ebitda_margin_pct p) @ '' percent. '' @
     ''PAT INR '' @ str_decimal (fp_pat_crore p) @ '' crore. DSCR '' @ str_decimal (fp_dscr p) @ ''. '' @
     ''Debt to equity '' @ str_decimal (fp_debt_to_equity p) @ ''. '' @
     ''Debt to EBITDA '' @ str_decimal (fp_debt_to_ebitda p) @ ''. '' @
     ''Collateral cover '' @ str_decimal (fp_collateral_cover p) @ ''. '' @
     ''Operating history '' @ str_int (fp_years_operating p) @ '' years.''"

definition application_profile_text :: "borrower_application \<Rightarrow> string" where
  "application_profile_text a =
     profile_sentence (ba_industry a) (ba_sub_industry a) (ba_region a)
       (loan_type_value (ba_loan_type a)) (ba_profile a)"

definition context_text :: "borrower_application \<Rightarrow> string" where
  "context_text a =
     ''Finance review context: '' @ ba_finance_context a @
     '' Operations review context: '' @ ba_operations_context a"

definition case_profile_text :: "decided_loan_case \<Rightarrow> string" where
  "case_profile_text c =
     profile_sentence (dc_industry c) (dc_sub_industry c) (dc_region c) (dc_loan_type c) (dc_profile c)"

section \<open>Policies\<close>

record funder_policy =
  po_funder_id :: string
  po_display_name :: string
  po_allowed_industries :: "string list"
  po_allowed_regions :: "string list"
  po_allowed_loan_types :: "loan_type list"
  po_min_requested_amount :: decimal
  po_max_requested_amount :: decimal
  po_min_dscr :: decimal
  po_max_debt_to_ebitda :: decimal
  po_min_collateral_cover :: decimal
  po_min_years_operating :: int

definition validate_amount_range :: "funder_policy \<Rightarrow> string + funder_policy" where
  "validate_amount_range p =
     (if dec_lt (po_max_requested_amount p) (po_min_requested_amount p)
      then Inl ''minimum requested amount cannot exceed maximum''
      else Inr p)"

definition validate_unique_funders :: "funder_policy list \<Rightarrow> string + funder_policy list" where
  "validate_unique_funders ps =
     (if length (map po_funder_id ps) \<noteq> length (remdups (map po_funder_id ps))
      then Inl ''funder policies contain duplicate funder_id values''
      else Inr ps)"

section \<open>Rule results\<close>

datatype rule_criterion =
    C_industry | C_region | C_loan_type | C_requested_amount | C_dscr | C_debt_to_ebitda
  | C_collateral_cover | C_operating_history

fun criterion_value :: "rule_criterion \<Rightarrow> string" where
  "criterion_value C_industry = ''industry''"
| "criterion_value C_region = ''region''"
| "criterion_value C_loan_type = ''loan_type''"
| "criterion_value C_requested_amount = ''requested_amount_crore''"
| "criterion_value C_dscr = ''dscr''"
| "criterion_value C_debt_to_ebitda = ''debt_to_ebitda''"
| "criterion_value C_collateral_cover = ''collateral_cover''"
| "criterion_value C_operating_history = ''years_operating''"

record rule_check =
  ck_criterion :: rule_criterion
  ck_passed :: bool
  ck_actual :: string
  ck_requirement :: string

record funder_eligibility =
  fe_funder_id :: string
  fe_eligible :: bool
  fe_checks :: "rule_check list"

section \<open>The engine\<close>

text \<open>\<open>repr\<close> of a list of strings: single quotes, double ones where the text has a single quote.\<close>

definition repr_str :: "string \<Rightarrow> string" where
  "repr_str s =
     (let sq = CHR 0x27; dq = CHR 0x22; bs = CHR 0x5C;
          q = (if sq \<in> set s \<and> dq \<notin> set s then dq else sq)
      in q # concat (map (\<lambda>c. if c = bs \<or> (c = sq \<and> q = sq) then [bs, c] else [c]) s) @ [q])"

definition one_of :: "string list \<Rightarrow> string" where
  "one_of xs = ''one of ['' @ join_str '', '' (map repr_str (sort (remdups xs))) @ '']''"

definition amount_in_range :: "funder_policy \<Rightarrow> financial_profile \<Rightarrow> bool" where
  "amount_in_range po p \<longleftrightarrow>
     dec_le (po_min_requested_amount po) (fp_requested_amount_crore p) \<and>
     dec_le (fp_requested_amount_crore p) (po_max_requested_amount po)"

definition rule_checks :: "borrower_application \<Rightarrow> funder_policy \<Rightarrow> rule_check list" where
  "rule_checks a po =
     (let p = ba_profile a in
      [\<lparr>ck_criterion = C_industry, ck_passed = ba_industry a \<in> set (po_allowed_industries po),
        ck_actual = ba_industry a, ck_requirement = one_of (po_allowed_industries po)\<rparr>,
       \<lparr>ck_criterion = C_region, ck_passed = ba_region a \<in> set (po_allowed_regions po),
        ck_actual = ba_region a, ck_requirement = one_of (po_allowed_regions po)\<rparr>,
       \<lparr>ck_criterion = C_loan_type, ck_passed = ba_loan_type a \<in> set (po_allowed_loan_types po),
        ck_actual = loan_type_value (ba_loan_type a),
        ck_requirement = one_of (map loan_type_value (po_allowed_loan_types po))\<rparr>,
       \<lparr>ck_criterion = C_requested_amount, ck_passed = amount_in_range po p,
        ck_actual = str_decimal (fp_requested_amount_crore p),
        ck_requirement = ''between '' @ str_decimal (po_min_requested_amount po) @ '' and '' @
          str_decimal (po_max_requested_amount po) @ '' crore''\<rparr>,
       \<lparr>ck_criterion = C_dscr, ck_passed = dec_le (po_min_dscr po) (fp_dscr p),
        ck_actual = str_decimal (fp_dscr p), ck_requirement = ''>= '' @ str_decimal (po_min_dscr po)\<rparr>,
       \<lparr>ck_criterion = C_debt_to_ebitda,
        ck_passed = dec_le (fp_debt_to_ebitda p) (po_max_debt_to_ebitda po),
        ck_actual = str_decimal (fp_debt_to_ebitda p),
        ck_requirement = ''<= '' @ str_decimal (po_max_debt_to_ebitda po)\<rparr>,
       \<lparr>ck_criterion = C_collateral_cover,
        ck_passed = dec_le (po_min_collateral_cover po) (fp_collateral_cover p),
        ck_actual = str_decimal (fp_collateral_cover p),
        ck_requirement = ''>= '' @ str_decimal (po_min_collateral_cover po)\<rparr>,
       \<lparr>ck_criterion = C_operating_history,
        ck_passed = po_min_years_operating po \<le> fp_years_operating p,
        ck_actual = str_int (fp_years_operating p),
        ck_requirement = ''>= '' @ str_int (po_min_years_operating po) @ '' years''\<rparr>])"

definition evaluate :: "borrower_application \<Rightarrow> funder_policy \<Rightarrow> funder_eligibility" where
  "evaluate a po =
     (let checks = rule_checks a po
      in \<lparr>fe_funder_id = po_funder_id po, fe_eligible = list_all ck_passed checks,
          fe_checks = checks\<rparr>)"

definition evaluate_all :: "borrower_application \<Rightarrow> funder_policy list \<Rightarrow> funder_eligibility list" where
  "evaluate_all a ps = map (evaluate a) ps"

section \<open>What eligibility means\<close>

text \<open>The eight conditions of a policy over exact numbers, without their texts: what \<open>eligible\<close> stands for.\<close>

definition satisfies_policy :: "borrower_application \<Rightarrow> funder_policy \<Rightarrow> bool" where
  "satisfies_policy a po \<longleftrightarrow>
     ba_industry a \<in> set (po_allowed_industries po) \<and>
     ba_region a \<in> set (po_allowed_regions po) \<and>
     ba_loan_type a \<in> set (po_allowed_loan_types po) \<and>
     dval (po_min_requested_amount po) \<le> dval (fp_requested_amount_crore (ba_profile a)) \<and>
     dval (fp_requested_amount_crore (ba_profile a)) \<le> dval (po_max_requested_amount po) \<and>
     dval (po_min_dscr po) \<le> dval (fp_dscr (ba_profile a)) \<and>
     dval (fp_debt_to_ebitda (ba_profile a)) \<le> dval (po_max_debt_to_ebitda po) \<and>
     dval (po_min_collateral_cover po) \<le> dval (fp_collateral_cover (ba_profile a)) \<and>
     po_min_years_operating po \<le> fp_years_operating (ba_profile a)"

text \<open>\<open>relaxes po po'\<close>: the second policy asks for no more than the first.\<close>

definition relaxes :: "funder_policy \<Rightarrow> funder_policy \<Rightarrow> bool" where
  "relaxes po po' \<longleftrightarrow>
     set (po_allowed_industries po) \<subseteq> set (po_allowed_industries po') \<and>
     set (po_allowed_regions po) \<subseteq> set (po_allowed_regions po') \<and>
     set (po_allowed_loan_types po) \<subseteq> set (po_allowed_loan_types po') \<and>
     dval (po_min_requested_amount po') \<le> dval (po_min_requested_amount po) \<and>
     dval (po_max_requested_amount po) \<le> dval (po_max_requested_amount po') \<and>
     dval (po_min_dscr po') \<le> dval (po_min_dscr po) \<and>
     dval (po_max_debt_to_ebitda po) \<le> dval (po_max_debt_to_ebitda po') \<and>
     dval (po_min_collateral_cover po') \<le> dval (po_min_collateral_cover po) \<and>
     po_min_years_operating po' \<le> po_min_years_operating po"

lemmas engine_defs = evaluate_def rule_checks_def amount_in_range_def dec_le_def Let_def

lemma eligible_iff: "fe_eligible (evaluate a po) \<longleftrightarrow> satisfies_policy a po"
  by (auto simp: engine_defs satisfies_policy_def)

lemma evaluate_sel [simp]:
  "fe_funder_id (evaluate a po) = po_funder_id po"
  "fe_checks (evaluate a po) = rule_checks a po"
  by (simp_all add: evaluate_def Let_def)

lemma length_rule_checks [simp]: "length (rule_checks a po) = 8"
  by (simp add: rule_checks_def Let_def)

lemma eligible_checks: "fe_eligible (evaluate a po) \<longleftrightarrow> list_all ck_passed (rule_checks a po)"
  by (simp add: evaluate_def Let_def)

lemma ineligible_has_failure:
  "\<not> fe_eligible (evaluate a po) \<Longrightarrow> filter (\<lambda>c. \<not> ck_passed c) (rule_checks a po) \<noteq> []"
  by (auto simp: eligible_checks list_all_iff filter_empty_conv)

lemma satisfies_relaxed: "relaxes po po' \<Longrightarrow> satisfies_policy a po \<Longrightarrow> satisfies_policy a po'"
  by (auto simp: relaxes_def satisfies_policy_def dest: order_trans)

lemma map_funder_evaluate_all [simp]: "map fe_funder_id (evaluate_all a ps) = map po_funder_id ps"
  by (simp add: evaluate_all_def)

lemma unique_funders_distinct:
  "validate_unique_funders ps = Inr ps' \<longleftrightarrow> distinct (map po_funder_id ps) \<and> ps' = ps"
  by (simp only: validate_unique_funders_def length_remdups_distinct) auto

text \<open>
  \<open>load_policies\<close> of \<open>rules/config.py\<close>, over the parsed document. The strings of a policy lose
  their outer white space before their length is checked.
\<close>

definition strip_policy :: "funder_policy \<Rightarrow> funder_policy" where
  "strip_policy p = p\<lparr>po_funder_id := strip (po_funder_id p), po_display_name := strip (po_display_name p),
     po_allowed_industries := map strip (po_allowed_industries p), po_allowed_regions := map strip (po_allowed_regions p)\<rparr>"

definition funder_fields_ok :: "funder_policy \<Rightarrow> bool" where
  "funder_fields_ok p \<longleftrightarrow>
     po_funder_id p \<noteq> [] \<and> po_display_name p \<noteq> [] \<and> po_allowed_industries p \<noteq> [] \<and> po_allowed_regions p \<noteq> [] \<and>
     po_allowed_loan_types p \<noteq> [] \<and> 0 \<le> dval (po_min_requested_amount p) \<and> 0 < dval (po_max_requested_amount p) \<and>
     0 < dval (po_min_dscr p) \<and> 0 \<le> dval (po_max_debt_to_ebitda p) \<and> 0 \<le> dval (po_min_collateral_cover p) \<and>
     0 \<le> po_min_years_operating p"

definition make_policy :: "funder_policy \<Rightarrow> string + funder_policy" where
  "make_policy p =
     ebind (ensure (funder_fields_ok (strip_policy p)) ''validation error'') (\<lambda>_. validate_amount_range (strip_policy p))"

definition load_policies :: "funder_policy list \<Rightarrow> string + funder_policy list" where
  "load_policies ps =
     ebind (emap make_policy ps) (\<lambda>ps.
     ebind (ensure (ps \<noteq> []) ''validation error'') (\<lambda>_. validate_unique_funders ps))"

text \<open>What the loader guarantees to those who use the policies.\<close>

lemma make_policy_Inr: "make_policy p = Inr p' \<Longrightarrow> p' = strip_policy p \<and> funder_fields_ok p'"
  by (auto simp: make_policy_def validate_amount_range_def result_elims split: if_splits)

lemma loaded_policies:
  assumes "load_policies raw = Inr ps"
  shows "distinct (map po_funder_id ps)" and "\<And>p. p \<in> set ps \<Longrightarrow> funder_fields_ok p"
proof -
  obtain qs where qs: "emap make_policy raw = Inr qs" "ps = qs" "distinct (map po_funder_id qs)"
    using assms by (auto simp: load_policies_def result_elims unique_funders_distinct)
  then show "distinct (map po_funder_id ps)" by simp
  have "list_all funder_fields_ok qs"
    using qs(1) by (induction raw arbitrary: qs) (auto simp: result_elims dest: make_policy_Inr)
  with qs(2) show "\<And>p. p \<in> set ps \<Longrightarrow> funder_fields_ok p" by (simp add: list_all_iff)
qed

end
