(* ===== verification/FM_Matching.thy ===== *)
theory FM_Matching
  imports FM_Rules "HOL-Library.Product_Lexorder"
begin

text \<open>
  Eligibility-first retrieval (\<open>matching/retriever.py\<close>, \<open>matching/schema.py\<close>). The
  embedder and the vector database are arguments: \<open>embed_texts\<close> maps texts to vectors,
  \<open>query\<close> answers one search with its hits, \<open>parse\<close> reads a stored payload into the
  fields of a case; each may raise. Scores are exact rationals, so the rounding of
  floating-point products is not modelled.
\<close>

section \<open>Configuration and results\<close>

record retrieval_config =
  cf_collection :: string
  cf_top_k :: nat
  cf_candidate_limit :: nat
  cf_profile_weight :: rat
  cf_comments_weight :: rat
  cf_min_score :: rat
  cf_require_active :: bool

definition config_fields_ok :: "retrieval_config \<Rightarrow> bool" where
  "config_fields_ok c \<longleftrightarrow>
     1 \<le> cf_top_k c \<and> cf_top_k c \<le> 50 \<and> 1 \<le> cf_candidate_limit c \<and> cf_candidate_limit c \<le> 200 \<and>
     0 \<le> cf_profile_weight c \<and> cf_profile_weight c \<le> 1 \<and>
     0 \<le> cf_comments_weight c \<and> cf_comments_weight c \<le> 1 \<and>
     - 1 \<le> cf_min_score c \<and> cf_min_score c \<le> 1"

definition validate_weights :: "retrieval_config \<Rightarrow> string + retrieval_config" where
  "validate_weights c =
     (if \<bar>(cf_profile_weight c + cf_comments_weight c) - 1\<bar> > 1 / 10 ^ 9
      then Inl ''profile and comments weights must sum to 1''
      else if cf_candidate_limit c < cf_top_k c
      then Inl ''candidate_limit must be at least top_k''
      else Inr c)"

record precedent_match =
  pm_precedent :: decided_loan_case
  pm_score :: rat
  pm_profile_score :: "rat option"
  pm_comments_score :: "rat option"

definition unit_score :: "rat \<Rightarrow> bool" where
  "unit_score x \<longleftrightarrow> - 1 \<le> x \<and> x \<le> 1"

definition validate_match :: "precedent_match \<Rightarrow> py_exn + precedent_match" where
  "validate_match m =
     (if unit_score (pm_score m) \<and>
         (case pm_profile_score m of None \<Rightarrow> True | Some x \<Rightarrow> unit_score x) \<and>
         (case pm_comments_score m of None \<Rightarrow> True | Some x \<Rightarrow> unit_score x)
      then Inr m else Inl (ValueError ''validation error''))"

record retrieval_result =
  rr_application_id :: app_id
  rr_eligibility :: "funder_eligibility list"
  rr_matches :: "precedent_match list"

section \<open>The vector database\<close>

datatype vector_name = PROFILE_VECTOR | COMMENTS_VECTOR

record search_filter =
  sf_funders :: "string list"
  sf_active_only :: bool

record 'p hit =
  ht_id :: string
  ht_score :: rat
  ht_payload :: "'p option"

type_synonym 'v embedder = "string list \<Rightarrow> py_exn + 'v list"
type_synonym ('v, 'p) searcher =
  "vector_name \<Rightarrow> 'v \<Rightarrow> search_filter \<Rightarrow> nat \<Rightarrow> py_exn + 'p hit list"

section \<open>Scoring\<close>

record 'p scores =
  sc_payload :: 'p
  sc_profile :: "rat option"
  sc_comments :: "rat option"

fun add_profile_hits :: "'p hit list \<Rightarrow> (string \<times> 'p scores) list \<Rightarrow> (string \<times> 'p scores) list" where
  "add_profile_hits [] d = d"
| "add_profile_hits (h # hs) d =
     add_profile_hits hs
       (case ht_payload h of
          None \<Rightarrow> d
        | Some p \<Rightarrow> dict_set (ht_id h)
            \<lparr>sc_payload = p, sc_profile = Some (ht_score h), sc_comments = None\<rparr> d)"

fun add_comment_hits :: "'p hit list \<Rightarrow> (string \<times> 'p scores) list \<Rightarrow> (string \<times> 'p scores) list" where
  "add_comment_hits [] d = d"
| "add_comment_hits (h # hs) d =
     add_comment_hits hs
       (case ht_payload h of
          None \<Rightarrow> d
        | Some p \<Rightarrow> dict_set (ht_id h)
            \<lparr>sc_payload = p,
             sc_profile = (case dict_get d (ht_id h) of None \<Rightarrow> None | Some s \<Rightarrow> sc_profile s),
             sc_comments = Some (ht_score h)\<rparr> d)"

definition score_or_zero :: "rat option \<Rightarrow> rat" where
  "score_or_zero s = (case s of None \<Rightarrow> 0 | Some x \<Rightarrow> x)"

definition combined_score :: "retrieval_config \<Rightarrow> 'p scores \<Rightarrow> rat" where
  "combined_score c s =
     cf_profile_weight c * score_or_zero (sc_profile s) +
     cf_comments_weight c * score_or_zero (sc_comments s)"

text \<open>One pass of the loop over \<open>scores.values()\<close>: \<open>None\<close> is a skipped item.\<close>

definition score_item ::
  "retrieval_config \<Rightarrow> ('p \<Rightarrow> py_exn + decided_loan_case) \<Rightarrow> timestamp \<Rightarrow> string list \<Rightarrow> 'p scores \<Rightarrow>
   py_exn + precedent_match option" where
  "score_item c parse now eligible s =
     ebind (parse (sc_payload s)) (\<lambda>raw.
     ebind (raising_value (validate_case raw)) (\<lambda>precedent.
     if cf_require_active c \<and> \<not> is_retrievable precedent now then Inr None
     else if hd_funder_id (dc_decision precedent) \<notin> set eligible
     then Inl (RuntimeError ''Qdrant returned an ineligible funder precedent'')
     else if cf_min_score c \<le> combined_score c s
     then ebind (validate_match \<lparr>pm_precedent = precedent, pm_score = combined_score c s,
                   pm_profile_score = sc_profile s, pm_comments_score = sc_comments s\<rparr>)
            (\<lambda>m. Inr (Some m))
     else Inr None))"

definition rank_key :: "precedent_match \<Rightarrow> rat \<times> string" where
  "rank_key m = (- pm_score m, dc_case_id (pm_precedent m))"

definition rank_matches :: "nat \<Rightarrow> precedent_match list \<Rightarrow> precedent_match list" where
  "rank_matches k ms = take k (sort_key rank_key ms)"

section \<open>Retrieval\<close>

definition retrieve ::
  "retrieval_config \<Rightarrow> 'v embedder \<Rightarrow> ('v, 'p) searcher \<Rightarrow> ('p \<Rightarrow> py_exn + decided_loan_case) \<Rightarrow>
   timestamp \<Rightarrow> borrower_application \<Rightarrow> funder_policy list \<Rightarrow> py_exn + retrieval_result" where
  "retrieve c embed_texts query parse now application policies =
     (let eligibility = evaluate_all application policies;
          eligible_funders = map fe_funder_id (filter fe_eligible eligibility) in
      if eligible_funders = [] then
        Inr \<lparr>rr_application_id = ba_application_id application, rr_eligibility = eligibility,
             rr_matches = []\<rparr>
      else
        ebind (embed_texts [application_profile_text application, context_text application]) (\<lambda>vs.
        ebind (ensure (length vs = 2) (ValueError ''values to unpack'')) (\<lambda>_.
        (let funder_filter = \<lparr>sf_funders = eligible_funders, sf_active_only = cf_require_active c\<rparr> in
         ebind (query PROFILE_VECTOR (vs ! 0) funder_filter (cf_candidate_limit c)) (\<lambda>profile_hits.
         ebind (query COMMENTS_VECTOR (vs ! 1) funder_filter (cf_candidate_limit c)) (\<lambda>comment_hits.
         (let scores = add_comment_hits comment_hits (add_profile_hits profile_hits []) in
          ebind (emap (score_item c parse now eligible_funders) (map snd scores)) (\<lambda>items.
            Inr \<lparr>rr_application_id = ba_application_id application,
                 rr_eligibility = eligibility,
                 rr_matches = rank_matches (cf_top_k c) (List.map_filter id items)\<rparr>))))))))"

section \<open>What retrieval guarantees\<close>

definition match_ok :: "retrieval_config \<Rightarrow> timestamp \<Rightarrow> string list \<Rightarrow> precedent_match \<Rightarrow> bool" where
  "match_ok c now eligible m \<longleftrightarrow>
     hd_funder_id (dc_decision (pm_precedent m)) \<in> set eligible \<and>
     cf_min_score c \<le> pm_score m \<and> unit_score (pm_score m) \<and>
     validate_case (pm_precedent m) = Inr (pm_precedent m) \<and>
     (cf_require_active c \<longrightarrow> is_retrievable (pm_precedent m) now)"

lemma validate_case_id: "validate_case c = Inr c' \<Longrightarrow> c' = c"
  by (auto simp: validate_case_def validate_internal_consistency_def result_elims split: if_splits)

lemma validate_case_idem: "validate_case c = Inr c' \<Longrightarrow> validate_case c' = Inr c'"
  using validate_case_id by blast

lemma score_item_ok:
  assumes "score_item c parse now eligible s = Inr (Some m)"
  shows "match_ok c now eligible m"
  using assms
  by (auto simp: score_item_def match_ok_def validate_match_def result_elims
      split: if_splits intro: validate_case_idem)

lemma score_items_ok:
  assumes "emap (score_item c parse now eligible) ss = Inr items"
  shows "\<forall>m \<in> set (List.map_filter id items). match_ok c now eligible m"
  using assms
  by (induction ss arbitrary: items)
     (auto simp: result_elims List.map_filter_simps score_item_ok split: option.splits)

lemma set_rank_matches: "set (rank_matches k ms) \<subseteq> set ms"
  using set_take_subset [of k "sort_key rank_key ms"] by (simp add: rank_matches_def)

lemma sorted_rank_matches: "sorted (map rank_key (rank_matches k ms))"
  by (simp add: rank_matches_def take_map [symmetric])

lemma rank_key_le: "rank_key m \<le> rank_key m' \<Longrightarrow> pm_score m' \<le> pm_score m"
  by (auto simp: rank_key_def less_eq_prod_def)

lemma retrieve_cases:
  assumes "retrieve c embed_texts query parse now a ps = Inr r"
  shows "rr_application_id r = ba_application_id a \<and> rr_eligibility r = evaluate_all a ps \<and>
    (rr_matches r = [] \<or>
     (\<exists>items ss. emap (score_item c parse now (map fe_funder_id (filter fe_eligible (evaluate_all a ps)))) ss = Inr items
        \<and> rr_matches r = rank_matches (cf_top_k c) (List.map_filter id items)))"
  using assms
  by (auto simp: retrieve_def Let_def result_elims split: if_splits)

lemma retrieve_matches_ok:
  assumes "retrieve c embed_texts query parse now a ps = Inr r" and "m \<in> set (rr_matches r)"
  shows "match_ok c now (map fe_funder_id (filter fe_eligible (evaluate_all a ps))) m"
proof -
  let ?el = "map fe_funder_id (filter fe_eligible (evaluate_all a ps))"
  from retrieve_cases [OF assms(1)] assms(2) obtain items ss where
      e: "emap (score_item c parse now ?el) ss = Inr items" and
      m: "m \<in> set (rank_matches (cf_top_k c) (List.map_filter id items))" by auto
  from m have "m \<in> set (List.map_filter id items)" by (rule set_rank_matches [THEN subsetD])
  with score_items_ok [OF e] show ?thesis by (rule bspec)
qed

lemma eligible_funder_policy:
  "f \<in> set (map fe_funder_id (filter fe_eligible (evaluate_all a ps))) \<longleftrightarrow>
     (\<exists>po \<in> set ps. po_funder_id po = f \<and> satisfies_policy a po)"
  by (force simp: evaluate_all_def eligible_iff)

lemma combined_score_unit:
  assumes "config_fields_ok c" and "cf_profile_weight c + cf_comments_weight c = 1"
    and "unit_score (score_or_zero (sc_profile s))" and "unit_score (score_or_zero (sc_comments s))"
  shows "unit_score (combined_score c s)"
proof -
  have w: "0 \<le> cf_profile_weight c" "0 \<le> cf_comments_weight c"
    using assms(1) by (auto simp: config_fields_ok_def)
  let ?p = "score_or_zero (sc_profile s)" and ?q = "score_or_zero (sc_comments s)"
  have "cf_profile_weight c * ?p + cf_comments_weight c * ?q \<le>
      cf_profile_weight c * 1 + cf_comments_weight c * 1"
    using w assms(3,4) by (intro add_mono mult_left_mono) (auto simp: unit_score_def)
  moreover have "cf_profile_weight c * (- 1) + cf_comments_weight c * (- 1) \<le>
      cf_profile_weight c * ?p + cf_comments_weight c * ?q"
    using w assms(3,4) by (intro add_mono mult_left_mono) (auto simp: unit_score_def)
  ultimately show ?thesis using assms(2) by (simp add: unit_score_def combined_score_def)
qed

end
