(* ===== verification/FM_Suggest.thy ===== *)
theory FM_Suggest
  imports FM_Matching "HOL-Library.Multiset"
begin

text \<open>
  The advisory bundle: the models of \<open>suggest/schema.py\<close> with their validators, and the
  deterministic assembler of \<open>suggest/assembler.py\<close>. \<open>sha256\<close> is the hex digest of a
  text. A bundle has no decision field; its authority and its demand for a human
  decision are literals.
\<close>

section \<open>Models\<close>

record similarity_factor =
  sm_metric :: string
  sm_application_value :: string
  sm_precedent_value :: string
  sm_observation :: string

record explained_precedent =
  ep_match :: precedent_match
  ep_factors :: "similarity_factor list"

record advisory_candidate =
  ca_funder_id :: string
  ca_display_name :: string
  ca_passed_checks :: "rule_check list"
  ca_precedents :: "explained_precedent list"
  ca_evidence_summary :: string
  ca_no_close_precedent :: bool

definition candidate_fields_ok :: "advisory_candidate \<Rightarrow> bool" where
  "candidate_fields_ok c \<longleftrightarrow> ca_funder_id c \<noteq> [] \<and> ca_display_name c \<noteq> [] \<and>
     length (ca_passed_checks c) = 8 \<and> ca_evidence_summary c \<noteq> [] \<and>
     max_items 2000 (ca_evidence_summary c)"

definition precedent_funder :: "explained_precedent \<Rightarrow> string" where
  "precedent_funder e = hd_funder_id (dc_decision (pm_precedent (ep_match e)))"

definition validate_candidate :: "advisory_candidate \<Rightarrow> string + advisory_candidate" where
  "validate_candidate c =
     ebind (ensure (candidate_fields_ok c) ''validation error'') (\<lambda>_.
     if \<not> list_all ck_passed (ca_passed_checks c)
     then Inl ''advisory candidates may contain passed rule checks only''
     else if ca_no_close_precedent c = (ca_precedents c \<noteq> [])
     then Inl ''no_close_precedent must be the inverse of precedent presence''
     else if list_ex (\<lambda>e. precedent_funder e \<noteq> ca_funder_id c) (ca_precedents c)
     then Inl ''candidate precedents must belong to the same eligible funder''
     else Inr c)"

record excluded_funder =
  ex_funder_id :: string
  ex_display_name :: string
  ex_failed_checks :: "rule_check list"

definition validate_failed_checks :: "excluded_funder \<Rightarrow> string + excluded_funder" where
  "validate_failed_checks x =
     ebind (ensure (ex_funder_id x \<noteq> [] \<and> ex_display_name x \<noteq> [] \<and> ex_failed_checks x \<noteq> [])
              ''validation error'') (\<lambda>_.
     if list_ex ck_passed (ex_failed_checks x)
     then Inl ''excluded funders may contain failed rule checks only''
     else Inr x)"

datatype claim_type = Evidence_claim | Calculation_claim | Precedent_claim

fun claim_type_value :: "claim_type \<Rightarrow> string" where
  "claim_type_value Evidence_claim = ''evidence''"
| "claim_type_value Calculation_claim = ''calculation''"
| "claim_type_value Precedent_claim = ''precedent''"

record grounded_claim =
  gc_claim_id :: string
  gc_application_id :: app_id
  gc_claim_type :: claim_type
  gc_text :: string
  gc_citation :: "citation option"
  gc_calculation_sha256 :: "string option"
  gc_precedent_id :: "string option"
  gc_policy_hash :: "string option"

definition grounding_sources :: "grounded_claim \<Rightarrow> nat" where
  "grounding_sources g =
     (if gc_citation g \<noteq> None then 1 else 0) + (if gc_calculation_sha256 g \<noteq> None then 1 else 0) +
     (if gc_precedent_id g \<noteq> None then 1 else 0)"

definition require_grounding :: "grounded_claim \<Rightarrow> string + grounded_claim" where
  "require_grounding g =
     ebind (ensure (hex_sha256 (gc_claim_id g) \<and> gc_text g \<noteq> [] \<and> max_items 1000 (gc_text g) \<and>
              (case gc_calculation_sha256 g of None \<Rightarrow> True | Some h \<Rightarrow> hex_sha256 h) \<and>
              (case gc_policy_hash g of None \<Rightarrow> True | Some h \<Rightarrow> hex_sha256 h)) ''validation error'') (\<lambda>_.
     if grounding_sources g \<noteq> 1 then Inl ''claim must resolve to exactly one grounding source''
     else Inr g)"

record suggestion_bundle =
  sg_authority :: string
  sg_requires_human_decision :: bool
  sg_advisory_notice :: string
  sg_application :: borrower_application
  sg_candidates :: "advisory_candidate list"
  sg_excluded_funders :: "excluded_funder list"
  sg_claims :: "grounded_claim list"

definition validate_partition :: "suggestion_bundle \<Rightarrow> string + suggestion_bundle" where
  "validate_partition b =
     (let candidate_ids = map ca_funder_id (sg_candidates b);
          excluded_ids = map ex_funder_id (sg_excluded_funders b) in
      if length candidate_ids \<noteq> length (remdups candidate_ids)
      then Inl ''suggestion contains duplicate candidate funders''
      else if length excluded_ids \<noteq> length (remdups excluded_ids)
      then Inl ''suggestion contains duplicate excluded funders''
      else if list_ex (\<lambda>i. i \<in> set excluded_ids) candidate_ids
      then Inl ''a funder cannot be both candidate and excluded''
      else Inr b)"

text \<open>\<open>SuggestionBundle.model_validate\<close> of the parsed fields: every nested model again.\<close>

definition validate_bundle :: "suggestion_bundle \<Rightarrow> string + suggestion_bundle" where
  "validate_bundle b =
     ebind (ensure (sg_authority b = ''advisory_only'' \<and> sg_requires_human_decision b \<and>
              sg_advisory_notice b \<noteq> [] \<and> max_items 500 (sg_claims b)) ''validation error'') (\<lambda>_.
     ebind (validate_application (sg_application b)) (\<lambda>_.
     ebind (emap validate_candidate (sg_candidates b)) (\<lambda>_.
     ebind (emap validate_failed_checks (sg_excluded_funders b)) (\<lambda>_.
     ebind (emap require_grounding (sg_claims b)) (\<lambda>_. validate_partition b)))))"

section \<open>Explanations\<close>

definition numeric_factor :: "string \<Rightarrow> decimal \<Rightarrow> decimal \<Rightarrow> similarity_factor" where
  "numeric_factor metric current historical =
     \<lparr>sm_metric = metric, sm_application_value = str_decimal current,
      sm_precedent_value = str_decimal historical,
      sm_observation = ''application minus precedent = '' @ format_plus (dec_sub current historical)\<rparr>"

definition text_factor :: "string \<Rightarrow> string \<Rightarrow> string \<Rightarrow> string \<Rightarrow> similarity_factor" where
  "text_factor metric noun a h =
     \<lparr>sm_metric = metric, sm_application_value = a, sm_precedent_value = h,
      sm_observation = (if a = h then ''same '' @ noun else ''different '' @ noun)\<rparr>"

definition explain_match :: "borrower_application \<Rightarrow> decided_loan_case \<Rightarrow> similarity_factor list" where
  "explain_match a c =
     (let current = ba_profile a; historical = dc_profile c in
      [text_factor ''industry'' ''industry'' (ba_industry a) (dc_industry c),
       text_factor ''region'' ''region'' (ba_region a) (dc_region c),
       text_factor ''sub_industry'' ''sub-industry'' (ba_sub_industry a) (dc_sub_industry c),
       text_factor ''loan_type'' ''loan type'' (loan_type_value (ba_loan_type a)) (dc_loan_type c),
       numeric_factor ''annual_revenue_crore'' (fp_annual_revenue_crore current)
         (fp_annual_revenue_crore historical),
       numeric_factor ''requested_amount_crore'' (fp_requested_amount_crore current)
         (fp_requested_amount_crore historical),
       numeric_factor ''dscr'' (fp_dscr current) (fp_dscr historical),
       numeric_factor ''pat_crore'' (fp_pat_crore current) (fp_pat_crore historical),
       numeric_factor ''debt_to_equity'' (fp_debt_to_equity current) (fp_debt_to_equity historical),
       numeric_factor ''debt_to_ebitda'' (fp_debt_to_ebitda current) (fp_debt_to_ebitda historical),
       numeric_factor ''collateral_cover'' (fp_collateral_cover current)
         (fp_collateral_cover historical)])"

section \<open>Claims\<close>

text \<open>The format \<open>:.8f\<close>: eight decimals, rounded half to even.\<close>

definition format_fixed8 :: "rat \<Rightarrow> string" where
  "format_fixed8 q =
     (let (p, d) = quotient_of q;
          a = \<bar>p\<bar> * 100000000; lo = a div d; r = 2 * (a mod d);
          n = (if d < r \<or> (r = d \<and> odd lo) then lo + 1 else lo);
          ds = str_int (n mod 100000000)
      in (if q < 0 then ''-'' else []) @ str_int (n div 100000000) @ ''.'' @
         replicate (8 - length ds) (CHR ''0'') @ ds)"

definition str_bool :: "bool \<Rightarrow> string" where
  "str_bool b = (if b then ''True'' else ''False'')"

definition claim_id :: "(string \<Rightarrow> string) \<Rightarrow> app_id \<Rightarrow> claim_type \<Rightarrow> string \<Rightarrow> string" where
  "claim_id sha256 app ty text = sha256 (app @ ''|'' @ claim_type_value ty @ ''|'' @ text)"

definition evidence_claim ::
  "(string \<Rightarrow> string) \<Rightarrow> string option \<Rightarrow> app_id \<Rightarrow> evidence_metric \<Rightarrow> grounded_claim" where
  "evidence_claim sha256 policy_hash app e =
     (let text = fact_str (em_name e) @ ''='' @ str_fact (em_value e) @ '' '' @ em_unit e @
            '' ('' @ em_period e @ '')''
      in \<lparr>gc_claim_id = claim_id sha256 app Evidence_claim text, gc_application_id = app,
          gc_claim_type = Evidence_claim, gc_text = text, gc_citation = Some (em_citation e),
          gc_calculation_sha256 = None, gc_precedent_id = None, gc_policy_hash = policy_hash\<rparr>)"

definition calculation_claim ::
  "(string \<Rightarrow> string) \<Rightarrow> string option \<Rightarrow> app_id \<Rightarrow> string \<Rightarrow> rule_check \<Rightarrow> grounded_claim" where
  "calculation_claim sha256 policy_hash app funder ck =
     (let text = funder @ '':'' @ criterion_value (ck_criterion ck) @ '':actual='' @ ck_actual ck @
            '';required='' @ ck_requirement ck @ '';passed='' @ str_bool (ck_passed ck)
      in \<lparr>gc_claim_id = claim_id sha256 app Calculation_claim text, gc_application_id = app,
          gc_claim_type = Calculation_claim, gc_text = text, gc_citation = None,
          gc_calculation_sha256 = Some (sha256 text), gc_precedent_id = None,
          gc_policy_hash = policy_hash\<rparr>)"

definition precedent_claim ::
  "(string \<Rightarrow> string) \<Rightarrow> string option \<Rightarrow> app_id \<Rightarrow> precedent_match \<Rightarrow> grounded_claim" where
  "precedent_claim sha256 policy_hash app m =
     (let text = ''precedent='' @ dc_case_id (pm_precedent m) @ '';score='' @ format_fixed8 (pm_score m)
      in \<lparr>gc_claim_id = claim_id sha256 app Precedent_claim text, gc_application_id = app,
          gc_claim_type = Precedent_claim, gc_text = text, gc_citation = None,
          gc_calculation_sha256 = None, gc_precedent_id = Some (dc_case_id (pm_precedent m)),
          gc_policy_hash = policy_hash\<rparr>)"

definition build_claims ::
  "(string \<Rightarrow> string) \<Rightarrow> string option \<Rightarrow> borrower_application \<Rightarrow> retrieval_result \<Rightarrow>
   string + grounded_claim list" where
  "build_claims sha256 policy_hash a r =
     (let app = ba_application_id a in
      emap require_grounding
        (map (evidence_claim sha256 policy_hash app) (ba_evidence a) @
         concat (map (\<lambda>el. map (calculation_claim sha256 policy_hash app (fe_funder_id el)) (fe_checks el))
           (rr_eligibility r)) @
         map (precedent_claim sha256 policy_hash app) (rr_matches r)))"

section \<open>Assembly\<close>

definition ADVISORY_NOTICE :: string where
  "ADVISORY_NOTICE =
     ''This output summarizes deterministic policy checks and historical synthetic '' @
     ''precedents. It is not an approval, rejection, or recommendation. A human reviewer '' @
     ''must make and record the authoritative decision.''"

definition evidence_summary :: "string \<Rightarrow> nat \<Rightarrow> nat \<Rightarrow> string" where
  "evidence_summary name checks precedents =
     (if precedents \<noteq> 0
      then name @ '' passed all '' @ str_nat checks @ '' hard checks. '' @ str_nat precedents @
           '' close synthetic precedent(s) are shown for human review.''
      else name @ '' passed all '' @ str_nat checks @ '' hard checks, '' @
           ''but no precedent exceeded the configured similarity threshold.'')"

definition matches_of :: "string \<Rightarrow> precedent_match list \<Rightarrow> precedent_match list" where
  "matches_of f ms = filter (\<lambda>m. hd_funder_id (dc_decision (pm_precedent m)) = f) ms"

definition make_candidate ::
  "borrower_application \<Rightarrow> precedent_match list \<Rightarrow> funder_policy \<Rightarrow> funder_eligibility \<Rightarrow>
   string + advisory_candidate" where
  "make_candidate a ms po el =
     (let explained = map (\<lambda>m. \<lparr>ep_match = m, ep_factors = explain_match a (pm_precedent m)\<rparr>)
            (matches_of (po_funder_id po) ms)
      in validate_candidate
           \<lparr>ca_funder_id = po_funder_id po, ca_display_name = po_display_name po,
            ca_passed_checks = fe_checks el, ca_precedents = explained,
            ca_evidence_summary =
              evidence_summary (po_display_name po) (length (fe_checks el)) (length explained),
            ca_no_close_precedent = (explained = [])\<rparr>)"

definition make_excluded :: "funder_policy \<Rightarrow> funder_eligibility \<Rightarrow> string + excluded_funder" where
  "make_excluded po el =
     validate_failed_checks
       \<lparr>ex_funder_id = po_funder_id po, ex_display_name = po_display_name po,
        ex_failed_checks = filter (\<lambda>c. \<not> ck_passed c) (fe_checks el)\<rparr>"

text \<open>
  The loop over the policies: each goes to the candidates or to the excluded funders.
  The dictionary \<open>eligibility_by_id\<close> covers the policies, so its lookup is total there.
\<close>

fun partition_policies ::
  "borrower_application \<Rightarrow> precedent_match list \<Rightarrow> (string \<times> funder_eligibility) list \<Rightarrow>
   funder_policy list \<Rightarrow> string + (advisory_candidate list \<times> excluded_funder list)" where
  "partition_policies a ms by_id [] = Inr ([], [])"
| "partition_policies a ms by_id (po # ps) =
     (case dict_get by_id (po_funder_id po) of
        None \<Rightarrow> Inl ''KeyError''
      | Some el \<Rightarrow>
          if \<not> fe_eligible el then
            ebind (make_excluded po el) (\<lambda>x.
            ebind (partition_policies a ms by_id ps) (\<lambda>(cs, xs). Inr (cs, x # xs)))
          else
            ebind (make_candidate a ms po el) (\<lambda>c.
            ebind (partition_policies a ms by_id ps) (\<lambda>(cs, xs). Inr (c # cs, xs))))"

definition shown_eligible :: "(string \<times> funder_eligibility) list \<Rightarrow> precedent_match \<Rightarrow> bool" where
  "shown_eligible by_id m =
     (case dict_get by_id (hd_funder_id (dc_decision (pm_precedent m))) of
        None \<Rightarrow> False | Some el \<Rightarrow> fe_eligible el)"

definition assemble ::
  "(string \<Rightarrow> string) \<Rightarrow> string option \<Rightarrow> borrower_application \<Rightarrow> funder_policy list \<Rightarrow>
   retrieval_result \<Rightarrow> string + suggestion_bundle" where
  "assemble sha256 policy_hash a ps r =
     ebind (ensure (rr_application_id r = ba_application_id a)
       ''retrieval result belongs to a different application'') (\<lambda>_.
     ebind (ensure (length (dict_of (map (\<lambda>p. (po_funder_id p, p)) ps)) = length ps)
       ''funder policies contain duplicate identifiers'') (\<lambda>_.
     (let by_id = dict_of (map (\<lambda>e. (fe_funder_id e, e)) (rr_eligibility r)) in
     ebind (ensure (fst ` set by_id = set (map po_funder_id ps))
       ''retrieval eligibility does not cover the configured policies'') (\<lambda>_.
     ebind (ensure (list_all (\<lambda>m. shown_eligible by_id m) (rr_matches r))
       ''retrieval contains an ineligible funder precedent'') (\<lambda>_.
     ebind (partition_policies a (rr_matches r) by_id ps) (\<lambda>(candidates, excluded).
     ebind (build_claims sha256 policy_hash a r) (\<lambda>claims.
     ebind (ensure (max_items 500 claims) ''validation error'') (\<lambda>_.
       validate_partition
         \<lparr>sg_authority = ''advisory_only'', sg_requires_human_decision = True,
          sg_advisory_notice = ADVISORY_NOTICE, sg_application = a, sg_candidates = candidates,
          sg_excluded_funders = excluded, sg_claims = claims\<rparr>))))))))"

section \<open>What assembly guarantees\<close>

definition gate :: "(string \<times> funder_eligibility) list \<Rightarrow> funder_policy \<Rightarrow> bool" where
  "gate by_id po = (case dict_get by_id (po_funder_id po) of None \<Rightarrow> False | Some el \<Rightarrow> fe_eligible el)"

lemma validate_candidate_ok:
  "validate_candidate c = Inr c' \<Longrightarrow> c' = c \<and> length (ca_passed_checks c) = 8 \<and>
     list_all ck_passed (ca_passed_checks c) \<and>
     list_all (\<lambda>e. precedent_funder e = ca_funder_id c) (ca_precedents c)"
  by (auto simp: validate_candidate_def candidate_fields_ok_def result_elims list_ex_iff list_all_iff
      split: if_splits)

lemma make_candidate_ok:
  "make_candidate a ms po el = Inr c \<Longrightarrow>
     ca_funder_id c = po_funder_id po \<and> ca_passed_checks c = fe_checks el \<and>
     list_all ck_passed (fe_checks el) \<and> map ep_match (ca_precedents c) = matches_of (po_funder_id po) ms"
  by (auto simp: make_candidate_def Let_def comp_def dest!: validate_candidate_ok)

lemma make_excluded_ok:
  "make_excluded po el = Inr x \<Longrightarrow>
     ex_funder_id x = po_funder_id po \<and> ex_failed_checks x = filter (\<lambda>c. \<not> ck_passed c) (fe_checks el) \<and>
     ex_failed_checks x \<noteq> []"
  by (auto simp: make_excluded_def validate_failed_checks_def result_elims split: if_splits)

lemma partition_ok:
  assumes "partition_policies a ms by_id ps = Inr (cs, xs)"
  shows "map ca_funder_id cs = map po_funder_id (filter (gate by_id) ps)"
    and "map ex_funder_id xs = map po_funder_id (filter (\<lambda>po. \<not> gate by_id po) ps)"
    and "map (\<lambda>c. map ep_match (ca_precedents c)) cs =
      map (\<lambda>po. matches_of (po_funder_id po) ms) (filter (gate by_id) ps)"
    and "list_all (\<lambda>c. list_all ck_passed (ca_passed_checks c)) cs"
    and "list_all (\<lambda>x. ex_failed_checks x \<noteq> [] \<and> list_all (\<lambda>k. \<not> ck_passed k) (ex_failed_checks x)) xs"
  using assms
  by (induction ps arbitrary: cs xs)
     (auto simp: gate_def result_elims list_all_iff split: option.splits if_splits prod.splits
       dest!: make_candidate_ok make_excluded_ok)

lemma eligibility_dict:
  "distinct (map po_funder_id ps) \<Longrightarrow>
     dict_of (map (\<lambda>e. (fe_funder_id e, e)) (evaluate_all a ps)) =
       map (\<lambda>po. (po_funder_id po, evaluate a po)) ps"
  by (subst dict_of_distinct) (simp_all add: evaluate_all_def comp_def)

lemma eligibility_lookup:
  "distinct (map po_funder_id ps) \<Longrightarrow> po \<in> set ps \<Longrightarrow>
     dict_get (map (\<lambda>po. (po_funder_id po, evaluate a po)) ps) (po_funder_id po) = Some (evaluate a po)"
  by (intro map_of_is_SomeI) (auto simp: comp_def)

lemma gate_evaluated:
  "distinct (map po_funder_id ps) \<Longrightarrow> po \<in> set ps \<Longrightarrow>
     gate (map (\<lambda>po. (po_funder_id po, evaluate a po)) ps) po \<longleftrightarrow> satisfies_policy a po"
  by (simp add: gate_def eligibility_lookup eligible_iff)

definition partition_valid :: "suggestion_bundle \<Rightarrow> bool" where
  "partition_valid b \<longleftrightarrow>
     distinct (map ca_funder_id (sg_candidates b)) \<and> distinct (map ex_funder_id (sg_excluded_funders b)) \<and>
     set (map ca_funder_id (sg_candidates b)) \<inter> set (map ex_funder_id (sg_excluded_funders b)) = {}"

lemma validate_partition_iff: "validate_partition b = Inr b' \<longleftrightarrow> partition_valid b \<and> b' = b"
  by (simp only: validate_partition_def Let_def length_remdups_distinct partition_valid_def list_ex_iff)
     auto

text \<open>The parts of a successful assembly.\<close>

lemma assemble_iff:
  "assemble sha256 ph a ps r = Inr b \<longleftrightarrow>
    (let by_id = dict_of (map (\<lambda>e. (fe_funder_id e, e)) (rr_eligibility r)) in
     rr_application_id r = ba_application_id a \<and> distinct (map po_funder_id ps) \<and>
     fst ` set by_id = set (map po_funder_id ps) \<and> list_all (shown_eligible by_id) (rr_matches r) \<and>
     partition_policies a (rr_matches r) by_id ps = Inr (sg_candidates b, sg_excluded_funders b) \<and>
     build_claims sha256 ph a r = Inr (sg_claims b) \<and> max_items 500 (sg_claims b) \<and>
     partition_valid b \<and> sg_application b = a \<and> sg_authority b = ''advisory_only'' \<and>
     sg_requires_human_decision b \<and> sg_advisory_notice b = ADVISORY_NOTICE)"
  (is "?l \<longleftrightarrow> ?r")
proof
  assume ?l
  then show ?r
    by (auto simp: assemble_def Let_def ebind_Inr_iff ensure_Inr_iff length_dict_of_map comp_def
        validate_partition_iff)
next
  assume ?r
  then show ?l
    by (cases b) (simp add: assemble_def Let_def length_dict_of_map comp_def validate_partition_iff
        partition_valid_def)
qed

lemma emap_grounded:
  "emap require_grounding gs = Inr gs' \<Longrightarrow> gs' = gs \<and> list_all (\<lambda>g. grounding_sources g = 1) gs"
proof (induction gs arbitrary: gs')
  case Nil
  then show ?case by simp
next
  case (Cons g gs)
  then show ?case by (auto simp: require_grounding_def result_elims split: if_splits)
qed

lemma build_claims_eq:
  assumes "build_claims sha256 ph a r = Inr gs"
  shows "gs = map (evidence_claim sha256 ph (ba_application_id a)) (ba_evidence a) @
      concat (map (\<lambda>el. map (calculation_claim sha256 ph (ba_application_id a) (fe_funder_id el)) (fe_checks el))
        (rr_eligibility r)) @
      map (precedent_claim sha256 ph (ba_application_id a)) (rr_matches r)"
    and "list_all (\<lambda>g. grounding_sources g = 1) gs"
  using assms emap_grounded by (auto simp: build_claims_def Let_def)

lemma claim_sel [simp]:
  "gc_application_id (evidence_claim h ph app e) = app"
  "gc_application_id (calculation_claim h ph app f k) = app"
  "gc_application_id (precedent_claim h ph app m) = app"
  "gc_policy_hash (evidence_claim h ph app e) = ph"
  "gc_policy_hash (calculation_claim h ph app f k) = ph"
  "gc_policy_hash (precedent_claim h ph app m) = ph"
  "gc_citation (evidence_claim h ph app e) = Some (em_citation e)"
  "gc_citation (calculation_claim h ph app f k) = None"
  "gc_citation (precedent_claim h ph app m) = None"
  "gc_precedent_id (evidence_claim h ph app e) = None"
  "gc_precedent_id (calculation_claim h ph app f k) = None"
  "gc_precedent_id (precedent_claim h ph app m) = Some (dc_case_id (pm_precedent m))"
  "gc_text (evidence_claim h ph app e) = fact_str (em_name e) @ ''='' @ str_fact (em_value e) @ '' '' @
     em_unit e @ '' ('' @ em_period e @ '')''"
  by (simp_all add: evidence_claim_def calculation_claim_def precedent_claim_def Let_def)

lemma grounding_sources_built [simp]:
  "grounding_sources (evidence_claim h ph app e) = 1"
  "grounding_sources (calculation_claim h ph app f k) = 1"
  "grounding_sources (precedent_claim h ph app m) = 1"
  by (simp_all add: grounding_sources_def evidence_claim_def calculation_claim_def precedent_claim_def Let_def)

text \<open>
  Every precedent that retrieval returned is shown with its own funder: the candidates'
  precedents, put together, are a rearrangement of the matches.
\<close>

lemma mset_concat_matches:
  assumes "distinct fs" and "\<forall>m \<in> set ms. hd_funder_id (dc_decision (pm_precedent m)) \<in> set fs"
  shows "mset (concat (map (\<lambda>f. matches_of f ms) fs)) = mset ms"
  using assms
proof (induction fs arbitrary: ms)
  case Nil
  then show ?case by auto
next
  case (Cons f fs)
  let ?rest = "filter (\<lambda>m. hd_funder_id (dc_decision (pm_precedent m)) \<noteq> f) ms"
  have "matches_of g ?rest = matches_of g ms" if "g \<in> set fs" for g
    using Cons.prems(1) that by (auto simp: matches_of_def intro!: filter_cong)
  then have "map (\<lambda>g. matches_of g ?rest) fs = map (\<lambda>g. matches_of g ms) fs" by simp
  moreover have "mset (concat (map (\<lambda>g. matches_of g ?rest) fs)) = mset ?rest"
    using Cons.prems by (intro Cons.IH) auto
  ultimately have "mset (concat (map (\<lambda>g. matches_of g ms) fs)) = mset ?rest" by metis
  then show ?case
    using multiset_partition [of "mset ms" "\<lambda>m. hd_funder_id (dc_decision (pm_precedent m)) = f"]
    by (simp add: matches_of_def)
qed

end
