(* ===== verification/FM_Advisory_Props.thy ===== *)
theory FM_Advisory_Props
  imports FM_Suggest
begin

text \<open>
  What the advisory pipeline guarantees: relaxing a policy excludes nobody, retrieval shows
  only precedents of eligible funders, and the assembled bundle partitions the policies, shows
  every precedent and grounds every claim. A sample application serves the witnesses.
\<close>

section \<open>A sample\<close>

definition sample_profile :: financial_profile where
  "sample_profile = \<lparr>fp_annual_revenue_crore = Dec False 100 0, fp_requested_amount_crore = Dec False 10 0,
     fp_ebitda_margin_pct = Dec False 20 0, fp_pat_crore = Dec False 5 0, fp_dscr = Dec False 2 0,
     fp_debt_to_equity = Dec False 1 0, fp_debt_to_ebitda = Dec False 2 0,
     fp_collateral_cover = Dec False 2 0, fp_years_operating = 9, fp_employee_count = 50\<rparr>"

definition sample_citation :: citation where
  "sample_citation = \<lparr>ct_document_id = ''d'', ct_page_number = 1,
     ct_bbox = \<lparr>bx0 = 0, by0 = 0, bx1 = 1, by1 = 1\<rparr>\<rparr>"

definition sample_metric :: "fact_name \<Rightarrow> nat \<Rightarrow> evidence_metric" where
  "sample_metric n v = \<lparr>em_name = n, em_value = FNum (Dec False v 0), em_unit = ''u'', em_period = ''p'',
     em_citation = sample_citation\<rparr>"

definition sample_application :: borrower_application where
  "sample_application = \<lparr>ba_application_id = ''app-1'', ba_borrower_name = ''b'', ba_industry = ''i'',
     ba_sub_industry = ''s'', ba_region = ''r'', ba_loan_type = Term_loan, ba_profile = sample_profile,
     ba_evidence = [sample_metric Annual_revenue_crore 100, sample_metric Ebitda_margin_pct 20,
       sample_metric Dscr 2],
     ba_finance_context = ''f'', ba_operations_context = ''o''\<rparr>"

definition sample_funder :: "string \<Rightarrow> nat \<Rightarrow> funder_policy" where
  "sample_funder f min_dscr = \<lparr>po_funder_id = f, po_display_name = ''F'', po_allowed_industries = [''i''],
     po_allowed_regions = [''r''], po_allowed_loan_types = [Term_loan],
     po_min_requested_amount = Dec False 1 0, po_max_requested_amount = Dec False 50 0,
     po_min_dscr = Dec False min_dscr 0, po_max_debt_to_ebitda = Dec False 4 0,
     po_min_collateral_cover = Dec False 1 0, po_min_years_operating = 3\<rparr>"

definition sample_policies :: "funder_policy list" where
  "sample_policies = [sample_funder ''f1'' 1, sample_funder ''f2'' 3]"

definition sample_precedent :: decided_loan_case where
  "sample_precedent = \<lparr>dc_case_id = ''case-1'', dc_borrower_name = ''b'', dc_industry = ''i'',
     dc_sub_industry = ''s'', dc_region = ''r'', dc_loan_type = ''term_loan'', dc_profile = sample_profile,
     dc_evidence = ba_evidence sample_application,
     dc_comments = [\<lparr>rc_team = Finance, rc_author = ''a'', rc_text = ''t'', rc_created_at = 1\<rparr>,
       \<lparr>rc_team = Operations, rc_author = ''a'', rc_text = ''t'', rc_created_at = 1\<rparr>],
     dc_decision = \<lparr>hd_outcome = APPROVED, hd_funder_id = ''f1'', hd_decided_by = ''h'', hd_decided_at = 2,
       hd_rationale = ''r'', hd_conditions = [], hd_overrides = []\<rparr>,
     dc_lifecycle_status = ACTIVE, dc_policy_hash = None, dc_valid_until = None,
     dc_supersedes_case_id = None\<rparr>"

definition sample_config :: retrieval_config where
  "sample_config = \<lparr>cf_collection = ''c'', cf_top_k = 5, cf_candidate_limit = 10,
     cf_profile_weight = 1 / 2, cf_comments_weight = 1 / 2, cf_min_score = 0, cf_require_active = True\<rparr>"

definition sample_embed :: "unit embedder" where
  "sample_embed texts = Inr (map (\<lambda>_. ()) texts)"

definition sample_query :: "(unit, decided_loan_case) searcher" where
  "sample_query name v fl k = Inr [\<lparr>ht_id = ''p1'', ht_score = 0, ht_payload = Some sample_precedent\<rparr>]"

definition sample_retrieval :: retrieval_result where
  "sample_retrieval =
     (case retrieve sample_config sample_embed sample_query Inr 10 sample_application sample_policies of Inr r \<Rightarrow> r)"

lemma sample_retrieval:
  "retrieve sample_config sample_embed sample_query Inr 10 sample_application sample_policies = Inr sample_retrieval"
proof -
  have "is_ok (retrieve sample_config sample_embed sample_query Inr 10 sample_application sample_policies)"
    by code_simp
  then show ?thesis by (auto simp: sample_retrieval_def elim: is_ok.elims)
qed

section \<open>Assembly succeeds\<close>

definition named_policy :: "nat \<Rightarrow> funder_policy \<Rightarrow> bool" where
  "named_policy n po \<longleftrightarrow> po_funder_id po \<noteq> [] \<and> po_display_name po \<noteq> [] \<and>
     (\<forall>k \<le> n. evidence_summary (po_display_name po) 8 k \<noteq> [] \<and>
        max_items 2000 (evidence_summary (po_display_name po) 8 k))"

lemma make_candidate_total:
  assumes "named_policy (length ms) po" and "fe_eligible (evaluate a po)"
  shows "\<exists>c. make_candidate a ms po (evaluate a po) = Inr c"
proof -
  have "length (matches_of (po_funder_id po) ms) \<le> length ms" by (simp add: matches_of_def)
  with assms show ?thesis
    by (auto simp: make_candidate_def Let_def validate_candidate_def candidate_fields_ok_def named_policy_def
        eligible_checks list_ex_iff precedent_funder_def matches_of_def)
qed

lemma make_excluded_total:
  assumes "named_policy n po" and "\<not> fe_eligible (evaluate a po)"
  shows "\<exists>x. make_excluded po (evaluate a po) = Inr x"
  using assms ineligible_has_failure [OF assms(2)]
  by (auto simp: make_excluded_def validate_failed_checks_def named_policy_def list_ex_iff filter_empty_conv)

lemma partition_total:
  assumes "\<forall>po \<in> set ps. named_policy (length ms) po \<and> dict_get by_id (po_funder_id po) = Some (evaluate a po)"
  shows "\<exists>cs xs. partition_policies a ms by_id ps = Inr (cs, xs)"
  using assms
proof (induction ps)
  case (Cons po ps)
  then obtain cs xs where rest: "partition_policies a ms by_id ps = Inr (cs, xs)" by auto
  show ?case
  proof (cases "fe_eligible (evaluate a po)")
    case True
    then show ?thesis
      using make_candidate_total [of ms po a] Cons.prems rest by auto
  next
    case False
    then show ?thesis
      using make_excluded_total [of "length ms" po a] Cons.prems rest by auto
  qed
qed simp

lemma assemble_total:
  assumes r: "retrieve c embed_texts query parse now a ps = Inr r"
    and dist: "distinct (map po_funder_id ps)"
    and named: "\<forall>po \<in> set ps. named_policy (length (rr_matches r)) po"
    and claims: "build_claims sha256 policy_hash a r = Inr claims" "max_items 500 claims"
  shows "\<exists>b. assemble sha256 policy_hash a ps r = Inr b"
proof -
  have el: "rr_eligibility r = evaluate_all a ps" and app: "rr_application_id r = ba_application_id a"
    using retrieve_cases [OF r] by simp_all
  let ?by = "map (\<lambda>po. (po_funder_id po, evaluate a po)) ps"
  have by_id: "dict_of (map (\<lambda>e. (fe_funder_id e, e)) (rr_eligibility r)) = ?by"
    unfolding el by (rule eligibility_dict [OF dist])
  have "list_all (shown_eligible ?by) (rr_matches r)"
    unfolding list_all_iff
  proof
    fix m
    assume "m \<in> set (rr_matches r)"
    from retrieve_matches_ok [OF r this] obtain po where
      "po \<in> set ps" "po_funder_id po = hd_funder_id (dc_decision (pm_precedent m))" "satisfies_policy a po"
      using eligible_funder_policy by (auto simp: match_ok_def)
    then show "shown_eligible ?by m"
      using eligibility_lookup [OF dist, of po a] by (simp add: shown_eligible_def eligible_iff)
  qed
  moreover obtain cs xs where part: "partition_policies a (rr_matches r) ?by ps = Inr (cs, xs)"
    using partition_total [of ps "rr_matches r" ?by a] named eligibility_lookup [OF dist] by blast
  note parts = partition_ok [OF part]
  define b where "b = \<lparr>sg_authority = ''advisory_only'', sg_requires_human_decision = True,
    sg_advisory_notice = ADVISORY_NOTICE, sg_application = a, sg_candidates = cs,
    sg_excluded_funders = xs, sg_claims = claims\<rparr>"
  have disjoint: "po_funder_id po \<noteq> po_funder_id po'"
    if "po \<in> set (filter (gate ?by) ps)" "po' \<in> set (filter (\<lambda>po. \<not> gate ?by po) ps)" for po po'
  proof
    assume "po_funder_id po = po_funder_id po'"
    then have "gate ?by po = gate ?by po'" by (simp add: gate_def)
    with that show False by simp
  qed
  have "distinct (map po_funder_id (filter (gate ?by) ps))" "distinct (map po_funder_id (filter (\<lambda>po. \<not> gate ?by po) ps))"
    using dist by (simp_all add: distinct_map_filter)
  then have "partition_valid b"
    unfolding partition_valid_def b_def suggestion_bundle.select_convs parts(1,2)
    using disjoint by fastforce
  moreover have "fst ` set ?by = set (map po_funder_id ps)" by force
  ultimately have "assemble sha256 policy_hash a ps r = Inr b"
    unfolding assemble_iff Let_def by_id using app dist part claims by (simp add: b_def)
  then show ?thesis by blast
qed

definition sample_hash :: "string \<Rightarrow> string" where
  "sample_hash s = replicate 64 CHR ''0''"

definition sample_bundle :: suggestion_bundle where
  "sample_bundle = (case assemble sample_hash None sample_application sample_policies sample_retrieval of Inr b \<Rightarrow> b)"

lemma sample_matches:
  "rr_matches sample_retrieval = [\<lparr>pm_precedent = sample_precedent, pm_score = 0, pm_profile_score = Some 0,
     pm_comments_score = Some 0\<rparr>]"
  by code_simp

lemma sample_claims: "is_ok (build_claims sample_hash None sample_application sample_retrieval)"
  by code_simp

lemma str_nat_digit: "n < 10 \<Longrightarrow> length (str_nat n) = 1"
  by (subst str_nat.simps) simp

lemma sample_named: "\<forall>po \<in> set sample_policies. named_policy (length (rr_matches sample_retrieval)) po"
  by (auto simp: sample_policies_def sample_funder_def named_policy_def sample_matches evidence_summary_def
      max_items_def le_Suc_eq str_nat_digit)

lemma sample_loaded: "load_policies sample_policies = Inr sample_policies"
  by code_simp

lemma sample_hash_hex: "hex_sha256 (sample_hash s)"
  by (simp add: sample_hash_def hex_sha256_def list_all_iff)

lemma sample_bundle: "assemble sample_hash None sample_application sample_policies sample_retrieval = Inr sample_bundle"
proof -
  obtain claims where claims: "build_claims sample_hash None sample_application sample_retrieval = Inr claims"
    using sample_claims by (auto elim: is_ok.elims)
  have "length claims = 3 + 16 + 1"
    unfolding build_claims_eq(1) [OF claims]
    by (simp add: sample_matches length_concat comp_def)
      (simp add: retrieve_cases [OF sample_retrieval] evaluate_all_def sample_policies_def sample_application_def)
  then have "max_items 500 claims" by (simp add: max_items_def)
  from assemble_total [OF sample_retrieval _ sample_named claims this]
  have "\<exists>b. assemble sample_hash None sample_application sample_policies sample_retrieval = Inr b"
    by (simp add: sample_policies_def sample_funder_def)
  then show ?thesis by (auto simp: sample_bundle_def)
qed

lemma sample_retrieval_eligibility:
  "rr_eligibility sample_retrieval = evaluate_all sample_application sample_policies"
  using retrieve_cases [OF sample_retrieval] by simp

lemma sample_match: "\<exists>m. m \<in> set (rr_matches sample_retrieval)"
  by (simp add: sample_matches)

section \<open>How long a claim can be\<close>

lemma length_fixed8:
  assumes "unit_score q"
  shows "length (format_fixed8 q) \<le> 20"
proof -
  obtain p d where pd: "quotient_of q = (p, d)" by fastforce
  have d: "0 < d" using quotient_of_denom_pos [OF pd] .
  have "\<bar>q\<bar> \<le> 1" using assms by (simp add: unit_score_def abs_le_iff)
  moreover have "\<bar>q\<bar> = of_int \<bar>p\<bar> / of_int d" using quotient_of_div [OF pd] d by simp
  ultimately have "of_int \<bar>p\<bar> \<le> (of_int d :: rat)" using d by (simp add: divide_le_eq_1)
  then have "\<bar>p\<bar> * 100000000 \<le> 100000000 * d" by simp
  then have lo: "\<bar>p\<bar> * 100000000 div d \<le> 100000000" "0 \<le> \<bar>p\<bar> * 100000000 div d"
    using d zdiv_mono1 [of "\<bar>p\<bar> * 100000000" "100000000 * d" d] by (simp_all add: pos_imp_zdiv_nonneg_iff)
  define n where "n = (let a = \<bar>p\<bar> * 100000000; lo = a div d; r = 2 * (a mod d) in if d < r \<or> (r = d \<and> odd lo) then lo + 1 else lo)"
  have n: "0 \<le> n" "n \<le> 100000001" using lo by (auto simp: n_def Let_def)
  have "length (str_int i) \<le> 8" if "0 \<le> i" "i < 100000000" for i
    using length_str_nat [of "nat i" 7] that by (simp add: str_int_def)
  from this [of "n mod 100000000"] this [of "n div 100000000"] n
  have parts: "length (str_int (n mod 100000000)) \<le> 8" "length (str_int (n div 100000000)) \<le> 8" by simp_all
  have "format_fixed8 q = (if q < 0 then ''-'' else []) @ str_int (n div 100000000) @ ''.'' @
      replicate (8 - length (str_int (n mod 100000000))) (CHR ''0'') @ str_int (n mod 100000000)"
    by (simp only: format_fixed8_def pd n_def Let_def prod.case)
  with parts show ?thesis by simp
qed

lemma length_fact_str: "length (fact_str n) \<le> 30"
  by (cases n) simp_all

lemma length_criterion_value: "length (criterion_value k) \<le> 30"
  by (cases k) simp_all

definition short_evidence :: "evidence_metric \<Rightarrow> bool" where
  "short_evidence e \<longleftrightarrow> length (str_fact (em_value e)) + length (em_unit e) + length (em_period e) \<le> 900"

definition short_policy :: "borrower_application \<Rightarrow> funder_policy \<Rightarrow> bool" where
  "short_policy a po \<longleftrightarrow> length (po_display_name po) \<le> 1800 \<and>
     list_all (\<lambda>k. length (po_funder_id po) + length (ck_actual k) + length (ck_requirement k) \<le> 900) (rule_checks a po)"

lemma require_grounding_claims:
  assumes "\<And>s. hex_sha256 (sha256 s)" and "list_all hex_sha256 (case policy_hash of None \<Rightarrow> [] | Some h \<Rightarrow> [h])"
  shows "short_evidence e \<Longrightarrow> require_grounding (evidence_claim sha256 policy_hash app e) = Inr (evidence_claim sha256 policy_hash app e)"
    and "length f + length (ck_actual k) + length (ck_requirement k) \<le> 900 \<Longrightarrow>
      require_grounding (calculation_claim sha256 policy_hash app f k) = Inr (calculation_claim sha256 policy_hash app f k)"
    and "unit_score (pm_score m) \<Longrightarrow> valid_case_id (dc_case_id (pm_precedent m)) \<Longrightarrow>
      require_grounding (precedent_claim sha256 policy_hash app m) = Inr (precedent_claim sha256 policy_hash app m)"
  using assms length_fact_str [of "em_name e"] length_criterion_value [of "ck_criterion k"] length_fixed8 [of "pm_score m"]
  by (auto simp: require_grounding_def grounding_sources_def claim_id_def max_items_def Let_def evidence_claim_def
      calculation_claim_def precedent_claim_def short_evidence_def str_bool_def valid_case_id_def split: option.splits)

lemma emap_same: "list_all (\<lambda>x. f x = Inr x) xs \<Longrightarrow> emap f xs = Inr xs"
  by (induction xs) auto

lemma build_claims_total:
  assumes r: "retrieve c embed_texts query parse now a ps = Inr r"
    and hashes: "\<And>s. hex_sha256 (sha256 s)" "list_all hex_sha256 (case policy_hash of None \<Rightarrow> [] | Some h \<Rightarrow> [h])"
    and short: "list_all short_evidence (ba_evidence a)" "list_all (short_policy a) ps"
    and count: "length (ba_evidence a) + 8 * length ps + cf_top_k c \<le> 500"
  shows "\<exists>claims. build_claims sha256 policy_hash a r = Inr claims \<and> max_items 500 claims"
proof -
  note grounded = require_grounding_claims [OF hashes]
  have el: "rr_eligibility r = evaluate_all a ps" using retrieve_cases [OF r] by simp
  have top: "length (rr_matches r) \<le> cf_top_k c" using retrieve_cases [OF r] by (auto simp: rank_matches_def)
  let ?claims = "map (evidence_claim sha256 policy_hash (ba_application_id a)) (ba_evidence a) @
    concat (map (\<lambda>el. map (calculation_claim sha256 policy_hash (ba_application_id a) (fe_funder_id el)) (fe_checks el))
      (rr_eligibility r)) @ map (precedent_claim sha256 policy_hash (ba_application_id a)) (rr_matches r)"
  have "unit_score (pm_score m) \<and> valid_case_id (dc_case_id (pm_precedent m))" if "m \<in> set (rr_matches r)" for m
    using retrieve_matches_ok [OF r that] by (auto simp: match_ok_def validate_case_def case_fields_ok_def result_elims)
  then have "list_all (\<lambda>g. require_grounding g = Inr g) ?claims"
    using short grounded by (fastforce simp: list_all_iff el evaluate_all_def short_policy_def)
  then have "build_claims sha256 policy_hash a r = Inr ?claims"
    unfolding build_claims_def Let_def by (rule emap_same)
  moreover have "length ?claims = length (ba_evidence a) + 8 * length ps + length (rr_matches r)"
    by (simp add: length_concat comp_def el evaluate_all_def sum_list_triv mult.commute)
  ultimately show ?thesis using count top by (auto simp: max_items_def)
qed

lemma named_short_policy:
  assumes "funder_fields_ok po" and "short_policy a po" and "n \<le> 500"
  shows "named_policy n po"
proof -
  have "length (po_display_name po) + length (str_nat k) \<le> 1803" if "k \<le> n" for k
    using length_str_nat [of k 2] that assms(2,3) by (simp add: short_policy_def)
  then have "max_items 2000 (evidence_summary (po_display_name po) 8 k)" if "k \<le> n" for k
    using that assms(2) by (fastforce simp: evidence_summary_def max_items_def str_nat_digit short_policy_def)
  then show ?thesis
    using assms(1) by (simp add: named_policy_def funder_fields_ok_def evidence_summary_def)
qed

section \<open>Properties\<close>

text \<open>
  Relaxing a policy never excludes a borrower: a borrower eligible under a policy is
  eligible under every policy that asks for no more.
\<close>

theorem relaxing_keeps_eligible:
  assumes "relaxes po po'" and "fe_eligible (evaluate a po)"
  shows "fe_eligible (evaluate a po')"
  using assms by (simp add: eligible_iff satisfies_relaxed)

theorem relaxing_keeps_eligible_witness:
  "fe_eligible (evaluate sample_application (sample_funder ''f1'' 1))"
proof (rule relaxing_keeps_eligible)
  show "relaxes (sample_funder ''f1'' 2) (sample_funder ''f1'' 1)"
    by (simp add: relaxes_def sample_funder_def dval_def)
  show "fe_eligible (evaluate sample_application (sample_funder ''f1'' 2))"
    by (simp add: eligible_iff satisfies_policy_def sample_application_def sample_profile_def
        sample_funder_def dval_def)
qed

text \<open>
  C8. Eligibility first: every precedent that retrieval returns, whatever the vector database
  answers, was decided by the funder of a configured policy the application satisfies, is a
  valid case, reaches the threshold and, when only active precedents are wanted, is active
  and within its validity. There are at most \<open>top_k\<close> of them, best score first.
\<close>

theorem retrieval_is_rule_gated:
  assumes "retrieve c embed_texts query parse now a ps = Inr r"
  shows "(\<forall>m \<in> set (rr_matches r).
      (\<exists>po \<in> set ps. po_funder_id po = hd_funder_id (dc_decision (pm_precedent m)) \<and> satisfies_policy a po) \<and>
      is_ok (validate_case (pm_precedent m)) \<and> cf_min_score c \<le> pm_score m \<and>
      (cf_require_active c \<longrightarrow> is_retrievable (pm_precedent m) now)) \<and>
    length (rr_matches r) \<le> cf_top_k c \<and>
    sorted_wrt (\<lambda>m m'. pm_score m' \<le> pm_score m) (rr_matches r)"
proof (intro conjI ballI)
  fix m
  assume "m \<in> set (rr_matches r)"
  from retrieve_matches_ok [OF assms this]
  have ok: "match_ok c now (map fe_funder_id (filter fe_eligible (evaluate_all a ps))) m" .
  then show "\<exists>po \<in> set ps. po_funder_id po = hd_funder_id (dc_decision (pm_precedent m)) \<and> satisfies_policy a po"
    using eligible_funder_policy by (auto simp: match_ok_def)
  from ok show "is_ok (validate_case (pm_precedent m))" "cf_min_score c \<le> pm_score m"
    "cf_require_active c \<longrightarrow> is_retrievable (pm_precedent m) now"
    by (auto simp: match_ok_def)
next
  show "length (rr_matches r) \<le> cf_top_k c"
    using retrieve_cases [OF assms] by (auto simp: rank_matches_def)
  have "sorted_wrt (\<lambda>m m'. rank_key m \<le> rank_key m') (rr_matches r)"
    using retrieve_cases [OF assms] sorted_rank_matches by (auto simp: sorted_map)
  then show "sorted_wrt (\<lambda>m m'. pm_score m' \<le> pm_score m) (rr_matches r)"
    by (rule sorted_wrt_mono_rel [rotated]) (rule rank_key_le)
qed

theorem retrieval_is_rule_gated_witness:
  "\<exists>m \<in> set (rr_matches sample_retrieval).
     \<exists>po \<in> set sample_policies. po_funder_id po = hd_funder_id (dc_decision (pm_precedent m)) \<and>
       satisfies_policy sample_application po"
  using retrieval_is_rule_gated [OF sample_retrieval] sample_match by blast

text \<open>
  When no configured policy accepts the application, retrieval returns no precedent and
  asks nobody: the result does not depend on the embedder or the database, which may be down.
\<close>

theorem nobody_eligible_nothing_searched:
  assumes "\<forall>po \<in> set ps. \<not> satisfies_policy a po"
  shows "retrieve c embed_texts query parse now a ps =
    Inr \<lparr>rr_application_id = ba_application_id a, rr_eligibility = evaluate_all a ps, rr_matches = []\<rparr>"
proof -
  have "filter fe_eligible (evaluate_all a ps) = []"
    using assms by (simp add: evaluate_all_def filter_empty_conv eligible_iff)
  then show ?thesis by (simp add: retrieve_def Let_def)
qed

theorem nobody_eligible_nothing_searched_witness:
  "rr_matches (case retrieve sample_config (\<lambda>_. Inl (OtherException ''down'')) sample_query Inr 10
     sample_application [sample_funder ''f2'' 3] of Inr r \<Rightarrow> r) = []"
proof -
  have "\<not> satisfies_policy sample_application (sample_funder ''f2'' 3)"
    by (simp add: satisfies_policy_def sample_application_def sample_profile_def sample_funder_def dval_def)
  then show ?thesis
    by (subst nobody_eligible_nothing_searched) simp_all
qed

text \<open>
  C16. The bundle is an exact partition of the policies: candidates are the policies the
  application satisfies and excluded funders are the others, both in policy order; candidates
  show passed checks only, excluded funders at least one failed check and failed checks only;
  and the bundle claims no authority.
\<close>

theorem bundle_partitions_policies:
  assumes "assemble sha256 policy_hash a ps r = Inr b" and "rr_eligibility r = evaluate_all a ps"
  shows "map ca_funder_id (sg_candidates b) = map po_funder_id (filter (satisfies_policy a) ps) \<and>
    map ex_funder_id (sg_excluded_funders b) = map po_funder_id (filter (\<lambda>po. \<not> satisfies_policy a po) ps) \<and>
    (\<forall>c \<in> set (sg_candidates b). list_all ck_passed (ca_passed_checks c)) \<and>
    (\<forall>x \<in> set (sg_excluded_funders b). ex_failed_checks x \<noteq> [] \<and> list_all (\<lambda>k. \<not> ck_passed k) (ex_failed_checks x)) \<and>
    sg_authority b = ''advisory_only'' \<and> sg_requires_human_decision b \<and> sg_application b = a"
proof -
  let ?by = "map (\<lambda>po. (po_funder_id po, evaluate a po)) ps"
  from assms(1) have dist: "distinct (map po_funder_id ps)" by (simp add: assemble_iff Let_def)
  have "partition_policies a (rr_matches r) ?by ps = Inr (sg_candidates b, sg_excluded_funders b)"
    using assms eligibility_dict [OF dist] by (simp add: assemble_iff Let_def)
  note parts = partition_ok [OF this]
  have "filter (gate ?by) ps = filter (satisfies_policy a) ps"
    "filter (\<lambda>po. \<not> gate ?by po) ps = filter (\<lambda>po. \<not> satisfies_policy a po) ps"
    using gate_evaluated [OF dist] by (auto intro: filter_cong)
  with parts show ?thesis
    using assms(1) by (auto simp: assemble_iff Let_def list_all_iff)
qed

theorem bundle_partitions_policies_witness:
  "map ca_funder_id (sg_candidates sample_bundle) =
     map po_funder_id (filter (satisfies_policy sample_application) sample_policies)"
  using bundle_partitions_policies [OF sample_bundle sample_retrieval_eligibility] by simp

text \<open>
  C26. No precedent is dropped or invented: the precedents shown over all candidates are, as a
  multiset, the matches of the retrieval, each under its own funder.
\<close>

theorem bundle_shows_every_precedent:
  assumes "assemble sha256 policy_hash a ps r = Inr b"
  shows "mset (concat (map (\<lambda>c. map ep_match (ca_precedents c)) (sg_candidates b))) = mset (rr_matches r) \<and>
    (\<forall>c \<in> set (sg_candidates b). \<forall>e \<in> set (ca_precedents c). precedent_funder e = ca_funder_id c)"
proof -
  let ?by = "dict_of (map (\<lambda>e. (fe_funder_id e, e)) (rr_eligibility r))"
  from assms have dist: "distinct (map po_funder_id ps)"
    and cover: "fst ` set ?by = set (map po_funder_id ps)"
    and shown: "list_all (shown_eligible ?by) (rr_matches r)"
    and part: "partition_policies a (rr_matches r) ?by ps = Inr (sg_candidates b, sg_excluded_funders b)"
    by (simp_all add: assemble_iff Let_def)
  note parts = partition_ok [OF part]
  let ?fs = "map po_funder_id (filter (gate ?by) ps)"
  have "distinct ?fs" using dist by (simp add: distinct_map_filter)
  moreover have "\<forall>m \<in> set (rr_matches r). hd_funder_id (dc_decision (pm_precedent m)) \<in> set ?fs"
  proof
    fix m
    assume "m \<in> set (rr_matches r)"
    with shown have "shown_eligible ?by m" by (simp add: list_all_iff)
    then obtain el where el: "dict_get ?by (hd_funder_id (dc_decision (pm_precedent m))) = Some el" "fe_eligible el"
      by (auto simp: shown_eligible_def split: option.splits)
    have "hd_funder_id (dc_decision (pm_precedent m)) \<in> fst ` set ?by"
      by (intro rev_image_eqI [OF map_of_SomeD [OF el(1)]]) simp
    with cover obtain po where "po \<in> set ps" "po_funder_id po = hd_funder_id (dc_decision (pm_precedent m))" by auto
    with el show "hd_funder_id (dc_decision (pm_precedent m)) \<in> set ?fs" by (force simp: gate_def)
  qed
  ultimately have all: "mset (concat (map (\<lambda>f. matches_of f (rr_matches r)) ?fs)) = mset (rr_matches r)"
    by (rule mset_concat_matches)
  have shown_eq: "concat (map (\<lambda>c. map ep_match (ca_precedents c)) (sg_candidates b)) =
      concat (map (\<lambda>f. matches_of f (rr_matches r)) ?fs)"
    using parts(3) by (simp add: comp_def)
  have own: "\<forall>c \<in> set (sg_candidates b). \<forall>e \<in> set (ca_precedents c). precedent_funder e = ca_funder_id c"
  proof (intro ballI)
    fix c e
    assume c: "c \<in> set (sg_candidates b)" and e: "e \<in> set (ca_precedents c)"
    from c obtain i where i: "i < length (sg_candidates b)" "c = sg_candidates b ! i"
      by (metis in_set_conv_nth)
    let ?po = "filter (gate ?by) ps ! i"
    have len: "i < length (filter (gate ?by) ps)"
      using i(1) arg_cong [OF parts(1), of length] by simp
    have "ca_funder_id c = po_funder_id ?po"
      using i len arg_cong [OF parts(1), of "\<lambda>xs. xs ! i"] by simp
    moreover have "map ep_match (ca_precedents c) = matches_of (po_funder_id ?po) (rr_matches r)"
      using i len arg_cong [OF parts(3), of "\<lambda>xs. xs ! i"] by simp
    moreover have "ep_match e \<in> set (map ep_match (ca_precedents c))" using e by simp
    ultimately show "precedent_funder e = ca_funder_id c"
      by (auto simp: matches_of_def precedent_funder_def)
  qed
  show ?thesis using all own unfolding shown_eq by (rule conjI)
qed

theorem bundle_shows_every_precedent_witness:
  "mset (concat (map (\<lambda>c. map ep_match (ca_precedents c)) (sg_candidates sample_bundle))) =
     mset (rr_matches sample_retrieval)"
  using bundle_shows_every_precedent [OF sample_bundle] by simp

text \<open>
  C32. Every claim of the ledger has exactly one grounding source, belongs to the application
  and carries the policy hash; there is one claim for each cited metric, each rule check and
  each precedent.
\<close>

theorem claims_are_grounded:
  assumes "assemble sha256 policy_hash a ps r = Inr b"
  shows "(\<forall>g \<in> set (sg_claims b). grounding_sources g = 1 \<and> gc_application_id g = ba_application_id a \<and>
      gc_policy_hash g = policy_hash) \<and>
    length (sg_claims b) = length (ba_evidence a) + sum_list (map (length \<circ> fe_checks) (rr_eligibility r)) +
      length (rr_matches r)"
proof -
  have "build_claims sha256 policy_hash a r = Inr (sg_claims b)"
    using assms by (simp add: assemble_iff Let_def)
  note claims = build_claims_eq [OF this]
  have "length (concat (map (\<lambda>el. map (f el) (fe_checks el)) els)) = sum_list (map (length \<circ> fe_checks) els)"
    for f :: "funder_eligibility \<Rightarrow> rule_check \<Rightarrow> grounded_claim" and els
    by (simp add: length_concat comp_def)
  then show ?thesis
    unfolding claims(1) by auto
qed

theorem claims_are_grounded_witness:
  "list_all (\<lambda>g. grounding_sources g = 1 \<and> gc_application_id g = ''app-1'' \<and> gc_policy_hash g = None)
     (sg_claims sample_bundle)"
  using claims_are_grounded [OF sample_bundle] by (simp add: sample_application_def list_all_iff)

text \<open>
  C31. The advisory pipeline does not fail half-way: whatever retrieval returns for policies that the
  loader accepted, the assembler builds a bundle, provided the inputs are short. Short means that
  the value, unit and period of a metric have at most 900 characters together, so have the funder
  id and both texts of a rule check, a display name has at most 1800, and metrics, eight checks for
  each policy and \<open>top_k\<close> precedents make at most 500 claims. Digests are hexadecimal. None of the
  consistency checks of the assembler can then fire.
\<close>

theorem assembly_accepts_retrieval:
  assumes "load_policies raw = Inr ps" and "retrieve c embed_texts query parse now a ps = Inr r"
    and "\<And>s. hex_sha256 (sha256 s)" and "list_all hex_sha256 (case policy_hash of None \<Rightarrow> [] | Some h \<Rightarrow> [h])"
    and "list_all short_evidence (ba_evidence a)" and "list_all (short_policy a) ps"
    and "length (ba_evidence a) + 8 * length ps + cf_top_k c \<le> 500"
  shows "\<exists>b. assemble sha256 policy_hash a ps r = Inr b"
proof -
  obtain claims where claims: "build_claims sha256 policy_hash a r = Inr claims" "max_items 500 claims"
    using build_claims_total [OF assms(2), of sha256 policy_hash] assms(3-7) by blast
  have "length (rr_matches r) \<le> 500"
    using retrieve_cases [OF assms(2)] assms(7) by (auto simp: rank_matches_def)
  then have "\<forall>po \<in> set ps. named_policy (length (rr_matches r)) po"
    using loaded_policies(2) [OF assms(1)] assms(6) named_short_policy by (auto simp: list_all_iff)
  from assemble_total [OF assms(2) loaded_policies(1) [OF assms(1)] this claims] show ?thesis .
qed

lemma sample_short: "list_all short_evidence (ba_evidence sample_application)" "list_all (short_policy sample_application) sample_policies"
  by code_simp+

theorem assembly_accepts_retrieval_witness:
  "\<exists>b. assemble sample_hash None sample_application sample_policies sample_retrieval = Inr b"
proof (rule assembly_accepts_retrieval [OF sample_loaded sample_retrieval])
  show "hex_sha256 (sample_hash s)" for s by (rule sample_hash_hex)
  show "list_all short_evidence (ba_evidence sample_application)" "list_all (short_policy sample_application) sample_policies"
    by (rule sample_short)+
qed (simp_all add: sample_config_def sample_application_def sample_policies_def)

text \<open>
  Scores stay in range: with weights in the unit interval that sum to one and component
  scores between minus one and one, the combined score is between minus one and one, so no
  match is refused for its score.
\<close>

theorem combined_score_in_range:
  assumes "config_fields_ok c" and "cf_profile_weight c + cf_comments_weight c = 1"
    and "unit_score (score_or_zero (sc_profile s))" and "unit_score (score_or_zero (sc_comments s))"
  shows "unit_score (combined_score c s)"
  by (rule combined_score_unit [OF assms])

theorem combined_score_in_range_witness:
  "unit_score (combined_score sample_config \<lparr>sc_payload = (), sc_profile = Some 1, sc_comments = None\<rparr>)"
  by (rule combined_score_in_range)
    (simp_all add: sample_config_def config_fields_ok_def unit_score_def score_or_zero_def)

end
