(* ===== verification/FM_Agent_Schema.thy ===== *)
theory FM_Agent_Schema
  imports FM_Precedent
begin

text \<open>
  The checkpoint state of the agent graph (\<open>orchestration/schema.py\<close>): statuses, worker
  names, the compact references a checkpoint may hold, and the validator that every
  checkpoint passes when it is read.
\<close>

section \<open>Statuses and workers\<close>

datatype graph_status =
    RUNNING | FAILED_RETRYABLE | NEEDS_ATTENTION | WAITING_FOR_REVIEW | COMPLETED | CANCELLED
  | FAILED_TERMINAL

definition terminal :: "graph_status \<Rightarrow> bool" where
  "terminal s \<longleftrightarrow> s \<in> {COMPLETED, CANCELLED, FAILED_TERMINAL}"

lemma terminal_simps [simp]:
  "terminal COMPLETED" "terminal CANCELLED" "terminal FAILED_TERMINAL" "\<not> terminal RUNNING"
  "\<not> terminal FAILED_RETRYABLE" "\<not> terminal NEEDS_ATTENTION" "\<not> terminal WAITING_FOR_REVIEW"
  by (simp_all add: terminal_def)

fun status_value :: "graph_status \<Rightarrow> string" where
  "status_value RUNNING = ''running''"
| "status_value FAILED_RETRYABLE = ''failed_retryable''"
| "status_value NEEDS_ATTENTION = ''needs_attention''"
| "status_value WAITING_FOR_REVIEW = ''waiting_for_review''"
| "status_value COMPLETED = ''completed''"
| "status_value CANCELLED = ''cancelled''"
| "status_value FAILED_TERMINAL = ''failed_terminal''"

datatype worker_name =
    DOCUMENT_PROCESSING | FINANCIAL_ANALYSIS | ELIGIBILITY | PRECEDENT_RETRIEVAL | SUGGESTION
  | GUARDRAILS | HUMAN_REVIEW

fun worker_value :: "worker_name \<Rightarrow> string" where
  "worker_value DOCUMENT_PROCESSING = ''document_processing''"
| "worker_value FINANCIAL_ANALYSIS = ''financial_analysis''"
| "worker_value ELIGIBILITY = ''eligibility''"
| "worker_value PRECEDENT_RETRIEVAL = ''precedent_retrieval''"
| "worker_value SUGGESTION = ''suggestion''"
| "worker_value GUARDRAILS = ''guardrails''"
| "worker_value HUMAN_REVIEW = ''human_review''"

definition DEFAULT_WORKER_ORDER :: "worker_name list" where
  "DEFAULT_WORKER_ORDER = [DOCUMENT_PROCESSING, FINANCIAL_ANALYSIS, ELIGIBILITY, PRECEDENT_RETRIEVAL,
     SUGGESTION, GUARDRAILS, HUMAN_REVIEW]"

section \<open>References\<close>

record input_reference =
  in_reference_type :: string
  in_reference_id :: string
  in_sha256 :: "string option"

record document_reference =
  dr_document_id :: string
  dr_sha256 :: string
  dr_page_count :: nat
  dr_chunk_count :: nat
  dr_config_hash :: "string option"

record evidence_reference =
  er_evidence_id :: string
  er_metric :: string
  er_value :: string
  er_unit :: "string option"
  er_period :: "string option"
  er_document_id :: string
  er_page_number :: nat
  er_bbox :: bbox

record eligibility_reference =
  el_funder_id :: string
  el_eligible :: bool
  el_failed_criteria :: "string list"

record guardrail_result =
  gu_guardrail :: string
  gu_passed :: bool
  gu_code :: "string option"

record human_review_checkpoint =
  hv_expected_version :: nat
  hv_allowed_actions :: "string list"

record worker_command =
  wc_worker :: worker_name
  wc_command_id :: uuid

record write_receipt =
  wt_store :: string
  wt_record_id :: string
  wt_payload_sha256 :: string

record worker_receipt =
  wp_worker :: worker_name
  wp_command_id :: uuid
  wp_output_sha256 :: string
  wp_attempt :: nat
  wp_tool_calls :: "string list"
  wp_latency_ms :: rat
  wp_policy_hash :: "string option"
  wp_signature :: "string option"
  wp_completed_at :: timestamp

text \<open>The signed part of a receipt: everything but its signature and completion time.\<close>

type_synonym signed_part = "worker_name \<times> uuid \<times> string \<times> nat \<times> string list \<times> rat \<times> string option"

definition signed_payload :: "worker_receipt \<Rightarrow> signed_part" where
  "signed_payload r = (wp_worker r, wp_command_id r, wp_output_sha256 r, wp_attempt r,
     wp_tool_calls r, wp_latency_ms r, wp_policy_hash r)"

record worker_error =
  we_worker :: worker_name
  we_code :: string
  we_message :: string
  we_retryable :: bool
  we_occurred_at :: timestamp

record worker_result =
  rs_worker :: worker_name
  rs_output_sha256 :: string
  rs_documents :: "document_reference list option"
  rs_evidence :: "evidence_reference list option"
  rs_eligibility :: "eligibility_reference list option"
  rs_guardrails :: "guardrail_result list option"
  rs_human_review :: "human_review_checkpoint option"
  rs_workflow_state :: "string option"
  rs_workflow_version :: "nat option"
  rs_config_hash :: "string option"
  rs_model_revision :: "string option"
  rs_write_receipts :: "write_receipt list"

definition worker_result0 :: "worker_name \<Rightarrow> string \<Rightarrow> worker_result" where
  "worker_result0 w h = \<lparr>rs_worker = w, rs_output_sha256 = h, rs_documents = None, rs_evidence = None,
     rs_eligibility = None, rs_guardrails = None, rs_human_review = None, rs_workflow_state = None,
     rs_workflow_version = None, rs_config_hash = None, rs_model_revision = None,
     rs_write_receipts = []\<rparr>"

section \<open>The checkpoint state\<close>

record memory_state =
  ms_application_id :: app_id
  ms_job_id :: "string option"
  ms_status :: graph_status
  ms_current_node :: worker_name
  ms_completed :: "worker_name list"
  ms_pending :: "worker_name list"
  ms_attempts :: "(worker_name \<times> nat) list"
  ms_input_references :: "input_reference list"
  ms_documents :: "document_reference list"
  ms_evidence :: "evidence_reference list"
  ms_eligibility :: "eligibility_reference list"
  ms_guardrails :: "guardrail_result list"
  ms_human_review :: "human_review_checkpoint option"
  ms_workflow_state :: "string option"
  ms_workflow_version :: "nat option"
  ms_config_hash :: "string option"
  ms_model_revision :: "string option"
  ms_commands :: "worker_command list"
  ms_worker_receipts :: "worker_receipt list"
  ms_write_receipts :: "write_receipt list"
  ms_last_error :: "worker_error option"

definition MAX_CHECKPOINT_BYTES :: int where
  "MAX_CHECKPOINT_BYTES = 256 * 1024"

definition attempts_of :: "memory_state \<Rightarrow> worker_name \<Rightarrow> nat" where
  "attempts_of s w = (case dict_get (ms_attempts s) w of None \<Rightarrow> 0 | Some n \<Rightarrow> n)"

definition command_name :: "app_id \<Rightarrow> worker_name \<Rightarrow> string" where
  "command_name app w = ''fundermatch:'' @ app @ '':'' @ worker_value w"

definition command_id_for :: "memory_state \<Rightarrow> worker_name \<Rightarrow> uuid option" where
  "command_id_for s w = map_option wc_command_id (find (\<lambda>c. wc_worker c = w) (ms_commands s))"

text \<open>
  The field limits and the validator of the class, in its order. \<open>dump_size\<close> is the number of
  bytes of the JSON rendering. Attempts are natural numbers, so the check that none is
  negative has nothing to do.
\<close>

definition opt_max :: "int \<Rightarrow> string option \<Rightarrow> bool" where
  "opt_max n x = (case x of None \<Rightarrow> True | Some v \<Rightarrow> max_items n v)"

definition state_fields_ok :: "memory_state \<Rightarrow> bool" where
  "state_fields_ok s \<longleftrightarrow>
     valid_case_id (ms_application_id s) \<and> opt_max 200 (ms_job_id s) \<and>
     opt_max 80 (ms_workflow_state s) \<and> opt_max 200 (ms_model_revision s) \<and>
     (case ms_config_hash s of None \<Rightarrow> True | Some h \<Rightarrow> hex_sha256 h) \<and> max_items 20 (ms_completed s) \<and> max_items 20 (ms_pending s) \<and>
     max_items 100 (ms_input_references s) \<and> max_items 100 (ms_documents s) \<and>
     max_items 200 (ms_evidence s) \<and> max_items 500 (ms_eligibility s) \<and> max_items 100 (ms_guardrails s) \<and>
     max_items 20 (ms_commands s) \<and> max_items 20 (ms_worker_receipts s) \<and>
     max_items 100 (ms_write_receipts s)"

definition validate_compact_state :: "(memory_state \<Rightarrow> nat) \<Rightarrow> memory_state \<Rightarrow> py_exn + memory_state" where
  "validate_compact_state dump_size s =
     ebind (ensure (state_fields_ok s) (ValueError ''validation error'')) (\<lambda>_.
     ebind (ensure (distinct (ms_completed s))
       (ValueError ''completed_workers cannot contain duplicates'')) (\<lambda>_.
     ebind (ensure (distinct (ms_pending s))
       (ValueError ''pending_workers cannot contain duplicates'')) (\<lambda>_.
     ebind (ensure (set (ms_completed s) \<inter> set (ms_pending s) = {})
       (ValueError ''completed and pending workers must be disjoint'')) (\<lambda>_.
     ebind (ensure (distinct (map wc_worker (ms_commands s)))
       (ValueError ''commands must contain one entry per worker'')) (\<lambda>_.
     ebind (ensure (ms_current_node s \<in> set (map wc_worker (ms_commands s)))
       (ValueError ''current_node must have a stable command id'')) (\<lambda>_.
     ebind (ensure (int (dump_size s) \<le> MAX_CHECKPOINT_BYTES)
       (ValueError ''checkpoint state exceeds the 256 KiB safety limit'')) (\<lambda>_. Inr s)))))))"

definition initial_state ::
  "(memory_state \<Rightarrow> nat) \<Rightarrow> (string \<Rightarrow> uuid) \<Rightarrow> app_id \<Rightarrow> worker_name list \<Rightarrow> string option \<Rightarrow>
   input_reference list \<Rightarrow> py_exn + memory_state" where
  "initial_state dump_size uuid5 app worker_order job_id inputs =
     (case worker_order of
        [] \<Rightarrow> Inl (ValueError ''at least one worker is required'')
      | w # ws \<Rightarrow> validate_compact_state dump_size
         \<lparr>ms_application_id = app, ms_job_id = job_id, ms_status = RUNNING, ms_current_node = w,
          ms_completed = [], ms_pending = worker_order, ms_attempts = [], ms_input_references = inputs,
          ms_documents = [], ms_evidence = [], ms_eligibility = [], ms_guardrails = [],
          ms_human_review = None, ms_workflow_state = None, ms_workflow_version = None,
          ms_config_hash = None, ms_model_revision = None,
          ms_commands = map (\<lambda>v. \<lparr>wc_worker = v, wc_command_id = uuid5 (command_name app v)\<rparr>) worker_order,
          ms_worker_receipts = [], ms_write_receipts = [], ms_last_error = None\<rparr>)"

definition result_hash :: "(string \<Rightarrow> string) \<Rightarrow> worker_name \<Rightarrow> string list \<Rightarrow> string" where
  "result_hash sha256 w refs = sha256 (join_str ''|'' (worker_value w # refs))"

lemma validate_compact_state_Inr:
  "validate_compact_state dump_size s = Inr s' \<longleftrightarrow>
     s' = s \<and> state_fields_ok s \<and> distinct (ms_completed s) \<and> distinct (ms_pending s) \<and>
     set (ms_completed s) \<inter> set (ms_pending s) = {} \<and> distinct (map wc_worker (ms_commands s)) \<and>
     ms_current_node s \<in> set (map wc_worker (ms_commands s)) \<and> int (dump_size s) \<le> MAX_CHECKPOINT_BYTES"
  unfolding validate_compact_state_def ebind_Inr_iff ensure_Inr_iff by auto

lemma command_id_for_Some:
  "ms_current_node s \<in> set (map wc_worker (ms_commands s)) \<Longrightarrow>
     \<exists>c. command_id_for s (ms_current_node s) = Some c"
  by (auto simp: command_id_for_def find_None_iff simp flip: not_None_eq)

end
