(* ===== verification/FM_Context.thy ===== *)
theory FM_Context
  imports FM_Agent_Schema
begin

text \<open>
  The budget a worker runs under (\<open>WorkerContext\<close> in \<open>orchestration/graph.py\<close>) and the
  exceptions a worker can raise. The context lives for one attempt and is never part of a
  checkpoint.
\<close>

datatype worker_exn =
    WFailure (failure_code: string) (failure_message: string) (failure_retryable: bool)
      (failure_attention: bool)
  | WTimeout
  | WPy py_exn

record worker_context =
  cx_application_id :: app_id
  cx_command_id :: uuid
  cx_max_tool_calls :: nat
  cx_permitted_tools :: "string list option"
  cx_call_timeout :: "nat option"
  cx_tool_calls :: nat
  cx_tools :: "string list"

definition tool_permitted :: "worker_context \<Rightarrow> string \<Rightarrow> bool" where
  "tool_permitted c tool = (case cx_permitted_tools c of None \<Rightarrow> True | Some ts \<Rightarrow> tool \<in> set ts)"

definition tool_not_permitted :: worker_exn where
  "tool_not_permitted =
     WFailure ''tool_not_permitted'' ''worker attempted a tool outside its production policy'' False False"

definition tool_budget_exceeded :: worker_exn where
  "tool_budget_exceeded =
     WFailure ''tool_budget_exceeded'' ''worker exceeded its bounded tool-call budget'' False False"

definition tool_timeout :: worker_exn where
  "tool_timeout = WFailure ''tool_timeout'' ''worker tool exceeded its production timeout'' True False"

definition consume_tool_call :: "string \<Rightarrow> worker_context \<Rightarrow> (worker_exn + unit) \<times> worker_context" where
  "consume_tool_call tool c =
     (if \<not> tool_permitted c tool then (Inl tool_not_permitted, c)
      else
        (let c' = c\<lparr>cx_tool_calls := cx_tool_calls c + 1, cx_tools := cx_tools c @ [tool]\<rparr> in
         if cx_max_tool_calls c' < cx_tool_calls c' then (Inl tool_budget_exceeded, c') else (Inr (), c')))"

text \<open>
  An operation is awaited under an optional deadline; an operation that overruns it, or that
  raises \<open>TimeoutError\<close> itself, is \<open>WTimeout\<close>, with the effects it had until then. It is not
  started when the call is refused.
\<close>

type_synonym ('w, 'a) operation = "nat option \<Rightarrow> ('w, worker_exn, 'a) io"

definition tool_result :: "nat option \<Rightarrow> worker_exn + 'a \<Rightarrow> worker_exn + 'a" where
  "tool_result timeout r =
     (case r of
        Inl WTimeout \<Rightarrow> (case timeout of None \<Rightarrow> r | Some _ \<Rightarrow> Inl tool_timeout)
      | _ \<Rightarrow> r)"

definition execute ::
  "string \<Rightarrow> ('w, 'a) operation \<Rightarrow> worker_context \<Rightarrow> 'w \<Rightarrow> (worker_exn + 'a) \<times> worker_context \<times> 'w" where
  "execute tool operation c w =
     (case consume_tool_call tool c of
        (Inl e, c') \<Rightarrow> (Inl e, c', w)
      | (Inr _, c') \<Rightarrow>
          (let (r, w') = operation (cx_call_timeout c') w in (tool_result (cx_call_timeout c') r, c', w')))"

lemma consume_tool_call_Inr:
  "consume_tool_call tool c = (Inr u, c') \<longleftrightarrow>
     tool_permitted c tool \<and> c' = c\<lparr>cx_tool_calls := cx_tool_calls c + 1, cx_tools := cx_tools c @ [tool]\<rparr> \<and>
     cx_tool_calls c + 1 \<le> cx_max_tool_calls c"
  by (auto simp: consume_tool_call_def Let_def)

lemma execute_refused_keeps_world:
  "\<not> tool_permitted c tool \<or> cx_max_tool_calls c \<le> cx_tool_calls c \<Longrightarrow>
     \<exists>e c'. execute tool operation c w = (Inl e, c', w)"
  by (auto simp: execute_def consume_tool_call_def Let_def)

text \<open>
  A chain of operations inside a worker: the worker's own monad, threading the context and the
  world.
\<close>

type_synonym ('w, 'a) job = "(worker_context \<times> 'w, worker_exn, 'a) io"

definition call_tool :: "string \<Rightarrow> ('w, 'a) operation \<Rightarrow> ('w, 'a) job" where
  "call_tool tool operation cw = execute tool operation (fst cw) (snd cw)"

definition call_inner :: "('w, worker_exn, 'a) io \<Rightarrow> ('w, 'a) job" where
  "call_inner operation cw = (case operation (snd cw) of (r, w') \<Rightarrow> (r, fst cw, w'))"

end
