(* ===== verification/FM_Lifecycle.thy ===== *)
theory FM_Lifecycle
  imports FM_Agent_Schema "HOL-Library.Multiset"
begin

text \<open>
  Lifecycle metadata of the checkpoint threads (\<open>orchestration/lifecycle.py\<close>): the
  in-memory store and the Postgres one, and the retention contract both implement.
\<close>

section \<open>Records\<close>

record thread_record =
  th_thread_id :: string
  th_application_id :: app_id
  th_status :: graph_status
  th_current_node :: "worker_name option"
  th_last_error :: "worker_error option"
  th_is_stale :: bool
  th_created_at :: timestamp
  th_updated_at :: timestamp
  th_terminal_at :: "timestamp option"
  th_delete_after :: "timestamp option"

record status_counts =
  sn_running :: nat
  sn_waiting :: nat
  sn_retryable :: nat
  sn_needs_attention :: nat
  sn_terminal :: nat
  sn_cancelled :: nat
  sn_stale :: nat

definition new_thread :: "app_id \<Rightarrow> worker_name \<Rightarrow> timestamp \<Rightarrow> thread_record" where
  "new_thread a node now =
     \<lparr>th_thread_id = a, th_application_id = a, th_status = RUNNING, th_current_node = Some node,
      th_last_error = None, th_is_stale = False, th_created_at = now, th_updated_at = now,
      th_terminal_at = None, th_delete_after = None\<rparr>"

definition with_status ::
  "timestamp \<Rightarrow> graph_status \<Rightarrow> worker_name option \<Rightarrow> worker_error option \<Rightarrow> timestamp \<Rightarrow>
   thread_record \<Rightarrow> thread_record" where
  "with_status retention status node err changed_at current =
     (let terminal_at = (if terminal status then Some changed_at else None) in
      current\<lparr>th_status := status, th_current_node := node, th_last_error := err, th_is_stale := False,
        th_updated_at := changed_at, th_terminal_at := terminal_at,
        th_delete_after := map_option (\<lambda>x. x + retention) terminal_at\<rparr>)"

definition stale_before :: "timestamp \<Rightarrow> thread_record \<Rightarrow> bool" where
  "stale_before before t \<longleftrightarrow> \<not> terminal (th_status t) \<and> th_updated_at t < before"

definition count_where :: "('a \<Rightarrow> bool) \<Rightarrow> 'a list \<Rightarrow> nat" where
  "count_where p xs = length (filter p xs)"

definition status_counts_of :: "(graph_status \<times> bool) list \<Rightarrow> status_counts" where
  "status_counts_of values =
     \<lparr>sn_running = count_where (\<lambda>(s, _). s = RUNNING) values,
      sn_waiting = count_where (\<lambda>(s, _). s = WAITING_FOR_REVIEW) values,
      sn_retryable = count_where (\<lambda>(s, _). s = FAILED_RETRYABLE) values,
      sn_needs_attention = count_where (\<lambda>(s, _). s = NEEDS_ATTENTION) values,
      sn_terminal = count_where (\<lambda>(s, _). terminal s) values,
      sn_cancelled = count_where (\<lambda>(s, _). s = CANCELLED) values,
      sn_stale = count_where (\<lambda>(_, stale). stale) values\<rparr>"

section \<open>The in-memory store\<close>

type_synonym life_store = "(app_id \<times> thread_record) list"

definition life_create :: "app_id \<Rightarrow> worker_name \<Rightarrow> timestamp \<Rightarrow> life_store \<Rightarrow> thread_record \<times> life_store" where
  "life_create a node now l =
     (case dict_get l a of
        Some existing \<Rightarrow> (existing, l)
      | None \<Rightarrow> (let t = new_thread a node now in (t, dict_set a t l)))"

definition life_get :: "app_id \<Rightarrow> life_store \<Rightarrow> py_exn + thread_record" where
  "life_get a l = (case dict_get l a of Some t \<Rightarrow> Inr t | None \<Rightarrow> Inl (KeyError a))"

definition life_set_status ::
  "timestamp \<Rightarrow> app_id \<Rightarrow> graph_status \<Rightarrow> worker_name option \<Rightarrow> worker_error option \<Rightarrow> timestamp \<Rightarrow>
   life_store \<Rightarrow> py_exn + (thread_record \<times> life_store)" where
  "life_set_status retention a status node err now l =
     (case dict_get l a of
        None \<Rightarrow> Inl (KeyError a)
      | Some current \<Rightarrow>
          (let t = with_status retention status node err now current in Inr (t, dict_set a t l)))"

definition life_flag_stale :: "timestamp \<Rightarrow> life_store \<Rightarrow> app_id list \<times> life_store" where
  "life_flag_stale before l =
     (map fst (filter (\<lambda>(a, t). stale_before before t) l),
      map (\<lambda>(a, t). (a, if stale_before before t then t\<lparr>th_is_stale := True\<rparr> else t)) l)"

definition life_expired :: "timestamp \<Rightarrow> life_store \<Rightarrow> app_id list" where
  "life_expired now l =
     map fst (filter (\<lambda>(a, t). terminal (th_status t) \<and>
       (case th_delete_after t of None \<Rightarrow> False | Some d \<Rightarrow> d \<le> now)) l)"

definition life_delete :: "app_id \<Rightarrow> life_store \<Rightarrow> life_store" where
  "life_delete a l = dict_pop a l"

definition life_counts :: "life_store \<Rightarrow> status_counts" where
  "life_counts l = status_counts_of (map (\<lambda>(a, t). (th_status t, th_is_stale t)) l)"

section \<open>The Postgres store\<close>

text \<open>
  The table \<open>langgraph.memory_threads\<close> as the list of its rows. \<open>create\<close> is the insert
  whose conflict clause rewrites the key with itself. The order in which an \<open>UPDATE\<close>
  returns rows is the order of the table here.
\<close>

type_synonym life_table = "thread_record list"

definition row_of :: "app_id \<Rightarrow> life_table \<Rightarrow> thread_record option" where
  "row_of a rows = find (\<lambda>t. th_thread_id t = a) rows"

definition pg_life_create :: "app_id \<Rightarrow> worker_name \<Rightarrow> timestamp \<Rightarrow> life_table \<Rightarrow> thread_record \<times> life_table" where
  "pg_life_create a node now rows =
     (case row_of a rows of
        Some t \<Rightarrow> (t, rows)
      | None \<Rightarrow> (let t = new_thread a node now in (t, rows @ [t])))"

definition pg_life_get :: "app_id \<Rightarrow> life_table \<Rightarrow> py_exn + thread_record" where
  "pg_life_get a rows = (case row_of a rows of None \<Rightarrow> Inl (KeyError a) | Some t \<Rightarrow> Inr t)"

definition pg_life_set_status ::
  "timestamp \<Rightarrow> app_id \<Rightarrow> graph_status \<Rightarrow> worker_name option \<Rightarrow> worker_error option \<Rightarrow> timestamp \<Rightarrow>
   life_table \<Rightarrow> py_exn + (thread_record \<times> life_table)" where
  "pg_life_set_status retention a status node err now rows =
     (case row_of a rows of
        None \<Rightarrow> Inl (KeyError a)
      | Some t \<Rightarrow> Inr (with_status retention status node err now t,
          map (\<lambda>t. if th_thread_id t = a then with_status retention status node err now t else t) rows))"

definition pg_life_flag_stale :: "timestamp \<Rightarrow> life_table \<Rightarrow> app_id list \<times> life_table" where
  "pg_life_flag_stale before rows =
     (map th_thread_id (filter (stale_before before) rows),
      map (\<lambda>t. if stale_before before t then t\<lparr>th_is_stale := True\<rparr> else t) rows)"

definition delete_due :: "thread_record \<Rightarrow> timestamp" where
  "delete_due t = (case th_delete_after t of None \<Rightarrow> 0 | Some d \<Rightarrow> d)"

definition pg_life_expired :: "timestamp \<Rightarrow> life_table \<Rightarrow> app_id list" where
  "pg_life_expired now rows =
     map th_thread_id (sort_key delete_due
       (filter (\<lambda>t. terminal (th_status t) \<and>
          (case th_delete_after t of None \<Rightarrow> False | Some d \<Rightarrow> d \<le> now)) rows))"

definition pg_life_delete :: "app_id \<Rightarrow> life_table \<Rightarrow> life_table" where
  "pg_life_delete a rows = filter (\<lambda>t. th_thread_id t \<noteq> a) rows"

text \<open>
  The counts are grouped by the database and expanded again: one copy of each distinct pair
  for every row that has it.
\<close>

definition pg_life_counts :: "life_table \<Rightarrow> status_counts" where
  "pg_life_counts rows =
     (let values = map (\<lambda>t. (th_status t, th_is_stale t)) rows in
      status_counts_of (concat (map (\<lambda>g. replicate (count_list values g) g) (remdups values))))"

lemma count_mset_list: "count (mset xs) x = count_list xs x"
  by (induction xs) auto

lemma mset_grouped: "mset (concat (map (\<lambda>g. replicate (count_list xs g) g) (remdups xs))) = mset xs"
proof (rule multiset_eqI)
  fix x
  have "count (mset (concat (map (\<lambda>g. replicate (count_list xs g) g) ys))) x =
      (if x \<in> set ys then count_list xs x else 0)" if "distinct ys" for ys
    using that by (induction ys) auto
  then show "count (mset (concat (map (\<lambda>g. replicate (count_list xs g) g) (remdups xs)))) x = count (mset xs) x"
    by (simp add: count_mset_list)
qed

lemma count_where_mset: "count_where p xs = size (filter_mset p (mset xs))"
  by (metis count_where_def mset_filter size_mset)

lemma status_counts_mset: "mset xs = mset ys \<Longrightarrow> status_counts_of xs = status_counts_of ys"
  by (simp add: status_counts_of_def count_where_mset)

lemma pg_life_counts_eq: "pg_life_counts rows = status_counts_of (map (\<lambda>t. (th_status t, th_is_stale t)) rows)"
  unfolding pg_life_counts_def Let_def by (rule status_counts_mset) (rule mset_grouped)

section \<open>The contract\<close>

locale lifecycle_store =
  fixes store_inv :: "'l \<Rightarrow> bool"
    and thread :: "'l \<Rightarrow> app_id \<Rightarrow> thread_record option"
    and create :: "app_id \<Rightarrow> worker_name \<Rightarrow> timestamp \<Rightarrow> 'l \<Rightarrow> thread_record \<times> 'l"
    and set_status :: "timestamp \<Rightarrow> app_id \<Rightarrow> graph_status \<Rightarrow> worker_name option \<Rightarrow> worker_error option \<Rightarrow>
      timestamp \<Rightarrow> 'l \<Rightarrow> py_exn + (thread_record \<times> 'l)"
    and flag_stale :: "timestamp \<Rightarrow> 'l \<Rightarrow> app_id list \<times> 'l"
    and expired :: "timestamp \<Rightarrow> 'l \<Rightarrow> app_id list"
    and delete :: "app_id \<Rightarrow> 'l \<Rightarrow> 'l"
  assumes create_law: "store_inv l \<Longrightarrow> create a first now l = (t, l') \<Longrightarrow>
      store_inv l' \<and>
      (case thread l a of
         Some old \<Rightarrow> t = old \<and> thread l' = thread l
       | None \<Rightarrow> t = new_thread a first now \<and> thread l' = (thread l)(a \<mapsto> t))"
    and set_status_law: "store_inv l \<Longrightarrow> set_status retention a status node err now l =
      (case thread l a of
         None \<Rightarrow> Inl (KeyError a)
       | Some old \<Rightarrow> Inr (with_status retention status node err now old,
           snd (case set_status retention a status node err now l of Inr r \<Rightarrow> r)))"
    and set_status_view: "store_inv l \<Longrightarrow> set_status retention a status node err now l = Inr (t, l') \<Longrightarrow>
      store_inv l' \<and> thread l' = (thread l)(a \<mapsto> t)"
    and flag_stale_law: "store_inv l \<Longrightarrow> flag_stale before l = (flagged, l') \<Longrightarrow>
      store_inv l' \<and>
      (\<forall>a. a \<in> set flagged \<longleftrightarrow> (\<exists>t. thread l a = Some t \<and> stale_before before t)) \<and>
      (\<forall>a. thread l' a = map_option (\<lambda>t. if stale_before before t then t\<lparr>th_is_stale := True\<rparr> else t)
             (thread l a))"
    and expired_law: "store_inv l \<Longrightarrow> a \<in> set (expired now l) \<longleftrightarrow>
      (\<exists>t d. thread l a = Some t \<and> terminal (th_status t) \<and> th_delete_after t = Some d \<and> d \<le> now)"
    and delete_law: "store_inv l \<Longrightarrow> store_inv (delete a l) \<and> thread (delete a l) = (thread l)(a := None)"
begin

text \<open>
  \<open>retained r l\<close>: the deletion date of every thread is its terminal time plus the
  retention, and only terminal threads have one. It is what the check constraint of the
  table demands, and every operation keeps it.
\<close>

definition retained :: "timestamp \<Rightarrow> 'l \<Rightarrow> bool" where
  "retained r l \<longleftrightarrow> store_inv l \<and>
     (\<forall>a t. thread l a = Some t \<longrightarrow>
        (terminal (th_status t) \<longleftrightarrow> th_terminal_at t \<noteq> None) \<and>
        th_delete_after t = map_option (\<lambda>x. x + r) (th_terminal_at t))"

lemma retained_create:
  "retained r l \<Longrightarrow> create a node now l = (t, l') \<Longrightarrow> retained r l'"
  using create_law [of l a node now t l']
  by (auto simp: retained_def new_thread_def split: option.splits if_splits)

lemma retained_set_status:
  assumes "retained r l" and "set_status r a status node err now l = Inr (t, l')"
  shows "retained r l'"
proof -
  from assms have inv: "store_inv l" by (simp add: retained_def)
  have "t = with_status r status node err now old" if "thread l a = Some old" for old
    using set_status_law [OF inv, of r a status node err now] that assms(2) by simp
  moreover have "\<exists>old. thread l a = Some old"
    using set_status_law [OF inv, of r a status node err now] assms(2)
    by (cases "thread l a") auto
  ultimately show ?thesis
    using set_status_view [OF inv assms(2)] assms(1)
    by (auto simp: retained_def with_status_def Let_def split: if_splits)
qed

lemma retained_flag_stale:
  "retained r l \<Longrightarrow> flag_stale before l = (flagged, l') \<Longrightarrow> retained r l'"
  using flag_stale_law [of l before flagged l']
  by (auto simp: retained_def split: if_splits)

lemma retained_delete: "retained r l \<Longrightarrow> retained r (delete a l)"
  using delete_law [of l a] by (auto simp: retained_def split: if_splits)

lemma expired_after_retention:
  assumes "retained r l" and "a \<in> set (expired now l)"
  shows "\<exists>t ended. thread l a = Some t \<and> terminal (th_status t) \<and> th_terminal_at t = Some ended \<and> ended + r \<le> now"
  using assms expired_law [of l a now] by (auto simp: retained_def)

lemma flag_stale_keeps_active:
  "store_inv l \<Longrightarrow> flag_stale before l = (flagged, l') \<Longrightarrow> set (expired now l') = set (expired now l)"
  using flag_stale_law [of l before flagged l']
  by (auto simp: expired_law split: if_splits) (metis stale_before_def)+

end

section \<open>Both stores implement it\<close>

lemma life_flag_stale_get:
  "dict_get (snd (life_flag_stale before l)) a =
     map_option (\<lambda>t. if stale_before before t then t\<lparr>th_is_stale := True\<rparr> else t) (dict_get l a)"
  by (induction l) (auto simp: life_flag_stale_def)

lemma keys_flag_stale: "map fst (snd (life_flag_stale before l)) = map fst l"
  by (auto simp: life_flag_stale_def)

interpretation life: lifecycle_store dict_wf dict_get life_create life_set_status life_flag_stale
  life_expired life_delete
proof (unfold_locales, goal_cases)
  case 1
  then show ?case by (auto simp: life_create_def Let_def update_conv split: option.splits)
next
  case 2
  then show ?case by (simp add: life_set_status_def Let_def split: option.splits)
next
  case 3
  then show ?case by (auto simp: life_set_status_def Let_def update_conv split: option.splits)
next
  case (4 l before flagged l')
  have "dict_wf (snd (life_flag_stale before l))"
    using 4(1) by (simp only: dict_wf_def keys_flag_stale)
  moreover have "a \<in> set flagged \<longleftrightarrow> (\<exists>t. dict_get l a = Some t \<and> stale_before before t)" for a
    using 4 by (force simp: life_flag_stale_def dict_get_in_iff [OF 4(1), symmetric])
  ultimately show ?case using 4(2) life_flag_stale_get [of before l] by auto
next
  case (5 l a now)
  then show ?case
    by (force simp: life_expired_def dict_get_in_iff [symmetric] split: option.splits)
next
  case 6
  then show ?case by (auto simp: life_delete_def fun_eq_iff)
qed

definition table_inv :: "life_table \<Rightarrow> bool" where
  "table_inv rows \<longleftrightarrow> distinct (map th_thread_id rows)"

lemma row_of_iff: "table_inv rows \<Longrightarrow> row_of a rows = Some t \<longleftrightarrow> t \<in> set rows \<and> th_thread_id t = a"
  by (induction rows) (auto simp: row_of_def table_inv_def)

lemma row_of_id: "row_of a rows = Some t \<Longrightarrow> th_thread_id t = a"
  by (auto simp: row_of_def find_Some_iff)

lemma row_of_None: "row_of a rows = None \<longleftrightarrow> a \<notin> set (map th_thread_id rows)"
  by (auto simp: row_of_def find_None_iff)

lemma row_of_append:
  "row_of a (rows @ [t]) =
     (case row_of a rows of Some x \<Rightarrow> Some x | None \<Rightarrow> if th_thread_id t = a then Some t else None)"
  by (induction rows) (auto simp: row_of_def)

lemma row_of_map:
  "(\<And>t. th_thread_id (f t) = th_thread_id t) \<Longrightarrow> row_of a (map f rows) = map_option f (row_of a rows)"
  by (induction rows) (auto simp: row_of_def)

lemma thread_id_with_status [simp]: "th_thread_id (with_status r s n e now t) = th_thread_id t"
  by (simp add: with_status_def Let_def)

interpretation pg_life: lifecycle_store table_inv "\<lambda>rows a. row_of a rows" pg_life_create
  pg_life_set_status pg_life_flag_stale pg_life_expired pg_life_delete
proof (unfold_locales, goal_cases)
  case (1 l a node now t l')
  then show ?case
  proof (cases "row_of a l")
    case None
    then have "a \<notin> set (map th_thread_id l)" by (rule iffD1 [OF row_of_None])
    with None 1 show ?thesis
      by (auto simp: pg_life_create_def Let_def table_inv_def row_of_append new_thread_def fun_eq_iff
          split: option.splits)
  next
    case (Some old)
    with 1 show ?thesis by (auto simp: pg_life_create_def)
  qed
next
  case 2
  then show ?case by (simp add: pg_life_set_status_def split: option.splits)
next
  case (3 l r a status node err now t l')
  let ?f = "\<lambda>t. if th_thread_id t = a then with_status r status node err now t else t"
  from 3(2) obtain old where old: "row_of a l = Some old" "t = with_status r status node err now old"
    and l': "l' = map ?f l"
    by (auto simp: pg_life_set_status_def split: option.splits)
  have "row_of b l' = map_option ?f (row_of b l)" for b unfolding l' by (rule row_of_map) simp
  then have "row_of b l' = (if b = a then Some t else row_of b l)" for b
    using old row_of_id [of b l] by (cases "row_of b l") (auto simp: row_of_id)
  moreover have "table_inv l'"
    using 3(1) by (simp add: l' table_inv_def comp_def if_distrib [of th_thread_id] cong: if_cong)
  ultimately show ?case by (auto simp: fun_eq_iff)
next
  case (4 l before flagged l')
  let ?f = "\<lambda>t. if stale_before before t then t\<lparr>th_is_stale := True\<rparr> else t"
  have "row_of b (map ?f l) = map_option ?f (row_of b l)" for b by (rule row_of_map) simp
  moreover have "table_inv (map ?f l)"
    using 4(1) by (simp add: table_inv_def comp_def if_distrib [of th_thread_id] cong: if_cong)
  moreover have "a \<in> set flagged \<longleftrightarrow> (\<exists>t. row_of a l = Some t \<and> stale_before before t)" for a
    using 4 by (auto simp: pg_life_flag_stale_def row_of_iff)
  ultimately show ?case using 4 by (auto simp: pg_life_flag_stale_def)
next
  case 5
  then show ?case by (force simp: pg_life_expired_def row_of_iff split: option.splits)
next
  case (6 l a)
  then have "table_inv (pg_life_delete a l)"
    by (simp add: table_inv_def pg_life_delete_def distinct_map_filter)
  moreover have "row_of b (pg_life_delete a l) = (if b = a then None else row_of b l)" for b
    by (induction l) (auto simp: pg_life_delete_def row_of_def)
  ultimately show ?case by (auto simp: fun_eq_iff)
qed

end
