(* ===== verification/FM_Policy.thy ===== *)
theory FM_Policy
  imports FM_Prelude
begin

text \<open>
  The shared production guardrail policy (\<open>security/policy.py\<close>): the record of every
  section, the limits each section must satisfy, and the hash check of the loader. Also the
  receipt signer of \<open>security/receipts.py\<close>.
\<close>

section \<open>Sections\<close>

record resource_policy =
  rp_max_pdf_bytes :: int
  rp_max_batch_bytes :: int
  rp_max_pages :: int
  rp_max_batch_documents :: int
  rp_parse_timeout_seconds :: int
  rp_max_concurrent_batches :: int

definition batch_can_hold_one_document :: "resource_policy \<Rightarrow> py_exn + resource_policy" where
  "batch_can_hold_one_document r =
     ebind (ensure (0 < rp_max_pdf_bytes r \<and> 0 < rp_max_batch_bytes r \<and> 0 < rp_max_pages r \<and>
       0 < rp_max_batch_documents r \<and> 0 < rp_parse_timeout_seconds r \<and> 0 < rp_max_concurrent_batches r)
       (ValueError ''validation error'')) (\<lambda>_.
     ebind (ensure (rp_max_pdf_bytes r \<le> rp_max_batch_bytes r)
       (ValueError ''max_batch_bytes must be at least max_pdf_bytes'')) (\<lambda>_. Inr r))"

record service_auth_policy =
  sa_issuer :: string
  sa_audience :: string
  sa_maximum_token_age_seconds :: int
  sa_required_correlation_header :: string

definition valid_service_auth :: "service_auth_policy \<Rightarrow> bool" where
  "valid_service_auth p \<longleftrightarrow> sa_issuer p \<noteq> [] \<and> sa_audience p \<noteq> [] \<and>
     0 < sa_maximum_token_age_seconds p \<and> sa_maximum_token_age_seconds p \<le> 300 \<and>
     sa_required_correlation_header p \<noteq> []"

record dlp_policy =
  dl_enabled :: bool
  dl_replacement :: string
  dl_protected_kinds :: "string list"
  dl_instruction_patterns :: "string list"

definition valid_dlp :: "dlp_policy \<Rightarrow> bool" where
  "valid_dlp p \<longleftrightarrow> dl_protected_kinds p \<noteq> [] \<and> dl_instruction_patterns p \<noteq> []"

record retention_policy =
  rt_terminal_days :: int
  rt_quarantine_days :: int

definition valid_retention :: "retention_policy \<Rightarrow> bool" where
  "valid_retention p \<longleftrightarrow> 0 < rt_terminal_days p \<and> 0 < rt_quarantine_days p"

record worker_execution_policy =
  wx_permitted_tools :: "string list"
  wx_max_calls :: nat
  wx_call_timeout_seconds :: nat
  wx_worker_deadline_seconds :: nat
  wx_max_attempts :: nat
  wx_backoff_seconds :: rat
  wx_side_effects :: "string list"

definition valid_execution_policy :: "worker_execution_policy \<Rightarrow> bool" where
  "valid_execution_policy p \<longleftrightarrow> 0 < wx_max_calls p \<and> 0 < wx_call_timeout_seconds p \<and>
     0 < wx_worker_deadline_seconds p \<and> 0 < wx_max_attempts p \<and> 0 \<le> wx_backoff_seconds p"

record api_limit_policy =
  al_requests :: nat
  al_window_seconds :: nat
  al_max_concurrent :: nat
  al_concurrency_lease_seconds :: nat

definition valid_api_limit :: "api_limit_policy \<Rightarrow> bool" where
  "valid_api_limit p \<longleftrightarrow> 0 < al_requests p \<and> 0 < al_window_seconds p \<and> 0 < al_max_concurrent p \<and>
     0 < al_concurrency_lease_seconds p"

record precedent_policy =
  pp_default_validity_days :: int
  pp_require_human_decision :: bool

record brand_policy =
  bp_required_notice :: string
  bp_prohibited_terms :: "string list"

definition valid_brand :: "brand_policy \<Rightarrow> bool" where
  "valid_brand p \<longleftrightarrow> bp_required_notice p \<noteq> [] \<and> bp_prohibited_terms p \<noteq> []"

record production_policy =
  po_version :: string
  po_permitted_metric_ids :: "(string \<times> string) list"
  po_resources :: resource_policy
  po_service_auth :: service_auth_policy
  po_dlp :: dlp_policy
  po_retention :: retention_policy
  po_workers :: "(string \<times> worker_execution_policy) list"
  po_api_limits :: "(string \<times> api_limit_policy) list"
  po_precedent :: precedent_policy
  po_brand :: brand_policy
  po_policy_hash :: string

definition validate_policy :: "production_policy \<Rightarrow> py_exn + production_policy" where
  "validate_policy p =
     ebind (batch_can_hold_one_document (po_resources p)) (\<lambda>_.
     ebind (ensure (valid_service_auth (po_service_auth p) \<and> valid_dlp (po_dlp p) \<and>
         valid_retention (po_retention p) \<and> list_all (\<lambda>(_, w). valid_execution_policy w) (po_workers p) \<and>
         list_all (\<lambda>(_, l). valid_api_limit l) (po_api_limits p) \<and>
         0 < pp_default_validity_days (po_precedent p) \<and> valid_brand (po_brand p))
       (ValueError ''validation error'')) (\<lambda>_. Inr p))"

section \<open>Loading\<close>

text \<open>
  The parsed document: not a mapping (\<open>None\<close>), or its \<open>policy_hash\<close> entry and the rest of it.
  \<open>canonical_sha256\<close> is the digest of the sorted JSON rendering of the rest.
\<close>

type_synonym policy_document = "(string option \<times> production_policy) option"

definition from_yaml :: "(production_policy \<Rightarrow> string) \<Rightarrow> policy_document \<Rightarrow> py_exn + production_policy" where
  "from_yaml canonical_sha256 document =
     (case document of
        None \<Rightarrow> Inl (ValueError ''production guardrail policy must be a mapping'')
      | Some (supplied_hash, payload) \<Rightarrow>
          (let calculated = canonical_sha256 payload in
           ebind (ensure (case supplied_hash of None \<Rightarrow> True | Some h \<Rightarrow> h = [] \<or> h = calculated)
             (ValueError ''production guardrail policy hash mismatch'')) (\<lambda>_.
           validate_policy (payload\<lparr>po_policy_hash := calculated\<rparr>))))"

lemma validate_policy_Inr: "validate_policy p = Inr q \<Longrightarrow> q = p"
  by (auto simp: validate_policy_def result_elims)

lemma from_yaml_hash:
  "from_yaml canonical_sha256 (Some (supplied, payload)) = Inr p \<Longrightarrow>
     p = payload\<lparr>po_policy_hash := canonical_sha256 payload\<rparr> \<and>
     (supplied = None \<or> supplied = Some [] \<or> supplied = Some (po_policy_hash p))"
  by (auto simp: from_yaml_def Let_def result_elims dest!: validate_policy_Inr split: option.splits)

lemma from_yaml_limits:
  "from_yaml canonical_sha256 document = Inr p \<Longrightarrow> (k, w) \<in> set (po_workers p) \<Longrightarrow> valid_execution_policy w"
  by (force simp: from_yaml_def validate_policy_def Let_def result_elims list_all_iff split: option.splits)

section \<open>Receipt signatures\<close>

definition receipt_signer :: "(string \<Rightarrow> 'p \<Rightarrow> string) \<Rightarrow> string \<Rightarrow> py_exn + ('p \<Rightarrow> string)" where
  "receipt_signer hmac secret =
     (if length secret < 32
      then Inl (ValueError ''receipt signing secret must contain at least 32 characters'')
      else Inr (hmac secret))"

definition signer_verify :: "('p \<Rightarrow> string) \<Rightarrow> 'p \<Rightarrow> string \<Rightarrow> bool" where
  "signer_verify sign payload signature \<longleftrightarrow> sign payload = signature"

end
