(* ===== verification/FM_Observability.thy ===== *)
theory FM_Observability
  imports FM_Agent_Schema
begin

text \<open>
  Telemetry (\<open>orchestration/observability.py\<close>): the span, whose fields cannot hold borrower
  content, the check for forbidden keys, and the recorders. A recorder maps the world to an
  optional exception and the world it leaves; the exporter to OpenTelemetry is such a
  parameter.
\<close>

record agent_span =
  sp_application_id :: app_id
  sp_job_id :: "string option"
  sp_run_id :: string
  sp_thread_id :: string
  sp_checkpoint_id :: "string option"
  sp_worker :: "worker_name option"
  sp_attempt :: nat
  sp_latency_ms :: rat
  sp_status :: graph_status
  sp_model_revision :: "string option"
  sp_config_hash :: "string option"
  sp_prompt_template_id :: "string option"
  sp_prompt_version :: "string option"
  sp_prompt_sha256 :: "string option"
  sp_document_count :: nat
  sp_evidence_count :: nat
  sp_candidate_count :: nat
  sp_guardrail_code :: "string option"
  sp_error_code :: "string option"
  sp_event :: string

definition FORBIDDEN_TRACE_KEYS :: "string list" where
  "FORBIDDEN_TRACE_KEYS = [''borrower_name'', ''financial_value'', ''pdf'', ''text'', ''prompt'', ''answer'',
     ''messages'', ''checkpoint_state'', ''exception'', ''credential'', ''token'']"

text \<open>The keys of a dumped span.\<close>

definition span_keys :: "string list" where
  "span_keys = [''span_id'', ''application_id'', ''job_id'', ''run_id'', ''thread_id'', ''checkpoint_id'',
     ''worker'', ''attempt'', ''latency_ms'', ''status'', ''model_revision'', ''config_hash'',
     ''prompt_template_id'', ''prompt_version'', ''prompt_sha256'', ''eval_dataset_sha256'',
     ''document_count'', ''evidence_count'', ''candidate_count'', ''guardrail_code'', ''error_code'',
     ''event'', ''occurred_at'']"

definition assert_trace_is_content_safe :: "string list \<Rightarrow> py_exn + unit" where
  "assert_trace_is_content_safe payload_keys =
     (if list_ex (\<lambda>k. casefold k \<in> set FORBIDDEN_TRACE_KEYS) payload_keys
      then Inl (ValueError ''forbidden trace fields'') else Inr ())"

type_synonym 'w recorder = "agent_span \<Rightarrow> 'w \<Rightarrow> py_exn option \<times> 'w"

definition noop_record :: "'w recorder" where
  "noop_record event w = (None, w)"

definition jsonl_record :: "(agent_span \<Rightarrow> 'w \<Rightarrow> py_exn option \<times> 'w) \<Rightarrow> 'w recorder" where
  "jsonl_record append_line event w =
     (case assert_trace_is_content_safe span_keys of
        Inl e \<Rightarrow> (Some e, w)
      | Inr _ \<Rightarrow> append_line event w)"

definition safe_record :: "'w recorder \<Rightarrow> 'w recorder" where
  "safe_record recorder event w = (None, snd (recorder event w))"

definition composite_record :: "'w recorder list \<Rightarrow> 'w recorder" where
  "composite_record recorders event w = (None, fold (\<lambda>r w. snd (safe_record r event w)) recorders w)"

lemma span_content_safe: "assert_trace_is_content_safe span_keys = Inr ()"
  by code_simp

lemma jsonl_record_appends: "jsonl_record append_line event w = append_line event w"
  by (simp add: jsonl_record_def span_content_safe)

lemma composite_never_raises: "fst (composite_record recorders event w) = None"
  by (simp add: composite_record_def)

end
