(* ===== verification/FM_Graph.thy ===== *)
theory FM_Graph
  imports FM_Context FM_Lifecycle FM_Policy FM_Observability
begin

text \<open>
  The checkpointed supervisor (\<open>ApplicationMemoryGraph\<close> in \<open>orchestration/graph.py\<close>): one
  worker for each super-step, the update after a success and after each kind of failure, and
  the operations of the class over the checkpoints, the lifecycle store and the world.

  LangGraph is not part of the repository. What the class relies on is its documented
  behaviour: an input is merged into the thread's checkpoint and saved, the node runs until
  the route is \<open>stop\<close>, each of its updates is saved, an exception of the node leaves the last
  saved checkpoint, and a run longer than the recursion limit raises.
\<close>

section \<open>Configuration\<close>

record activity =
  ac_application_id :: app_id
  ac_stage :: string
  ac_worker :: worker_name
  ac_attempt :: nat
  ac_error_code :: "string option"
  ac_retryable :: "bool option"
  ac_guardrail_code :: "string option"

text \<open>
  The workers, the clock, the activity callback, the recorder and the retention cleanup are
  parameters. A worker is awaited under the deadline of its policy, when there is one.
\<close>

record 'w graph_env =
  ge_order :: "worker_name list"
  ge_max_tool_calls :: nat
  ge_policies :: "(string \<times> worker_execution_policy) list"
  ge_policy_hash :: "string option"
  ge_signer :: "(signed_part \<Rightarrow> string) option"
  ge_run :: "worker_name \<Rightarrow> nat option \<Rightarrow> memory_state \<Rightarrow> ('w, worker_result) job"
  ge_activity :: "(activity \<Rightarrow> 'w \<Rightarrow> py_exn option \<times> 'w) option"
  ge_recorder :: "'w recorder"
  ge_cleanup :: "(app_id \<Rightarrow> ('w, py_exn, unit) io) option"
  ge_clock :: "'w \<Rightarrow> timestamp"
  ge_latency :: "'w \<Rightarrow> rat"
  ge_sleep :: "rat \<Rightarrow> 'w \<Rightarrow> 'w"
  ge_run_id :: "'w \<Rightarrow> string"
  ge_checkpoint_id :: "app_id \<Rightarrow> 'w \<Rightarrow> string option"
  ge_uuid5 :: "string \<Rightarrow> uuid"
  ge_dump_size :: "memory_state \<Rightarrow> nat"
  ge_recursion_limit :: nat
  ge_retention :: timestamp

definition check_order :: "worker_name list \<Rightarrow> py_exn + worker_name list" where
  "check_order order =
     ebind (ensure (order \<noteq> []) (ValueError ''at least one application worker is required'')) (\<lambda>_.
     ebind (ensure (distinct order) (ValueError ''application worker names must be unique'')) (\<lambda>_. Inr order))"

definition execution_policy :: "'w graph_env \<Rightarrow> worker_name \<Rightarrow> worker_execution_policy option" where
  "execution_policy env worker = dict_get (ge_policies env) (worker_value worker)"

section \<open>One super-step\<close>

definition notify_activity :: "'w graph_env \<Rightarrow> activity \<Rightarrow> 'w \<Rightarrow> 'w" where
  "notify_activity env a w = (case ge_activity env of None \<Rightarrow> w | Some f \<Rightarrow> snd (f a w))"

definition record_span :: "'w graph_env \<Rightarrow> agent_span \<Rightarrow> ('w, py_exn, unit) io" where
  "record_span env event w =
     (case ge_recorder env event w of (Some e, w') \<Rightarrow> (Inl e, w') | (None, w') \<Rightarrow> (Inr (), w'))"

definition candidate_count :: "memory_state \<Rightarrow> nat" where
  "candidate_count s = length (filter el_eligible (ms_eligibility s))"

definition worker_span ::
  "memory_state \<Rightarrow> worker_name \<Rightarrow> nat \<Rightarrow> graph_status \<Rightarrow> rat \<Rightarrow> string option \<Rightarrow> agent_span" where
  "worker_span s worker attempt status latency code =
     \<lparr>sp_application_id = ms_application_id s, sp_job_id = ms_job_id s,
      sp_run_id = (case command_id_for s worker of None \<Rightarrow> [] | Some c \<Rightarrow> c),
      sp_thread_id = ms_application_id s, sp_checkpoint_id = None, sp_worker = Some worker,
      sp_attempt = attempt, sp_latency_ms = latency, sp_status = status,
      sp_model_revision = ms_model_revision s, sp_config_hash = ms_config_hash s,
      sp_prompt_template_id = None, sp_prompt_version = None, sp_prompt_sha256 = None,
      sp_document_count = length (ms_documents s), sp_evidence_count = length (ms_evidence s),
      sp_candidate_count = candidate_count s,
      sp_guardrail_code = (if worker = GUARDRAILS then code else None), sp_error_code = code,
      sp_event = ''worker_attempt''\<rparr>"

definition make_context ::
  "'w graph_env \<Rightarrow> memory_state \<Rightarrow> worker_name \<Rightarrow> py_exn + worker_context" where
  "make_context env s worker =
     (case command_id_for s worker of
        None \<Rightarrow> Inl (OtherException ''StopIteration'')
      | Some c \<Rightarrow>
          (let policy = execution_policy env worker in
           Inr \<lparr>cx_application_id = ms_application_id s, cx_command_id = c,
             cx_max_tool_calls = (case policy of None \<Rightarrow> ge_max_tool_calls env | Some p \<Rightarrow> wx_max_calls p),
             cx_permitted_tools = map_option wx_permitted_tools policy,
             cx_call_timeout = map_option wx_call_timeout_seconds policy,
             cx_tool_calls = 0, cx_tools = []\<rparr>))"

definition attempt_limit_exceeded :: worker_exn where
  "attempt_limit_exceeded =
     WFailure ''worker_attempt_limit_exceeded'' ''worker exceeded its production attempt limit'' False False"

definition identity_mismatch :: worker_exn where
  "identity_mismatch =
     WFailure ''worker_identity_mismatch'' ''worker returned a result for a different stage'' False False"

text \<open>The body of the \<open>try\<close> block: the attempt limit, the worker, the identity check.\<close>

definition attempt_worker ::
  "'w graph_env \<Rightarrow> memory_state \<Rightarrow> worker_name \<Rightarrow> nat \<Rightarrow> ('w, worker_result) job" where
  "attempt_worker env s worker attempt =
     io_bind (io_ensure (case execution_policy env worker of None \<Rightarrow> True | Some p \<Rightarrow> attempt \<le> wx_max_attempts p)
       attempt_limit_exceeded) (\<lambda>_.
     io_bind (io_ensure (worker \<in> set (ge_order env)) (WPy (KeyError (worker_value worker)))) (\<lambda>_.
     io_bind (ge_run env worker (map_option wx_worker_deadline_seconds (execution_policy env worker)) s) (\<lambda>r.
     io_bind (io_ensure (rs_worker r = worker) identity_mismatch) (\<lambda>_. io_ret r))))"

definition make_worker_error ::
  "timestamp \<Rightarrow> worker_name \<Rightarrow> string \<Rightarrow> string \<Rightarrow> bool \<Rightarrow> py_exn + worker_error" where
  "make_worker_error now worker code msg retryable =
     ebind (ensure (code \<noteq> [] \<and> length code \<le> 120 \<and> msg \<noteq> [] \<and> length msg \<le> 500)
       (ValueError ''validation error'')) (\<lambda>_.
     Inr \<lparr>we_worker = worker, we_code = code, we_message = msg, we_retryable = retryable,
       we_occurred_at = now\<rparr>)"

definition failure_update ::
  "timestamp \<Rightarrow> memory_state \<Rightarrow> nat \<Rightarrow> graph_status \<Rightarrow> string \<Rightarrow> string \<Rightarrow> bool \<Rightarrow> py_exn + memory_state" where
  "failure_update now s attempt status code msg retryable =
     ebind (make_worker_error now (ms_current_node s) code msg retryable) (\<lambda>e.
     Inr (s\<lparr>ms_attempts := dict_set (ms_current_node s) attempt (ms_attempts s), ms_status := status,
         ms_last_error := Some e\<rparr>))"

definition failure_status :: "bool \<Rightarrow> bool \<Rightarrow> graph_status" where
  "failure_status attention retryable =
     (if attention then NEEDS_ATTENTION else if retryable then FAILED_RETRYABLE else FAILED_TERMINAL)"

definition failed_activity ::
  "memory_state \<Rightarrow> worker_name \<Rightarrow> nat \<Rightarrow> string \<Rightarrow> bool \<Rightarrow> string option \<Rightarrow> activity" where
  "failed_activity s worker attempt code retryable guardrail =
     \<lparr>ac_application_id = ms_application_id s, ac_stage = ''worker_failed'', ac_worker = worker,
      ac_attempt = attempt, ac_error_code = Some code, ac_retryable = Some retryable,
      ac_guardrail_code = guardrail\<rparr>"

text \<open>The three \<open>except\<close> clauses. Only the deadline leaves neither a span nor an activity.\<close>

fun handle_failure ::
  "'w graph_env \<Rightarrow> memory_state \<Rightarrow> worker_name \<Rightarrow> nat \<Rightarrow> worker_exn \<Rightarrow> ('w, py_exn, memory_state) io" where
  "handle_failure env s worker attempt (WFailure code msg retryable attention) w =
     (let status = failure_status attention retryable in
      io_bind (io_lift (failure_update (ge_clock env w) s attempt status code msg retryable)) (\<lambda>update.
      io_bind (record_span env (worker_span s worker attempt status (ge_latency env w) (Some code))) (\<lambda>_ w1.
      (Inr update, notify_activity env
        (failed_activity s worker attempt code retryable (if worker = GUARDRAILS then Some code else None)) w1))) w)"
| "handle_failure env s worker attempt WTimeout w =
     io_lift (failure_update (ge_clock env w) s attempt FAILED_RETRYABLE ''worker_deadline_exceeded''
       ''worker exceeded its production deadline'' True) w"
| "handle_failure env s worker attempt (WPy _) w =
     io_bind (io_lift (failure_update (ge_clock env w) s attempt FAILED_RETRYABLE ''worker_failed''
       ''worker failed without exposing private error details'' True)) (\<lambda>update.
     io_bind (record_span env (worker_span s worker attempt FAILED_RETRYABLE (ge_latency env w)
       (Some ''worker_failed''))) (\<lambda>_ w1.
     (Inr update, notify_activity env
       (failed_activity s worker attempt ''worker_failed'' True None) w1))) w"

definition make_receipt ::
  "'w graph_env \<Rightarrow> memory_state \<Rightarrow> worker_result \<Rightarrow> nat \<Rightarrow> string list \<Rightarrow> rat \<Rightarrow> timestamp \<Rightarrow>
   py_exn + worker_receipt" where
  "make_receipt env s r attempt tools latency now =
     (case command_id_for s (rs_worker r) of
        None \<Rightarrow> Inl (OtherException ''StopIteration'')
      | Some c \<Rightarrow>
          ebind (ensure (hex_sha256 (rs_output_sha256 r) \<and> 1 \<le> attempt \<and> length tools \<le> 20 \<and> 0 \<le> latency)
            (ValueError ''validation error'')) (\<lambda>_.
          let receipt = \<lparr>wp_worker = rs_worker r, wp_command_id = c, wp_output_sha256 = rs_output_sha256 r,
             wp_attempt = attempt, wp_tool_calls = tools, wp_latency_ms = latency,
             wp_policy_hash = ge_policy_hash env, wp_signature = None, wp_completed_at = now\<rparr> in
          Inr (receipt\<lparr>wp_signature := map_option (\<lambda>sign. sign (signed_payload receipt)) (ge_signer env)\<rparr>)))"

definition success_update ::
  "'w graph_env \<Rightarrow> memory_state \<Rightarrow> worker_result \<Rightarrow> nat \<Rightarrow> string list \<Rightarrow> rat \<Rightarrow> timestamp \<Rightarrow>
   py_exn + memory_state" where
  "success_update env s r attempt tools latency now =
     ebind (make_receipt env s r attempt tools latency now) (\<lambda>receipt.
     let completed = ms_completed s @ [rs_worker r];
         pending = filter (\<lambda>x. x \<notin> set completed) (ge_order env) in
     Inr (s\<lparr>ms_status := (if pending \<noteq> [] then RUNNING else WAITING_FOR_REVIEW),
       ms_current_node := (if pending \<noteq> [] then hd pending else rs_worker r),
       ms_completed := completed,
       ms_pending := pending,
       ms_attempts := dict_set (rs_worker r) attempt (ms_attempts s),
       ms_worker_receipts := ms_worker_receipts s @ [receipt],
       ms_write_receipts := ms_write_receipts s @ rs_write_receipts r,
       ms_last_error := None,
       ms_documents := (case rs_documents r of None \<Rightarrow> ms_documents s | Some v \<Rightarrow> v),
       ms_evidence := (case rs_evidence r of None \<Rightarrow> ms_evidence s | Some v \<Rightarrow> v),
       ms_eligibility := (case rs_eligibility r of None \<Rightarrow> ms_eligibility s | Some v \<Rightarrow> v),
       ms_guardrails := (case rs_guardrails r of None \<Rightarrow> ms_guardrails s | Some v \<Rightarrow> v),
       ms_human_review := (case rs_human_review r of None \<Rightarrow> ms_human_review s | Some v \<Rightarrow> Some v),
       ms_workflow_state := (case rs_workflow_state r of None \<Rightarrow> ms_workflow_state s | Some v \<Rightarrow> Some v),
       ms_workflow_version := (case rs_workflow_version r of None \<Rightarrow> ms_workflow_version s | Some v \<Rightarrow> Some v),
       ms_config_hash := (case rs_config_hash r of None \<Rightarrow> ms_config_hash s | Some v \<Rightarrow> Some v),
       ms_model_revision := (case rs_model_revision r of None \<Rightarrow> ms_model_revision s | Some v \<Rightarrow> Some v)\<rparr>))"

definition stage_activity :: "memory_state \<Rightarrow> string \<Rightarrow> worker_name \<Rightarrow> nat \<Rightarrow> activity" where
  "stage_activity s stage worker attempt =
     \<lparr>ac_application_id = ms_application_id s, ac_stage = stage, ac_worker = worker, ac_attempt = attempt,
      ac_error_code = None, ac_retryable = None, ac_guardrail_code = None\<rparr>"

definition run_worker :: "'w graph_env \<Rightarrow> memory_state \<Rightarrow> ('w, py_exn, memory_state) io" where
  "run_worker env raw =
     io_bind (io_lift (validate_compact_state (ge_dump_size env) raw)) (\<lambda>s.
     let worker = ms_current_node s; attempt = attempts_of s worker + 1 in
     io_bind (io_lift (make_context env s worker)) (\<lambda>context w.
     let w1 = notify_activity env (stage_activity s (worker_value worker) worker attempt) w in
     (case attempt_worker env s worker attempt (context, w1) of
        (Inl e, _, w2) \<Rightarrow> handle_failure env s worker attempt e w2
      | (Inr r, context', w2) \<Rightarrow>
          io_bind (io_lift (success_update env s r attempt (cx_tools context') (ge_latency env w2)
            (ge_clock env w2))) (\<lambda>update.
          io_bind (io_lift (validate_compact_state (ge_dump_size env) update)) (\<lambda>updated.
          io_bind (record_span env (worker_span updated worker attempt (ms_status updated)
            (ge_latency env w2) None)) (\<lambda>_ w3.
          (Inr updated, notify_activity env (stage_activity s ''worker_checkpoint'' worker attempt) w3)))) w2)))"

section \<open>The run\<close>

definition route :: "memory_state \<Rightarrow> string" where
  "route s = (if ms_status s = RUNNING then ''continue'' else ''stop'')"

text \<open>The exception the run ended with, the last saved checkpoint, and the world.\<close>

fun graph_loop :: "'w graph_env \<Rightarrow> nat \<Rightarrow> memory_state \<Rightarrow> 'w \<Rightarrow> py_exn option \<times> memory_state \<times> 'w" where
  "graph_loop env 0 s w = (Some (OtherException ''GraphRecursionError''), s, w)"
| "graph_loop env (Suc n) s w =
     (case run_worker env s w of
        (Inl e, w') \<Rightarrow> (Some e, s, w')
      | (Inr s', w') \<Rightarrow> if route s' = ''continue'' then graph_loop env n s' w' else (None, s', w'))"

record 'l life_ops =
  lo_create :: "app_id \<Rightarrow> worker_name \<Rightarrow> timestamp \<Rightarrow> 'l \<Rightarrow> thread_record \<times> 'l"
  lo_get :: "app_id \<Rightarrow> 'l \<Rightarrow> py_exn + thread_record"
  lo_set_status :: "timestamp \<Rightarrow> app_id \<Rightarrow> graph_status \<Rightarrow> worker_name option \<Rightarrow> worker_error option \<Rightarrow>
    timestamp \<Rightarrow> 'l \<Rightarrow> py_exn + (thread_record \<times> 'l)"
  lo_flag_stale :: "timestamp \<Rightarrow> 'l \<Rightarrow> app_id list \<times> 'l"
  lo_expired :: "timestamp \<Rightarrow> 'l \<Rightarrow> app_id list"
  lo_delete :: "app_id \<Rightarrow> 'l \<Rightarrow> 'l"
  lo_counts :: "'l \<Rightarrow> status_counts"

definition memory_life_ops :: "life_store life_ops" where
  "memory_life_ops = \<lparr>lo_create = life_create, lo_get = life_get, lo_set_status = life_set_status,
     lo_flag_stale = life_flag_stale, lo_expired = life_expired, lo_delete = life_delete,
     lo_counts = life_counts\<rparr>"

definition postgres_life_ops :: "life_table life_ops" where
  "postgres_life_ops = \<lparr>lo_create = pg_life_create, lo_get = pg_life_get, lo_set_status = pg_life_set_status,
     lo_flag_stale = pg_life_flag_stale, lo_expired = pg_life_expired, lo_delete = pg_life_delete,
     lo_counts = pg_life_counts\<rparr>"

record ('w, 'l) graph_state =
  gr_checkpoints :: "(app_id \<times> memory_state) list"
  gr_lifecycle :: 'l
  gr_world :: 'w

definition save_checkpoint :: "app_id \<Rightarrow> memory_state \<Rightarrow> ('w, 'l) graph_state \<Rightarrow> ('w, 'l) graph_state" where
  "save_checkpoint app s g = g\<lparr>gr_checkpoints := dict_set app s (gr_checkpoints g)\<rparr>"

definition life_status ::
  "'w graph_env \<Rightarrow> 'l life_ops \<Rightarrow> app_id \<Rightarrow> graph_status \<Rightarrow> worker_name \<Rightarrow> worker_error option \<Rightarrow>
   (('w, 'l) graph_state, py_exn, unit) io" where
  "life_status env ops app status node err g =
     (case lo_set_status ops (ge_retention env) app status (Some node) err (ge_clock env (gr_world g))
        (gr_lifecycle g) of
        Inl e \<Rightarrow> (Inl e, g)
      | Inr (_, l) \<Rightarrow> (Inr (), g\<lparr>gr_lifecycle := l\<rparr>))"

definition supervisor_span :: "memory_state \<Rightarrow> string \<Rightarrow> string option \<Rightarrow> rat \<Rightarrow> agent_span" where
  "supervisor_span s run_id checkpoint latency =
     \<lparr>sp_application_id = ms_application_id s, sp_job_id = ms_job_id s, sp_run_id = run_id,
      sp_thread_id = ms_application_id s, sp_checkpoint_id = checkpoint, sp_worker = None,
      sp_attempt = sum_list (map snd (ms_attempts s)), sp_latency_ms = latency,
      sp_status = ms_status s, sp_model_revision = ms_model_revision s,
      sp_config_hash = ms_config_hash s,
      sp_prompt_template_id = None, sp_prompt_version = None, sp_prompt_sha256 = None,
      sp_document_count = length (ms_documents s),
      sp_evidence_count = length (ms_evidence s), sp_candidate_count = candidate_count s,
      sp_guardrail_code = (case find (\<lambda>i. \<not> gu_passed i) (ms_guardrails s) of None \<Rightarrow> None | Some i \<Rightarrow> gu_code i),
      sp_error_code = map_option we_code (ms_last_error s), sp_event = ''supervisor_run''\<rparr>"

definition in_world :: "('w, py_exn, 'a) io \<Rightarrow> (('w, 'l) graph_state, py_exn, 'a) io" where
  "in_world m g = (case m (gr_world g) of (r, w) \<Rightarrow> (r, g\<lparr>gr_world := w\<rparr>))"

definition invoke ::
  "'w graph_env \<Rightarrow> 'l life_ops \<Rightarrow> app_id \<Rightarrow> memory_state \<Rightarrow>
   (('w, 'l) graph_state, py_exn, memory_state) io" where
  "invoke env ops app merged g =
     (case graph_loop env (ge_recursion_limit env) merged (gr_world g) of
        (exn, final, w) \<Rightarrow>
          (let g1 = (save_checkpoint app final g)\<lparr>gr_world := w\<rparr> in
           case exn of
             Some e \<Rightarrow> (Inl e, g1)
           | None \<Rightarrow>
               io_bind (io_lift (validate_compact_state (ge_dump_size env) final)) (\<lambda>s.
               io_bind (io_ensure (ms_application_id s = app)
                 (RuntimeError ''worker attempted to cross an application boundary'')) (\<lambda>_.
               io_bind (life_status env ops app (ms_status s) (ms_current_node s) (ms_last_error s)) (\<lambda>_.
               io_bind (in_world (record_span env (supervisor_span s (ge_run_id env w)
                 (ge_checkpoint_id env app w) (ge_latency env w)))) (\<lambda>_.
               io_ret s)))) g1))"

section \<open>Operations\<close>

definition state_or_none ::
  "'w graph_env \<Rightarrow> app_id \<Rightarrow> ('w, 'l) graph_state \<Rightarrow> py_exn + memory_state option" where
  "state_or_none env app g =
     (case dict_get (gr_checkpoints g) app of
        None \<Rightarrow> Inr None
      | Some s \<Rightarrow> ebind (validate_compact_state (ge_dump_size env) s) (\<lambda>s. Inr (Some s)))"

definition state_of ::
  "'w graph_env \<Rightarrow> app_id \<Rightarrow> ('w, 'l) graph_state \<Rightarrow> py_exn + memory_state" where
  "state_of env app g =
     ebind (state_or_none env app g) (\<lambda>r.
     (case r of
        None \<Rightarrow> Inl (KeyError app)
      | Some s \<Rightarrow>
          ebind (ensure (ms_application_id s = app)
            (RuntimeError ''checkpoint application isolation violation'')) (\<lambda>_. Inr s)))"

definition start ::
  "'w graph_env \<Rightarrow> 'l life_ops \<Rightarrow> app_id \<Rightarrow> string option \<Rightarrow> input_reference list \<Rightarrow>
   (('w, 'l) graph_state, py_exn, memory_state) io" where
  "start env ops app job_id inputs g =
     io_bind (io_lift (state_or_none env app g)) (\<lambda>existing.
     (case existing of
        Some s \<Rightarrow> io_ret s
      | None \<Rightarrow>
          io_bind (io_lift (initial_state (ge_dump_size env) (ge_uuid5 env) app (ge_order env) job_id inputs))
            (\<lambda>initial g.
          invoke env ops app initial
            (g\<lparr>gr_lifecycle := snd (lo_create ops app (ms_current_node initial)
               (ge_clock env (gr_world g)) (gr_lifecycle g))\<rparr>)))) g"

text \<open>The update of a thread outside a run: the checkpoint first, then the lifecycle record.\<close>

definition update_thread ::
  "'w graph_env \<Rightarrow> 'l life_ops \<Rightarrow> app_id \<Rightarrow> memory_state \<Rightarrow> (('w, 'l) graph_state, py_exn, memory_state) io" where
  "update_thread env ops app updated g =
     io_bind (life_status env ops app (ms_status updated) (ms_current_node updated) (ms_last_error updated))
       (\<lambda>_. io_ret updated) (save_checkpoint app updated g)"

definition mark_terminal ::
  "'w graph_env \<Rightarrow> 'l life_ops \<Rightarrow> app_id \<Rightarrow> graph_status \<Rightarrow> (('w, 'l) graph_state, py_exn, memory_state) io" where
  "mark_terminal env ops app status g =
     io_bind (io_ensure (terminal status) (ValueError ''mark_terminal requires a terminal graph status'')) (\<lambda>_.
     io_bind (io_lift (state_of env app g)) (\<lambda>current.
     update_thread env ops app (current\<lparr>ms_status := status, ms_last_error := None\<rparr>))) g"

definition complete_after_writeback ::
  "'w graph_env \<Rightarrow> 'l life_ops \<Rightarrow> app_id \<Rightarrow> write_receipt \<Rightarrow> (('w, 'l) graph_state, py_exn, memory_state) io" where
  "complete_after_writeback env ops app receipt g =
     io_bind (io_lift (state_of env app g)) (\<lambda>current.
     if ms_status current = COMPLETED then io_ret current
     else update_thread env ops app (current\<lparr>ms_status := COMPLETED,
       ms_write_receipts := ms_write_receipts current @ [receipt], ms_last_error := None\<rparr>)) g"

definition mark_needs_attention ::
  "'w graph_env \<Rightarrow> 'l life_ops \<Rightarrow> app_id \<Rightarrow> string \<Rightarrow> (('w, 'l) graph_state, py_exn, memory_state) io" where
  "mark_needs_attention env ops app code g =
     io_bind (io_lift (state_of env app g)) (\<lambda>current.
     io_bind (io_lift (make_worker_error (ge_clock env (gr_world g)) (ms_current_node current) code
       ''Supervisor routing requires an explicit reviewer-selected stage'' False)) (\<lambda>err.
     update_thread env ops app (current\<lparr>ms_status := NEEDS_ATTENTION, ms_last_error := Some err\<rparr>))) g"

definition mark_retryable ::
  "'w graph_env \<Rightarrow> 'l life_ops \<Rightarrow> app_id \<Rightarrow> string \<Rightarrow> string \<Rightarrow>
   (('w, 'l) graph_state, py_exn, memory_state) io" where
  "mark_retryable env ops app code msg g =
     io_bind (io_lift (state_of env app g)) (\<lambda>current.
     io_bind (io_lift (make_worker_error (ge_clock env (gr_world g)) (ms_current_node current) code msg True)) (\<lambda>err.
     update_thread env ops app (current\<lparr>ms_status := FAILED_RETRYABLE, ms_last_error := Some err\<rparr>))) g"

definition resume ::
  "'w graph_env \<Rightarrow> 'l life_ops \<Rightarrow> app_id \<Rightarrow> (('w, 'l) graph_state, py_exn, memory_state) io" where
  "resume env ops app g =
     io_bind (io_lift (state_of env app g)) (\<lambda>current.
     io_bind (io_ensure (ms_status current \<in> {FAILED_RETRYABLE, NEEDS_ATTENTION})
       (ValueError (''memory thread cannot resume from '' @ status_value (ms_status current)))) (\<lambda>_ g.
     let attempts = attempts_of current (ms_current_node current);
         run_again = (\<lambda>g. invoke env ops app (current\<lparr>ms_status := RUNNING, ms_last_error := None\<rparr>) g) in
     (case execution_policy env (ms_current_node current) of
        None \<Rightarrow> run_again g
      | Some policy \<Rightarrow>
          if ms_status current \<noteq> FAILED_RETRYABLE then run_again g
          else if wx_max_attempts policy \<le> attempts then mark_terminal env ops app FAILED_TERMINAL g
          else run_again (g\<lparr>gr_world :=
            ge_sleep env (wx_backoff_seconds policy * 2 ^ (attempts - 1)) (gr_world g)\<rparr>)))) g"

definition rewind_changes :: "worker_name list \<Rightarrow> worker_name \<Rightarrow> memory_state \<Rightarrow> memory_state" where
  "rewind_changes order worker current =
     (let index = index_of worker order; completed = take index order;
          clears = (\<lambda>v. index \<le> index_of v order) in
      current\<lparr>ms_status := RUNNING, ms_current_node := worker, ms_completed := completed,
        ms_pending := drop index order,
        ms_worker_receipts := filter (\<lambda>r. wp_worker r \<in> set completed) (ms_worker_receipts current),
        ms_human_review := None, ms_last_error := None,
        ms_documents := (if clears DOCUMENT_PROCESSING then [] else ms_documents current),
        ms_evidence := (if clears FINANCIAL_ANALYSIS then [] else ms_evidence current),
        ms_eligibility := (if clears ELIGIBILITY then [] else ms_eligibility current),
        ms_guardrails := (if clears GUARDRAILS then [] else ms_guardrails current)\<rparr>)"

definition rewind ::
  "'w graph_env \<Rightarrow> 'l life_ops \<Rightarrow> app_id \<Rightarrow> worker_name \<Rightarrow> (('w, 'l) graph_state, py_exn, memory_state) io" where
  "rewind env ops app worker g =
     io_bind (io_ensure (worker \<noteq> HUMAN_REVIEW) (ValueError ''send-back cannot skip guardrail validation'')) (\<lambda>_.
     io_bind (io_ensure (worker \<in> set (ge_order env)) (ValueError ''restart worker is not part of this graph'')) (\<lambda>_.
     io_bind (io_lift (state_of env app g)) (\<lambda>current.
     io_bind (io_ensure (ms_status current \<in> {WAITING_FOR_REVIEW, NEEDS_ATTENTION})
       (ValueError (''cannot send back from '' @ status_value (ms_status current)))) (\<lambda>_.
     io_bind (io_ensure ({DOCUMENT_PROCESSING, FINANCIAL_ANALYSIS, ELIGIBILITY, GUARDRAILS} \<subseteq> set (ge_order env))
       (ValueError ''tuple.index(x): x not in tuple'')) (\<lambda>_ g.
     let changed = rewind_changes (ge_order env) worker current in
     io_bind (life_status env ops app RUNNING worker None) (\<lambda>_. invoke env ops app changed)
       (save_checkpoint app changed g)))))) g"

definition cleanup_one ::
  "'w graph_env \<Rightarrow> 'l life_ops \<Rightarrow> app_id \<Rightarrow> (('w, 'l) graph_state, py_exn, unit) io" where
  "cleanup_one env ops app =
     io_bind (case ge_cleanup env of None \<Rightarrow> io_ret () | Some f \<Rightarrow> in_world (f app)) (\<lambda>_ g.
       (Inr (), g\<lparr>gr_checkpoints := dict_pop app (gr_checkpoints g),
          gr_lifecycle := lo_delete ops app (gr_lifecycle g)\<rparr>))"

definition cleanup_expired ::
  "'w graph_env \<Rightarrow> 'l life_ops \<Rightarrow> timestamp \<Rightarrow> (('w, 'l) graph_state, py_exn, app_id list) io" where
  "cleanup_expired env ops now g =
     (let expired = lo_expired ops now (gr_lifecycle g) in
      io_bind (io_each (cleanup_one env ops) expired) (\<lambda>_. io_ret expired) g)"

definition flag_stale ::
  "'l life_ops \<Rightarrow> timestamp \<Rightarrow> ('w, 'l) graph_state \<Rightarrow> app_id list \<times> ('w, 'l) graph_state" where
  "flag_stale ops before g =
     (case lo_flag_stale ops before (gr_lifecycle g) of (flagged, l) \<Rightarrow> (flagged, g\<lparr>gr_lifecycle := l\<rparr>))"

section \<open>Scheduled maintenance\<close>

record maintenance_result =
  mr_stale_flagged :: "app_id list"
  mr_terminal_deleted :: "app_id list"
  mr_counts :: status_counts

definition run_once ::
  "'w graph_env \<Rightarrow> 'l life_ops \<Rightarrow> timestamp \<Rightarrow> timestamp \<Rightarrow> (('w, 'l) graph_state, py_exn, maintenance_result) io" where
  "run_once env ops stale_after current g =
     (case flag_stale ops (current - stale_after) g of
        (stale, g1) \<Rightarrow>
          io_bind (cleanup_expired env ops current) (\<lambda>deleted g2.
            (Inr \<lparr>mr_stale_flagged = stale, mr_terminal_deleted = deleted,
               mr_counts = lo_counts ops (gr_lifecycle g2)\<rparr>, g2)) g1)"

end
