(* ===== verification/FM_Graph_Facts.thy ===== *)
theory FM_Graph_Facts
  imports FM_Graph "HOL-Library.Sublist"
begin

text \<open>
  What the supervisor keeps: the shape of a super-step, the well-formedness of a thread, the
  termination of a run, and the retention of threads.
\<close>

section \<open>The shape of a super-step\<close>

definition quiet_recorder :: "'w graph_env \<Rightarrow> bool" where
  "quiet_recorder env \<longleftrightarrow> (\<forall>event w. fst (ge_recorder env event w) = None)"

lemma record_span_quiet: "quiet_recorder env \<Longrightarrow> record_span env event w = (Inr (), snd (ge_recorder env event w))"
  by (auto simp: record_span_def quiet_recorder_def split: prod.splits option.splits) (metis fst_conv option.distinct(1))+

definition failed_from :: "memory_state \<Rightarrow> memory_state \<Rightarrow> bool" where
  "failed_from s s' \<longleftrightarrow> (\<exists>status err.
     status \<in> {FAILED_RETRYABLE, NEEDS_ATTENTION, FAILED_TERMINAL} \<and> we_worker err = ms_current_node s \<and>
     s' = s\<lparr>ms_attempts := dict_set (ms_current_node s) (attempts_of s (ms_current_node s) + 1) (ms_attempts s),
       ms_status := status, ms_last_error := Some err\<rparr>)"

definition receipt_ok :: "'w graph_env \<Rightarrow> memory_state \<Rightarrow> worker_receipt \<Rightarrow> bool" where
  "receipt_ok env s r \<longleftrightarrow> command_id_for s (wp_worker r) = Some (wp_command_id r) \<and>
     wp_policy_hash r = ge_policy_hash env \<and>
     wp_signature r = map_option (\<lambda>sign. sign (signed_payload r)) (ge_signer env)"

definition succeeded_from :: "'w graph_env \<Rightarrow> memory_state \<Rightarrow> memory_state \<Rightarrow> bool" where
  "succeeded_from env s s' \<longleftrightarrow> (\<exists>receipt.
     wp_worker receipt = ms_current_node s \<and> receipt_ok env s receipt \<and>
     ms_completed s' = ms_completed s @ [ms_current_node s] \<and>
     ms_pending s' = filter (\<lambda>x. x \<notin> set (ms_completed s')) (ge_order env) \<and>
     ms_status s' = (if ms_pending s' \<noteq> [] then RUNNING else WAITING_FOR_REVIEW) \<and>
     ms_current_node s' = (if ms_pending s' \<noteq> [] then hd (ms_pending s') else ms_current_node s) \<and>
     ms_attempts s' = dict_set (ms_current_node s) (attempts_of s (ms_current_node s) + 1) (ms_attempts s) \<and>
     ms_worker_receipts s' = ms_worker_receipts s @ [receipt] \<and>
     ms_application_id s' = ms_application_id s \<and> ms_commands s' = ms_commands s \<and> ms_last_error s' = None)"

lemma make_worker_error_worker:
  "make_worker_error now worker code msg retryable = Inr err \<Longrightarrow> we_worker err = worker"
  by (auto simp: make_worker_error_def result_elims)

lemma failure_update_failed:
  assumes "failure_update now s attempt status code msg retryable = Inr s'"
    and "attempt = attempts_of s (ms_current_node s) + 1"
    and "status \<in> {FAILED_RETRYABLE, NEEDS_ATTENTION, FAILED_TERMINAL}"
  shows "failed_from s s'"
proof -
  from assms(1) obtain err
    where "make_worker_error now (ms_current_node s) code msg retryable = Inr err"
      and "s' = s\<lparr>ms_attempts := dict_set (ms_current_node s) attempt (ms_attempts s),
        ms_status := status, ms_last_error := Some err\<rparr>"
    unfolding failure_update_def ebind_Inr_iff by auto
  with assms(2,3) show ?thesis
    unfolding failed_from_def by (intro exI conjI) (auto dest: make_worker_error_worker)
qed

lemma failure_status_cases: "failure_status a r \<in> {FAILED_RETRYABLE, NEEDS_ATTENTION, FAILED_TERMINAL}"
  by (simp add: failure_status_def)

lemma handle_failure_Inr:
  assumes "handle_failure env s (ms_current_node s) (attempts_of s (ms_current_node s) + 1) e w = (Inr s', w')"
  shows "failed_from s s'"
proof (cases e)
  case (WFailure code msg retryable attention)
  with assms obtain now where "failure_update now s (attempts_of s (ms_current_node s) + 1)
      (failure_status attention retryable) code msg retryable = Inr s'"
    by (auto simp: Let_def io_elims)
  then show ?thesis by (rule failure_update_failed) (simp, rule failure_status_cases)
next
  case WTimeout
  with assms show ?thesis by (auto simp: io_elims elim: failure_update_failed)
next
  case (WPy x)
  with assms show ?thesis by (auto simp: io_elims elim: failure_update_failed)
qed

lemma make_receipt_Inr:
  "make_receipt env s r attempt tools latency now = Inr receipt \<Longrightarrow>
     wp_worker receipt = rs_worker r \<and> receipt_ok env s receipt \<and> wp_attempt receipt = attempt \<and>
     wp_tool_calls receipt = tools \<and> wp_output_sha256 receipt = rs_output_sha256 r"
  by (auto simp: make_receipt_def receipt_ok_def signed_payload_def Let_def result_elims split: option.splits)

lemma attempt_worker_identity: "attempt_worker env s worker attempt cw = (Inr r, cw') \<Longrightarrow> rs_worker r = worker"
  by (auto simp: attempt_worker_def io_elims)

lemma success_update_Inr:
  assumes "success_update env s r (attempts_of s (ms_current_node s) + 1) tools latency now = Inr s'"
    and "rs_worker r = ms_current_node s"
  shows "succeeded_from env s s'"
  using assms
  by (auto simp: success_update_def succeeded_from_def Let_def result_elims dest!: make_receipt_Inr)

lemma run_worker_shape:
  assumes "run_worker env s w = (Inr s', w')"
  shows "failed_from s s' \<or>
    succeeded_from env s s' \<and> validate_compact_state (ge_dump_size env) s' = Inr s'"
proof -
  from assms obtain cx where ctx: "make_context env s (ms_current_node s) = Inr cx"
    and valid: "validate_compact_state (ge_dump_size env) s = Inr s"
    by (auto simp: run_worker_def io_elims Let_def validate_compact_state_Inr)
  let ?a = "attempts_of s (ms_current_node s) + 1"
  let ?w1 = "notify_activity env (stage_activity s (worker_value (ms_current_node s)) (ms_current_node s) ?a) w"
  obtain out c2 w2 where try_result: "attempt_worker env s (ms_current_node s) ?a (cx, ?w1) = (out, c2, w2)"
    by (cases "attempt_worker env s (ms_current_node s) ?a (cx, ?w1)") auto
  show ?thesis
  proof (cases out)
    case (Inl e)
    then have "handle_failure env s (ms_current_node s) ?a e w2 = (Inr s', w')"
      using assms try_result by (simp add: run_worker_def ctx valid Let_def io_ret_def)
    then show ?thesis by (blast intro: handle_failure_Inr)
  next
    case (Inr r)
    have "rs_worker r = ms_current_node s"
      using try_result unfolding Inr by (rule attempt_worker_identity)
    moreover from Inr assms try_result obtain update where
      "success_update env s r ?a (cx_tools c2) (ge_latency env w2) (ge_clock env w2) = Inr update"
      "validate_compact_state (ge_dump_size env) update = Inr s'"
      by (auto simp: run_worker_def ctx valid Let_def io_elims)
    ultimately show ?thesis
      using success_update_Inr [of env s r] by (auto simp: validate_compact_state_Inr)
  qed
qed

section \<open>Well-formed threads\<close>

text \<open>
  The completed and the pending stages are the stages of the graph in their order; the current
  stage is the first pending one, or the last stage; every stage has its command; every receipt
  belongs to a completed stage, in order, carries that stage's command and verifies; a thread
  waiting for review has nothing pending.
\<close>

definition thread_ok :: "'w graph_env \<Rightarrow> memory_state \<Rightarrow> bool" where
  "thread_ok env s \<longleftrightarrow>
     ms_completed s @ ms_pending s = ge_order env \<and>
     ms_current_node s = (if ms_pending s = [] then last (ge_order env) else hd (ms_pending s)) \<and>
     map wc_worker (ms_commands s) = ge_order env \<and>
     subseq (map wp_worker (ms_worker_receipts s)) (ms_completed s) \<and>
     list_all (receipt_ok env s) (ms_worker_receipts s) \<and>
     (ms_status s = WAITING_FOR_REVIEW \<longrightarrow> ms_pending s = [])"

definition fully_receipted :: "memory_state \<Rightarrow> bool" where
  "fully_receipted s \<longleftrightarrow> map wp_worker (ms_worker_receipts s) = ms_completed s"

lemma receipt_ok_cong: "ms_commands s' = ms_commands s \<Longrightarrow> receipt_ok env s' = receipt_ok env s"
  by (simp add: receipt_ok_def command_id_for_def fun_eq_iff)

lemma thread_ok_same_plan:
  assumes "thread_ok env s"
    and "ms_completed s' = ms_completed s" "ms_pending s' = ms_pending s"
      "ms_current_node s' = ms_current_node s" "ms_commands s' = ms_commands s"
      "ms_worker_receipts s' = ms_worker_receipts s"
    and "ms_status s' = WAITING_FOR_REVIEW \<longrightarrow> ms_pending s = []"
  shows "thread_ok env s'"
  using assms receipt_ok_cong [of s' s env] by (simp add: thread_ok_def)

lemma filter_not_completed:
  "distinct (xs @ ys) \<Longrightarrow> filter (\<lambda>x. x \<notin> set xs) (xs @ ys) = ys"
  by (auto simp: filter_id_conv filter_empty_conv)

lemma filter_completed: "distinct (xs @ ys) \<Longrightarrow> filter (\<lambda>x. x \<in> set xs) (xs @ ys) = xs"
  by (auto simp: filter_id_conv filter_empty_conv)

lemma succeeded_plan:
  assumes "succeeded_from env s s'" and "thread_ok env s" and "distinct (ge_order env)"
    and "ms_pending s \<noteq> []"
  shows "ms_completed s' @ ms_pending s' = ge_order env" and "ms_pending s' = tl (ms_pending s)"
    and "ms_completed s' = ms_completed s @ [ms_current_node s]"
proof -
  from assms(4) obtain p ps where pending: "ms_pending s = p # ps" by (cases "ms_pending s") auto
  with assms(2) have order: "(ms_completed s @ [p]) @ ps = ge_order env" and node: "ms_current_node s = p"
    by (auto simp: thread_ok_def)
  with assms(3) have "distinct ((ms_completed s @ [p]) @ ps)" by simp
  then have "filter (\<lambda>x. x \<notin> set (ms_completed s @ [p])) ((ms_completed s @ [p]) @ ps) = ps"
    by (rule filter_not_completed)
  with assms(1) order node pending
  show "ms_completed s' @ ms_pending s' = ge_order env" "ms_pending s' = tl (ms_pending s)"
    "ms_completed s' = ms_completed s @ [ms_current_node s]"
    by (auto simp: succeeded_from_def)
qed

lemma succeeded_thread_ok:
  assumes "succeeded_from env s s'" and "thread_ok env s" and "distinct (ge_order env)"
    and "ms_pending s \<noteq> []"
  shows "thread_ok env s'" and "fully_receipted s \<Longrightarrow> fully_receipted s'"
proof -
  note plan = succeeded_plan [OF assms]
  have "receipt_ok env s' = receipt_ok env s"
    using assms(1) by (intro receipt_ok_cong) (auto simp: succeeded_from_def)
  moreover have "last (ge_order env) = ms_current_node s" if "ms_pending s' = []"
    using plan that by (metis append_Nil2 last_snoc)
  moreover have "subseq (map wp_worker (ms_worker_receipts s')) (ms_completed s')"
    using assms(1,2) by (auto simp: thread_ok_def succeeded_from_def intro: list_emb_append_mono)
  moreover have "ms_status s' = WAITING_FOR_REVIEW \<longrightarrow> ms_pending s' = []"
    "ms_current_node s' = (if ms_pending s' \<noteq> [] then hd (ms_pending s') else ms_current_node s)"
    "ms_commands s' = ms_commands s"
    "\<exists>r. ms_worker_receipts s' = ms_worker_receipts s @ [r] \<and> receipt_ok env s r"
    using assms(1) unfolding succeeded_from_def by (metis graph_status.distinct(5), blast+)
  moreover have "map wc_worker (ms_commands s) = ge_order env" "list_all (receipt_ok env s) (ms_worker_receipts s)"
    using assms(2) by (simp_all add: thread_ok_def)
  ultimately show "thread_ok env s'"
    using plan(1) unfolding thread_ok_def by (auto split: if_splits)
  show "fully_receipted s \<Longrightarrow> fully_receipted s'"
    using assms(1) by (auto simp: fully_receipted_def succeeded_from_def)
qed

lemma succeeded_nothing_pending:
  assumes "succeeded_from env s s'" and "thread_ok env s" and "ge_order env \<noteq> []"
    and "ms_pending s = []" and "validate_compact_state n s' = Inr s'"
  shows False
proof -
  from assms(2-4) have "ms_current_node s \<in> set (ms_completed s)"
    by (auto simp: thread_ok_def)
  with assms(1,5) show False by (auto simp: succeeded_from_def validate_compact_state_Inr)
qed

lemma failed_thread_ok:
  assumes "failed_from s s'" and "thread_ok env s"
  shows "thread_ok env s'" and "fully_receipted s' = fully_receipted s"
    and "ms_status s' \<noteq> RUNNING" and "ms_completed s' = ms_completed s"
    and "ms_application_id s' = ms_application_id s"
  using assms
  by (auto simp: failed_from_def fully_receipted_def intro: thread_ok_same_plan [of env s])

text \<open>A super-step of a well-formed thread keeps it well-formed, whatever the worker does.\<close>

definition well_ordered :: "'w graph_env \<Rightarrow> bool" where
  "well_ordered env \<longleftrightarrow> is_ok (check_order (ge_order env))"

lemma well_ordered_iff: "well_ordered env \<longleftrightarrow> ge_order env \<noteq> [] \<and> distinct (ge_order env)"
  by (simp add: well_ordered_def check_order_def ensure_def)

lemma run_worker_keeps:
  assumes "run_worker env s w = (Inr s', w')" and "thread_ok env s" and "well_ordered env"
  shows "thread_ok env s'" and "fully_receipted s \<Longrightarrow> fully_receipted s'"
    and "ms_application_id s' = ms_application_id s"
    and "prefix (ms_completed s) (ms_completed s')"
    and "ms_status s' = RUNNING \<Longrightarrow>
      ms_pending s \<noteq> [] \<and> ms_pending s' \<noteq> [] \<and> length (ms_pending s') < length (ms_pending s)"
    and "ms_status s' \<in> {RUNNING, WAITING_FOR_REVIEW, FAILED_RETRYABLE, NEEDS_ATTENTION, FAILED_TERMINAL}"
proof -
  consider (failed) "failed_from s s'"
    | (advanced) "succeeded_from env s s'" "ms_pending s \<noteq> []"
    using run_worker_shape [OF assms(1)] succeeded_nothing_pending [of env s s'] assms(2,3)
    by (auto simp: well_ordered_iff)
  then have "thread_ok env s' \<and> (fully_receipted s \<longrightarrow> fully_receipted s') \<and>
    ms_application_id s' = ms_application_id s \<and> prefix (ms_completed s) (ms_completed s') \<and>
    (ms_status s' = RUNNING \<longrightarrow>
      ms_pending s \<noteq> [] \<and> ms_pending s' \<noteq> [] \<and> length (ms_pending s') < length (ms_pending s)) \<and>
    ms_status s' \<in> {RUNNING, WAITING_FOR_REVIEW, FAILED_RETRYABLE, NEEDS_ATTENTION, FAILED_TERMINAL}"
  proof cases
    case failed
    then show ?thesis
      using failed_thread_ok [OF failed assms(2)] by (auto simp: failed_from_def)
  next
    case advanced
    have distinct: "distinct (ge_order env)" using assms(3) by (simp add: well_ordered_iff)
    note step = succeeded_thread_ok [OF advanced(1) assms(2) distinct advanced(2)]
      succeeded_plan [OF advanced(1) assms(2) distinct advanced(2)]
    from advanced show ?thesis using step by (auto simp: succeeded_from_def split: if_splits)
  qed
  then show "thread_ok env s'" "fully_receipted s \<Longrightarrow> fully_receipted s'"
    "ms_application_id s' = ms_application_id s" "prefix (ms_completed s) (ms_completed s')"
    "ms_status s' = RUNNING \<Longrightarrow>
      ms_pending s \<noteq> [] \<and> ms_pending s' \<noteq> [] \<and> length (ms_pending s') < length (ms_pending s)"
    "ms_status s' \<in> {RUNNING, WAITING_FOR_REVIEW, FAILED_RETRYABLE, NEEDS_ATTENTION, FAILED_TERMINAL}"
    by blast+
qed

section \<open>A run\<close>

lemma graph_loop_keeps:
  assumes "graph_loop env n s w = (exn, s', w')" and "thread_ok env s" and "well_ordered env"
  shows "thread_ok env s' \<and> (fully_receipted s \<longrightarrow> fully_receipted s') \<and>
    ms_application_id s' = ms_application_id s \<and> prefix (ms_completed s) (ms_completed s')"
  using assms(1,2)
proof (induction n arbitrary: s w)
  case 0
  then show ?case by simp
next
  case (Suc n)
  show ?case
  proof (cases "run_worker env s w")
    case (Pair r w1)
    show ?thesis
    proof (cases r)
      case (Inl e)
      with Pair Suc.prems show ?thesis by simp
    next
      case (Inr s1)
      note keeps = run_worker_keeps [OF Pair [unfolded Inr] Suc.prems(2) assms(3)]
      show ?thesis
      proof (cases "ms_status s1 = RUNNING")
        case True
        then have "graph_loop env n s1 w1 = (exn, s', w')"
          using Suc.prems(1) by (simp add: Pair Inr route_def)
        from Suc.IH [OF this keeps(1)] keeps show ?thesis
          using prefix_order.order_trans by metis
      next
        case False
        then show ?thesis
          using Suc.prems(1) keeps by (simp add: Pair Inr route_def)
      qed
    qed
  qed
qed

text \<open>The only exceptions of a run with a quiet recorder are refused values.\<close>

lemma failure_update_Inl:
  "failure_update now s attempt status code msg retryable = Inl e \<Longrightarrow> \<exists>m. e = ValueError m"
  by (auto simp: failure_update_def make_worker_error_def ebind_Inl_iff ensure_Inl_iff)

lemma handle_failure_Inl:
  assumes "quiet_recorder env" and "handle_failure env s worker attempt x w = (Inl e, w')"
  shows "\<exists>m. e = ValueError m"
  using assms(2)
  by (cases x)
    (auto simp: Let_def io_bind_def io_lift_def record_span_quiet [OF assms(1)] dest: failure_update_Inl
      split: prod.splits sum.splits)

lemma validate_compact_state_Inl:
  "validate_compact_state n s = Inl e \<Longrightarrow> \<exists>m. e = ValueError m"
  by (auto simp: validate_compact_state_def ebind_Inl_iff ensure_Inl_iff)

lemma success_update_Inl:
  "success_update env s r attempt tools latency now = Inl e \<Longrightarrow> rs_worker r = v \<Longrightarrow>
     command_id_for s v = Some c \<Longrightarrow>
     \<exists>m. e = ValueError m"
  by (auto simp: success_update_def make_receipt_def Let_def ebind_Inl_iff ensure_Inl_iff)

lemma run_worker_Inl:
  assumes "quiet_recorder env" and "run_worker env s w = (Inl e, w')"
  shows "\<exists>m. e = ValueError m"
proof (cases "validate_compact_state (ge_dump_size env) s")
  case (Inl a)
  then have "e = a" using assms(2) by (simp add: run_worker_def io_raise_def)
  with Inl show ?thesis by (simp add: validate_compact_state_Inl)
next
  case (Inr s1)
  then have valid: "validate_compact_state (ge_dump_size env) s = Inr s" and "ms_current_node s \<in> set (map wc_worker (ms_commands s))"
    by (auto simp: validate_compact_state_Inr)
  then obtain c where c: "command_id_for s (ms_current_node s) = Some c"
    using command_id_for_Some by blast
  then obtain cx where ctx: "make_context env s (ms_current_node s) = Inr cx"
    by (simp add: make_context_def Let_def)
  let ?a = "attempts_of s (ms_current_node s) + 1"
  let ?w1 = "notify_activity env (stage_activity s (worker_value (ms_current_node s)) (ms_current_node s) ?a) w"
  obtain out c2 w2 where try_result: "attempt_worker env s (ms_current_node s) ?a (cx, ?w1) = (out, c2, w2)"
    by (cases "attempt_worker env s (ms_current_node s) ?a (cx, ?w1)") auto
  show ?thesis
  proof (cases out)
    case (Inl x)
    then have "handle_failure env s (ms_current_node s) ?a x w2 = (Inl e, w')"
      using assms(2) try_result by (simp add: run_worker_def ctx valid Let_def io_ret_def)
    then show ?thesis by (rule handle_failure_Inl [OF assms(1)])
  next
    case out: (Inr r)
    then have "rs_worker r = ms_current_node s"
      using try_result attempt_worker_identity by blast
    then show ?thesis
      using assms(2) try_result out c
      by (auto simp: run_worker_def valid ctx Let_def io_bind_def io_lift_def io_ret_def
          record_span_quiet [OF assms(1)] dest: success_update_Inl validate_compact_state_Inl
          split: prod.splits sum.splits)
  qed
qed

text \<open>
  A run of a thread with something pending needs one super-step for each pending stage: it
  never reaches the recursion limit, and it ends in a state where nobody runs it, or a value
  was refused.
\<close>

lemma graph_loop_terminates:
  assumes "quiet_recorder env" and "well_ordered env"
    and "graph_loop env n s w = (exn, s', w')" and "thread_ok env s"
    and "ms_pending s \<noteq> []" and "length (ms_pending s) \<le> n"
  shows "exn = None \<and> ms_status s' \<in> {WAITING_FOR_REVIEW, FAILED_RETRYABLE, NEEDS_ATTENTION, FAILED_TERMINAL} \<or>
    (\<exists>m. exn = Some (ValueError m))"
  using assms(3-6)
proof (induction n arbitrary: s w)
  case 0
  then show ?case by simp
next
  case (Suc n)
  show ?case
  proof (cases "run_worker env s w")
    case (Pair r w1)
    show ?thesis
    proof (cases r)
      case (Inl e)
      with Pair Suc.prems(1) run_worker_Inl [OF assms(1)] show ?thesis by auto
    next
      case (Inr s1)
      note keeps = run_worker_keeps [OF Pair [unfolded Inr] Suc.prems(2) assms(2)]
      show ?thesis
      proof (cases "ms_status s1 = RUNNING")
        case True
        then have loop: "graph_loop env n s1 w1 = (exn, s', w')"
          using Suc.prems(1) by (simp add: Pair Inr route_def)
        show ?thesis
          using Suc.IH [OF loop keeps(1)] keeps(5) [OF True] Suc.prems(4) by simp
      next
        case False
        then show ?thesis
          using Suc.prems(1) keeps(6) by (auto simp: Pair Inr route_def)
      qed
    qed
  qed
qed

section \<open>The operations keep every thread well-formed\<close>

definition graph_ok :: "'w graph_env \<Rightarrow> ('w, 'l) graph_state \<Rightarrow> bool" where
  "graph_ok env g \<longleftrightarrow> (\<forall>app s. dict_get (gr_checkpoints g) app = Some s \<longrightarrow>
     ms_application_id s = app \<and> thread_ok env s)"

lemma graph_ok_get:
  "graph_ok env g \<Longrightarrow> dict_get (gr_checkpoints g) app = Some s \<Longrightarrow> ms_application_id s = app \<and> thread_ok env s"
  by (simp add: graph_ok_def)

lemma graph_ok_save:
  "graph_ok env g \<Longrightarrow> thread_ok env s \<Longrightarrow> ms_application_id s = app \<Longrightarrow>
     gr_checkpoints g' = dict_set app s (gr_checkpoints g) \<Longrightarrow> graph_ok env g'"
  by (auto simp: graph_ok_def update_conv split: if_splits)

lemma graph_ok_cong: "gr_checkpoints g' = gr_checkpoints g \<Longrightarrow> graph_ok env g' = graph_ok env g"
  by (simp add: graph_ok_def)

definition leaves_checkpoints :: "(('w, 'l) graph_state, py_exn, 'a) io \<Rightarrow> bool" where
  "leaves_checkpoints m \<longleftrightarrow> (\<forall>g. gr_checkpoints (snd (m g)) = gr_checkpoints g)"

named_theorems leaves_intros

lemma leaves_bind [leaves_intros]:
  "leaves_checkpoints m \<Longrightarrow> (\<And>x. leaves_checkpoints (f x)) \<Longrightarrow> leaves_checkpoints (io_bind m f)"
  unfolding leaves_checkpoints_def io_bind_def
  by (auto split: prod.splits sum.splits) (metis snd_conv)+

lemma leaves_simple [leaves_intros]:
  "leaves_checkpoints (io_lift r)" "leaves_checkpoints (io_ensure b e)" "leaves_checkpoints (io_ret x)"
  by (simp_all add: leaves_checkpoints_def io_lift_def io_ensure_def io_ret_def)

lemma leaves_life_status [leaves_intros]: "leaves_checkpoints (life_status env ops app status node err)"
  by (auto simp: leaves_checkpoints_def life_status_def split: sum.splits prod.splits)

lemma leaves_in_world [leaves_intros]: "leaves_checkpoints (in_world m)"
  by (auto simp: leaves_checkpoints_def in_world_def split: prod.splits)

lemma leaves_checkpointsD: "leaves_checkpoints m \<Longrightarrow> gr_checkpoints (snd (m g)) = gr_checkpoints g"
  by (simp add: leaves_checkpoints_def)

lemma update_thread_checkpoints:
  "gr_checkpoints (snd (update_thread env ops app s g)) = dict_set app s (gr_checkpoints g)"
  unfolding update_thread_def
  by (subst leaves_checkpointsD) (intro leaves_intros, simp add: save_checkpoint_def)

lemma invoke_checkpoints:
  assumes "graph_loop env (ge_recursion_limit env) merged (gr_world g) = (exn, final, w)"
  shows "gr_checkpoints (snd (invoke env ops app merged g)) = dict_set app final (gr_checkpoints g)"
proof (cases exn)
  case (Some e)
  then show ?thesis by (simp add: invoke_def assms Let_def save_checkpoint_def)
next
  case None
  show ?thesis
    unfolding invoke_def assms Let_def None prod.case option.case
    by (subst leaves_checkpointsD) (intro leaves_intros, simp add: save_checkpoint_def)
qed

lemma invoke_keeps:
  assumes "graph_ok env g" and "thread_ok env merged" and "ms_application_id merged = app"
    and "well_ordered env"
  shows "graph_ok env (snd (invoke env ops app merged g))"
proof -
  obtain exn final w where loop: "graph_loop env (ge_recursion_limit env) merged (gr_world g) = (exn, final, w)"
    by (cases "graph_loop env (ge_recursion_limit env) merged (gr_world g)") auto
  from graph_loop_keeps [OF loop assms(2,4)] assms(3)
  have "thread_ok env final" "ms_application_id final = app" by auto
  then show ?thesis by (rule graph_ok_save [OF assms(1) _ _ invoke_checkpoints [OF loop]])
qed

lemma initial_state_ok:
  assumes "initial_state n uuid5 app (ge_order env) job_id inputs = Inr s"
  shows "thread_ok env s" and "ms_application_id s = app" and "ms_status s = RUNNING"
    and "ms_completed s = []" and "ms_pending s = ge_order env" and "fully_receipted s"
  using assms
  by (auto simp: initial_state_def thread_ok_def fully_receipted_def validate_compact_state_Inr comp_def
      split: list.splits)

lemma take_drop_index:
  "x \<in> set xs \<Longrightarrow> drop (index_of x xs) xs \<noteq> [] \<and> hd (drop (index_of x xs) xs) = x"
  using index_of_nth [of x xs] by (simp add: hd_drop_conv_nth)

lemma subseq_filter_map: "subseq (map f (filter p xs)) (map f xs)"
  by (intro subseq_map subseq_filter_left)

lemma rewind_changes_ok:
  assumes "thread_ok env s" and "worker \<in> set (ge_order env)" and "distinct (ge_order env)"
  shows "thread_ok env (rewind_changes (ge_order env) worker s)"
proof -
  let ?k = "index_of worker (ge_order env)" and ?s = "rewind_changes (ge_order env) worker s"
  let ?front = "take ?k (ge_order env)"
  have "subseq (map wp_worker (ms_worker_receipts s)) (ge_order env)"
    using assms(1) subseq_order.order_trans prefix_imp_subseq prefixI unfolding thread_ok_def by metis
  then have "subseq (filter (\<lambda>v. v \<in> set ?front) (map wp_worker (ms_worker_receipts s)))
      (filter (\<lambda>v. v \<in> set ?front) (ge_order env))"
    by (rule subseq_filter)
  moreover have "filter (\<lambda>v. v \<in> set ?front) (ge_order env) = ?front"
    using filter_completed [of ?front "drop ?k (ge_order env)"] assms(3) by simp
  ultimately have "subseq (map wp_worker (ms_worker_receipts ?s)) ?front"
    by (simp add: rewind_changes_def Let_def filter_map comp_def)
  moreover have "list_all (receipt_ok env ?s) (ms_worker_receipts ?s)"
    using assms(1) receipt_ok_cong [of ?s s env]
    by (auto simp: thread_ok_def rewind_changes_def Let_def list_all_iff)
  ultimately show ?thesis
    using assms(1) take_drop_index [OF assms(2)]
    by (auto simp: thread_ok_def rewind_changes_def Let_def)
qed

lemma state_of_Inr:
  "state_of env app g = Inr s \<Longrightarrow> dict_get (gr_checkpoints g) app = Some s \<and> ms_application_id s = app \<and>
     validate_compact_state (ge_dump_size env) s = Inr s"
  by (auto simp: state_of_def state_or_none_def result_elims validate_compact_state_Inr
      split: option.splits)

datatype graph_command =
    Start app_id "string option" "input_reference list"
  | Resume app_id
  | Mark_Terminal app_id graph_status
  | Complete app_id write_receipt
  | Mark_Attention app_id string
  | Mark_Retryable app_id string string
  | Rewind app_id worker_name
  | Cleanup timestamp
  | Flag_Stale timestamp

fun graph_apply :: "'w graph_env \<Rightarrow> 'l life_ops \<Rightarrow> graph_command \<Rightarrow> ('w, 'l) graph_state \<Rightarrow> ('w, 'l) graph_state" where
  "graph_apply env ops (Start app job_id inputs) g = snd (start env ops app job_id inputs g)"
| "graph_apply env ops (Resume app) g = snd (resume env ops app g)"
| "graph_apply env ops (Mark_Terminal app status) g = snd (mark_terminal env ops app status g)"
| "graph_apply env ops (Complete app receipt) g = snd (complete_after_writeback env ops app receipt g)"
| "graph_apply env ops (Mark_Attention app code) g = snd (mark_needs_attention env ops app code g)"
| "graph_apply env ops (Mark_Retryable app code msg) g = snd (mark_retryable env ops app code msg g)"
| "graph_apply env ops (Rewind app worker) g = snd (rewind env ops app worker g)"
| "graph_apply env ops (Cleanup now) g = snd (cleanup_expired env ops now g)"
| "graph_apply env ops (Flag_Stale before) g = snd (flag_stale ops before g)"

definition graph_run :: "'w graph_env \<Rightarrow> 'l life_ops \<Rightarrow> graph_command list \<Rightarrow> ('w, 'l) graph_state \<Rightarrow> ('w, 'l) graph_state" where
  "graph_run env ops = fold (graph_apply env ops)"

text \<open>Every operation is a chain of reads followed by at most one of the changes above.\<close>

lemma snd_io_bind_lift:
  "snd (io_bind (io_lift r) f g) = (case r of Inl e \<Rightarrow> g | Inr x \<Rightarrow> snd (f x g))"
  by (simp add: io_bind_def io_lift_def split: sum.splits)

lemma snd_io_bind_ensure:
  "snd (io_bind (io_ensure b e) f g) = (if b then snd (f () g) else g)"
  by (simp add: io_bind_def io_ensure_def)

lemma io_final [simp]: "snd (io_raise e g) = g" "snd (io_ret x g) = g"
  by (simp_all add: io_raise_def io_ret_def)

lemmas io_state = snd_io_bind_lift snd_io_bind_ensure

definition same_plan :: "memory_state \<Rightarrow> memory_state \<Rightarrow> bool" where
  "same_plan s s' \<longleftrightarrow> ms_completed s' = ms_completed s \<and> ms_pending s' = ms_pending s \<and>
     ms_current_node s' = ms_current_node s \<and> ms_commands s' = ms_commands s \<and>
     ms_worker_receipts s' = ms_worker_receipts s \<and> ms_application_id s' = ms_application_id s \<and>
     (ms_status s' = WAITING_FOR_REVIEW \<longrightarrow> ms_status s = WAITING_FOR_REVIEW)"

lemma update_thread_keeps:
  assumes "graph_ok env g" and "state_of env app g = Inr current" and "same_plan current s"
  shows "graph_ok env (snd (update_thread env ops app s g))"
proof -
  from state_of_Inr [OF assms(2)] graph_ok_get [OF assms(1)]
  have "thread_ok env current" "ms_application_id current = app" by auto
  with assms(3) have "thread_ok env s" "ms_application_id s = app"
    by (auto simp: same_plan_def thread_ok_def receipt_ok_cong [of s current])
  then show ?thesis by (rule graph_ok_save [OF assms(1) _ _ update_thread_checkpoints])
qed

lemma mark_terminal_keeps:
  assumes "graph_ok env g"
  shows "graph_ok env (snd (mark_terminal env ops app status g))"
proof (cases "state_of env app g")
  case (Inl e)
  then show ?thesis using assms by (simp add: mark_terminal_def io_state)
next
  case (Inr current)
  have "same_plan current (current\<lparr>ms_status := status, ms_last_error := None\<rparr>)" if "terminal status"
    using that by (auto simp: same_plan_def)
  with Inr show ?thesis
    using assms update_thread_keeps [OF assms Inr] by (auto simp: mark_terminal_def io_state)
qed

lemma complete_keeps:
  assumes "graph_ok env g"
  shows "graph_ok env (snd (complete_after_writeback env ops app receipt g))"
proof (cases "state_of env app g")
  case (Inl e)
  then show ?thesis using assms by (simp add: complete_after_writeback_def io_state)
next
  case (Inr current)
  show ?thesis
    using assms by (auto simp: complete_after_writeback_def io_state Inr io_ret_def same_plan_def
        intro!: update_thread_keeps [OF assms Inr])
qed

lemma mark_keeps:
  assumes "graph_ok env g"
  shows "graph_ok env (snd (mark_needs_attention env ops app code g))"
    and "graph_ok env (snd (mark_retryable env ops app code msg g))"
proof -
  show "graph_ok env (snd (mark_needs_attention env ops app code g))"
  proof (cases "state_of env app g")
    case (Inl e)
    then show ?thesis using assms by (simp add: mark_needs_attention_def io_state)
  next
    case (Inr current)
    show ?thesis
      using assms by (auto simp: mark_needs_attention_def io_state Inr same_plan_def
          intro!: update_thread_keeps [OF assms Inr] split: sum.splits)
  qed
  show "graph_ok env (snd (mark_retryable env ops app code msg g))"
  proof (cases "state_of env app g")
    case (Inl e)
    then show ?thesis using assms by (simp add: mark_retryable_def io_state)
  next
    case (Inr current)
    show ?thesis
      using assms by (auto simp: mark_retryable_def io_state Inr same_plan_def
          intro!: update_thread_keeps [OF assms Inr] split: sum.splits)
  qed
qed

lemma start_keeps:
  assumes "graph_ok env g" and "well_ordered env"
  shows "graph_ok env (snd (start env ops app job_id inputs g))"
proof (cases "state_or_none env app g")
  case (Inl e)
  then show ?thesis using assms by (simp add: start_def io_state)
next
  case (Inr existing)
  show ?thesis
  proof (cases existing)
    case (Some s)
    then show ?thesis using assms Inr by (simp add: start_def io_state io_ret_def)
  next
    case None
    show ?thesis
    proof (cases "initial_state (ge_dump_size env) (ge_uuid5 env) app (ge_order env) job_id inputs")
      case (Inl e)
      then show ?thesis using assms Inr None by (simp add: start_def io_state io_raise_def)
    next
      case initial: (Inr s)
      let ?g = "g\<lparr>gr_lifecycle := snd (lo_create ops app (ms_current_node s)
        (ge_clock env (gr_world g)) (gr_lifecycle g))\<rparr>"
      have "graph_ok env ?g" using assms(1) graph_ok_cong [of ?g g] by simp
      then have "graph_ok env (snd (invoke env ops app s ?g))"
        using initial_state_ok [OF initial] by (intro invoke_keeps assms) auto
      then show ?thesis using Inr None initial by (simp add: start_def io_state io_ret_def)
    qed
  qed
qed

lemma resume_keeps:
  assumes "graph_ok env g" and "well_ordered env"
  shows "graph_ok env (snd (resume env ops app g))"
proof (cases "state_of env app g")
  case (Inl e)
  then show ?thesis using assms by (simp add: resume_def io_state)
next
  case (Inr current)
  let ?m = "current\<lparr>ms_status := RUNNING, ms_last_error := None\<rparr>"
  have current: "thread_ok env current" "ms_application_id current = app"
    using state_of_Inr [OF Inr] graph_ok_get [OF assms(1)] by auto
  then have "thread_ok env ?m" "ms_application_id ?m = app"
    by (auto intro: thread_ok_same_plan)
  then have again: "graph_ok env (snd (invoke env ops app ?m (g\<lparr>gr_world := w\<rparr>)))" for w
    using assms graph_ok_cong [of "g\<lparr>gr_world := w\<rparr>" g env] by (intro invoke_keeps) auto
  show ?thesis
    using assms(1) again again [of "gr_world g"] mark_terminal_keeps [OF assms(1)]
    by (auto simp: resume_def io_state Inr Let_def split: option.splits)
qed

lemma rewind_changes_app: "ms_application_id (rewind_changes order worker s) = ms_application_id s"
  by (simp add: rewind_changes_def Let_def)

lemma rewind_keeps:
  assumes "graph_ok env g" and "well_ordered env"
  shows "graph_ok env (snd (rewind env ops app worker g))"
proof (cases "state_of env app g")
  case (Inl e)
  then show ?thesis using assms by (simp add: rewind_def io_state)
next
  case (Inr current)
  let ?m = "rewind_changes (ge_order env) worker current"
  show ?thesis
  proof (cases "worker \<in> set (ge_order env)")
    case False
    then show ?thesis using assms by (simp add: rewind_def io_state)
  next
    case True
    have "thread_ok env current" "ms_application_id current = app"
      using state_of_Inr [OF Inr] graph_ok_get [OF assms(1)] by auto
    then have ok: "thread_ok env ?m" "ms_application_id ?m = app"
      using True assms(2) by (auto simp: well_ordered_iff rewind_changes_ok rewind_changes_app)
    have saved: "graph_ok env (save_checkpoint app ?m g)"
      by (rule graph_ok_save [OF assms(1) ok]) (simp add: save_checkpoint_def)
    then have "graph_ok env g'" if "life_status env ops app RUNNING worker None (save_checkpoint app ?m g) = (r, g')"
      for r g' using that leaves_checkpointsD [OF leaves_life_status, of env ops app RUNNING worker None
          "save_checkpoint app ?m g"] graph_ok_cong [of g' "save_checkpoint app ?m g" env] by simp
    then have "graph_ok env (snd (io_bind (life_status env ops app RUNNING worker None)
        (\<lambda>_. invoke env ops app ?m) (save_checkpoint app ?m g)))"
      using ok assms(2) by (auto simp: io_bind_def intro!: invoke_keeps split: prod.splits sum.splits)
    then show ?thesis using assms(1) by (simp add: rewind_def io_state Inr Let_def)
  qed
qed

lemma cleanup_one_checkpoints:
  assumes "cleanup_one env ops app g = (r, g')"
  shows "gr_checkpoints g' = (if is_ok r then dict_pop app (gr_checkpoints g) else gr_checkpoints g)"
    and "gr_lifecycle g' = (if is_ok r then lo_delete ops app (gr_lifecycle g) else gr_lifecycle g)"
  using assms
  by (auto simp: cleanup_one_def io_bind_def io_ret_def in_world_def split: option.splits prod.splits sum.splits)

lemma cleanup_each_keeps:
  "graph_ok env g \<Longrightarrow> graph_ok env (snd (io_each (cleanup_one env ops) apps g))"
proof (induction apps arbitrary: g)
  case (Cons app apps)
  obtain r g' where one: "cleanup_one env ops app g = (r, g')" by (cases "cleanup_one env ops app g") auto
  have "graph_ok env g'"
    using Cons.prems cleanup_one_checkpoints(1) [OF one] by (auto simp: graph_ok_def dict_get_pop split: if_splits)
  then show ?case using Cons.IH by (cases r) (simp_all add: one)
qed simp

lemma cleanup_keeps: "graph_ok env g \<Longrightarrow> graph_ok env (snd (cleanup_expired env ops now g))"
  using cleanup_each_keeps [of env g ops "lo_expired ops now (gr_lifecycle g)"]
  by (auto simp: cleanup_expired_def Let_def io_bind_def io_ret_def split: prod.splits sum.splits)

lemma flag_stale_keeps: "graph_ok env g \<Longrightarrow> graph_ok env (snd (flag_stale ops before g))"
  by (auto simp: flag_stale_def graph_ok_def split: prod.splits)

lemma graph_apply_keeps: "graph_ok env g \<Longrightarrow> well_ordered env \<Longrightarrow> graph_ok env (graph_apply env ops c g)"
  by (cases c) (simp_all add: start_keeps resume_keeps mark_terminal_keeps complete_keeps mark_keeps
      rewind_keeps cleanup_keeps flag_stale_keeps)

lemma graph_run_keeps: "graph_ok env g \<Longrightarrow> well_ordered env \<Longrightarrow> graph_ok env (graph_run env ops cs g)"
  unfolding graph_run_def by (induction cs arbitrary: g) (simp_all add: graph_apply_keeps)

section \<open>Retention\<close>

context lifecycle_store
begin

lemma cleanup_each_deletes:
  assumes "store_inv (gr_lifecycle g)" and "lo_delete ops = delete"
    and "io_each (cleanup_one env ops) apps g = (r, g')"
  shows "store_inv (gr_lifecycle g') \<and>
    (\<forall>a. a \<notin> set apps \<longrightarrow> thread (gr_lifecycle g') a = thread (gr_lifecycle g) a \<and>
       dict_get (gr_checkpoints g') a = dict_get (gr_checkpoints g) a) \<and>
    (is_ok r \<longrightarrow> (\<forall>a \<in> set apps. thread (gr_lifecycle g') a = None \<and> dict_get (gr_checkpoints g') a = None)) \<and>
    (\<forall>a. thread (gr_lifecycle g) a = None \<longrightarrow> thread (gr_lifecycle g') a = None) \<and>
    (\<forall>a. dict_get (gr_checkpoints g) a = None \<longrightarrow> dict_get (gr_checkpoints g') a = None)"
  using assms(1,3)
proof (induction apps arbitrary: g)
  case (Cons app apps)
  obtain r1 g1 where one: "cleanup_one env ops app g = (r1, g1)" by (cases "cleanup_one env ops app g") auto
  note state = cleanup_one_checkpoints [OF one]
  show ?case
  proof (cases r1)
    case (Inl e)
    then show ?thesis using Cons.prems state by (auto simp: one)
  next
    case (Inr u)
    have "store_inv (gr_lifecycle g1)" and del: "thread (gr_lifecycle g1) = (thread (gr_lifecycle g))(app := None)"
      using state(2) Cons.prems(1) delete_law assms(2) Inr by auto
    moreover have "io_each (cleanup_one env ops) apps g1 = (r, g')"
      using Cons.prems(2) by (simp add: one Inr)
    ultimately show ?thesis
      using Cons.IH [of g1] state(1) Inr by (auto simp: dict_get_pop)
  qed
qed simp

lemma cleanup_expired_law:
  assumes "store_inv (gr_lifecycle g)" and "lo_delete ops = delete" and "lo_expired ops = expired"
    and "cleanup_expired env ops now g = (r, g')"
  shows "\<forall>a. \<not> (\<exists>t d. thread (gr_lifecycle g) a = Some t \<and> terminal (th_status t) \<and>
         th_delete_after t = Some d \<and> d \<le> now) \<longrightarrow>
       thread (gr_lifecycle g') a = thread (gr_lifecycle g) a \<and>
       dict_get (gr_checkpoints g') a = dict_get (gr_checkpoints g) a"
    and "r = Inr apps \<Longrightarrow> \<forall>a \<in> set apps. thread (gr_lifecycle g') a = None \<and> dict_get (gr_checkpoints g') a = None"
    and "r = Inr apps \<Longrightarrow> apps = expired now (gr_lifecycle g)"
proof -
  obtain r1 g1 where each: "io_each (cleanup_one env ops) (expired now (gr_lifecycle g)) g = (r1, g1)"
    by (cases "io_each (cleanup_one env ops) (expired now (gr_lifecycle g)) g") auto
  with assms(4) have out: "g' = g1" "r = (case r1 of Inl e \<Rightarrow> Inl e | Inr _ \<Rightarrow> Inr (expired now (gr_lifecycle g)))"
    by (auto simp: cleanup_expired_def assms(3) Let_def io_bind_def io_ret_def split: sum.splits)
  note law = cleanup_each_deletes [OF assms(1,2) each]
  show "\<forall>a. \<not> (\<exists>t d. thread (gr_lifecycle g) a = Some t \<and> terminal (th_status t) \<and>
         th_delete_after t = Some d \<and> d \<le> now) \<longrightarrow>
       thread (gr_lifecycle g') a = thread (gr_lifecycle g) a \<and>
       dict_get (gr_checkpoints g') a = dict_get (gr_checkpoints g) a"
    using law expired_law [OF assms(1)] out(1) by auto
  show "r = Inr apps \<Longrightarrow> \<forall>a \<in> set apps. thread (gr_lifecycle g') a = None \<and> dict_get (gr_checkpoints g') a = None"
    "r = Inr apps \<Longrightarrow> apps = expired now (gr_lifecycle g)"
    using law out by (auto split: sum.splits)
qed

end

section \<open>Single steps\<close>

lemma run_worker_failed:
  assumes "run_worker env s w = (Inr s', w')"
    and "ms_status s' \<in> {FAILED_RETRYABLE, NEEDS_ATTENTION, FAILED_TERMINAL}"
  shows "failed_from s s'"
  using run_worker_shape [OF assms(1)] assms(2) by (auto simp: succeeded_from_def split: if_splits)

lemma attempt_refused:
  assumes "execution_policy env worker = Some p" and "wx_max_attempts p < attempt"
  shows "attempt_worker env s worker attempt cw = (Inl attempt_limit_exceeded, cw)"
  using assms by (simp add: attempt_worker_def io_raise_def)

lemma run_worker_limit:
  assumes "quiet_recorder env" and valid: "validate_compact_state (ge_dump_size env) s = Inr s"
    and policy: "execution_policy env (ms_current_node s) = Some p"
    and limit: "wx_max_attempts p \<le> attempts_of s (ms_current_node s)"
  shows "\<exists>s' w' err. run_worker env s w = (Inr s', w') \<and> ms_status s' = FAILED_TERMINAL \<and>
    ms_last_error s' = Some err \<and> we_code err = ''worker_attempt_limit_exceeded'' \<and>
    ms_completed s' = ms_completed s"
proof -
  have "ms_current_node s \<in> set (map wc_worker (ms_commands s))"
    using valid by (simp add: validate_compact_state_Inr)
  then obtain c where "command_id_for s (ms_current_node s) = Some c"
    using command_id_for_Some by blast
  then obtain cx where ctx: "make_context env s (ms_current_node s) = Inr cx"
    by (simp add: make_context_def Let_def)
  let ?a = "attempts_of s (ms_current_node s) + 1"
  have refused: "attempt_worker env s (ms_current_node s) ?a cw = (Inl attempt_limit_exceeded, cw)" for cw
    by (rule attempt_refused [OF policy]) (use limit in simp)
  show ?thesis
    using refused
    by (simp add: run_worker_def valid ctx Let_def io_ret_def attempt_limit_exceeded_def failure_update_def
        make_worker_error_def failure_status_def io_bind_def record_span_quiet [OF assms(1)])
qed

lemma graph_loop_limit:
  assumes "quiet_recorder env" and "validate_compact_state (ge_dump_size env) s = Inr s"
    and "execution_policy env (ms_current_node s) = Some p"
    and "wx_max_attempts p \<le> attempts_of s (ms_current_node s)"
  shows "\<exists>s' w' err. graph_loop env (Suc n) s w = (None, s', w') \<and> ms_status s' = FAILED_TERMINAL \<and>
    ms_last_error s' = Some err \<and> we_code err = ''worker_attempt_limit_exceeded'' \<and>
    ms_completed s' = ms_completed s"
  using run_worker_limit [OF assms, of w] by (auto simp: route_def)

text \<open>A thread without pending stages cannot come back to review by running.\<close>

lemma graph_loop_nothing_pending:
  assumes "well_ordered env" and "thread_ok env s" and "ms_pending s = []"
    and "graph_loop env n s w = (exn, s', w')"
  shows "s' = s \<or> ms_status s' \<in> {FAILED_RETRYABLE, NEEDS_ATTENTION, FAILED_TERMINAL}"
proof (cases n)
  case 0
  then show ?thesis using assms(4) by simp
next
  case (Suc k)
  show ?thesis
  proof (cases "run_worker env s w")
    case (Pair r w1)
    show ?thesis
    proof (cases r)
      case (Inl e)
      then show ?thesis using assms(4) Suc Pair by simp
    next
      case (Inr s1)
      have "failed_from s s1"
        using run_worker_shape [OF Pair [unfolded Inr]] succeeded_nothing_pending [of env s s1] assms(1-3)
        by (auto simp: well_ordered_iff)
      then show ?thesis
        using assms(4) Suc Pair Inr by (auto simp: route_def failed_from_def)
    qed
  qed
qed

lemma invoke_result:
  assumes "invoke env ops app merged g = (Inr s, g')"
  shows "\<exists>w. graph_loop env (ge_recursion_limit env) merged (gr_world g) = (None, s, w)"
  using assms
  by (auto simp: invoke_def Let_def io_elims validate_compact_state_Inr split: prod.splits option.splits)

end
