(* ===== verification/FM_Graph_Props.thy ===== *)
theory FM_Graph_Props
  imports FM_Graph_Facts
begin

text \<open>The properties of the supervisor and of its threads, with a sample graph for their witnesses.\<close>

section \<open>A sample graph\<close>

definition sample_order :: "worker_name list" where
  "sample_order = [DOCUMENT_PROCESSING, FINANCIAL_ANALYSIS, ELIGIBILITY, GUARDRAILS]"

definition one_attempt :: worker_execution_policy where
  "one_attempt = \<lparr>wx_permitted_tools = [], wx_max_calls = 1, wx_call_timeout_seconds = 1,
     wx_worker_deadline_seconds = 1, wx_max_attempts = 1, wx_backoff_seconds = 0, wx_side_effects = []\<rparr>"

definition sample_env :: "unit graph_env" where
  "sample_env = \<lparr>ge_order = sample_order, ge_max_tool_calls = 13,
     ge_policies = [(''guardrails'', one_attempt)],
     ge_policy_hash = None, ge_signer = None,
     ge_run = (\<lambda>worker deadline s. io_ret (worker_result0 worker (replicate 64 CHR ''0''))),
     ge_activity = None, ge_recorder = noop_record, ge_cleanup = None, ge_clock = (\<lambda>_. 100),
     ge_latency = (\<lambda>_. 0), ge_sleep = (\<lambda>_ w. w), ge_run_id = (\<lambda>_. ''run''),
     ge_checkpoint_id = (\<lambda>_ _. None), ge_uuid5 = (\<lambda>n. n), ge_dump_size = (\<lambda>_. 0),
     ge_recursion_limit = 25, ge_retention = 30\<rparr>"

definition sample_state :: memory_state where
  "sample_state = (case initial_state (\<lambda>_. 0) (\<lambda>n. n) ''app-1'' sample_order None [] of Inr s \<Rightarrow> s)"

lemma sample_simps [simp]:
  "well_ordered sample_env" "quiet_recorder sample_env"
  "ge_order sample_env = sample_order" "ge_dump_size sample_env = (\<lambda>_. 0)"
  by (simp_all add: well_ordered_iff quiet_recorder_def noop_record_def sample_env_def sample_order_def)

lemma sample_policy: "execution_policy sample_env GUARDRAILS = Some one_attempt" "wx_max_attempts one_attempt = 1"
  by (simp_all add: execution_policy_def sample_env_def one_attempt_def)

lemma sample_initial: "initial_state (\<lambda>_. 0) (\<lambda>n. n) ''app-1'' (ge_order sample_env) None [] = Inr sample_state"
  by code_simp

lemma sample_state_simps [simp]:
  "thread_ok sample_env sample_state" "ms_application_id sample_state = ''app-1''"
  "ms_status sample_state = RUNNING" "ms_completed sample_state = []"
  "ms_pending sample_state = sample_order"
  using initial_state_ok [OF sample_initial] by simp_all

lemma sample_validates: "validate_compact_state (\<lambda>_. 0) sample_state = Inr sample_state"
  by code_simp

section \<open>Properties\<close>

text \<open>
  C5. Whatever sequence of operations is applied to a graph that starts with no checkpoint,
  every stored thread belongs to its own application and is well-formed: completed and pending
  stages are the graph's stages in order, the current stage is the first pending one, every
  receipt belongs to a completed stage, carries that stage's command id and verifies, and only
  a thread with nothing pending waits for review.
\<close>

theorem graph_threads_well_formed:
  assumes "well_ordered env" and "gr_checkpoints g = []"
    and "dict_get (gr_checkpoints (graph_run env ops commands g)) app = Some s"
  shows "ms_application_id s = app \<and> thread_ok env s"
proof -
  have "graph_ok env g" using assms(2) by (simp add: graph_ok_def)
  from graph_run_keeps [OF this assms(1)] show ?thesis using assms(3) by (rule graph_ok_get)
qed

definition sample_graph :: "(unit, life_store) graph_state" where
  "sample_graph = \<lparr>gr_checkpoints = [], gr_lifecycle = [], gr_world = ()\<rparr>"

definition sample_reviewed :: memory_state where
  "sample_reviewed = (case dict_get (gr_checkpoints (graph_run sample_env memory_life_ops
     [Start ''app-1'' None []] sample_graph)) ''app-1'' of Some s \<Rightarrow> s)"

lemma sample_run:
  "dict_get (gr_checkpoints (graph_run sample_env memory_life_ops [Start ''app-1'' None []] sample_graph)) ''app-1''
     = Some sample_reviewed"
  unfolding sample_reviewed_def graph_run_def fold_simps graph_apply.simps
  by code_simp

theorem graph_threads_well_formed_witness:
  "ms_application_id sample_reviewed = ''app-1'' \<and> thread_ok sample_env sample_reviewed"
  by (rule graph_threads_well_formed [OF _ _ sample_run]) (simp_all add: sample_graph_def)

text \<open>
  C9. A run of a well-formed thread ends: within as many super-steps as there are pending
  stages it is waiting for review, failed or in need of attention, never still running and
  never at the recursion limit. The only other outcome is a value that a validator refused.
\<close>

theorem graph_run_ends:
  assumes "quiet_recorder env" and "well_ordered env" and "thread_ok env s"
    and "ms_pending s \<noteq> []" and "length (ms_pending s) \<le> limit"
    and "graph_loop env limit s w = (exn, s', w')"
  shows "exn = None \<and> ms_status s' \<in> {WAITING_FOR_REVIEW, FAILED_RETRYABLE, NEEDS_ATTENTION, FAILED_TERMINAL} \<or>
    (\<exists>m. exn = Some (ValueError m))"
  by (rule graph_loop_terminates [OF assms(1,2,6,3-5)])

theorem graph_run_ends_witness:
  "(case graph_loop sample_env 25 sample_state () of (exn, s', w') \<Rightarrow>
     exn = None \<and> ms_status s' \<in> {WAITING_FOR_REVIEW, FAILED_RETRYABLE, NEEDS_ATTENTION, FAILED_TERMINAL} \<or>
     (\<exists>m. exn = Some (ValueError m)))"
  using graph_run_ends [of sample_env sample_state 25 "()"]
  by (auto simp: sample_order_def split: prod.splits)

text \<open>
  A failed super-step keeps the work done: it changes nothing of the thread but the
  attempts of the failing stage, the status and the last error, so that the retry runs the
  same stage under the same command id.
\<close>

theorem failed_step_keeps_work:
  assumes "run_worker env s w = (Inr s', w')"
    and "ms_status s' \<in> {FAILED_RETRYABLE, NEEDS_ATTENTION, FAILED_TERMINAL}"
  shows "\<exists>err. we_worker err = ms_current_node s \<and>
    s' = s\<lparr>ms_attempts := dict_set (ms_current_node s) (attempts_of s (ms_current_node s) + 1) (ms_attempts s),
      ms_status := ms_status s', ms_last_error := Some err\<rparr>"
  using run_worker_failed [OF assms] by (auto simp: failed_from_def)

definition failing_env :: "unit graph_env" where
  "failing_env = sample_env\<lparr>ge_run := (\<lambda>_ _ _. io_raise WTimeout)\<rparr>"

definition failed_state :: memory_state where
  "failed_state = sample_state\<lparr>ms_attempts := [(DOCUMENT_PROCESSING, 1)],
     ms_status := FAILED_RETRYABLE, ms_last_error := Some \<lparr>we_worker = DOCUMENT_PROCESSING,
       we_code = ''worker_deadline_exceeded'', we_message = ''worker exceeded its production deadline'',
       we_retryable = True, we_occurred_at = 100\<rparr>\<rparr>"

lemma failing_run: "run_worker failing_env sample_state () = (Inr failed_state, ())"
  by code_simp

theorem failed_step_keeps_work_witness:
  "\<exists>err. we_worker err = ms_current_node sample_state \<and>
    failed_state = sample_state\<lparr>ms_attempts := dict_set (ms_current_node sample_state)
      (attempts_of sample_state (ms_current_node sample_state) + 1) (ms_attempts sample_state),
      ms_status := ms_status failed_state, ms_last_error := Some err\<rparr>"
  by (rule failed_step_keeps_work [OF failing_run]) (simp add: failed_state_def)

text \<open>
  A stage that has used its attempts is not run again: whatever the worker would do, the
  run stops in the terminal failure with the code of the attempt limit.
\<close>

theorem exhausted_stage_stops:
  assumes "quiet_recorder env" and "validate_compact_state (ge_dump_size env) s = Inr s"
    and "execution_policy env (ms_current_node s) = Some p"
    and "wx_max_attempts p \<le> attempts_of s (ms_current_node s)"
  shows "\<exists>s' w' err. graph_loop env (Suc n) s w = (None, s', w') \<and> ms_status s' = FAILED_TERMINAL \<and>
    ms_last_error s' = Some err \<and> we_code err = ''worker_attempt_limit_exceeded'' \<and>
    ms_completed s' = ms_completed s"
  by (rule graph_loop_limit [OF assms])

text \<open>
  Starting an application that already has a valid checkpoint returns it and changes
  nothing: no worker runs, and neither the checkpoints, the lifecycle records nor the world
  change.
\<close>

theorem start_is_idempotent:
  assumes "dict_get (gr_checkpoints g) app = Some s"
    and "validate_compact_state (ge_dump_size env) s = Inr s"
  shows "start env ops app job_id inputs g = (Inr s, g)"
  using assms by (simp add: start_def state_or_none_def io_bind_def io_lift_def io_ret_def)

theorem start_is_idempotent_witness:
  "start sample_env memory_life_ops ''app-1'' None [] (save_checkpoint ''app-1'' sample_state sample_graph)
     = (Inr sample_state, save_checkpoint ''app-1'' sample_state sample_graph)"
  by (rule start_is_idempotent) (simp_all add: save_checkpoint_def sample_graph_def sample_validates)

text \<open>
  Sending a thread back does not reset its attempts: when the chosen stage has used the
  attempts its policy allows, the rewound thread ends in the terminal failure instead of
  running again. (With one attempt per stage, as configured for production, every send-back
  to such a stage ends so.)
\<close>

theorem send_back_exhausts_attempts:
  assumes "quiet_recorder env" and "dict_get (gr_checkpoints g) app = Some s"
    and "ge_recursion_limit env = Suc n"
    and "execution_policy env worker = Some p" and "wx_max_attempts p \<le> attempts_of s worker"
    and "rewind env ops app worker g = (Inr s', g')"
  shows "ms_status s' = FAILED_TERMINAL"
proof -
  from assms(6) obtain current where current: "state_of env app g = Inr current"
    and member: "worker \<in> set (ge_order env)"
    by (auto simp: rewind_def io_elims)
  with assms(2) have s: "current = s" using state_of_Inr by fastforce
  let ?m = "rewind_changes (ge_order env) worker s"
  have node: "ms_current_node ?m = worker" "attempts_of ?m worker = attempts_of s worker"
    by (simp_all add: rewind_changes_def Let_def attempts_of_def)
  obtain g1 where inv: "invoke env ops app ?m g1 = (Inr s', g')"
    using assms(6) current s by (auto simp: rewind_def io_elims Let_def)
  from invoke_result [OF inv] obtain w where loop: "graph_loop env (Suc n) ?m (gr_world g1) = (None, s', w)"
    using assms(3) by auto
  then have "validate_compact_state (ge_dump_size env) ?m = Inr ?m"
    by (auto simp: run_worker_def io_bind_def io_lift_def validate_compact_state_Inr
        split: prod.splits sum.splits)
  from graph_loop_limit [OF assms(1) this, of p n "gr_world g1"] assms(4,5) node loop
  show ?thesis by auto
qed

text \<open>
  A thread without pending stages cannot be resumed back to review: when the supervisor's
  routing was marked ambiguous on a reviewed thread, resuming it either raises or ends failed,
  because the completed last stage would be completed twice.
\<close>

theorem resume_cannot_return_to_review:
  assumes "well_ordered env" and "thread_ok env s" and "ms_pending s = []"
    and "dict_get (gr_checkpoints g) app = Some s"
    and "resume env ops app g = (Inr s', g')"
  shows "ms_status s' \<noteq> WAITING_FOR_REVIEW"
proof -
  from assms(5) obtain current where current: "state_of env app g = Inr current"
    by (auto simp: resume_def io_elims)
  with assms(4) have s: "current = s" using state_of_Inr by fastforce
  let ?m = "s\<lparr>ms_status := RUNNING, ms_last_error := None\<rparr>"
  have ran: "ms_status s' \<noteq> WAITING_FOR_REVIEW" if run: "invoke env ops app ?m g1 = (Inr s', g')" for g1
  proof -
    from invoke_result [OF run] obtain w
      where loop: "graph_loop env (ge_recursion_limit env) ?m (gr_world g1) = (None, s', w)" by auto
    have "thread_ok env ?m" using assms(2) by (auto intro: thread_ok_same_plan)
    from graph_loop_nothing_pending [OF assms(1) this _ loop] assms(3) show ?thesis by auto
  qed
  have marked: "ms_status s' \<noteq> WAITING_FOR_REVIEW"
    if "mark_terminal env ops app FAILED_TERMINAL g = (Inr s', g')"
    using that by (auto simp: mark_terminal_def update_thread_def io_elims)
  show ?thesis
    using assms(5) ran marked current s
    by (auto simp: resume_def io_elims Let_def split: option.splits if_splits)
qed

text \<open>
  The scheduled cleanup with the Postgres store deletes the checkpoint and the record of
  exactly those threads that are terminal and whose retention date has passed; when it
  returns, it returns those threads.
\<close>

theorem cleanup_deletes_expired_only:
  assumes "table_inv (gr_lifecycle g)"
    and "cleanup_expired env postgres_life_ops now g = (r, g')"
  shows "(\<forall>app. dict_get (gr_checkpoints g') app \<noteq> dict_get (gr_checkpoints g) app \<longrightarrow>
      (\<exists>t d. row_of app (gr_lifecycle g) = Some t \<and> terminal (th_status t) \<and> th_delete_after t = Some d \<and> d \<le> now)) \<and>
    (\<forall>apps. r = Inr apps \<longrightarrow> apps = pg_life_expired now (gr_lifecycle g) \<and>
      (\<forall>app \<in> set apps. row_of app (gr_lifecycle g') = None \<and> dict_get (gr_checkpoints g') app = None))"
proof -
  have "lo_delete postgres_life_ops = pg_life_delete" "lo_expired postgres_life_ops = pg_life_expired"
    by (simp_all add: postgres_life_ops_def)
  note law = pg_life.cleanup_expired_law [OF assms(1) this assms(2)]
  show ?thesis
  proof (intro conjI allI impI)
    fix app
    assume "dict_get (gr_checkpoints g') app \<noteq> dict_get (gr_checkpoints g) app"
    with law(1) show "\<exists>t d. row_of app (gr_lifecycle g) = Some t \<and> terminal (th_status t) \<and>
        th_delete_after t = Some d \<and> d \<le> now" by blast
  qed (use law(2,3) in blast)+
qed

definition sample_table :: life_table where
  "sample_table = [with_status 30 COMPLETED (Some HUMAN_REVIEW) None 5 (new_thread ''app-1'' HUMAN_REVIEW 0)]"

definition expired_graph :: "(unit, life_table) graph_state" where
  "expired_graph = \<lparr>gr_checkpoints = [(''app-1'', sample_state)], gr_lifecycle = sample_table, gr_world = ()\<rparr>"

lemma expired_graph_cleanup: "fst (cleanup_expired sample_env postgres_life_ops 40 expired_graph) = Inr [''app-1'']"
  by code_simp

theorem cleanup_deletes_expired_only_witness:
  "dict_get (gr_checkpoints (snd (cleanup_expired sample_env postgres_life_ops 40 expired_graph))) ''app-1'' = None"
proof -
  have "table_inv (gr_lifecycle expired_graph)" by (simp add: table_inv_def sample_table_def expired_graph_def)
  from cleanup_deletes_expired_only [OF this prod.collapse [symmetric]] expired_graph_cleanup
  show ?thesis by auto
qed

end
