(* ===== verification/FM_Workflow_Schema.thy ===== *)
theory FM_Workflow_Schema
  imports FM_Precedent
begin

text \<open>
  The records, commands and errors of the durable review workflow
  (\<open>workflow/schema.py\<close>, \<open>workflow/errors.py\<close>). The advisory suggestion of a
  workflow is a JSON object, as the code stores it; the values of an audit event's
  \<open>changes\<close> dictionary are kept typed instead of rendered to JSON text.
\<close>

section \<open>JSON objects\<close>

datatype json =
    JNull
  | JBool bool
  | JNum rat
  | JStr string
  | JArr "json list"
  | JObj "(string \<times> json) list"

type_synonym json_object = "(string \<times> json) list"

section \<open>States, roles and commands\<close>

datatype workflow_state =
    INTAKE | EXTRACTED | RULE_GATED | AI_SUGGESTED | AWAITING_HUMAN | HUMAN_DECIDED
  | PRECEDENT_WRITTEN

definition workflow_states :: "workflow_state list" where
  "workflow_states = [INTAKE, EXTRACTED, RULE_GATED, AI_SUGGESTED, AWAITING_HUMAN, HUMAN_DECIDED,
     PRECEDENT_WRITTEN]"

fun state_value :: "workflow_state \<Rightarrow> string" where
  "state_value INTAKE = ''INTAKE''"
| "state_value EXTRACTED = ''EXTRACTED''"
| "state_value RULE_GATED = ''RULE_GATED''"
| "state_value AI_SUGGESTED = ''AI_SUGGESTED''"
| "state_value AWAITING_HUMAN = ''AWAITING_HUMAN''"
| "state_value HUMAN_DECIDED = ''HUMAN_DECIDED''"
| "state_value PRECEDENT_WRITTEN = ''PRECEDENT_WRITTEN''"

datatype actor_role = PIPELINE | HUMAN_REVIEWER

fun role_value :: "actor_role \<Rightarrow> string" where
  "role_value PIPELINE = ''pipeline''"
| "role_value HUMAN_REVIEWER = ''human_reviewer''"

datatype human_action = APPROVE | REJECT | APPROVE_WITH_CONDITIONS | SEND_BACK

fun action_value :: "human_action \<Rightarrow> string" where
  "action_value APPROVE = ''approve''"
| "action_value REJECT = ''reject''"
| "action_value APPROVE_WITH_CONDITIONS = ''approve_with_conditions''"
| "action_value SEND_BACK = ''send_back''"

datatype restart_stage =
    RS_SUPERVISOR | RS_DOCUMENT_PROCESSING | RS_FINANCIAL_ANALYSIS | RS_ELIGIBILITY
  | RS_PRECEDENT_RETRIEVAL | RS_SUGGESTION | RS_GUARDRAILS

record actor_claims =
  ac_actor_id :: string
  ac_display_name :: string
  ac_roles :: "actor_role set"

definition bounded_text :: "nat \<Rightarrow> nat \<Rightarrow> string \<Rightarrow> bool" where
  "bounded_text lo hi s \<longleftrightarrow> lo \<le> length s \<and> length s \<le> hi"

definition valid_actor :: "actor_claims \<Rightarrow> bool" where
  "valid_actor a \<longleftrightarrow> bounded_text 1 200 (ac_actor_id a) \<and> bounded_text 1 200 (ac_display_name a)"

record pipeline_advance_command =
  pa_command_id :: uuid
  pa_expected_version :: nat
  pa_target_state :: workflow_state
  pa_reason :: string
  pa_suggestion :: "json_object option"

record human_decision_command =
  hc_command_id :: uuid
  hc_expected_version :: nat
  hc_action :: human_action
  hc_funder_id :: "string option"
  hc_reason :: string
  hc_conditions :: "string list"
  hc_overrides :: "decision_override list"
  hc_restart_stage :: "restart_stage option"

text \<open>The constructor of \<open>HumanDecisionCommand\<close>: its checks in the order of the code.\<close>

definition validate_conditions :: "human_decision_command \<Rightarrow> string + human_decision_command" where
  "validate_conditions c =
     (if hc_action c = APPROVE_WITH_CONDITIONS \<and> hc_conditions c = []
      then Inl ''approve_with_conditions requires at least one condition''
      else if hc_action c \<noteq> APPROVE_WITH_CONDITIONS \<and> hc_conditions c \<noteq> []
      then Inl ''conditions are only valid for approve_with_conditions''
      else if hc_action c = SEND_BACK \<and> hc_funder_id c \<noteq> None
      then Inl ''send_back does not select a funder''
      else if hc_action c \<noteq> SEND_BACK \<and> hc_funder_id c = None
      then Inl ''a decided outcome requires funder_id''
      else if hc_action c \<noteq> SEND_BACK \<and> hc_restart_stage c \<noteq> None
      then Inl ''restart_stage is only valid for send_back''
      else Inr c)"

record pipeline_reopen_command =
  pr_command_id :: uuid
  pr_expected_version :: nat
  pr_restart_stage :: restart_stage
  pr_reason :: string

record precedent_write_command =
  pw_command_id :: uuid
  pw_expected_version :: nat
  pw_reason :: string

section \<open>Records\<close>

record human_decision_record =
  hr_action :: human_action
  hr_funder_id :: "string option"
  hr_reason :: string
  hr_conditions :: "string list"
  hr_overrides :: "decision_override list"
  hr_actor_id :: string
  hr_actor_display_name :: string
  hr_decided_at :: timestamp

record precedent_write_receipt =
  wr_case_id :: string
  wr_point_id :: uuid
  wr_collection :: string
  wr_payload_sha256 :: string
  wr_written_at :: timestamp

record workflow_record =
  wf_application_id :: app_id
  wf_state :: workflow_state
  wf_version :: nat
  wf_suggestion :: "json_object option"
  wf_decision :: "human_decision_record option"
  wf_precedent_receipt :: "precedent_write_receipt option"
  wf_created_at :: timestamp
  wf_updated_at :: timestamp

datatype change_value =
    ChState workflow_state
  | ChVersion nat
  | ChDecision human_decision_record
  | ChReceipt precedent_write_receipt
  | ChStage restart_stage

record audit_event =
  ae_audit_id :: uuid
  ae_command_id :: uuid
  ae_application_id :: app_id
  ae_sequence :: nat
  ae_actor_id :: string
  ae_actor_display_name :: string
  ae_actor_roles :: "actor_role list"
  ae_from_state :: "workflow_state option"
  ae_to_state :: workflow_state
  ae_action :: string
  ae_reason :: string
  ae_changes :: "(string \<times> change_value) list"
  ae_occurred_at :: timestamp

record transition_result =
  tr_workflow :: workflow_record
  tr_audit_event :: audit_event

section \<open>Errors\<close>

text \<open>
  The domain errors, and the two errors of the runtime that can reach the same callers:
  a missing key of a dictionary, and the rejection of a row by the database.
\<close>

datatype workflow_error =
    WorkflowNotFoundError string
  | WorkflowConflictError string
  | InvalidTransitionError string
  | WorkflowAuthorizationError string
  | ValidationError string
  | PyKeyError string
  | UniqueViolationError string

text \<open>
  The state machine as the code's tables state it, for the theorems: which transition
  an audit event may record. \<open>None\<close> is the creation of a workflow.
\<close>

inductive legal_edge :: "workflow_state option \<Rightarrow> workflow_state \<Rightarrow> bool" where
  le_create: "legal_edge None INTAKE"
| le_extract: "legal_edge (Some INTAKE) EXTRACTED"
| le_gate: "legal_edge (Some EXTRACTED) RULE_GATED"
| le_suggest: "legal_edge (Some RULE_GATED) AI_SUGGESTED"
| le_await: "legal_edge (Some AI_SUGGESTED) AWAITING_HUMAN"
| le_decide: "legal_edge (Some AWAITING_HUMAN) HUMAN_DECIDED"
| le_write: "legal_edge (Some HUMAN_DECIDED) PRECEDENT_WRITTEN"
| le_reopen: "s \<in> {INTAKE, EXTRACTED, RULE_GATED, AI_SUGGESTED} \<Longrightarrow> legal_edge (Some HUMAN_DECIDED) s"

code_pred legal_edge .

inductive_cases legal_edge_into_decided: "legal_edge s HUMAN_DECIDED"
inductive_cases legal_edge_into_written: "legal_edge s PRECEDENT_WRITTEN"
inductive_simps legal_edge_from_written: "legal_edge (Some PRECEDENT_WRITTEN) s"

lemma decided_only_from_awaiting: "legal_edge s HUMAN_DECIDED \<Longrightarrow> s = Some AWAITING_HUMAN"
  by (auto elim: legal_edge_into_decided)

lemma written_only_from_decided: "legal_edge s PRECEDENT_WRITTEN \<Longrightarrow> s = Some HUMAN_DECIDED"
  by (auto elim: legal_edge_into_written)

end
