(* ===== verification/FM_Workflow_Service.thy ===== *)
theory FM_Workflow_Service
  imports FM_Workflow_Schema
begin

text \<open>
  The workflow service (\<open>workflow/service.py\<close>): the authorization of each command and
  the transition closure it hands to the repository. The repository is the argument
  \<open>transition\<close> (or \<open>create\<close>) of each operation, as the service takes it in its
  constructor, so the same definitions run over the in-memory repository and over the
  Postgres one. Clock readings and fresh identifiers come in as a \<open>tick\<close>.
\<close>

record tick =
  tk_now :: timestamp
  tk_created :: timestamp
  tk_occurred :: timestamp
  tk_audit_id :: uuid
  tk_uuid :: uuid

type_synonym transition_fun =
  "workflow_record \<Rightarrow> nat \<Rightarrow> workflow_error + (workflow_record \<times> audit_event)"

type_synonym 'r transition_op =
  "app_id \<Rightarrow> uuid \<Rightarrow> transition_fun \<Rightarrow> 'r \<Rightarrow> workflow_error + (transition_result \<times> 'r)"

type_synonym 'r create_op =
  "workflow_record \<Rightarrow> audit_event \<Rightarrow> 'r \<Rightarrow> workflow_error + (transition_result \<times> 'r)"

section \<open>Tables and guards\<close>

definition PIPELINE_TRANSITIONS :: "workflow_state \<Rightarrow> workflow_state option" where
  "PIPELINE_TRANSITIONS = [INTAKE \<mapsto> EXTRACTED, EXTRACTED \<mapsto> RULE_GATED, RULE_GATED \<mapsto> AI_SUGGESTED,
     AI_SUGGESTED \<mapsto> AWAITING_HUMAN]"

fun RESTART_STATES :: "restart_stage \<Rightarrow> workflow_state option" where
  "RESTART_STATES RS_SUPERVISOR = None"
| "RESTART_STATES RS_DOCUMENT_PROCESSING = Some INTAKE"
| "RESTART_STATES RS_FINANCIAL_ANALYSIS = Some INTAKE"
| "RESTART_STATES RS_ELIGIBILITY = Some EXTRACTED"
| "RESTART_STATES RS_PRECEDENT_RETRIEVAL = Some RULE_GATED"
| "RESTART_STATES RS_SUGGESTION = Some RULE_GATED"
| "RESTART_STATES RS_GUARDRAILS = Some AI_SUGGESTED"

definition require_role :: "actor_claims \<Rightarrow> actor_role \<Rightarrow> workflow_error + unit" where
  "require_role actor role =
     ensure (role \<in> ac_roles actor) (WorkflowAuthorizationError (role_value role @ '' role required''))"

definition require_version :: "workflow_record \<Rightarrow> nat \<Rightarrow> workflow_error + unit" where
  "require_version current expected =
     ensure (wf_version current = expected)
       (WorkflowConflictError (''expected version '' @ str_nat expected @
          '', current version is '' @ str_nat (wf_version current)))"

text \<open>\<open>tuple(sorted(roles, key=str))\<close>: by the value of the role.\<close>

definition sorted_roles :: "actor_role set \<Rightarrow> actor_role list" where
  "sorted_roles rs = filter (\<lambda>r. r \<in> rs) [HUMAN_REVIEWER, PIPELINE]"

definition service_event ::
  "uuid \<Rightarrow> workflow_record \<Rightarrow> nat \<Rightarrow> actor_claims \<Rightarrow> workflow_state option \<Rightarrow> workflow_state \<Rightarrow>
   string \<Rightarrow> string \<Rightarrow> (string \<times> change_value) list \<Rightarrow> tick \<Rightarrow> audit_event" where
  "service_event command_id workflow sequence actor from_state to_state action reason changes t =
     \<lparr>ae_audit_id = tk_audit_id t, ae_command_id = command_id,
      ae_application_id = wf_application_id workflow, ae_sequence = sequence,
      ae_actor_id = ac_actor_id actor, ae_actor_display_name = ac_display_name actor,
      ae_actor_roles = sorted_roles (ac_roles actor), ae_from_state = from_state,
      ae_to_state = to_state, ae_action = action, ae_reason = reason, ae_changes = changes,
      ae_occurred_at = tk_occurred t\<rparr>"

section \<open>Create\<close>

definition initial_workflow :: "app_id \<Rightarrow> tick \<Rightarrow> workflow_record" where
  "initial_workflow application_id t =
     \<lparr>wf_application_id = application_id, wf_state = INTAKE, wf_version = 0, wf_suggestion = None,
      wf_decision = None, wf_precedent_receipt = None, wf_created_at = tk_created t,
      wf_updated_at = tk_now t\<rparr>"

definition create_workflow ::
  "'r create_op \<Rightarrow> app_id \<Rightarrow> actor_claims \<Rightarrow> uuid option \<Rightarrow> string \<Rightarrow> tick \<Rightarrow> 'r \<Rightarrow>
   workflow_error + (transition_result \<times> 'r)" where
  "create_workflow create application_id actor command_id reason t repo =
     ebind (require_role actor PIPELINE) (\<lambda>_.
     if \<not> bounded_text 1 200 application_id then Inl (ValidationError ''application_id'')
     else
       (let workflow = initial_workflow application_id t;
            event = service_event (case command_id of Some c \<Rightarrow> c | None \<Rightarrow> tk_uuid t)
              workflow 1 actor None INTAKE ''create'' reason [(''state'', ChState INTAKE)] t
        in create workflow event repo))"

section \<open>Advance\<close>

text \<open>\<open>command.suggestion or current.suggestion\<close>: an empty object is false.\<close>

definition suggestion_or :: "json_object option \<Rightarrow> json_object option \<Rightarrow> json_object option" where
  "suggestion_or new old = (case new of Some (x # xs) \<Rightarrow> new | _ \<Rightarrow> old)"

definition advance_transition :: "pipeline_advance_command \<Rightarrow> actor_claims \<Rightarrow> tick \<Rightarrow> transition_fun" where
  "advance_transition command actor t current sequence =
     ebind (require_version current (pa_expected_version command)) (\<lambda>_.
     if PIPELINE_TRANSITIONS (wf_state current) \<noteq> Some (pa_target_state command) then
       Inl (InvalidTransitionError (''pipeline cannot transition '' @ state_value (wf_state current)
          @ '' to '' @ state_value (pa_target_state command)))
     else if pa_target_state command = AI_SUGGESTED \<and> pa_suggestion command = None then
       Inl (InvalidTransitionError ''AI_SUGGESTED requires a suggestion payload'')
     else if pa_suggestion command \<noteq> None \<and> pa_target_state command \<noteq> AI_SUGGESTED then
       Inl (InvalidTransitionError ''suggestion is only accepted when entering AI_SUGGESTED'')
     else
       (let updated = current\<lparr>wf_state := pa_target_state command,
              wf_version := wf_version current + 1,
              wf_suggestion := suggestion_or (pa_suggestion command) (wf_suggestion current),
              wf_updated_at := tk_now t\<rparr>;
            event = service_event (pa_command_id command) updated sequence actor
              (Some (wf_state current)) (wf_state updated) ''pipeline_advance'' (pa_reason command)
              [(''state'', ChState (wf_state updated)), (''version'', ChVersion (wf_version updated))] t
        in Inr (updated, event)))"

definition advance_pipeline ::
  "'r transition_op \<Rightarrow> app_id \<Rightarrow> pipeline_advance_command \<Rightarrow> actor_claims \<Rightarrow> tick \<Rightarrow> 'r \<Rightarrow>
   workflow_error + (transition_result \<times> 'r)" where
  "advance_pipeline transition application_id command actor t repo =
     ebind (require_role actor PIPELINE) (\<lambda>_.
       transition application_id (pa_command_id command) (advance_transition command actor t) repo)"

section \<open>Decide\<close>

definition decision_of :: "human_decision_command \<Rightarrow> actor_claims \<Rightarrow> tick \<Rightarrow> human_decision_record" where
  "decision_of command actor t =
     \<lparr>hr_action = hc_action command, hr_funder_id = hc_funder_id command,
      hr_reason = hc_reason command, hr_conditions = hc_conditions command,
      hr_overrides = hc_overrides command, hr_actor_id = ac_actor_id actor,
      hr_actor_display_name = ac_display_name actor, hr_decided_at = tk_now t\<rparr>"

definition decide_transition :: "human_decision_command \<Rightarrow> actor_claims \<Rightarrow> tick \<Rightarrow> transition_fun" where
  "decide_transition command actor t current sequence =
     ebind (require_version current (hc_expected_version command)) (\<lambda>_.
     if wf_state current \<noteq> AWAITING_HUMAN then
       Inl (InvalidTransitionError (''human decision requires AWAITING_HUMAN, found ''
          @ state_value (wf_state current)))
     else
       (let decision = decision_of command actor t;
            updated = current\<lparr>wf_state := HUMAN_DECIDED, wf_version := wf_version current + 1,
              wf_decision := Some decision, wf_updated_at := tk_now t\<rparr>;
            event = service_event (hc_command_id command) updated sequence actor
              (Some (wf_state current)) (wf_state updated) (action_value (hc_action command))
              (hc_reason command)
              [(''state'', ChState (wf_state updated)), (''version'', ChVersion (wf_version updated)),
               (''decision'', ChDecision decision)] t
        in Inr (updated, event)))"

definition decide ::
  "'r transition_op \<Rightarrow> app_id \<Rightarrow> human_decision_command \<Rightarrow> actor_claims \<Rightarrow> tick \<Rightarrow> 'r \<Rightarrow>
   workflow_error + (transition_result \<times> 'r)" where
  "decide transition application_id command actor t repo =
     ebind (require_role actor HUMAN_REVIEWER) (\<lambda>_.
       transition application_id (hc_command_id command) (decide_transition command actor t) repo)"

section \<open>Precedent written\<close>

definition written_transition ::
  "precedent_write_command \<Rightarrow> precedent_write_receipt \<Rightarrow> actor_claims \<Rightarrow> tick \<Rightarrow> transition_fun" where
  "written_transition command receipt actor t current sequence =
     ebind (require_version current (pw_expected_version command)) (\<lambda>_.
     if wf_state current \<noteq> HUMAN_DECIDED then
       Inl (InvalidTransitionError (''precedent write requires HUMAN_DECIDED, found ''
          @ state_value (wf_state current)))
     else if (case wf_decision current of None \<Rightarrow> True | Some d \<Rightarrow> hr_action d = SEND_BACK) then
       Inl (InvalidTransitionError ''send_back is not a decided lending precedent'')
     else
       (let updated = current\<lparr>wf_state := PRECEDENT_WRITTEN, wf_version := wf_version current + 1,
              wf_precedent_receipt := Some receipt, wf_updated_at := tk_now t\<rparr>;
            event = service_event (pw_command_id command) updated sequence actor
              (Some (wf_state current)) (wf_state updated) ''precedent_written'' (pw_reason command)
              [(''state'', ChState (wf_state updated)), (''version'', ChVersion (wf_version updated)),
               (''precedent_receipt'', ChReceipt receipt)] t
        in Inr (updated, event)))"

definition mark_precedent_written ::
  "'r transition_op \<Rightarrow> app_id \<Rightarrow> precedent_write_command \<Rightarrow> precedent_write_receipt \<Rightarrow>
   actor_claims \<Rightarrow> tick \<Rightarrow> 'r \<Rightarrow> workflow_error + (transition_result \<times> 'r)" where
  "mark_precedent_written transition application_id command receipt actor t repo =
     ebind (require_role actor PIPELINE) (\<lambda>_.
       transition application_id (pw_command_id command)
         (written_transition command receipt actor t) repo)"

section \<open>Reopen after a send-back\<close>

definition reopen_transition :: "pipeline_reopen_command \<Rightarrow> actor_claims \<Rightarrow> tick \<Rightarrow> transition_fun" where
  "reopen_transition command actor t current sequence =
     ebind (require_version current (pr_expected_version command)) (\<lambda>_.
     if wf_state current \<noteq> HUMAN_DECIDED \<or>
        (case wf_decision current of None \<Rightarrow> True | Some d \<Rightarrow> hr_action d \<noteq> SEND_BACK) then
       Inl (InvalidTransitionError ''pipeline reopen requires an authoritative send_back action'')
     else case RESTART_STATES (pr_restart_stage command) of
       None \<Rightarrow> Inl (PyKeyError ''restart_stage'')
     | Some target \<Rightarrow>
       (let updated = current\<lparr>wf_state := target, wf_version := wf_version current + 1,
              wf_decision := None, wf_updated_at := tk_now t\<rparr>;
            event = service_event (pr_command_id command) updated sequence actor
              (Some (wf_state current)) target ''send_back_reopen'' (pr_reason command)
              [(''state'', ChState target), (''version'', ChVersion (wf_version updated)),
               (''restart_stage'', ChStage (pr_restart_stage command))] t
        in Inr (updated, event)))"

definition reopen_after_send_back ::
  "'r transition_op \<Rightarrow> app_id \<Rightarrow> pipeline_reopen_command \<Rightarrow> actor_claims \<Rightarrow> tick \<Rightarrow> 'r \<Rightarrow>
   workflow_error + (transition_result \<times> 'r)" where
  "reopen_after_send_back transition application_id command actor t repo =
     ebind (require_role actor HUMAN_REVIEWER) (\<lambda>_.
     if pr_restart_stage command = RS_SUPERVISOR then
       Inl (InvalidTransitionError ''supervisor route must resolve to an explicit stage'')
     else transition application_id (pr_command_id command) (reopen_transition command actor t) repo)"

section \<open>What every transition keeps\<close>

text \<open>
  \<open>record_ok\<close> is the invariant of a workflow record: a decision is recorded exactly from
  the human decision on, a written precedent has a receipt and a decision other than
  send-back, and before that there is no receipt.
\<close>

definition record_ok :: "workflow_record \<Rightarrow> bool" where
  "record_ok w \<longleftrightarrow>
     (wf_decision w \<noteq> None \<longleftrightarrow> wf_state w \<in> {HUMAN_DECIDED, PRECEDENT_WRITTEN}) \<and>
     (wf_precedent_receipt w \<noteq> None \<longleftrightarrow> wf_state w = PRECEDENT_WRITTEN) \<and>
     (wf_state w = PRECEDENT_WRITTEN \<longrightarrow>
        (case wf_decision w of None \<Rightarrow> False | Some d \<Rightarrow> hr_action d \<noteq> SEND_BACK))"

text \<open>
  \<open>good_transition app cid f\<close>: what a closure must satisfy for the repository: it stays
  within the application, records one legal edge under the command's identifier and the
  given sequence number, bumps the version by one and keeps the creation time.
\<close>

definition good_step :: "app_id \<Rightarrow> uuid \<Rightarrow> uuid \<Rightarrow> workflow_record \<Rightarrow> nat \<Rightarrow> workflow_record \<Rightarrow> audit_event \<Rightarrow> bool" where
  "good_step app cid aid w n w' ev \<longleftrightarrow>
     wf_application_id w' = app \<and> wf_version w' = wf_version w + 1 \<and>
     wf_created_at w' = wf_created_at w \<and> record_ok w' \<and>
     ae_application_id ev = app \<and> ae_command_id ev = cid \<and> ae_sequence ev = n \<and>
     ae_audit_id ev = aid \<and> ae_from_state ev = Some (wf_state w) \<and> ae_to_state ev = wf_state w' \<and>
     legal_edge (Some (wf_state w)) (wf_state w') \<and>
     (wf_state w' = HUMAN_DECIDED \<longrightarrow> HUMAN_REVIEWER \<in> set (ae_actor_roles ev)) \<and>
     (wf_state w' = PRECEDENT_WRITTEN \<longrightarrow> PIPELINE \<in> set (ae_actor_roles ev))"

definition good_transition :: "app_id \<Rightarrow> uuid \<Rightarrow> uuid \<Rightarrow> transition_fun \<Rightarrow> bool" where
  "good_transition app cid aid f \<longleftrightarrow>
     (\<forall>w n w' ev. wf_application_id w = app \<longrightarrow> record_ok w \<longrightarrow> f w n = Inr (w', ev) \<longrightarrow>
        good_step app cid aid w n w' ev)"

lemma set_sorted_roles [simp]: "set (sorted_roles rs) = rs"
proof (rule set_eqI)
  fix r
  show "r \<in> set (sorted_roles rs) \<longleftrightarrow> r \<in> rs"
    by (cases r) (auto simp: sorted_roles_def)
qed

lemmas transition_defs = good_transition_def good_step_def service_event_def require_version_def
  require_role_def record_ok_def Let_def

lemma pipeline_transitions_legal:
  "PIPELINE_TRANSITIONS s = Some s' \<Longrightarrow>
     legal_edge (Some s) s' \<and> s' \<notin> {INTAKE, HUMAN_DECIDED, PRECEDENT_WRITTEN} \<and>
     s \<notin> {AWAITING_HUMAN, HUMAN_DECIDED, PRECEDENT_WRITTEN}"
  by (auto simp: PIPELINE_TRANSITIONS_def split: if_splits intro: legal_edge.intros)

lemma restart_states_legal:
  "RESTART_STATES g = Some s \<Longrightarrow>
     legal_edge (Some HUMAN_DECIDED) s \<and> s \<in> {INTAKE, EXTRACTED, RULE_GATED, AI_SUGGESTED}"
  by (cases g) (auto intro: legal_edge.intros)

lemma advance_good:
  "PIPELINE \<in> ac_roles actor \<Longrightarrow>
   good_transition app (pa_command_id c) (tk_audit_id t) (advance_transition c actor t)"
  by (auto simp: transition_defs advance_transition_def result_elims split: if_splits
      dest!: pipeline_transitions_legal)

lemma decide_good:
  "HUMAN_REVIEWER \<in> ac_roles actor \<Longrightarrow>
   good_transition app (hc_command_id c) (tk_audit_id t) (decide_transition c actor t)"
  by (auto simp: transition_defs decide_transition_def result_elims split: if_splits
      intro: legal_edge.intros)

lemma written_good:
  "PIPELINE \<in> ac_roles actor \<Longrightarrow>
   good_transition app (pw_command_id c) (tk_audit_id t) (written_transition c r actor t)"
  by (auto simp: transition_defs written_transition_def result_elims
      split: if_splits option.splits intro: legal_edge.intros)

lemma reopen_good:
  "good_transition app (pr_command_id c) (tk_audit_id t) (reopen_transition c actor t)"
  by (auto simp: transition_defs reopen_transition_def result_elims
      split: if_splits option.splits dest!: restart_states_legal)

end
