(* ===== verification/FM_Workflow_Repository.thy ===== *)
theory FM_Workflow_Repository
  imports FM_Workflow_Service
begin

text \<open>
  The repository port of \<open>workflow/repository.py\<close> as a locale, and its two
  implementations: the in-memory one and the Postgres one of \<open>workflow/postgres.py\<close>,
  whose tables carry the constraints of the migrations. The client lemmas on the locale
  are what the service guarantees over either of them.
\<close>

section \<open>Histories\<close>

text \<open>
  \<open>history_ok\<close> is the audit contract: the events are numbered from one without a gap,
  each starts in the state the one before ended in, every edge is one of the state
  machine, the last one ends in the recorded state, the version counts the events after
  the creation, and a decision is signed by a human reviewer.
\<close>

fun chain_ok :: "workflow_state option \<Rightarrow> audit_event list \<Rightarrow> workflow_state option \<Rightarrow> bool" where
  "chain_ok s [] t = (s = t)"
| "chain_ok s (e # es) t =
     (ae_from_state e = s \<and> legal_edge s (ae_to_state e) \<and> chain_ok (Some (ae_to_state e)) es t)"

definition signed_ok :: "app_id \<Rightarrow> audit_event \<Rightarrow> bool" where
  "signed_ok a e \<longleftrightarrow> ae_application_id e = a \<and>
     (ae_to_state e = HUMAN_DECIDED \<longrightarrow> HUMAN_REVIEWER \<in> set (ae_actor_roles e)) \<and>
     (ae_to_state e = PRECEDENT_WRITTEN \<longrightarrow> PIPELINE \<in> set (ae_actor_roles e))"

definition history_ok :: "app_id \<Rightarrow> workflow_record \<Rightarrow> audit_event list \<Rightarrow> bool" where
  "history_ok a w evs \<longleftrightarrow>
     record_ok w \<and> wf_application_id w = a \<and> wf_version w + 1 = length evs \<and>
     map ae_sequence evs = [1..<length evs + 1] \<and> list_all (signed_ok a) evs \<and>
     chain_ok None evs (Some (wf_state w))"

lemma chain_ok_append: "chain_ok s (xs @ ys) t \<longleftrightarrow> (\<exists>m. chain_ok s xs m \<and> chain_ok m ys t)"
  by (induction xs arbitrary: s) auto

lemma chain_ok_last:
  "chain_ok s evs (Some t) \<Longrightarrow> s \<noteq> Some t \<Longrightarrow>
     \<exists>e xs. evs = xs @ [e] \<and> ae_to_state e = t \<and> legal_edge (ae_from_state e) t \<and>
       chain_ok s xs (ae_from_state e)"
  by (cases evs rule: rev_cases) (auto simp: chain_ok_append)

lemma history_step:
  assumes "history_ok a w evs" and "good_step a cid aid w (length evs + 1) w' ev"
  shows "history_ok a w' (evs @ [ev])"
  using assms by (auto simp: history_ok_def good_step_def signed_ok_def chain_ok_append)

text \<open>A written precedent was preceded by a decision of a human reviewer.\<close>

lemma history_written_decided:
  assumes "history_ok a w evs" and "wf_state w = PRECEDENT_WRITTEN"
  shows "\<exists>xs d e. evs = xs @ [d, e] \<and> ae_to_state d = HUMAN_DECIDED \<and>
     HUMAN_REVIEWER \<in> set (ae_actor_roles d) \<and> ae_to_state e = PRECEDENT_WRITTEN"
proof -
  from assms obtain e xs where e: "evs = xs @ [e]" "ae_to_state e = PRECEDENT_WRITTEN"
      "legal_edge (ae_from_state e) PRECEDENT_WRITTEN" "chain_ok None xs (ae_from_state e)"
    by (auto simp: history_ok_def dest!: chain_ok_last)
  from e(3) have "ae_from_state e = Some HUMAN_DECIDED" by (rule written_only_from_decided)
  with e(4) obtain d ys where d: "xs = ys @ [d]" "ae_to_state d = HUMAN_DECIDED"
    by (auto dest!: chain_ok_last)
  from assms(1) e(1) d(1) have "signed_ok a d" by (simp add: history_ok_def)
  with d(2) have "HUMAN_REVIEWER \<in> set (ae_actor_roles d)" by (simp add: signed_ok_def)
  with e d show ?thesis by auto
qed

section \<open>Commands to the service\<close>

datatype service_command =
    Create app_id actor_claims "uuid option" string
  | Advance app_id pipeline_advance_command actor_claims
  | Decide app_id human_decision_command actor_claims
  | Written app_id precedent_write_command precedent_write_receipt actor_claims
  | Reopen app_id pipeline_reopen_command actor_claims

fun service_apply ::
  "'r create_op \<Rightarrow> 'r transition_op \<Rightarrow> service_command \<Rightarrow> tick \<Rightarrow> 'r \<Rightarrow>
   workflow_error + (transition_result \<times> 'r)" where
  "service_apply cr tr (Create a actor cid reason) t r = create_workflow cr a actor cid reason t r"
| "service_apply cr tr (Advance a c actor) t r = advance_pipeline tr a c actor t r"
| "service_apply cr tr (Decide a c actor) t r = decide tr a c actor t r"
| "service_apply cr tr (Written a c rcpt actor) t r = mark_precedent_written tr a c rcpt actor t r"
| "service_apply cr tr (Reopen a c actor) t r = reopen_after_send_back tr a c actor t r"

text \<open>A session: a command that raises leaves the repository as it was.\<close>

fun service_run ::
  "'r create_op \<Rightarrow> 'r transition_op \<Rightarrow> (service_command \<times> tick) list \<Rightarrow> 'r \<Rightarrow> 'r" where
  "service_run cr tr [] r = r"
| "service_run cr tr ((c, t) # cs) r =
     (case service_apply cr tr c t r of
        Inl _ \<Rightarrow> service_run cr tr cs r
      | Inr (_, r') \<Rightarrow> service_run cr tr cs r')"

section \<open>The repository port\<close>

locale workflow_repository =
  fixes repo_inv :: "'r \<Rightarrow> bool"
    and view :: "'r \<Rightarrow> app_id \<Rightarrow> (workflow_record \<times> audit_event list) option"
    and replay :: "'r \<Rightarrow> app_id \<times> uuid \<Rightarrow> transition_result option"
    and audit_used :: "'r \<Rightarrow> uuid \<Rightarrow> bool"
    and empty_repo :: 'r
    and create :: "'r create_op"
    and transition :: "'r transition_op"
    and get :: "app_id \<Rightarrow> 'r \<Rightarrow> workflow_error + workflow_record"
    and audit :: "app_id \<Rightarrow> 'r \<Rightarrow> workflow_error + audit_event list"
  assumes inv_empty: "repo_inv empty_repo"
    and view_empty: "view empty_repo a = None"
    and used_empty: "\<not> audit_used empty_repo x"
    and get_view: "repo_inv r \<Longrightarrow> get a r =
      (case view r a of None \<Rightarrow> Inl (WorkflowNotFoundError a) | Some (w, evs) \<Rightarrow> Inr w)"
    and audit_view: "repo_inv r \<Longrightarrow> audit a r =
      (case view r a of None \<Rightarrow> Inl (WorkflowNotFoundError a) | Some (w, evs) \<Rightarrow> Inr evs)"
    and view_app: "repo_inv r \<Longrightarrow> view r a = Some (w, evs) \<Longrightarrow> wf_application_id w = a"
    and create_exists: "repo_inv r \<Longrightarrow> view r a = Some p \<Longrightarrow> wf_application_id w = a \<Longrightarrow>
      replay r (a, ae_command_id ev) = None \<Longrightarrow>
      create w ev r = Inl (WorkflowConflictError a)"
    and create_fresh: "repo_inv r \<Longrightarrow> view r a = None \<Longrightarrow> wf_application_id w = a \<Longrightarrow>
      ae_application_id ev = a \<Longrightarrow> ae_sequence ev = 1 \<Longrightarrow> \<not> audit_used r (ae_audit_id ev) \<Longrightarrow>
      \<exists>r'. create w ev r = Inr (\<lparr>tr_workflow = w, tr_audit_event = ev\<rparr>, r') \<and> repo_inv r' \<and>
        view r' = (view r)(a \<mapsto> (w, [ev])) \<and>
        replay r' = (replay r)((a, ae_command_id ev) \<mapsto> \<lparr>tr_workflow = w, tr_audit_event = ev\<rparr>) \<and>
        (\<forall>x. audit_used r' x \<longrightarrow> audit_used r x \<or> x = ae_audit_id ev)"
    and create_known: "repo_inv r \<Longrightarrow> view r a = Some p \<Longrightarrow> wf_application_id w = a \<Longrightarrow>
      create w ev r = Inr (res, r') \<Longrightarrow> r' = r"
    and transition_replay: "repo_inv r \<Longrightarrow> replay r (a, cid) = Some res \<Longrightarrow>
      transition a cid f r = Inr (res, r)"
    and transition_missing: "repo_inv r \<Longrightarrow> replay r (a, cid) = None \<Longrightarrow> view r a = None \<Longrightarrow>
      transition a cid f r = Inl (WorkflowNotFoundError a)"
    and transition_raises: "repo_inv r \<Longrightarrow> replay r (a, cid) = None \<Longrightarrow> view r a = Some (w, evs) \<Longrightarrow>
      f w (length evs + 1) = Inl e \<Longrightarrow> transition a cid f r = Inl e"
    and transition_ok: "repo_inv r \<Longrightarrow> replay r (a, cid) = None \<Longrightarrow> view r a = Some (w, evs) \<Longrightarrow>
      f w (length evs + 1) = Inr (w', ev) \<Longrightarrow>
      good_step a cid (ae_audit_id ev) w (length evs + 1) w' ev \<Longrightarrow> \<not> audit_used r (ae_audit_id ev) \<Longrightarrow>
      \<exists>r'. transition a cid f r = Inr (\<lparr>tr_workflow = w', tr_audit_event = ev\<rparr>, r') \<and> repo_inv r' \<and>
        view r' = (view r)(a \<mapsto> (w', evs @ [ev])) \<and>
        replay r' = (replay r)((a, cid) \<mapsto> \<lparr>tr_workflow = w', tr_audit_event = ev\<rparr>) \<and>
        (\<forall>x. audit_used r' x \<longrightarrow> audit_used r x \<or> x = ae_audit_id ev)"
begin

text \<open>
  \<open>tracked\<close>: every stored history satisfies the audit contract. \<open>extends\<close>: what one
  command may do to the histories, which is to append to them.
\<close>

definition tracked :: "'r \<Rightarrow> bool" where
  "tracked r \<longleftrightarrow> repo_inv r \<and> (\<forall>a w evs. view r a = Some (w, evs) \<longrightarrow> history_ok a w evs)"

definition extends :: "'r \<Rightarrow> 'r \<Rightarrow> uuid \<Rightarrow> bool" where
  "extends r r' aid \<longleftrightarrow>
     (\<forall>a w evs. view r a = Some (w, evs) \<longrightarrow> (\<exists>w' new. view r' a = Some (w', evs @ new))) \<and>
     (\<forall>x. audit_used r' x \<longrightarrow> audit_used r x \<or> x = aid)"

lemma extends_refl: "extends r r aid"
  unfolding extends_def by (metis append_Nil2 surj_pair)

lemma transition_step:
  assumes r: "tracked r" and f: "good_transition a cid aid f" and fresh: "\<not> audit_used r aid"
    and ok: "transition a cid f r = Inr (res, r')"
  shows "tracked r' \<and> extends r r' aid"
proof (cases "replay r (a, cid)")
  case (Some p)
  with r ok have "r' = r" by (auto simp: tracked_def transition_replay)
  with r show ?thesis by (simp add: extends_refl)
next
  case None
  from r have inv: "repo_inv r" by (simp add: tracked_def)
  show ?thesis
  proof (cases "view r a")
    case None
    with inv \<open>replay r (a, cid) = None\<close> ok show ?thesis by (simp add: transition_missing)
  next
    case (Some p)
    then obtain w evs where p: "view r a = Some (w, evs)" by (cases p) auto
    with r have h: "history_ok a w evs" by (simp add: tracked_def)
    show ?thesis
    proof (cases "f w (length evs + 1)")
      case (Inl e)
      with inv None p ok show ?thesis by (simp add: transition_raises)
    next
      case (Inr q)
      then obtain w' ev where q: "f w (length evs + 1) = Inr (w', ev)" by (cases q) auto
      from f q h have g: "good_step a cid aid w (length evs + 1) w' ev"
        by (auto simp: good_transition_def history_ok_def)
      then have aid: "ae_audit_id ev = aid" by (simp add: good_step_def)
      from transition_ok [of r a cid w evs f w' ev] inv None p q g fresh aid ok
      have r': "repo_inv r'" "view r' = (view r)(a \<mapsto> (w', evs @ [ev]))"
          "\<forall>x. audit_used r' x \<longrightarrow> audit_used r x \<or> x = aid" by auto
      from history_step [OF h g] r r' have "tracked r'" by (auto simp: tracked_def)
      moreover from r' p have "extends r r' aid" by (auto simp: extends_def)
      ultimately show ?thesis by simp
    qed
  qed
qed

lemma create_step:
  assumes r: "tracked r" and fresh: "\<not> audit_used r (tk_audit_id t)"
    and ok: "create_workflow create a actor cid reason t r = Inr (res, r')"
  shows "tracked r' \<and> extends r r' (tk_audit_id t)"
proof -
  from r have inv: "repo_inv r" by (simp add: tracked_def)
  let ?w = "initial_workflow a t"
  let ?ev = "service_event (case cid of Some c \<Rightarrow> c | None \<Rightarrow> tk_uuid t) ?w 1 actor None INTAKE
     ''create'' reason [(''state'', ChState INTAKE)] t"
  from ok have c: "create ?w ?ev r = Inr (res, r')"
    by (auto simp: create_workflow_def result_elims Let_def split: if_splits)
  show ?thesis
  proof (cases "view r a")
    case (Some x)
    from create_known [OF inv Some _ c] have "r' = r" by (simp add: initial_workflow_def)
    with r show ?thesis by (simp add: extends_refl)
  next
    case None
    have "history_ok a ?w [?ev]"
      by (auto simp: history_ok_def record_ok_def initial_workflow_def service_event_def signed_ok_def
          intro: legal_edge.intros)
    with create_fresh [OF inv None, of ?w ?ev] c r fresh None show ?thesis
      by (auto simp: tracked_def extends_def initial_workflow_def service_event_def)
  qed
qed

lemma service_step:
  assumes "tracked r" and "\<not> audit_used r (tk_audit_id t)"
    and "service_apply create transition c t r = Inr (res, r')"
  shows "tracked r' \<and> extends r r' (tk_audit_id t)"
proof (cases c)
  case (Create a actor cid reason)
  with assms show ?thesis by (simp add: create_step)
next
  case (Advance a c' actor)
  with assms show ?thesis
    by (auto simp: advance_pipeline_def require_role_def result_elims
        dest: transition_step [OF _ advance_good])
next
  case (Decide a c' actor)
  with assms show ?thesis
    by (auto simp: decide_def require_role_def result_elims dest: transition_step [OF _ decide_good])
next
  case (Written a c' rcpt actor)
  with assms show ?thesis
    by (auto simp: mark_precedent_written_def require_role_def result_elims
        dest: transition_step [OF _ written_good])
next
  case (Reopen a c' actor)
  with assms show ?thesis
    by (auto simp: reopen_after_send_back_def require_role_def result_elims
        dest: transition_step [OF _ reopen_good] split: if_splits)
qed

lemma tracked_empty: "tracked empty_repo"
  by (simp add: tracked_def inv_empty view_empty)

lemma service_run_tracked:
  assumes "tracked r" and "distinct (map (tk_audit_id \<circ> snd) cs)"
    and "\<forall>(c, t) \<in> set cs. \<not> audit_used r (tk_audit_id t)"
  shows "tracked (service_run create transition cs r)"
  using assms
proof (induction cs arbitrary: r)
  case Nil
  then show ?case by simp
next
  case (Cons ct cs)
  obtain c t where ct: "ct = (c, t)" by (cases ct)
  show ?case
  proof (cases "service_apply create transition c t r")
    case (Inl e)
    with Cons ct show ?thesis by simp
  next
    case (Inr q)
    then obtain res r' where q: "service_apply create transition c t r = Inr (res, r')"
      by (cases q) auto
    from service_step [OF Cons.prems(1) _ q] Cons.prems(3) ct
    have r': "tracked r'" "extends r r' (tk_audit_id t)" by auto
    have "\<forall>(c', t') \<in> set cs. \<not> audit_used r' (tk_audit_id t')"
      using r'(2) Cons.prems(2,3) ct by (force simp: extends_def)
    with Cons.IH [OF r'(1)] Cons.prems(2) ct q show ?thesis by simp
  qed
qed

lemma run_history:
  assumes "distinct (map (tk_audit_id \<circ> snd) cs)"
    and "view (service_run create transition cs empty_repo) a = Some (w, evs)"
  shows "history_ok a w evs"
  using service_run_tracked [OF tracked_empty assms(1)] assms(2)
  by (auto simp: tracked_def used_empty)

end

end
