(* ===== verification/FM_Workflow_Memory.thy ===== *)
theory FM_Workflow_Memory
  imports FM_Workflow_Repository
begin

text \<open>
  \<open>InMemoryWorkflowRepository\<close>: three dictionaries behind one lock. The lock makes
  every operation atomic, so an operation is one function on the three dictionaries; an
  exception leaves them unchanged because the code writes only after the last raise.
\<close>

record memory_repo =
  mr_workflows :: "(app_id \<times> workflow_record) list"
  mr_events :: "(app_id \<times> audit_event list) list"
  mr_commands :: "((app_id \<times> uuid) \<times> transition_result) list"

definition mem_empty :: memory_repo where
  "mem_empty = \<lparr>mr_workflows = [], mr_events = [], mr_commands = []\<rparr>"

definition mem_create :: "memory_repo create_op" where
  "mem_create workflow event repo =
     (let a = wf_application_id workflow in
      if dict_get (mr_workflows repo) a \<noteq> None then Inl (WorkflowConflictError a)
      else
        (let result = \<lparr>tr_workflow = workflow, tr_audit_event = event\<rparr>
         in Inr (result,
              repo\<lparr>mr_workflows := dict_set a workflow (mr_workflows repo),
                   mr_events := dict_set a [event] (mr_events repo),
                   mr_commands := dict_set (a, ae_command_id event) result (mr_commands repo)\<rparr>)))"

definition mem_get :: "app_id \<Rightarrow> memory_repo \<Rightarrow> workflow_error + workflow_record" where
  "mem_get a repo =
     (case dict_get (mr_workflows repo) a of
        Some w \<Rightarrow> Inr w | None \<Rightarrow> Inl (WorkflowNotFoundError a))"

definition mem_audit :: "app_id \<Rightarrow> memory_repo \<Rightarrow> workflow_error + audit_event list" where
  "mem_audit a repo =
     (case dict_get (mr_events repo) a of
        Some evs \<Rightarrow> Inr evs | None \<Rightarrow> Inl (WorkflowNotFoundError a))"

definition mem_transition :: "memory_repo transition_op" where
  "mem_transition a command_id f repo =
     (case dict_get (mr_commands repo) (a, command_id) of
        Some prior \<Rightarrow> Inr (prior, repo)
      | None \<Rightarrow>
          ebind (mem_get a repo) (\<lambda>current.
          case dict_get (mr_events repo) a of
            None \<Rightarrow> Inl (PyKeyError a)
          | Some evs \<Rightarrow>
              ebind (f current (length evs + 1)) (\<lambda>(workflow, event).
                (let result = \<lparr>tr_workflow = workflow, tr_audit_event = event\<rparr>
                 in Inr (result,
                      repo\<lparr>mr_workflows := dict_set a workflow (mr_workflows repo),
                           mr_events := dict_set a (evs @ [event]) (mr_events repo),
                           mr_commands := dict_set (a, command_id) result (mr_commands repo)\<rparr>)))))"

section \<open>It implements the port\<close>

definition mem_inv :: "memory_repo \<Rightarrow> bool" where
  "mem_inv r \<longleftrightarrow>
     (\<forall>a. dict_get (mr_workflows r) a = None \<longleftrightarrow> dict_get (mr_events r) a = None) \<and>
     (\<forall>a w. dict_get (mr_workflows r) a = Some w \<longrightarrow> wf_application_id w = a)"

definition mem_view :: "memory_repo \<Rightarrow> app_id \<Rightarrow> (workflow_record \<times> audit_event list) option" where
  "mem_view r a =
     (case dict_get (mr_workflows r) a of
        None \<Rightarrow> None
      | Some w \<Rightarrow> (case dict_get (mr_events r) a of None \<Rightarrow> None | Some evs \<Rightarrow> Some (w, evs)))"

lemma mem_view_Some:
  "mem_view r a = Some (w, evs) \<longleftrightarrow>
     dict_get (mr_workflows r) a = Some w \<and> dict_get (mr_events r) a = Some evs"
  by (auto simp: mem_view_def split: option.splits)

lemma mem_view_None: "mem_inv r \<Longrightarrow> mem_view r a = None \<longleftrightarrow> dict_get (mr_workflows r) a = None"
  by (auto simp: mem_view_def mem_inv_def split: option.splits)

lemma mem_view_update:
  "mem_view (r\<lparr>mr_workflows := dict_set a w (mr_workflows r),
      mr_events := dict_set a evs (mr_events r), mr_commands := cs\<rparr>) = (mem_view r)(a \<mapsto> (w, evs))"
  by (rule ext) (simp add: mem_view_def split: option.splits)

lemma mem_inv_update:
  "mem_inv r \<Longrightarrow> wf_application_id w = a \<Longrightarrow>
   mem_inv (r\<lparr>mr_workflows := dict_set a w (mr_workflows r),
      mr_events := dict_set a evs (mr_events r), mr_commands := cs\<rparr>)"
  by (simp add: mem_inv_def)

lemma dict_get_set_fun: "dict_get (dict_set k v d) = (dict_get d)(k \<mapsto> v)"
  by (rule ext) simp

interpretation mem: workflow_repository mem_inv mem_view "\<lambda>r. dict_get (mr_commands r)"
  "\<lambda>_ _. False" mem_empty mem_create mem_transition mem_get mem_audit
proof (unfold_locales, goal_cases)
  case 1 show ?case by (simp add: mem_inv_def mem_empty_def)
next
  case 2 show ?case by (simp add: mem_view_def mem_empty_def)
next
  case 3 show ?case by simp
next
  case 4 then show ?case by (auto simp: mem_get_def mem_view_def mem_inv_def split: option.splits)
next
  case 5 then show ?case by (auto simp: mem_audit_def mem_view_def mem_inv_def split: option.splits)
next
  case 6 then show ?case by (simp add: mem_inv_def mem_view_Some)
next
  case 7 then show ?case by (auto simp: mem_create_def mem_view_def split: option.splits)
next
  case (8 r a w ev)
  then show ?case
    by (auto simp: mem_create_def Let_def mem_view_None mem_view_update mem_inv_update dict_get_set_fun)
next
  case 9 then show ?case by (auto simp: mem_create_def mem_view_def split: option.splits)
next
  case 10 then show ?case by (simp add: mem_transition_def)
next
  case 11 then show ?case by (simp add: mem_transition_def mem_get_def mem_view_None)
next
  case 12 then show ?case by (simp add: mem_transition_def mem_get_def mem_view_Some)
next
  case (13 r a cid w evs f w' ev)
  then show ?case
    by (auto simp: mem_transition_def mem_get_def Let_def mem_view_Some mem_view_update mem_inv_update
        dict_get_set_fun good_step_def)
qed

end
