(* ===== verification/FM_Workflow_Postgres.thy ===== *)
theory FM_Workflow_Postgres
  imports FM_Workflow_Repository
begin

text \<open>
  \<open>PostgresWorkflowRepository\<close> over the tables of \<open>migrations/001\<close> and \<open>002\<close>. A table
  is the list of its rows; a transaction is one function on the three tables, which is
  what the row lock of \<open>FOR UPDATE\<close> gives two commands on one workflow, and an error
  inside it rolls everything back. The primary keys and unique constraints are checks of
  the inserts. The JSON columns hold the typed values that are written to and read from
  them.
\<close>

record postgres_repo =
  pg_cases :: "workflow_record list"
  pg_audit :: "audit_event list"
  pg_commands :: "((app_id \<times> uuid) \<times> transition_result) list"

definition pg_empty :: postgres_repo where
  "pg_empty = \<lparr>pg_cases = [], pg_audit = [], pg_commands = []\<rparr>"

definition find_case :: "app_id \<Rightarrow> workflow_record list \<Rightarrow> workflow_record option" where
  "find_case a cases = find (\<lambda>w. wf_application_id w = a) cases"

definition command_result :: "app_id \<Rightarrow> uuid \<Rightarrow> postgres_repo \<Rightarrow> transition_result option" where
  "command_result a cid repo = dict_get (pg_commands repo) (a, cid)"

definition insert_audit :: "audit_event \<Rightarrow> postgres_repo \<Rightarrow> workflow_error + postgres_repo" where
  "insert_audit ev repo =
     (if list_ex (\<lambda>e. ae_audit_id e = ae_audit_id ev \<or>
            ae_application_id e = ae_application_id ev \<and>
              (ae_sequence e = ae_sequence ev \<or> ae_command_id e = ae_command_id ev)) (pg_audit repo)
      then Inl (UniqueViolationError ''workflow_audit'')
      else Inr (repo\<lparr>pg_audit := pg_audit repo @ [ev]\<rparr>))"

definition insert_command :: "transition_result \<Rightarrow> postgres_repo \<Rightarrow> workflow_error + postgres_repo" where
  "insert_command result repo =
     (let key = (wf_application_id (tr_workflow result), ae_command_id (tr_audit_event result)) in
      if dict_get (pg_commands repo) key \<noteq> None then Inl (UniqueViolationError ''workflow_commands'')
      else Inr (repo\<lparr>pg_commands := pg_commands repo @ [(key, result)]\<rparr>))"

definition pg_create :: "postgres_repo create_op" where
  "pg_create workflow event repo =
     (let result = \<lparr>tr_workflow = workflow, tr_audit_event = event\<rparr> in
      case command_result (wf_application_id workflow) (ae_command_id event) repo of
        Some prior \<Rightarrow> Inr (prior, repo)
      | None \<Rightarrow>
          if find_case (wf_application_id workflow) (pg_cases repo) \<noteq> None
          then Inl (WorkflowConflictError (wf_application_id workflow))
          else
            ebind (insert_audit event (repo\<lparr>pg_cases := pg_cases repo @ [workflow]\<rparr>)) (\<lambda>repo1.
            ebind (insert_command result repo1) (\<lambda>repo2. Inr (result, repo2))))"

definition pg_get :: "app_id \<Rightarrow> postgres_repo \<Rightarrow> workflow_error + workflow_record" where
  "pg_get a repo =
     (case find_case a (pg_cases repo) of
        None \<Rightarrow> Inl (WorkflowNotFoundError a) | Some w \<Rightarrow> Inr w)"

definition audit_rows :: "app_id \<Rightarrow> postgres_repo \<Rightarrow> audit_event list" where
  "audit_rows a repo = filter (\<lambda>e. ae_application_id e = a) (pg_audit repo)"

definition pg_audit_of :: "app_id \<Rightarrow> postgres_repo \<Rightarrow> workflow_error + audit_event list" where
  "pg_audit_of a repo =
     (case find_case a (pg_cases repo) of
        None \<Rightarrow> Inl (WorkflowNotFoundError a)
      | Some w \<Rightarrow> Inr (sort_key ae_sequence (audit_rows a repo)))"

text \<open>\<open>SELECT COALESCE(MAX(sequence), 0) + 1\<close>, and the \<open>UPDATE\<close> of one case.\<close>

definition next_sequence :: "app_id \<Rightarrow> postgres_repo \<Rightarrow> nat" where
  "next_sequence a repo = foldr max (map ae_sequence (audit_rows a repo)) 0 + 1"

definition update_case :: "workflow_record \<Rightarrow> workflow_record list \<Rightarrow> workflow_record list" where
  "update_case w cases =
     map (\<lambda>c. if wf_application_id c = wf_application_id w
              then w\<lparr>wf_created_at := wf_created_at c\<rparr> else c) cases"

definition pg_transition :: "postgres_repo transition_op" where
  "pg_transition a cid f repo =
     (case command_result a cid repo of
        Some prior \<Rightarrow> Inr (prior, repo)
      | None \<Rightarrow>
          (case find_case a (pg_cases repo) of
             None \<Rightarrow> Inl (WorkflowNotFoundError a)
           | Some row \<Rightarrow>
               ebind (f row (next_sequence a repo)) (\<lambda>(workflow, event).
                 (let result = \<lparr>tr_workflow = workflow, tr_audit_event = event\<rparr> in
                  ebind (insert_audit event (repo\<lparr>pg_cases := update_case workflow (pg_cases repo)\<rparr>))
                    (\<lambda>repo1.
                  ebind (insert_command result repo1) (\<lambda>repo2. Inr (result, repo2)))))))"

section \<open>It implements the port\<close>

text \<open>
  The invariant of the tables: one case per application, audit rows numbered from one in
  the order of insertion, every audit row of an existing case, and every audit row's
  command recorded.
\<close>

definition pg_inv :: "postgres_repo \<Rightarrow> bool" where
  "pg_inv r \<longleftrightarrow>
     distinct (map wf_application_id (pg_cases r)) \<and>
     (\<forall>a. map ae_sequence (audit_rows a r) = [1..<length (audit_rows a r) + 1]) \<and>
     (\<forall>e \<in> set (pg_audit r). find_case (ae_application_id e) (pg_cases r) \<noteq> None \<and>
        command_result (ae_application_id e) (ae_command_id e) r \<noteq> None) \<and>
     (\<forall>a cid. command_result a cid r \<noteq> None \<longrightarrow> find_case a (pg_cases r) \<noteq> None)"

definition pg_view :: "postgres_repo \<Rightarrow> app_id \<Rightarrow> (workflow_record \<times> audit_event list) option" where
  "pg_view r a = map_option (\<lambda>w. (w, audit_rows a r)) (find_case a (pg_cases r))"

definition pg_used :: "postgres_repo \<Rightarrow> uuid \<Rightarrow> bool" where
  "pg_used r x \<longleftrightarrow> x \<in> ae_audit_id ` set (pg_audit r)"

lemma find_case_Some: "find_case a cases = Some w \<Longrightarrow> wf_application_id w = a"
  by (auto simp: find_case_def find_Some_iff)

lemma find_case_append:
  "find_case a (cases @ [w]) =
     (case find_case a cases of
        Some c \<Rightarrow> Some c | None \<Rightarrow> if wf_application_id w = a then Some w else None)"
  by (induction cases) (auto simp: find_case_def)

lemma find_case_update:
  "find_case a (update_case w cases) =
     (if wf_application_id w = a then map_option (\<lambda>c. w\<lparr>wf_created_at := wf_created_at c\<rparr>) (find_case a cases)
      else find_case a cases)"
  by (induction cases) (auto simp: find_case_def update_case_def)

lemma update_case_ids:
  "map wf_application_id (update_case w cases) = map wf_application_id cases"
  by (auto simp: update_case_def)

lemma find_case_None_notin: "find_case a cases = None \<longleftrightarrow> a \<notin> set (map wf_application_id cases)"
  by (auto simp: find_case_def find_None_iff)

lemma foldr_max_upt: "foldr max [1..<n + 1] (0::nat) = n"
proof -
  have "foldr max [1..<n + 1] k = (if n = 0 then k else max n k)" for k :: nat
    by (induction n arbitrary: k) auto
  then show ?thesis by simp
qed

lemma next_sequence_eq:
  assumes "pg_inv r"
  shows "next_sequence a r = length (audit_rows a r) + 1"
proof -
  from assms have "map ae_sequence (audit_rows a r) = [1..<length (audit_rows a r) + 1]"
    by (simp add: pg_inv_def)
  then show ?thesis using foldr_max_upt [of "length (audit_rows a r)"] by (simp add: next_sequence_def)
qed

lemma sorted_audit_rows:
  assumes "pg_inv r"
  shows "sort_key ae_sequence (audit_rows a r) = audit_rows a r"
proof -
  from assms have "map ae_sequence (audit_rows a r) = [1..<length (audit_rows a r) + 1]"
    by (simp add: pg_inv_def)
  then have "sorted (map ae_sequence (audit_rows a r))" by (metis sorted_upt)
  then show ?thesis by (simp add: sort_key_id_if_sorted)
qed

lemma audit_rows_snoc:
  "audit_rows a (r\<lparr>pg_cases := cs, pg_audit := pg_audit r @ [ev], pg_commands := ks\<rparr>) =
     audit_rows a r @ (if ae_application_id ev = a then [ev] else [])"
  by (simp add: audit_rows_def)

lemma insert_audit_fresh:
  assumes "pg_inv r" and "command_result a (ae_command_id ev) r = None"
    and "ae_application_id ev = a" and "ae_sequence ev = length (audit_rows a r) + 1"
    and "\<not> pg_used r (ae_audit_id ev)"
  shows "insert_audit ev (r\<lparr>pg_cases := cs\<rparr>) = Inr (r\<lparr>pg_cases := cs, pg_audit := pg_audit r @ [ev]\<rparr>)"
proof -
  have "ae_sequence e \<noteq> ae_sequence ev" if "e \<in> set (pg_audit r)" "ae_application_id e = a" for e
  proof -
    from that have "ae_sequence e \<in> set (map ae_sequence (audit_rows a r))"
      by (auto simp: audit_rows_def)
    also from assms(1) have "map ae_sequence (audit_rows a r) = [1..<length (audit_rows a r) + 1]"
      by (simp add: pg_inv_def)
    finally show ?thesis using assms(4) by auto
  qed
  moreover have "ae_command_id e \<noteq> ae_command_id ev" if "e \<in> set (pg_audit r)" "ae_application_id e = a" for e
    using assms(1,2) that by (force simp: pg_inv_def)
  ultimately show ?thesis using assms(3,5)
    by (auto simp: insert_audit_def list_ex_iff pg_used_def intro: rev_image_eqI)
qed

lemma command_result_snoc:
  "command_result b c (r\<lparr>pg_cases := cs, pg_audit := es, pg_commands := pg_commands r @ [(k, v)]\<rparr>) =
     (case command_result b c r of Some x \<Rightarrow> Some x | None \<Rightarrow> if (b, c) = k then Some v else None)"
  by (simp add: command_result_def map_add_def split: option.splits)

text \<open>What one successful insertion into the three tables does to the invariant and the view.\<close>

lemma pg_insert_step:
  fixes r :: postgres_repo
  defines "r' \<equiv> \<lambda>cs ev v. r\<lparr>pg_cases := cs, pg_audit := pg_audit r @ [ev],
     pg_commands := pg_commands r @ [((ae_application_id ev, ae_command_id ev), v)]\<rparr>"
  assumes inv: "pg_inv r" and new: "command_result a (ae_command_id ev) r = None"
    and ev: "ae_application_id ev = a" "ae_sequence ev = length (audit_rows a r) + 1"
    and cs: "distinct (map wf_application_id cs)"
      "\<And>b. find_case b cs = (if b = a then Some w else find_case b (pg_cases r))"
  shows "pg_inv (r' cs ev v)"
    and "pg_view (r' cs ev v) = (pg_view r)(a \<mapsto> (w, audit_rows a r @ [ev]))"
    and "(\<lambda>k. command_result (fst k) (snd k) (r' cs ev v)) =
      (\<lambda>k. command_result (fst k) (snd k) r)((a, ae_command_id ev) \<mapsto> v)"
    and "pg_used (r' cs ev v) x \<longrightarrow> pg_used r x \<or> x = ae_audit_id ev"
proof -
  show "pg_inv (r' cs ev v)"
    using inv new ev cs
    by (auto simp: pg_inv_def r'_def audit_rows_snoc command_result_snoc split: option.splits)
  show "pg_view (r' cs ev v) = (pg_view r)(a \<mapsto> (w, audit_rows a r @ [ev]))"
    using ev cs by (intro ext) (simp add: pg_view_def r'_def audit_rows_snoc)
  show "(\<lambda>k. command_result (fst k) (snd k) (r' cs ev v)) =
      (\<lambda>k. command_result (fst k) (snd k) r)((a, ae_command_id ev) \<mapsto> v)"
    using new ev by (intro ext) (auto simp: r'_def command_result_snoc split: option.splits)
  show "pg_used (r' cs ev v) x \<longrightarrow> pg_used r x \<or> x = ae_audit_id ev"
    by (auto simp: pg_used_def r'_def)
qed

lemma pg_view_Some:
  "pg_view r a = Some (w, evs) \<longleftrightarrow> find_case a (pg_cases r) = Some w \<and> evs = audit_rows a r"
  by (auto simp: pg_view_def)

lemma pg_view_None: "pg_view r a = None \<longleftrightarrow> find_case a (pg_cases r) = None"
  by (simp add: pg_view_def)

lemma pg_inv_command:
  "pg_inv r \<Longrightarrow> find_case a (pg_cases r) = None \<Longrightarrow> command_result a cid r = None"
  unfolding pg_inv_def by blast

lemma pg_inv_no_rows: "pg_inv r \<Longrightarrow> find_case a (pg_cases r) = None \<Longrightarrow> audit_rows a r = []"
  unfolding pg_inv_def audit_rows_def filter_empty_conv by blast

lemma pg_create_fresh:
  assumes inv: "pg_inv r" and new: "find_case a (pg_cases r) = None"
    and w: "wf_application_id w = a" and ev: "ae_application_id ev = a" "ae_sequence ev = 1"
    and fresh: "\<not> pg_used r (ae_audit_id ev)"
  defines "res \<equiv> \<lparr>tr_workflow = w, tr_audit_event = ev\<rparr>"
  shows "pg_create w ev r = Inr (res, r\<lparr>pg_cases := pg_cases r @ [w], pg_audit := pg_audit r @ [ev],
     pg_commands := pg_commands r @ [((a, ae_command_id ev), res)]\<rparr>)"
    and "command_result a (ae_command_id ev) r = None" and "audit_rows a r = []"
proof -
  from inv new show cmd: "command_result a (ae_command_id ev) r = None"
    by (rule pg_inv_command)
  from inv new show rows: "audit_rows a r = []"
    by (rule pg_inv_no_rows)
  have seq: "ae_sequence ev = length (audit_rows a r) + 1" using rows ev by simp
  from insert_audit_fresh [OF inv cmd ev(1) seq fresh] cmd new w
  show "pg_create w ev r = Inr (res, r\<lparr>pg_cases := pg_cases r @ [w], pg_audit := pg_audit r @ [ev],
     pg_commands := pg_commands r @ [((a, ae_command_id ev), res)]\<rparr>)"
    by (simp add: pg_create_def res_def insert_command_def command_result_def Let_def)
qed

lemma pg_transition_ok:
  assumes inv: "pg_inv r" and cmd: "command_result a cid r = None"
    and row: "find_case a (pg_cases r) = Some w"
    and f: "f w (length (audit_rows a r) + 1) = Inr (w', ev)"
    and g: "good_step a cid (ae_audit_id ev) w (length (audit_rows a r) + 1) w' ev"
    and fresh: "\<not> pg_used r (ae_audit_id ev)"
  defines "res \<equiv> \<lparr>tr_workflow = w', tr_audit_event = ev\<rparr>"
  shows "pg_transition a cid f r = Inr (res, r\<lparr>pg_cases := update_case w' (pg_cases r),
     pg_audit := pg_audit r @ [ev], pg_commands := pg_commands r @ [((a, cid), res)]\<rparr>)"
proof -
  from g have ev: "ae_application_id ev = a" "ae_sequence ev = length (audit_rows a r) + 1"
      "ae_command_id ev = cid" "wf_application_id w' = a" by (auto simp: good_step_def)
  from insert_audit_fresh [OF inv _ ev(1,2) fresh] cmd ev(3) row f next_sequence_eq [OF inv, of a] ev
  show ?thesis
    by (simp add: pg_transition_def res_def insert_command_def command_result_def Let_def)
qed

lemma find_case_update_good:
  assumes "find_case a cases = Some w" and "wf_application_id w' = a"
    and "wf_created_at w' = wf_created_at w"
  shows "find_case b (update_case w' cases) = (if b = a then Some w' else find_case b cases)"
  using assms by (auto simp: find_case_update)

interpretation pg: workflow_repository pg_inv pg_view "\<lambda>r k. command_result (fst k) (snd k) r"
  pg_used pg_empty pg_create pg_transition pg_get pg_audit_of
proof (unfold_locales, goal_cases)
  case 1
  show ?case by (simp add: pg_inv_def pg_empty_def audit_rows_def command_result_def)
next
  case 2 show ?case by (simp add: pg_view_def pg_empty_def find_case_def)
next
  case 3 show ?case by (simp add: pg_used_def pg_empty_def)
next
  case 4 show ?case by (auto simp: pg_get_def pg_view_def split: option.splits)
next
  case 5 then show ?case
    by (auto simp: pg_audit_of_def pg_view_def sorted_audit_rows split: option.splits)
next
  case 6 then show ?case by (auto simp: pg_view_Some dest: find_case_Some)
next
  case 7 then show ?case by (auto simp: pg_create_def pg_view_def split: option.splits)
next
  case (8 r a w ev)
  then have new: "find_case a (pg_cases r) = None" by (simp add: pg_view_None)
  note c = pg_create_fresh [OF 8(1) new 8(3-6)]
  have d: "distinct (map wf_application_id (pg_cases r @ [w]))"
    using 8(1,3) new by (auto simp: pg_inv_def find_case_None_notin)
  have d': "find_case b (pg_cases r @ [w]) = (if b = a then Some w else find_case b (pg_cases r))" for b
    using 8(3) new by (auto simp: find_case_append split: option.splits)
  have seq: "ae_sequence ev = length (audit_rows a r) + 1" using c(3) 8(5) by simp
  note s = pg_insert_step [OF 8(1) c(2) 8(4) seq d d']
  show ?case
    by (rule exI, rule conjI, rule c(1)) (use s c(3) 8(4) in simp)
next
  case 9 then show ?case by (auto simp: pg_create_def pg_view_def Let_def split: option.splits)
next
  case 10 then show ?case by (simp add: pg_transition_def)
next
  case 11 then show ?case by (simp add: pg_transition_def pg_view_None)
next
  case 12 then show ?case by (auto simp: pg_transition_def pg_view_Some next_sequence_eq)
next
  case (13 r a cid w evs f w' ev)
  then have row: "find_case a (pg_cases r) = Some w" and evs: "evs = audit_rows a r"
    by (auto simp: pg_view_Some)
  from 13 have cmd: "command_result a cid r = None" by simp
  note t = pg_transition_ok [of r a cid w f w' ev, OF 13(1) cmd row 13(4) [unfolded evs] 13(5) [unfolded evs] 13(6)]
  from 13(5) have ev: "ae_application_id ev = a" "ae_sequence ev = length (audit_rows a r) + 1"
      "ae_command_id ev = cid" "wf_application_id w' = a" "wf_created_at w' = wf_created_at w"
    by (auto simp: good_step_def evs)
  have d: "distinct (map wf_application_id (update_case w' (pg_cases r)))"
      "\<And>b. find_case b (update_case w' (pg_cases r)) = (if b = a then Some w' else find_case b (pg_cases r))"
    using 13(1) find_case_update_good [OF row ev(4,5)] by (auto simp: pg_inv_def update_case_ids)
  note s = pg_insert_step [OF 13(1) cmd [folded ev(3)] ev(1,2) d]
  show ?case
    by (rule exI, rule conjI, rule t) (use s ev evs in simp)
qed

end
