(* ===== verification/FM_Workflow_Props.thy ===== *)
theory FM_Workflow_Props
  imports FM_Workflow_Memory FM_Workflow_Postgres
begin

text \<open>
  What the durable workflow guarantees over both repositories: the audit contract, the
  equivalence of the two repositories, idempotent replays and optimistic concurrency.
\<close>

section \<open>After a transition\<close>

context workflow_repository
begin

lemma transition_records:
  assumes "tracked r" and "good_transition a cid aid f" and "\<not> audit_used r aid"
    and "transition a cid f r = Inr (res, r')"
  shows "replay r' (a, cid) = Some res"
proof (cases "replay r (a, cid)")
  case (Some p)
  with assms show ?thesis by (auto simp: tracked_def transition_replay)
next
  case None
  from assms(1) have inv: "repo_inv r" by (simp add: tracked_def)
  show ?thesis
  proof (cases "view r a")
    case None
    with inv \<open>replay r (a, cid) = None\<close> assms(4) show ?thesis by (simp add: transition_missing)
  next
    case (Some p)
    then obtain w evs where p: "view r a = Some (w, evs)" by (cases p) auto
    with assms(1) have h: "history_ok a w evs" by (simp add: tracked_def)
    show ?thesis
    proof (cases "f w (length evs + 1)")
      case (Inl e)
      with inv None p assms(4) show ?thesis by (simp add: transition_raises)
    next
      case (Inr q)
      then obtain w' ev where q: "f w (length evs + 1) = Inr (w', ev)" by (cases q) auto
      from assms(2) q h have g: "good_step a cid aid w (length evs + 1) w' ev"
        by (auto simp: good_transition_def history_ok_def)
      then have "ae_audit_id ev = aid" by (simp add: good_step_def)
      with transition_ok [of r a cid w evs f w' ev] inv None p q g assms(3,4) show ?thesis by auto
    qed
  qed
qed

lemma transition_new:
  assumes "tracked r" and "good_transition a cid aid f" and "\<not> audit_used r aid"
    and "transition a cid f r = Inr (res, r')" and "replay r (a, cid) = None"
  shows "\<exists>w evs w' ev. view r a = Some (w, evs) \<and> f w (length evs + 1) = Inr (w', ev) \<and>
    wf_version w' = wf_version w + 1 \<and> view r' a = Some (w', evs @ [ev]) \<and>
    replay r' = (replay r)((a, cid) \<mapsto> res) \<and> tracked r' \<and>
    (\<forall>x. audit_used r' x \<longrightarrow> audit_used r x \<or> x = aid)"
proof -
  from assms(1) have inv: "repo_inv r" by (simp add: tracked_def)
  have "view r a \<noteq> None" using assms(4,5) inv transition_missing [of r a cid f] by (metis Inl_Inr_False)
  then obtain w evs where p: "view r a = Some (w, evs)" by (cases "view r a") auto
  with assms(1) have h: "history_ok a w evs" by (simp add: tracked_def)
  have "\<exists>q. f w (length evs + 1) = Inr q"
    using transition_raises [OF inv assms(5) p] assms(4) by (cases "f w (length evs + 1)") auto
  then obtain w' ev where q: "f w (length evs + 1) = Inr (w', ev)" by auto
  from assms(2) q h have g: "good_step a cid aid w (length evs + 1) w' ev"
    by (auto simp: good_transition_def history_ok_def)
  then have aid: "ae_audit_id ev = aid" "wf_version w' = wf_version w + 1" by (simp_all add: good_step_def)
  with transition_ok [of r a cid w evs f w' ev] inv assms(5) g assms(3,4) p q
    transition_step [OF assms(1-4)]
  show ?thesis by auto
qed

text \<open>Two commands that expect the same version: the second is a conflict.\<close>

lemma second_conflicts:
  assumes "tracked r" and "good_transition a cid aid f" and "\<not> audit_used r aid"
    and "transition a cid f r = Inr (res, r')" and "replay r (a, cid) = None"
    and "replay r (a, cid') = None" and "cid' \<noteq> cid"
    and checks: "\<And>w n w' ev. f w n = Inr (w', ev) \<Longrightarrow> wf_version w = expected"
    and checks': "\<And>w n. wf_version w \<noteq> expected \<Longrightarrow> \<exists>m. f' w n = Inl (WorkflowConflictError m)"
  shows "\<exists>m. transition a cid' f' r' = Inl (WorkflowConflictError m)"
proof -
  from transition_new [OF assms(1-5)] obtain w evs w' ev where
    n: "f w (length evs + 1) = Inr (w', ev)" "wf_version w' = wf_version w + 1"
      "view r' a = Some (w', evs @ [ev])" "replay r' = (replay r)((a, cid) \<mapsto> res)" "tracked r'"
    by auto
  from checks [OF n(1)] n(2) have "wf_version w' \<noteq> expected" by simp
  from checks' [OF this] obtain m where "f' w' (length (evs @ [ev]) + 1) = Inl (WorkflowConflictError m)" by auto
  moreover have "replay r' (a, cid') = None" using n(4) assms(6,7) by simp
  ultimately show ?thesis
    using transition_raises [of r' a cid' w' "evs @ [ev]" f'] n(3,5) by (auto simp: tracked_def)
qed

end

section \<open>The two repositories agree\<close>

definition same_view :: "memory_repo \<Rightarrow> postgres_repo \<Rightarrow> bool" where
  "same_view r p \<longleftrightarrow> mem.tracked r \<and> pg.tracked p \<and> mem_view r = pg_view p \<and>
     dict_get (mr_commands r) = (\<lambda>k. command_result (fst k) (snd k) p)"

lemma pg_replay_none: "dict_get (mr_commands r) = (\<lambda>k. command_result (fst k) (snd k) p) \<Longrightarrow>
    dict_get (mr_commands r) (a, cid) = command_result a cid p"
  by simp

lemma transition_agrees:
  assumes same: "same_view r p" and good: "good_transition a cid aid f" and fresh: "\<not> pg_used p aid"
  shows "(\<exists>e. mem_transition a cid f r = Inl e \<and> pg_transition a cid f p = Inl e) \<or>
    (\<exists>res r' p'. mem_transition a cid f r = Inr (res, r') \<and> pg_transition a cid f p = Inr (res, p') \<and>
      same_view r' p' \<and> (\<forall>x. pg_used p' x \<longrightarrow> pg_used p x \<or> x = aid))"
proof -
  from same have inv: "mem_inv r" "pg_inv p" and views: "mem_view r = pg_view p"
    and tracked: "mem.tracked r" "pg.tracked p"
    by (auto simp: same_view_def mem.tracked_def pg.tracked_def)
  from same have cmds: "dict_get (mr_commands r) (a, cid) = command_result a cid p"
    by (simp add: same_view_def)
  show ?thesis
  proof (cases "command_result a cid p")
    case (Some res)
    then show ?thesis
      using mem.transition_replay [OF inv(1), of a cid res f] pg.transition_replay [OF inv(2), of a cid res f]
        cmds same by auto
  next
    case None
    note none = None
    show ?thesis
    proof (cases "pg_view p a")
      case None
      then show ?thesis
        using mem.transition_missing [OF inv(1), of a cid f] pg.transition_missing [OF inv(2), of a cid f]
          cmds none views by simp
    next
      case (Some q)
      then obtain w evs where v: "pg_view p a = Some (w, evs)" by (cases q) auto
      have h: "history_ok a w evs" using tracked(2) v by (simp add: pg.tracked_def)
      show ?thesis
      proof (cases "f w (length evs + 1)")
        case (Inl e)
        then show ?thesis
          using mem.transition_raises [OF inv(1), of a cid w evs f e]
            pg.transition_raises [OF inv(2), of a cid w evs f e] cmds none views v by simp
      next
        case (Inr q)
        then obtain w' ev where q: "f w (length evs + 1) = Inr (w', ev)" by (cases q) auto
        from good q h have g: "good_step a cid aid w (length evs + 1) w' ev"
          by (auto simp: good_transition_def history_ok_def)
        then have aid: "ae_audit_id ev = aid" by (simp add: good_step_def)
        let ?res = "\<lparr>tr_workflow = w', tr_audit_event = ev\<rparr>"
        from mem.transition_ok [of r a cid w evs f w' ev] inv(1) cmds none views v q g aid
        obtain r' where r': "mem_transition a cid f r = Inr (?res, r')" "mem_inv r'"
          "mem_view r' = (mem_view r)(a \<mapsto> (w', evs @ [ev]))"
          "dict_get (mr_commands r') = (dict_get (mr_commands r))((a, cid) \<mapsto> ?res)" by auto
        from pg.transition_ok [of p a cid w evs f w' ev] inv(2) none v q g aid fresh
        obtain p' where p': "pg_transition a cid f p = Inr (?res, p')" "pg_inv p'"
          "pg_view p' = (pg_view p)(a \<mapsto> (w', evs @ [ev]))"
          "(\<lambda>k. command_result (fst k) (snd k) p') = (\<lambda>k. command_result (fst k) (snd k) p)((a, cid) \<mapsto> ?res)"
          "\<forall>x. pg_used p' x \<longrightarrow> pg_used p x \<or> x = aid" by auto
        have "mem.tracked r'"
          using mem.transition_step [OF tracked(1) good _ r'(1)] by simp
        moreover have "pg.tracked p'"
          using pg.transition_step [OF tracked(2) good fresh p'(1)] by simp
        moreover have "dict_get (mr_commands r) = (\<lambda>k. command_result (fst k) (snd k) p)"
          using same by (simp add: same_view_def)
        ultimately have "same_view r' p'"
          using r' p' views unfolding same_view_def by simp
        then show ?thesis using r'(1) p'(1,5) by blast
      qed
    qed
  qed
qed

definition after :: "'r \<Rightarrow> workflow_error + (transition_result \<times> 'r) \<Rightarrow> 'r" where
  "after r x = (case x of Inl _ \<Rightarrow> r | Inr (_, r') \<Rightarrow> r')"

lemma create_agrees:
  assumes same: "same_view r p" and fresh: "\<not> pg_used p (tk_audit_id t)"
  shows "same_view (after r (create_workflow mem_create a actor cid reason t r))
      (after p (create_workflow pg_create a actor cid reason t p)) \<and>
    (\<forall>x. pg_used (after p (create_workflow pg_create a actor cid reason t p)) x \<longrightarrow>
      pg_used p x \<or> x = tk_audit_id t)"
proof -
  from same have inv: "mem_inv r" "pg_inv p" and views: "mem_view r = pg_view p"
    and tracked: "mem.tracked r" "pg.tracked p"
    by (auto simp: same_view_def mem.tracked_def pg.tracked_def)
  let ?w = "initial_workflow a t"
  let ?ev = "service_event (case cid of Some c \<Rightarrow> c | None \<Rightarrow> tk_uuid t) ?w 1 actor None INTAKE
     ''create'' reason [(''state'', ChState INTAKE)] t"
  have w: "wf_application_id ?w = a" "ae_application_id ?ev = a" "ae_sequence ?ev = 1"
    "ae_audit_id ?ev = tk_audit_id t"
    by (simp_all add: initial_workflow_def service_event_def)
  show ?thesis
  proof (cases "PIPELINE \<in> ac_roles actor \<and> bounded_text 1 200 a")
    case False
    then show ?thesis using same
      by (cases "PIPELINE \<in> ac_roles actor") (auto simp: create_workflow_def require_role_def after_def)
  next
    case True
    then have runs: "create_workflow mem_create a actor cid reason t r = mem_create ?w ?ev r"
      "create_workflow pg_create a actor cid reason t p = pg_create ?w ?ev p"
      by (simp_all add: create_workflow_def require_role_def Let_def)
    show ?thesis
    proof (cases "pg_view p a")
      case None
      from mem.create_fresh [OF inv(1) _ w(1-3)] views None obtain r' where
        r': "mem_create ?w ?ev r = Inr (\<lparr>tr_workflow = ?w, tr_audit_event = ?ev\<rparr>, r')" "mem_inv r'"
          "mem_view r' = (mem_view r)(a \<mapsto> (?w, [?ev]))"
          "dict_get (mr_commands r') = (dict_get (mr_commands r))((a, ae_command_id ?ev) \<mapsto>
             \<lparr>tr_workflow = ?w, tr_audit_event = ?ev\<rparr>)" by auto
      from pg.create_fresh [OF inv(2) None w(1-3)] fresh w(4) obtain p' where
        p': "pg_create ?w ?ev p = Inr (\<lparr>tr_workflow = ?w, tr_audit_event = ?ev\<rparr>, p')" "pg_inv p'"
          "pg_view p' = (pg_view p)(a \<mapsto> (?w, [?ev]))"
          "(\<lambda>k. command_result (fst k) (snd k) p') = (\<lambda>k. command_result (fst k) (snd k) p)((a, ae_command_id ?ev) \<mapsto>
             \<lparr>tr_workflow = ?w, tr_audit_event = ?ev\<rparr>)"
          "\<forall>x. pg_used p' x \<longrightarrow> pg_used p x \<or> x = tk_audit_id t" by auto
      have "mem.tracked r'"
        using mem.create_step [OF tracked(1), where t = t and a = a and actor = actor and cid = cid and reason = reason] r'(1) runs(1) by simp
      moreover have "pg.tracked p'"
        using pg.create_step [OF tracked(2) fresh, where a = a and actor = actor and cid = cid and reason = reason] p'(1) runs(2) by simp
      moreover have "dict_get (mr_commands r) = (\<lambda>k. command_result (fst k) (snd k) p)"
        using same by (simp add: same_view_def)
      ultimately have "same_view r' p'"
        using r' p' views unfolding same_view_def by simp
      then show ?thesis using r'(1) p'(1,5) runs by (simp add: after_def)
    next
      case (Some q)
      have "after r (mem_create ?w ?ev r) = r"
        using mem.create_known [OF inv(1) _ w(1)] views Some
        by (auto simp: after_def split: sum.splits)
      moreover have "after p (pg_create ?w ?ev p) = p"
        using pg.create_known [OF inv(2) Some w(1)] by (auto simp: after_def split: sum.splits)
      ultimately show ?thesis using same runs by simp
    qed
  qed
qed

lemma advance_like_agrees:
  assumes "same_view r p" and "good_transition a cid aid f" and "\<not> pg_used p aid"
  shows "same_view (after r (mem_transition a cid f r)) (after p (pg_transition a cid f p)) \<and>
    (\<forall>x. pg_used (after p (pg_transition a cid f p)) x \<longrightarrow> pg_used p x \<or> x = aid)"
  using transition_agrees [OF assms] assms(1) by (auto simp: after_def)

lemma command_agrees:
  assumes "same_view r p" and "\<not> pg_used p (tk_audit_id t)"
  shows "same_view (after r (service_apply mem_create mem_transition c t r))
      (after p (service_apply pg_create pg_transition c t p)) \<and>
    (\<forall>x. pg_used (after p (service_apply pg_create pg_transition c t p)) x \<longrightarrow>
      pg_used p x \<or> x = tk_audit_id t)"
proof (cases c)
  case (Create a actor cid reason)
  then show ?thesis using create_agrees [OF assms] by simp
next
  case (Advance a c' actor)
  then show ?thesis
    using advance_like_agrees [OF assms(1) advance_good assms(2), of actor a c'] assms
    by (cases "PIPELINE \<in> ac_roles actor") (simp_all add: advance_pipeline_def require_role_def after_def)
next
  case (Decide a c' actor)
  then show ?thesis
    using advance_like_agrees [OF assms(1) decide_good assms(2), of actor a c'] assms
    by (cases "HUMAN_REVIEWER \<in> ac_roles actor") (simp_all add: decide_def require_role_def after_def)
next
  case (Written a c' rcpt actor)
  then show ?thesis
    using advance_like_agrees [OF assms(1) written_good assms(2), of actor a c' rcpt] assms
    by (cases "PIPELINE \<in> ac_roles actor") (simp_all add: mark_precedent_written_def require_role_def after_def)
next
  case (Reopen a c' actor)
  then show ?thesis
    using advance_like_agrees [OF assms(1) reopen_good assms(2), of a c' actor] assms
    by (cases "HUMAN_REVIEWER \<in> ac_roles actor"; cases "pr_restart_stage c' = RS_SUPERVISOR")
      (simp_all add: reopen_after_send_back_def require_role_def after_def)
qed

lemma service_run_after:
  "service_run cr tr ((c, t) # cs) r = service_run cr tr cs (after r (service_apply cr tr c t r))"
  by (simp add: after_def split: sum.splits prod.splits)

lemma run_agrees:
  assumes "same_view r p" and "distinct (map (tk_audit_id \<circ> snd) cs)"
    and "\<forall>(c, t) \<in> set cs. \<not> pg_used p (tk_audit_id t)"
  shows "same_view (service_run mem_create mem_transition cs r) (service_run pg_create pg_transition cs p)"
  using assms
proof (induction cs arbitrary: r p)
  case Nil
  then show ?case by simp
next
  case (Cons ct cs)
  obtain c t where ct: "ct = (c, t)" by (cases ct)
  from Cons.prems(3) ct have "\<not> pg_used p (tk_audit_id t)" by auto
  note step = command_agrees [OF Cons.prems(1) this, of c]
  have "\<forall>(c', t') \<in> set cs. \<not> pg_used (after p (service_apply pg_create pg_transition c t p)) (tk_audit_id t')"
    using step Cons.prems(2,3) ct by force
  then show ?case
    using Cons.IH step Cons.prems(2) by (simp add: ct service_run_after del: service_run.simps)
qed

lemma same_view_empty: "same_view mem_empty pg_empty"
  using mem.tracked_empty pg.tracked_empty mem.view_empty pg.view_empty
  by (auto simp: same_view_def mem_empty_def pg_empty_def command_result_def fun_eq_iff)

section \<open>Properties\<close>

text \<open>
  C3. Audit contract over Postgres. After any session of service commands (each with a fresh
  audit identifier) on an empty database, the history of every case is complete: events
  numbered from one without gaps, each starting where the one before ended, every edge one of
  the state machine, ending in the recorded state, the version counting the transitions, and
  every decision signed by a human reviewer.
\<close>

theorem postgres_audit_contract:
  assumes "distinct (map (tk_audit_id \<circ> snd) session)"
    and "pg_get a (service_run pg_create pg_transition session pg_empty) = Inr w"
    and "pg_audit_of a (service_run pg_create pg_transition session pg_empty) = Inr evs"
  shows "history_ok a w evs"
proof -
  let ?p = "service_run pg_create pg_transition session pg_empty"
  have "pg.tracked ?p" using pg.service_run_tracked [OF pg.tracked_empty assms(1)] pg.used_empty by auto
  then have inv: "pg_inv ?p" by (simp add: pg.tracked_def)
  have "pg_view ?p a = Some (w, evs)"
    using pg.get_view [OF inv, of a] pg.audit_view [OF inv, of a] assms(2,3)
    by (auto split: option.splits)
  then show ?thesis by (rule pg.run_history [OF assms(1)])
qed

definition sample_tick :: "string \<Rightarrow> tick" where
  "sample_tick i = \<lparr>tk_now = 1, tk_created = 1, tk_occurred = 1, tk_audit_id = i, tk_uuid = i\<rparr>"

definition sample_pipeline :: actor_claims where
  "sample_pipeline = \<lparr>ac_actor_id = ''p'', ac_display_name = ''p'', ac_roles = {PIPELINE}\<rparr>"

definition sample_reviewer :: actor_claims where
  "sample_reviewer = \<lparr>ac_actor_id = ''r'', ac_display_name = ''r'', ac_roles = {HUMAN_REVIEWER}\<rparr>"

definition advance_to :: "string \<Rightarrow> nat \<Rightarrow> workflow_state \<Rightarrow> json_object option \<Rightarrow> service_command" where
  "advance_to c v s g = Advance ''a''
     \<lparr>pa_command_id = c, pa_expected_version = v, pa_target_state = s, pa_reason = ''r'', pa_suggestion = g\<rparr>
     sample_pipeline"

definition sample_decision :: "string \<Rightarrow> human_decision_command" where
  "sample_decision c = \<lparr>hc_command_id = c, hc_expected_version = 4, hc_action = APPROVE,
     hc_funder_id = Some ''f'', hc_reason = ''r'', hc_conditions = [], hc_overrides = [],
     hc_restart_stage = None\<rparr>"

definition sample_to_review :: "(service_command \<times> tick) list" where
  "sample_to_review =
     [(Create ''a'' sample_pipeline (Some ''c0'') ''r'', sample_tick ''t0''),
      (advance_to ''c1'' 0 EXTRACTED None, sample_tick ''t1''),
      (advance_to ''c2'' 1 RULE_GATED None, sample_tick ''t2''),
      (advance_to ''c3'' 2 AI_SUGGESTED (Some [(''k'', JNull)]), sample_tick ''t3''),
      (advance_to ''c4'' 3 AWAITING_HUMAN None, sample_tick ''t4'')]"

definition sample_session :: "(service_command \<times> tick) list" where
  "sample_session = sample_to_review @
     [(Decide ''a'' (sample_decision ''c5'') sample_reviewer, sample_tick ''t5''),
      (Written ''a'' \<lparr>pw_command_id = ''c6'', pw_expected_version = 5, pw_reason = ''r''\<rparr>
        \<lparr>wr_case_id = ''a'', wr_point_id = ''p'', wr_collection = ''c'', wr_payload_sha256 = ''h'',
         wr_written_at = 1\<rparr> sample_pipeline, sample_tick ''t6'')]"

definition sample_case :: workflow_record where
  "sample_case = (case pg_get ''a'' (service_run pg_create pg_transition sample_session pg_empty) of Inr w \<Rightarrow> w)"

definition sample_events :: "audit_event list" where
  "sample_events = (case pg_audit_of ''a'' (service_run pg_create pg_transition sample_session pg_empty) of
     Inr evs \<Rightarrow> evs)"

lemma sample_ticks: "distinct (map (tk_audit_id \<circ> snd) sample_session)"
  by (simp add: sample_session_def sample_to_review_def sample_tick_def)

lemma sample_is_ok:
  "is_ok (pg_get ''a'' (service_run pg_create pg_transition sample_session pg_empty))"
  "is_ok (pg_audit_of ''a'' (service_run pg_create pg_transition sample_session pg_empty))"
  by (code_simp, code_simp)

lemma sample_results:
  "pg_get ''a'' (service_run pg_create pg_transition sample_session pg_empty) = Inr sample_case"
  "pg_audit_of ''a'' (service_run pg_create pg_transition sample_session pg_empty) = Inr sample_events"
  using sample_is_ok by (auto simp: sample_case_def sample_events_def split: sum.splits)

lemma sample_written: "wf_state sample_case = PRECEDENT_WRITTEN"
  by code_simp

theorem postgres_audit_contract_witness: "history_ok ''a'' sample_case sample_events"
  by (rule postgres_audit_contract [OF sample_ticks sample_results])

text \<open>
  The in-memory repository keeps the same contract, so what the tests observe on it is
  what the database does.
\<close>

theorem memory_audit_contract:
  assumes "distinct (map (tk_audit_id \<circ> snd) session)"
    and "mem_get a (service_run mem_create mem_transition session mem_empty) = Inr w"
    and "mem_audit a (service_run mem_create mem_transition session mem_empty) = Inr evs"
  shows "history_ok a w evs"
proof -
  let ?r = "service_run mem_create mem_transition session mem_empty"
  have "mem.tracked ?r" using mem.service_run_tracked [OF mem.tracked_empty assms(1)] by auto
  then have inv: "mem_inv ?r" by (simp add: mem.tracked_def)
  have "mem_view ?r a = Some (w, evs)"
    using mem.get_view [OF inv, of a] mem.audit_view [OF inv, of a] assms(2,3)
    by (auto split: option.splits)
  then show ?thesis by (rule mem.run_history [OF assms(1)])
qed

text \<open>
  C7. The two repositories are observationally equivalent: after the same session both give
  the same answer to every \<open>get\<close> and every \<open>audit\<close>.
\<close>

theorem repositories_equivalent:
  assumes "distinct (map (tk_audit_id \<circ> snd) session)"
  shows "mem_get a (service_run mem_create mem_transition session mem_empty) =
      pg_get a (service_run pg_create pg_transition session pg_empty) \<and>
    mem_audit a (service_run mem_create mem_transition session mem_empty) =
      pg_audit_of a (service_run pg_create pg_transition session pg_empty)"
proof -
  have "same_view (service_run mem_create mem_transition session mem_empty)
      (service_run pg_create pg_transition session pg_empty)"
    by (rule run_agrees [OF same_view_empty assms]) (auto simp: pg.used_empty)
  then show ?thesis
    using mem.get_view pg.get_view mem.audit_view pg.audit_view
    by (simp add: same_view_def mem.tracked_def pg.tracked_def)
qed

theorem repositories_equivalent_witness:
  "mem_get ''a'' (service_run mem_create mem_transition sample_session mem_empty) = Inr sample_case"
  using repositories_equivalent [OF sample_ticks, of "''a''"] sample_results(1) by simp

theorem memory_audit_contract_witness: "history_ok ''a'' sample_case sample_events"
proof -
  have "mem_get ''a'' (service_run mem_create mem_transition sample_session mem_empty) = Inr sample_case"
    "mem_audit ''a'' (service_run mem_create mem_transition sample_session mem_empty) = Inr sample_events"
    by (code_simp, code_simp)
  then show ?thesis by (rule memory_audit_contract [OF sample_ticks])
qed

text \<open>
  C15. No precedent without a human. When a case is in PRECEDENT_WRITTEN, its last two events
  are a decision signed by a human reviewer and the write of the precedent, and the recorded
  decision is not a send-back.
\<close>

theorem precedent_written_after_human_decision:
  assumes "distinct (map (tk_audit_id \<circ> snd) session)"
    and "pg_get a (service_run pg_create pg_transition session pg_empty) = Inr w"
    and "pg_audit_of a (service_run pg_create pg_transition session pg_empty) = Inr evs"
    and "wf_state w = PRECEDENT_WRITTEN"
  shows "(\<exists>earlier decided written. evs = earlier @ [decided, written] \<and>
      ae_to_state decided = HUMAN_DECIDED \<and> HUMAN_REVIEWER \<in> set (ae_actor_roles decided) \<and>
      ae_to_state written = PRECEDENT_WRITTEN) \<and>
    (\<exists>d. wf_decision w = Some d \<and> hr_action d \<noteq> SEND_BACK)"
proof -
  let ?p = "service_run pg_create pg_transition session pg_empty"
  have "pg.tracked ?p" using pg.service_run_tracked [OF pg.tracked_empty assms(1)] pg.used_empty by auto
  then have inv: "pg_inv ?p" by (simp add: pg.tracked_def)
  have "pg_view ?p a = Some (w, evs)"
    using pg.get_view [OF inv, of a] pg.audit_view [OF inv, of a] assms(2,3)
    by (auto split: option.splits)
  then have h: "history_ok a w evs" by (rule pg.run_history [OF assms(1)])
  then have "\<exists>d. wf_decision w = Some d \<and> hr_action d \<noteq> SEND_BACK"
    using assms(4) by (auto simp: history_ok_def record_ok_def split: option.splits)
  with history_written_decided [OF h assms(4)] show ?thesis by blast
qed

theorem precedent_written_after_human_decision_witness:
  "\<exists>d. wf_decision sample_case = Some d \<and> hr_action d \<noteq> SEND_BACK"
  using precedent_written_after_human_decision [OF sample_ticks sample_results sample_written] by blast

text \<open>
  C27. Optimistic concurrency: of two human decisions that expect the same version, sent under
  different new command ids, only one succeeds. The other is a version conflict (or lacks the
  reviewer role), whatever it decides, and changes nothing.
\<close>

theorem concurrent_decision_conflicts:
  assumes "pg.tracked p" and "\<not> pg_used p (tk_audit_id t)"
    and "command_result a (hc_command_id c) p = None" and "command_result a (hc_command_id c') p = None"
    and "hc_command_id c' \<noteq> hc_command_id c" and "hc_expected_version c' = hc_expected_version c"
    and "decide pg_transition a c actor t p = Inr (res, p')"
  shows "\<exists>e. decide pg_transition a c' actor' t' p' = Inl e \<and>
    ((\<exists>m. e = WorkflowConflictError m) \<or> (\<exists>m. e = WorkflowAuthorizationError m))"
proof (cases "HUMAN_REVIEWER \<in> ac_roles actor'")
  case False
  then show ?thesis by (simp add: decide_def require_role_def)
next
  case True
  from assms(7) have reviewer: "HUMAN_REVIEWER \<in> ac_roles actor"
    and run: "pg_transition a (hc_command_id c) (decide_transition c actor t) p = Inr (res, p')"
    by (auto simp: decide_def require_role_def result_elims)
  have "\<exists>m. pg_transition a (hc_command_id c') (decide_transition c' actor' t') p' = Inl (WorkflowConflictError m)"
    by (rule pg.second_conflicts [OF assms(1) decide_good [OF reviewer] assms(2) run _ _ assms(5),
          where expected = "hc_expected_version c"])
      (auto simp: assms(3,4,6) decide_transition_def require_version_def result_elims)
  with True show ?thesis by (auto simp: decide_def require_role_def)
qed

lemma reviewable_tracked:
  "pg.tracked (service_run pg_create pg_transition sample_to_review pg_empty)"
  using pg.service_run_tracked [OF pg.tracked_empty, of sample_to_review] pg.used_empty
  by (auto simp: sample_to_review_def sample_tick_def)

lemma reviewable_facts:
  "tk_audit_id (sample_tick ''t5'') \<notin>
     ae_audit_id ` set (pg_audit (service_run pg_create pg_transition sample_to_review pg_empty))"
  "command_result ''a'' ''c5'' (service_run pg_create pg_transition sample_to_review pg_empty) = None"
  "command_result ''a'' ''c9'' (service_run pg_create pg_transition sample_to_review pg_empty) = None"
  "is_ok (decide pg_transition ''a'' (sample_decision ''c5'') sample_reviewer (sample_tick ''t5'')
     (service_run pg_create pg_transition sample_to_review pg_empty))"
  by (code_simp, code_simp, code_simp, code_simp)

theorem concurrent_decision_conflicts_witness:
  "\<exists>res p'. decide pg_transition ''a'' (sample_decision ''c5'') sample_reviewer (sample_tick ''t5'')
      (service_run pg_create pg_transition sample_to_review pg_empty) = Inr (res, p') \<and>
    \<not> is_ok (decide pg_transition ''a'' (sample_decision ''c9'') sample_reviewer (sample_tick ''t9'') p')"
proof -
  obtain res p' where run: "decide pg_transition ''a'' (sample_decision ''c5'') sample_reviewer
      (sample_tick ''t5'') (service_run pg_create pg_transition sample_to_review pg_empty) = Inr (res, p')"
    using reviewable_facts(4) by (metis is_ok.elims(2) prod.collapse)
  have "\<exists>e. decide pg_transition ''a'' (sample_decision ''c9'') sample_reviewer (sample_tick ''t9'') p' = Inl e \<and>
    ((\<exists>m. e = WorkflowConflictError m) \<or> (\<exists>m. e = WorkflowAuthorizationError m))"
    by (rule concurrent_decision_conflicts [OF reviewable_tracked _ _ _ _ _ run])
      (use reviewable_facts in \<open>simp_all add: sample_decision_def pg_used_def\<close>)
  with run show ?thesis by auto
qed

text \<open>
  Commands are idempotent: when a decision has been recorded under a command id, any later
  decision under that id returns the recorded result and changes nothing, whatever it says.
\<close>

theorem decision_replay_is_idempotent:
  assumes "pg.tracked p" and "\<not> pg_used p (tk_audit_id t)"
    and "decide pg_transition a c actor t p = Inr (res, p')"
    and "hc_command_id c' = hc_command_id c" and "HUMAN_REVIEWER \<in> ac_roles actor'"
  shows "decide pg_transition a c' actor' t' p' = Inr (res, p')"
proof -
  from assms(3) have reviewer: "HUMAN_REVIEWER \<in> ac_roles actor"
    and run: "pg_transition a (hc_command_id c) (decide_transition c actor t) p = Inr (res, p')"
    by (auto simp: decide_def require_role_def result_elims)
  have "command_result a (hc_command_id c) p' = Some res"
    using pg.transition_records [OF assms(1) decide_good [OF reviewer] assms(2) run] by simp
  then show ?thesis using assms(4,5) by (simp add: decide_def require_role_def pg_transition_def)
qed

theorem decision_replay_is_idempotent_witness:
  "\<exists>res p'. decide pg_transition ''a'' (sample_decision ''c5'') sample_reviewer (sample_tick ''t5'')
      (service_run pg_create pg_transition sample_to_review pg_empty) = Inr (res, p') \<and>
    decide pg_transition ''a'' ((sample_decision ''c5'')\<lparr>hc_action := REJECT\<rparr>) sample_reviewer
      (sample_tick ''t9'') p' = Inr (res, p')"
proof -
  obtain res p' where run: "decide pg_transition ''a'' (sample_decision ''c5'') sample_reviewer
      (sample_tick ''t5'') (service_run pg_create pg_transition sample_to_review pg_empty) = Inr (res, p')"
    using reviewable_facts(4) by (metis is_ok.elims(2) prod.collapse)
  have "decide pg_transition ''a'' ((sample_decision ''c5'')\<lparr>hc_action := REJECT\<rparr>) sample_reviewer
      (sample_tick ''t9'') p' = Inr (res, p')"
    by (rule decision_replay_is_idempotent [OF reviewable_tracked _ run])
      (use reviewable_facts in \<open>simp_all add: pg_used_def sample_reviewer_def\<close>)
  with run show ?thesis by blast
qed

end
