(* ===== verification/FM_Extraction.thy ===== *)
theory FM_Extraction
  imports FM_Rules
begin

text \<open>
  From extracted figures to a borrower application: the helpers of \<open>intake.py\<close> that the intake
  service and the financial worker share. A figure is chosen for each of the thirteen facts, its
  text is read as a number or kept, and the cited evidence becomes the application.
\<close>

section \<open>The facts\<close>

definition EXTRACTED_FACTS :: "fact_name list" where
  "EXTRACTED_FACTS = [Annual_revenue_crore, Ebitda_margin_pct, Dscr, Pat_crore, Debt_to_equity,
     Debt_to_ebitda, Collateral_cover, Years_operating, Employee_count, Borrower_name, Industry,
     Sub_industry, Region]"

lemma EXTRACTED_FACTS_all: "n \<in> set EXTRACTED_FACTS"
  by (cases n) (simp_all add: EXTRACTED_FACTS_def)

lemma EXTRACTED_FACTS_distinct: "distinct EXTRACTED_FACTS"
  by (simp add: EXTRACTED_FACTS_def)

record intake_metadata =
  im_application_id :: app_id
  im_requested_amount_crore :: decimal
  im_loan_type :: loan_type

definition validate_metadata :: "intake_metadata \<Rightarrow> py_exn + intake_metadata" where
  "validate_metadata m =
     (if valid_case_id (im_application_id m) \<and> 0 < dval (im_requested_amount_crore m) then Inr m
      else Inl (ValueError ''validation error''))"

fun figure_tokens :: "fact_name \<Rightarrow> string list" where
  "figure_tokens Annual_revenue_crore = [''revenue'', ''income'']"
| "figure_tokens Ebitda_margin_pct = [''ebitda'', ''margin'']"
| "figure_tokens Dscr = [''dscr'', ''debt service'']"
| "figure_tokens Pat_crore = [''pat'', ''profit after tax'']"
| "figure_tokens Debt_to_equity = [''debt to equity'', ''debt/equity'', ''d/e'']"
| "figure_tokens Debt_to_ebitda = [''debt to ebitda'', ''debt/ebitda'']"
| "figure_tokens Collateral_cover = [''collateral'', ''security cover'']"
| "figure_tokens Years_operating = [''years operating'', ''operating history'', ''incorporated'']"
| "figure_tokens Employee_count = [''employee'', ''workforce'', ''headcount'']"
| "figure_tokens Borrower_name = [''borrower'', ''company'', ''legal entity'']"
| "figure_tokens Industry = [''industry'', ''sector'']"
| "figure_tokens Sub_industry = [''sub-industry'', ''sub industry'', ''business activity'']"
| "figure_tokens Region = [''region'', ''registered office'', ''location'']"

definition label_matches :: "fact_name \<Rightarrow> figure \<Rightarrow> bool" where
  "label_matches metric f = list_ex (\<lambda>token. contains_str token (casefold (fg_label f))) (figure_tokens metric)"

definition select_figure :: "figure list \<Rightarrow> fact_name \<Rightarrow> py_exn + figure" where
  "select_figure figures metric =
     (case find (label_matches metric) figures of
        Some f \<Rightarrow> Inr f
      | None \<Rightarrow>
          (case figures of
             [f] \<Rightarrow> Inr f
           | _ \<Rightarrow> Inl (ValueError (''FinDocIQ did not return an unambiguous '' @ fact_str metric @ '' figure''))))"

fun default_unit :: "fact_name \<Rightarrow> string" where
  "default_unit Annual_revenue_crore = ''INR crore''"
| "default_unit Ebitda_margin_pct = ''%''"
| "default_unit Dscr = ''x''"
| "default_unit Pat_crore = ''INR crore''"
| "default_unit Debt_to_equity = ''x''"
| "default_unit Debt_to_ebitda = ''x''"
| "default_unit Collateral_cover = ''x''"
| "default_unit Years_operating = ''years''"
| "default_unit Employee_count = ''count''"
| "default_unit Borrower_name = ''text''"
| "default_unit Industry = ''text''"
| "default_unit Sub_industry = ''text''"
| "default_unit Region = ''text''"

section \<open>Numbers in text\<close>

text \<open>
  \<open>re.search(r"-?\d[\d,]*(?:\.\d+)?", raw)\<close>: at the first position where it matches, the match
  takes as much as it can. A minus sign that no digit follows is passed over.
\<close>

definition number_body :: "string \<Rightarrow> string" where
  "number_body s =
     (let whole = takeWhile (\<lambda>c. is_digit c \<or> c = CHR '','') s;
          rest = dropWhile (\<lambda>c. is_digit c \<or> c = CHR '','') s;
          fraction = (case rest of [] \<Rightarrow> [] | c # cs \<Rightarrow> if c = CHR ''.'' then takeWhile is_digit cs else [])
      in whole @ (if fraction = [] then [] else CHR ''.'' # fraction))"

definition starts_digit :: "string \<Rightarrow> bool" where
  "starts_digit s = (case s of [] \<Rightarrow> False | c # _ \<Rightarrow> is_digit c)"

fun search_number :: "string \<Rightarrow> string option" where
  "search_number [] = None"
| "search_number (c # cs) =
     (if c = CHR ''-'' \<and> starts_digit cs then Some (CHR ''-'' # number_body cs)
      else if is_digit c then Some (number_body (c # cs))
      else search_number cs)"

definition not_numeric :: "string \<Rightarrow> py_exn" where
  "not_numeric raw = ValueError (''extracted figure is not numeric: '' @ repr_str raw)"

definition read_decimal :: "string \<Rightarrow> py_exn + decimal" where
  "read_decimal raw =
     (case search_number raw of
        None \<Rightarrow> Inl (not_numeric raw)
      | Some m \<Rightarrow>
          (case decimal_of_string (filter (\<lambda>c. c \<noteq> CHR '','') m) of
             None \<Rightarrow> Inl (not_numeric raw)
           | Some d \<Rightarrow> Inr d))"

definition extracted_value :: "fact_name \<Rightarrow> string \<Rightarrow> py_exn + fact_value" where
  "extracted_value metric raw =
     (let value = strip raw in
      if value = [] then Inl (ValueError (''FinDocIQ returned an empty '' @ fact_str metric @ '' value''))
      else if metric \<in> set text_facts then Inr (FText value)
      else ebind (read_decimal value) (\<lambda>d. Inr (FNum d)))"

section \<open>Evidence and application\<close>

definition or_default :: "string option \<Rightarrow> string \<Rightarrow> string" where
  "or_default s d = (case s of None \<Rightarrow> d | Some t \<Rightarrow> if t = [] then d else t)"

definition make_evidence :: "fact_name \<Rightarrow> figure \<Rightarrow> py_exn + evidence_metric" where
  "make_evidence metric f =
     ebind (extracted_value metric (fg_value f)) (\<lambda>raw.
     ebind (raising_value (normalize_value metric raw)) (\<lambda>value.
     Inr \<lparr>em_name = metric, em_value = value, em_unit = or_default (fg_unit f) (default_unit metric),
          em_period = or_default (fg_period f) ''latest reported period'', em_citation = fg_citation f\<rparr>))"

type_synonym fact_values = "(fact_name \<times> fact_value) list"

definition value_of :: "fact_values \<Rightarrow> fact_name \<Rightarrow> py_exn + fact_value" where
  "value_of values name =
     (case dict_get values name of None \<Rightarrow> Inl (KeyError (fact_str name)) | Some v \<Rightarrow> Inr v)"

definition number_fact :: "fact_values \<Rightarrow> fact_name \<Rightarrow> py_exn + decimal" where
  "number_fact values name =
     ebind (value_of values name) (\<lambda>v. case v of
        FNum d \<Rightarrow> Inr d
      | FText _ \<Rightarrow> Inl (ValueError (''FinDocIQ returned non-numeric '' @ fact_str name)))"

definition integer_fact :: "fact_values \<Rightarrow> fact_name \<Rightarrow> py_exn + int" where
  "integer_fact values name =
     ebind (number_fact values name) (\<lambda>d.
       if is_integral d then Inr (to_integral d)
       else Inl (ValueError (''FinDocIQ returned non-integral '' @ fact_str name)))"

definition text_fact :: "fact_values \<Rightarrow> fact_name \<Rightarrow> py_exn + string" where
  "text_fact values name =
     ebind (value_of values name) (\<lambda>v. case v of
        FText s \<Rightarrow> Inr s
      | FNum _ \<Rightarrow> Inl (ValueError (''FinDocIQ returned non-text '' @ fact_str name)))"

definition build_profile :: "fact_values \<Rightarrow> decimal \<Rightarrow> py_exn + financial_profile" where
  "build_profile values requested =
     ebind (number_fact values Annual_revenue_crore) (\<lambda>revenue.
     ebind (number_fact values Ebitda_margin_pct) (\<lambda>margin.
     ebind (number_fact values Pat_crore) (\<lambda>pat.
     ebind (number_fact values Dscr) (\<lambda>dscr.
     ebind (number_fact values Debt_to_equity) (\<lambda>equity.
     ebind (number_fact values Debt_to_ebitda) (\<lambda>ebitda.
     ebind (number_fact values Collateral_cover) (\<lambda>cover.
     ebind (integer_fact values Years_operating) (\<lambda>years.
     ebind (integer_fact values Employee_count) (\<lambda>employees.
     let p = \<lparr>fp_annual_revenue_crore = revenue, fp_requested_amount_crore = requested,
           fp_ebitda_margin_pct = margin, fp_pat_crore = pat, fp_dscr = dscr, fp_debt_to_equity = equity,
           fp_debt_to_ebitda = ebitda, fp_collateral_cover = cover, fp_years_operating = years,
           fp_employee_count = employees\<rparr>
     in ebind (ensure (valid_profile p) (ValueError ''validation error'')) (\<lambda>_. Inr p))))))))))"

text \<open>The last part of \<open>_extract_application\<close>, which the financial worker repeats.\<close>

definition build_application ::
  "app_id \<Rightarrow> intake_metadata \<Rightarrow> evidence_metric list \<Rightarrow> py_exn + borrower_application" where
  "build_application app metadata evidence =
     (let values = metric_dict evidence in
      ebind (text_fact values Borrower_name) (\<lambda>borrower.
      ebind (text_fact values Industry) (\<lambda>industry.
      ebind (text_fact values Sub_industry) (\<lambda>sub_industry.
      ebind (text_fact values Region) (\<lambda>region.
      ebind (build_profile values (im_requested_amount_crore metadata)) (\<lambda>profile.
      raising_value (validate_application
        \<lparr>ba_application_id = app, ba_borrower_name = borrower, ba_industry = industry,
         ba_sub_industry = sub_industry, ba_region = region, ba_loan_type = im_loan_type metadata,
         ba_profile = profile, ba_evidence = evidence,
         ba_finance_context = ''Document-extracted financial facts with cited provenance.'',
         ba_operations_context = ''Document-extracted operating facts with cited provenance.''\<rparr>)))))))"

section \<open>Reading a number\<close>

lemma digit_plain:
  "is_digit c \<Longrightarrow> c \<noteq> CHR ''-'' \<and> c \<noteq> CHR ''+'' \<and> c \<noteq> CHR ''.'' \<and> c \<noteq> CHR '','' \<and> \<not> is_space c"
  by (auto simp: is_digit_def is_space_def Let_def)

lemma space_simps [simp]: "\<not> is_space (CHR ''-'')" "\<not> is_digit (CHR ''-'')" "\<not> is_digit (CHR ''.'')" "\<not> is_digit (CHR '','')"
  by (simp_all add: is_space_def is_digit_def)

lemma strip_id: "s \<noteq> [] \<Longrightarrow> \<not> is_space (hd s) \<Longrightarrow> \<not> is_space (last s) \<Longrightarrow> strip s = s"
proof -
  assume a: "s \<noteq> []" "\<not> is_space (hd s)" "\<not> is_space (last s)"
  then have "dropWhile is_space s = s" by (cases s) simp_all
  moreover from a have "dropWhile is_space (rev s) = rev s" by (cases s rule: rev_cases) simp_all
  ultimately show "strip s = s" by (simp add: strip_def)
qed

text \<open>The notation of a number without exponent.\<close>

definition plain_number :: "bool \<Rightarrow> string \<Rightarrow> string \<Rightarrow> string" where
  "plain_number neg ip fp = (if neg then ''-'' else []) @ ip @ (if fp = [] then [] else CHR ''.'' # fp)"

lemma decimal_of_plain:
  assumes ip: "ip \<noteq> []" "list_all is_digit ip" and fp: "list_all is_digit fp"
  shows "decimal_of_string (plain_number neg ip fp) = Some (Dec neg (nat_of_digits (ip @ fp)) (- int (length fp)))"
proof -
  let ?body = "ip @ (if fp = [] then [] else CHR ''.'' # fp)"
  obtain c cs where c: "ip = c # cs" by (cases ip) (use ip(1) in auto)
  with ip(2) have dc: "is_digit c" by simp
  note pc = digit_plain [OF dc]
  have lst: "is_digit (last ?body)"
    using ip fp by (cases fp rule: rev_cases) (auto simp: list_all_iff)
  have st: "strip (plain_number neg ip fp) = plain_number neg ip fp"
    by (rule strip_id) (use pc lst digit_plain in \<open>auto simp: plain_number_def c\<close>)
  have sp: "split_sign (plain_number neg ip fp) = (neg, ?body)"
    using pc by (simp add: plain_number_def split_sign_def c)
  have tw: "takeWhile is_digit ?body = ip" "dropWhile is_digit ?body = (if fp = [] then [] else CHR ''.'' # fp)"
    using ip(2) by (auto simp: list_all_iff takeWhile_append2 dropWhile_append2)
  have fw: "takeWhile is_digit fp = fp" "dropWhile is_digit fp = []"
    using fp by (simp_all add: list_all_iff takeWhile_eq_all_conv dropWhile_eq_Nil_conv)
  show ?thesis
    unfolding decimal_of_string_def st sp Let_def prod.case tw
    using ip(1) by (cases "fp = []") (simp_all add: parse_exponent_def fw del: takeWhile_eq_all_conv)
qed

text \<open>
  A number in text: the first digit or signed digit after text without either, its integral part
  with thousands separators, an optional fraction, and no continuation after it.
\<close>

definition no_number :: "string \<Rightarrow> bool" where
  "no_number s = list_all (\<lambda>c. \<not> is_digit c \<and> c \<noteq> CHR ''-'') s"

definition ends_number :: "string \<Rightarrow> string \<Rightarrow> bool" where
  "ends_number fp post =
     (case post of [] \<Rightarrow> True | c # _ \<Rightarrow> \<not> is_digit c \<and> (fp \<noteq> [] \<or> c \<noteq> CHR '','' \<and> c \<noteq> CHR ''.''))"

lemma number_body_plain:
  assumes "list_all (\<lambda>c. is_digit c \<or> c = CHR '','') ip" and "list_all is_digit fp" and "ends_number fp post"
  shows "number_body (ip @ (if fp = [] then [] else CHR ''.'' # fp) @ post) =
    ip @ (if fp = [] then [] else CHR ''.'' # fp)"
proof (cases "fp = []")
  case True
  have "takeWhile (\<lambda>c. is_digit c \<or> c = CHR '','') (ip @ post) = ip"
    "dropWhile (\<lambda>c. is_digit c \<or> c = CHR '','') (ip @ post) = post"
    using assms(1,3) True by (cases post; auto simp: list_all_iff ends_number_def takeWhile_append2 dropWhile_append2)+
  with assms(3) True show ?thesis
    by (auto simp: number_body_def ends_number_def split: list.splits)
next
  case False
  have "takeWhile (\<lambda>c. is_digit c \<or> c = CHR '','') (ip @ CHR ''.'' # fp @ post) = ip"
    "dropWhile (\<lambda>c. is_digit c \<or> c = CHR '','') (ip @ CHR ''.'' # fp @ post) = CHR ''.'' # fp @ post"
    using assms(1) by (auto simp: list_all_iff takeWhile_append2 dropWhile_append2)
  moreover have "takeWhile is_digit (fp @ post) = fp"
    using assms(2,3) by (cases post) (auto simp: list_all_iff ends_number_def takeWhile_append2)
  ultimately show ?thesis using False by (simp add: number_body_def Let_def)
qed

lemma search_number_skip: "no_number pre \<Longrightarrow> search_number (pre @ s) = search_number s"
  by (induction pre) (auto simp: no_number_def)

lemma search_number_found:
  assumes "no_number pre" and "starts_digit ip" and "list_all (\<lambda>c. is_digit c \<or> c = CHR '','') ip"
    and "list_all is_digit fp" and "ends_number fp post"
  shows "search_number (pre @ plain_number neg ip fp @ post) = Some (plain_number neg ip fp)"
proof -
  obtain c cs where c: "ip = c # cs" "is_digit c"
    using assms(2) by (auto simp: starts_digit_def split: list.splits)
  note body = number_body_plain [OF assms(3-5)]
  show ?thesis
    unfolding search_number_skip [OF assms(1)]
    using body c digit_plain [OF c(2)] by (simp add: plain_number_def starts_digit_def)
qed

lemma filter_commas:
  "list_all (\<lambda>c. is_digit c \<or> c = CHR '','') ip \<Longrightarrow> filter (\<lambda>c. c \<noteq> CHR '','') ip = filter is_digit ip"
  by (induction ip) (auto dest: digit_plain)

lemma filter_plain:
  assumes "list_all (\<lambda>c. is_digit c \<or> c = CHR '','') ip" and "list_all is_digit fp"
  shows "filter (\<lambda>c. c \<noteq> CHR '','') (plain_number neg ip fp) = plain_number neg (filter is_digit ip) fp"
proof -
  have "filter (\<lambda>c. c \<noteq> CHR '','') fp = fp"
    using assms(2) by (induction fp) (auto dest: digit_plain)
  with filter_commas [OF assms(1)] show ?thesis by (simp add: plain_number_def)
qed

lemma read_decimal_in_text:
  assumes "no_number pre" and "starts_digit ip" and "list_all (\<lambda>c. is_digit c \<or> c = CHR '','') ip"
    and "list_all is_digit fp" and "ends_number fp post"
  shows "read_decimal (pre @ plain_number neg ip fp @ post) =
    Inr (Dec neg (nat_of_digits (filter is_digit ip @ fp)) (- int (length fp)))"
proof -
  have ne: "filter is_digit ip \<noteq> []"
    using assms(2) by (auto simp: starts_digit_def split: list.splits)
  have d: "decimal_of_string (plain_number neg (filter is_digit ip) fp) =
      Some (Dec neg (nat_of_digits (filter is_digit ip @ fp)) (- int (length fp)))"
    using ne assms(4) by (intro decimal_of_plain) (auto simp: list_all_iff)
  show ?thesis
    unfolding read_decimal_def search_number_found [OF assms] option.case filter_plain [OF assms(3,4)] d ..
qed

text \<open>Every text with a digit has a number, and nothing else can go wrong.\<close>

lemma number_body_form:
  assumes "starts_digit s"
  shows "\<exists>ip fp. number_body s = plain_number False ip fp \<and> starts_digit ip \<and>
    list_all (\<lambda>c. is_digit c \<or> c = CHR '','') ip \<and> list_all is_digit fp"
proof -
  let ?P = "\<lambda>c. is_digit c \<or> c = CHR '',''"
  let ?fp = "case dropWhile ?P s of [] \<Rightarrow> [] | c # cs \<Rightarrow> if c = CHR ''.'' then takeWhile is_digit cs else []"
  have "starts_digit (takeWhile ?P s)" using assms by (auto simp: starts_digit_def split: list.splits)
  moreover have "list_all ?P (takeWhile ?P s)" by (auto simp: list_all_iff dest: set_takeWhileD)
  moreover have "list_all is_digit ?fp"
    by (auto simp: list_all_iff dest: set_takeWhileD split: list.splits)
  moreover have "number_body s = plain_number False (takeWhile ?P s) ?fp"
    by (simp add: number_body_def plain_number_def Let_def)
  ultimately show ?thesis by blast
qed

lemma search_number_form:
  "search_number s = Some m \<Longrightarrow> \<exists>neg ip fp. m = plain_number neg ip fp \<and> starts_digit ip \<and>
    list_all (\<lambda>c. is_digit c \<or> c = CHR '','') ip \<and> list_all is_digit fp"
proof (induction s)
  case Nil
  then show ?case by simp
next
  case (Cons c cs)
  show ?case
  proof (cases "c = CHR ''-'' \<and> starts_digit cs")
    case True
    then obtain ip fp where "number_body cs = plain_number False ip fp" "starts_digit ip"
        "list_all (\<lambda>c. is_digit c \<or> c = CHR '','') ip" "list_all is_digit fp"
      using number_body_form by blast
    moreover from this True Cons.prems have "m = plain_number True ip fp" by (simp add: plain_number_def)
    ultimately show ?thesis by blast
  next
    case False
    note unsigned = this
    show ?thesis
    proof (cases "is_digit c")
      case True
      with unsigned Cons.prems have "m = number_body (c # cs)" by auto
      moreover from True have "starts_digit (c # cs)" by (simp add: starts_digit_def)
      ultimately show ?thesis using number_body_form by blast
    next
      case False
      with unsigned Cons show ?thesis by auto
    qed
  qed
qed

lemma search_number_None: "search_number s = None \<longleftrightarrow> \<not> list_ex is_digit s"
proof (induction s)
  case Nil
  then show ?case by simp
next
  case (Cons c cs)
  then show ?case by (auto simp: starts_digit_def split: list.splits)
qed

lemma read_decimal_ok_iff: "is_ok (read_decimal raw) \<longleftrightarrow> list_ex is_digit raw"
proof (cases "search_number raw")
  case None
  then show ?thesis by (simp add: read_decimal_def search_number_None [symmetric])
next
  case (Some m)
  then obtain neg ip fp where m: "m = plain_number neg ip fp" "starts_digit ip"
      "list_all (\<lambda>c. is_digit c \<or> c = CHR '','') ip" "list_all is_digit fp"
    using search_number_form by blast
  have ne: "filter is_digit ip \<noteq> []"
    using m(2) by (auto simp: starts_digit_def split: list.splits)
  have "decimal_of_string (plain_number neg (filter is_digit ip) fp) =
      Some (Dec neg (nat_of_digits (filter is_digit ip @ fp)) (- int (length fp)))"
    using ne m(4) by (intro decimal_of_plain) (auto simp: list_all_iff)
  with Some m filter_plain [OF m(3,4)] search_number_None [of raw] show ?thesis
    by (simp add: read_decimal_def)
qed

text \<open>A decimal whose text has no exponent is read back as it was, digit for digit.\<close>

definition plain_notation :: "decimal \<Rightarrow> bool" where
  "plain_notation d \<longleftrightarrow> dec_exp d \<le> 0 \<and> - 6 < dec_exp d + int (length (str_nat (dec_coeff d)))"

lemma nat_of_digits_zeros: "nat_of_digits (replicate k (CHR ''0'') @ s) = nat_of_digits s"
  by (induction k) (simp_all add: nat_of_digits_def digit_val_def)

lemma str_decimal_plain:
  assumes "plain_notation d"
  shows "\<exists>ip fp. str_decimal d = plain_number (dec_neg d) ip fp \<and> ip \<noteq> [] \<and> list_all is_digit ip \<and>
    list_all is_digit fp \<and> nat_of_digits (ip @ fp) = dec_coeff d \<and> int (length fp) = - dec_exp d"
proof -
  let ?ds = "str_nat (dec_coeff d)" and ?l = "dec_exp d + int (length (str_nat (dec_coeff d)))"
  have digits: "list_all is_digit ?ds" by (rule str_nat_digits)
  have zero: "is_digit (CHR ''0'')" by (simp add: is_digit_def)
  consider "?l \<le> 0" | "0 < ?l" "int (length ?ds) \<le> ?l" | "0 < ?l" "?l < int (length ?ds)" by linarith
  then show ?thesis
  proof cases
    case 1
    let ?fp = "replicate (nat (- ?l)) (CHR ''0'') @ ?ds"
    have "str_decimal d = plain_number (dec_neg d) ''0'' ?fp"
      using assms 1 by (simp add: str_decimal_def dec_body_def plain_number_def plain_notation_def Let_def)
    moreover have "nat_of_digits (''0'' @ ?fp) = dec_coeff d"
      using nat_of_digits_zeros [of "Suc (nat (- ?l))" ?ds] by simp
    ultimately show ?thesis
      using digits zero 1 by (intro exI [of _ "''0''"] exI [of _ ?fp]) (auto simp: list_all_iff)
  next
    case 2
    then have "str_decimal d = plain_number (dec_neg d) ?ds []"
      using assms by (simp add: str_decimal_def dec_body_def plain_number_def plain_notation_def Let_def)
    with 2 assms digits show ?thesis
      by (intro exI [of _ ?ds] exI [of _ "[]"]) (auto simp: plain_notation_def)
  next
    case 3
    have "str_decimal d = plain_number (dec_neg d) (take (nat ?l) ?ds) (drop (nat ?l) ?ds)"
      using assms 3 by (simp add: str_decimal_def dec_body_def plain_number_def plain_notation_def Let_def)
    moreover have "nat_of_digits (take (nat ?l) ?ds @ drop (nat ?l) ?ds) = dec_coeff d" by simp
    moreover have "int (length (drop (nat ?l) ?ds)) = - dec_exp d" using 3 by simp
    moreover have "take (nat ?l) ?ds \<noteq> []" using 3 by simp
    moreover have "list_all is_digit (take (nat ?l) ?ds)" "list_all is_digit (drop (nat ?l) ?ds)"
      using digits by (auto simp: list_all_iff dest: in_set_takeD in_set_dropD)
    ultimately show ?thesis by blast
  qed
qed

lemma read_printed_decimal:
  assumes "plain_notation d" and "no_number pre"
    and "case post of [] \<Rightarrow> True | c # _ \<Rightarrow> \<not> is_digit c \<and> c \<noteq> CHR '','' \<and> c \<noteq> CHR ''.''"
  shows "read_decimal (pre @ str_decimal d @ post) = Inr d"
proof -
  from str_decimal_plain [OF assms(1)] obtain ip fp
    where t: "str_decimal d = plain_number (dec_neg d) ip fp" and ip: "ip \<noteq> []" "list_all is_digit ip"
      and fp: "list_all is_digit fp" and v: "nat_of_digits (ip @ fp) = dec_coeff d" "int (length fp) = - dec_exp d"
    by blast
  from ip have "filter is_digit ip = ip" by (simp add: filter_id_conv list_all_iff)
  moreover have "read_decimal (pre @ plain_number (dec_neg d) ip fp @ post) =
      Inr (Dec (dec_neg d) (nat_of_digits (filter is_digit ip @ fp)) (- int (length fp)))"
    using assms(2,3) ip fp
    by (intro read_decimal_in_text) (auto simp: list_all_iff starts_digit_def ends_number_def split: list.splits)
  ultimately show ?thesis by (simp add: t v)
qed

section \<open>The application\<close>

lemma make_evidence_Inr:
  "make_evidence metric f = Inr e \<longleftrightarrow>
     (\<exists>raw v. extracted_value metric (fg_value f) = Inr raw \<and> normalize_value metric raw = Inr v \<and>
        e = \<lparr>em_name = metric, em_value = v, em_unit = or_default (fg_unit f) (default_unit metric),
          em_period = or_default (fg_period f) ''latest reported period'', em_citation = fg_citation f\<rparr>)"
  by (auto simp: make_evidence_def result_elims)

text \<open>Text facts are text and the others are numbers: reading them back cannot be refused.\<close>

definition typed_evidence :: "evidence_metric \<Rightarrow> bool" where
  "typed_evidence e = (case em_value e of FText s \<Rightarrow> em_name e \<in> set text_facts \<and> s \<noteq> []
     | FNum _ \<Rightarrow> em_name e \<notin> set text_facts)"

lemma make_evidence_typed: "make_evidence metric f = Inr e \<Longrightarrow> typed_evidence e \<and> em_name e = metric \<and> em_citation e = fg_citation f"
  by (cases "metric \<in> set text_facts")
    (auto simp: make_evidence_Inr extracted_value_def normalize_value_def typed_evidence_def Let_def
      result_elims split: if_splits)

lemma metric_dict_distinct:
  "distinct (map em_name es) \<Longrightarrow> metric_dict es = map (\<lambda>e. (em_name e, em_value e)) es"
  by (simp add: metric_dict_def dict_of_distinct comp_def)

lemma metric_dict_get:
  assumes "map em_name es = EXTRACTED_FACTS" and "e \<in> set es"
  shows "dict_get (metric_dict es) (em_name e) = Some (em_value e)"
proof -
  from assms(1) have d: "distinct (map em_name es)" by (simp add: EXTRACTED_FACTS_distinct)
  then have "distinct (map fst (map (\<lambda>e. (em_name e, em_value e)) es))" by (simp add: comp_def)
  with assms(2) show ?thesis unfolding metric_dict_distinct [OF d] by (intro map_of_is_SomeI) auto
qed

lemma evidence_of:
  assumes "map em_name es = EXTRACTED_FACTS"
  obtains e where "e \<in> set es" "em_name e = n"
proof -
  from EXTRACTED_FACTS_all [of n] assms have "n \<in> set (map em_name es)" by simp
  with that show ?thesis by auto
qed

lemma number_fact_Inr: "number_fact values n = Inr d \<longleftrightarrow> dict_get values n = Some (FNum d)"
  by (auto simp: number_fact_def value_of_def result_elims split: option.splits fact_value.splits)

lemma text_fact_Inr: "text_fact values n = Inr s \<longleftrightarrow> dict_get values n = Some (FText s)"
  by (auto simp: text_fact_def value_of_def result_elims split: option.splits fact_value.splits)

lemma integer_fact_Inr:
  "integer_fact values n = Inr i \<longleftrightarrow>
     (\<exists>d. dict_get values n = Some (FNum d) \<and> is_integral d \<and> i = to_integral d)"
  by (auto simp: integer_fact_def number_fact_Inr result_elims)

lemma build_profile_Inr:
  "build_profile values requested = Inr p \<longleftrightarrow>
     dict_get values Annual_revenue_crore = Some (FNum (fp_annual_revenue_crore p)) \<and>
     dict_get values Ebitda_margin_pct = Some (FNum (fp_ebitda_margin_pct p)) \<and>
     dict_get values Pat_crore = Some (FNum (fp_pat_crore p)) \<and>
     dict_get values Dscr = Some (FNum (fp_dscr p)) \<and>
     dict_get values Debt_to_equity = Some (FNum (fp_debt_to_equity p)) \<and>
     dict_get values Debt_to_ebitda = Some (FNum (fp_debt_to_ebitda p)) \<and>
     dict_get values Collateral_cover = Some (FNum (fp_collateral_cover p)) \<and>
     integer_fact values Years_operating = Inr (fp_years_operating p) \<and>
     integer_fact values Employee_count = Inr (fp_employee_count p) \<and>
     fp_requested_amount_crore p = requested \<and> valid_profile p"
  unfolding build_profile_def Let_def
  by (auto simp: ebind_Inr_iff ensure_Inr_iff number_fact_Inr; cases p; simp)

text \<open>The values of the application are the cited ones, so the validator of the class agrees.\<close>

lemma dec_of_integral: "is_integral d \<Longrightarrow> dec_eq (dec_of_int (to_integral d)) d"
  using is_integral_value [of d]
  by (auto simp: dec_eq_def dec_of_int_def dval_def pow10_def of_nat_nat abs_if)

lemma text_value:
  assumes "map em_name es = EXTRACTED_FACTS" and "list_all typed_evidence es" and "n \<in> set text_facts"
  shows "\<exists>s. dict_get (metric_dict es) n = Some (FText s) \<and> s \<noteq> []"
proof -
  from assms(1) obtain e where e: "e \<in> set es" "em_name e = n" by (rule evidence_of)
  with metric_dict_get [OF assms(1), of e] assms(2,3) show ?thesis
    by (cases "em_value e") (auto simp: list_all_iff typed_evidence_def dest!: bspec [OF _ e(1)])
qed

lemma expected_cited:
  assumes "build_profile values requested = Inr p"
    and "dict_get values Borrower_name = Some (FText b)" and "dict_get values Industry = Some (FText i)"
    and "dict_get values Sub_industry = Some (FText s)" and "dict_get values Region = Some (FText r)"
    and "dict_get values n = Some v"
  shows "fact_eq (expected_fact p b i s r n) v"
  using assms dec_of_integral
  by (cases n) (auto simp: build_profile_Inr integer_fact_Inr)

lemma evidence_matches_cited:
  assumes names: "map em_name es = EXTRACTED_FACTS" and p: "build_profile (metric_dict es) requested = Inr p"
    and texts: "dict_get (metric_dict es) Borrower_name = Some (FText b)"
      "dict_get (metric_dict es) Industry = Some (FText i)"
      "dict_get (metric_dict es) Sub_industry = Some (FText s)" "dict_get (metric_dict es) Region = Some (FText r)"
  shows "evidence_matches p b i s r es"
proof -
  have "list_all (\<lambda>n. dict_get (metric_dict es) n \<noteq> None) required_facts"
    using p by (simp add: required_facts_def build_profile_Inr)
  moreover have "dict_wf (metric_dict es)" by (simp add: metric_dict_def)
  then have "list_all (\<lambda>(n, v). fact_eq (expected_fact p b i s r n) v) (metric_dict es)"
    using expected_cited [OF p texts] by (auto simp: list_all_iff dict_get_in_iff)
  ultimately show ?thesis by (simp add: evidence_matches_def Let_def)
qed

lemma build_application_total:
  assumes names: "map em_name es = EXTRACTED_FACTS" and typed: "list_all typed_evidence es"
    and p: "build_profile (metric_dict es) (im_requested_amount_crore m) = Inr p" and app: "app \<noteq> []"
    and valid: "list_all valid_metric es"
  shows "\<exists>a. build_application app m es = Inr a \<and> ba_profile a = p"
proof -
  note t = text_value [OF names typed]
  from t [of Borrower_name] t [of Industry] t [of Sub_industry] t [of Region] obtain b i s r where
    texts: "dict_get (metric_dict es) Borrower_name = Some (FText b)" "dict_get (metric_dict es) Industry = Some (FText i)"
      "dict_get (metric_dict es) Sub_industry = Some (FText s)" "dict_get (metric_dict es) Region = Some (FText r)"
    and ne: "b \<noteq> []" "i \<noteq> []" "s \<noteq> []" "r \<noteq> []"
    by (auto simp: text_facts_def)
  have "length es = 13" using arg_cong [OF names, of length] by (simp add: EXTRACTED_FACTS_def)
  moreover have "valid_profile p" using p by (simp add: build_profile_Inr)
  ultimately show ?thesis
    using evidence_matches_cited [OF names p texts] texts [folded text_fact_Inr] ne app p valid
    by (simp add: build_application_def Let_def validate_application_def application_fields_ok_def
        validate_evidence_def raising_value_def max_items_def)
qed

text \<open>What a built application holds.\<close>

lemma build_application_Inr:
  assumes "build_application app m es = Inr a"
  shows "ba_application_id a = app \<and> ba_evidence a = es \<and> ba_loan_type a = im_loan_type m \<and>
    build_profile (metric_dict es) (im_requested_amount_crore m) = Inr (ba_profile a) \<and>
    dict_get (metric_dict es) Borrower_name = Some (FText (ba_borrower_name a)) \<and>
    validate_application a = Inr a"
proof -
  have id: "x = y \<and> validate_application x = Inr x" if "validate_application y = Inr x" for x y
    using that by (auto simp: validate_application_def validate_evidence_def result_elims split: if_splits)
  show ?thesis
    using assms
    by (auto simp: build_application_def Let_def result_elims text_fact_Inr dest: id)
qed

end
