(* ===== verification/FM_Workspace.thy ===== *)
theory FM_Workspace
  imports FM_Extraction FM_Agent_Schema "HOL-Library.Sublist"
begin

text \<open>
  The application-scoped artifact store (\<open>orchestration/workspace.py\<close>). The file system is an
  association of absolute paths with contents, without symbolic links. The authenticated cipher,
  the hash and the JSON form of a model are parameters.
\<close>

section \<open>Paths\<close>

text \<open>
  A path is its list of components below the file system's root. \<open>PurePosixPath\<close> drops empty
  and \<open>.\<close> components; joining an absolute path replaces what was before it.
\<close>

type_synonym path = "string list"

fun split_on :: "char \<Rightarrow> string \<Rightarrow> string list" where
  "split_on sep [] = [[]]"
| "split_on sep (c # cs) =
     (if c = sep then [] # split_on sep cs
      else case split_on sep cs of [] \<Rightarrow> [[c]] | p # ps \<Rightarrow> (c # p) # ps)"

definition path_parts :: "string \<Rightarrow> path" where
  "path_parts s = filter (\<lambda>p. p \<noteq> [] \<and> p \<noteq> ''.'') (split_on (CHR ''/'') s)"

definition path_absolute :: "string \<Rightarrow> bool" where
  "path_absolute s = starts_with ''/'' s"

definition path_name :: "string \<Rightarrow> string" where
  "path_name s = (case rev (path_parts s) of [] \<Rightarrow> [] | p # _ \<Rightarrow> p)"

definition path_join :: "path \<Rightarrow> string \<Rightarrow> path" where
  "path_join base s = (if path_absolute s then path_parts s else base @ path_parts s)"

fun resolve_onto :: "path \<Rightarrow> path \<Rightarrow> path" where
  "resolve_onto done_parts [] = rev done_parts"
| "resolve_onto done_parts (p # ps) = (if p = ''..'' then resolve_onto (tl done_parts) ps else resolve_onto (p # done_parts) ps)"

definition resolve_path :: "path \<Rightarrow> path" where
  "resolve_path p = resolve_onto [] p"

section \<open>Files\<close>

record envelope =
  ev_key_version :: string
  ev_data_nonce :: string
  ev_key_nonce :: string
  ev_ciphertext :: string
  ev_wrapped_key :: string

text \<open>
  What a file holds: bytes as they are, or a sealed envelope, whose JSON and base64 form is
  \<open>envelope_text\<close>.
\<close>

datatype stored = Plain string | Sealed envelope

record filesystem =
  fs_files :: "(path \<times> stored) list"
  fs_dirs :: "path list"
  fs_draws :: nat

text \<open>
  \<open>cipher_encrypt\<close> and \<open>cipher_decrypt\<close> take key, nonce, text and associated data; decryption is
  \<open>None\<close> when the tag does not verify. \<open>cipher_random\<close> is the n-th draw of so many bytes,
  \<open>not_sealed\<close> the exception of reading bytes that are no envelope.
\<close>

record cipher =
  cipher_encrypt :: "string \<Rightarrow> string \<Rightarrow> string \<Rightarrow> string \<Rightarrow> string"
  cipher_decrypt :: "string \<Rightarrow> string \<Rightarrow> string \<Rightarrow> string \<Rightarrow> string option"
  cipher_random :: "nat \<Rightarrow> nat \<Rightarrow> string"
  envelope_text :: "envelope \<Rightarrow> string"
  not_sealed :: "string \<Rightarrow> py_exn"

record workspace =
  wk_root :: path
  wk_master_key :: "string option"
  wk_key_version :: string
  wk_cipher :: cipher
  wk_sha256 :: "string \<Rightarrow> string"

definition make_workspace ::
  "cipher \<Rightarrow> (string \<Rightarrow> string) \<Rightarrow> path \<Rightarrow> string option \<Rightarrow> string \<Rightarrow> py_exn + workspace" where
  "make_workspace c sha256 base_dir master_key key_version =
     ebind (ensure (case master_key of None \<Rightarrow> True | Some k \<Rightarrow> length k = 32)
       (ValueError ''workspace master key must be exactly 32 bytes'')) (\<lambda>_.
     Inr \<lparr>wk_root = resolve_path base_dir, wk_master_key = master_key, wk_key_version = key_version,
          wk_cipher = c, wk_sha256 = sha256\<rparr>)"

text \<open>Folder and file paths, with the checks on identifiers and names.\<close>

definition app_folder :: "workspace \<Rightarrow> app_id \<Rightarrow> py_exn + path" where
  "app_folder ws app =
     ebind (ensure (app \<noteq> [] \<and> path_name app = app) (ValueError ''unsafe application identifier'')) (\<lambda>_.
     let folder = resolve_path (path_join (wk_root ws) app) in
     ebind (ensure (strict_prefix (wk_root ws) folder)
       (ValueError ''application storage boundary violation'')) (\<lambda>_. Inr folder))"

definition artifact_path :: "workspace \<Rightarrow> app_id \<Rightarrow> string \<Rightarrow> py_exn + path" where
  "artifact_path ws app name =
     ebind (ensure (name \<noteq> [] \<and> list_all (\<lambda>p. p \<noteq> [] \<and> p \<noteq> ''.'' \<and> p \<noteq> ''..'') (path_parts name))
       (ValueError ''unsafe artifact name'')) (\<lambda>_.
     ebind (app_folder ws app) (\<lambda>folder.
     Inr (path_join (folder @ [''agent'']) (name @ ''.json''))))"

definition document_path :: "workspace \<Rightarrow> app_id \<Rightarrow> string \<Rightarrow> py_exn + path" where
  "document_path ws app filename =
     ebind (app_folder ws app) (\<lambda>folder.
     Inr (path_join (folder @ [''documents''])
       (filename @ (if wk_master_key ws \<noteq> None then ''.enc.json'' else []))))"

definition document_aad :: "app_id \<Rightarrow> string \<Rightarrow> string" where
  "document_aad app filename = ''document|'' @ app @ ''|'' @ filename"

definition artifact_aad :: "app_id \<Rightarrow> string \<Rightarrow> string" where
  "artifact_aad app name = ''artifact|'' @ app @ ''|'' @ name"

section \<open>Sealing\<close>

definition seal_bytes :: "workspace \<Rightarrow> string \<Rightarrow> string \<Rightarrow> nat \<Rightarrow> stored \<times> nat" where
  "seal_bytes ws content associated draws =
     (case wk_master_key ws of
        None \<Rightarrow> (Plain content, draws)
      | Some master \<Rightarrow>
          (let c = wk_cipher ws;
               dek = cipher_random c draws 32;
               data_nonce = cipher_random c (draws + 1) 12;
               key_nonce = cipher_random c (draws + 2) 12
           in (Sealed \<lparr>ev_key_version = wk_key_version ws, ev_data_nonce = data_nonce, ev_key_nonce = key_nonce,
                 ev_ciphertext = cipher_encrypt c dek data_nonce content associated,
                 ev_wrapped_key = cipher_encrypt c master key_nonce dek associated\<rparr>, draws + 3)))"

definition decrypted :: "string option \<Rightarrow> py_exn + string" where
  "decrypted r = (case r of None \<Rightarrow> Inl (OtherException ''InvalidTag'') | Some m \<Rightarrow> Inr m)"

definition unseal :: "workspace \<Rightarrow> string \<Rightarrow> stored \<Rightarrow> py_exn + string" where
  "unseal ws associated content =
     (case wk_master_key ws of
        None \<Rightarrow> Inr (case content of Plain t \<Rightarrow> t | Sealed e \<Rightarrow> envelope_text (wk_cipher ws) e)
      | Some master \<Rightarrow>
          (case content of
             Plain t \<Rightarrow> Inl (not_sealed (wk_cipher ws) t)
           | Sealed e \<Rightarrow>
               ebind (decrypted (cipher_decrypt (wk_cipher ws) master (ev_key_nonce e) (ev_wrapped_key e) associated)) (\<lambda>dek.
               decrypted (cipher_decrypt (wk_cipher ws) dek (ev_data_nonce e) (ev_ciphertext e) associated))))"

definition read_file :: "path \<Rightarrow> filesystem \<Rightarrow> py_exn + stored" where
  "read_file target fs =
     (case dict_get (fs_files fs) target of None \<Rightarrow> Inl (OtherException ''FileNotFoundError'') | Some c \<Rightarrow> Inr c)"

definition read_bytes :: "workspace \<Rightarrow> path \<Rightarrow> string \<Rightarrow> filesystem \<Rightarrow> py_exn + string" where
  "read_bytes ws target associated fs = ebind (read_file target fs) (unseal ws associated)"

definition write_bytes :: "workspace \<Rightarrow> path \<Rightarrow> string \<Rightarrow> string \<Rightarrow> filesystem \<Rightarrow> filesystem" where
  "write_bytes ws target content associated fs =
     (let (sealed, draws) = seal_bytes ws content associated (fs_draws fs)
      in fs\<lparr>fs_files := dict_set target sealed (fs_files fs), fs_draws := draws\<rparr>)"

text \<open>\<open>mkdir(parents=True, exist_ok=True)\<close>.\<close>

definition make_dirs :: "path \<Rightarrow> filesystem \<Rightarrow> filesystem" where
  "make_dirs p fs = fs\<lparr>fs_dirs := fs_dirs fs @ filter (\<lambda>q. q \<notin> set (fs_dirs fs)) (prefixes p)\<rparr>"

section \<open>Artifacts\<close>

text \<open>How a model is written as JSON and validated from it; \<open>None\<close> is a validation error.\<close>

record 'a codec =
  cd_dump :: "'a \<Rightarrow> string"
  cd_parse :: "string \<Rightarrow> 'a option"

type_synonym 'a ws_io = "(filesystem, py_exn, 'a) io"

definition ws_modify :: "(filesystem \<Rightarrow> filesystem) \<Rightarrow> unit ws_io" where
  "ws_modify f fs = (Inr (), f fs)"

definition ws_read :: "(filesystem \<Rightarrow> py_exn + 'a) \<Rightarrow> 'a ws_io" where
  "ws_read f fs = (f fs, fs)"

definition ws_exists :: "workspace \<Rightarrow> app_id \<Rightarrow> string \<Rightarrow> bool ws_io" where
  "ws_exists ws app name =
     ws_read (\<lambda>fs. ebind (artifact_path ws app name) (\<lambda>p. Inr (dict_get (fs_files fs) p \<noteq> None)))"

definition ws_save :: "workspace \<Rightarrow> 'a codec \<Rightarrow> app_id \<Rightarrow> string \<Rightarrow> 'a \<Rightarrow> string ws_io" where
  "ws_save ws cd app name v =
     io_bind (io_lift (artifact_path ws app name)) (\<lambda>target.
     io_bind (ws_modify (make_dirs (butlast target))) (\<lambda>_.
     io_bind (ws_modify (write_bytes ws target (cd_dump cd v) (artifact_aad app name))) (\<lambda>_.
     io_ret (wk_sha256 ws (cd_dump cd v)))))"

definition ws_load :: "workspace \<Rightarrow> 'a codec \<Rightarrow> app_id \<Rightarrow> string \<Rightarrow> 'a ws_io" where
  "ws_load ws cd app name =
     ws_read (\<lambda>fs.
       ebind (artifact_path ws app name) (\<lambda>target.
       ebind (read_bytes ws target (artifact_aad app name) fs) (\<lambda>text.
       case cd_parse cd text of None \<Rightarrow> Inl (ValueError ''validation error'') | Some v \<Rightarrow> Inr v)))"

definition artifact_hash :: "workspace \<Rightarrow> app_id \<Rightarrow> string \<Rightarrow> string ws_io" where
  "artifact_hash ws app name =
     ws_read (\<lambda>fs.
       ebind (artifact_path ws app name) (\<lambda>target.
       ebind (read_file target fs) (\<lambda>content.
       Inr (wk_sha256 ws (case content of Plain t \<Rightarrow> t | Sealed e \<Rightarrow> envelope_text (wk_cipher ws) e)))))"

section \<open>Staged documents\<close>

record staged_file =
  sf_filename :: string
  sf_sha256 :: string

record staged_application =
  sa_metadata :: intake_metadata
  sa_files :: "staged_file list"

definition safe_pdf_name :: "string \<Rightarrow> bool" where
  "safe_pdf_name filename \<longleftrightarrow> path_name filename = filename \<and> ends_with ''.pdf'' (casefold filename)"

definition stage_file :: "workspace \<Rightarrow> app_id \<Rightarrow> nat \<Rightarrow> string \<times> string \<Rightarrow> staged_file ws_io" where
  "stage_file ws app max_file_bytes = (\<lambda>(filename, content).
     io_bind (io_ensure (safe_pdf_name filename) (ValueError ''all uploaded files must be safely named PDFs'')) (\<lambda>_.
     io_bind (io_ensure (starts_with ''%PDF-'' content) (ValueError (filename @ '' is not a PDF''))) (\<lambda>_.
     io_bind (io_ensure (length content \<le> max_file_bytes)
       (ValueError (filename @ '' exceeds the configured PDF limit''))) (\<lambda>_.
     let digest = wk_sha256 ws content in
     io_bind (io_lift (document_path ws app filename)) (\<lambda>target.
     io_bind (ws_read (\<lambda>fs. Inr (dict_get (fs_files fs) target \<noteq> None))) (\<lambda>present.
     io_bind (if present then
         io_bind (ws_read (read_bytes ws target (document_aad app filename))) (\<lambda>old.
           io_ensure (wk_sha256 ws old = digest) (ValueError (''staged file collision for '' @ filename)))
       else ws_modify (write_bytes ws target content (document_aad app filename))) (\<lambda>_.
     io_bind (io_ensure (filename \<noteq> [] \<and> max_items 255 filename \<and> hex_sha256 digest) (ValueError ''validation error'')) (\<lambda>_.
     io_ret \<lparr>sf_filename = filename, sf_sha256 = digest\<rparr>))))))))"

fun stage_files :: "workspace \<Rightarrow> app_id \<Rightarrow> nat \<Rightarrow> (string \<times> string) list \<Rightarrow> staged_file list ws_io" where
  "stage_files ws app max_file_bytes [] fs = (Inr [], fs)"
| "stage_files ws app max_file_bytes (f # rest) fs =
     io_bind (stage_file ws app max_file_bytes f) (\<lambda>s.
     io_bind (stage_files ws app max_file_bytes rest) (\<lambda>ss. io_ret (s # ss))) fs"

definition staged_reference :: "staged_file \<Rightarrow> input_reference" where
  "staged_reference s = \<lparr>in_reference_type = ''staged_pdf'', in_reference_id = sf_filename s,
     in_sha256 = Some (sf_sha256 s)\<rparr>"

definition ws_stage ::
  "workspace \<Rightarrow> staged_application codec \<Rightarrow> intake_metadata \<Rightarrow> (string \<times> string) list \<Rightarrow> nat \<Rightarrow> nat \<Rightarrow>
   input_reference list ws_io" where
  "ws_stage ws cd metadata files max_file_bytes max_batch_bytes =
     io_bind (io_ensure (files \<noteq> []) (ValueError ''at least one borrower PDF is required'')) (\<lambda>_.
     io_bind (io_ensure (sum_list (map (length \<circ> snd) files) \<le> max_batch_bytes)
       (ValueError ''PDF batch exceeds the configured aggregate limit'')) (\<lambda>_.
     let app = im_application_id metadata in
     io_bind (io_lift (app_folder ws app)) (\<lambda>folder.
     io_bind (ws_modify (make_dirs (folder @ [''documents'']))) (\<lambda>_.
     io_bind (stage_files ws app max_file_bytes files) (\<lambda>staged.
     io_bind (ws_save ws cd app ''request'' \<lparr>sa_metadata = metadata, sa_files = staged\<rparr>) (\<lambda>_.
     io_ret (map staged_reference staged)))))))"

definition ws_request :: "workspace \<Rightarrow> staged_application codec \<Rightarrow> app_id \<Rightarrow> staged_application ws_io" where
  "ws_request ws cd app = ws_load ws cd app ''request''"

definition read_pdf :: "workspace \<Rightarrow> app_id \<Rightarrow> string \<Rightarrow> string \<Rightarrow> string ws_io" where
  "read_pdf ws app filename expected_sha256 =
     io_bind (io_ensure (path_name filename = filename) (ValueError ''unsafe staged filename'')) (\<lambda>_.
     io_bind (io_lift (document_path ws app filename)) (\<lambda>target.
     io_bind (ws_read (read_bytes ws target (document_aad app filename))) (\<lambda>payload.
     io_bind (io_ensure (wk_sha256 ws payload = expected_sha256) (ValueError ''staged PDF hash mismatch'')) (\<lambda>_.
     io_ret payload))))"

section \<open>Invalidation, deletion, key rotation\<close>

definition unlink :: "path \<Rightarrow> filesystem \<Rightarrow> filesystem" where
  "unlink target fs = fs\<lparr>fs_files := dict_pop target (fs_files fs)\<rparr>"

definition remove_artifact :: "workspace \<Rightarrow> app_id \<Rightarrow> string \<Rightarrow> unit ws_io" where
  "remove_artifact ws app name = io_bind (io_lift (artifact_path ws app name)) (\<lambda>p. ws_modify (unlink p))"

definition metric_artifact_name :: "fact_name \<Rightarrow> string" where
  "metric_artifact_name n = ''financial/'' @ fact_str n"

definition invalidate_from :: "workspace \<Rightarrow> app_id \<Rightarrow> worker_name \<Rightarrow> unit ws_io" where
  "invalidate_from ws app worker =
     io_bind (io_ensure (worker \<noteq> HUMAN_REVIEW) (ValueError ''cannot invalidate past guardrails'')) (\<lambda>_.
     io_bind (io_each (\<lambda>current. remove_artifact ws app (worker_value current))
       (drop (index_of worker DEFAULT_WORKER_ORDER) DEFAULT_WORKER_ORDER)) (\<lambda>_.
     if index_of worker DEFAULT_WORKER_ORDER \<le> index_of FINANCIAL_ANALYSIS DEFAULT_WORKER_ORDER
     then io_each (\<lambda>metric. remove_artifact ws app (metric_artifact_name metric)) EXTRACTED_FACTS
     else io_ret ()))"

definition remove_tree :: "path \<Rightarrow> filesystem \<Rightarrow> filesystem" where
  "remove_tree folder fs =
     fs\<lparr>fs_files := filter (\<lambda>(p, _). \<not> prefix folder p) (fs_files fs),
        fs_dirs := filter (\<lambda>p. \<not> prefix folder p) (fs_dirs fs)\<rparr>"

definition delete_application :: "workspace \<Rightarrow> app_id \<Rightarrow> bool ws_io" where
  "delete_application ws app =
     io_bind (io_lift (app_folder ws app)) (\<lambda>folder.
     io_bind (ws_read (\<lambda>fs. Inr (folder \<in> set (fs_dirs fs)))) (\<lambda>present.
     if present then io_bind (ws_modify (remove_tree folder)) (\<lambda>_. io_ret True) else io_ret False))"

text \<open>
  Rotation visits, for each application folder, the sealed documents and then the artifacts at
  any depth; the associated data is rebuilt from the names of the folder and the file.
\<close>

definition document_target :: "path \<Rightarrow> path \<Rightarrow> (path \<times> string) option" where
  "document_target folder p =
     (if length p = length folder + 2 \<and> prefix (folder @ [''documents'']) p \<and> ends_with ''.enc.json'' (last p)
      then Some (p, document_aad (last folder) (take (length (last p) - 9) (last p))) else None)"

definition artifact_target :: "path \<Rightarrow> path \<Rightarrow> (path \<times> string) option" where
  "artifact_target folder p =
     (if strict_prefix (folder @ [''agent'']) p \<and> ends_with ''.json'' (last p) \<and> 5 < length (last p)
      then (let name = join_str ''/'' (drop (length folder + 1) p)
            in Some (p, artifact_aad (last folder) (take (length name - 5) name)))
      else None)"

definition application_dirs :: "workspace \<Rightarrow> filesystem \<Rightarrow> path list" where
  "application_dirs ws fs = filter (\<lambda>d. length d = length (wk_root ws) + 1 \<and> prefix (wk_root ws) d) (fs_dirs fs)"

definition rewrap_targets :: "workspace \<Rightarrow> filesystem \<Rightarrow> (path \<times> string) list" where
  "rewrap_targets ws fs =
     concat (map (\<lambda>d. List.map_filter (document_target d) (map fst (fs_files fs)) @
                      List.map_filter (artifact_target d) (map fst (fs_files fs))) (application_dirs ws fs))"

definition rewrap_file :: "workspace \<Rightarrow> string \<Rightarrow> string \<Rightarrow> path \<times> string \<Rightarrow> unit ws_io" where
  "rewrap_file ws new_key new_version = (\<lambda>(target, associated).
     io_bind (io_ensure (strict_prefix (wk_root ws) target)
       (ValueError ''workspace key rotation escaped configured root'')) (\<lambda>_.
     io_bind (ws_read (read_file target)) (\<lambda>content.
     case wk_master_key ws of
       None \<Rightarrow> io_raise (ValueError ''workspace encryption is not enabled'')
     | Some master \<Rightarrow>
         (case content of
            Plain t \<Rightarrow> io_raise (not_sealed (wk_cipher ws) t)
          | Sealed e \<Rightarrow>
              io_bind (io_lift (decrypted (cipher_decrypt (wk_cipher ws) master (ev_key_nonce e) (ev_wrapped_key e) associated))) (\<lambda>dek.
              ws_modify (\<lambda>fs.
                let key_nonce = cipher_random (wk_cipher ws) (fs_draws fs) 12 in
                fs\<lparr>fs_files := dict_set target (Sealed (e\<lparr>ev_key_version := new_version, ev_key_nonce := key_nonce,
                      ev_wrapped_key := cipher_encrypt (wk_cipher ws) new_key key_nonce dek associated\<rparr>)) (fs_files fs),
                   fs_draws := fs_draws fs + 1\<rparr>))))))"

text \<open>Rotation returns the number of files and the workspace that holds the new key.\<close>

definition rewrap_all :: "workspace \<Rightarrow> string \<Rightarrow> string \<Rightarrow> (nat \<times> workspace) ws_io" where
  "rewrap_all ws new_key new_version =
     io_bind (io_ensure (wk_master_key ws \<noteq> None) (ValueError ''workspace encryption is not enabled'')) (\<lambda>_.
     io_bind (io_ensure (length new_key = 32) (ValueError ''new workspace master key must be exactly 32 bytes'')) (\<lambda>_.
     io_bind (ws_read (\<lambda>fs. Inr (rewrap_targets ws fs))) (\<lambda>targets.
     io_bind (io_each (rewrap_file ws new_key new_version) targets) (\<lambda>_.
     io_ret (length targets, ws\<lparr>wk_master_key := Some new_key, wk_key_version := new_version\<rparr>)))))"

section \<open>Paths of one application\<close>

lemma split_on_no_sep: "sep \<notin> set s \<Longrightarrow> split_on sep s = [s]"
  by (induction s) auto

lemma split_on_parts: "p \<in> set (split_on sep s) \<Longrightarrow> sep \<notin> set p"
  by (induction s arbitrary: p) (auto split: if_splits list.splits)

lemma path_parts_simple:
  assumes "path_name s = s" and "s \<noteq> []"
  shows "path_parts s = [s]" and "CHR ''/'' \<notin> set s" and "\<not> path_absolute s"
proof -
  from assms have "s \<in> set (path_parts s)"
    by (cases "rev (path_parts s)") (auto simp: path_name_def simp flip: set_rev [of "path_parts s"])
  then have p: "s \<in> set (split_on (CHR ''/'') s)" "s \<noteq> ''.''" by (auto simp: path_parts_def)
  from split_on_parts [OF p(1)] show n: "CHR ''/'' \<notin> set s" .
  from split_on_no_sep [OF n] p(2) assms(2) show "path_parts s = [s]" by (simp add: path_parts_def)
  from n assms(2) show "\<not> path_absolute s" by (cases s) (auto simp: path_absolute_def)
qed

lemma resolve_onto_plain: "''..'' \<notin> set ps \<Longrightarrow> resolve_onto acc ps = rev acc @ ps"
  by (induction ps arbitrary: acc) auto

lemma resolve_onto_append: "resolve_onto acc (ps @ qs) = resolve_onto (rev (resolve_onto acc ps)) qs"
  by (induction ps arbitrary: acc) auto

text \<open>The configured folder is resolved once, when the workspace is made.\<close>

definition ws_ok :: "workspace \<Rightarrow> bool" where
  "ws_ok ws \<longleftrightarrow> ''..'' \<notin> set (wk_root ws)"

lemma resolve_onto_no_dots: "''..'' \<notin> set acc \<Longrightarrow> ''..'' \<notin> set (resolve_onto acc ps)"
proof (induction ps arbitrary: acc)
  case (Cons p ps)
  have "''..'' \<notin> set (tl acc)" using Cons.prems by (cases acc) auto
  with Cons show ?case by auto
qed simp

lemma make_workspace_ok: "make_workspace c sha256 base key version = Inr ws \<Longrightarrow> ws_ok ws"
  by (auto simp: make_workspace_def result_elims ws_ok_def resolve_path_def resolve_onto_no_dots)

lemma app_folder_Inr:
  assumes "ws_ok ws" and "app_folder ws app = Inr folder"
  shows "folder = wk_root ws @ [app] \<and> app \<noteq> [] \<and> path_name app = app \<and> app \<noteq> ''..''"
proof -
  from assms(2) have app: "app \<noteq> []" "path_name app = app"
    and f: "folder = resolve_path (path_join (wk_root ws) app)" and sp: "strict_prefix (wk_root ws) folder"
    by (auto simp: app_folder_def result_elims Let_def)
  note simple = path_parts_simple [OF app(2,1)]
  have j: "path_join (wk_root ws) app = wk_root ws @ [app]" using simple by (simp add: path_join_def)
  have r: "resolve_path (wk_root ws @ [app]) = resolve_onto (rev (wk_root ws)) [app]"
    using assms(1) by (simp add: resolve_path_def resolve_onto_append resolve_onto_plain ws_ok_def)
  have "app \<noteq> ''..''"
  proof
    assume "app = ''..''"
    with f j r have "folder = rev (tl (rev (wk_root ws)))" by simp
    then have "length folder \<le> length (wk_root ws)" by simp
    moreover from sp have "length (wk_root ws) < length folder" by (rule prefix_length_less)
    ultimately show False by simp
  qed
  with f j r app show ?thesis by simp
qed

lemma app_folder_ok:
  assumes "ws_ok ws" and "app \<noteq> []" and "path_name app = app" and "app \<noteq> ''..''"
  shows "app_folder ws app = Inr (wk_root ws @ [app])"
proof -
  note simple = path_parts_simple [OF assms(3,2)]
  have "resolve_path (path_join (wk_root ws) app) = wk_root ws @ [app]"
    using simple assms by (simp add: path_join_def resolve_path_def resolve_onto_plain ws_ok_def)
  with assms show ?thesis by (simp add: app_folder_def Let_def strict_prefix_def)
qed

lemma artifact_path_Inr:
  assumes "ws_ok ws" and "artifact_path ws app name = Inr p" and "\<not> path_absolute name"
  shows "app_folder ws app = Inr (wk_root ws @ [app]) \<and> p = wk_root ws @ [app, ''agent''] @ path_parts (name @ ''.json'')"
proof -
  from assms(2) obtain folder where f: "app_folder ws app = Inr folder"
    and p: "p = path_join (folder @ [''agent'']) (name @ ''.json'')" and n: "name \<noteq> []"
    by (auto simp: artifact_path_def result_elims)
  have "\<not> path_absolute (name @ ''.json'')" using assms(3) n by (cases name) (auto simp: path_absolute_def)
  with f p app_folder_Inr [OF assms(1) f] show ?thesis by (simp add: path_join_def)
qed

lemma document_path_simple:
  assumes "ws_ok ws" and "document_path ws app filename = Inr p" and "path_name filename = filename" and "filename \<noteq> []"
  shows "p = wk_root ws @ [app, ''documents'', filename @ (if wk_master_key ws \<noteq> None then ''.enc.json'' else [])]"
proof -
  let ?name = "filename @ (if wk_master_key ws \<noteq> None then ''.enc.json'' else [])"
  from assms(2) obtain folder where f: "app_folder ws app = Inr folder"
    and p: "p = path_join (folder @ [''documents'']) ?name"
    by (auto simp: document_path_def result_elims)
  note simple = path_parts_simple [OF assms(3,4)]
  have "CHR ''/'' \<notin> set ?name" using simple(2) by simp
  then have "split_on (CHR ''/'') ?name = [?name]" by (rule split_on_no_sep)
  moreover have "?name \<noteq> []" "?name \<noteq> ''.''"
    using assms(4) simple(1) by (auto simp: path_parts_def append_eq_Cons_conv split: if_splits)
  ultimately have parts: "path_parts ?name = [?name]" by (simp add: path_parts_def)
  have "\<not> path_absolute ?name" using simple(2) assms(4) by (cases filename) (auto simp: path_absolute_def)
  with p parts app_folder_Inr [OF assms(1) f] show ?thesis by (simp add: path_join_def)
qed

section \<open>Sealing\<close>

text \<open>What is documented of the cipher: decryption under the same arguments gives the text back.\<close>

definition lawful_cipher :: "cipher \<Rightarrow> bool" where
  "lawful_cipher c \<longleftrightarrow> (\<forall>k n m a. cipher_decrypt c k n (cipher_encrypt c k n m a) a = Some m)"

lemma unseal_seal:
  "lawful_cipher (wk_cipher ws) \<Longrightarrow> unseal ws a (fst (seal_bytes ws content a d)) = Inr content"
  by (simp add: unseal_def seal_bytes_def lawful_cipher_def decrypted_def Let_def split: option.splits)

lemma write_bytes_files [simp]:
  "fs_files (write_bytes ws p content a fs) = dict_set p (fst (seal_bytes ws content a (fs_draws fs))) (fs_files fs)"
  "fs_dirs (write_bytes ws p content a fs) = fs_dirs fs"
  by (simp_all add: write_bytes_def split: prod.splits)

lemma make_dirs_files [simp]:
  "fs_files (make_dirs p fs) = fs_files fs" "fs_draws (make_dirs p fs) = fs_draws fs"
  by (simp_all add: make_dirs_def)

lemma read_write_same:
  "lawful_cipher (wk_cipher ws) \<Longrightarrow> read_bytes ws p a (write_bytes ws p content a fs) = Inr content"
  by (simp add: read_bytes_def read_file_def unseal_seal)

lemma read_bytes_frame:
  "dict_get (fs_files fs') p = dict_get (fs_files fs) p \<Longrightarrow> read_bytes ws p a fs' = read_bytes ws p a fs"
  by (simp add: read_bytes_def read_file_def)

lemma ws_simps [simp]:
  "ws_modify f fs = (Inr (), f fs)" "ws_read g fs = (g fs, fs)"
  by (simp_all add: ws_modify_def ws_read_def)

lemma ws_save_Inr:
  "ws_save ws cd app name v fs = (Inr h, fs') \<longleftrightarrow>
     (\<exists>p. artifact_path ws app name = Inr p \<and> h = wk_sha256 ws (cd_dump cd v) \<and>
        fs' = write_bytes ws p (cd_dump cd v) (artifact_aad app name) (make_dirs (butlast p) fs))"
  by (auto simp: ws_save_def io_elims io_bind_def io_lift_def io_ret_def split: sum.splits)

lemma ws_load_Inr:
  "ws_load ws cd app name fs = (Inr v, fs') \<longleftrightarrow>
     fs' = fs \<and> (\<exists>p text. artifact_path ws app name = Inr p \<and>
        read_bytes ws p (artifact_aad app name) fs = Inr text \<and> cd_parse cd text = Some v)"
proof -
  have parse: "(case cd_parse cd t of None \<Rightarrow> Inl e | Some v \<Rightarrow> Inr v) = Inr v \<longleftrightarrow> cd_parse cd t = Some v"
    for t and e :: py_exn
    by (cases "cd_parse cd t") auto
  show ?thesis unfolding ws_load_def ws_simps prod.inject ebind_Inr_iff parse by blast
qed

lemma load_after_save:
  assumes "lawful_cipher (wk_cipher ws)" and "cd_parse cd (cd_dump cd v) = Some v"
    and "ws_save ws cd app name v fs = (Inr h, fs')"
  shows "ws_load ws cd app name fs' = (Inr v, fs')"
  using assms by (auto simp: ws_save_Inr ws_load_Inr read_write_same)

lemma save_keeps_others:
  assumes "ws_save ws cd app name v fs = (r, fs')" and "artifact_path ws app name \<noteq> Inr q"
  shows "dict_get (fs_files fs') q = dict_get (fs_files fs) q"
  using assms by (auto simp: ws_save_def io_bind_def io_lift_def io_ret_def split: sum.splits)

lemma load_unaffected:
  assumes "ws_save ws cd app name v fs = (r, fs')" and "artifact_path ws app' name' \<noteq> artifact_path ws app name"
  shows "fst (ws_load ws cd' app' name' fs') = fst (ws_load ws cd' app' name' fs)"
proof (cases "artifact_path ws app' name'")
  case (Inr q)
  with assms(2) have "artifact_path ws app name \<noteq> Inr q" by simp
  from read_bytes_frame [OF save_keeps_others [OF assms(1) this]] Inr show ?thesis
    by (simp add: ws_load_def)
qed (simp add: ws_load_def)

end
