(* ===== verification/FM_Workspace_Props.thy ===== *)
theory FM_Workspace_Props
  imports FM_Workspace
begin

text \<open>
  What the artifact store guarantees: applications are isolated from each other, what was
  written reads back, rotation of the master key loses nothing, and invalidation removes exactly
  the work from a stage on.
\<close>

section \<open>Operations confined to one application\<close>

definition below :: "workspace \<Rightarrow> app_id \<Rightarrow> path \<Rightarrow> bool" where
  "below ws app p \<longleftrightarrow> prefix (wk_root ws @ [app]) p"

lemma below_unique: "below ws app p \<Longrightarrow> below ws app' p \<Longrightarrow> app' = app"
  by (auto simp: below_def prefix_def)

definition confined :: "workspace \<Rightarrow> app_id \<Rightarrow> 'a ws_io \<Rightarrow> bool" where
  "confined ws app m \<longleftrightarrow>
     (\<forall>fs q. \<not> below ws app q \<longrightarrow> dict_get (fs_files (snd (m fs))) q = dict_get (fs_files fs) q)"

named_theorems confined_intros

lemma confined_lift [confined_intros]: "confined ws app (io_lift r)" "confined ws app (io_ret x)"
  "confined ws app (io_raise e)" "confined ws app (io_ensure b e)" "confined ws app (ws_read f)"
  by (simp_all add: confined_def io_lift_def io_ret_def io_raise_def io_ensure_def ws_read_def)

lemma confined_bind: "confined ws app m \<Longrightarrow> (\<And>x fs fs'. m fs = (Inr x, fs') \<Longrightarrow> confined ws app (f x)) \<Longrightarrow> confined ws app (io_bind m f)"
proof -
  assume m: "confined ws app m" and f: "\<And>x fs fs'. m fs = (Inr x, fs') \<Longrightarrow> confined ws app (f x)"
  show ?thesis
    unfolding confined_def
  proof (intro allI impI)
    fix fs q
    assume q: "\<not> below ws app q"
    obtain r fs' where run: "m fs = (r, fs')" by (cases "m fs")
    with m q have fs': "dict_get (fs_files fs') q = dict_get (fs_files fs) q"
      unfolding confined_def by (metis snd_conv)
    show "dict_get (fs_files (snd (io_bind m f fs))) q = dict_get (fs_files fs) q"
    proof (cases r)
      case (Inr x)
      with f run have "confined ws app (f x)" by blast
      with q fs' run Inr show ?thesis by (simp add: io_bind_def confined_def)
    qed (simp add: io_bind_def run fs')
  qed
qed

lemma confined_each: "(\<And>x. x \<in> set xs \<Longrightarrow> confined ws app (f x)) \<Longrightarrow> confined ws app (io_each f xs)"
proof (induction xs)
  case (Cons x xs)
  have "io_each f (x # xs) = io_bind (f x) (\<lambda>_. io_each f xs)" by (auto simp: io_bind_def fun_eq_iff)
  with Cons show ?case by (auto intro: confined_bind)
qed (simp add: confined_def)

lemma confined_dirs: "confined ws app (ws_modify (make_dirs p))"
  by (simp add: confined_def)

lemma confined_write: "below ws app p \<Longrightarrow> confined ws app (ws_modify (write_bytes ws p content a))"
  by (auto simp: confined_def)

lemma confined_unlink: "below ws app p \<Longrightarrow> confined ws app (ws_modify (unlink p))"
  by (auto simp: confined_def unlink_def)

lemma confined_if: "confined ws app m \<Longrightarrow> confined ws app m' \<Longrightarrow> confined ws app (if b then m else m')"
  by simp

lemma artifact_below:
  assumes "ws_ok ws" and "artifact_path ws app name = Inr p" and "\<not> path_absolute name"
  shows "below ws app p"
  using artifact_path_Inr [OF assms] by (simp add: below_def)

lemma document_below:
  assumes "ws_ok ws" and "document_path ws app filename = Inr p" and "path_name filename = filename"
  shows "below ws app p"
proof (cases "filename = []")
  case True
  with assms(2) obtain folder where f: "app_folder ws app = Inr folder"
    and p: "p = path_join (folder @ [''documents'']) (if wk_master_key ws \<noteq> None then ''.enc.json'' else [])"
    by (auto simp: document_path_def result_elims)
  from p app_folder_Inr [OF assms(1) f] show ?thesis
    by (simp add: below_def path_join_def path_absolute_def split: if_splits)
qed (use document_path_simple [OF assms] in \<open>simp add: below_def\<close>)

lemma confined_save: "ws_ok ws \<Longrightarrow> \<not> path_absolute name \<Longrightarrow> confined ws app (ws_save ws cd app name v)"
  unfolding ws_save_def
  by (intro confined_bind confined_dirs confined_intros confined_write)
    (auto simp: io_lift_def dest: artifact_below)

lemma safe_pdf_nonempty: "safe_pdf_name filename \<Longrightarrow> path_name filename = filename \<and> filename \<noteq> []"
  by (auto simp: safe_pdf_name_def ends_with_def casefold_def)

lemma confined_stage_file:
  assumes "ws_ok ws"
  shows "confined ws app (stage_file ws app n f)"
proof (cases f)
  case (Pair filename content)
  show ?thesis
    unfolding stage_file_def Pair Let_def prod.case
    by (intro confined_bind confined_if confined_intros confined_write)
      (auto simp: io_elims intro: document_below [OF assms] dest: safe_pdf_nonempty)
qed

lemma confined_stage_files: "ws_ok ws \<Longrightarrow> confined ws app (stage_files ws app n fs)"
proof (induction fs)
  case (Cons f fs)
  have "stage_files ws app n (f # fs) = io_bind (stage_file ws app n f) (\<lambda>s.
      io_bind (stage_files ws app n fs) (\<lambda>ss. io_ret (s # ss)))" by (rule ext) simp
  with Cons show ?case
    by (simp only:) (intro confined_bind confined_stage_file confined_intros; simp)
qed (simp add: confined_def)

lemma confined_stage:
  assumes "ws_ok ws"
  shows "confined ws (im_application_id m) (ws_stage ws cd m files n k)"
  unfolding ws_stage_def Let_def
  by (intro confined_bind confined_dirs confined_intros confined_save confined_stage_files assms)
    (simp add: path_absolute_def)

lemma worker_value_relative: "\<not> path_absolute (worker_value w)"
  by (cases w) (simp_all add: path_absolute_def)

lemma metric_name_relative: "\<not> path_absolute (metric_artifact_name m)"
  by (simp add: metric_artifact_name_def path_absolute_def)

lemma confined_remove: "ws_ok ws \<Longrightarrow> \<not> path_absolute name \<Longrightarrow> confined ws app (remove_artifact ws app name)"
  unfolding remove_artifact_def
  by (intro confined_bind confined_intros confined_unlink) (auto simp: io_elims dest: artifact_below)

lemma confined_invalidate: "ws_ok ws \<Longrightarrow> confined ws app (invalidate_from ws app w)"
  unfolding invalidate_from_def
  by (intro confined_bind confined_each confined_if confined_intros confined_remove
      worker_value_relative metric_name_relative)

lemma dict_get_filter_fst: "dict_get (filter (\<lambda>(k, _). P k) d) q = (if P q then dict_get d q else None)"
  by (induction d) auto

lemma confined_delete:
  assumes "ws_ok ws"
  shows "confined ws app (delete_application ws app)"
proof -
  have tree: "confined ws app (ws_modify (remove_tree (wk_root ws @ [app])))"
    by (auto simp: confined_def remove_tree_def dict_get_filter_fst below_def)
  show ?thesis
    unfolding delete_application_def
    by (intro confined_bind confined_if confined_intros)
      (auto simp: io_elims dest!: app_folder_Inr [OF assms] intro: tree)
qed

section \<open>Sequences of operations\<close>

text \<open>The operations that change the store, on text artifacts.\<close>

datatype store_op =
    Save_Artifact app_id string string
  | Stage_Files intake_metadata "(string \<times> string) list" nat nat
  | Invalidate_From app_id worker_name
  | Delete_Application app_id

definition text_codec :: "string codec" where
  "text_codec = \<lparr>cd_dump = (\<lambda>t. t), cd_parse = Some\<rparr>"

fun store_apply :: "workspace \<Rightarrow> staged_application codec \<Rightarrow> store_op \<Rightarrow> filesystem \<Rightarrow> filesystem" where
  "store_apply ws rc (Save_Artifact app name t) fs = snd (ws_save ws text_codec app name t fs)"
| "store_apply ws rc (Stage_Files m files n k) fs = snd (ws_stage ws rc m files n k fs)"
| "store_apply ws rc (Invalidate_From app w) fs = snd (invalidate_from ws app w fs)"
| "store_apply ws rc (Delete_Application app) fs = snd (delete_application ws app fs)"

definition store_run :: "workspace \<Rightarrow> staged_application codec \<Rightarrow> store_op list \<Rightarrow> filesystem \<Rightarrow> filesystem" where
  "store_run ws rc ops = fold (store_apply ws rc) ops"

text \<open>An operation on another application, with a relative artifact name.\<close>

fun elsewhere :: "app_id \<Rightarrow> store_op \<Rightarrow> bool" where
  "elsewhere a (Save_Artifact app name t) \<longleftrightarrow> app \<noteq> a \<and> \<not> path_absolute name"
| "elsewhere a (Stage_Files m files n k) \<longleftrightarrow> im_application_id m \<noteq> a"
| "elsewhere a (Invalidate_From app w) \<longleftrightarrow> app \<noteq> a"
| "elsewhere a (Delete_Application app) \<longleftrightarrow> app \<noteq> a"

definition same_below :: "workspace \<Rightarrow> app_id \<Rightarrow> filesystem \<Rightarrow> filesystem \<Rightarrow> bool" where
  "same_below ws a fs fs' \<longleftrightarrow> (\<forall>q. below ws a q \<longrightarrow> dict_get (fs_files fs') q = dict_get (fs_files fs) q)"

lemma confined_same: "confined ws app m \<Longrightarrow> app \<noteq> a \<Longrightarrow> same_below ws a fs (snd (m fs))"
  using below_unique [of ws a _ app] by (auto simp: confined_def same_below_def)

lemma store_apply_same:
  assumes "ws_ok ws" and "elsewhere a op"
  shows "same_below ws a fs (store_apply ws rc op fs)"
  using assms
  by (cases op) (auto intro: confined_same confined_save confined_stage confined_invalidate confined_delete)

lemma store_run_same:
  "ws_ok ws \<Longrightarrow> list_all (elsewhere a) ops \<Longrightarrow> same_below ws a fs (store_run ws rc ops fs)"
proof (induction ops arbitrary: fs)
  case (Cons op ops)
  from Cons.prems store_apply_same [of ws a op fs rc] Cons.IH [of "store_apply ws rc op fs"]
  show ?case by (simp add: store_run_def same_below_def)
qed (simp add: store_run_def same_below_def)

lemma load_same:
  assumes "ws_ok ws" and "same_below ws a fs fs'" and "\<not> path_absolute name"
  shows "fst (ws_load ws cd a name fs') = fst (ws_load ws cd a name fs)"
proof (cases "artifact_path ws a name")
  case (Inr p)
  from artifact_below [OF assms(1) this assms(3)] assms(2) have "dict_get (fs_files fs') p = dict_get (fs_files fs) p"
    by (simp add: same_below_def)
  from read_bytes_frame [OF this] Inr show ?thesis by (simp add: ws_load_def)
qed (simp add: ws_load_def)

lemma read_pdf_same:
  assumes "ws_ok ws" and "same_below ws a fs fs'"
  shows "fst (read_pdf ws a filename h fs') = fst (read_pdf ws a filename h fs)"
proof (cases "document_path ws a filename")
  case (Inr p)
  show ?thesis
  proof (cases "path_name filename = filename")
    case True
    from document_below [OF assms(1) Inr True] assms(2) have "dict_get (fs_files fs') p = dict_get (fs_files fs) p"
      by (simp add: same_below_def)
    from read_bytes_frame [OF this] Inr True show ?thesis
      by (simp add: read_pdf_def io_bind_def io_ret_def io_ensure_def split: sum.splits)
  qed (simp add: read_pdf_def io_raise_def)
qed (simp add: read_pdf_def io_bind_def io_ensure_def io_raise_def)

section \<open>Staged documents\<close>

lemma stage_file_keeps:
  assumes "stage_file ws app n f fs = (r, fs')" and "dict_get (fs_files fs) q = Some c"
  shows "dict_get (fs_files fs') q = Some c"
  using assms
  by (cases f) (auto simp: stage_file_def io_bind_def io_lift_def io_ret_def io_ensure_def Let_def
      split: sum.splits if_splits)

lemma stage_files_keeps:
  "stage_files ws app n files fs = (r, fs') \<Longrightarrow> dict_get (fs_files fs) q = Some c \<Longrightarrow>
    dict_get (fs_files fs') q = Some c"
proof (induction files arbitrary: fs r fs')
  case (Cons f files)
  obtain r1 fs1 where one: "stage_file ws app n f fs = (r1, fs1)" by (cases "stage_file ws app n f fs")
  from stage_file_keeps [OF one Cons.prems(2)] have fs1: "dict_get (fs_files fs1) q = Some c" .
  obtain r2 fs2 where two: "stage_files ws app n files fs1 = (r2, fs2)" by (cases "stage_files ws app n files fs1")
  from Cons.IH [OF two fs1] Cons.prems(1) one two fs1 show ?case
    by (cases r1; cases r2) (auto simp: io_bind_def io_ret_def)
qed simp

definition reads_back :: "workspace \<Rightarrow> app_id \<Rightarrow> staged_file \<Rightarrow> filesystem \<Rightarrow> bool" where
  "reads_back ws app s fs \<longleftrightarrow> path_name (sf_filename s) = sf_filename s \<and>
     (\<exists>p c t. document_path ws app (sf_filename s) = Inr p \<and> dict_get (fs_files fs) p = Some c \<and>
       unseal ws (document_aad app (sf_filename s)) c = Inr t \<and> wk_sha256 ws t = sf_sha256 s)"

lemma reads_back_read:
  "reads_back ws app s fs \<Longrightarrow> is_ok (fst (read_pdf ws app (sf_filename s) (sf_sha256 s) fs))"
  by (auto simp: reads_back_def read_pdf_def io_bind_def io_ret_def read_bytes_def read_file_def)

lemma reads_back_keeps:
  "reads_back ws app s fs \<Longrightarrow> (\<And>q c. dict_get (fs_files fs) q = Some c \<Longrightarrow> dict_get (fs_files fs') q = Some c) \<Longrightarrow>
    reads_back ws app s fs'"
  unfolding reads_back_def by meson

lemma stage_file_reads:
  assumes "lawful_cipher (wk_cipher ws)" and "stage_file ws app n f fs = (Inr s, fs')"
  shows "reads_back ws app s fs' \<and> sf_filename s = fst f \<and> safe_pdf_name (fst f)"
proof (cases f)
  case (Pair filename content)
  from assms(2) obtain p where safe: "safe_pdf_name filename"
    and p: "document_path ws app filename = Inr p"
    and s: "s = \<lparr>sf_filename = filename, sf_sha256 = wk_sha256 ws content\<rparr>"
    and cases: "(\<exists>c old. dict_get (fs_files fs) p = Some c \<and> fs' = fs \<and>
        read_bytes ws p (document_aad app filename) fs = Inr old \<and> wk_sha256 ws old = wk_sha256 ws content) \<or>
      fs' = write_bytes ws p content (document_aad app filename) fs"
    by (auto simp: Pair stage_file_def io_elims Let_def split: if_splits)
  have "reads_back ws app s fs'"
    using cases safe_pdf_nonempty [OF safe] p s unseal_seal [OF assms(1)]
    by (auto simp: reads_back_def read_bytes_def read_file_def)
  with s safe Pair show ?thesis by simp
qed

lemma stage_files_read:
  "lawful_cipher (wk_cipher ws) \<Longrightarrow> stage_files ws app n files fs = (Inr ss, fs') \<Longrightarrow>
    list_all (\<lambda>s. reads_back ws app s fs' \<and> safe_pdf_name (sf_filename s)) ss \<and> map sf_filename ss = map fst files"
proof (induction files arbitrary: fs ss)
  case (Cons f files)
  from Cons.prems(2) obtain s fs1 ss1 where one: "stage_file ws app n f fs = (Inr s, fs1)"
    and rest: "stage_files ws app n files fs1 = (Inr ss1, fs')" and ss: "ss = s # ss1"
    by (auto simp: io_elims)
  from stage_file_reads [OF Cons.prems(1) one] have s: "reads_back ws app s fs1" "sf_filename s = fst f"
      "safe_pdf_name (fst f)" by auto
  from reads_back_keeps [OF s(1)] stage_files_keeps [OF rest] have "reads_back ws app s fs'" by blast
  with Cons.IH [OF Cons.prems(1) rest] ss s show ?case by simp
qed simp

lemma staged_all_read:
  assumes "ws_ok ws" and "lawful_cipher (wk_cipher ws)"
    and "ws_stage ws rc m files n k fs = (Inr refs, fs')"
  shows "list_all (\<lambda>r. is_ok (fst (read_pdf ws (im_application_id m) (in_reference_id r) (the (in_sha256 r)) fs'))) refs \<and>
    map in_reference_id refs = map fst files"
proof -
  let ?app = "im_application_id m"
  from assms(3) obtain staged fs1 fs2 h where st: "stage_files ws ?app n files fs1 = (Inr staged, fs2)"
    and save: "ws_save ws rc ?app ''request'' \<lparr>sa_metadata = m, sa_files = staged\<rparr> fs2 = (Inr h, fs')"
    and refs: "refs = map staged_reference staged"
    by (auto simp: ws_stage_def io_elims Let_def)
  from stage_files_read [OF assms(2) st] have all: "list_all (\<lambda>s. reads_back ws ?app s fs2 \<and> safe_pdf_name (sf_filename s)) staged"
      "map sf_filename staged = map fst files" by auto
  have "reads_back ws ?app s fs'" if "s \<in> set staged" for s
  proof -
    from all(1) that have s: "reads_back ws ?app s fs2" "safe_pdf_name (sf_filename s)" by (auto simp: list_all_iff)
    from s(1) obtain p where p: "document_path ws ?app (sf_filename s) = Inr p" by (auto simp: reads_back_def)
    have "artifact_path ws ?app ''request'' \<noteq> Inr p"
      using artifact_path_Inr [OF assms(1), of ?app "''request''" p] safe_pdf_nonempty [OF s(2)]
        document_path_simple [OF assms(1) p] by (auto simp: path_absolute_def)
    from save_keeps_others [OF save this] s(1) p show ?thesis by (auto simp: reads_back_def)
  qed
  with refs all(2) show ?thesis
    by (auto simp: list_all_iff staged_reference_def comp_def intro: reads_back_read)
qed

section \<open>Invalidation\<close>

lemma artifact_path_of:
  assumes "ws_ok ws" and "app_folder ws app = Inr folder"
  shows "artifact_path ws app (worker_value w) = Inr (wk_root ws @ [app, ''agent'', worker_value w @ ''.json''])"
    and "artifact_path ws app (metric_artifact_name m) =
      Inr (wk_root ws @ [app, ''agent'', ''financial'', fact_str m @ ''.json''])"
proof -
  have w: "path_parts (worker_value w @ ''.json'') = [worker_value w @ ''.json'']"
      "path_parts (worker_value w) = [worker_value w]"
      "\<not> path_absolute (worker_value w @ ''.json'')" "worker_value w \<noteq> ''''" "worker_value w \<notin> {''.'', ''..''}"
    by (cases w; simp add: path_parts_def path_absolute_def)+
  have m: "path_parts (metric_artifact_name m @ ''.json'') = [''financial'', fact_str m @ ''.json'']"
      "path_parts (metric_artifact_name m) = [''financial'', fact_str m]"
      "\<not> path_absolute (metric_artifact_name m @ ''.json'')" "metric_artifact_name m \<noteq> ''''"
      "fact_str m \<notin> {'''', ''.'', ''..''}"
    by (cases m; simp add: path_parts_def path_absolute_def metric_artifact_name_def)+
  from app_folder_Inr [OF assms] assms(2) w
  show "artifact_path ws app (worker_value w) = Inr (wk_root ws @ [app, ''agent'', worker_value w @ ''.json''])"
    by (simp add: artifact_path_def path_join_def)
  from app_folder_Inr [OF assms] assms(2) m
  show "artifact_path ws app (metric_artifact_name m) =
      Inr (wk_root ws @ [app, ''agent'', ''financial'', fact_str m @ ''.json''])"
    by (simp add: artifact_path_def path_join_def)
qed

lemma each_remove:
  assumes "\<And>x. x \<in> set xs \<Longrightarrow> artifact_path ws app (nm x) = Inr (pth x)"
  shows "fst (io_each (\<lambda>x. remove_artifact ws app (nm x)) xs fs) = Inr () \<and>
    dict_get (fs_files (snd (io_each (\<lambda>x. remove_artifact ws app (nm x)) xs fs))) q =
      (if q \<in> pth ` set xs then None else dict_get (fs_files fs) q)"
  using assms
proof (induction xs arbitrary: fs)
  case (Cons x xs)
  have one: "remove_artifact ws app (nm x) fs = (Inr (), unlink (pth x) fs)"
    using Cons.prems [of x] by (simp add: remove_artifact_def io_bind_def io_ret_def)
  from Cons.IH [of "unlink (pth x) fs"] Cons.prems one show ?case by (auto simp: unlink_def)
qed simp

lemma each_remove_folder: "io_each (\<lambda>x. remove_artifact ws app (nm x)) (x # xs) fs = (Inr (), fs') \<Longrightarrow>
    \<exists>folder. app_folder ws app = Inr folder"
  by (auto simp: remove_artifact_def artifact_path_def io_elims result_elims split: prod.splits sum.splits)

lemma invalidate_removes:
  assumes "ws_ok ws" and "invalidate_from ws app w fs = (Inr (), fs')"
  shows "\<exists>folder. app_folder ws app = Inr folder \<and>
    (\<forall>q. dict_get (fs_files fs') q =
      (if q \<in> (\<lambda>v. wk_root ws @ [app, ''agent'', worker_value v @ ''.json'']) `
             set (drop (index_of w DEFAULT_WORKER_ORDER) DEFAULT_WORKER_ORDER) \<or>
          index_of w DEFAULT_WORKER_ORDER \<le> index_of FINANCIAL_ANALYSIS DEFAULT_WORKER_ORDER \<and>
          q \<in> (\<lambda>m. wk_root ws @ [app, ''agent'', ''financial'', fact_str m @ ''.json'']) ` set EXTRACTED_FACTS
       then None else dict_get (fs_files fs) q))"
proof -
  let ?ws = "drop (index_of w DEFAULT_WORKER_ORDER) DEFAULT_WORKER_ORDER"
  from assms(2) obtain fs1 where stages: "io_each (\<lambda>v. remove_artifact ws app (worker_value v)) ?ws fs = (Inr (), fs1)"
    and rest: "(if index_of w DEFAULT_WORKER_ORDER \<le> index_of FINANCIAL_ANALYSIS DEFAULT_WORKER_ORDER
      then io_each (\<lambda>m. remove_artifact ws app (metric_artifact_name m)) EXTRACTED_FACTS else io_ret ()) fs1 = (Inr (), fs')"
    by (auto simp: invalidate_from_def io_elims)
  have "?ws \<noteq> []" by (cases w) (simp_all add: DEFAULT_WORKER_ORDER_def index_of_def)
  then obtain v vs where "?ws = v # vs" by (cases ?ws) auto
  with stages obtain folder where f: "app_folder ws app = Inr folder" by (metis each_remove_folder)
  note path = artifact_path_of [OF assms(1) f]
  from each_remove [where nm = worker_value and xs = ?ws and fs = fs, OF path(1)] stages
  have one: "dict_get (fs_files fs1) q = (if q \<in> (\<lambda>v. wk_root ws @ [app, ''agent'', worker_value v @ ''.json'']) ` set ?ws
      then None else dict_get (fs_files fs) q)" for q by simp
  from each_remove [where nm = metric_artifact_name and xs = EXTRACTED_FACTS and fs = fs1, OF path(2)] rest
  have "dict_get (fs_files fs') q = (if index_of w DEFAULT_WORKER_ORDER \<le> index_of FINANCIAL_ANALYSIS DEFAULT_WORKER_ORDER \<and>
      q \<in> (\<lambda>m. wk_root ws @ [app, ''agent'', ''financial'', fact_str m @ ''.json'']) ` set EXTRACTED_FACTS
      then None else dict_get (fs_files fs1) q)" for q
    by (simp add: io_ret_def split: if_splits)
  with one f show ?thesis by simp
qed

lemma worker_value_inj: "worker_value v = worker_value w \<longleftrightarrow> v = w"
  by (cases v; cases w) simp_all

lemma in_suffix: "v \<in> set (drop (index_of w DEFAULT_WORKER_ORDER) DEFAULT_WORKER_ORDER) \<longleftrightarrow>
    index_of w DEFAULT_WORKER_ORDER \<le> index_of v DEFAULT_WORKER_ORDER"
  by (cases v; cases w; simp add: DEFAULT_WORKER_ORDER_def index_of_def)

lemma all_facts: "m \<in> set EXTRACTED_FACTS"
  by (cases m; simp add: EXTRACTED_FACTS_def)

lemma fact_str_inj: "fact_str m = fact_str n \<longleftrightarrow> m = n"
  by (cases m; cases n; simp)

lemma invalidated_exists:
  assumes "ws_ok ws" and "invalidate_from ws app w fs = (Inr (), fs')"
  shows "fst (ws_exists ws app (worker_value v) fs') =
      map_sum id (\<lambda>b. b \<and> index_of v DEFAULT_WORKER_ORDER < index_of w DEFAULT_WORKER_ORDER)
        (fst (ws_exists ws app (worker_value v) fs))"
    and "fst (ws_exists ws app (metric_artifact_name m) fs') =
      map_sum id (\<lambda>b. b \<and> index_of FINANCIAL_ANALYSIS DEFAULT_WORKER_ORDER < index_of w DEFAULT_WORKER_ORDER)
        (fst (ws_exists ws app (metric_artifact_name m) fs))"
proof -
  from invalidate_removes [OF assms] obtain folder where f: "app_folder ws app = Inr folder"
    and get: "\<And>q. dict_get (fs_files fs') q =
      (if q \<in> (\<lambda>v. wk_root ws @ [app, ''agent'', worker_value v @ ''.json'']) `
             set (drop (index_of w DEFAULT_WORKER_ORDER) DEFAULT_WORKER_ORDER) \<or>
          index_of w DEFAULT_WORKER_ORDER \<le> index_of FINANCIAL_ANALYSIS DEFAULT_WORKER_ORDER \<and>
          q \<in> (\<lambda>m. wk_root ws @ [app, ''agent'', ''financial'', fact_str m @ ''.json'']) ` set EXTRACTED_FACTS
       then None else dict_get (fs_files fs) q)" by blast
  note path = artifact_path_of [OF assms(1) f]
  show "fst (ws_exists ws app (worker_value v) fs') =
      map_sum id (\<lambda>b. b \<and> index_of v DEFAULT_WORKER_ORDER < index_of w DEFAULT_WORKER_ORDER)
        (fst (ws_exists ws app (worker_value v) fs))"
    by (auto simp: ws_exists_def path get image_iff worker_value_inj in_suffix)
  show "fst (ws_exists ws app (metric_artifact_name m) fs') =
      map_sum id (\<lambda>b. b \<and> index_of FINANCIAL_ANALYSIS DEFAULT_WORKER_ORDER < index_of w DEFAULT_WORKER_ORDER)
        (fst (ws_exists ws app (metric_artifact_name m) fs))"
    by (auto simp: ws_exists_def path get image_iff fact_str_inj all_facts)
qed

section \<open>Rotation\<close>

lemma map_filter_self: "map fst (List.map_filter (\<lambda>p. if c p then Some (p, h p) else None) ps) = filter c ps"
  by (induction ps) (auto simp: List.map_filter_def)

definition is_document :: "path \<Rightarrow> path \<Rightarrow> bool" where
  "is_document folder p \<longleftrightarrow> length p = length folder + 2 \<and> prefix (folder @ [''documents'']) p \<and> ends_with ''.enc.json'' (last p)"

definition is_artifact :: "path \<Rightarrow> path \<Rightarrow> bool" where
  "is_artifact folder p \<longleftrightarrow> strict_prefix (folder @ [''agent'']) p \<and> ends_with ''.json'' (last p) \<and> 5 < length (last p)"

lemma target_keys:
  "map fst (List.map_filter (document_target d) ps) = filter (is_document d) ps"
  "map fst (List.map_filter (artifact_target d) ps) = filter (is_artifact d) ps"
  unfolding document_target_def artifact_target_def is_document_def is_artifact_def Let_def
  by (rule map_filter_self)+

lemma target_below:
  "is_document d p \<Longrightarrow> prefix d p" "is_artifact d p \<Longrightarrow> prefix d p" "is_document d p \<Longrightarrow> \<not> is_artifact d p"
  by (auto simp: is_document_def is_artifact_def prefix_def strict_prefix_def)

lemma distinct_targets:
  assumes "distinct ps" and "distinct ds" and "\<forall>d \<in> set ds. length d = L"
  shows "distinct (concat (map (\<lambda>d. filter (is_document d) ps @ filter (is_artifact d) ps) ds))"
  using assms(2,3)
proof (induction ds)
  case (Cons d ds)
  have "d' = d" if "d' \<in> set ds" "prefix d p" "prefix d' p" for d' p
    using that Cons.prems(2) unfolding prefix_def by (metis append_eq_append_conv list.set_intros)
  then have apart: "is_document d p \<or> is_artifact d p \<Longrightarrow> is_document d' p \<or> is_artifact d' p \<Longrightarrow> d' \<in> set ds \<Longrightarrow> d' = d"
    for d' p using target_below(1,2) by blast
  have "distinct (filter (is_document d) ps @ filter (is_artifact d) ps)"
    using assms(1) target_below(3) by auto
  moreover have "distinct (concat (map (\<lambda>d. filter (is_document d) ps @ filter (is_artifact d) ps) ds))"
    using Cons by simp
  moreover have "d \<notin> set ds" using Cons.prems(1) by simp
  ultimately show ?case using apart by fastforce
qed simp

lemma rewrap_keys:
  "map fst (rewrap_targets ws fs) =
     concat (map (\<lambda>d. filter (is_document d) (map fst (fs_files fs)) @ filter (is_artifact d) (map fst (fs_files fs)))
       (application_dirs ws fs))"
  by (simp add: rewrap_targets_def map_concat comp_def target_keys)

lemma rewrap_distinct:
  assumes "distinct (map fst (fs_files fs))" and "distinct (fs_dirs fs)"
  shows "distinct (map fst (rewrap_targets ws fs))"
  unfolding rewrap_keys
  by (rule distinct_targets [of _ _ "length (wk_root ws) + 1"]) (use assms in \<open>auto simp: application_dirs_def\<close>)

lemma rewrap_file_step:
  assumes "lawful_cipher (wk_cipher ws)" and "rewrap_file ws k v (p, a) fs = (Inr (), fs')"
    and "wk_cipher ws' = wk_cipher ws" and "wk_master_key ws' = Some k"
  shows "read_bytes ws' p a fs' = read_bytes ws p a fs"
    and "q \<noteq> p \<Longrightarrow> dict_get (fs_files fs') q = dict_get (fs_files fs) q"
proof -
  let ?c = "wk_cipher ws"
  from assms(2) obtain e master dek where e: "dict_get (fs_files fs) p = Some (Sealed e)"
    and m: "wk_master_key ws = Some master"
    and dek: "cipher_decrypt ?c master (ev_key_nonce e) (ev_wrapped_key e) a = Some dek"
    and fs': "fs' = (let n = cipher_random ?c (fs_draws fs) 12 in
        fs\<lparr>fs_files := dict_set p (Sealed (e\<lparr>ev_key_version := v, ev_key_nonce := n,
              ev_wrapped_key := cipher_encrypt ?c k n dek a\<rparr>)) (fs_files fs), fs_draws := fs_draws fs + 1\<rparr>)"
    by (auto simp: rewrap_file_def io_elims read_file_def decrypted_def io_raise_def
        split: option.splits stored.splits)
  show "read_bytes ws' p a fs' = read_bytes ws p a fs"
    using e m dek assms(1,3,4)
    by (simp add: fs' Let_def read_bytes_def read_file_def unseal_def decrypted_def lawful_cipher_def)
  show "q \<noteq> p \<Longrightarrow> dict_get (fs_files fs') q = dict_get (fs_files fs) q"
    by (simp add: fs' Let_def)
qed

lemma rewrap_each:
  assumes "lawful_cipher (wk_cipher ws)" and "wk_cipher ws' = wk_cipher ws" and "wk_master_key ws' = Some k"
    and "distinct (map fst ts)" and "io_each (rewrap_file ws k v) ts fs = (Inr (), fs')"
  shows "((p, a) \<in> set ts \<longrightarrow> read_bytes ws' p a fs' = read_bytes ws p a fs) \<and>
    (p \<notin> fst ` set ts \<longrightarrow> dict_get (fs_files fs') p = dict_get (fs_files fs) p)"
  using assms(4,5)
proof (induction ts arbitrary: fs)
  case (Cons t ts)
  obtain q b where t: "t = (q, b)" by (cases t)
  from Cons.prems(2) t obtain fs1 where one: "rewrap_file ws k v (q, b) fs = (Inr (), fs1)"
    and rest: "io_each (rewrap_file ws k v) ts fs1 = (Inr (), fs')"
    by (auto split: prod.splits sum.splits)
  note step = rewrap_file_step [OF assms(1) one assms(2,3)]
  from Cons.IH [OF _ rest] Cons.prems(1)
  have ih: "(p, a) \<in> set ts \<Longrightarrow> read_bytes ws' p a fs' = read_bytes ws p a fs1"
    "p \<notin> fst ` set ts \<Longrightarrow> dict_get (fs_files fs') p = dict_get (fs_files fs1) p" by auto
  show ?case
  proof (cases "p = q")
    case True
    from Cons.prems(1) have "q \<notin> fst ` set ts" unfolding t by simp
    with True have "p \<notin> fst ` set ts" by simp
    then have "read_bytes ws' p a fs' = read_bytes ws' p a fs1" by (intro read_bytes_frame ih(2))
    moreover have "a = b" if "(p, a) \<in> set (t # ts)"
    proof -
      have "(p, a) \<notin> set ts" using \<open>p \<notin> fst ` set ts\<close> by (metis fst_conv image_eqI)
      with that show ?thesis unfolding t by simp
    qed
    ultimately show ?thesis using step(1) True unfolding t by (metis fst_conv image_eqI list.set_intros(1))
  next
    case False
    from step(2) [OF False] have "dict_get (fs_files fs1) p = dict_get (fs_files fs) p" .
    with ih False t read_bytes_frame [OF this, of ws a] show ?thesis by auto
  qed
qed simp

text \<open>A name whose path spells it out, as those of the workers and of the metrics do.\<close>

definition canonical_name :: "string \<Rightarrow> bool" where
  "canonical_name name \<longleftrightarrow> \<not> path_absolute name \<and> join_str ''/'' (path_parts (name @ ''.json'')) = name @ ''.json'' \<and>
     path_parts (name @ ''.json'') \<noteq> [] \<and>
     ends_with ''.json'' (last (path_parts (name @ ''.json''))) \<and> 5 < length (last (path_parts (name @ ''.json'')))"

lemma artifact_is_target:
  assumes "ws_ok ws" and "canonical_name name" and "artifact_path ws app name = Inr p"
    and "wk_root ws @ [app] \<in> set (fs_dirs fs)" and "p \<in> fst ` set (fs_files fs)"
  shows "(p, artifact_aad app name) \<in> set (rewrap_targets ws fs)"
proof -
  let ?d = "wk_root ws @ [app]" and ?parts = "path_parts (name @ ''.json'')"
  from artifact_path_Inr [OF assms(1,3)] assms(2) have p: "p = ?d @ [''agent''] @ ?parts"
    by (simp add: canonical_name_def)
  have "artifact_target ?d p = Some (p, artifact_aad app name)"
    using assms(2) by (auto simp: artifact_target_def p canonical_name_def strict_prefix_def Let_def)
  with assms(5) have "(p, artifact_aad app name) \<in> set (List.map_filter (artifact_target ?d) (map fst (fs_files fs)))"
    by (force simp: List.map_filter_def)
  moreover have "?d \<in> set (application_dirs ws fs)" using assms(4) by (simp add: application_dirs_def)
  ultimately show ?thesis by (force simp: rewrap_targets_def)
qed

lemma document_is_target:
  assumes "ws_ok ws" and "wk_master_key ws \<noteq> None" and "safe_pdf_name filename"
    and "document_path ws app filename = Inr p"
    and "wk_root ws @ [app] \<in> set (fs_dirs fs)" and "p \<in> fst ` set (fs_files fs)"
  shows "(p, document_aad app filename) \<in> set (rewrap_targets ws fs)"
proof -
  let ?d = "wk_root ws @ [app]"
  from safe_pdf_nonempty [OF assms(3)] document_path_simple [OF assms(1,4)] assms(2)
  have p: "p = ?d @ [''documents'', filename @ ''.enc.json'']" by simp
  have "document_target ?d p = Some (p, document_aad app filename)"
    by (simp add: document_target_def p ends_with_def)
  with assms(6) have "(p, document_aad app filename) \<in> set (List.map_filter (document_target ?d) (map fst (fs_files fs)))"
    by (force simp: List.map_filter_def)
  moreover have "?d \<in> set (application_dirs ws fs)" using assms(5) by (simp add: application_dirs_def)
  ultimately show ?thesis by (force simp: rewrap_targets_def)
qed

section \<open>A small store\<close>

definition rot_cipher :: cipher where
  "rot_cipher = \<lparr>cipher_encrypt = (\<lambda>k n m a. m), cipher_decrypt = (\<lambda>k n m a. Some m),
     cipher_random = (\<lambda>i n. replicate n CHR ''r''), envelope_text = ev_ciphertext, not_sealed = ValueError\<rparr>"

definition shelf :: workspace where
  "shelf = (case make_workspace rot_cipher (\<lambda>_. replicate 64 CHR ''0'') [''data''] (Some (replicate 32 CHR ''k'')) ''v1'' of
     Inr ws \<Rightarrow> ws)"

definition bare :: filesystem where
  "bare = \<lparr>fs_files = [], fs_dirs = [], fs_draws = 0\<rparr>"

definition no_requests :: "staged_application codec" where
  "no_requests = \<lparr>cd_dump = (\<lambda>_. []), cd_parse = (\<lambda>_. None)\<rparr>"

lemma shelf_made: "make_workspace rot_cipher (\<lambda>_. replicate 64 CHR ''0'') [''data''] (Some (replicate 32 CHR ''k'')) ''v1'' = Inr shelf"
  by (simp add: shelf_def make_workspace_def)

lemma shelf_lawful: "lawful_cipher (wk_cipher shelf)"
proof -
  have "wk_cipher shelf = rot_cipher" by (simp add: shelf_def make_workspace_def)
  then show ?thesis by (simp add: rot_cipher_def lawful_cipher_def)
qed

lemma shelf_lawful_cipher [simp]: "lawful_cipher rot_cipher"
  by (simp add: lawful_cipher_def rot_cipher_def)

section \<open>Properties\<close>

text \<open>
  C28. Applications are isolated: whatever is staged, saved, invalidated or deleted for other
  applications, each artifact and each staged document of an application reads as before, value
  or exception.
\<close>

theorem applications_isolated:
  assumes "make_workspace c sha256 base_dir key version = Inr ws"
    and "list_all (elsewhere app) ops" and "\<not> path_absolute name"
  shows "fst (ws_load ws cd app name (store_run ws rc ops fs)) = fst (ws_load ws cd app name fs) \<and>
    fst (read_pdf ws app filename digest (store_run ws rc ops fs)) = fst (read_pdf ws app filename digest fs)"
proof -
  note ok = make_workspace_ok [OF assms(1)]
  from store_run_same [OF ok assms(2)] have "same_below ws app fs (store_run ws rc ops fs)" .
  from load_same [OF ok this assms(3)] read_pdf_same [OF ok this] show ?thesis by simp
qed

definition shelf_ops :: "store_op list" where
  "shelf_ops = [Save_Artifact ''app-2'' ''eligibility'' ''t'', Invalidate_From ''app-2'' ELIGIBILITY,
     Delete_Application ''app-2'']"

definition shelved :: filesystem where
  "shelved = snd (ws_save shelf text_codec ''app-1'' ''eligibility'' ''one'' bare)"

theorem applications_isolated_witness:
  "fst (ws_load shelf text_codec ''app-1'' ''eligibility'' (store_run shelf no_requests shelf_ops shelved)) =
     fst (ws_load shelf text_codec ''app-1'' ''eligibility'' shelved)"
  using applications_isolated [OF shelf_made, of "''app-1''" shelf_ops "''eligibility''" text_codec no_requests shelved]
  by (auto simp: shelf_ops_def path_absolute_def)

text \<open>
  C35. What was saved reads back: an artifact that was sealed and written loads as the value it
  was, whatever was done for other applications since, and its digest is the hash of its JSON
  form.
\<close>

theorem saved_artifact_reads_back:
  assumes "make_workspace c sha256 base_dir key version = Inr ws" and "lawful_cipher c"
    and "cd_parse cd (cd_dump cd v) = Some v" and "\<not> path_absolute name"
    and "ws_save ws cd app name v fs = (Inr h, fs')" and "list_all (elsewhere app) ops"
  shows "fst (ws_load ws cd app name (store_run ws rc ops fs')) = Inr v \<and> h = sha256 (cd_dump cd v)"
proof -
  note ok = make_workspace_ok [OF assms(1)]
  have ws: "wk_cipher ws = c" "wk_sha256 ws = sha256"
    using assms(1) by (auto simp: make_workspace_def result_elims)
  have "ws_load ws cd app name fs' = (Inr v, fs')" using load_after_save [OF _ assms(3,5)] assms(2) ws by simp
  moreover have "h = sha256 (cd_dump cd v)" using assms(5) ws by (auto simp: ws_save_Inr)
  ultimately show ?thesis using load_same [OF ok store_run_same [OF ok assms(6)] assms(4), of cd rc fs'] by simp
qed

lemma shelved_ok: "is_ok (fst (ws_save shelf text_codec ''app-1'' ''eligibility'' ''one'' bare))"
  by code_simp

theorem saved_artifact_reads_back_witness:
  "fst (ws_load shelf text_codec ''app-1'' ''eligibility'' (store_run shelf no_requests shelf_ops shelved)) = Inr ''one''"
proof -
  obtain h where "ws_save shelf text_codec ''app-1'' ''eligibility'' ''one'' bare = (Inr h, shelved)"
    using shelved_ok unfolding shelved_def is_ok_iff by (metis prod.collapse)
  from saved_artifact_reads_back [OF shelf_made _ _ _ this, of shelf_ops no_requests] shelf_lawful show ?thesis
    by (simp add: shelf_ops_def path_absolute_def text_codec_def rot_cipher_def lawful_cipher_def)
qed

text \<open>
  Staged documents read back: every reference that staging returns names a file of the upload,
  in its order, and reading it passes the check of its recorded hash, whatever was done for other
  applications since.
\<close>

theorem staged_documents_read_back:
  assumes "make_workspace c sha256 base_dir key version = Inr ws" and "lawful_cipher c"
    and "ws_stage ws rc m files n k fs = (Inr refs, fs')" and "list_all (elsewhere (im_application_id m)) ops"
  shows "map in_reference_id refs = map fst files \<and>
    list_all (\<lambda>r. is_ok (fst (read_pdf ws (im_application_id m) (in_reference_id r) (the (in_sha256 r))
      (store_run ws rc ops fs')))) refs"
proof -
  note ok = make_workspace_ok [OF assms(1)]
  have "wk_cipher ws = c" using assms(1) by (auto simp: make_workspace_def result_elims)
  with assms(2) have "lawful_cipher (wk_cipher ws)" by simp
  from staged_all_read [OF ok this assms(3)] read_pdf_same [OF ok store_run_same [OF ok assms(4), of fs' rc]]
  show ?thesis by simp
qed

lemma ok_run_pair:
  assumes "is_ok (map_sum id fst (fst m))"
  obtains n w s where "m = (Inr (n, w), s)"
  using assms by (cases m; cases "fst m") (auto simp: is_ok_iff)

definition one_pdf :: "(string \<times> string) list" where
  "one_pdf = [(''a.pdf'', ''%PDF-1'')]"

definition one_application :: intake_metadata where
  "one_application = \<lparr>im_application_id = ''app-1'', im_requested_amount_crore = dec_of_nat 1, im_loan_type = Term_loan\<rparr>"

definition one_stage :: "(py_exn + input_reference list) \<times> filesystem" where
  "one_stage = ws_stage shelf no_requests one_application one_pdf 100 100 bare"

lemma one_stage_ok: "is_ok (fst one_stage)"
  by code_simp

theorem staged_documents_read_back_witness:
  "map_sum id (map in_reference_id) (fst one_stage) = Inr [''a.pdf'']"
proof -
  obtain refs fs' where run: "one_stage = (Inr refs, fs')"
    using one_stage_ok unfolding is_ok_iff by (metis prod.collapse)
  from staged_documents_read_back [OF shelf_made _ run [unfolded one_stage_def], of "[]"] shelf_lawful
  show ?thesis unfolding run by (simp add: one_pdf_def shelf_lawful_cipher)
qed

text \<open>
  C29. Rotation of the master key loses nothing: when it succeeds, every artifact of every
  application folder loads under the new key as it did under the old one, value or exception, and
  so does every staged document.
\<close>

theorem rotation_keeps_files:
  assumes "make_workspace c sha256 base_dir key version = Inr ws" and "lawful_cipher c"
    and "distinct (map fst (fs_files fs))" and "distinct (fs_dirs fs)"
    and "wk_root ws @ [app] \<in> set (fs_dirs fs)"
    and "rewrap_all ws new_key new_version fs = (Inr (rotated, ws'), fs')"
    and "canonical_name name" and "safe_pdf_name filename"
  shows "fst (ws_load ws' cd app name fs') = fst (ws_load ws cd app name fs) \<and>
    fst (read_pdf ws' app filename digest fs') = fst (read_pdf ws app filename digest fs)"
proof -
  note ok = make_workspace_ok [OF assms(1)]
  have law: "lawful_cipher (wk_cipher ws)" using assms(1,2) by (auto simp: make_workspace_def result_elims)
  let ?ts = "rewrap_targets ws fs"
  from assms(6) have each: "io_each (rewrap_file ws new_key new_version) ?ts fs = (Inr (), fs')"
    and ws': "ws' = ws\<lparr>wk_master_key := Some new_key, wk_key_version := new_version\<rparr>"
    and sealed: "wk_master_key ws \<noteq> None"
    by (auto simp: rewrap_all_def io_elims)
  note moved = rewrap_each [OF law _ _ rewrap_distinct [OF assms(3,4), of ws] each, of ws']
  have read: "read_bytes ws' p a fs' = read_bytes ws p a fs"
    if "p \<in> fst ` set (fs_files fs) \<Longrightarrow> (p, a) \<in> set ?ts" for p a
  proof (cases "p \<in> fst ` set (fs_files fs)")
    case True
    with that moved [of p a] show ?thesis by (simp add: ws')
  next
    case False
    have "fst ` set ?ts \<subseteq> fst ` set (fs_files fs)"
      unfolding set_map [symmetric] rewrap_keys by auto
    with False moved [of p a] have "dict_get (fs_files fs') p = dict_get (fs_files fs) p" by (auto simp: ws')
    moreover from False have "dict_get (fs_files fs) p = None" by (simp add: map_of_eq_None_iff)
    ultimately show ?thesis by (simp add: read_bytes_def read_file_def)
  qed
  have paths: "artifact_path ws' app name = artifact_path ws app name"
      "document_path ws' app filename = document_path ws app filename" "wk_sha256 ws' = wk_sha256 ws"
    using sealed by (simp_all add: ws' artifact_path_def document_path_def app_folder_def)
  have "fst (ws_load ws' cd app name fs') = fst (ws_load ws cd app name fs)"
  proof (cases "artifact_path ws app name")
    case (Inr p)
    from read [OF artifact_is_target [OF ok assms(7) Inr assms(5)]] show ?thesis
      by (simp add: ws_load_def paths Inr)
  qed (simp add: ws_load_def paths)
  moreover have "fst (read_pdf ws' app filename digest fs') = fst (read_pdf ws app filename digest fs)"
  proof (cases "document_path ws app filename")
    case (Inr p)
    from read [OF document_is_target [OF ok sealed assms(8) Inr assms(5)]] show ?thesis
      by (simp add: read_pdf_def paths Inr io_bind_def io_ensure_def io_ret_def split: sum.splits)
  qed (simp add: read_pdf_def paths io_bind_def io_ensure_def io_raise_def)
  ultimately show ?thesis by simp
qed

definition shelf_rotation :: "(py_exn + nat \<times> workspace) \<times> filesystem" where
  "shelf_rotation = rewrap_all shelf (replicate 32 CHR ''n'') ''v2'' shelved"

lemma shelf_rotation_ok: "is_ok (map_sum id fst (fst shelf_rotation))"
  by code_simp

lemma shelved_parts:
  "distinct (map fst (fs_files shelved))" "distinct (fs_dirs shelved)"
  "list_ex (\<lambda>d. d = wk_root shelf @ [''app-1'']) (fs_dirs shelved)"
  "canonical_name ''eligibility''" "safe_pdf_name ''a.pdf''"
  by (code_simp, code_simp, code_simp, code_simp, code_simp)

lemma shelved_loads: "fst (ws_load shelf text_codec ''app-1'' ''eligibility'' shelved) = Inr ''one''"
  by code_simp

theorem rotation_keeps_files_witness:
  "map_sum id (\<lambda>(n, ws). fst (ws_load ws text_codec ''app-1'' ''eligibility'' (snd shelf_rotation))) (fst shelf_rotation) =
     Inr (Inr ''one'')"
proof -
  obtain n ws' fs' where run: "shelf_rotation = (Inr (n, ws'), fs')"
    using shelf_rotation_ok by (rule ok_run_pair)
  from rotation_keeps_files [OF shelf_made _ shelved_parts(1,2) _ run [unfolded shelf_rotation_def] shelved_parts(4,5),
      of "''app-1''" text_codec] shelved_parts(3) shelved_loads
  show ?thesis unfolding run by (simp add: list_ex_iff shelf_lawful_cipher)
qed

text \<open>
  Invalidating from a stage removes exactly the artifacts of that stage and of the later
  ones, and the metric artifacts exactly when the financial stage is among them.
\<close>

theorem invalidation_drops_later_stages:
  assumes "make_workspace c sha256 base_dir key version = Inr ws"
    and "invalidate_from ws app w fs = (Inr (), fs')"
  shows "fst (ws_exists ws app (worker_value v) fs') =
      map_sum id (\<lambda>b. b \<and> index_of v DEFAULT_WORKER_ORDER < index_of w DEFAULT_WORKER_ORDER)
        (fst (ws_exists ws app (worker_value v) fs)) \<and>
    fst (ws_exists ws app (metric_artifact_name m) fs') =
      map_sum id (\<lambda>b. b \<and> index_of FINANCIAL_ANALYSIS DEFAULT_WORKER_ORDER < index_of w DEFAULT_WORKER_ORDER)
        (fst (ws_exists ws app (metric_artifact_name m) fs))"
  using invalidated_exists [OF make_workspace_ok [OF assms(1)] assms(2)] by simp

lemma shelved_invalidated: "is_ok (fst (invalidate_from shelf ''app-1'' ELIGIBILITY shelved))"
  "fst (ws_exists shelf ''app-1'' (worker_value ELIGIBILITY) shelved) = Inr True"
  by (code_simp, code_simp)

theorem invalidation_drops_later_stages_witness:
  "fst (ws_exists shelf ''app-1'' (worker_value ELIGIBILITY) (snd (invalidate_from shelf ''app-1'' ELIGIBILITY shelved)))
     = Inr False"
proof -
  obtain fs' where run: "invalidate_from shelf ''app-1'' ELIGIBILITY shelved = (Inr (), fs')"
    using shelved_invalidated(1) unfolding is_ok_iff by (metis (full_types) unit.exhaust prod.collapse)
  from invalidation_drops_later_stages [OF shelf_made run, of ELIGIBILITY] shelved_invalidated(2)
  show ?thesis unfolding run by simp
qed

end
