(* ===== verification/FM_Client.thy ===== *)
theory FM_Client
  imports FM_Workflow_Schema
begin

text \<open>
  The HTTP client of the extraction service (\<open>clients/findociq_client.py\<close>): which headers a
  request carries, which exception each failure becomes, and the code that is let through from
  an error response. The transport and the parser of a response body are parameters.
\<close>

section \<open>Failures\<close>

text \<open>
  A transport failure, or an error status with its body: \<open>None\<close> when the body is not JSON.
\<close>

datatype http_failure = Request_error | Status_error "json option"

datatype findociq_exn =
    FinDocIQUnavailable (unavailable_message: string) (unavailable_code: string)
  | FinDocIQContractError string
  | Client_exn py_exn

definition unavailable :: "string \<Rightarrow> findociq_exn" where
  "unavailable msg = FinDocIQUnavailable msg ''findociq_unavailable''"

definition allowed_codes :: "string list" where
  "allowed_codes = [''active_pdf_content'', ''document_prompt_injection_risk'', ''embedded_file'',
     ''encrypted_pdf'', ''malformed_pdf'', ''malware_detected'', ''malware_scan_inconclusive'',
     ''malware_scanner_unavailable'', ''malware_scanner_version_unavailable'']"

text \<open>
  The membership test hashes the \<open>detail\<close>: a list or an object raises \<open>TypeError\<close>, and
  \<open>.get\<close> on a body that is not an object raises \<open>AttributeError\<close>.
\<close>

definition safe_http_code :: "http_failure \<Rightarrow> py_exn + string" where
  "safe_http_code failure =
     (case failure of
        Request_error \<Rightarrow> Inr ''findociq_unavailable''
      | Status_error None \<Rightarrow> Inr ''findociq_unavailable''
      | Status_error (Some (JObj members)) \<Rightarrow>
          (case dict_get members ''detail'' of
             None \<Rightarrow> Inr ''findociq_unavailable''
           | Some (JStr code) \<Rightarrow>
               Inr (if code \<in> set allowed_codes then code else ''findociq_unavailable'')
           | Some (JArr _) \<Rightarrow> Inl (OtherException ''TypeError'')
           | Some (JObj _) \<Rightarrow> Inl (OtherException ''TypeError'')
           | Some _ \<Rightarrow> Inr ''findociq_unavailable'')
      | Status_error (Some _) \<Rightarrow> Inl (OtherException ''AttributeError''))"

section \<open>Configuration and headers\<close>

record client_config =
  cc_ingest_token :: "string option"
  cc_production :: bool
  cc_jwt_secret :: "string option"
  cc_jwt_issuer :: string
  cc_jwt_audience :: string
  cc_policy_hash :: "string option"

record service_claims =
  cl_sub :: string
  cl_iss :: string
  cl_aud :: string
  cl_roles :: "string list"
  cl_application_id :: string
  cl_jti :: string
  cl_iat :: int
  cl_exp :: int

datatype request_headers =
    Ingest_token string
  | Bearer string service_claims

text \<open>The bearer token is the signature of the claims under the secret.\<close>

definition service_headers ::
  "client_config \<Rightarrow> string \<Rightarrow> int \<Rightarrow> string option \<Rightarrow> findociq_exn + request_headers" where
  "service_headers c jti now application_id =
     ebind (ensure (truthy_str application_id) (unavailable ''application-scoped FinDocIQ request required'')) (\<lambda>_.
     ebind (ensure (truthy_str (cc_jwt_secret c)) (unavailable ''FinDocIQ service JWT secret is not configured'')) (\<lambda>_.
     Inr (Bearer (case cc_jwt_secret c of None \<Rightarrow> [] | Some s \<Rightarrow> s)
       \<lparr>cl_sub = ''fundermatch'', cl_iss = cc_jwt_issuer c, cl_aud = cc_jwt_audience c,
        cl_roles = [''document_ingest'', ''document_extract'', ''activity_read'', ''document_delete''],
        cl_application_id = (case application_id of None \<Rightarrow> [] | Some a \<Rightarrow> a),
        cl_jti = jti, cl_iat = now, cl_exp = now + 300\<rparr>)))"

definition ingest_headers ::
  "client_config \<Rightarrow> string \<Rightarrow> int \<Rightarrow> string option \<Rightarrow> findociq_exn + request_headers" where
  "ingest_headers c jti now application_id =
     (if cc_production c \<and> truthy_str application_id then service_headers c jti now application_id
      else Inr (Ingest_token (case cc_ingest_token c of None \<Rightarrow> [] | Some t \<Rightarrow> t)))"

section \<open>Requests\<close>

type_synonym ('w, 'b) transport = "string \<Rightarrow> request_headers option \<Rightarrow> 'w \<Rightarrow> (http_failure + 'b) \<times> 'w"

definition request ::
  "('w, 'b) transport \<Rightarrow> string \<Rightarrow> request_headers option \<Rightarrow> (http_failure \<Rightarrow> findociq_exn) \<Rightarrow>
   ('b \<Rightarrow> 'a option) \<Rightarrow> string \<Rightarrow> ('w, findociq_exn, 'a) io" where
  "request send path headers on_failure parse contract_message w =
     (case send path headers w of
        (Inl failure, w') \<Rightarrow> (Inl (on_failure failure), w')
      | (Inr body, w') \<Rightarrow>
          (case parse body of
             None \<Rightarrow> (Inl (FinDocIQContractError contract_message), w')
           | Some r \<Rightarrow> (Inr r, w')))"

definition ingest_failure :: "http_failure \<Rightarrow> findociq_exn" where
  "ingest_failure failure =
     (case safe_http_code failure of
        Inl e \<Rightarrow> Client_exn e
      | Inr code \<Rightarrow> FinDocIQUnavailable ''FinDocIQ document ingestion failed'' code)"

definition token_configured :: "client_config \<Rightarrow> findociq_exn + unit" where
  "token_configured c =
     ensure (cc_production c \<or> cc_ingest_token c \<noteq> None)
       (unavailable ''FinDocIQ ingestion token is not configured'')"

definition client_extract ::
  "client_config \<Rightarrow> ('w, 'b) transport \<Rightarrow> ('b \<Rightarrow> extract_response option) \<Rightarrow> string \<Rightarrow> int \<Rightarrow>
   string option \<Rightarrow> ('w, findociq_exn, extract_response) io" where
  "client_extract c send parse jti now production_application =
     io_bind (io_lift (case production_application of
         None \<Rightarrow> Inr None
       | Some a \<Rightarrow> ebind (service_headers c jti now (Some a)) (\<lambda>h. Inr (Some h)))) (\<lambda>headers.
     request send ''/extract'' headers (\<lambda>_. unavailable ''FinDocIQ extraction request failed'') parse
       ''FinDocIQ returned an invalid extraction contract'')"

definition client_ingest ::
  "client_config \<Rightarrow> ('w, 'b) transport \<Rightarrow> ('b \<Rightarrow> ingest_document_response option) \<Rightarrow> string \<Rightarrow> int \<Rightarrow>
   ingest_document_request \<Rightarrow> ('w, findociq_exn, ingest_document_response) io" where
  "client_ingest c send parse jti now q =
     io_bind (io_lift (token_configured c)) (\<lambda>_.
     io_bind (io_lift (ingest_headers c jti now (iq_application_id q))) (\<lambda>headers.
     request send ''/v1/documents'' (Some headers) ingest_failure parse
       ''FinDocIQ returned an invalid ingestion contract''))"

definition client_ingest_batch ::
  "client_config \<Rightarrow> ('w, 'b) transport \<Rightarrow> ('b \<Rightarrow> ingest_document_response list option) \<Rightarrow> string \<Rightarrow> int \<Rightarrow>
   ingest_batch_request \<Rightarrow> ('w, findociq_exn, ingest_document_response list) io" where
  "client_ingest_batch c send parse jti now q =
     io_bind (io_lift (token_configured c)) (\<lambda>_.
     io_bind (io_lift (case ib_documents q of [] \<Rightarrow> Inl (Client_exn (OtherException ''IndexError''))
                       | d # _ \<Rightarrow> Inr (iq_application_id d))) (\<lambda>application_id.
     io_bind (io_lift (ingest_headers c jti now application_id)) (\<lambda>headers.
     request send ''/v1/document-batches'' (Some headers) ingest_failure parse
       ''FinDocIQ returned an invalid ingestion contract'')))"

definition client_activity ::
  "client_config \<Rightarrow> ('w, 'b) transport \<Rightarrow> ('b \<Rightarrow> 'a option) \<Rightarrow> string \<Rightarrow> int \<Rightarrow> string \<Rightarrow> string option \<Rightarrow>
   ('w, findociq_exn, 'a) io" where
  "client_activity c send parse jti now batch_id application_id =
     io_bind (io_lift (token_configured c)) (\<lambda>_.
     io_bind (io_lift (ingest_headers c jti now application_id)) (\<lambda>headers.
     request send (''/v1/document-batches/'' @ batch_id @ ''/activity'') (Some headers)
       (\<lambda>_. unavailable ''FinDocIQ activity request failed'') parse
       ''FinDocIQ returned an invalid activity contract''))"

definition client_retention_delete ::
  "client_config \<Rightarrow> ('w, 'b) transport \<Rightarrow> ('b \<Rightarrow> 'a option) \<Rightarrow> string \<Rightarrow> int \<Rightarrow> string \<Rightarrow>
   ('w, findociq_exn, 'a) io" where
  "client_retention_delete c send parse jti now application_id =
     io_bind (io_lift (service_headers c jti now (Some application_id))) (\<lambda>headers.
     request send (''/v1/applications/'' @ application_id @ ''/retention-delete'') (Some headers)
       (\<lambda>_. unavailable ''FinDocIQ retention deletion failed'') parse
       ''FinDocIQ returned an invalid retention receipt'')"

text \<open>
  Health: \<open>None\<close> when the body is not JSON. In production the policy hash of the body, a missing
  or null one being \<open>None\<close>, has to be the configured one.
\<close>

definition same_policy_hash :: "json option \<Rightarrow> string option \<Rightarrow> bool" where
  "same_policy_hash value expected =
     (case value of
        None \<Rightarrow> expected = None
      | Some JNull \<Rightarrow> expected = None
      | Some (JStr h) \<Rightarrow> expected = Some h
      | Some _ \<Rightarrow> False)"

definition client_health ::
  "client_config \<Rightarrow> ('w, 'b) transport \<Rightarrow> ('b \<Rightarrow> json option) \<Rightarrow> ('w, findociq_exn, bool) io" where
  "client_health c send parse_json w =
     (case send ''/healthz'' None w of
        (Inl _, w') \<Rightarrow> (Inr False, w')
      | (Inr body, w') \<Rightarrow>
          (if \<not> cc_production c then (Inr True, w')
           else case parse_json body of
                  None \<Rightarrow> (Inr False, w')
                | Some (JObj members) \<Rightarrow>
                    (Inr (same_policy_hash (dict_get members ''policy_hash'') (cc_policy_hash c)), w')
                | Some _ \<Rightarrow> (Inl (Client_exn (OtherException ''AttributeError'')), w')))"

section \<open>What the headers guarantee\<close>

text \<open>A bearer token is scoped to the application of the request and lives five minutes.\<close>

lemma service_headers_Inr:
  "service_headers c jti now application_id = Inr h \<longleftrightarrow>
     (\<exists>a s. application_id = Some a \<and> a \<noteq> [] \<and> cc_jwt_secret c = Some s \<and> s \<noteq> [] \<and>
        h = Bearer s \<lparr>cl_sub = ''fundermatch'', cl_iss = cc_jwt_issuer c, cl_aud = cc_jwt_audience c,
          cl_roles = [''document_ingest'', ''document_extract'', ''activity_read'', ''document_delete''],
          cl_application_id = a, cl_jti = jti, cl_iat = now, cl_exp = now + 300\<rparr>)"
  by (auto simp: service_headers_def result_elims truthy_str_def split: option.splits)

lemma safe_http_code_allowed:
  "safe_http_code failure = Inr code \<Longrightarrow> code \<in> set allowed_codes \<or> code = ''findociq_unavailable''"
  by (auto simp: safe_http_code_def split: http_failure.splits option.splits json.splits if_splits)

lemma safe_http_code_list:
  "dict_get members ''detail'' = Some (JArr items) \<Longrightarrow>
     safe_http_code (Status_error (Some (JObj members))) = Inl (OtherException ''TypeError'')"
  by (simp add: safe_http_code_def)

end
