(* ===== verification/FM_Requests.thy ===== *)
theory FM_Requests
  imports FM_Precedent
begin

text \<open>
  The requests to the extraction service (\<open>clients/findociq_contract.py\<close>) as their constructors
  build them: surrounding white space is stripped, the field limits and the validators run.
\<close>

section \<open>Base64\<close>

definition b64_alphabet :: string where
  "b64_alphabet = ''ABCDEFGHIJKLMNOPQRSTUVWXYZabcdefghijklmnopqrstuvwxyz0123456789+/''"

definition b64_digit :: "nat \<Rightarrow> char" where
  "b64_digit n = b64_alphabet ! n"

fun b64encode :: "string \<Rightarrow> string" where
  "b64encode [] = []"
| "b64encode [a] =
     (let n = of_char a * 16 in [b64_digit (n div 64), b64_digit (n mod 64), CHR ''='', CHR ''=''])"
| "b64encode [a, b] =
     (let n = (of_char a * 256 + of_char b) * 4
      in [b64_digit (n div 4096), b64_digit (n div 64 mod 64), b64_digit (n mod 64), CHR ''=''])"
| "b64encode (a # b # c # rest) =
     (let n = (of_char a * 256 + of_char b) * 256 + of_char c
      in b64_digit (n div 262144) # b64_digit (n div 4096 mod 64) # b64_digit (n div 64 mod 64) #
         b64_digit (n mod 64) # b64encode rest)"

lemma length_b64encode: "length (b64encode s) = 4 * ((length s + 2) div 3)"
proof (induction s rule: b64encode.induct)
  case (4 a b c rest)
  have "(length (a # b # c # rest) + 2) div 3 = (length rest + 2) div 3 + 1" by simp
  with 4 show ?case by (simp only: b64encode.simps Let_def list.size) simp
qed (simp_all add: Let_def)

section \<open>Ingestion\<close>

definition opt_between :: "int \<Rightarrow> int \<Rightarrow> string option \<Rightarrow> bool" where
  "opt_between lo hi x = (case x of None \<Rightarrow> True | Some s \<Rightarrow> lo \<le> int (length s) \<and> int (length s) \<le> hi)"

definition opt_sha256 :: "string option \<Rightarrow> bool" where
  "opt_sha256 x = (case x of None \<Rightarrow> True | Some s \<Rightarrow> hex_sha256 s)"

definition pdf_filename :: "string \<Rightarrow> bool" where
  "pdf_filename s \<longleftrightarrow> 5 \<le> length s \<and> max_items 240 s \<and> CHR ''/'' \<notin> set s \<and> CHR 0x5C \<notin> set s \<and>
     ends_with ''.pdf'' (casefold s)"

definition strip_ingest :: "ingest_document_request \<Rightarrow> ingest_document_request" where
  "strip_ingest q = q\<lparr>iq_filename := strip (iq_filename q), iq_sha256 := strip (iq_sha256 q),
     iq_content := strip (iq_content q), iq_application_id := map_option strip (iq_application_id q),
     iq_command_id := map_option strip (iq_command_id q), iq_policy_hash := map_option strip (iq_policy_hash q)\<rparr>"

definition ingest_document_fields_ok :: "ingest_document_request \<Rightarrow> bool" where
  "ingest_document_fields_ok q \<longleftrightarrow>
     pdf_filename (iq_filename q) \<and> hex_sha256 (iq_sha256 q) \<and> 8 \<le> length (iq_content q) \<and>
     opt_between 3 200 (iq_application_id q) \<and> opt_between 8 200 (iq_command_id q) \<and>
     opt_sha256 (iq_policy_hash q)"

definition make_ingest_document :: "ingest_document_request \<Rightarrow> py_exn + ingest_document_request" where
  "make_ingest_document raw =
     (let q = strip_ingest raw in
      ebind (ensure (ingest_document_fields_ok q) (ValueError ''validation error'')) (\<lambda>_.
      raising_value (require_v2_scope q)))"

definition make_ingest_batch :: "ingest_batch_request \<Rightarrow> py_exn + ingest_batch_request" where
  "make_ingest_batch b =
     ebind (ensure ((case ib_batch_id b of None \<Rightarrow> True | Some i \<Rightarrow> valid_case_id i) \<and> ib_documents b \<noteq> [])
       (ValueError ''validation error'')) (\<lambda>_.
     raising_value (consistent_contract b))"

section \<open>Extraction\<close>

datatype extract_request =
    Extract_question (xq_question: string) (xq_question_id: "string option") (xq_document_ids: "string list")
  | Extract_metric (xm_application_id: string) (xm_document_ids: "string list") (xm_metric_ids: "string list")
      (xm_command_id: string)

definition size_between :: "int \<Rightarrow> int \<Rightarrow> 'a list \<Rightarrow> bool" where
  "size_between lo hi xs \<longleftrightarrow> lo \<le> int (length xs) \<and> int (length xs) \<le> hi"

definition make_extract_question ::
  "string \<Rightarrow> string option \<Rightarrow> string list \<Rightarrow> py_exn + extract_request" where
  "make_extract_question question question_id document_ids =
     (let q = strip question; i = map_option strip question_id; ds = map strip document_ids in
      ebind (ensure (size_between 1 4000 q \<and> opt_between 1 200 i \<and> size_between 0 20 ds) (ValueError ''validation error''))
        (\<lambda>_. Inr (Extract_question q i ds)))"

definition make_extract_metric ::
  "string \<Rightarrow> string list \<Rightarrow> string list \<Rightarrow> string \<Rightarrow> py_exn + extract_request" where
  "make_extract_metric application_id document_ids metric_ids command_id =
     (let a = strip application_id; ds = map strip document_ids; ms = map strip metric_ids; c = strip command_id in
      ebind (ensure (size_between 3 200 a \<and> size_between 1 20 ds \<and> size_between 1 20 ms \<and> size_between 8 200 c)
        (ValueError ''validation error'')) (\<lambda>_. Inr (Extract_metric a ds ms c)))"

end
