(* ===== verification/FM_Workers.thy ===== *)
theory FM_Workers
  imports FM_Workspace FM_Context FM_Suggest FM_Client FM_Requests FM_Workflow_Service
begin

text \<open>
  The fixed workers of the agent graph (\<open>orchestration/workers.py\<close>). A worker is a job: it
  threads its call budget and the world, which holds the artifact store, the workflow
  repository and what is outside the process. The extraction service, the retriever, the
  activity callback, the prompts and the JSON form of models are parameters.
\<close>

section \<open>Artifacts\<close>

record intake_document =
  id_filename :: string
  id_sha256 :: string
  id_document_id :: string
  id_page_count :: nat
  id_chunk_count :: nat

record document_artifact =
  da_documents :: "intake_document list"
  da_chunk_ids :: "(string \<times> string list) list"
  da_config_hashes :: "(string \<times> string) list"

record metric_artifact =
  ma_metric :: fact_name
  ma_figure :: figure

record eligibility_artifact =
  ea_application_id :: app_id
  ea_results :: "funder_eligibility list"

section \<open>Dependencies and world\<close>

record 'r repo_ops =
  rp_create :: "'r create_op"
  rp_get :: "app_id \<Rightarrow> 'r \<Rightarrow> workflow_error + workflow_record"
  rp_transition :: "'r transition_op"

record ('r, 'x) world =
  wd_fs :: filesystem
  wd_repo :: 'r
  wd_ext :: 'x
  wd_ticks :: nat

text \<open>
  A call of the extraction service returns or raises one of the client's exceptions; being
  overrun by its deadline is \<open>WTimeout\<close> of the operation.
\<close>

record ('r, 'x) deps =
  dp_workspace :: workspace
  dp_repo :: "'r repo_ops"
  dp_tick :: "nat \<Rightarrow> tick"
  dp_actor :: actor_claims
  dp_policies :: "funder_policy list"
  dp_production :: bool
  dp_policy_hash :: "string option"
  dp_ingest :: "ingest_batch_request \<Rightarrow> ('x, findociq_exn + ingest_document_response list) operation"
  dp_extract :: "extract_request \<Rightarrow> ('x, findociq_exn + extract_response) operation"
  dp_retrieve :: "borrower_application \<Rightarrow> funder_policy list \<Rightarrow> ('x, retrieval_result) operation"
  dp_report :: "(app_id \<Rightarrow> string \<Rightarrow> (string \<times> json) list \<Rightarrow> ('x, py_exn, unit) io) option"
  dp_prompt :: "string \<Rightarrow> py_exn + string"
  dp_sha256 :: "string \<Rightarrow> string"
  dp_uuid5 :: "string \<Rightarrow> uuid"
  dp_redact :: "string \<Rightarrow> string"
  dp_bbox_json :: "bbox \<Rightarrow> string"
  dp_bundle_json :: "suggestion_bundle \<Rightarrow> json_object"
  dp_request_codec :: "staged_application codec"
  dp_document_codec :: "document_artifact codec"
  dp_metric_codec :: "metric_artifact codec"
  dp_application_codec :: "borrower_application codec"
  dp_eligibility_codec :: "eligibility_artifact codec"
  dp_retrieval_codec :: "retrieval_result codec"
  dp_suggestion_codec :: "suggestion_bundle codec"

type_synonym ('r, 'x, 'a) step = "(('r, 'x) world, 'a) job"

definition on_fs :: "'a ws_io \<Rightarrow> ('r, 'x, 'a) step" where
  "on_fs m = (\<lambda>(c, w). case m (wd_fs w) of (r, fs) \<Rightarrow>
     ((case r of Inl e \<Rightarrow> Inl (WPy e) | Inr x \<Rightarrow> Inr x), c, w\<lparr>wd_fs := fs\<rparr>))"

definition on_ext :: "('x, 'a) operation \<Rightarrow> (('r, 'x) world, 'a) operation" where
  "on_ext f timeout w = (case f timeout (wd_ext w) of (r, x) \<Rightarrow> (r, w\<lparr>wd_ext := x\<rparr>))"

definition raise_py :: "py_exn + 'a \<Rightarrow> worker_exn + 'a" where
  "raise_py r = (case r of Inl e \<Rightarrow> Inl (WPy e) | Inr x \<Rightarrow> Inr x)"

definition lift_py :: "py_exn + 'a \<Rightarrow> ('r, 'x, 'a) step" where
  "lift_py r = io_lift (raise_py r)"

definition fail_with :: "string \<Rightarrow> string \<Rightarrow> bool \<Rightarrow> bool \<Rightarrow> ('r, 'x, 'a) step" where
  "fail_with code msg retryable attention = io_raise (WFailure code msg retryable attention)"

definition context_command :: "('r, 'x, uuid) step" where
  "context_command = (\<lambda>(c, w). (Inr (cx_command_id c), c, w))"

definition report :: "('r, 'x) deps \<Rightarrow> app_id \<Rightarrow> string \<Rightarrow> (string \<times> json) list \<Rightarrow> ('r, 'x, unit) step" where
  "report d app stage details =
     (case dp_report d of
        None \<Rightarrow> io_ret ()
      | Some f \<Rightarrow> (\<lambda>(c, w). case f app stage details (wd_ext w) of (r, x) \<Rightarrow> (raise_py r, c, w\<lparr>wd_ext := x\<rparr>)))"

section \<open>The workflow record\<close>

fun workflow_exn :: "workflow_error \<Rightarrow> py_exn" where
  "workflow_exn (WorkflowNotFoundError _) = OtherException ''WorkflowNotFoundError''"
| "workflow_exn (WorkflowConflictError _) = OtherException ''WorkflowConflictError''"
| "workflow_exn (InvalidTransitionError _) = OtherException ''InvalidTransitionError''"
| "workflow_exn (WorkflowAuthorizationError _) = OtherException ''WorkflowAuthorizationError''"
| "workflow_exn (ValidationError m) = ValueError m"
| "workflow_exn (PyKeyError m) = KeyError m"
| "workflow_exn (UniqueViolationError _) = OtherException ''UniqueViolationError''"

text \<open>A call of the service takes the next reading of the clock and fresh identifiers.\<close>

definition on_repo ::
  "('r, 'x) deps \<Rightarrow> (tick \<Rightarrow> 'r \<Rightarrow> workflow_error + (transition_result \<times> 'r)) \<Rightarrow> ('r, 'x, transition_result) step" where
  "on_repo d f = (\<lambda>(c, w).
     case f (dp_tick d (wd_ticks w)) (wd_repo w) of
       Inl e \<Rightarrow> (Inl (WPy (workflow_exn e)), c, w\<lparr>wd_ticks := wd_ticks w + 1\<rparr>)
     | Inr (res, repo) \<Rightarrow> (Inr res, c, w\<lparr>wd_repo := repo, wd_ticks := wd_ticks w + 1\<rparr>))"

definition ensure_workflow :: "('r, 'x) deps \<Rightarrow> app_id \<Rightarrow> ('r, 'x, workflow_record) step" where
  "ensure_workflow d app = (\<lambda>(c, w).
     case rp_get (dp_repo d) app (wd_repo w) of
       Inr r \<Rightarrow> (Inr r, c, w)
     | Inl (WorkflowNotFoundError _) \<Rightarrow>
         io_bind (on_repo d (create_workflow (rp_create (dp_repo d)) app (dp_actor d) (Some (cx_command_id c))
             ''Agent-supervised borrower PDFs accepted into intake''))
           (\<lambda>res. io_ret (tr_workflow res)) (c, w)
     | Inl e \<Rightarrow> (Inl (WPy (workflow_exn e)), c, w))"

definition advance_command_id :: "('r, 'x) deps \<Rightarrow> app_id \<Rightarrow> workflow_state \<Rightarrow> uuid" where
  "advance_command_id d app target = dp_uuid5 d (''fundermatch:'' @ app @ '':workflow:'' @ state_value target)"

definition advance ::
  "('r, 'x) deps \<Rightarrow> app_id \<Rightarrow> workflow_state \<Rightarrow> json_object option \<Rightarrow> ('r, 'x, workflow_record) step" where
  "advance d app target suggestion =
     io_bind (ensure_workflow d app) (\<lambda>current.
     if index_of target workflow_states \<le> index_of (wf_state current) workflow_states then io_ret current
     else io_bind (on_repo d (advance_pipeline (rp_transition (dp_repo d)) app
         \<lparr>pa_command_id = advance_command_id d app target, pa_expected_version = wf_version current,
          pa_target_state = target, pa_reason = ''Agent worker completed '' @ casefold (state_value target),
          pa_suggestion = suggestion\<rparr> (dp_actor d)))
       (\<lambda>res. io_ret (tr_workflow res)))"

section \<open>Document processing\<close>

definition with_workflow :: "workflow_record \<Rightarrow> worker_result \<Rightarrow> worker_result" where
  "with_workflow r res = res\<lparr>rs_workflow_state := Some (state_value (wf_state r)),
     rs_workflow_version := Some (wf_version r)\<rparr>"

definition blocked_codes :: "string list" where
  "blocked_codes = [''active_pdf_content'', ''embedded_file'', ''encrypted_pdf'', ''malformed_pdf'', ''malware_detected'']"

definition ingest_unavailable :: worker_exn where
  "ingest_unavailable = WFailure ''findociq_ingest_unavailable'' ''FinDocIQ ingestion is temporarily unavailable'' True False"

definition ingest_exn :: "findociq_exn \<Rightarrow> worker_exn" where
  "ingest_exn e =
     (case e of
        FinDocIQUnavailable _ code \<Rightarrow>
          (if code = ''document_prompt_injection_risk'' then
             WFailure code ''Document contains instruction-like evidence requiring human attention'' True True
           else if code \<in> set blocked_codes then
             WFailure code ''Document was blocked by the production input policy'' False False
           else ingest_unavailable)
      | _ \<Rightarrow> ingest_unavailable)"

definition ingest_request ::
  "('r, 'x) deps \<Rightarrow> app_id \<Rightarrow> uuid \<Rightarrow> staged_file \<Rightarrow> string \<Rightarrow> py_exn + ingest_document_request" where
  "ingest_request d app command_id s content =
     (let production = dp_production d in
      make_ingest_document
        \<lparr>iq_version = (if production then V2 else V1), iq_filename = sf_filename s, iq_sha256 = sf_sha256 s,
         iq_content = b64encode content,
         iq_application_id = (if production then Some app else None),
         iq_command_id = (if production then Some command_id else None),
         iq_policy_hash = (if production then dp_policy_hash d else None)\<rparr>)"

fun read_staged ::
  "('r, 'x) deps \<Rightarrow> app_id \<Rightarrow> staged_file list \<Rightarrow> ('r, 'x, ingest_document_request list) step" where
  "read_staged d app [] = io_ret []"
| "read_staged d app (s # ss) =
     io_bind (on_fs (read_pdf (dp_workspace d) app (sf_filename s) (sf_sha256 s))) (\<lambda>content.
     io_bind context_command (\<lambda>command_id.
     io_bind (lift_py (ingest_request d app command_id s content)) (\<lambda>q.
     io_bind (read_staged d app ss) (\<lambda>qs. io_ret (q # qs)))))"

text \<open>
  The request is built inside the \<open>try\<close> block, so a request that does not validate is also
  reported as the service being unavailable; so is a refused or overrun tool call.
\<close>

definition call_ingest ::
  "('r, 'x) deps \<Rightarrow> string \<Rightarrow> ingest_document_request list \<Rightarrow> ('r, 'x, ingest_document_response list) step" where
  "call_ingest d batch_id documents =
     io_bind (io_catch
       (io_bind (lift_py (make_ingest_batch \<lparr>ib_version = (if dp_production d then V2 else V1),
           ib_batch_id = Some batch_id, ib_documents = documents\<rparr>)) (\<lambda>b.
        call_tool ''findociq_ingest'' (on_ext (dp_ingest d b))))
       (\<lambda>_. io_raise ingest_unavailable)) (\<lambda>r.
     case r of Inl e \<Rightarrow> io_raise (ingest_exn e) | Inr responses \<Rightarrow> io_ret responses)"

definition same_dict :: "(string \<times> string) list \<Rightarrow> (string \<times> string) list \<Rightarrow> bool" where
  "same_dict a b \<longleftrightarrow> set (dict_of a) = set (dict_of b)"

definition ingest_receipt_ok :: "('r, 'x) deps \<Rightarrow> app_id \<Rightarrow> ingest_document_response \<Rightarrow> bool" where
  "ingest_receipt_ok d app r \<longleftrightarrow>
     ir_application_id r = Some app \<and> ir_policy_hash r = dp_policy_hash d \<and> ir_scan_status r = Some ''clean'' \<and>
     truthy_str (ir_scan_receipt r) \<and> truthy_str (ir_dlp_receipt r) \<and> truthy_str (ir_storage_receipt r) \<and>
     truthy_str (ir_ownership_receipt r)"

definition make_document_artifact :: "ingest_document_response list \<Rightarrow> py_exn + document_artifact" where
  "make_document_artifact rs =
     ebind (ensure (rs \<noteq> []) (ValueError ''validation error'')) (\<lambda>_.
     Inr \<lparr>da_documents = map (\<lambda>r. \<lparr>id_filename = ir_filename r, id_sha256 = ir_sha256 r,
            id_document_id = ir_document_id r, id_page_count = ir_page_count r,
            id_chunk_count = ir_chunk_count r\<rparr>) rs,
          da_chunk_ids = dict_of (map (\<lambda>r. (ir_document_id r, ir_chunk_ids r)) rs),
          da_config_hashes = dict_of (map (\<lambda>r. (ir_document_id r, ir_config_hash r)) rs)\<rparr>)"

definition process_documents :: "('r, 'x) deps \<Rightarrow> memory_state \<Rightarrow> ('r, 'x, document_artifact) step" where
  "process_documents d state =
     (let app = ms_application_id state; ws = dp_workspace d in
      io_bind (on_fs (ws_request ws (dp_request_codec d) app)) (\<lambda>request.
      io_bind (if dp_production d \<and> \<not> truthy_str (dp_policy_hash d)
          then fail_with ''guardrail_policy_unavailable'' ''Production guardrail policy identity is not configured'' False False
          else io_ret ()) (\<lambda>_.
      io_bind (read_staged d app (sa_files request)) (\<lambda>documents.
      io_bind (report d app ''document_processing''
          [(''attempt'', JNum (of_nat (attempts_of state DOCUMENT_PROCESSING + 1)))]) (\<lambda>_.
      io_bind context_command (\<lambda>command_id.
      io_bind (call_ingest d (if truthy_str (ms_job_id state) then the (ms_job_id state) else command_id) documents) (\<lambda>responses.
      io_bind (if same_dict (map (\<lambda>r. (ir_filename r, ir_sha256 r)) responses)
                    (map (\<lambda>f. (sf_filename f, sf_sha256 f)) (sa_files request)) then io_ret ()
          else fail_with ''ingest_receipt_mismatch'' ''FinDocIQ ingestion receipt did not match staged documents'' False False) (\<lambda>_.
      io_bind (if dp_production d \<and> \<not> list_all (ingest_receipt_ok d app) responses
          then fail_with ''production_ingest_receipt_invalid''
            ''FinDocIQ did not return verified production security receipts'' False False
          else io_ret ()) (\<lambda>_.
      io_bind (lift_py (make_document_artifact responses)) (\<lambda>artifact.
      io_bind (on_fs (ws_save ws (dp_document_codec d) app (worker_value DOCUMENT_PROCESSING) artifact)) (\<lambda>_.
      io_ret artifact)))))))))))"

definition bounded_opt :: "int \<Rightarrow> string option \<Rightarrow> bool" where
  "bounded_opt n x = (case x of None \<Rightarrow> True | Some s \<Rightarrow> max_items n s)"

definition make_document_reference :: "(string \<times> string) list \<Rightarrow> intake_document \<Rightarrow> py_exn + document_reference" where
  "make_document_reference hashes item =
     (case dict_get hashes (id_document_id item) of
        None \<Rightarrow> Inl (KeyError (id_document_id item))
      | Some h \<Rightarrow>
          ebind (ensure (id_document_id item \<noteq> [] \<and> max_items 500 (id_document_id item) \<and> hex_sha256 (id_sha256 item) \<and>
              1 \<le> id_page_count item \<and> hex_sha256 h) (ValueError ''validation error'')) (\<lambda>_.
          Inr \<lparr>dr_document_id = id_document_id item, dr_sha256 = id_sha256 item, dr_page_count = id_page_count item,
               dr_chunk_count = id_chunk_count item, dr_config_hash = Some h\<rparr>))"

text \<open>The limits of \<open>WorkerResult\<close>.\<close>

definition opt_items :: "int \<Rightarrow> 'a list option \<Rightarrow> bool" where
  "opt_items n x = (case x of None \<Rightarrow> True | Some xs \<Rightarrow> max_items n xs)"

definition make_worker_result :: "worker_result \<Rightarrow> py_exn + worker_result" where
  "make_worker_result r =
     ebind (ensure (hex_sha256 (rs_output_sha256 r) \<and> opt_items 100 (rs_documents r) \<and> opt_items 200 (rs_evidence r) \<and>
         opt_items 500 (rs_eligibility r) \<and> opt_items 100 (rs_guardrails r) \<and> bounded_opt 80 (rs_workflow_state r) \<and>
         (case rs_config_hash r of None \<Rightarrow> True | Some h \<Rightarrow> hex_sha256 h) \<and> bounded_opt 200 (rs_model_revision r) \<and>
         max_items 50 (rs_write_receipts r)) (ValueError ''validation error'')) (\<lambda>_. Inr r)"

definition combined_hash :: "(string \<Rightarrow> string) \<Rightarrow> string list \<Rightarrow> string" where
  "combined_hash sha256 values = sha256 (join_str ''|'' (sort values))"

definition document_processing_worker :: "('r, 'x) deps \<Rightarrow> memory_state \<Rightarrow> ('r, 'x, worker_result) step" where
  "document_processing_worker d state =
     (let app = ms_application_id state; ws = dp_workspace d; name = worker_value DOCUMENT_PROCESSING in
      io_bind (on_fs (ws_exists ws app name)) (\<lambda>present.
      io_bind (if present then on_fs (ws_load ws (dp_document_codec d) app name) else process_documents d state) (\<lambda>artifact.
      io_bind (ensure_workflow d app) (\<lambda>workflow.
      io_bind (lift_py (emap (make_document_reference (da_config_hashes artifact)) (da_documents artifact))) (\<lambda>references.
      lift_py (make_worker_result (with_workflow workflow
        ((worker_result0 DOCUMENT_PROCESSING
            (result_hash (dp_sha256 d) DOCUMENT_PROCESSING (map dr_document_id references)))
          \<lparr>rs_documents := Some references,
           rs_config_hash := Some (combined_hash (dp_sha256 d) (map snd (da_config_hashes artifact)))\<rparr>))))))))"

section \<open>Financial analysis\<close>

definition make_evidence_reference :: "('r, 'x) deps \<Rightarrow> evidence_metric \<Rightarrow> py_exn + evidence_reference" where
  "make_evidence_reference d item =
     (let c = em_citation item;
          canonical = ct_document_id c @ ''|'' @ str_nat (ct_page_number c) @ ''|'' @
            dp_bbox_json d (ct_bbox c) @ ''|'' @ fact_str (em_name item);
          value = str_fact (em_value item) in
      ebind (ensure (value \<noteq> [] \<and> max_items 500 value \<and> max_items 80 (em_unit item) \<and> max_items 120 (em_period item) \<and>
          ct_document_id c \<noteq> [] \<and> max_items 500 (ct_document_id c) \<and> is_ok (validate_coordinates (ct_bbox c)))
        (ValueError ''validation error'')) (\<lambda>_.
      Inr \<lparr>er_evidence_id = dp_sha256 d canonical, er_metric = fact_str (em_name item), er_value = value,
           er_unit = Some (em_unit item), er_period = Some (em_period item), er_document_id = ct_document_id c,
           er_page_number = ct_page_number c, er_bbox = ct_bbox c\<rparr>))"

definition metric_command :: "uuid \<Rightarrow> fact_name \<Rightarrow> string" where
  "metric_command command_id metric = command_id @ '':'' @ fact_str metric"

definition extract_unavailable :: "fact_name \<Rightarrow> worker_exn" where
  "extract_unavailable metric = WFailure ''findociq_extract_unavailable''
     (''FinDocIQ extraction is temporarily unavailable for '' @ fact_str metric) True False"

definition extraction_request ::
  "('r, 'x) deps \<Rightarrow> app_id \<Rightarrow> string list \<Rightarrow> uuid \<Rightarrow> fact_name \<Rightarrow> py_exn + extract_request" where
  "extraction_request d app document_ids command_id metric =
     (if dp_production d then
        make_extract_metric app document_ids [fact_str metric] (metric_command command_id metric)
      else ebind (dp_prompt d (''extract_'' @ fact_str metric)) (\<lambda>question.
        make_extract_question question (Some (app @ '':'' @ fact_str metric)) document_ids))"

definition call_extract ::
  "('r, 'x) deps \<Rightarrow> app_id \<Rightarrow> string list \<Rightarrow> uuid \<Rightarrow> fact_name \<Rightarrow> ('r, 'x, extract_response) step" where
  "call_extract d app document_ids command_id metric =
     io_bind (io_catch
       (io_bind (lift_py (extraction_request d app document_ids command_id metric)) (\<lambda>q.
        call_tool ''findociq_extract'' (on_ext (dp_extract d q))))
       (\<lambda>_. io_raise (extract_unavailable metric))) (\<lambda>r.
     case r of Inl _ \<Rightarrow> io_raise (extract_unavailable metric) | Inr response \<Rightarrow> io_ret response)"

text \<open>The handlers \<open>except ValueError\<close>: any other exception passes through.\<close>

definition on_value_error :: "worker_exn \<Rightarrow> py_exn + 'a \<Rightarrow> ('r, 'x, 'a) step" where
  "on_value_error failure r =
     (case r of
        Inl (ValueError _) \<Rightarrow> io_raise failure
      | _ \<Rightarrow> lift_py r)"

definition fact_missing :: "fact_name \<Rightarrow> worker_exn" where
  "fact_missing metric = WFailure ''required_document_fact_missing''
     (''Required document fact is missing or ambiguous: '' @ fact_str metric) False True"

definition fact_invalid :: "fact_name \<Rightarrow> worker_exn" where
  "fact_invalid metric = WFailure ''required_document_fact_invalid''
     (''Required document fact is invalid: '' @ fact_str metric) False True"

definition profile_invalid :: worker_exn where
  "profile_invalid = WFailure ''required_document_profile_invalid''
     ''Required document facts could not form a valid borrower profile'' False True"

definition extract_metric ::
  "('r, 'x) deps \<Rightarrow> app_id \<Rightarrow> string list \<Rightarrow> fact_name \<Rightarrow> ('r, 'x, metric_artifact) step" where
  "extract_metric d app document_ids metric =
     io_bind (report d app ''extracting_metric'' [(''metric'', JStr (fact_str metric))]) (\<lambda>_.
     io_bind context_command (\<lambda>command_id.
     io_bind (call_extract d app document_ids command_id metric) (\<lambda>response.
     io_bind (on_value_error (fact_missing metric) (select_figure (xr_figures response) metric)) (\<lambda>selected.
     let artifact = \<lparr>ma_metric = metric, ma_figure = selected\<rparr> in
     io_bind (if dp_production d \<and> (xr_application_id response \<noteq> Some app \<or>
            xr_command_id response \<noteq> Some (metric_command command_id metric) \<or>
            xr_policy_hash response \<noteq> dp_policy_hash d)
         then fail_with ''production_extract_receipt_invalid''
           ''FinDocIQ extraction receipt did not match the application'' False False
         else io_ret ()) (\<lambda>_.
     io_bind (on_fs (ws_save (dp_workspace d) (dp_metric_codec d) app (metric_artifact_name metric) artifact)) (\<lambda>_.
     io_ret artifact))))))"

definition metric_evidence ::
  "('r, 'x) deps \<Rightarrow> app_id \<Rightarrow> string list \<Rightarrow> fact_name \<Rightarrow> ('r, 'x, evidence_metric) step" where
  "metric_evidence d app document_ids metric =
     io_bind (on_fs (ws_exists (dp_workspace d) app (metric_artifact_name metric))) (\<lambda>present.
     io_bind (if present then on_fs (ws_load (dp_workspace d) (dp_metric_codec d) app (metric_artifact_name metric))
         else extract_metric d app document_ids metric) (\<lambda>artifact.
     let f = ma_figure artifact in
     io_bind (if ct_document_id (fg_citation f) \<notin> set document_ids
         then fail_with ''cross_application_evidence''
           ''FinDocIQ returned evidence outside the current application'' False False
         else io_ret ()) (\<lambda>_.
     on_value_error (fact_invalid metric) (make_evidence metric f))))"

fun collect_evidence ::
  "('r, 'x) deps \<Rightarrow> app_id \<Rightarrow> string list \<Rightarrow> fact_name list \<Rightarrow> ('r, 'x, evidence_metric list) step" where
  "collect_evidence d app document_ids [] = io_ret []"
| "collect_evidence d app document_ids (m # ms) =
     io_bind (metric_evidence d app document_ids m) (\<lambda>e.
     io_bind (collect_evidence d app document_ids ms) (\<lambda>es. io_ret (e # es)))"

definition financial_analysis_worker :: "('r, 'x) deps \<Rightarrow> memory_state \<Rightarrow> ('r, 'x, worker_result) step" where
  "financial_analysis_worker d state =
     (let app = ms_application_id state; ws = dp_workspace d in
      io_bind (on_fs (ws_request ws (dp_request_codec d) app)) (\<lambda>request.
      io_bind (on_fs (ws_load ws (dp_document_codec d) app (worker_value DOCUMENT_PROCESSING))) (\<lambda>documents.
      let document_ids = map id_document_id (da_documents documents) in
      io_bind (collect_evidence d app document_ids EXTRACTED_FACTS) (\<lambda>evidence.
      io_bind (on_value_error profile_invalid (build_application app (sa_metadata request) evidence)) (\<lambda>application.
      io_bind (on_fs (ws_save ws (dp_application_codec d) app (worker_value FINANCIAL_ANALYSIS) application)) (\<lambda>digest.
      io_bind (advance d app EXTRACTED None) (\<lambda>workflow.
      io_bind (lift_py (emap (make_evidence_reference d) evidence)) (\<lambda>references.
      lift_py (make_worker_result (with_workflow workflow
        ((worker_result0 FINANCIAL_ANALYSIS digest)\<lparr>rs_evidence := Some references\<rparr>)))))))))))"

section \<open>Eligibility, retrieval, suggestion, handoff\<close>

definition make_eligibility_reference :: "funder_eligibility \<Rightarrow> py_exn + eligibility_reference" where
  "make_eligibility_reference el =
     ebind (ensure (fe_funder_id el \<noteq> [] \<and> max_items 200 (fe_funder_id el)) (ValueError ''validation error'')) (\<lambda>_.
     Inr \<lparr>el_funder_id = fe_funder_id el, el_eligible = fe_eligible el,
       el_failed_criteria = map (\<lambda>c. criterion_value (ck_criterion c)) (filter (\<lambda>c. \<not> ck_passed c) (fe_checks el))\<rparr>)"

definition eligibility_worker :: "('r, 'x) deps \<Rightarrow> memory_state \<Rightarrow> ('r, 'x, worker_result) step" where
  "eligibility_worker d state =
     (let app = ms_application_id state; ws = dp_workspace d in
      io_bind (on_fs (ws_load ws (dp_application_codec d) app (worker_value FINANCIAL_ANALYSIS))) (\<lambda>application.
      let results = evaluate_all application (dp_policies d) in
      io_bind (on_fs (ws_save ws (dp_eligibility_codec d) app (worker_value ELIGIBILITY)
          \<lparr>ea_application_id = app, ea_results = results\<rparr>)) (\<lambda>digest.
      io_bind (advance d app RULE_GATED None) (\<lambda>workflow.
      io_bind (lift_py (emap make_eligibility_reference results)) (\<lambda>references.
      lift_py (make_worker_result (with_workflow workflow
        ((worker_result0 ELIGIBILITY digest)\<lparr>rs_eligibility := Some references\<rparr>))))))))"

text \<open>\<open>WorkerFailure\<close> is a \<open>RuntimeError\<close>, so a refused or overrun tool call is caught first.\<close>

definition retrieval_exn :: "worker_exn \<Rightarrow> worker_exn" where
  "retrieval_exn e =
     (case e of
        WFailure _ _ _ _ \<Rightarrow> WFailure ''ineligible_precedent'' ''Precedent retrieval returned an ineligible funder'' False False
      | WPy (RuntimeError _) \<Rightarrow> WFailure ''ineligible_precedent'' ''Precedent retrieval returned an ineligible funder'' False False
      | _ \<Rightarrow> WFailure ''qdrant_unavailable'' ''Precedent retrieval is temporarily unavailable'' True False)"

definition retrieval_worker :: "('r, 'x) deps \<Rightarrow> memory_state \<Rightarrow> ('r, 'x, worker_result) step" where
  "retrieval_worker d state =
     (let app = ms_application_id state; ws = dp_workspace d in
      io_bind (on_fs (ws_load ws (dp_application_codec d) app (worker_value FINANCIAL_ANALYSIS))) (\<lambda>application.
      io_bind (on_fs (ws_load ws (dp_eligibility_codec d) app (worker_value ELIGIBILITY))) (\<lambda>expected.
      io_bind (io_catch (call_tool ''qdrant_search'' (on_ext (dp_retrieve d application (dp_policies d))))
          (\<lambda>e. io_raise (retrieval_exn e))) (\<lambda>retrieval.
      io_bind (if rr_eligibility retrieval \<noteq> ea_results expected
          then fail_with ''eligibility_changed'' ''Eligibility result changed before precedent retrieval'' True True
          else io_ret ()) (\<lambda>_.
      io_bind (on_fs (ws_save ws (dp_retrieval_codec d) app (worker_value PRECEDENT_RETRIEVAL) retrieval)) (\<lambda>digest.
      lift_py (make_worker_result (worker_result0 PRECEDENT_RETRIEVAL digest))))))))"

text \<open>\<open>model_copy\<close> does not validate: the masked application is stored as it is.\<close>

definition masked_name :: "(string \<Rightarrow> string) \<Rightarrow> app_id \<Rightarrow> string" where
  "masked_name sha256 app = ''Application '' @ take 12 (sha256 app)"

definition mask_application :: "('r, 'x) deps \<Rightarrow> app_id \<Rightarrow> borrower_application \<Rightarrow> borrower_application" where
  "mask_application d app a = a\<lparr>ba_borrower_name := masked_name (dp_sha256 d) app,
     ba_finance_context := dp_redact d (ba_finance_context a),
     ba_operations_context := dp_redact d (ba_operations_context a)\<rparr>"

definition persisted_suggestion :: "('r, 'x) deps \<Rightarrow> app_id \<Rightarrow> suggestion_bundle \<Rightarrow> suggestion_bundle" where
  "persisted_suggestion d app b =
     (if dp_production d then b\<lparr>sg_application := mask_application d app (sg_application b)\<rparr> else b)"

definition suggestion_worker :: "('r, 'x) deps \<Rightarrow> memory_state \<Rightarrow> ('r, 'x, worker_result) step" where
  "suggestion_worker d state =
     (let app = ms_application_id state; ws = dp_workspace d in
      io_bind (on_fs (ws_load ws (dp_application_codec d) app (worker_value FINANCIAL_ANALYSIS))) (\<lambda>application.
      io_bind (on_fs (ws_load ws (dp_retrieval_codec d) app (worker_value PRECEDENT_RETRIEVAL))) (\<lambda>retrieval.
      io_bind (lift_py (raising_value
          (assemble (dp_sha256 d) (dp_policy_hash d) application (dp_policies d) retrieval))) (\<lambda>suggestion.
      io_bind (on_fs (ws_save ws (dp_suggestion_codec d) app (worker_value SUGGESTION) suggestion)) (\<lambda>digest.
      io_bind (advance d app AI_SUGGESTED (Some (dp_bundle_json d (persisted_suggestion d app suggestion)))) (\<lambda>workflow.
      lift_py (make_worker_result (with_workflow workflow (worker_result0 SUGGESTION digest)))))))))"

definition handoff_actions :: "string list" where
  "handoff_actions = [''approve'', ''reject'', ''approve_with_conditions'', ''send_back'']"

definition human_review_worker :: "('r, 'x) deps \<Rightarrow> memory_state \<Rightarrow> ('r, 'x, worker_result) step" where
  "human_review_worker d state =
     (let app = ms_application_id state in
      io_bind (advance d app AWAITING_HUMAN None) (\<lambda>workflow.
      lift_py (make_worker_result (with_workflow workflow
        ((worker_result0 HUMAN_REVIEW (result_hash (dp_sha256 d) HUMAN_REVIEW [app, str_nat (wf_version workflow)]))
          \<lparr>rs_human_review := Some \<lparr>hv_expected_version = wf_version workflow, hv_allowed_actions = handoff_actions\<rparr>\<rparr>)))))"

end
