(* ===== verification/FM_Guardrails.thy ===== *)
theory FM_Guardrails
  imports FM_Workers FM_Policy
begin

text \<open>
  The fail-closed validation before the handoff to review (\<open>orchestration/guardrails.py\<close>): the
  checks in the order of the code, each a refusal with its code, and the eight results of a
  state that passes them all. The resolver of precedents and the verifier of receipts are
  parameters.
\<close>

record ('r, 'x) guard =
  gd_deps :: "('r, 'x) deps"
  gd_resolver :: "(string list \<Rightarrow> ('x, bool) operation) option"
  gd_policy_hash :: "string option"
  gd_verify :: "(signed_part \<Rightarrow> string \<Rightarrow> bool) option"
  gd_execution :: "(string \<times> worker_execution_policy) list"
  gd_dump_size :: "memory_state \<Rightarrow> nat"

definition attention :: "bool \<Rightarrow> string \<Rightarrow> string \<Rightarrow> worker_exn + unit" where
  "attention ok code msg = ensure ok (WFailure code msg True True)"

definition refuse :: "bool \<Rightarrow> string \<Rightarrow> string \<Rightarrow> worker_exn + unit" where
  "refuse ok code msg = ensure ok (WFailure code msg False False)"

section \<open>Worker receipts\<close>

definition within_policy :: "worker_execution_policy \<Rightarrow> worker_receipt \<Rightarrow> bool" where
  "within_policy p r \<longleftrightarrow> wp_attempt r \<le> wx_max_attempts p \<and> length (wp_tool_calls r) \<le> wx_max_calls p \<and>
     list_all (\<lambda>t. t \<in> set (wx_permitted_tools p)) (wp_tool_calls r) \<and>
     wp_latency_ms r \<le> of_nat (wx_worker_deadline_seconds p) * 1000"

definition check_receipt ::
  "string \<Rightarrow> (signed_part \<Rightarrow> string \<Rightarrow> bool) \<Rightarrow> (string \<times> worker_execution_policy) list \<Rightarrow> worker_receipt \<Rightarrow>
   worker_exn + unit" where
  "check_receipt policy_hash verify policies r =
     ebind (refuse (wp_policy_hash r = Some policy_hash \<and> truthy_str (wp_signature r))
       ''worker_receipt_invalid'' ''Worker receipt policy identity is invalid'') (\<lambda>_.
     ebind (refuse (verify (signed_payload r) (case wp_signature r of None \<Rightarrow> [] | Some s \<Rightarrow> s))
       ''worker_receipt_invalid'' ''Worker receipt signature is invalid'') (\<lambda>_.
     case dict_get policies (worker_value (wp_worker r)) of
       None \<Rightarrow> refuse False ''worker_policy_missing'' ''Worker receipt has no production execution policy''
     | Some p \<Rightarrow> refuse (within_policy p r)
         ''worker_policy_violation'' ''Worker receipt violates tool, retry, or deadline policy''))"

definition check_receipts :: "('r, 'x) guard \<Rightarrow> memory_state \<Rightarrow> worker_exn + unit" where
  "check_receipts g s =
     (case gd_policy_hash g of
        None \<Rightarrow> Inr ()
      | Some h \<Rightarrow>
          (case gd_verify g of
             None \<Rightarrow> refuse False ''receipt_verifier_missing'' ''Worker receipt verifier is missing''
           | Some verify \<Rightarrow>
               ebind (emap (check_receipt h verify (gd_execution g)) (ms_worker_receipts s)) (\<lambda>_. Inr ())))"

section \<open>Ownership and evidence\<close>

definition check_ownership ::
  "app_id \<Rightarrow> borrower_application \<Rightarrow> retrieval_result \<Rightarrow> suggestion_bundle \<Rightarrow> worker_exn + unit" where
  "check_ownership app a r b =
     ebind (refuse (ba_application_id a = app) ''cross_application_artifact'' ''Application artifact ownership mismatch'') (\<lambda>_.
     ebind (refuse (rr_application_id r = app) ''cross_application_retrieval'' ''Retrieval artifact ownership mismatch'') (\<lambda>_.
     refuse (ba_application_id (sg_application b) = app)
       ''cross_application_suggestion'' ''Suggestion artifact ownership mismatch''))"

definition geometry_ok :: "evidence_reference \<Rightarrow> bool" where
  "geometry_ok e \<longleftrightarrow> 1 \<le> er_page_number e \<and> bx0 (er_bbox e) < bx1 (er_bbox e) \<and> by0 (er_bbox e) < by1 (er_bbox e)"

text \<open>The text each fact of the application is expected to have.\<close>

fun expected_text :: "borrower_application \<Rightarrow> fact_name \<Rightarrow> string" where
  "expected_text a Annual_revenue_crore = str_decimal (fp_annual_revenue_crore (ba_profile a))"
| "expected_text a Ebitda_margin_pct = str_decimal (fp_ebitda_margin_pct (ba_profile a))"
| "expected_text a Dscr = str_decimal (fp_dscr (ba_profile a))"
| "expected_text a Pat_crore = str_decimal (fp_pat_crore (ba_profile a))"
| "expected_text a Debt_to_equity = str_decimal (fp_debt_to_equity (ba_profile a))"
| "expected_text a Debt_to_ebitda = str_decimal (fp_debt_to_ebitda (ba_profile a))"
| "expected_text a Collateral_cover = str_decimal (fp_collateral_cover (ba_profile a))"
| "expected_text a Years_operating = str_int (fp_years_operating (ba_profile a))"
| "expected_text a Employee_count = str_int (fp_employee_count (ba_profile a))"
| "expected_text a Borrower_name = ba_borrower_name a"
| "expected_text a Industry = ba_industry a"
| "expected_text a Sub_industry = ba_sub_industry a"
| "expected_text a Region = ba_region a"

definition expected_values :: "borrower_application \<Rightarrow> (string \<times> string) list" where
  "expected_values a = map (\<lambda>n. (fact_str n, expected_text a n)) EXTRACTED_FACTS"

definition value_supported :: "borrower_application \<Rightarrow> evidence_reference \<Rightarrow> bool" where
  "value_supported a e = (case dict_get (expected_values a) (er_metric e) of None \<Rightarrow> True | Some v \<Rightarrow> er_value e = v)"

definition check_evidence :: "memory_state \<Rightarrow> borrower_application \<Rightarrow> worker_exn + unit" where
  "check_evidence s a =
     ebind (attention (ms_evidence s \<noteq> []) ''missing_evidence'' ''Cited financial evidence is required'') (\<lambda>_.
     ebind (refuse (list_all (\<lambda>e. er_document_id e \<in> set (map dr_document_id (ms_documents s))) (ms_evidence s))
       ''cross_application_evidence'' ''Evidence does not belong to this application'') (\<lambda>_.
     ebind (attention (list_all geometry_ok (ms_evidence s)) ''invalid_citation_geometry''
       ''Cited evidence requires a valid page and non-empty bounding box'') (\<lambda>_.
     attention (list_all (value_supported a) (ms_evidence s)) ''unsupported_numeric_claim''
       ''A numeric claim does not resolve to cited evidence'')))"

section \<open>Eligibility and precedents\<close>

definition eligible_funders :: "memory_state \<Rightarrow> string list" where
  "eligible_funders s = map el_funder_id (filter el_eligible (ms_eligibility s))"

definition check_eligible_only :: "memory_state \<Rightarrow> retrieval_result \<Rightarrow> suggestion_bundle \<Rightarrow> worker_exn + unit" where
  "check_eligible_only s r b =
     refuse (list_all (\<lambda>m. hd_funder_id (dc_decision (pm_precedent m)) \<in> set (eligible_funders s)) (rr_matches r) \<and>
             list_all (\<lambda>c. ca_funder_id c \<in> set (eligible_funders s)) (sg_candidates b))
       ''ineligible_funder_leakage'' ''An ineligible funder entered retrieval or suggestions''"

definition precedent_ids :: "retrieval_result \<Rightarrow> string list" where
  "precedent_ids r = map (\<lambda>m. dc_case_id (pm_precedent m)) (rr_matches r)"

definition verification_unavailable :: worker_exn where
  "verification_unavailable = WFailure ''qdrant_verification_unavailable''
     ''Precedent receipt verification is temporarily unavailable'' True False"

definition check_precedents :: "('r, 'x) guard \<Rightarrow> retrieval_result \<Rightarrow> ('r, 'x, unit) step" where
  "check_precedents g r =
     (if precedent_ids r = [] then io_ret ()
      else case gd_resolver g of
        None \<Rightarrow> io_lift (attention False ''precedent_receipt_unverified''
                  ''Retrieved precedents could not be verified against stored data'')
      | Some resolve \<Rightarrow>
          io_bind (io_catch (call_tool ''qdrant_verify'' (on_ext (resolve (precedent_ids r))))
            (\<lambda>_. io_raise verification_unavailable)) (\<lambda>resolved.
          io_lift (attention resolved ''precedent_receipt_unverified''
            ''A retrieved precedent no longer resolves to stored data'')))"

text \<open>\<open>QdrantPrecedentResolver.resolve\<close>: \<open>points_found\<close> is how many of the points the collection has.\<close>

definition resolve_precedents :: "(string \<Rightarrow> uuid) \<Rightarrow> (uuid list \<Rightarrow> py_exn + nat) \<Rightarrow> string list \<Rightarrow> py_exn + bool" where
  "resolve_precedents uuid5 points_found case_ids =
     ebind (points_found (map (\<lambda>i. uuid5 (''fundermatch:'' @ i)) case_ids)) (\<lambda>n. Inr (n = length (remdups case_ids)))"

section \<open>The suggestion\<close>

definition citation_key :: "string \<Rightarrow> nat \<Rightarrow> bbox \<Rightarrow> string \<times> nat \<times> rat \<times> rat \<times> rat \<times> rat" where
  "citation_key document_id page b = (document_id, page, bx0 b, by0 b, bx1 b, by1 b)"

definition evidence_keys :: "memory_state \<Rightarrow> (string \<times> nat \<times> rat \<times> rat \<times> rat \<times> rat) list" where
  "evidence_keys s = map (\<lambda>e. citation_key (er_document_id e) (er_page_number e) (er_bbox e)) (ms_evidence s)"

definition check_claim :: "('r, 'x) guard \<Rightarrow> memory_state \<Rightarrow> retrieval_result \<Rightarrow> grounded_claim \<Rightarrow> worker_exn + unit" where
  "check_claim g s r claim =
     ebind (refuse (gc_application_id claim = ms_application_id s)
       ''cross_application_claim'' ''Claim belongs to another application'') (\<lambda>_.
     ebind (refuse (gd_policy_hash g = None \<or> gc_policy_hash claim = gd_policy_hash g)
       ''claim_policy_mismatch'' ''Claim policy identity is invalid'') (\<lambda>_.
     ebind (attention (case gc_citation claim of None \<Rightarrow> True
         | Some c \<Rightarrow> citation_key (ct_document_id c) (ct_page_number c) (ct_bbox c) \<in> set (evidence_keys s))
       ''unsupported_output_claim'' ''Output claim lacks owned evidence'') (\<lambda>_.
     attention (case gc_precedent_id claim of None \<Rightarrow> True | Some p \<Rightarrow> p \<in> set (precedent_ids r))
       ''unsupported_output_claim'' ''Output claim lacks precedent evidence'')))"

definition check_suggestion ::
  "('r, 'x) guard \<Rightarrow> memory_state \<Rightarrow> retrieval_result \<Rightarrow> suggestion_bundle \<Rightarrow> worker_exn + unit" where
  "check_suggestion g s r b =
     ebind (refuse (sg_authority b = ''advisory_only'' \<and> sg_requires_human_decision b)
       ''automatic_lending_decision'' ''Suggestion attempted to assume human authority'') (\<lambda>_.
     ebind (attention (sg_advisory_notice b \<noteq> [])
       ''missing_advisory_notice'' ''Suggestion is missing the human-authority notice'') (\<lambda>_.
     ebind (attention (gd_policy_hash g = None \<or> sg_claims b \<noteq> [])
       ''missing_claim_ledger'' ''Suggestion claim ledger is required'') (\<lambda>_.
     ebind (emap (check_claim g s r) (sg_claims b)) (\<lambda>_.
     refuse (int (gd_dump_size g s) \<le> MAX_CHECKPOINT_BYTES)
       ''checkpoint_size_violation'' ''Checkpoint exceeds the production size policy''))))"

section \<open>The worker\<close>

definition guardrail_names :: "string list" where
  "guardrail_names = [''citation_presence'', ''evidence_ownership'', ''numeric_grounding'', ''eligible_only'',
     ''human_authority'', ''claim_grounding'', ''checkpoint_schema'']"

definition guardrail_results :: "('r, 'x) guard \<Rightarrow> memory_state \<Rightarrow> guardrail_result list" where
  "guardrail_results g s =
     map (\<lambda>n. \<lparr>gu_guardrail = n, gu_passed = True, gu_code = None\<rparr>) guardrail_names @
     [\<lparr>gu_guardrail = ''tool_timeout_retry_loop_limits'',
       gu_passed = (gd_policy_hash g = None \<or>
         list_all (\<lambda>r. wp_policy_hash r = gd_policy_hash g \<and> truthy_str (wp_signature r)) (ms_worker_receipts s)),
       gu_code = None\<rparr>]"

definition guardrail_worker :: "('r, 'x) guard \<Rightarrow> memory_state \<Rightarrow> ('r, 'x, worker_result) step" where
  "guardrail_worker g s =
     (let d = gd_deps g; app = ms_application_id s; ws = dp_workspace d in
      io_bind (io_lift (check_receipts g s)) (\<lambda>_.
      io_bind (on_fs (ws_load ws (dp_application_codec d) app (worker_value FINANCIAL_ANALYSIS))) (\<lambda>application.
      io_bind (on_fs (ws_load ws (dp_retrieval_codec d) app (worker_value PRECEDENT_RETRIEVAL))) (\<lambda>retrieval.
      io_bind (on_fs (ws_load ws (dp_suggestion_codec d) app (worker_value SUGGESTION))) (\<lambda>suggestion.
      io_bind (io_lift (check_ownership app application retrieval suggestion)) (\<lambda>_.
      io_bind (io_lift (check_evidence s application)) (\<lambda>_.
      io_bind (io_lift (check_eligible_only s retrieval suggestion)) (\<lambda>_.
      io_bind (check_precedents g retrieval) (\<lambda>_.
      io_bind (io_lift (check_suggestion g s retrieval suggestion)) (\<lambda>_.
      let results = guardrail_results g s in
      lift_py (make_worker_result ((worker_result0 GUARDRAILS
          (result_hash (dp_sha256 d) GUARDRAILS (app # map gu_guardrail results)))
        \<lparr>rs_guardrails := Some results\<rparr>))))))))))))"

section \<open>The seven workers\<close>

text \<open>\<open>fixed_workers\<close>, with the guardrail worker in its place: the code owns the order.\<close>

definition fixed_worker :: "('r, 'x) guard \<Rightarrow> worker_name \<Rightarrow> memory_state \<Rightarrow> ('r, 'x, worker_result) step" where
  "fixed_worker g w s =
     (case w of
        DOCUMENT_PROCESSING \<Rightarrow> document_processing_worker (gd_deps g) s
      | FINANCIAL_ANALYSIS \<Rightarrow> financial_analysis_worker (gd_deps g) s
      | ELIGIBILITY \<Rightarrow> eligibility_worker (gd_deps g) s
      | PRECEDENT_RETRIEVAL \<Rightarrow> retrieval_worker (gd_deps g) s
      | SUGGESTION \<Rightarrow> suggestion_worker (gd_deps g) s
      | GUARDRAILS \<Rightarrow> guardrail_worker g s
      | HUMAN_REVIEW \<Rightarrow> human_review_worker (gd_deps g) s)"

end
