(* ===== verification/FM_Worker_Facts.thy ===== *)
theory FM_Worker_Facts
  imports FM_Guardrails FM_Workflow_Postgres FM_Workflow_Memory
begin

text \<open>
  What every fixed worker keeps: its call budget, its identity, and the parts of the world it
  has no business with.
\<close>

named_theorems step_intros "closure rules for properties of worker steps"

section \<open>Properties of a step\<close>

text \<open>
  \<open>step_keeps P Q m\<close>: from a state with \<open>P\<close> the step \<open>m\<close> returns in a state with \<open>P\<close> or raises
  in a state with \<open>Q\<close>.
\<close>

definition step_keeps :: "('s \<Rightarrow> bool) \<Rightarrow> ('s \<Rightarrow> bool) \<Rightarrow> ('s, 'e, 'a) io \<Rightarrow> bool" where
  "step_keeps P Q m \<longleftrightarrow> (\<forall>s. P s \<longrightarrow> (case m s of (Inl _, s') \<Rightarrow> Q s' | (Inr _, s') \<Rightarrow> P s'))"

lemma step_keeps_Inr: "step_keeps P Q m \<Longrightarrow> P s \<Longrightarrow> m s = (Inr x, s') \<Longrightarrow> P s'"
  unfolding step_keeps_def by (drule spec [of _ s]) simp

lemma step_keeps_Inl: "step_keeps P Q m \<Longrightarrow> P s \<Longrightarrow> m s = (Inl e, s') \<Longrightarrow> Q s'"
  unfolding step_keeps_def by (drule spec [of _ s]) simp

lemma step_keepsI:
  "(\<And>s x s'. P s \<Longrightarrow> m s = (Inr x, s') \<Longrightarrow> P s') \<Longrightarrow> (\<And>s e s'. P s \<Longrightarrow> m s = (Inl e, s') \<Longrightarrow> Q s') \<Longrightarrow>
    step_keeps P Q m"
  unfolding step_keeps_def by (auto split: prod.splits sum.splits)

lemma keeps_ret [step_intros]: "step_keeps P Q (io_ret x)"
  by (simp add: step_keeps_def io_ret_def)

locale step_property =
  fixes P :: "'s \<Rightarrow> bool" and Q :: "'s \<Rightarrow> bool"
  assumes weaker: "P s \<Longrightarrow> Q s"
begin

lemma raise: "step_keeps P Q (io_raise e)"
  by (simp add: step_keeps_def io_raise_def weaker)

lemma lift: "step_keeps P Q (io_lift r)"
  by (auto simp: step_keeps_def io_lift_def weaker split: sum.splits)

lemma bind: "step_keeps P Q m \<Longrightarrow> (\<And>x. step_keeps P Q (f x)) \<Longrightarrow> step_keeps P Q (io_bind m f)"
  by (rule step_keepsI) (auto simp: io_bind_def split: prod.splits sum.splits dest: step_keeps_Inr step_keeps_Inl)

lemma catch_raise: "step_keeps P Q m \<Longrightarrow> step_keeps P Q (io_catch m (\<lambda>e. io_raise (f e)))"
  by (rule step_keepsI)
    (auto simp: io_catch_def io_raise_def split: prod.splits sum.splits dest: step_keeps_Inr step_keeps_Inl)

lemma if_step: "step_keeps P Q m \<Longrightarrow> step_keeps P Q m' \<Longrightarrow> step_keeps P Q (if b then m else m')"
  by simp

lemma let_step: "(\<And>x. step_keeps P Q (f x)) \<Longrightarrow> step_keeps P Q (let x = v in f x)"
  by simp

lemma case_sum_step:
  "(\<And>e. step_keeps P Q (f e)) \<Longrightarrow> (\<And>x. step_keeps P Q (h x)) \<Longrightarrow> step_keeps P Q (case r of Inl e \<Rightarrow> f e | Inr x \<Rightarrow> h x)"
  by (cases r) auto

lemma case_option_step:
  "step_keeps P Q m \<Longrightarrow> (\<And>x. step_keeps P Q (h x)) \<Longrightarrow> step_keeps P Q (case r of None \<Rightarrow> m | Some x \<Rightarrow> h x)"
  by (cases r) auto

lemmas intros = keeps_ret raise lift bind catch_raise if_step let_step case_sum_step case_option_step

end

text \<open>
  The tools of each worker. What a worker does to its context and the world: with a property closed
  under these changes, the property holds after every worker. A call of a service under the name
  \<open>tool\<close> changes the outside as \<open>may_call tool\<close> says, a progress report as \<open>may_report\<close> says.
\<close>

fun worker_tools :: "worker_name \<Rightarrow> string set" where
  "worker_tools DOCUMENT_PROCESSING = {''findociq_ingest''}"
| "worker_tools FINANCIAL_ANALYSIS = {''findociq_extract''}"
| "worker_tools PRECEDENT_RETRIEVAL = {''qdrant_search''}"
| "worker_tools GUARDRAILS = {''qdrant_verify''}"
| "worker_tools _ = {}"

locale worker_property = step_property P Q
  for P Q :: "worker_context \<times> ('r, 'x) world \<Rightarrow> bool" +
  fixes d :: "('r, 'x) deps" and app :: app_id and own :: "string set"
    and may_call :: "string \<Rightarrow> 'x \<Rightarrow> 'x \<Rightarrow> bool" and may_report :: "'x \<Rightarrow> 'x \<Rightarrow> bool"
  assumes fs_change: "P (c, w) \<Longrightarrow> P (c, w\<lparr>wd_fs := fs\<rparr>)"
    and report_change: "P (c, w) \<Longrightarrow> may_report (wd_ext w) x \<Longrightarrow> P (c, w\<lparr>wd_ext := x\<rparr>)"
    and tick_change: "P (c, w) \<Longrightarrow> P (c, w\<lparr>wd_ticks := wd_ticks w + 1\<rparr>)"
    and called: "P (c, w) \<Longrightarrow> tool \<in> own \<Longrightarrow> consume_tool_call tool c = (Inr (), c') \<Longrightarrow>
      may_call tool (wd_ext w) x \<Longrightarrow> P (c', w\<lparr>wd_ext := x\<rparr>)"
    and call_refused: "P (c, w) \<Longrightarrow> consume_tool_call tool c = (Inl e, c') \<Longrightarrow> Q (c', w)"
    and created: "P (c, w) \<Longrightarrow> rp_get (dp_repo d) app (wd_repo w) = Inl (WorkflowNotFoundError m) \<Longrightarrow>
      create_workflow (rp_create (dp_repo d)) app actor (Some (cx_command_id c)) reason
        (dp_tick d (wd_ticks w)) (wd_repo w) = Inr (res, repo) \<Longrightarrow>
      P (c, w\<lparr>wd_repo := repo, wd_ticks := wd_ticks w + 1\<rparr>)"
    and advanced: "P (c, w) \<Longrightarrow> pa_command_id command = advance_command_id d app (pa_target_state command) \<Longrightarrow>
      pa_target_state command \<in> {EXTRACTED, RULE_GATED, AI_SUGGESTED, AWAITING_HUMAN} \<Longrightarrow>
      advance_pipeline (rp_transition (dp_repo d)) app command actor (dp_tick d (wd_ticks w)) (wd_repo w) = Inr (res, repo) \<Longrightarrow>
      P (c, w\<lparr>wd_repo := repo, wd_ticks := wd_ticks w + 1\<rparr>)"
    and ingest_calls: "dp_ingest d q timeout x = (r1, x') \<Longrightarrow> may_call ''findociq_ingest'' x x'"
    and extract_calls: "dp_extract d xq timeout x = (r2, x') \<Longrightarrow> may_call ''findociq_extract'' x x'"
    and retrieve_calls: "dp_retrieve d a ps timeout x = (r3, x') \<Longrightarrow> may_call ''qdrant_search'' x x'"
    and report_calls: "dp_report d = Some f \<Longrightarrow> f app' stage details x = (r4, x') \<Longrightarrow> may_report x x'"
begin

lemma fs_step: "step_keeps P Q (on_fs m)"
  by (rule step_keepsI) (auto simp: on_fs_def split: prod.splits sum.splits dest: fs_change intro: weaker)

lemma tool_step:
  assumes "tool \<in> own" and "\<And>timeout x r x'. operation timeout x = (r, x') \<Longrightarrow> may_call tool x x'"
  shows "step_keeps P Q (call_tool tool (on_ext operation))"
  by (rule step_keepsI)
    (auto simp: call_tool_def execute_def on_ext_def Let_def split: prod.splits sum.splits
      intro: call_refused weaker [OF called [OF _ assms(1)]] called [OF _ assms(1)] assms(2))

lemma service_steps:
  "''findociq_ingest'' \<in> own \<Longrightarrow> step_keeps P Q (call_tool ''findociq_ingest'' (on_ext (dp_ingest d q)))"
  "''findociq_extract'' \<in> own \<Longrightarrow> step_keeps P Q (call_tool ''findociq_extract'' (on_ext (dp_extract d e)))"
  "''qdrant_search'' \<in> own \<Longrightarrow> step_keeps P Q (call_tool ''qdrant_search'' (on_ext (dp_retrieve d a ps)))"
  by (auto intro: tool_step ingest_calls extract_calls retrieve_calls)

lemma report_step: "step_keeps P Q (report d app stage details)"
proof (cases "dp_report d")
  case None
  then show ?thesis by (simp add: report_def keeps_ret)
next
  case (Some f)
  have "P (c, w\<lparr>wd_ext := x\<rparr>)" if "P (c, w)" and "f app stage details (wd_ext w) = (r, x)" for c w r x
    by (rule report_change [OF that(1) report_calls [OF Some that(2)]])
  then show ?thesis
    by (intro step_keepsI)
      (auto simp: report_def Some raise_py_def split: prod.splits sum.splits intro: weaker)
qed

lemma workflow_step: "step_keeps P Q (ensure_workflow d app)"
proof (rule step_keepsI)
  fix s x s'
  assume "P s" and run: "ensure_workflow d app s = (Inr x, s')"
  then have Ps: "P (fst s, snd s)" by simp
  consider "s' = s" | m res repo where "rp_get (dp_repo d) app (wd_repo (snd s)) = Inl (WorkflowNotFoundError m)"
      "create_workflow (rp_create (dp_repo d)) app (dp_actor d) (Some (cx_command_id (fst s)))
        ''Agent-supervised borrower PDFs accepted into intake'' (dp_tick d (wd_ticks (snd s))) (wd_repo (snd s)) = Inr (res, repo)"
      "s' = (fst s, (snd s)\<lparr>wd_repo := repo, wd_ticks := wd_ticks (snd s) + 1\<rparr>)"
    using run by (cases s) (auto simp: ensure_workflow_def io_bind_def on_repo_def io_ret_def
        split: sum.splits workflow_error.splits)
  then show "P s'"
  proof cases
    case 2
    from created [OF Ps 2(1,2)] show ?thesis unfolding 2(3) .
  qed (simp add: \<open>P s\<close>)
next
  fix s e s'
  assume Ps: "P s" and run: "ensure_workflow d app s = (Inl e, s')"
  have "s' = s \<or> s' = (fst s, (snd s)\<lparr>wd_ticks := wd_ticks (snd s) + 1\<rparr>)"
    using run by (cases s) (auto simp: ensure_workflow_def io_bind_def on_repo_def io_ret_def
        split: sum.splits workflow_error.splits)
  moreover from Ps have "P (fst s, (snd s)\<lparr>wd_ticks := wd_ticks (snd s) + 1\<rparr>)" by (intro tick_change) simp
  ultimately show "Q s'" using Ps by (auto intro: weaker)
qed

lemma advance_step: "target \<in> {EXTRACTED, RULE_GATED, AI_SUGGESTED, AWAITING_HUMAN} \<Longrightarrow>
    step_keeps P Q (advance d app target suggestion)"
proof -
  assume target: "target \<in> {EXTRACTED, RULE_GATED, AI_SUGGESTED, AWAITING_HUMAN}"
  have "step_keeps P Q (on_repo d (advance_pipeline (rp_transition (dp_repo d)) app command actor))"
    if c: "pa_command_id command = advance_command_id d app (pa_target_state command)" "pa_target_state command = target"
    for command actor
  proof (rule step_keepsI)
    fix s x s'
    assume "P s" and run: "on_repo d (advance_pipeline (rp_transition (dp_repo d)) app command actor) s = (Inr x, s')"
    then obtain repo where r: "advance_pipeline (rp_transition (dp_repo d)) app command actor
        (dp_tick d (wd_ticks (snd s))) (wd_repo (snd s)) = Inr (x, repo)"
      and s': "s' = (fst s, (snd s)\<lparr>wd_repo := repo, wd_ticks := wd_ticks (snd s) + 1\<rparr>)"
      by (auto simp: on_repo_def split: prod.splits sum.splits)
    from \<open>P s\<close> have "P (fst s, snd s)" by simp
    from advanced [OF this c(1) _ r] c target show "P s'" unfolding s' by simp
  next
    fix s e s'
    assume "P s" and "on_repo d (advance_pipeline (rp_transition (dp_repo d)) app command actor) s = (Inl e, s')"
    then have "P (fst s, snd s)" and "s' = (fst s, (snd s)\<lparr>wd_ticks := wd_ticks (snd s) + 1\<rparr>)"
      by (auto simp: on_repo_def split: prod.splits sum.splits)
    with weaker [OF tick_change [of "fst s" "snd s"]] show "Q s'" by simp
  qed
  then show ?thesis
    unfolding advance_def by (intro bind workflow_step if_step keeps_ret) simp_all
qed

lemma lift_py_step: "step_keeps P Q (lift_py r)"
  unfolding lift_py_def by (rule lift)

lemma fail_step: "step_keeps P Q (fail_with code msg b1 b2)"
  unfolding fail_with_def by (rule raise)

lemma value_error_step: "step_keeps P Q (on_value_error failure r)"
  unfolding on_value_error_def by (cases r) (auto intro: raise lift_py_step split: py_exn.splits)

lemma command_step: "step_keeps P Q context_command"
  by (auto simp: step_keeps_def context_command_def)

lemmas steps = intros fs_step service_steps report_step workflow_step lift_py_step fail_step
  value_error_step command_step

lemma read_staged_step: "step_keeps P Q (read_staged d app files)"
proof (induction files)
  case (Cons f files)
  show ?case unfolding read_staged.simps by (intro steps Cons.IH)
qed (simp add: keeps_ret)

lemma process_documents_step:
  "ms_application_id state = app \<Longrightarrow> ''findociq_ingest'' \<in> own \<Longrightarrow> step_keeps P Q (process_documents d state)"
  unfolding process_documents_def call_ingest_def Let_def by (simp only:) (intro steps read_staged_step)

lemma metric_evidence_step: "''findociq_extract'' \<in> own \<Longrightarrow> step_keeps P Q (metric_evidence d app ids m)"
  unfolding metric_evidence_def extract_metric_def call_extract_def by (intro steps)

lemma collect_evidence_step: "''findociq_extract'' \<in> own \<Longrightarrow> step_keeps P Q (collect_evidence d app ids ms)"
proof (induction ms)
  case (Cons m ms)
  show ?case unfolding collect_evidence.simps by (intro steps metric_evidence_step Cons)
qed (simp add: keeps_ret)

lemma worker_steps:
  assumes "ms_application_id state = app"
  shows "''findociq_ingest'' \<in> own \<Longrightarrow> step_keeps P Q (document_processing_worker d state)"
    and "''findociq_extract'' \<in> own \<Longrightarrow> step_keeps P Q (financial_analysis_worker d state)"
    and "step_keeps P Q (eligibility_worker d state)"
    and "''qdrant_search'' \<in> own \<Longrightarrow> step_keeps P Q (retrieval_worker d state)"
    and "step_keeps P Q (suggestion_worker d state)"
    and "step_keeps P Q (human_review_worker d state)"
  unfolding document_processing_worker_def financial_analysis_worker_def eligibility_worker_def
    retrieval_worker_def suggestion_worker_def human_review_worker_def Let_def
  by (simp_all only: assms)
    (intro steps process_documents_step [OF assms] collect_evidence_step advance_step; simp)+

lemma guardrail_step:
  assumes "gd_deps g = d" and "ms_application_id state = app" and "''qdrant_verify'' \<in> own"
    and "\<And>f ids timeout x r x'. gd_resolver g = Some f \<Longrightarrow> f ids timeout x = (r, x') \<Longrightarrow> may_call ''qdrant_verify'' x x'"
  shows "step_keeps P Q (guardrail_worker g state)"
proof -
  have "step_keeps P Q (call_tool ''qdrant_verify'' (on_ext (f ids)))" if "gd_resolver g = Some f" for f ids
    using assms(3,4) that by (intro tool_step) auto
  then have "step_keeps P Q (check_precedents g r)" for r
    unfolding check_precedents_def by (cases "gd_resolver g") (simp_all add: steps)
  then show ?thesis
    unfolding guardrail_worker_def Let_def by (simp only: assms(1,2)) (intro steps)
qed

theorem fixed_worker_step:
  assumes "gd_deps g = d" and "ms_application_id state = app" and "worker_tools w \<subseteq> own"
    and "\<And>f ids timeout x r x'. gd_resolver g = Some f \<Longrightarrow> f ids timeout x = (r, x') \<Longrightarrow> may_call ''qdrant_verify'' x x'"
  shows "step_keeps P Q (fixed_worker g w state)"
  using assms(3)
  unfolding fixed_worker_def assms(1)
  by (cases w) (simp_all add: worker_steps [OF assms(2)] guardrail_step [OF assms(1,2) _ assms(4)])

end

section \<open>Budget\<close>

text \<open>
  The calls are observed from outside: \<open>calls\<close> reads a log to which each service adds its own name
  when it is called. \<open>logs_to\<close> says that of the services, the observed log then agrees with the
  context of the worker.
\<close>

definition logs_to :: "('x \<Rightarrow> string list) \<Rightarrow> ('r, 'x) deps \<Rightarrow> bool" where
  "logs_to calls d \<longleftrightarrow>
     (\<forall>q timeout x. calls (snd (dp_ingest d q timeout x)) = calls x @ [''findociq_ingest'']) \<and>
     (\<forall>e timeout x. calls (snd (dp_extract d e timeout x)) = calls x @ [''findociq_extract'']) \<and>
     (\<forall>a ps timeout x. calls (snd (dp_retrieve d a ps timeout x)) = calls x @ [''qdrant_search'']) \<and>
     (\<forall>f app stage details x. dp_report d = Some f \<longrightarrow> calls (snd (f app stage details x)) = calls x)"

definition calls_allowed :: "worker_context \<Rightarrow> string set \<Rightarrow> string list \<Rightarrow> bool" where
  "calls_allowed c own ts \<longleftrightarrow> list_all (tool_permitted c) ts \<and> set ts \<subseteq> own \<and>
     cx_tool_calls c + length ts \<le> max (cx_tool_calls c) (cx_max_tool_calls c)"

definition observed ::
  "('x \<Rightarrow> string list) \<Rightarrow> ('r, 'x) deps \<Rightarrow> worker_context \<Rightarrow> string set \<Rightarrow> string list \<Rightarrow> worker_context \<times> ('r, 'x) world \<Rightarrow> bool" where
  "observed calls d c0 own before = (\<lambda>(c, w). logs_to calls d \<longrightarrow>
     (\<exists>ts. calls (wd_ext w) = before @ ts \<and> calls_allowed c0 own ts))"

definition in_step ::
  "('x \<Rightarrow> string list) \<Rightarrow> ('r, 'x) deps \<Rightarrow> worker_context \<Rightarrow> string set \<Rightarrow> string list \<Rightarrow> worker_context \<times> ('r, 'x) world \<Rightarrow> bool" where
  "in_step calls d c0 own before = (\<lambda>(c, w). logs_to calls d \<longrightarrow>
     (\<exists>ts. calls (wd_ext w) = before @ ts \<and> calls_allowed c0 own ts \<and>
        c = c0\<lparr>cx_tool_calls := cx_tool_calls c0 + length ts, cx_tools := cx_tools c0 @ ts\<rparr>))"

lemma call_in_step:
  assumes "in_step calls d c0 own before (c, w)" and "tool \<in> own" and "consume_tool_call tool c = (Inr u, c')"
    and "logs_to calls d \<longrightarrow> calls x = calls (wd_ext w) @ [tool]"
  shows "in_step calls d c0 own before (c', w\<lparr>wd_ext := x\<rparr>)"
  unfolding in_step_def prod.case
proof
  assume logs: "logs_to calls d"
  with assms(1) obtain ts where ts: "calls (wd_ext w) = before @ ts" "calls_allowed c0 own ts"
    "c = c0\<lparr>cx_tool_calls := cx_tool_calls c0 + length ts, cx_tools := cx_tools c0 @ ts\<rparr>"
    by (auto simp: in_step_def)
  with assms(2-4) logs show "\<exists>ts. calls (wd_ext (w\<lparr>wd_ext := x\<rparr>)) = before @ ts \<and> calls_allowed c0 own ts \<and>
      c' = c0\<lparr>cx_tool_calls := cx_tool_calls c0 + length ts, cx_tools := cx_tools c0 @ ts\<rparr>"
    by (intro exI [of _ "ts @ [tool]"])
      (auto simp: consume_tool_call_Inr calls_allowed_def tool_permitted_def)
qed

interpretation budget: worker_property "in_step calls d c0 own before" "observed calls d c0 own before" d app own
    "\<lambda>tool x x'. logs_to calls d \<longrightarrow> calls x' = calls x @ [tool]" "\<lambda>x x'. logs_to calls d \<longrightarrow> calls x' = calls x"
  for calls :: "'x \<Rightarrow> string list" and d :: "('r, 'x) deps" and c0 own before app
proof unfold_locales
  fix c w tool c' x
  assume "in_step calls d c0 own before (c, w)" and "tool \<in> own" and "consume_tool_call tool c = (Inr (), c')"
    and "logs_to calls d \<longrightarrow> calls x = calls (wd_ext w) @ [tool]"
  then show "in_step calls d c0 own before (c', w\<lparr>wd_ext := x\<rparr>)" by (rule call_in_step)
next
  fix q timeout x r x'
  assume "dp_ingest d q timeout x = (r, x')"
  then show "logs_to calls d \<longrightarrow> calls x' = calls x @ [''findociq_ingest'']" by (metis logs_to_def snd_conv)
next
  fix e timeout x r x'
  assume "dp_extract d e timeout x = (r, x')"
  then show "logs_to calls d \<longrightarrow> calls x' = calls x @ [''findociq_extract'']" by (metis logs_to_def snd_conv)
next
  fix a ps timeout x r x'
  assume "dp_retrieve d a ps timeout x = (r, x')"
  then show "logs_to calls d \<longrightarrow> calls x' = calls x @ [''qdrant_search'']" by (metis logs_to_def snd_conv)
next
  fix f app' stage details x r x'
  assume "dp_report d = Some f" and "f app' stage details x = (r, x')"
  then show "logs_to calls d \<longrightarrow> calls x' = calls x" by (metis logs_to_def snd_conv)
qed (auto simp: in_step_def observed_def)

section \<open>Identity\<close>

text \<open>A worker returns results under its own name, so the identity check of the graph never fires.\<close>

lemma make_worker_result_Inr: "make_worker_result r = Inr r' \<Longrightarrow> r' = r"
  by (auto simp: make_worker_result_def result_elims)

lemma lift_result:
  "lift_py (make_worker_result r) s = (Inr r', s') \<Longrightarrow> r' = r"
  by (auto simp: lift_py_def raise_py_def io_lift_def split: sum.splits dest: make_worker_result_Inr)

lemma fixed_worker_identity:
  assumes "fixed_worker g w s cw = (Inr r, cw')"
  shows "rs_worker r = w"
proof (cases w)
  case DOCUMENT_PROCESSING
  with assms show ?thesis
    by (auto simp: fixed_worker_def document_processing_worker_def Let_def io_bind_Inr with_workflow_def
        worker_result0_def dest!: lift_result)
next
  case FINANCIAL_ANALYSIS
  with assms show ?thesis
    by (auto simp: fixed_worker_def financial_analysis_worker_def Let_def io_bind_Inr with_workflow_def
        worker_result0_def dest!: lift_result)
next
  case ELIGIBILITY
  with assms show ?thesis
    by (auto simp: fixed_worker_def eligibility_worker_def Let_def io_bind_Inr with_workflow_def
        worker_result0_def dest!: lift_result)
next
  case PRECEDENT_RETRIEVAL
  with assms show ?thesis
    by (auto simp: fixed_worker_def retrieval_worker_def Let_def io_bind_Inr worker_result0_def dest!: lift_result)
next
  case SUGGESTION
  with assms show ?thesis
    by (auto simp: fixed_worker_def suggestion_worker_def Let_def io_bind_Inr with_workflow_def
        worker_result0_def dest!: lift_result)
next
  case GUARDRAILS
  with assms show ?thesis
    by (auto simp: fixed_worker_def guardrail_worker_def Let_def io_bind_Inr worker_result0_def dest!: lift_result)
next
  case HUMAN_REVIEW
  with assms show ?thesis
    by (auto simp: fixed_worker_def human_review_worker_def Let_def io_bind_Inr with_workflow_def
        worker_result0_def dest!: lift_result)
qed

section \<open>The workflow repository\<close>

definition postgres_ops :: "postgres_repo repo_ops" where
  "postgres_ops = \<lparr>rp_create = pg_create, rp_get = pg_get, rp_transition = pg_transition\<rparr>"

definition memory_ops :: "memory_repo repo_ops" where
  "memory_ops = \<lparr>rp_create = mem_create, rp_get = mem_get, rp_transition = mem_transition\<rparr>"

text \<open>
  \<open>recorded\<close>: the histories satisfy the audit contract and no identifier still to be drawn has
  been used. \<open>audited\<close>: that, when the repository is the Postgres one and identifiers are fresh.
\<close>

definition fresh_ticks :: "(postgres_repo, 'x) deps \<Rightarrow> bool" where
  "fresh_ticks d \<longleftrightarrow> dp_repo d = postgres_ops \<and> inj (\<lambda>n. tk_audit_id (dp_tick d n))"

definition recorded :: "(nat \<Rightarrow> tick) \<Rightarrow> (postgres_repo, 'x) world \<Rightarrow> bool" where
  "recorded ticks w \<longleftrightarrow> pg.tracked (wd_repo w) \<and>
     (\<forall>n \<ge> wd_ticks w. \<not> pg_used (wd_repo w) (tk_audit_id (ticks n)))"

definition audited :: "(postgres_repo, 'x) deps \<Rightarrow> (postgres_repo, 'x) world \<Rightarrow> bool" where
  "audited d w \<longleftrightarrow> (fresh_ticks d \<longrightarrow> recorded (dp_tick d) w)"

lemma recorded_same: "wd_repo w' = wd_repo w \<Longrightarrow> wd_ticks w' = wd_ticks w \<Longrightarrow> recorded ticks w' = recorded ticks w"
  by (simp add: recorded_def)

lemma recorded_later: "recorded ticks w \<Longrightarrow> recorded ticks (w\<lparr>wd_ticks := wd_ticks w + 1\<rparr>)"
  by (auto simp: recorded_def)

lemma recorded_step:
  assumes "inj (\<lambda>n. tk_audit_id (ticks n))" and "recorded ticks w"
    and "service_apply pg_create pg_transition c (ticks (wd_ticks w)) (wd_repo w) = Inr (res, repo)"
  shows "recorded ticks (w\<lparr>wd_repo := repo, wd_ticks := wd_ticks w + 1\<rparr>)"
proof -
  from assms(2) have t: "pg.tracked (wd_repo w)" and u: "\<forall>n \<ge> wd_ticks w. \<not> pg_used (wd_repo w) (tk_audit_id (ticks n))"
    by (auto simp: recorded_def)
  from pg.service_step [OF t _ assms(3)] u have step: "pg.tracked repo"
      "pg.extends (wd_repo w) repo (tk_audit_id (ticks (wd_ticks w)))" by auto
  have "\<not> pg_used repo (tk_audit_id (ticks n))" if "wd_ticks w + 1 \<le> n" for n
  proof -
    from assms(1) that have "tk_audit_id (ticks n) \<noteq> tk_audit_id (ticks (wd_ticks w))" by (auto dest: injD)
    with step(2) u that show ?thesis by (auto simp: pg.extends_def)
  qed
  with step(1) show ?thesis by (simp add: recorded_def)
qed

lemma audited_step:
  assumes "audited d w" and "service_apply pg_create pg_transition c (dp_tick d (wd_ticks w)) (wd_repo w) = Inr (res, repo)"
  shows "audited d (w\<lparr>wd_repo := repo, wd_ticks := wd_ticks w + 1\<rparr>)"
  using assms recorded_step [of "dp_tick d" w c res repo] by (auto simp: audited_def fresh_ticks_def)

definition audited_state :: "(postgres_repo, 'x) deps \<Rightarrow> worker_context \<times> (postgres_repo, 'x) world \<Rightarrow> bool" where
  "audited_state d cw = audited d (snd cw)"

interpretation audit: worker_property "audited_state d" "audited_state d" d app UNIV "\<lambda>_ _ _. True" "\<lambda>_ _. True"
  for d :: "(postgres_repo, 'x) deps" and app
proof unfold_locales
  fix c w m actor reason res repo
  assume a: "audited_state d (c, w)"
    and run: "create_workflow (rp_create (dp_repo d)) app actor (Some (cx_command_id c)) reason
      (dp_tick d (wd_ticks w)) (wd_repo w) = Inr (res, repo)"
  show "audited_state d (c, w\<lparr>wd_repo := repo, wd_ticks := wd_ticks w + 1\<rparr>)"
  proof (cases "dp_repo d = postgres_ops")
    case True
    with a run audited_step [of d w "Create app actor (Some (cx_command_id c)) reason" res repo] show ?thesis
      by (simp add: audited_state_def postgres_ops_def)
  qed (simp add: audited_state_def audited_def recorded_def fresh_ticks_def)
next
  fix c w command actor res repo
  assume a: "audited_state d (c, w)"
    and run: "advance_pipeline (rp_transition (dp_repo d)) app command actor (dp_tick d (wd_ticks w)) (wd_repo w) = Inr (res, repo)"
  show "audited_state d (c, w\<lparr>wd_repo := repo, wd_ticks := wd_ticks w + 1\<rparr>)"
  proof (cases "dp_repo d = postgres_ops")
    case True
    with a run audited_step [of d w "Advance app command actor" res repo] show ?thesis
      by (simp add: audited_state_def postgres_ops_def)
  qed (simp add: audited_state_def audited_def recorded_def fresh_ticks_def)
qed (auto simp: audited_state_def audited_def recorded_def)

section \<open>A pipeline that was already advanced\<close>

text \<open>
  The command of an advance depends on the application and the target only. Once all four are
  recorded for a case, they are replayed: no worker moves the case any more.
\<close>

definition pipeline_recorded :: "(postgres_repo, 'x) deps \<Rightarrow> app_id \<Rightarrow> postgres_repo \<Rightarrow> bool" where
  "pipeline_recorded d app p \<longleftrightarrow> find_case app (pg_cases p) \<noteq> None \<and>
     list_all (\<lambda>t. command_result app (advance_command_id d app t) p \<noteq> None)
       [EXTRACTED, RULE_GATED, AI_SUGGESTED, AWAITING_HUMAN]"

definition stuck_at :: "(postgres_repo, 'x) deps \<Rightarrow> app_id \<Rightarrow> postgres_repo \<Rightarrow> worker_context \<times> (postgres_repo, 'x) world \<Rightarrow> bool" where
  "stuck_at d app p cw \<longleftrightarrow> (dp_repo d = postgres_ops \<and> pipeline_recorded d app p \<longrightarrow> wd_repo (snd cw) = p)"

interpretation replayed: worker_property "stuck_at d app p" "stuck_at d app p" d app UNIV "\<lambda>_ _ _. True" "\<lambda>_ _. True"
  for d :: "(postgres_repo, 'x) deps" and app p
proof unfold_locales
  fix c w m actor reason res repo
  assume a: "stuck_at d app p (c, w)"
    and get: "rp_get (dp_repo d) app (wd_repo w) = Inl (WorkflowNotFoundError m)"
  show "stuck_at d app p (c, w\<lparr>wd_repo := repo, wd_ticks := wd_ticks w + 1\<rparr>)"
    using a get by (auto simp: stuck_at_def postgres_ops_def pipeline_recorded_def pg_get_def)
next
  fix c w command actor res repo
  assume a: "stuck_at d app p (c, w)"
    and cid: "pa_command_id command = advance_command_id d app (pa_target_state command)"
    and target: "pa_target_state command \<in> {EXTRACTED, RULE_GATED, AI_SUGGESTED, AWAITING_HUMAN}"
    and run: "advance_pipeline (rp_transition (dp_repo d)) app command actor (dp_tick d (wd_ticks w)) (wd_repo w) = Inr (res, repo)"
  show "stuck_at d app p (c, w\<lparr>wd_repo := repo, wd_ticks := wd_ticks w + 1\<rparr>)"
    unfolding stuck_at_def
  proof (intro impI)
    assume h: "dp_repo d = postgres_ops \<and> pipeline_recorded d app p"
    with a have w: "wd_repo w = p" by (simp add: stuck_at_def)
    from h cid target obtain prior where "command_result app (pa_command_id command) p = Some prior"
      by (auto simp: pipeline_recorded_def)
    with run h w have "repo = p"
      by (auto simp: advance_pipeline_def postgres_ops_def pg_transition_def result_elims)
    then show "wd_repo (snd (c, w\<lparr>wd_repo := repo, wd_ticks := wd_ticks w + 1\<rparr>)) = p" by simp
  qed
qed (auto simp: stuck_at_def)

end
