(* ===== verification/FM_Agent.thy ===== *)
theory FM_Agent
  imports FM_Worker_Facts FM_Graph_Facts
begin

text \<open>
  The agent as the application wires it (\<open>create_app\<close> in \<open>api/app.py\<close>): the supervisor over the
  seven fixed workers, their artifact store and the workflow repository; and what a run of the
  graph keeps of the world its workers act on.
\<close>

section \<open>The graph over a world\<close>

text \<open>
  \<open>W\<close> is kept by every run of a worker for the applications \<open>ok\<close>, by the callbacks and by the
  cleanup: then every operation of the graph keeps it.
\<close>

text \<open>The commands that run workers, and the applications they run them for.\<close>

fun command_about :: "(app_id \<Rightarrow> bool) \<Rightarrow> graph_command \<Rightarrow> bool" where
  "command_about ok (Start app job_id inputs) = ok app"
| "command_about ok (Resume app) = ok app"
| "command_about ok (Rewind app worker) = ok app"
| "command_about ok _ = True"

lemma command_about_all: "command_about (\<lambda>_. True) c"
  by (cases c) simp_all

locale graph_world =
  fixes env :: "'w graph_env" and W :: "'w \<Rightarrow> bool" and ok :: "app_id \<Rightarrow> bool"
  assumes run_keeps: "W w \<Longrightarrow> ok (ms_application_id s) \<Longrightarrow>
      ge_run env worker deadline s (c, w) = (r, c', w') \<Longrightarrow> W w'"
    and activity_keeps: "W w \<Longrightarrow> W (notify_activity env a w)"
    and recorder_keeps: "W w \<Longrightarrow> W (snd (ge_recorder env event w))"
    and sleep_keeps: "W w \<Longrightarrow> W (ge_sleep env t w)"
    and cleanup_hook_keeps: "W w \<Longrightarrow> ge_cleanup env = Some f \<Longrightarrow> W (snd (f app w))"
begin

sublocale w: step_property W W
  by unfold_locales

lemma span_keeps: "step_keeps W W (record_span env event)"
  by (rule step_keepsI) (auto simp: record_span_def split: prod.splits option.splits dest: recorder_keeps [of _ event])

lemma failure_keeps: "W w \<Longrightarrow> W (snd (handle_failure env s worker attempt e w))"
proof (cases e)
  case (WFailure code msg retryable attention_flag)
  assume "W w"
  with WFailure show ?thesis
    by (auto simp: Let_def io_bind_def io_lift_def split: prod.splits sum.splits
        intro!: activity_keeps dest: step_keeps_Inr [OF span_keeps] step_keeps_Inl [OF span_keeps])
next
  case (WPy p)
  assume "W w"
  with WPy show ?thesis
    by (auto simp: Let_def io_bind_def io_lift_def split: prod.splits sum.splits
        intro!: activity_keeps dest: step_keeps_Inr [OF span_keeps] step_keeps_Inl [OF span_keeps])
qed (simp add: io_lift_def)

lemma attempt_keeps:
  assumes "W w" and "ok (ms_application_id s)" and "attempt_worker env s worker attempt (c, w) = (r, c', w')"
  shows "W w'"
  using assms run_keeps
  by (auto simp: attempt_worker_def io_bind_def io_ensure_def io_ret_def split: prod.splits sum.splits if_splits)

lemma run_worker_world:
  assumes "W w" and "ok (ms_application_id s)"
  shows "W (snd (run_worker env s w))"
proof (cases "validate_compact_state (ge_dump_size env) s")
  case (Inl e)
  with assms show ?thesis by (simp add: run_worker_def io_state)
next
  case (Inr s0)
  then have s0: "s0 = s" by (simp add: validate_compact_state_Inr)
  show ?thesis
  proof (cases "make_context env s (ms_current_node s)")
    case (Inl e)
    with assms Inr s0 show ?thesis by (simp add: run_worker_def io_state Let_def)
  next
    case (Inr c)
    let ?worker = "ms_current_node s" and ?attempt = "attempts_of s (ms_current_node s) + 1"
    let ?w1 = "notify_activity env (stage_activity s (worker_value ?worker) ?worker ?attempt) w"
    obtain r c' w2 where att: "attempt_worker env s ?worker ?attempt (c, ?w1) = (r, c', w2)"
      by (cases "attempt_worker env s ?worker ?attempt (c, ?w1)") auto
    from attempt_keeps [OF activity_keeps [OF assms(1)] assms(2) att] have w2: "W w2" .
    show ?thesis
    proof (cases r)
      case (Inl e)
      with att failure_keeps [OF w2] \<open>validate_compact_state _ s = Inr s0\<close> \<open>make_context _ _ _ = Inr c\<close> s0
      show ?thesis by (simp add: run_worker_def io_state Let_def)
    next
      case (Inr result)
      with att w2 \<open>validate_compact_state _ s = Inr s0\<close> \<open>make_context _ _ _ = Inr c\<close> s0 show ?thesis
        by (auto simp: run_worker_def io_state Let_def io_bind_def io_lift_def split: prod.splits sum.splits
            intro!: activity_keeps dest: step_keeps_Inr [OF span_keeps] step_keeps_Inl [OF span_keeps])
    qed
  qed
qed

lemma run_worker_app: "run_worker env s w = (Inr s', w') \<Longrightarrow> ms_application_id s' = ms_application_id s"
  using run_worker_shape [of env s w s' w'] by (auto simp: succeeded_from_def failed_from_def)

lemma graph_loop_world:
  assumes "W w" and "ok (ms_application_id s)" and "graph_loop env n s w = (exn, s', w')"
  shows "W w'"
  using assms
proof (induction n arbitrary: s w)
  case 0
  then show ?case by simp
next
  case (Suc n)
  obtain r w1 where run: "run_worker env s w = (r, w1)" by (cases "run_worker env s w") auto
  from run_worker_world [OF Suc.prems(1,2)] run have w1: "W w1" by simp
  show ?case
  proof (cases r)
    case (Inl e)
    with Suc.prems(3) run w1 show ?thesis by simp
  next
    case (Inr s1)
    with run run_worker_app Suc.prems(2) have "ok (ms_application_id s1)" by auto
    from Suc.IH [OF w1 this] Suc.prems(3) run Inr w1 show ?thesis by (simp split: if_splits)
  qed
qed

abbreviation keeps :: "(('w, 'l) graph_state, py_exn, 'a) io \<Rightarrow> bool" where
  "keeps m \<equiv> \<forall>g. W (gr_world g) \<longrightarrow> W (gr_world (snd (m g)))"

lemma keeps_bind_lift: "(\<And>x. r = Inr x \<Longrightarrow> keeps (f x)) \<Longrightarrow> keeps (io_bind (io_lift r) f)"
  by (simp add: snd_io_bind_lift split: sum.splits)

lemma keeps_life: "keeps (life_status env ops app status node err)"
  by (auto simp: life_status_def split: sum.splits prod.splits)

lemma keeps_update: "keeps (update_thread env ops app s)"
  by (auto simp: update_thread_def io_bind_def io_ret_def life_status_def save_checkpoint_def split: sum.splits prod.splits)

lemma keeps_invoke:
  assumes "ok (ms_application_id merged)" and w: "W (gr_world g)"
  shows "W (gr_world (snd (invoke env ops app merged g)))"
proof -
  obtain exn final w' where loop: "graph_loop env (ge_recursion_limit env) merged (gr_world g) = (exn, final, w')"
    by (cases "graph_loop env (ge_recursion_limit env) merged (gr_world g)") auto
  from graph_loop_world [OF w assms(1) loop] have "W w'" .
  then show "W (gr_world (snd (invoke env ops app merged g)))"
    by (auto simp: invoke_def loop Let_def io_bind_def io_lift_def io_ensure_def io_ret_def life_status_def
        in_world_def save_checkpoint_def split: option.splits prod.splits sum.splits if_splits
        dest: step_keeps_Inr [OF span_keeps] step_keeps_Inl [OF span_keeps])
qed

text \<open>The operations on a thread of one of the applications.\<close>

lemma state_of_app: "state_of env app g = Inr s \<Longrightarrow> ms_application_id s = app"
  by (drule state_of_Inr) simp

lemma start_world:
  assumes "ok app" and w: "W (gr_world g)"
  shows "W (gr_world (snd (start env ops app job_id inputs g)))"
proof -
  show "W (gr_world (snd (start env ops app job_id inputs g)))"
  proof (cases "state_or_none env app g")
    case (Inr existing)
    show ?thesis
    proof (cases existing)
      case None
      show ?thesis
      proof (cases "initial_state (ge_dump_size env) (ge_uuid5 env) app (ge_order env) job_id inputs")
        case (Inr s)
        from initial_state_ok(2) [OF Inr] assms have "ok (ms_application_id s)" by simp
        from keeps_invoke [OF this, of _ ops app] w Inr None \<open>state_or_none env app g = Inr existing\<close>
        show ?thesis by (simp add: start_def io_state)
      qed (use w Inr None in \<open>simp add: start_def io_state\<close>)
    qed (use w Inr in \<open>simp add: start_def io_state\<close>)
  qed (use w in \<open>simp add: start_def io_state\<close>)
qed

lemma terminal_world: "keeps (mark_terminal env ops app status)"
  using keeps_update by (auto simp: mark_terminal_def io_state split: sum.splits)

lemma complete_world: "keeps (complete_after_writeback env ops app receipt)"
  using keeps_update by (auto simp: complete_after_writeback_def io_state split: sum.splits)

lemma mark_world:
  "keeps (mark_needs_attention env ops app code)" "keeps (mark_retryable env ops app code msg)"
  using keeps_update by (auto simp: mark_needs_attention_def mark_retryable_def io_state split: sum.splits)

lemma resume_world:
  assumes "ok app" and w: "W (gr_world g)"
  shows "W (gr_world (snd (resume env ops app g)))"
proof -
  show "W (gr_world (snd (resume env ops app g)))"
  proof (cases "state_of env app g")
    case (Inl e)
    with w show ?thesis by (simp add: resume_def io_state)
  next
    case (Inr s)
    with assms(1) state_of_app [OF Inr] have "ok (ms_application_id (s\<lparr>ms_status := RUNNING, ms_last_error := None\<rparr>))" by simp
    from keeps_invoke [OF this, of _ ops app] terminal_world [of ops app FAILED_TERMINAL] w Inr sleep_keeps [OF w]
    show ?thesis
      by (simp add: resume_def io_state Let_def split: option.splits if_splits)
  qed
qed

lemma rewind_world:
  assumes "ok app" and w: "W (gr_world g)"
  shows "W (gr_world (snd (rewind env ops app worker g)))"
proof -
  show "W (gr_world (snd (rewind env ops app worker g)))"
  proof (cases "state_of env app g")
    case (Inl e)
    with w show ?thesis by (simp add: rewind_def io_state)
  next
    case (Inr s)
    let ?changed = "rewind_changes (ge_order env) worker s"
    from assms(1) state_of_app [OF Inr] have "ok (ms_application_id ?changed)"
      by (simp add: rewind_changes_def Let_def)
    note inv = keeps_invoke [OF this, of _ ops app]
    have "W (gr_world (snd (io_bind (life_status env ops app RUNNING worker None)
        (\<lambda>_. invoke env ops app ?changed) (save_checkpoint app ?changed g))))"
      using inv w by (auto simp: io_bind_def life_status_def save_checkpoint_def split: sum.splits prod.splits)
    with w Inr show ?thesis by (simp add: rewind_def io_state Let_def)
  qed
qed

lemma cleanup_one_world: "keeps (cleanup_one env ops app)"
  using cleanup_hook_keeps
  by (auto simp: cleanup_one_def io_bind_def io_ret_def in_world_def split: option.splits prod.splits sum.splits)
    (metis snd_conv)+

lemma cleanup_each_world: "keeps (io_each (cleanup_one env ops) apps)"
proof (induction apps)
  case (Cons app apps)
  have "W (gr_world (snd (io_each (cleanup_one env ops) (app # apps) g)))" if w: "W (gr_world g)" for g
  proof -
    obtain r g' where one: "cleanup_one env ops app g = (r, g')" by (cases "cleanup_one env ops app g") auto
    from cleanup_one_world [of ops app] w one have "W (gr_world g')" by (metis snd_conv)
    with Cons.IH one show ?thesis
      by (cases r) simp_all
  qed
  then show ?case by blast
qed simp

lemma cleanup_world: "keeps (cleanup_expired env ops now)"
  using cleanup_each_world [of ops]
  by (auto simp: cleanup_expired_def Let_def io_bind_def io_ret_def split: prod.splits sum.splits) (metis snd_conv)+

lemma apply_world: "W (gr_world g) \<Longrightarrow> command_about ok c \<Longrightarrow> W (gr_world (graph_apply env ops c g))"
  using start_world resume_world rewind_world terminal_world [rule_format] complete_world [rule_format]
    mark_world [rule_format] cleanup_world [rule_format]
  by (cases c) (auto simp: flag_stale_def split: prod.splits)

theorem run_world:
  "W (gr_world g) \<Longrightarrow> list_all (command_about ok) cs \<Longrightarrow> W (gr_world (graph_run env ops cs g))"
  unfolding graph_run_def by (induction cs arbitrary: g) (simp_all add: apply_world)

end

section \<open>The agent\<close>

text \<open>
  What surrounds the graph in \<open>create_app\<close>: the activity bridge over the job store, the span
  recorder, the retention cleanup, the clock. They act on the files and on the systems outside;
  none of them is given the workflow repository. \<open>ou_late\<close> says which attempts overrun their
  deadline: the model lets the cut take effect when the attempt ends.
\<close>

record 'x outside =
  ou_activity :: "(activity \<Rightarrow> 'x \<Rightarrow> py_exn option \<times> 'x) option"
  ou_recorder :: "agent_span \<Rightarrow> filesystem \<times> 'x \<Rightarrow> py_exn option \<times> (filesystem \<times> 'x)"
  ou_cleanup :: "(app_id \<Rightarrow> (filesystem \<times> 'x, py_exn, unit) io) option"
  ou_late :: "worker_name \<Rightarrow> nat \<Rightarrow> 'x \<Rightarrow> bool"
  ou_clock :: "'x \<Rightarrow> timestamp"
  ou_latency :: "'x \<Rightarrow> rat"
  ou_sleep :: "rat \<Rightarrow> 'x \<Rightarrow> 'x"
  ou_run_id :: "'x \<Rightarrow> string"
  ou_checkpoint_id :: "app_id \<Rightarrow> 'x \<Rightarrow> string option"
  ou_signer :: "(signed_part \<Rightarrow> string) option"
  ou_retention :: timestamp

definition files_and_outside :: "('r, 'x) world \<Rightarrow> filesystem \<times> 'x" where
  "files_and_outside w = (wd_fs w, wd_ext w)"

definition put_outside :: "filesystem \<times> 'x \<Rightarrow> ('r, 'x) world \<Rightarrow> ('r, 'x) world" where
  "put_outside y w = w\<lparr>wd_fs := fst y, wd_ext := snd y\<rparr>"

definition run_attempt ::
  "('r, 'x) guard \<Rightarrow> 'x outside \<Rightarrow> worker_name \<Rightarrow> nat option \<Rightarrow> memory_state \<Rightarrow> ('r, 'x, worker_result) step" where
  "run_attempt g out worker deadline s cw =
     (case fixed_worker g worker s cw of
        (r, c, w) \<Rightarrow>
          (case deadline of
             None \<Rightarrow> (r, c, w)
           | Some t \<Rightarrow> if ou_late out worker t (wd_ext w) then (Inl WTimeout, c, w) else (r, c, w)))"

definition agent_env :: "('r, 'x) guard \<Rightarrow> 'x outside \<Rightarrow> ('r, 'x) world graph_env" where
  "agent_env g out =
     \<lparr>ge_order = DEFAULT_WORKER_ORDER, ge_max_tool_calls = 13, ge_policies = gd_execution g,
      ge_policy_hash = gd_policy_hash g, ge_signer = ou_signer out, ge_run = run_attempt g out,
      ge_activity = map_option (\<lambda>f a w. (case f a (wd_ext w) of (e, x) \<Rightarrow> (e, w\<lparr>wd_ext := x\<rparr>))) (ou_activity out),
      ge_recorder = (\<lambda>event w. (case ou_recorder out event (files_and_outside w) of (e, y) \<Rightarrow> (e, put_outside y w))),
      ge_cleanup = map_option (\<lambda>f app w. (case f app (files_and_outside w) of (r, y) \<Rightarrow> (r, put_outside y w)))
        (ou_cleanup out),
      ge_clock = (\<lambda>w. ou_clock out (wd_ext w)), ge_latency = (\<lambda>w. ou_latency out (wd_ext w)),
      ge_sleep = (\<lambda>t w. w\<lparr>wd_ext := ou_sleep out t (wd_ext w)\<rparr>),
      ge_run_id = (\<lambda>w. ou_run_id out (wd_ext w)),
      ge_checkpoint_id = (\<lambda>app w. ou_checkpoint_id out app (wd_ext w)),
      ge_uuid5 = dp_uuid5 (gd_deps g), ge_dump_size = gd_dump_size g,
      ge_recursion_limit = 25, ge_retention = ou_retention out\<rparr>"

lemma agent_env_simps [simp]:
  "ge_order (agent_env g out) = DEFAULT_WORKER_ORDER" "ge_run (agent_env g out) = run_attempt g out"
  "ge_dump_size (agent_env g out) = gd_dump_size g" "ge_recursion_limit (agent_env g out) = 25"
  "ge_policies (agent_env g out) = gd_execution g"
  by (simp_all add: agent_env_def)

lemma run_attempt_run:
  assumes "run_attempt g out worker deadline s (c, w) = (r, c', w')"
  obtains r' where "fixed_worker g worker s (c, w) = (r', c', w')" "r = r' \<or> r = Inl WTimeout"
  using assms by (auto simp: run_attempt_def split: prod.splits option.splits if_splits)

lemma outside_simps [simp]:
  "wd_repo (put_outside y w) = wd_repo w" "wd_ticks (put_outside y w) = wd_ticks w"
  by (simp_all add: put_outside_def)

text \<open>
  A property of the repository and of the identifiers drawn is untouched by what surrounds the
  graph; the workers keep it when it has the closure of \<open>worker_property\<close>.
\<close>

lemma agent_world:
  assumes repo_only: "\<And>w w'. wd_repo w' = wd_repo w \<Longrightarrow> wd_ticks w' = wd_ticks w \<Longrightarrow> W w \<Longrightarrow> W w'"
    and workers: "\<And>worker s c w r c' w'. ok (ms_application_id s) \<Longrightarrow> W w \<Longrightarrow>
      fixed_worker g worker s (c, w) = (r, c', w') \<Longrightarrow> W w'"
  shows "graph_world (agent_env g out) W ok"
proof
  fix w s worker deadline c r c' w'
  assume "W w" and "ok (ms_application_id s)"
    and "ge_run (agent_env g out) worker deadline s (c, w) = (r, c', w')"
  then show "W w'" by (auto elim!: run_attempt_run dest: workers [rotated])
next
  fix w a
  assume "W w"
  then show "W (notify_activity (agent_env g out) a w)"
    by (auto simp: notify_activity_def agent_env_def split: option.splits prod.splits elim!: repo_only [rotated 2])
next
  fix w event
  assume "W w"
  then show "W (snd (ge_recorder (agent_env g out) event w))"
    by (auto simp: agent_env_def split: prod.splits elim!: repo_only [rotated 2])
next
  fix w t
  assume "W w"
  then show "W (ge_sleep (agent_env g out) t w)"
    by (auto simp: agent_env_def elim!: repo_only [rotated 2])
next
  fix w f app
  assume "W w" and "ge_cleanup (agent_env g out) = Some f"
  then show "W (snd (f app w))"
    by (auto simp: agent_env_def split: prod.splits elim!: repo_only [rotated 2])
qed

lemma step_keeps_state: "step_keeps P P m \<Longrightarrow> m s = (r, s') \<Longrightarrow> P s \<Longrightarrow> P s'"
  by (cases r) (auto dest: step_keeps_Inr step_keeps_Inl)

interpretation audited_agent: graph_world "agent_env g out" "audited (gd_deps g)" "\<lambda>_. True"
  for g :: "(postgres_repo, 'x) guard" and out
proof (rule agent_world)
  fix worker s c w r c' w'
  assume w: "audited (gd_deps g) w" and run: "fixed_worker g worker s (c, w) = (r, c', w')"
  have step: "step_keeps (audited_state (gd_deps g)) (audited_state (gd_deps g)) (fixed_worker g worker s)"
    by (rule audit.fixed_worker_step) simp_all
  from step_keeps_state [OF step run] w show "audited (gd_deps g) w'" by (simp add: audited_state_def)
qed (simp add: audited_def recorded_def)

interpretation replayed_agent: graph_world "agent_env g out" "\<lambda>w. stuck_at (gd_deps g) app p (c, w)" "\<lambda>a. a = app"
  for g :: "(postgres_repo, 'x) guard" and out app p c
proof (rule agent_world)
  fix worker s c0 w r c' w'
  assume app: "ms_application_id s = app"
    and w: "stuck_at (gd_deps g) app p (c, w)" and run: "fixed_worker g worker s (c0, w) = (r, c', w')"
  have step: "step_keeps (stuck_at (gd_deps g) app p) (stuck_at (gd_deps g) app p) (fixed_worker g worker s)"
    by (rule replayed.fixed_worker_step) (simp_all add: app)
  from step_keeps_state [OF step run] w show "stuck_at (gd_deps g) app p (c, w')" by (simp add: stuck_at_def)
qed (simp add: stuck_at_def)

section \<open>Decisions\<close>

text \<open>The events of a case that only people and the write-back may add.\<close>

definition pipeline_states :: "workflow_state list" where
  "pipeline_states = [INTAKE, EXTRACTED, RULE_GATED, AI_SUGGESTED, AWAITING_HUMAN]"

definition decisions :: "postgres_repo \<Rightarrow> app_id \<Rightarrow> audit_event list" where
  "decisions r a = (case pg_view r a of None \<Rightarrow> []
     | Some (w, evs) \<Rightarrow> filter (\<lambda>e. ae_to_state e \<notin> set pipeline_states) evs)"

lemma advance_decisions:
  assumes r: "pg.tracked r" and fresh: "\<not> pg_used r (tk_audit_id t)"
    and run: "advance_pipeline pg_transition a c actor t r = Inr (res, r')"
    and target: "pa_target_state c \<in> set pipeline_states"
  shows "decisions r' = decisions r"
proof -
  let ?f = "advance_transition c actor t" and ?cid = "pa_command_id c"
  from run have ok: "pg_transition a ?cid ?f r = Inr (res, r')" and role: "PIPELINE \<in> ac_roles actor"
    by (auto simp: advance_pipeline_def require_role_def result_elims)
  from r have inv: "pg_inv r" by (simp add: pg.tracked_def)
  show ?thesis
  proof (cases "command_result a ?cid r")
    case (Some p)
    with pg.transition_replay [OF inv, of a ?cid p ?f] ok show ?thesis by simp
  next
    case None
    show ?thesis
    proof (cases "pg_view r a")
      case None
      with pg.transition_missing [OF inv, of a ?cid ?f] \<open>command_result a ?cid r = None\<close> ok show ?thesis by simp
    next
      case (Some p)
      then obtain w evs where p: "pg_view r a = Some (w, evs)" by (cases p) auto
      with r have h: "history_ok a w evs" by (simp add: pg.tracked_def)
      show ?thesis
      proof (cases "?f w (length evs + 1)")
        case (Inl e)
        with pg.transition_raises [OF inv, of a ?cid w evs ?f e] None p ok show ?thesis by simp
      next
        case (Inr q)
        then obtain w' ev where q: "?f w (length evs + 1) = Inr (w', ev)" by (cases q) auto
        from advance_good [OF role] q h have g: "good_step a ?cid (tk_audit_id t) w (length evs + 1) w' ev"
          by (auto simp: good_transition_def history_ok_def)
        then have aid: "ae_audit_id ev = tk_audit_id t" by (simp add: good_step_def)
        from pg.transition_ok [of r a ?cid w evs ?f w' ev] inv None p q g fresh aid ok
        have view: "pg_view r' = (pg_view r)(a \<mapsto> (w', evs @ [ev]))" by auto
        from q have "ae_to_state ev = pa_target_state c"
          by (auto simp: advance_transition_def require_version_def service_event_def result_elims Let_def split: if_splits)
        with view p target show ?thesis by (auto simp: decisions_def fun_eq_iff)
      qed
    qed
  qed
qed

lemma create_decisions:
  assumes r: "pg.tracked r" and fresh: "\<not> pg_used r (tk_audit_id t)"
    and run: "create_workflow pg_create a actor cid reason t r = Inr (res, r')"
  shows "decisions r' = decisions r"
proof -
  from r have inv: "pg_inv r" by (simp add: pg.tracked_def)
  let ?w = "initial_workflow a t"
  let ?ev = "service_event (case cid of Some c \<Rightarrow> c | None \<Rightarrow> tk_uuid t) ?w 1 actor None INTAKE
     ''create'' reason [(''state'', ChState INTAKE)] t"
  from run have c: "pg_create ?w ?ev r = Inr (res, r')"
    by (auto simp: create_workflow_def result_elims Let_def split: if_splits)
  show ?thesis
  proof (cases "pg_view r a")
    case (Some x)
    from pg.create_known [OF inv Some _ c] show ?thesis by (simp add: initial_workflow_def)
  next
    case None
    with pg.create_fresh [OF inv None, of ?w ?ev] c fresh show ?thesis
      by (auto simp: decisions_def fun_eq_iff initial_workflow_def service_event_def pipeline_states_def)
  qed
qed

lemma service_run_used:
  "pg.tracked r \<Longrightarrow> distinct (map (tk_audit_id \<circ> snd) cs) \<Longrightarrow> \<forall>(c, t) \<in> set cs. \<not> pg_used r (tk_audit_id t) \<Longrightarrow>
    pg_used (service_run pg_create pg_transition cs r) x \<Longrightarrow> pg_used r x \<or> (\<exists>(c, t) \<in> set cs. x = tk_audit_id t)"
proof (induction cs arbitrary: r)
  case (Cons ct cs)
  obtain c t where ct: "ct = (c, t)" by (cases ct)
  show ?case
  proof (cases "service_apply pg_create pg_transition c t r")
    case (Inl e)
    with Cons.IH [of r] Cons.prems ct show ?thesis by auto
  next
    case (Inr q)
    then obtain res r' where q: "service_apply pg_create pg_transition c t r = Inr (res, r')"
      by (cases q) auto
    from pg.service_step [OF Cons.prems(1) _ q] Cons.prems(3) ct
    have r': "pg.tracked r'" "pg.extends r r' (tk_audit_id t)" by auto
    then have new: "pg_used r' y \<Longrightarrow> pg_used r y \<or> y = tk_audit_id t" for y
      by (auto simp: pg.extends_def)
    have "\<forall>(c', t') \<in> set cs. \<not> pg_used r' (tk_audit_id t')"
      using new Cons.prems(2,3) ct by force
    from Cons.IH [OF r'(1) _ this] Cons.prems(2,4) ct q new show ?thesis by auto
  qed
qed simp

definition undecided :: "(postgres_repo, 'x) deps \<Rightarrow> (app_id \<Rightarrow> audit_event list) \<Rightarrow> (postgres_repo, 'x) world \<Rightarrow> bool" where
  "undecided d ds w \<longleftrightarrow> audited d w \<and> (fresh_ticks d \<longrightarrow> decisions (wd_repo w) = ds)"

definition undecided_state ::
  "(postgres_repo, 'x) deps \<Rightarrow> (app_id \<Rightarrow> audit_event list) \<Rightarrow> worker_context \<times> (postgres_repo, 'x) world \<Rightarrow> bool" where
  "undecided_state d ds cw = undecided d ds (snd cw)"

lemma undecided_service:
  assumes "undecided d ds w"
    and "service_apply pg_create pg_transition c (dp_tick d (wd_ticks w)) (wd_repo w) = Inr (res, repo)"
    and "\<And>r t. pg.tracked r \<Longrightarrow> \<not> pg_used r (tk_audit_id t) \<Longrightarrow>
      service_apply pg_create pg_transition c t r = Inr (res, repo) \<Longrightarrow> decisions repo = decisions r"
  shows "undecided d ds (w\<lparr>wd_repo := repo, wd_ticks := wd_ticks w + 1\<rparr>)"
  using assms(1) audited_step [of d w c res repo] assms(2) assms(3) [of "wd_repo w" "dp_tick d (wd_ticks w)"]
  by (auto simp: undecided_def audited_def recorded_def)

interpretation undecided: worker_property "undecided_state d ds" "undecided_state d ds" d app UNIV "\<lambda>_ _ _. True" "\<lambda>_ _. True"
  for d :: "(postgres_repo, 'x) deps" and ds and app
proof unfold_locales
  fix c w m actor reason res repo
  assume a: "undecided_state d ds (c, w)"
    and run: "create_workflow (rp_create (dp_repo d)) app actor (Some (cx_command_id c)) reason
      (dp_tick d (wd_ticks w)) (wd_repo w) = Inr (res, repo)"
  show "undecided_state d ds (c, w\<lparr>wd_repo := repo, wd_ticks := wd_ticks w + 1\<rparr>)"
  proof (cases "dp_repo d = postgres_ops")
    case True
    with a run undecided_service [of d ds w "Create app actor (Some (cx_command_id c)) reason" res repo]
      create_decisions show ?thesis
      by (simp add: undecided_state_def postgres_ops_def)
  qed (simp add: undecided_state_def undecided_def audited_def recorded_def fresh_ticks_def)
next
  fix c w command actor res repo
  assume a: "undecided_state d ds (c, w)"
    and target: "pa_target_state command \<in> {EXTRACTED, RULE_GATED, AI_SUGGESTED, AWAITING_HUMAN}"
    and run: "advance_pipeline (rp_transition (dp_repo d)) app command actor (dp_tick d (wd_ticks w)) (wd_repo w) = Inr (res, repo)"
  from target have "pa_target_state command \<in> set pipeline_states" by (auto simp: pipeline_states_def)
  note keeps = advance_decisions [OF _ _ _ this]
  show "undecided_state d ds (c, w\<lparr>wd_repo := repo, wd_ticks := wd_ticks w + 1\<rparr>)"
  proof (cases "dp_repo d = postgres_ops")
    case True
    with a run undecided_service [of d ds w "Advance app command actor" res repo] keeps show ?thesis
      by (simp add: undecided_state_def postgres_ops_def)
  qed (simp add: undecided_state_def undecided_def audited_def recorded_def fresh_ticks_def)
qed (auto simp: undecided_state_def undecided_def audited_def recorded_def)

interpretation undecided_agent: graph_world "agent_env g out" "undecided (gd_deps g) ds" "\<lambda>_. True"
  for g :: "(postgres_repo, 'x) guard" and out ds
proof (rule agent_world)
  fix worker s c w r c' w'
  assume w: "undecided (gd_deps g) ds w" and run: "fixed_worker g worker s (c, w) = (r, c', w')"
  have step: "step_keeps (undecided_state (gd_deps g) ds) (undecided_state (gd_deps g) ds) (fixed_worker g worker s)"
    by (rule undecided.fixed_worker_step) simp_all
  from step_keeps_state [OF step run] w show "undecided (gd_deps g) ds w'" by (simp add: undecided_state_def)
qed (simp add: undecided_def audited_def recorded_def)

end
