(* ===== verification/FM_Agent_Props.thy ===== *)
theory FM_Agent_Props
  imports FM_Agent FM_Advisory_Props
begin

text \<open>
  The properties of the agent: its workers over the Postgres repository, under the graph, with a
  small agent for their witnesses.
\<close>

section \<open>A small agent\<close>

text \<open>
  Its store holds the document artifact of one application and nothing else: a run records the
  intake, and the financial stage then fails for want of the staged request.
\<close>

definition zero_hash :: "string \<Rightarrow> string" where
  "zero_hash s = replicate 64 CHR ''0''"

definition known :: "'a \<Rightarrow> 'a codec" where
  "known v = \<lparr>cd_dump = (\<lambda>_. ''x''), cd_parse = (\<lambda>_. Some v)\<rparr>"

definition unknown :: "'a codec" where
  "unknown = \<lparr>cd_dump = (\<lambda>_. ''x''), cd_parse = (\<lambda>_. None)\<rparr>"

definition plain_cipher :: cipher where
  "plain_cipher = \<lparr>cipher_encrypt = (\<lambda>k n m a. m), cipher_decrypt = (\<lambda>k n m a. Some m),
     cipher_random = (\<lambda>i n. replicate n CHR ''r''), envelope_text = ev_ciphertext, not_sealed = ValueError\<rparr>"

definition demo_workspace :: workspace where
  "demo_workspace = \<lparr>wk_root = [''data''], wk_master_key = None, wk_key_version = ''v1'', wk_cipher = plain_cipher,
     wk_sha256 = zero_hash\<rparr>"

definition demo_document :: document_artifact where
  "demo_document = \<lparr>da_documents = [\<lparr>id_filename = ''a.pdf'', id_sha256 = zero_hash [], id_document_id = ''d1'',
       id_page_count = 1, id_chunk_count = 1\<rparr>],
     da_chunk_ids = [(''d1'', [])], da_config_hashes = [(''d1'', zero_hash [])]\<rparr>"

definition demo_tick :: "nat \<Rightarrow> tick" where
  "demo_tick n = \<lparr>tk_now = 1, tk_created = 1, tk_occurred = 1, tk_audit_id = replicate n CHR ''t'', tk_uuid = ''u''\<rparr>"

definition demo_actor :: actor_claims where
  "demo_actor = \<lparr>ac_actor_id = ''p'', ac_display_name = ''p'', ac_roles = {PIPELINE}\<rparr>"

definition demo_deps :: "(postgres_repo, unit) deps" where
  "demo_deps = \<lparr>dp_workspace = demo_workspace, dp_repo = postgres_ops, dp_tick = demo_tick, dp_actor = demo_actor,
     dp_policies = [], dp_production = False, dp_policy_hash = None,
     dp_ingest = (\<lambda>_ _ x. (Inl WTimeout, x)), dp_extract = (\<lambda>_ _ x. (Inl WTimeout, x)),
     dp_retrieve = (\<lambda>_ _ _ x. (Inl WTimeout, x)),
     dp_report = None, dp_prompt = Inr, dp_sha256 = zero_hash, dp_uuid5 = (\<lambda>s. s), dp_redact = (\<lambda>s. s),
     dp_bbox_json = (\<lambda>_. []), dp_bundle_json = (\<lambda>_. [(''k'', JNull)]),
     dp_request_codec = unknown, dp_document_codec = known demo_document, dp_metric_codec = unknown,
     dp_application_codec = unknown, dp_eligibility_codec = unknown, dp_retrieval_codec = unknown,
     dp_suggestion_codec = unknown\<rparr>"

definition demo_guard :: "(postgres_repo, unit) guard" where
  "demo_guard = \<lparr>gd_deps = demo_deps, gd_resolver = None, gd_policy_hash = None, gd_verify = None,
     gd_execution = [], gd_dump_size = (\<lambda>_. 0)\<rparr>"

definition demo_outside :: "unit outside" where
  "demo_outside = \<lparr>ou_activity = None, ou_recorder = noop_record, ou_cleanup = None, ou_late = (\<lambda>_ _ _. False),
     ou_clock = (\<lambda>_. 100), ou_latency = (\<lambda>_. 0), ou_sleep = (\<lambda>_ x. x), ou_run_id = (\<lambda>_. ''run''),
     ou_checkpoint_id = (\<lambda>_ _. None), ou_signer = None, ou_retention = 30\<rparr>"

definition demo_files :: filesystem where
  "demo_files = \<lparr>fs_files = [([''data'', ''app-1'', ''agent'', ''document_processing.json''], Plain ''x'')],
     fs_dirs = [], fs_draws = 0\<rparr>"

definition demo_state :: "postgres_repo \<Rightarrow> ((postgres_repo, unit) world, life_store) graph_state" where
  "demo_state r = \<lparr>gr_checkpoints = [], gr_lifecycle = [],
     gr_world = \<lparr>wd_fs = demo_files, wd_repo = r, wd_ext = (), wd_ticks = 0\<rparr>\<rparr>"

definition demo_repo :: postgres_repo where
  "demo_repo = wd_repo (gr_world (graph_run (agent_env demo_guard demo_outside) memory_life_ops
     [Start ''app-1'' None []] (demo_state pg_empty)))"

lemma demo_simps [simp]:
  "gd_deps demo_guard = demo_deps" "dp_repo demo_deps = postgres_ops" "dp_tick demo_deps = demo_tick"
  "wd_repo (gr_world (demo_state r)) = r" "wd_ticks (gr_world (demo_state r)) = 0"
  by (simp_all add: demo_guard_def demo_deps_def demo_state_def)

lemma demo_ticks: "inj (\<lambda>n. tk_audit_id (demo_tick n))"
  by (rule inj_onI) (auto simp: demo_tick_def dest: arg_cong [of _ _ length])

text \<open>The demonstration is evaluated once, as the argument of a check.\<close>

definition answers_in :: "app_id \<Rightarrow> workflow_state list \<Rightarrow> postgres_repo \<Rightarrow> bool" where
  "answers_in a sts r =
     (is_ok (pg_audit_of a r) \<and> (case pg_get a r of Inl _ \<Rightarrow> False | Inr w \<Rightarrow> wf_state w \<in> set sts))"

lemma answers_inD:
  assumes "answers_in a sts r"
  obtains w evs where "pg_get a r = Inr w" "pg_audit_of a r = Inr evs" "wf_state w \<in> set sts"
  using assms by (auto simp: answers_in_def is_ok_iff split: sum.splits)

lemma demo_answers: "answers_in ''app-1'' workflow_states demo_repo"
  unfolding demo_repo_def graph_run_def fold_simps graph_apply.simps
  by code_simp

lemma demo_is_ok: "is_ok (pg_get ''app-1'' demo_repo)" "is_ok (pg_audit_of ''app-1'' demo_repo)"
  using demo_answers by (auto elim!: answers_inD)

definition demo_case :: workflow_record where
  "demo_case = (case pg_get ''app-1'' demo_repo of Inr w \<Rightarrow> w)"

definition demo_events :: "audit_event list" where
  "demo_events = (case pg_audit_of ''app-1'' demo_repo of Inr e \<Rightarrow> e)"

lemma demo_results: "pg_get ''app-1'' demo_repo = Inr demo_case" "pg_audit_of ''app-1'' demo_repo = Inr demo_events"
  using demo_is_ok by (auto simp: demo_case_def demo_events_def split: sum.splits)

section \<open>Properties\<close>

text \<open>
  C4. The agent over the Postgres repository keeps the audit contract: whatever operations of the
  graph run on an empty database, whatever the workers' services answer, the history of every
  case is gapless, follows the state machine and ends in the recorded state.
\<close>

theorem agent_keeps_audit_contract:
  assumes "dp_repo (gd_deps g) = postgres_ops" and "inj (\<lambda>n. tk_audit_id (dp_tick (gd_deps g) n))"
    and "wd_repo (gr_world s) = pg_empty"
    and "pg_get a (wd_repo (gr_world (graph_run (agent_env g out) ops commands s))) = Inr w"
    and "pg_audit_of a (wd_repo (gr_world (graph_run (agent_env g out) ops commands s))) = Inr evs"
  shows "history_ok a w evs"
proof -
  let ?r = "wd_repo (gr_world (graph_run (agent_env g out) ops commands s))"
  have fresh: "fresh_ticks (gd_deps g)" using assms(1,2) by (simp add: fresh_ticks_def)
  have "audited (gd_deps g) (gr_world s)"
    using assms(3) pg.tracked_empty pg.used_empty by (simp add: audited_def recorded_def)
  from audited_agent.run_world [OF this] have "pg.tracked ?r"
    using fresh by (simp add: audited_def recorded_def list_all_iff command_about_all)
  then show ?thesis
    using pg.get_view [of ?r a] pg.audit_view [of ?r a] assms(4,5)
    by (auto simp: pg.tracked_def split: option.splits)
qed

theorem agent_keeps_audit_contract_witness: "history_ok ''app-1'' demo_case demo_events"
  by (rule agent_keeps_audit_contract [OF _ _ _ demo_results [unfolded demo_repo_def]]) (simp_all add: demo_ticks)

text \<open>
  C12. The agent takes no decision: no sequence of graph operations adds, changes or removes an
  event of a case that enters a state beyond the review, so every decision and every write-back
  in a history came through the service.
\<close>

theorem agent_takes_no_decision:
  assumes "dp_repo (gd_deps g) = postgres_ops" and "inj (\<lambda>n. tk_audit_id (dp_tick (gd_deps g) n))"
    and "wd_repo (gr_world s) = service_run pg_create pg_transition session pg_empty"
    and "distinct (map (tk_audit_id \<circ> snd) session)"
    and "list_all (\<lambda>x. \<forall>n. tk_audit_id (dp_tick (gd_deps g) n) \<noteq> tk_audit_id (snd x)) session"
  shows "decisions (wd_repo (gr_world (graph_run (agent_env g out) ops commands s))) a =
    decisions (wd_repo (gr_world s)) a"
proof -
  have fresh: "fresh_ticks (gd_deps g)" using assms(1,2) by (simp add: fresh_ticks_def)
  have tracked: "pg.tracked (wd_repo (gr_world s))"
    unfolding assms(3) using pg.service_run_tracked [OF pg.tracked_empty assms(4)] pg.used_empty by auto
  have "\<not> pg_used (wd_repo (gr_world s)) (tk_audit_id (dp_tick (gd_deps g) n))" for n
    using service_run_used [OF pg.tracked_empty assms(4)] assms(5) pg.used_empty
    unfolding assms(3) list_all_iff by fastforce
  with tracked have "audited (gd_deps g) (gr_world s)" by (simp add: audited_def recorded_def)
  then have "undecided (gd_deps g) (decisions (wd_repo (gr_world s))) (gr_world s)" by (simp add: undecided_def)
  from undecided_agent.run_world [OF this] fresh show ?thesis
    by (simp add: undecided_def list_all_iff command_about_all)
qed

text \<open>A case that went through review, was sent back and reopened.\<close>

definition plain_tick :: "string \<Rightarrow> tick" where
  "plain_tick i = \<lparr>tk_now = 1, tk_created = 1, tk_occurred = 1, tk_audit_id = i, tk_uuid = i\<rparr>"

definition demo_human :: actor_claims where
  "demo_human = \<lparr>ac_actor_id = ''r'', ac_display_name = ''r'', ac_roles = {HUMAN_REVIEWER}\<rparr>"

definition demo_advance :: "nat \<Rightarrow> workflow_state \<Rightarrow> json_object option \<Rightarrow> service_command" where
  "demo_advance v t b = Advance ''app-1''
     \<lparr>pa_command_id = advance_command_id demo_deps ''app-1'' t, pa_expected_version = v, pa_target_state = t,
      pa_reason = ''r'', pa_suggestion = b\<rparr> demo_actor"

definition demo_session :: "(service_command \<times> tick) list" where
  "demo_session =
     [(Create ''app-1'' demo_actor (Some ''c0'') ''r'', plain_tick ''s0''),
      (demo_advance 0 EXTRACTED None, plain_tick ''s1''),
      (demo_advance 1 RULE_GATED None, plain_tick ''s2''),
      (demo_advance 2 AI_SUGGESTED (Some [(''k'', JNull)]), plain_tick ''s3''),
      (demo_advance 3 AWAITING_HUMAN None, plain_tick ''s4''),
      (Decide ''app-1'' \<lparr>hc_command_id = ''c5'', hc_expected_version = 4, hc_action = SEND_BACK, hc_funder_id = None,
         hc_reason = ''r'', hc_conditions = [], hc_overrides = [], hc_restart_stage = Some RS_ELIGIBILITY\<rparr> demo_human,
       plain_tick ''s5''),
      (Reopen ''app-1'' \<lparr>pr_command_id = ''c6'', pr_expected_version = 5, pr_restart_stage = RS_ELIGIBILITY,
         pr_reason = ''r''\<rparr> demo_human, plain_tick ''s6'')]"

definition demo_reopened :: postgres_repo where
  "demo_reopened = service_run pg_create pg_transition demo_session pg_empty"

lemma demo_session_ticks:
  "distinct (map (tk_audit_id \<circ> snd) demo_session)"
  "list_all (\<lambda>x. \<forall>n. tk_audit_id (dp_tick (gd_deps demo_guard) n) \<noteq> tk_audit_id (snd x)) demo_session"
proof -
  have "replicate n CHR ''t'' \<noteq> i" if "CHR ''s'' \<in> set i" for n i using that by auto
  then show "list_all (\<lambda>x. \<forall>n. tk_audit_id (dp_tick (gd_deps demo_guard) n) \<noteq> tk_audit_id (snd x)) demo_session"
    by (simp add: demo_session_def demo_tick_def plain_tick_def)
qed (simp add: demo_session_def plain_tick_def)

lemma demo_reopened_state: "map_option wf_state (find_case ''app-1'' (pg_cases demo_reopened)) = Some EXTRACTED"
  by code_simp

lemma demo_recorded:
  "list_all (\<lambda>t. command_result ''app-1'' (advance_command_id demo_deps ''app-1'' t) demo_reopened \<noteq> None)
     [EXTRACTED, RULE_GATED, AI_SUGGESTED, AWAITING_HUMAN]"
  by code_simp

lemma demo_decisions: "length (decisions demo_reopened ''app-1'') = 1"
  by code_simp

definition demo_rerun :: "((postgres_repo, unit) world, life_store) graph_state" where
  "demo_rerun = graph_run (agent_env demo_guard demo_outside) memory_life_ops
     [Start ''app-1'' None [], Rewind ''app-1'' ELIGIBILITY] (demo_state demo_reopened)"

theorem agent_takes_no_decision_witness: "length (decisions (wd_repo (gr_world demo_rerun)) ''app-1'') = 1"
  unfolding demo_rerun_def
  using agent_takes_no_decision [of demo_guard "demo_state demo_reopened" demo_session demo_outside memory_life_ops
      "[Start ''app-1'' None [], Rewind ''app-1'' ELIGIBILITY]" "''app-1''"]
    demo_session_ticks demo_ticks demo_decisions
  by (simp add: demo_reopened_def)

text \<open>
  C33. The dead end of a case that was sent back: a worker advances the workflow under a command
  that depends on the application and the target state only. Once the four advances of a case
  are recorded, they are replayed, so after the reopening no operation of the agent on that
  application changes the repository: the case never reaches the review again.
\<close>

theorem reopened_case_is_stuck:
  assumes "dp_repo (gd_deps g) = postgres_ops"
    and "find_case app (pg_cases (wd_repo (gr_world s))) \<noteq> None"
    and "list_all (\<lambda>t. command_result app (advance_command_id (gd_deps g) app t) (wd_repo (gr_world s)) \<noteq> None)
      [EXTRACTED, RULE_GATED, AI_SUGGESTED, AWAITING_HUMAN]"
    and "list_all (command_about (\<lambda>a. a = app)) commands"
  shows "wd_repo (gr_world (graph_run (agent_env g out) ops commands s)) = wd_repo (gr_world s)"
proof -
  let ?p = "wd_repo (gr_world s)"
  have "stuck_at (gd_deps g) app ?p (c, gr_world s)" for c by (simp add: stuck_at_def)
  from replayed_agent.run_world [OF this assms(4)] assms(1-3) show ?thesis
    by (simp add: stuck_at_def pipeline_recorded_def)
qed

theorem reopened_case_is_stuck_witness:
  "map_option wf_state (find_case ''app-1'' (pg_cases (wd_repo (gr_world demo_rerun)))) = Some EXTRACTED"
  unfolding demo_rerun_def
  using reopened_case_is_stuck [of demo_guard "''app-1''" "demo_state demo_reopened"
      "[Start ''app-1'' None [], Rewind ''app-1'' ELIGIBILITY]" demo_outside memory_life_ops]
    demo_reopened_state demo_recorded
  by auto

text \<open>
  C34. External services are called under the policy of the worker. When every service writes its own
  tool name to a log that the rest of the system leaves alone, then however a worker ends, the calls
  it made are of its own tools only, each permitted by its context, and no more than the budget
  left; and when it returns, its context counts and names exactly the calls that were made.
\<close>

theorem workers_keep_budget:
  assumes "logs_to calls (gd_deps g)"
    and "\<And>f ids timeout x. gd_resolver g = Some f \<Longrightarrow> calls (snd (f ids timeout x)) = calls x @ [''qdrant_verify'']"
    and "fixed_worker g worker s (c, w) = (r, c', w')"
  shows "\<exists>ts. calls (wd_ext w') = calls (wd_ext w) @ ts \<and> list_all (tool_permitted c) ts \<and> set ts \<subseteq> worker_tools worker \<and>
    cx_tool_calls c + length ts \<le> max (cx_tool_calls c) (cx_max_tool_calls c) \<and>
    (is_ok r \<longrightarrow> c' = c\<lparr>cx_tool_calls := cx_tool_calls c + length ts, cx_tools := cx_tools c @ ts\<rparr>)"
proof -
  let ?before = "calls (wd_ext w)" and ?own = "worker_tools worker"
  have step: "step_keeps (in_step calls (gd_deps g) c ?own ?before) (observed calls (gd_deps g) c ?own ?before)
      (fixed_worker g worker s)"
    by (rule budget.fixed_worker_step [OF refl refl order_refl]) (metis assms(2) snd_conv)
  have start: "in_step calls (gd_deps g) c ?own ?before (c, w)"
    by (simp add: in_step_def calls_allowed_def)
  show ?thesis
  proof (cases r)
    case (Inl e)
    with step_keeps_Inl [OF step start] assms(1,3) show ?thesis by (auto simp: observed_def calls_allowed_def)
  next
    case (Inr x)
    with step_keeps_Inr [OF step start] assms(1,3) show ?thesis by (auto simp: in_step_def calls_allowed_def)
  qed
qed

text \<open>Services that only log, and a retrieval over them with room for one call.\<close>

definition logged_deps :: "(postgres_repo, string list) deps" where
  "logged_deps = \<lparr>dp_workspace = demo_workspace, dp_repo = postgres_ops, dp_tick = demo_tick, dp_actor = demo_actor,
     dp_policies = [], dp_production = False, dp_policy_hash = None,
     dp_ingest = (\<lambda>_ _ x. (Inl WTimeout, x @ [''findociq_ingest''])),
     dp_extract = (\<lambda>_ _ x. (Inl WTimeout, x @ [''findociq_extract''])),
     dp_retrieve = (\<lambda>a _ _ x. (Inr \<lparr>rr_application_id = ''app-1'', rr_eligibility = [], rr_matches = []\<rparr>, x @ [''qdrant_search''])),
     dp_report = None, dp_prompt = Inr, dp_sha256 = zero_hash, dp_uuid5 = (\<lambda>s. s), dp_redact = (\<lambda>s. s),
     dp_bbox_json = (\<lambda>_. []), dp_bundle_json = (\<lambda>_. []),
     dp_request_codec = unknown, dp_document_codec = unknown, dp_metric_codec = unknown,
     dp_application_codec = known sample_application,
     dp_eligibility_codec = known \<lparr>ea_application_id = ''app-1'', ea_results = []\<rparr>,
     dp_retrieval_codec = unknown, dp_suggestion_codec = unknown\<rparr>"

definition logged_guard :: "(postgres_repo, string list) guard" where
  "logged_guard = \<lparr>gd_deps = logged_deps, gd_resolver = None, gd_policy_hash = None, gd_verify = None,
     gd_execution = [], gd_dump_size = (\<lambda>_. 0)\<rparr>"

definition logged_world :: "(postgres_repo, string list) world" where
  "logged_world = \<lparr>wd_fs = \<lparr>fs_files = map (\<lambda>name. ([''data'', ''app-1'', ''agent'', name], Plain ''x''))
       [''financial_analysis.json'', ''eligibility.json''], fs_dirs = [], fs_draws = 0\<rparr>,
     wd_repo = pg_empty, wd_ext = [], wd_ticks = 0\<rparr>"

definition one_search :: worker_context where
  "one_search = \<lparr>cx_application_id = ''app-1'', cx_command_id = ''c0'', cx_max_tool_calls = 1,
     cx_permitted_tools = Some [''qdrant_search''], cx_call_timeout = None, cx_tool_calls = 0, cx_tools = []\<rparr>"

definition demo_thread :: memory_state where
  "demo_thread = (case initial_state (\<lambda>_. 0) (\<lambda>n. n) ''app-1'' DEFAULT_WORKER_ORDER None [] of Inr s \<Rightarrow> s)"

definition logged_run :: "(worker_exn + worker_result) \<times> worker_context \<times> (postgres_repo, string list) world" where
  "logged_run = fixed_worker logged_guard PRECEDENT_RETRIEVAL demo_thread (one_search, logged_world)"

lemma logged_run_ok: "case logged_run of (r, c, w) \<Rightarrow> is_ok r \<and> wd_ext w \<noteq> []"
  by code_simp

theorem workers_keep_budget_witness: "wd_ext (snd (snd logged_run)) = [''qdrant_search'']"
proof -
  obtain r c' w' where run: "logged_run = (r, c', w')" by (rule prod_cases3)
  have logs: "logs_to (\<lambda>x. x) (gd_deps logged_guard)" by (simp add: logs_to_def logged_guard_def logged_deps_def)
  from workers_keep_budget [OF logs _ run [unfolded logged_run_def]] obtain ts where
    "wd_ext w' = ts" "set ts \<subseteq> {''qdrant_search''}" "length ts \<le> 1"
    by (auto simp: logged_guard_def logged_world_def one_search_def)
  with logged_run_ok show ?thesis
    unfolding run by (cases ts) auto
qed

end
