(* ===== verification/FM_Jobs.thy ===== *)
theory FM_Jobs
  imports FM_Workflow_Schema
begin

text \<open>
  Intake jobs and their stream of activity events (\<open>intake_jobs.py\<close>): the port as a locale, the
  in-memory store and the Postgres store with the constraints of the migrations, both
  interpretations of the port.
\<close>

section \<open>Jobs and events\<close>

datatype job_status = Job_Queued | Job_Running | Job_Completed | Job_Failed | Job_Cancelled

definition job_active :: "job_status \<Rightarrow> bool" where
  "job_active s \<longleftrightarrow> s = Job_Queued \<or> s = Job_Running"

text \<open>The optional fields of an event, each absent when it is \<open>None\<close>.\<close>

record activity_details =
  ad_document_name :: "string option"
  ad_document_index :: "int option"
  ad_document_count :: "int option"
  ad_completed :: "int option"
  ad_total :: "int option"
  ad_metric :: "string option"
  ad_worker :: "string option"
  ad_attempt :: "int option"
  ad_checkpoint_id :: "string option"
  ad_guardrail_code :: "string option"
  ad_resume_duration_ms :: "rat option"
  ad_error_code :: "string option"
  ad_retryable :: "bool option"

definition no_details :: activity_details where
  "no_details = \<lparr>ad_document_name = None, ad_document_index = None, ad_document_count = None, ad_completed = None,
     ad_total = None, ad_metric = None, ad_worker = None, ad_attempt = None, ad_checkpoint_id = None,
     ad_guardrail_code = None, ad_resume_duration_ms = None, ad_error_code = None, ad_retryable = None\<rparr>"

definition opt_least :: "'a::linorder \<Rightarrow> 'a option \<Rightarrow> bool" where
  "opt_least n x = (case x of None \<Rightarrow> True | Some v \<Rightarrow> n \<le> v)"

definition details_ok :: "activity_details \<Rightarrow> bool" where
  "details_ok d \<longleftrightarrow> opt_least 1 (ad_document_index d) \<and> opt_least 1 (ad_document_count d) \<and>
     opt_least 0 (ad_completed d) \<and> opt_least 1 (ad_total d) \<and> opt_least 1 (ad_attempt d) \<and>
     opt_least 0 (ad_resume_duration_ms d)"

record intake_event =
  ie_job_id :: string
  ie_application_id :: app_id
  ie_sequence :: nat
  ie_stage :: string
  ie_message :: string
  ie_occurred_at :: timestamp
  ie_details :: activity_details

record intake_job =
  ij_job_id :: string
  ij_application_id :: app_id
  ij_status :: job_status
  ij_created_at :: timestamp
  ij_updated_at :: timestamp
  ij_completed_at :: "timestamp option"
  ij_last_sequence :: nat
  ij_error_code :: "string option"
  ij_retryable :: "bool option"

definition make_event ::
  "timestamp \<Rightarrow> intake_job \<Rightarrow> string \<Rightarrow> string \<Rightarrow> activity_details \<Rightarrow> py_exn + intake_event" where
  "make_event now job stage msg d =
     ebind (ensure (details_ok d) (ValueError ''validation error'')) (\<lambda>_.
     Inr \<lparr>ie_job_id = ij_job_id job, ie_application_id = ij_application_id job,
          ie_sequence = ij_last_sequence job + 1, ie_stage = stage, ie_message = msg,
          ie_occurred_at = now, ie_details = d\<rparr>)"

definition new_job :: "timestamp \<Rightarrow> string \<Rightarrow> app_id \<Rightarrow> intake_job" where
  "new_job now job_id app =
     \<lparr>ij_job_id = job_id, ij_application_id = app, ij_status = Job_Queued, ij_created_at = now,
      ij_updated_at = now, ij_completed_at = None, ij_last_sequence = 0, ij_error_code = None, ij_retryable = None\<rparr>"

definition job_appended :: "intake_event \<Rightarrow> intake_job \<Rightarrow> intake_job" where
  "job_appended e job = job\<lparr>ij_status := (if ij_status job = Job_Queued then Job_Running else ij_status job),
     ij_updated_at := ie_occurred_at e, ij_last_sequence := ie_sequence e\<rparr>"

definition job_finished ::
  "timestamp \<Rightarrow> job_status \<Rightarrow> string option \<Rightarrow> bool option \<Rightarrow> intake_job \<Rightarrow> intake_job" where
  "job_finished now status error retryable job = job\<lparr>ij_status := status, ij_updated_at := now,
     ij_completed_at := Some now, ij_error_code := error, ij_retryable := retryable\<rparr>"

definition job_interrupted :: "timestamp \<Rightarrow> intake_job \<Rightarrow> intake_job" where
  "job_interrupted now job = (if job_active (ij_status job)
     then job_finished now Job_Failed (Some ''service_restarted'') (Some True) job else job)"

section \<open>The in-memory store\<close>

record memory_jobs =
  mj_jobs :: "(string \<times> intake_job) list"
  mj_events :: "(string \<times> intake_event list) list"

definition mj_empty :: memory_jobs where
  "mj_empty = \<lparr>mj_jobs = [], mj_events = []\<rparr>"

definition mj_require :: "string \<Rightarrow> memory_jobs \<Rightarrow> py_exn + intake_job" where
  "mj_require job_id s = (case dict_get (mj_jobs s) job_id of None \<Rightarrow> Inl (KeyError job_id) | Some j \<Rightarrow> Inr j)"

definition mj_create :: "timestamp \<Rightarrow> string \<Rightarrow> app_id \<Rightarrow> memory_jobs \<Rightarrow> py_exn + (intake_job \<times> memory_jobs)" where
  "mj_create now job_id app s =
     (let job = new_job now job_id app in
      ebind (ensure (dict_get (mj_jobs s) job_id = None) (ValueError ''intake job already exists'')) (\<lambda>_.
      Inr (job, \<lparr>mj_jobs = dict_set job_id job (mj_jobs s), mj_events = dict_set job_id [] (mj_events s)\<rparr>)))"

definition job_events :: "string \<Rightarrow> memory_jobs \<Rightarrow> intake_event list" where
  "job_events job_id s = (case dict_get (mj_events s) job_id of None \<Rightarrow> [] | Some es \<Rightarrow> es)"

definition mj_append ::
  "timestamp \<Rightarrow> string \<Rightarrow> string \<Rightarrow> string \<Rightarrow> activity_details \<Rightarrow> memory_jobs \<Rightarrow> py_exn + (intake_event \<times> memory_jobs)" where
  "mj_append now job_id stage msg d s =
     ebind (mj_require job_id s) (\<lambda>job.
     ebind (make_event now job stage msg d) (\<lambda>e.
     Inr (e, \<lparr>mj_jobs = dict_set job_id (job_appended e job) (mj_jobs s),
              mj_events = dict_set job_id (job_events job_id s @ [e]) (mj_events s)\<rparr>)))"

definition mj_get :: "string \<Rightarrow> memory_jobs \<Rightarrow> py_exn + intake_job" where
  "mj_get = mj_require"

definition mj_events_after :: "string \<Rightarrow> int \<Rightarrow> memory_jobs \<Rightarrow> py_exn + intake_event list" where
  "mj_events_after job_id n s =
     ebind (mj_require job_id s) (\<lambda>_. Inr (filter (\<lambda>e. n < int (ie_sequence e)) (job_events job_id s)))"

definition mj_finish ::
  "timestamp \<Rightarrow> string \<Rightarrow> job_status \<Rightarrow> string option \<Rightarrow> bool option \<Rightarrow> memory_jobs \<Rightarrow>
   py_exn + (intake_job \<times> memory_jobs)" where
  "mj_finish now job_id status error retryable s =
     ebind (mj_require job_id s) (\<lambda>job.
     let updated = job_finished now status error retryable job in
     Inr (updated, s\<lparr>mj_jobs := dict_set job_id updated (mj_jobs s)\<rparr>))"

definition mj_fail_interrupted :: "timestamp \<Rightarrow> memory_jobs \<Rightarrow> nat \<times> memory_jobs" where
  "mj_fail_interrupted now s =
     (length (filter (\<lambda>(_, job). job_active (ij_status job)) (mj_jobs s)),
      s\<lparr>mj_jobs := map (\<lambda>(k, job). (k, job_interrupted now job)) (mj_jobs s)\<rparr>)"

section \<open>The Postgres store\<close>

text \<open>The \<open>jsonb\<close> column holds the fields that are present.\<close>

definition int_json :: "int \<Rightarrow> json" where
  "int_json i = JNum (of_int i)"

definition detail_fields :: "activity_details \<Rightarrow> (string \<times> json option) list" where
  "detail_fields d =
     [(''document_name'', map_option JStr (ad_document_name d)),
      (''document_index'', map_option int_json (ad_document_index d)),
      (''document_count'', map_option int_json (ad_document_count d)),
      (''completed'', map_option int_json (ad_completed d)), (''total'', map_option int_json (ad_total d)),
      (''metric'', map_option JStr (ad_metric d)), (''worker'', map_option JStr (ad_worker d)),
      (''attempt'', map_option int_json (ad_attempt d)), (''checkpoint_id'', map_option JStr (ad_checkpoint_id d)),
      (''guardrail_code'', map_option JStr (ad_guardrail_code d)),
      (''resume_duration_ms'', map_option JNum (ad_resume_duration_ms d)),
      (''error_code'', map_option JStr (ad_error_code d)), (''retryable'', map_option JBool (ad_retryable d))]"

fun exclude_none :: "(string \<times> json option) list \<Rightarrow> json_object" where
  "exclude_none [] = []"
| "exclude_none ((name, v) # rest) = (case v of None \<Rightarrow> exclude_none rest | Some x \<Rightarrow> (name, x) # exclude_none rest)"

definition event_details :: "activity_details \<Rightarrow> json_object" where
  "event_details d = exclude_none (detail_fields d)"

definition read_str :: "json_object \<Rightarrow> string \<Rightarrow> string option" where
  "read_str o1 name = (case dict_get o1 name of Some (JStr s) \<Rightarrow> Some s | _ \<Rightarrow> None)"

definition read_num :: "json_object \<Rightarrow> string \<Rightarrow> rat option" where
  "read_num o1 name = (case dict_get o1 name of Some (JNum r) \<Rightarrow> Some r | _ \<Rightarrow> None)"

definition read_bool :: "json_object \<Rightarrow> string \<Rightarrow> bool option" where
  "read_bool o1 name = (case dict_get o1 name of Some (JBool b) \<Rightarrow> Some b | _ \<Rightarrow> None)"

definition read_int :: "json_object \<Rightarrow> string \<Rightarrow> int option" where
  "read_int o1 name = map_option floor (read_num o1 name)"

text \<open>Reading a column that the store wrote: its fields have the types of the event.\<close>

definition details_of :: "json_object \<Rightarrow> activity_details" where
  "details_of o1 =
     \<lparr>ad_document_name = read_str o1 ''document_name'', ad_document_index = read_int o1 ''document_index'',
      ad_document_count = read_int o1 ''document_count'', ad_completed = read_int o1 ''completed'',
      ad_total = read_int o1 ''total'', ad_metric = read_str o1 ''metric'', ad_worker = read_str o1 ''worker'',
      ad_attempt = read_int o1 ''attempt'', ad_checkpoint_id = read_str o1 ''checkpoint_id'',
      ad_guardrail_code = read_str o1 ''guardrail_code'', ad_resume_duration_ms = read_num o1 ''resume_duration_ms'',
      ad_error_code = read_str o1 ''error_code'', ad_retryable = read_bool o1 ''retryable''\<rparr>"

record event_row =
  er_job_id :: string
  er_sequence :: nat
  er_stage :: string
  er_message :: string
  er_details :: json_object
  er_occurred_at :: timestamp

record postgres_jobs =
  pj_jobs :: "intake_job list"
  pj_events :: "event_row list"

definition pj_empty :: postgres_jobs where
  "pj_empty = \<lparr>pj_jobs = [], pj_events = []\<rparr>"

definition unique_violation :: py_exn where
  "unique_violation = OtherException ''UniqueViolationError''"

definition job_row :: "string \<Rightarrow> intake_job list \<Rightarrow> intake_job option" where
  "job_row job_id rows = find (\<lambda>j. ij_job_id j = job_id) rows"

definition update_rows :: "(intake_job \<Rightarrow> bool) \<Rightarrow> (intake_job \<Rightarrow> intake_job) \<Rightarrow> intake_job list \<Rightarrow> intake_job list" where
  "update_rows c f rows = map (\<lambda>j. if c j then f j else j) rows"

text \<open>The primary key, and the unique index on the active job of an application.\<close>

definition pj_create :: "timestamp \<Rightarrow> string \<Rightarrow> app_id \<Rightarrow> postgres_jobs \<Rightarrow> py_exn + (intake_job \<times> postgres_jobs)" where
  "pj_create now job_id app s =
     ebind (ensure (job_row job_id (pj_jobs s) = None) unique_violation) (\<lambda>_.
     ebind (ensure (\<not> list_ex (\<lambda>j. ij_application_id j = app \<and> job_active (ij_status j)) (pj_jobs s)) unique_violation) (\<lambda>_.
     Inr (new_job now job_id app, s\<lparr>pj_jobs := pj_jobs s @ [new_job now job_id app]\<rparr>)))"

definition pj_append ::
  "timestamp \<Rightarrow> string \<Rightarrow> string \<Rightarrow> string \<Rightarrow> activity_details \<Rightarrow> postgres_jobs \<Rightarrow> py_exn + (intake_event \<times> postgres_jobs)" where
  "pj_append now job_id stage msg d s =
     (case job_row job_id (pj_jobs s) of
        None \<Rightarrow> Inl (KeyError job_id)
      | Some job \<Rightarrow>
          ebind (make_event now job stage msg d) (\<lambda>e.
          ebind (ensure (\<not> list_ex (\<lambda>r. er_job_id r = job_id \<and> er_sequence r = ie_sequence e) (pj_events s))
            unique_violation) (\<lambda>_.
          Inr (e, \<lparr>pj_jobs = update_rows (\<lambda>j. ij_job_id j = job_id) (job_appended e) (pj_jobs s),
            pj_events = pj_events s @ [\<lparr>er_job_id = job_id, er_sequence = ie_sequence e, er_stage = stage,
              er_message = msg, er_details = event_details d, er_occurred_at = ie_occurred_at e\<rparr>]\<rparr>))))"

definition pj_get :: "string \<Rightarrow> postgres_jobs \<Rightarrow> py_exn + intake_job" where
  "pj_get job_id s = (case job_row job_id (pj_jobs s) of None \<Rightarrow> Inl (KeyError job_id) | Some j \<Rightarrow> Inr j)"

definition event_of_row :: "app_id \<Rightarrow> event_row \<Rightarrow> intake_event" where
  "event_of_row app r =
     \<lparr>ie_job_id = er_job_id r, ie_application_id = app, ie_sequence = er_sequence r, ie_stage = er_stage r,
      ie_message = er_message r, ie_occurred_at = er_occurred_at r, ie_details = details_of (er_details r)\<rparr>"

definition pj_rows :: "string \<Rightarrow> postgres_jobs \<Rightarrow> intake_event list" where
  "pj_rows job_id s =
     (case job_row job_id (pj_jobs s) of
        None \<Rightarrow> []
      | Some j \<Rightarrow> map (event_of_row (ij_application_id j))
          (sort_key er_sequence (filter (\<lambda>r. er_job_id r = job_id) (pj_events s))))"

definition pj_events_after :: "string \<Rightarrow> int \<Rightarrow> postgres_jobs \<Rightarrow> py_exn + intake_event list" where
  "pj_events_after job_id n s =
     (let rows = filter (\<lambda>e. n < int (ie_sequence e)) (pj_rows job_id s) in
      if rows = [] \<and> job_row job_id (pj_jobs s) = None then Inl (KeyError job_id) else Inr rows)"

definition pj_finish ::
  "timestamp \<Rightarrow> string \<Rightarrow> job_status \<Rightarrow> string option \<Rightarrow> bool option \<Rightarrow> postgres_jobs \<Rightarrow>
   py_exn + (intake_job \<times> postgres_jobs)" where
  "pj_finish now job_id status error retryable s =
     (case job_row job_id (pj_jobs s) of
        None \<Rightarrow> Inl (KeyError job_id)
      | Some j \<Rightarrow> Inr (job_finished now status error retryable j,
          s\<lparr>pj_jobs := update_rows (\<lambda>j. ij_job_id j = job_id) (job_finished now status error retryable) (pj_jobs s)\<rparr>))"

definition pj_fail_interrupted :: "timestamp \<Rightarrow> postgres_jobs \<Rightarrow> nat \<times> postgres_jobs" where
  "pj_fail_interrupted now s =
     (length (filter (\<lambda>j. job_active (ij_status j)) (pj_jobs s)),
      s\<lparr>pj_jobs := update_rows (\<lambda>j. job_active (ij_status j))
          (job_finished now Job_Failed (Some ''service_restarted'') (Some True)) (pj_jobs s)\<rparr>)"

section \<open>The port\<close>

record 'j job_ops =
  jo_create :: "timestamp \<Rightarrow> string \<Rightarrow> app_id \<Rightarrow> 'j \<Rightarrow> py_exn + (intake_job \<times> 'j)"
  jo_append :: "timestamp \<Rightarrow> string \<Rightarrow> string \<Rightarrow> string \<Rightarrow> activity_details \<Rightarrow> 'j \<Rightarrow> py_exn + (intake_event \<times> 'j)"
  jo_get :: "string \<Rightarrow> 'j \<Rightarrow> py_exn + intake_job"
  jo_events_after :: "string \<Rightarrow> int \<Rightarrow> 'j \<Rightarrow> py_exn + intake_event list"
  jo_finish :: "timestamp \<Rightarrow> string \<Rightarrow> job_status \<Rightarrow> string option \<Rightarrow> bool option \<Rightarrow> 'j \<Rightarrow> py_exn + (intake_job \<times> 'j)"
  jo_fail_interrupted :: "timestamp \<Rightarrow> 'j \<Rightarrow> nat \<times> 'j"

definition memory_job_ops :: "memory_jobs job_ops" where
  "memory_job_ops = \<lparr>jo_create = mj_create, jo_append = mj_append, jo_get = mj_get,
     jo_events_after = mj_events_after, jo_finish = mj_finish, jo_fail_interrupted = mj_fail_interrupted\<rparr>"

definition postgres_job_ops :: "postgres_jobs job_ops" where
  "postgres_job_ops = \<lparr>jo_create = pj_create, jo_append = pj_append, jo_get = pj_get,
     jo_events_after = pj_events_after, jo_finish = pj_finish, jo_fail_interrupted = pj_fail_interrupted\<rparr>"

lemma job_ops_simps [simp]:
  "jo_create memory_job_ops = mj_create" "jo_append memory_job_ops = mj_append" "jo_get memory_job_ops = mj_get"
  "jo_events_after memory_job_ops = mj_events_after" "jo_finish memory_job_ops = mj_finish"
  "jo_fail_interrupted memory_job_ops = mj_fail_interrupted"
  "jo_create postgres_job_ops = pj_create" "jo_append postgres_job_ops = pj_append" "jo_get postgres_job_ops = pj_get"
  "jo_events_after postgres_job_ops = pj_events_after" "jo_finish postgres_job_ops = pj_finish"
  "jo_fail_interrupted postgres_job_ops = pj_fail_interrupted"
  by (simp_all add: memory_job_ops_def postgres_job_ops_def)

text \<open>What a store promises: each job with its events, as a map.\<close>

type_synonym job_view = "string \<Rightarrow> (intake_job \<times> intake_event list) option"

definition no_active :: "job_view \<Rightarrow> app_id \<Rightarrow> bool" where
  "no_active v app \<longleftrightarrow> (\<forall>j job evs. v j = Some (job, evs) \<longrightarrow> ij_application_id job = app \<longrightarrow> \<not> job_active (ij_status job))"

definition stream_ok :: "string \<Rightarrow> intake_job \<Rightarrow> intake_event list \<Rightarrow> bool" where
  "stream_ok j job evs \<longleftrightarrow> ij_job_id job = j \<and> ij_last_sequence job = length evs \<and>
     map ie_sequence evs = [1..<length evs + 1] \<and>
     list_all (\<lambda>e. ie_job_id e = j \<and> ie_application_id e = ij_application_id job \<and> details_ok (ie_details e)) evs"

datatype job_command =
    Create_Job string app_id
  | Append_Event string string string activity_details
  | Finish_Job string job_status "string option" "bool option"
  | Fail_Interrupted

fun job_apply :: "'j job_ops \<Rightarrow> timestamp \<Rightarrow> job_command \<Rightarrow> 'j \<Rightarrow> 'j" where
  "job_apply ops now (Create_Job j app) s = (case jo_create ops now j app s of Inl _ \<Rightarrow> s | Inr (_, s') \<Rightarrow> s')"
| "job_apply ops now (Append_Event j stage msg d) s = (case jo_append ops now j stage msg d s of Inl _ \<Rightarrow> s | Inr (_, s') \<Rightarrow> s')"
| "job_apply ops now (Finish_Job j st err re) s = (case jo_finish ops now j st err re s of Inl _ \<Rightarrow> s | Inr (_, s') \<Rightarrow> s')"
| "job_apply ops now Fail_Interrupted s = snd (jo_fail_interrupted ops now s)"

definition job_run :: "'j job_ops \<Rightarrow> (timestamp \<times> job_command) list \<Rightarrow> 'j \<Rightarrow> 'j" where
  "job_run ops = fold (\<lambda>(now, c). job_apply ops now c)"

text \<open>The abstract specification: what a command does to the map.\<close>

definition event_for :: "timestamp \<Rightarrow> intake_job \<Rightarrow> string \<Rightarrow> string \<Rightarrow> activity_details \<Rightarrow> intake_event" where
  "event_for now job stage msg d = \<lparr>ie_job_id = ij_job_id job, ie_application_id = ij_application_id job,
     ie_sequence = ij_last_sequence job + 1, ie_stage = stage, ie_message = msg, ie_occurred_at = now, ie_details = d\<rparr>"

fun spec_apply :: "timestamp \<Rightarrow> job_command \<Rightarrow> job_view \<Rightarrow> job_view" where
  "spec_apply now (Create_Job j app) v = (case v j of None \<Rightarrow> v(j \<mapsto> (new_job now j app, [])) | Some _ \<Rightarrow> v)"
| "spec_apply now (Append_Event j stage msg d) v =
     (case v j of
        None \<Rightarrow> v
      | Some (job, evs) \<Rightarrow>
          if details_ok d then v(j \<mapsto> (job_appended (event_for now job stage msg d) job, evs @ [event_for now job stage msg d]))
          else v)"
| "spec_apply now (Finish_Job j st err re) v =
     (case v j of None \<Rightarrow> v | Some (job, evs) \<Rightarrow> v(j \<mapsto> (job_finished now st err re job, evs)))"
| "spec_apply now Fail_Interrupted v = (\<lambda>j. map_option (\<lambda>(job, evs). (job_interrupted now job, evs)) (v j))"

locale job_store =
  fixes ops :: "'j job_ops" and inv :: "'j \<Rightarrow> bool" and view :: "'j \<Rightarrow> job_view" and empty :: 'j
  assumes inv_empty: "inv empty"
    and view_empty: "view empty j = None"
    and view_ok: "inv s \<Longrightarrow> view s j = Some (job, evs) \<Longrightarrow> stream_ok j job evs"
    and get_view: "inv s \<Longrightarrow> jo_get ops j s = (case view s j of None \<Rightarrow> Inl (KeyError j) | Some (job, _) \<Rightarrow> Inr job)"
    and events_view: "inv s \<Longrightarrow> jo_events_after ops j n s =
      (case view s j of None \<Rightarrow> Inl (KeyError j) | Some (_, evs) \<Rightarrow> Inr (filter (\<lambda>e. n < int (ie_sequence e)) evs))"
    and apply_view: "inv s \<Longrightarrow> (\<And>j app. c = Create_Job j app \<Longrightarrow> no_active (view s) app) \<Longrightarrow>
      inv (job_apply ops now c s) \<and> view (job_apply ops now c s) = spec_apply now c (view s)"
begin

text \<open>A client that polls with the sequence it saw last misses nothing and sees nothing twice.\<close>

lemma events_suffix:
  assumes "inv s" and "view s j = Some (job, evs)"
  shows "jo_events_after ops j (int n) s = Inr (drop n evs)"
proof -
  from view_ok [OF assms] have seq: "map ie_sequence evs = [1..<length evs + 1]" by (simp add: stream_ok_def)
  have "filter (\<lambda>e. int n < int (ie_sequence e)) evs = drop n evs"
    using seq
  proof (induction evs rule: rev_induct)
    case (snoc e evs)
    then have "map ie_sequence evs = [1..<length evs + 1]" "ie_sequence e = length evs + 1" by simp_all
    with snoc.IH show ?case by (cases "n \<le> length evs") auto
  qed simp
  with assms show ?thesis by (simp add: events_view)
qed

end

section \<open>The in-memory store is a job store\<close>

definition mj_view :: "memory_jobs \<Rightarrow> job_view" where
  "mj_view s j = (case dict_get (mj_jobs s) j of None \<Rightarrow> None | Some job \<Rightarrow> Some (job, job_events j s))"

definition mj_inv :: "memory_jobs \<Rightarrow> bool" where
  "mj_inv s \<longleftrightarrow> (\<forall>j job. dict_get (mj_jobs s) j = Some job \<longrightarrow> stream_ok j job (job_events j s))"

lemma job_events_set:
  "job_events k \<lparr>mj_jobs = js, mj_events = dict_set j es (mj_events s)\<rparr> = (if k = j then es else job_events k s)"
  "job_events k (s\<lparr>mj_jobs := js\<rparr>) = job_events k s"
  by (simp_all add: job_events_def)

lemma stream_new: "stream_ok j (new_job now j app) []"
  by (simp add: stream_ok_def new_job_def)

lemma stream_append:
  "stream_ok j job evs \<Longrightarrow> details_ok d \<Longrightarrow>
    stream_ok j (job_appended (event_for now job stage msg d) job) (evs @ [event_for now job stage msg d])"
  by (simp add: stream_ok_def job_appended_def event_for_def)

lemma stream_finish: "stream_ok j (job_finished now st err re job) evs \<longleftrightarrow> stream_ok j job evs"
  by (simp add: stream_ok_def job_finished_def)

lemma stream_interrupted: "stream_ok j (job_interrupted now job) evs \<longleftrightarrow> stream_ok j job evs"
  by (simp add: job_interrupted_def stream_finish)

lemma make_event_eq: "make_event now job stage msg d =
    (if details_ok d then Inr (event_for now job stage msg d) else Inl (ValueError ''validation error''))"
  by (simp add: make_event_def event_for_def)

lemma dict_get_map_snd: "dict_get (map (\<lambda>(k, v). (k, f v)) xs) k = map_option f (dict_get xs k)"
  by (induction xs) auto

interpretation mj: job_store memory_job_ops mj_inv mj_view mj_empty
proof (unfold_locales, goal_cases)
  case (6 s c now)
  show ?case
  proof (cases c)
    case (Create_Job j app)
    with 6(1) show ?thesis
      by (auto simp: mj_create_def Let_def mj_view_def mj_inv_def job_events_def fun_eq_iff
          stream_new ensure_def split: option.splits)
  next
    case (Append_Event j stage msg d)
    with 6(1) show ?thesis
      by (auto simp: mj_append_def mj_require_def make_event_eq mj_view_def mj_inv_def
          job_events_set fun_eq_iff stream_append split: option.splits)
  next
    case (Finish_Job j st err re)
    with 6(1) show ?thesis
      by (auto simp: mj_finish_def mj_require_def Let_def mj_view_def mj_inv_def
          job_events_set fun_eq_iff stream_finish split: option.splits)
  next
    case Fail_Interrupted
    with 6(1) show ?thesis
      by (auto simp: mj_fail_interrupted_def mj_view_def mj_inv_def job_events_set
          fun_eq_iff dict_get_map_snd stream_interrupted split: option.splits)
  qed
qed (auto simp: mj_inv_def mj_view_def mj_empty_def mj_get_def mj_require_def mj_events_after_def
    split: option.splits)

section \<open>The Postgres store is a job store\<close>

definition pj_view :: "postgres_jobs \<Rightarrow> job_view" where
  "pj_view s j = map_option (\<lambda>job. (job, pj_rows j s)) (job_row j (pj_jobs s))"

definition pj_inv :: "postgres_jobs \<Rightarrow> bool" where
  "pj_inv s \<longleftrightarrow> distinct (map ij_job_id (pj_jobs s)) \<and>
     (\<forall>r \<in> set (pj_events s). job_row (er_job_id r) (pj_jobs s) \<noteq> None) \<and>
     (\<forall>j. sorted (map er_sequence (filter (\<lambda>r. er_job_id r = j) (pj_events s)))) \<and>
     (\<forall>j job. job_row j (pj_jobs s) = Some job \<longrightarrow> stream_ok j job (pj_rows j s))"

lemma get_exclude_none:
  "distinct (map fst fs) \<Longrightarrow> dict_get (exclude_none fs) k = (case dict_get fs k of None \<Rightarrow> None | Some v \<Rightarrow> v)"
proof (induction fs rule: exclude_none.induct)
  case (2 name v rest)
  then have "dict_get rest name = None" by (simp add: map_of_eq_None_iff)
  with 2 show ?case by (auto split: option.splits)
qed simp

lemma get_details:
  "dict_get (event_details d) k = (case dict_get (detail_fields d) k of None \<Rightarrow> None | Some v \<Rightarrow> v)"
  unfolding event_details_def by (rule get_exclude_none) (simp add: detail_fields_def)

lemma read_back:
  "(case map_option JStr x of Some (JStr t) \<Rightarrow> Some t | _ \<Rightarrow> None) = x"
  "(case map_option JNum r of Some (JNum t) \<Rightarrow> Some t | _ \<Rightarrow> None) = r"
  "map_option floor (case map_option int_json i of Some (JNum t) \<Rightarrow> Some t | _ \<Rightarrow> None) = i"
  "(case map_option JBool b of Some (JBool t) \<Rightarrow> Some t | _ \<Rightarrow> None) = b"
  by (cases x; cases r; cases i; cases b; simp add: int_json_def)+

lemma details_round_trip: "details_of (event_details d) = d"
  by (simp add: details_of_def read_str_def read_num_def read_int_def read_bool_def get_details
      detail_fields_def read_back del: case_map_option)

lemma job_row_Some: "job_row j rows = Some job \<Longrightarrow> ij_job_id job = j \<and> job \<in> set rows"
  by (auto simp: job_row_def find_Some_iff)

lemma job_row_None: "job_row j rows = None \<longleftrightarrow> j \<notin> ij_job_id ` set rows"
  by (auto simp: job_row_def find_None_iff)

lemma job_row_append: "job_row j (rows @ [job]) =
    (case job_row j rows of None \<Rightarrow> (if ij_job_id job = j then Some job else None) | Some x \<Rightarrow> Some x)"
  unfolding job_row_def by (induction rows) auto

lemma job_row_update:
  assumes "\<And>x. ij_job_id (f x) = ij_job_id x"
  shows "job_row j (update_rows c f rows) = map_option (\<lambda>x. if c x then f x else x) (job_row j rows)"
  unfolding job_row_def update_rows_def by (induction rows) (auto simp: assms)

lemma update_rows_ids:
  assumes "\<And>x. ij_job_id (f x) = ij_job_id x"
  shows "map ij_job_id (update_rows c f rows) = map ij_job_id rows"
  by (simp add: update_rows_def assms)

lemma same_ids: "ij_job_id (job_appended e x) = ij_job_id x" "ij_job_id (job_finished now st err re x) = ij_job_id x"
  "ij_application_id (job_appended e x) = ij_application_id x"
  "ij_application_id (job_finished now st err re x) = ij_application_id x"
  by (simp_all add: job_appended_def job_finished_def)

lemma sort_sorted: "sorted (map f xs) \<Longrightarrow> sort_key f xs = xs"
  by (rule sort_key_id_if_sorted)

lemma pj_rows_sorted:
  assumes "pj_inv s" and "job_row j (pj_jobs s) = Some job"
  shows "pj_rows j s = map (event_of_row (ij_application_id job)) (filter (\<lambda>r. er_job_id r = j) (pj_events s))"
  using assms by (simp add: pj_rows_def pj_inv_def sort_sorted)

lemma row_round_trip:
  "event_of_row app \<lparr>er_job_id = j, er_sequence = n, er_stage = stage, er_message = msg,
     er_details = event_details d, er_occurred_at = t\<rparr> =
   \<lparr>ie_job_id = j, ie_application_id = app, ie_sequence = n, ie_stage = stage, ie_message = msg,
     ie_occurred_at = t, ie_details = d\<rparr>"
  by (simp add: event_of_row_def details_round_trip)

lemma pj_view_Some: "pj_view s j = Some (job, evs) \<longleftrightarrow> job_row j (pj_jobs s) = Some job \<and> evs = pj_rows j s"
  by (auto simp: pj_view_def)

lemma pj_view_None: "pj_view s j = None \<longleftrightarrow> job_row j (pj_jobs s) = None"
  by (simp add: pj_view_def)

text \<open>Changes of the job rows that keep identity, application and last sequence.\<close>

lemma pj_update_jobs:
  assumes inv: "pj_inv s" and ids: "\<And>x. ij_job_id (f x) = ij_job_id x" "\<And>x. ij_application_id (f x) = ij_application_id x"
    "\<And>x. ij_last_sequence (f x) = ij_last_sequence x"
  shows "pj_inv (s\<lparr>pj_jobs := update_rows c f (pj_jobs s)\<rparr>) \<and>
    pj_view (s\<lparr>pj_jobs := update_rows c f (pj_jobs s)\<rparr>) =
      (\<lambda>j. map_option (\<lambda>(job, evs). (if c job then f job else job, evs)) (pj_view s j))"
proof -
  let ?s = "s\<lparr>pj_jobs := update_rows c f (pj_jobs s)\<rparr>"
  note row = job_row_update [where f = f, OF ids(1)]
  have rows: "pj_rows j ?s = pj_rows j s" for j
    by (auto simp: pj_rows_def row ids(2) split: option.splits)
  have "stream_ok j job (pj_rows j ?s)" if "job_row j (pj_jobs ?s) = Some job" for j job
  proof -
    from that obtain old where old: "job_row j (pj_jobs s) = Some old" "job = (if c old then f old else old)"
      by (auto simp: row)
    with inv have "stream_ok j old (pj_rows j s)" by (simp add: pj_inv_def)
    with old ids show ?thesis by (simp add: rows stream_ok_def)
  qed
  moreover have "\<forall>r \<in> set (pj_events ?s). job_row (er_job_id r) (pj_jobs ?s) \<noteq> None"
    using inv by (simp add: pj_inv_def row)
  moreover have "distinct (map ij_job_id (pj_jobs ?s))"
    using inv by (simp add: pj_inv_def update_rows_ids [where f = f, OF ids(1)])
  moreover have "\<forall>j. sorted (map er_sequence (filter (\<lambda>r. er_job_id r = j) (pj_events ?s)))"
    using inv by (simp add: pj_inv_def)
  ultimately have "pj_inv ?s" unfolding pj_inv_def by blast
  moreover have "pj_view ?s = (\<lambda>j. map_option (\<lambda>(job, evs). (if c job then f job else job, evs)) (pj_view s j))"
    by (auto simp: pj_view_def row rows fun_eq_iff option.map_comp comp_def)
  ultimately show ?thesis by simp
qed

lemma pj_create_view:
  assumes inv: "pj_inv s" and new: "job_row j (pj_jobs s) = None" and free: "no_active (pj_view s) app"
  shows "\<exists>s'. pj_create now j app s = Inr (new_job now j app, s') \<and> pj_inv s' \<and>
    pj_view s' = (pj_view s)(j \<mapsto> (new_job now j app, []))"
proof -
  let ?s = "s\<lparr>pj_jobs := pj_jobs s @ [new_job now j app]\<rparr>"
  have "\<not> (ij_application_id x = app \<and> job_active (ij_status x))" if "x \<in> set (pj_jobs s)" for x
  proof -
    from inv that have "job_row (ij_job_id x) (pj_jobs s) = Some x"
      by (auto simp: pj_inv_def job_row_def find_Some_iff in_set_conv_nth distinct_conv_nth nth_eq_iff_index_eq)
    with free show ?thesis by (auto simp: no_active_def pj_view_Some)
  qed
  with new have run: "pj_create now j app s = Inr (new_job now j app, ?s)"
    by (auto simp: pj_create_def list_ex_iff)
  have none: "filter (\<lambda>r. er_job_id r = j) (pj_events s) = []"
    using inv new by (auto simp: pj_inv_def filter_empty_conv)
  have row: "job_row k (pj_jobs s @ [new_job now j app]) =
      (if k = j then Some (new_job now j app) else job_row k (pj_jobs s))" for k
    using new by (auto simp: job_row_append new_job_def split: option.splits)
  have rows: "pj_rows k ?s = (if k = j then [] else pj_rows k s)" for k
    using none by (auto simp: pj_rows_def row split: option.splits)
  have "ij_job_id (new_job now j app) = j" by (simp add: new_job_def)
  with inv new have "pj_inv ?s"
    by (auto simp: pj_inv_def row rows stream_new job_row_None)
  moreover have "pj_view ?s = (pj_view s)(j \<mapsto> (new_job now j app, []))"
    by (auto simp: pj_view_def row rows fun_eq_iff)
  ultimately show ?thesis using run by blast
qed

lemma pj_append_view:
  assumes inv: "pj_inv s" and job: "job_row j (pj_jobs s) = Some job" and d: "details_ok d"
  shows "\<exists>s'. pj_append now j stage msg d s = Inr (event_for now job stage msg d, s') \<and> pj_inv s' \<and>
    pj_view s' = (pj_view s)(j \<mapsto> (job_appended (event_for now job stage msg d) job,
      pj_rows j s @ [event_for now job stage msg d]))"
proof -
  let ?e = "event_for now job stage msg d"
  let ?r = "\<lparr>er_job_id = j, er_sequence = ie_sequence ?e, er_stage = stage, er_message = msg,
    er_details = event_details d, er_occurred_at = ie_occurred_at ?e\<rparr>"
  let ?s = "\<lparr>pj_jobs = update_rows (\<lambda>x. ij_job_id x = j) (job_appended ?e) (pj_jobs s), pj_events = pj_events s @ [?r]\<rparr>"
  let ?mine = "filter (\<lambda>r. er_job_id r = j) (pj_events s)"
  from inv job have ok: "stream_ok j job (pj_rows j s)" by (simp add: pj_inv_def)
  have mine: "map er_sequence ?mine = [1..<length ?mine + 1]" "ij_last_sequence job = length ?mine"
    using ok pj_rows_sorted [OF inv job] by (simp_all add: stream_ok_def event_of_row_def comp_def)
  have fresh: "\<not> list_ex (\<lambda>r. er_job_id r = j \<and> er_sequence r = ie_sequence ?e) (pj_events s)"
  proof
    assume "list_ex (\<lambda>r. er_job_id r = j \<and> er_sequence r = ie_sequence ?e) (pj_events s)"
    then have "ie_sequence ?e \<in> set (map er_sequence ?mine)"
      unfolding list_ex_iff set_map set_filter by (metis (mono_tags, lifting) image_eqI mem_Collect_eq)
    with mine show False by (simp add: event_for_def)
  qed
  from job d fresh have run: "pj_append now j stage msg d s = Inr (?e, ?s)"
    by (simp add: pj_append_def make_event_eq)
  note row = job_row_update [where f = "job_appended ?e", OF same_ids(1)]
  from job_row_Some [OF job] have jid: "ij_job_id job = j" by simp
  have snoc: "sorted (map er_sequence (?mine @ [?r]))"
    using mine by (simp add: event_for_def sorted_append)
  have rows: "pj_rows k ?s = (if k = j then pj_rows j s @ [?e] else pj_rows k s)" for k
  proof (cases "k = j")
    case True
    with snoc True job jid pj_rows_sorted [OF inv job] show ?thesis
      by (simp add: pj_rows_def row same_ids sort_sorted row_round_trip) (simp add: event_for_def)
  next
    case False
    then show ?thesis by (auto simp: pj_rows_def row same_ids split: option.splits)
  qed
  have "stream_ok k x (pj_rows k ?s)" if "job_row k (pj_jobs ?s) = Some x" for k x
  proof (cases "k = j")
    case True
    with that job jid have "x = job_appended ?e job" by (simp add: row)
    with True stream_append [OF ok d] show ?thesis by (simp add: rows)
  next
    case False
    with that have "job_row k (pj_jobs s) = Some x" by (auto simp: row dest: job_row_Some split: if_splits)
    with False inv show ?thesis by (simp add: rows pj_inv_def)
  qed
  moreover have "sorted (map er_sequence (filter (\<lambda>r. er_job_id r = k) (pj_events ?s)))" for k
    using inv snoc by (cases "k = j") (auto simp: pj_inv_def)
  ultimately have "pj_inv ?s"
    using inv job by (auto simp: pj_inv_def row update_rows_ids [where f = "job_appended ?e", OF same_ids(1)])
  moreover have "pj_view ?s = (pj_view s)(j \<mapsto> (job_appended ?e job, pj_rows j s @ [?e]))"
  proof
    fix k
    show "pj_view ?s k = ((pj_view s)(j \<mapsto> (job_appended ?e job, pj_rows j s @ [?e]))) k"
    proof (cases "k = j")
      case True
      with job jid show ?thesis by (simp add: pj_view_def row rows)
    next
      case False
      then have "job_row k (pj_jobs ?s) = job_row k (pj_jobs s)"
        using job_row_Some [of k "pj_jobs s"] by (cases "job_row k (pj_jobs s)") (simp_all add: row)
      with False show ?thesis by (simp add: pj_view_def rows)
    qed
  qed
  ultimately show ?thesis using run by blast
qed

interpretation pj: job_store postgres_job_ops pj_inv pj_view pj_empty
proof (unfold_locales, goal_cases)
  case (6 s c now)
  show ?case
  proof (cases c)
    case (Create_Job j app)
    show ?thesis
    proof (cases "job_row j (pj_jobs s)")
      case None
      from pj_create_view [OF 6(1) this 6(2) [OF Create_Job], of now] obtain s' where
        "pj_create now j app s = Inr (new_job now j app, s')" "pj_inv s'"
        "pj_view s' = (pj_view s)(j \<mapsto> (new_job now j app, []))" by blast
      moreover from None have "pj_view s j = None" by (simp add: pj_view_None)
      ultimately show ?thesis using Create_Job by (simp)
    qed (use 6(1) Create_Job in \<open>simp add: pj_create_def pj_view_def\<close>)
  next
    case (Append_Event j stage msg d)
    show ?thesis
    proof (cases "job_row j (pj_jobs s)")
      case (Some job)
      show ?thesis
      proof (cases "details_ok d")
        case True
        from pj_append_view [OF 6(1) Some this, of now stage msg] obtain s' where
          "pj_append now j stage msg d s = Inr (event_for now job stage msg d, s')" "pj_inv s'"
          "pj_view s' = (pj_view s)(j \<mapsto> (job_appended (event_for now job stage msg d) job,
            pj_rows j s @ [event_for now job stage msg d]))" by blast
        moreover from Some have "pj_view s j = Some (job, pj_rows j s)" by (simp add: pj_view_def)
        ultimately show ?thesis using True Append_Event by (simp)
      qed (use 6(1) Some Append_Event in \<open>simp add: pj_append_def make_event_eq pj_view_def\<close>)
    qed (use 6(1) Append_Event in \<open>simp add: pj_append_def pj_view_def\<close>)
  next
    case (Finish_Job j st err re)
    show ?thesis
    proof (cases "job_row j (pj_jobs s)")
      case (Some job)
      from pj_update_jobs [OF 6(1), of "job_finished now st err re" "\<lambda>x. ij_job_id x = j"]
      have u: "pj_inv (job_apply postgres_job_ops now c s)"
        "pj_view (job_apply postgres_job_ops now c s) =
          (\<lambda>k. map_option (\<lambda>(job, evs). (if ij_job_id job = j then job_finished now st err re job else job, evs)) (pj_view s k))"
        using Some Finish_Job by (simp_all add: pj_finish_def same_ids job_finished_def)
      from Some have view: "pj_view s j = Some (job, pj_rows j s)" by (simp add: pj_view_def)
      have "pj_view s k = Some (x, evs) \<Longrightarrow> ij_job_id x = k" for k x evs
        by (auto simp: pj_view_Some dest: job_row_Some)
      with view have "pj_view (job_apply postgres_job_ops now c s) =
          (pj_view s)(j \<mapsto> (job_finished now st err re job, pj_rows j s))"
        unfolding u(2) by (intro ext) (auto split: prod.splits option.splits simp: map_option_case)
      with u(1) view Finish_Job show ?thesis by simp
    qed (use 6(1) Finish_Job in \<open>simp add: pj_finish_def pj_view_def\<close>)
  next
    case Fail_Interrupted
    from pj_update_jobs [OF 6(1), of "job_finished now Job_Failed (Some ''service_restarted'') (Some True)"
        "\<lambda>x. job_active (ij_status x)"] Fail_Interrupted
    show ?thesis
      by (simp add: pj_fail_interrupted_def same_ids job_finished_def job_interrupted_def)
  qed
next
  case (3 s j job evs)
  then show ?case by (auto simp: pj_view_Some pj_inv_def)
next
  case (5 s j n)
  then show ?case
    by (auto simp: pj_events_after_def Let_def pj_view_def pj_rows_def split: option.splits)
qed (auto simp: pj_inv_def pj_view_def pj_empty_def pj_get_def job_row_def split: option.splits)

section \<open>Sessions\<close>

text \<open>Each job is created for an application of its own, as the identifiers of submissions are.\<close>

fun created_apps :: "(timestamp \<times> job_command) list \<Rightarrow> app_id list" where
  "created_apps [] = []"
| "created_apps ((now, Create_Job j app) # cs) = app # created_apps cs"
| "created_apps (_ # cs) = created_apps cs"

definition spec_run :: "(timestamp \<times> job_command) list \<Rightarrow> job_view \<Rightarrow> job_view" where
  "spec_run = fold (\<lambda>(now, c). spec_apply now c)"

definition view_apps :: "job_view \<Rightarrow> app_id set" where
  "view_apps v = {ij_application_id job | j job evs. v j = Some (job, evs)}"

lemma view_apps_same:
  assumes "\<And>k job evs. v' k = Some (job, evs) \<Longrightarrow> \<exists>old evs'. v k = Some (old, evs') \<and> ij_application_id job = ij_application_id old"
  shows "view_apps v' \<subseteq> view_apps v"
  using assms unfolding view_apps_def by fastforce

lemma spec_apps: "view_apps (spec_apply now c v) \<subseteq> view_apps v \<union> set (created_apps [(now, c)])"
proof (cases c)
  case (Create_Job j app)
  then show ?thesis by (auto simp: view_apps_def new_job_def split: option.splits if_splits)
next
  case (Append_Event j stage msg d)
  have "view_apps (spec_apply now c v) \<subseteq> view_apps v"
    by (rule view_apps_same) (auto simp: Append_Event same_ids split: option.splits if_splits)
  then show ?thesis by blast
next
  case (Finish_Job j st err re)
  have "view_apps (spec_apply now c v) \<subseteq> view_apps v"
    by (rule view_apps_same) (auto simp: Finish_Job same_ids split: option.splits if_splits)
  then show ?thesis by blast
next
  case Fail_Interrupted
  have "view_apps (spec_apply now c v) \<subseteq> view_apps v"
    by (rule view_apps_same) (auto simp: Fail_Interrupted job_interrupted_def same_ids)
  then show ?thesis by blast
qed

lemma created_apps_Cons: "created_apps (c # cs) = created_apps [c] @ created_apps cs"
  by (cases c; cases "snd c") auto

lemma fresh_no_active: "app \<notin> view_apps v \<Longrightarrow> no_active v app"
  by (auto simp: no_active_def view_apps_def)

context job_store
begin

lemma run_refines:
  assumes "inv s" and "distinct (created_apps cs)" and "view_apps (view s) \<inter> set (created_apps cs) = {}"
  shows "inv (job_run ops cs s) \<and> view (job_run ops cs s) = spec_run cs (view s)"
  using assms
proof (induction cs arbitrary: s)
  case (Cons c cs)
  obtain now cmd where c: "c = (now, cmd)" by (cases c)
  let ?s = "job_apply ops now cmd s"
  have apps: "created_apps (c # cs) = created_apps [(now, cmd)] @ created_apps cs"
    unfolding c by (rule created_apps_Cons)
  have "no_active (view s) app" if "cmd = Create_Job j app" for j app
    using Cons.prems(3) that by (intro fresh_no_active) (auto simp: apps)
  with apply_view [OF Cons.prems(1), of cmd now] have s: "inv ?s" "view ?s = spec_apply now cmd (view s)" by auto
  from spec_apps [of now cmd "view s"] Cons.prems(2,3)
  have "view_apps (view ?s) \<inter> set (created_apps cs) = {}" unfolding s(2) apps by auto
  moreover have "distinct (created_apps cs)" using Cons.prems(2) by (simp add: apps)
  ultimately show ?case using Cons.IH [OF s(1)] s(2) by (simp add: job_run_def spec_run_def c)
qed (simp add: job_run_def spec_run_def)

end

text \<open>The index on active jobs only refuses a creation, so the Postgres invariant needs no hypothesis.\<close>

lemma pj_apply_inv: "pj_inv s \<Longrightarrow> pj_inv (job_apply postgres_job_ops now c s)"
proof (cases "\<exists>j app. c = Create_Job j app \<and> \<not> no_active (pj_view s) app")
  case True
  assume inv: "pj_inv s"
  from True obtain j app where c: "c = Create_Job j app" and "\<not> no_active (pj_view s) app" by blast
  then obtain k job where "job_row k (pj_jobs s) = Some job" "ij_application_id job = app" "job_active (ij_status job)"
    by (auto simp: no_active_def pj_view_Some)
  then have "list_ex (\<lambda>j. ij_application_id j = app \<and> job_active (ij_status j)) (pj_jobs s)"
    by (auto simp: list_ex_iff dest: job_row_Some)
  with c inv show ?thesis by (simp add: pj_create_def ensure_def split: if_splits)
next
  case False
  assume "pj_inv s"
  with pj.apply_view [of s c now] False show ?thesis by blast
qed

lemma pj_run_inv: "pj_inv s \<Longrightarrow> pj_inv (job_run postgres_job_ops cs s)"
proof (induction cs arbitrary: s)
  case (Cons c cs)
  then show ?case by (cases c) (simp add: job_run_def pj_apply_inv)
qed (simp add: job_run_def)

end
