(* ===== verification/FM_Jobs_Props.thy ===== *)
theory FM_Jobs_Props
  imports FM_Jobs
begin

text \<open>The properties of the intake jobs: the two stores agree, and the activity stream is complete.\<close>

section \<open>A session\<close>

definition told :: "string \<Rightarrow> string \<Rightarrow> job_command" where
  "told j stage = Append_Event j stage ''m'' (no_details\<lparr>ad_completed := Some 1\<rparr>)"

definition job_session :: "(timestamp \<times> job_command) list" where
  "job_session = [(1, Create_Job ''j1'' ''a1''), (2, told ''j1'' ''upload_received''), (3, Create_Job ''j2'' ''a2''),
     (4, told ''j2'' ''upload_received''), (5, told ''j1'' ''checkpoint''), (6, Finish_Job ''j1'' Job_Completed None None),
     (7, Fail_Interrupted)]"

section \<open>Properties\<close>

text \<open>
  C20. The in-memory and the Postgres job store are observationally equivalent: after the same
  session, whose jobs are for distinct applications, both give the same job and the same events to
  every reader. Both refine the same map from job identifiers to jobs with their events.
\<close>

theorem job_stores_equivalent:
  assumes "distinct (created_apps session)"
  shows "mj_get j (job_run memory_job_ops session mj_empty) = pj_get j (job_run postgres_job_ops session pj_empty) \<and>
    mj_events_after j n (job_run memory_job_ops session mj_empty) =
      pj_events_after j n (job_run postgres_job_ops session pj_empty)"
proof -
  have none: "view_apps v \<inter> X = {}" if "\<And>k. v k = None" for v :: job_view and X
    using that by (auto simp: view_apps_def)
  have empty: "mj_view mj_empty = pj_view pj_empty" by (rule ext) (simp add: mj.view_empty pj.view_empty)
  from mj.run_refines [OF mj.inv_empty assms none [OF mj.view_empty]]
    pj.run_refines [OF pj.inv_empty assms none [OF pj.view_empty]]
  have same: "mj_inv (job_run memory_job_ops session mj_empty)" "pj_inv (job_run postgres_job_ops session pj_empty)"
    "mj_view (job_run memory_job_ops session mj_empty) = pj_view (job_run postgres_job_ops session pj_empty)"
    unfolding empty by simp_all
  from mj.get_view [OF same(1)] pj.get_view [OF same(2)] mj.events_view [OF same(1)] pj.events_view [OF same(2)]
  show ?thesis by (simp add: same(3))
qed

lemma job_session_events:
  "map_sum id (map ie_stage) (mj_events_after ''j1'' 1 (job_run memory_job_ops job_session mj_empty)) = Inr [''checkpoint'']"
  by code_simp

theorem job_stores_equivalent_witness:
  "map_sum id (map ie_stage) (pj_events_after ''j1'' 1 (job_run postgres_job_ops job_session pj_empty)) = Inr [''checkpoint'']"
  using job_stores_equivalent [of job_session "''j1''" 1] job_session_events
  by (simp add: job_session_def told_def)

text \<open>
  C24. The activity stream is complete: after any session on an empty database the events of a job
  are numbered from one without gaps, the job knows how many there are, each carries the job's
  own identifiers, and a reader that polls after the last sequence it saw gets exactly the events
  it has not seen.
\<close>

theorem activity_stream_complete:
  assumes "pj_get j (job_run postgres_job_ops session pj_empty) = Inr job"
    and "pj_events_after j 0 (job_run postgres_job_ops session pj_empty) = Inr evs"
  shows "map ie_sequence evs = [1..<length evs + 1] \<and> ij_last_sequence job = length evs \<and>
    list_all (\<lambda>e. ie_job_id e = j \<and> ie_application_id e = ij_application_id job) evs \<and>
    pj_events_after j (int seen) (job_run postgres_job_ops session pj_empty) = Inr (drop seen evs)"
proof -
  let ?s = "job_run postgres_job_ops session pj_empty"
  have inv: "pj_inv ?s" by (rule pj_run_inv [OF pj.inv_empty])
  obtain evs' where view: "pj_view ?s j = Some (job, evs')"
    using pj.get_view [OF inv, of j] assms(1) by (auto split: option.splits)
  note suffix = pj.events_suffix [OF inv view]
  from suffix [of 0] assms(2) have "evs' = evs" by simp
  with pj.view_ok [OF inv view] suffix [of seen] show ?thesis
    by (auto simp: stream_ok_def list_all_iff)
qed

definition session_store :: postgres_jobs where
  "session_store = job_run postgres_job_ops job_session pj_empty"

lemma session_store_ok: "is_ok (pj_get ''j1'' session_store)" "is_ok (pj_events_after ''j1'' 0 session_store)"
  by (code_simp, code_simp)

theorem activity_stream_complete_witness:
  "map_sum id length (pj_events_after ''j1'' 0 session_store) = map_sum id ij_last_sequence (pj_get ''j1'' session_store)"
proof -
  obtain job evs where "pj_get ''j1'' session_store = Inr job" "pj_events_after ''j1'' 0 session_store = Inr evs"
    using session_store_ok by (auto simp: is_ok_iff)
  with activity_stream_complete [of "''j1''" job_session job evs] show ?thesis
    by (simp add: session_store_def)
qed

end
