(* ===== verification/FM_RateLimit.thy ===== *)
theory FM_RateLimit
  imports FM_Policy
begin

text \<open>
  The fixed-window rate limits and the concurrency leases of the API
  (\<open>security/rate_limit.py\<close>) over their two tables, with the category of a request from
  \<open>api/app.py\<close>. Times are in seconds; a transaction takes effect as one step.
\<close>

section \<open>The tables\<close>

record rate_row =
  rl_subject :: string
  rl_category :: string
  rl_window_started_at :: timestamp
  rl_request_count :: nat

record lease_row =
  le_request_id :: string
  le_subject :: string
  le_category :: string
  le_expires_at :: timestamp

record limiter =
  li_rates :: "rate_row list"
  li_leases :: "lease_row list"

definition no_limits :: limiter where
  "no_limits = \<lparr>li_rates = [], li_leases = []\<rparr>"

definition window_start :: "api_limit_policy \<Rightarrow> timestamp \<Rightarrow> timestamp" where
  "window_start p now = (now div int (al_window_seconds p)) * int (al_window_seconds p)"

definition rate_key :: "string \<Rightarrow> string \<Rightarrow> timestamp \<Rightarrow> rate_row \<Rightarrow> bool" where
  "rate_key subject category started r \<longleftrightarrow>
     rl_subject r = subject \<and> rl_category r = category \<and> rl_window_started_at r = started"

text \<open>The upsert, with the count it returns.\<close>

definition count_request :: "string \<Rightarrow> string \<Rightarrow> timestamp \<Rightarrow> rate_row list \<Rightarrow> nat \<times> rate_row list" where
  "count_request subject category started rows =
     (case find (rate_key subject category started) rows of
        None \<Rightarrow> (1, rows @ [\<lparr>rl_subject = subject, rl_category = category, rl_window_started_at = started,
          rl_request_count = 1\<rparr>])
      | Some r \<Rightarrow> (rl_request_count r + 1,
          map (\<lambda>x. if rate_key subject category started x then x\<lparr>rl_request_count := rl_request_count r + 1\<rparr> else x) rows))"

definition allow :: "timestamp \<Rightarrow> string \<Rightarrow> string \<Rightarrow> api_limit_policy \<Rightarrow> limiter \<Rightarrow> bool \<times> limiter" where
  "allow now subject category p l =
     (case count_request subject category (window_start p now) (li_rates l) of
        (n, rows) \<Rightarrow> (n \<le> al_requests p, l\<lparr>li_rates := rows\<rparr>))"

definition acquire_concurrency ::
  "timestamp \<Rightarrow> string \<Rightarrow> string \<Rightarrow> string \<Rightarrow> api_limit_policy \<Rightarrow> limiter \<Rightarrow> bool \<times> limiter" where
  "acquire_concurrency now subject category request_id p l =
     (let active = filter (\<lambda>x. now < le_expires_at x) (li_leases l) in
      if al_max_concurrent p \<le> length (filter (\<lambda>x. le_category x = category) active) then (False, l\<lparr>li_leases := active\<rparr>)
      else (True, l\<lparr>li_leases :=
        (if list_ex (\<lambda>x. le_request_id x = request_id) active then active
         else active @ [\<lparr>le_request_id = request_id, le_subject = subject, le_category = category,
           le_expires_at = now + int (al_concurrency_lease_seconds p)\<rparr>])\<rparr>))"

definition release_concurrency :: "string \<Rightarrow> limiter \<Rightarrow> limiter" where
  "release_concurrency request_id l = l\<lparr>li_leases := filter (\<lambda>x. le_request_id x \<noteq> request_id) (li_leases l)\<rparr>"

section \<open>The category of a request\<close>

definition rate_category :: "string \<Rightarrow> string \<Rightarrow> string option" where
  "rate_category method request_path =
     (if request_path \<in> {''/health'', ''/ready'', ''/''} \<or> starts_with ''/assets/'' request_path then None
      else if request_path = ''/v1/intake-jobs'' \<and> method = ''POST'' then Some ''upload''
      else if ends_with ''/resume'' request_path then Some ''resume''
      else if ends_with ''/decision'' request_path then Some ''review''
      else if contains_str ''/reveal'' request_path then Some ''reveal''
      else Some ''read'')"

section \<open>The middleware\<close>

text \<open>
  \<open>Refused\<close> carries the status code, the detail and \<open>Retry-After\<close>. The lease is released whether
  the handler returns or raises; a category without a limit raises \<open>KeyError\<close>.
\<close>

datatype 'a guarded = Refused nat string nat | Passed 'a

definition production_security ::
  "bool \<Rightarrow> (string \<times> api_limit_policy) list \<Rightarrow> timestamp \<Rightarrow> string \<Rightarrow> string \<Rightarrow> string \<Rightarrow> string \<Rightarrow>
   ('w, py_exn, 'a) io \<Rightarrow> (limiter \<times> 'w, py_exn, 'a guarded) io" where
  "production_security enabled limits now method request_path subject lease_id handler = (\<lambda>(l, w).
     case (if enabled then rate_category method request_path else None) of
       None \<Rightarrow> (case handler w of (Inl e, w') \<Rightarrow> (Inl e, l, w') | (Inr x, w') \<Rightarrow> (Inr (Passed x), l, w'))
     | Some category \<Rightarrow>
         (case dict_get limits category of
            None \<Rightarrow> (Inl (KeyError category), l, w)
          | Some p \<Rightarrow>
              (case allow now subject category p l of
                 (False, l1) \<Rightarrow> (Inr (Refused 429 ''request rate limit exceeded'' (al_window_seconds p)), l1, w)
               | (True, l1) \<Rightarrow>
                   (case acquire_concurrency now subject category lease_id p l1 of
                      (False, l2) \<Rightarrow> (Inr (Refused 429 ''request concurrency limit exceeded'' 5), l2, w)
                    | (True, l2) \<Rightarrow>
                        (case handler w of
                           (Inl e, w') \<Rightarrow> (Inl e, release_concurrency lease_id l2, w')
                         | (Inr x, w') \<Rightarrow> (Inr (Passed x), release_concurrency lease_id l2, w'))))))"

section \<open>Sessions\<close>

datatype limit_command =
    Ask timestamp string string
  | Acquire timestamp string string string
  | Release string

text \<open>
  A session under the limits \<open>p\<close> of each category, with the requests it admitted. Requests may
  overlap: acquisitions and releases come in any order.
\<close>

fun limit_step ::
  "(string \<Rightarrow> api_limit_policy) \<Rightarrow> limit_command \<Rightarrow> (timestamp \<times> string \<times> string) list \<times> limiter \<Rightarrow>
   (timestamp \<times> string \<times> string) list \<times> limiter" where
  "limit_step p (Ask now s c) (admitted, l) =
     (case allow now s c (p c) l of (b, l') \<Rightarrow> (if b then (now, s, c) # admitted else admitted, l'))"
| "limit_step p (Acquire now s c i) (admitted, l) = (admitted, snd (acquire_concurrency now s c i (p c) l))"
| "limit_step p (Release i) (admitted, l) = (admitted, release_concurrency i l)"

definition limit_run ::
  "(string \<Rightarrow> api_limit_policy) \<Rightarrow> limit_command list \<Rightarrow> (timestamp \<times> string \<times> string) list \<times> limiter" where
  "limit_run p cs = fold (limit_step p) cs ([], no_limits)"

definition admitted_in ::
  "(string \<Rightarrow> api_limit_policy) \<Rightarrow> string \<Rightarrow> string \<Rightarrow> timestamp \<Rightarrow> (timestamp \<times> string \<times> string) list \<Rightarrow> nat" where
  "admitted_in p s c started trace = length (filter (\<lambda>(now, s', c'). s' = s \<and> c' = c \<and> window_start (p c) now = started) trace)"

definition leases_of :: "string \<Rightarrow> limiter \<Rightarrow> nat" where
  "leases_of c l = length (filter (\<lambda>x. le_category x = c) (li_leases l))"

definition counted :: "string \<Rightarrow> string \<Rightarrow> timestamp \<Rightarrow> limiter \<Rightarrow> nat" where
  "counted s c started l = (case find (rate_key s c started) (li_rates l) of None \<Rightarrow> 0 | Some r \<Rightarrow> rl_request_count r)"

lemma find_map_other:
  "(\<And>x. Q x \<Longrightarrow> \<not> P x) \<Longrightarrow> (\<And>x. P (f x) = P x) \<Longrightarrow>
     find P (map (\<lambda>x. if Q x then f x else x) xs) = find P xs"
  by (induction xs) auto

lemma find_append: "find P (xs @ ys) = (case find P xs of None \<Rightarrow> find P ys | Some x \<Rightarrow> Some x)"
  by (induction xs) auto

lemma find_map_same:
  "find P xs = Some r \<Longrightarrow> (\<And>x. P (f x) = P x) \<Longrightarrow> find P (map (\<lambda>x. if P x then f x else x) xs) = Some (f r)"
  by (induction xs) (auto split: if_splits)

lemma counted_after:
  assumes "count_request s c started (li_rates l) = (n, rows)"
  shows "n = counted s c started l + 1"
    and "counted s' c' started' (l\<lparr>li_rates := rows\<rparr>) =
      (if s' = s \<and> c' = c \<and> started' = started then n else counted s' c' started' l)"
proof -
  have other: "rate_key s' c' started' x \<Longrightarrow> rate_key s c started x \<Longrightarrow> s' = s \<and> c' = c \<and> started' = started" for x
    by (auto simp: rate_key_def)
  have key: "rate_key s' c' started' (x\<lparr>rl_request_count := k\<rparr>) = rate_key s' c' started' x" for s' c' started' x k
    by (simp add: rate_key_def)
  show "n = counted s c started l + 1"
    using assms by (auto simp: count_request_def counted_def split: option.splits)
  show "counted s' c' started' (l\<lparr>li_rates := rows\<rparr>) =
      (if s' = s \<and> c' = c \<and> started' = started then n else counted s' c' started' l)"
  proof (cases "find (rate_key s c started) (li_rates l)")
    case None
    with assms show ?thesis
      by (auto simp: count_request_def counted_def find_append rate_key_def split: option.splits)
  next
    case (Some r)
    then have rows: "rows = map (\<lambda>x. if rate_key s c started x then x\<lparr>rl_request_count := n\<rparr> else x) (li_rates l)"
      and n: "n = rl_request_count r + 1" using assms by (auto simp: count_request_def)
    show ?thesis
    proof (cases "s' = s \<and> c' = c \<and> started' = started")
      case True
      with Some find_map_same [OF Some, of "\<lambda>x. x\<lparr>rl_request_count := n\<rparr>"] show ?thesis
        by (simp add: counted_def rows key)
    next
      case False
      then have "find (rate_key s' c' started') rows = find (rate_key s' c' started') (li_rates l)"
        unfolding rows using other key by (intro find_map_other) auto
      with False show ?thesis by (auto simp: counted_def)
    qed
  qed
qed

definition limits_ok :: "(string \<Rightarrow> api_limit_policy) \<Rightarrow> (timestamp \<times> string \<times> string) list \<times> limiter \<Rightarrow> bool" where
  "limits_ok p = (\<lambda>(trace, l).
     (\<forall>s c started. admitted_in p s c started trace \<le> min (counted s c started l) (al_requests (p c))) \<and>
     (\<forall>c. leases_of c l \<le> al_max_concurrent (p c)))"

lemma leases_filter: "leases_of c (l\<lparr>li_leases := filter Q (li_leases l)\<rparr>) \<le> leases_of c l"
proof -
  have "length (filter P (filter Q xs)) \<le> length (filter P xs)" for P Q and xs :: "lease_row list"
    by (induction xs) auto
  then show ?thesis by (simp add: leases_of_def)
qed

lemma limit_step_ok:
  assumes "limits_ok p st"
  shows "limits_ok p (limit_step p cmd st)"
proof -
  obtain trace l where st: "st = (trace, l)" by (cases st)
  show ?thesis
  proof (cases cmd)
    case (Ask now s c)
    obtain n rows where n: "count_request s c (window_start (p c) now) (li_rates l) = (n, rows)" by fastforce
    note after = counted_after [OF n]
    have "admitted_in p s' c' started (if n \<le> al_requests (p c) then (now, s, c) # trace else trace)
        \<le> min (counted s' c' started (l\<lparr>li_rates := rows\<rparr>)) (al_requests (p c'))" for s' c' started
    proof -
      have "admitted_in p s' c' started trace \<le> min (counted s' c' started l) (al_requests (p c'))"
        using assms st by (simp add: limits_ok_def)
      with after show ?thesis by (auto simp: admitted_in_def)
    qed
    moreover have "leases_of c' (l\<lparr>li_rates := rows\<rparr>) \<le> al_max_concurrent (p c')" for c'
      using assms st by (simp add: limits_ok_def leases_of_def)
    ultimately show ?thesis using Ask st n by (simp add: allow_def limits_ok_def)
  next
    case (Acquire now s c i)
    have "leases_of c' (l\<lparr>li_leases := filter (\<lambda>x. now < le_expires_at x) (li_leases l)\<rparr>) \<le> al_max_concurrent (p c')" for c'
      by (rule le_trans [OF leases_filter]) (use assms st in \<open>simp add: limits_ok_def\<close>)
    with assms st Acquire show ?thesis
      by (auto simp: limits_ok_def acquire_concurrency_def Let_def counted_def leases_of_def)
  next
    case (Release i)
    with assms st show ?thesis
      by (auto simp: limits_ok_def release_concurrency_def counted_def intro: le_trans [OF leases_filter])
  qed
qed

text \<open>
  C25. The limits hold over any session, however the requests overlap: in each window of a category a
  subject is admitted at most as often as its policy allows, and a category never has more leases
  than its bound.
\<close>

theorem api_limits_hold:
  "admitted_in p s c started (fst (limit_run p cs)) \<le> al_requests (p c) \<and>
   leases_of c (snd (limit_run p cs)) \<le> al_max_concurrent (p c)"
proof -
  have "limits_ok p (fold (limit_step p) cs st)" if "limits_ok p st" for st
    using that
  proof (induction cs arbitrary: st)
    case (Cons cmd cs)
    from Cons.IH [OF limit_step_ok [OF Cons.prems]] show ?case by simp
  qed simp
  moreover have "limits_ok p ([], no_limits)"
    by (simp add: limits_ok_def admitted_in_def leases_of_def no_limits_def)
  ultimately have "limits_ok p (limit_run p cs)" by (simp add: limit_run_def)
  then show ?thesis by (auto simp: limits_ok_def split: prod.splits)
qed

end
