(* ===== verification/FM_Writeback.thy ===== *)
theory FM_Writeback
  imports FM_Workers FM_Jobs
begin

text \<open>
  From a human decision to precedent memory: the vector store (\<open>precedent/store.py\<close>) over a client
  of the database, and the write-back service (\<open>precedent/writeback.py\<close>) with its outbox. The client,
  the embedder, the redaction and the JSON forms are parameters.
\<close>

section \<open>The systems outside the workflow\<close>

datatype outbox_status = Outbox_Pending | Outbox_Processing | Outbox_Completed | Outbox_Failed

record outbox_row =
  ob_command_id :: uuid
  ob_application_id :: app_id
  ob_operation :: string
  ob_payload_hash :: string
  ob_status :: outbox_status
  ob_attempts :: nat
  ob_receipt :: "json_object option"
  ob_error :: "string option"

text \<open>The other tables of the production guardrails.\<close>

record reveal_row =
  rv_command_id :: uuid
  rv_application_id :: app_id
  rv_actor_id :: string
  rv_field_name :: string
  rv_reason :: string

record lifecycle_row =
  lr_case_id :: string
  lr_status :: precedent_status
  lr_policy_hash :: string
  lr_valid_until :: "timestamp option"
  lr_supersedes_case_id :: "string option"
  lr_command_id :: uuid
  lr_reason :: string
  lr_actor_id :: string

record tombstone =
  ts_application_id :: app_id
  ts_policy_hash :: string
  ts_receipt :: string
  ts_payload :: string

text \<open>
  What the world of the workers holds besides files and workflow: the jobs with the bindings of
  the activity bridge, the guardrail tables, the vector database, and the rest.
\<close>

record ('j, 'q, 'y) systems =
  sy_jobs :: 'j
  sy_bound :: "(app_id \<times> string) list"
  sy_outbox :: "outbox_row list"
  sy_reveals :: "reveal_row list"
  sy_lifecycle :: "lifecycle_row list"
  sy_tombstones :: "tombstone list"
  sy_qdrant :: 'q
  sy_rest :: 'y

type_synonym ('r, 'j, 'q, 'y) memory_world = "('r, ('j, 'q, 'y) systems) world"

definition on_systems :: "(('j, 'q, 'y) systems, py_exn, 'a) io \<Rightarrow> (('r, 'j, 'q, 'y) memory_world, py_exn, 'a) io" where
  "on_systems m w = (case m (wd_ext w) of (r, x) \<Rightarrow> (r, w\<lparr>wd_ext := x\<rparr>))"

definition on_qdrant :: "('q, py_exn, 'a) io \<Rightarrow> (('r, 'j, 'q, 'y) memory_world, py_exn, 'a) io" where
  "on_qdrant m = on_systems (\<lambda>x. case m (sy_qdrant x) of (r, q) \<Rightarrow> (r, x\<lparr>sy_qdrant := q\<rparr>))"

definition repo_get :: "'r repo_ops \<Rightarrow> app_id \<Rightarrow> (('r, 'j, 'q, 'y) memory_world, py_exn, workflow_record) io" where
  "repo_get ops app w = (case rp_get ops app (wd_repo w) of Inl e \<Rightarrow> (Inl (workflow_exn e), w) | Inr r \<Rightarrow> (Inr r, w))"

definition repo_call ::
  "(nat \<Rightarrow> tick) \<Rightarrow> (tick \<Rightarrow> 'r \<Rightarrow> workflow_error + (transition_result \<times> 'r)) \<Rightarrow>
   (('r, 'j, 'q, 'y) memory_world, py_exn, transition_result) io" where
  "repo_call ticks f w =
     (case f (ticks (wd_ticks w)) (wd_repo w) of
        Inl e \<Rightarrow> (Inl (workflow_exn e), w\<lparr>wd_ticks := wd_ticks w + 1\<rparr>)
      | Inr (res, repo) \<Rightarrow> (Inr res, w\<lparr>wd_repo := repo, wd_ticks := wd_ticks w + 1\<rparr>))"

section \<open>The vector store\<close>

type_synonym vector = "rat list"

record vector_point =
  vp_id :: uuid
  vp_profile :: vector
  vp_comments :: vector
  vp_payload :: json_object

record 'q qdrant =
  qd_exists :: "string \<Rightarrow> ('q, py_exn, bool) io"
  qd_delete_collection :: "string \<Rightarrow> ('q, py_exn, unit) io"
  qd_create_collection :: "string \<Rightarrow> nat \<Rightarrow> ('q, py_exn, unit) io"
  qd_upsert :: "string \<Rightarrow> vector_point list \<Rightarrow> ('q, py_exn, unit) io"
  qd_retrieve :: "string \<Rightarrow> uuid list \<Rightarrow> ('q, py_exn, json_object option list) io"
  qd_set_payload :: "string \<Rightarrow> string \<Rightarrow> string \<Rightarrow> uuid list \<Rightarrow> ('q, py_exn, unit) io"

record precedent_embedder =
  eb_vector_size :: nat
  eb_profiles :: "decided_loan_case list \<Rightarrow> py_exn + vector list"
  eb_comments :: "decided_loan_case list \<Rightarrow> py_exn + vector list"

text \<open>\<open>st_parse\<close> types the fields of a payload; the validators of the model are \<open>validate_case\<close>.\<close>

record 'q store =
  st_client :: "'q qdrant"
  st_collection :: string
  st_uuid5 :: "string \<Rightarrow> uuid"
  st_dump :: "decided_loan_case \<Rightarrow> json_object"
  st_parse :: "json_object \<Rightarrow> decided_loan_case option"

definition point_id :: "'q store \<Rightarrow> string \<Rightarrow> uuid" where
  "point_id st case_id = st_uuid5 st (''fundermatch:'' @ case_id)"

definition parse_case :: "'q store \<Rightarrow> json_object \<Rightarrow> py_exn + decided_loan_case" where
  "parse_case st payload =
     (case st_parse st payload of
        None \<Rightarrow> Inl (ValueError ''validation error'')
      | Some c \<Rightarrow> raising_value (validate_case c))"

definition ensure_collection :: "'q store \<Rightarrow> nat \<Rightarrow> bool \<Rightarrow> ('q, py_exn, unit) io" where
  "ensure_collection st dims recreate =
     io_bind (qd_exists (st_client st) (st_collection st)) (\<lambda>present.
     io_bind (if present \<and> recreate
         then io_bind (qd_delete_collection (st_client st) (st_collection st)) (\<lambda>_. io_ret False)
         else io_ret present) (\<lambda>present.
     if present then io_ret () else qd_create_collection (st_client st) (st_collection st) dims))"

fun make_points :: "'q store \<Rightarrow> decided_loan_case list \<Rightarrow> vector list \<Rightarrow> vector list \<Rightarrow> vector_point list" where
  "make_points st (c # cs) (p # ps) (m # ms) =
     \<lparr>vp_id = point_id st (dc_case_id c), vp_profile = p, vp_comments = m, vp_payload = st_dump st c\<rparr> #
     make_points st cs ps ms"
| "make_points st _ _ _ = []"

definition seed :: "'q store \<Rightarrow> precedent_embedder \<Rightarrow> decided_loan_case list \<Rightarrow> bool \<Rightarrow> ('q, py_exn, nat) io" where
  "seed st eb cases recreate =
     io_bind (ensure_collection st (eb_vector_size eb) recreate) (\<lambda>_.
     io_bind (io_lift (eb_profiles eb cases)) (\<lambda>profiles.
     io_bind (io_lift (eb_comments eb cases)) (\<lambda>comments.
     io_bind (io_ensure (length profiles = length cases \<and> length comments = length cases)
       (ValueError ''embedder returned a vector count that does not match the corpus'')) (\<lambda>_.
     let points = make_points st cases profiles comments in
     io_bind (qd_upsert (st_client st) (st_collection st) points) (\<lambda>_.
     io_ret (length points))))))"

text \<open>One record with a payload, or nothing.\<close>

definition single_payload :: "json_object option list \<Rightarrow> json_object option" where
  "single_payload records = (case records of [Some p] \<Rightarrow> Some p | _ \<Rightarrow> None)"

definition fetch_case :: "'q store \<Rightarrow> string \<Rightarrow> uuid \<Rightarrow> py_exn \<Rightarrow> ('q, py_exn, decided_loan_case) io" where
  "fetch_case st collection point missing =
     io_bind (qd_retrieve (st_client st) collection [point]) (\<lambda>records.
     case single_payload records of
       None \<Rightarrow> io_raise missing
     | Some p \<Rightarrow> io_lift (parse_case st p))"

definition write_one :: "'q store \<Rightarrow> precedent_embedder \<Rightarrow> decided_loan_case \<Rightarrow> ('q, py_exn, decided_loan_case) io" where
  "write_one st eb c =
     io_bind (seed st eb [c] False) (\<lambda>_.
     io_bind (fetch_case st (st_collection st) (point_id st (dc_case_id c))
       (RuntimeError ''Qdrant did not confirm precedent'')) (\<lambda>stored.
     io_bind (io_ensure (stored = c) (RuntimeError ''Qdrant payload verification failed'')) (\<lambda>_.
     io_ret stored)))"

fun lifecycle_value :: "precedent_status \<Rightarrow> string" where
  "lifecycle_value ACTIVE = ''active''"
| "lifecycle_value REVOKED = ''revoked''"
| "lifecycle_value SUPERSEDED = ''superseded''"

definition set_lifecycle ::
  "'q store \<Rightarrow> string \<Rightarrow> precedent_status \<Rightarrow> precedent_status \<Rightarrow> ('q, py_exn, decided_loan_case) io" where
  "set_lifecycle st case_id expected status =
     (let point = point_id st case_id in
      io_bind (fetch_case st (st_collection st) point (KeyError case_id)) (\<lambda>current.
      if dc_lifecycle_status current = status then io_ret current
      else io_bind (io_ensure (dc_lifecycle_status current = expected)
          (ValueError ''precedent lifecycle changed since it was reviewed'')) (\<lambda>_.
        io_bind (qd_set_payload (st_client st) (st_collection st) ''lifecycle_status'' (lifecycle_value status) [point]) (\<lambda>_.
        io_bind (fetch_case st (st_collection st) point
          (RuntimeError ''Qdrant did not verify precedent lifecycle update'')) (\<lambda>changed.
        io_bind (io_ensure (dc_lifecycle_status changed = status)
          (RuntimeError ''Qdrant lifecycle verification failed'')) (\<lambda>_.
        io_ret changed))))))"

section \<open>The outbox\<close>

definition outbox_row_of :: "uuid \<Rightarrow> outbox_row list \<Rightarrow> outbox_row option" where
  "outbox_row_of command_id rows = find (\<lambda>r. ob_command_id r = command_id) rows"

text \<open>
  The insertion that returns the row of the command, new or old, and the check that it is the
  same side effect.
\<close>

definition same_effect :: "app_id \<Rightarrow> string \<Rightarrow> string \<Rightarrow> outbox_row \<Rightarrow> bool" where
  "same_effect app operation payload_hash r \<longleftrightarrow>
     ob_application_id r = app \<and> ob_operation r = operation \<and> ob_payload_hash r = payload_hash"

definition outbox_insert ::
  "uuid \<Rightarrow> app_id \<Rightarrow> string \<Rightarrow> string \<Rightarrow> outbox_row list \<Rightarrow> outbox_row \<times> outbox_row list" where
  "outbox_insert command_id app operation payload_hash rows =
     (case outbox_row_of command_id rows of
        Some r \<Rightarrow> (r, rows)
      | None \<Rightarrow>
          (let r = \<lparr>ob_command_id = command_id, ob_application_id = app, ob_operation = operation,
             ob_payload_hash = payload_hash, ob_status = Outbox_Pending, ob_attempts = 0, ob_receipt = None,
             ob_error = None\<rparr>
           in (r, rows @ [r])))"

definition outbox_update :: "uuid \<Rightarrow> (outbox_row \<Rightarrow> outbox_row) \<Rightarrow> outbox_row list \<Rightarrow> outbox_row list" where
  "outbox_update command_id f rows = map (\<lambda>r. if ob_command_id r = command_id then f r else r) rows"

definition outbox_completed :: "json_object \<Rightarrow> outbox_row \<Rightarrow> outbox_row" where
  "outbox_completed receipt r = r\<lparr>ob_status := Outbox_Completed, ob_attempts := ob_attempts r + 1,
     ob_receipt := Some receipt, ob_error := None\<rparr>"

definition outbox_failed :: "string \<Rightarrow> outbox_row \<Rightarrow> outbox_row" where
  "outbox_failed code r = r\<lparr>ob_status := Outbox_Failed, ob_attempts := ob_attempts r + 1, ob_error := Some code\<rparr>"

definition outbox_begin ::
  "bool \<Rightarrow> uuid \<Rightarrow> app_id \<Rightarrow> string \<Rightarrow> string \<Rightarrow> (('j, 'q, 'y) systems, py_exn, unit) io" where
  "outbox_begin enabled command_id app operation payload_hash x =
     (if \<not> enabled then (Inr (), x)
      else case outbox_insert command_id app operation payload_hash (sy_outbox x) of
        (r, rows) \<Rightarrow>
          if same_effect app operation payload_hash r then (Inr (), x\<lparr>sy_outbox := rows\<rparr>)
          else (Inl (OtherException ''WorkflowConflictError''), x\<lparr>sy_outbox := rows\<rparr>))"

definition outbox_complete :: "bool \<Rightarrow> uuid \<Rightarrow> json_object \<Rightarrow> (('j, 'q, 'y) systems, py_exn, unit) io" where
  "outbox_complete enabled command_id receipt x =
     (Inr (), if enabled then x\<lparr>sy_outbox := outbox_update command_id (outbox_completed receipt) (sy_outbox x)\<rparr> else x)"

definition outbox_fail :: "bool \<Rightarrow> uuid \<Rightarrow> string \<Rightarrow> (('j, 'q, 'y) systems, py_exn, unit) io" where
  "outbox_fail enabled command_id code x =
     (Inr (), if enabled then x\<lparr>sy_outbox := outbox_update command_id (outbox_failed code) (sy_outbox x)\<rparr> else x)"

section \<open>The precedent of a decision\<close>

record ('r, 'q) writeback =
  wb_repo :: "'r repo_ops"
  wb_tick :: "nat \<Rightarrow> tick"
  wb_store :: "'q store"
  wb_embedder :: precedent_embedder
  wb_policy_hash :: "string option"
  wb_validity_days :: "int option"
  wb_outbox :: bool
  wb_sha256 :: "string \<Rightarrow> string"
  wb_redact :: "string \<Rightarrow> string"
  wb_canonical :: "decided_loan_case \<Rightarrow> string"
  wb_parse_bundle :: "json_object \<Rightarrow> suggestion_bundle option"
  wb_receipt_json :: "precedent_write_receipt \<Rightarrow> json_object"

definition load_bundle :: "('r, 'q) writeback \<Rightarrow> json_object \<Rightarrow> py_exn + suggestion_bundle" where
  "load_bundle wb o1 =
     (case wb_parse_bundle wb o1 of
        None \<Rightarrow> Inl (ValueError ''validation error'')
      | Some b \<Rightarrow> raising_value (validate_bundle b))"

definition invalid_transition :: py_exn where
  "invalid_transition = OtherException ''InvalidTransitionError''"

definition workflow_conflict :: py_exn where
  "workflow_conflict = OtherException ''WorkflowConflictError''"

definition workflow_forbidden :: py_exn where
  "workflow_forbidden = OtherException ''WorkflowAuthorizationError''"

text \<open>A decided funder is a candidate, or excluded with every failed check overridden by name.\<close>

definition missing_overrides :: "excluded_funder \<Rightarrow> decision_override list \<Rightarrow> string list" where
  "missing_overrides x overrides =
     filter (\<lambda>c. c \<notin> set (map ov_criterion overrides))
       (map (\<lambda>k. criterion_value (ck_criterion k)) (ex_failed_checks x))"

definition excluded_by_id :: "suggestion_bundle \<Rightarrow> string \<Rightarrow> excluded_funder option" where
  "excluded_by_id b funder_id = dict_get (dict_of (map (\<lambda>x. (ex_funder_id x, x)) (sg_excluded_funders b))) funder_id"

definition validate_selected_funder ::
  "suggestion_bundle \<Rightarrow> string option \<Rightarrow> decision_override list \<Rightarrow> py_exn + unit" where
  "validate_selected_funder b funder overrides =
     (case funder of
        None \<Rightarrow> Inl invalid_transition
      | Some f \<Rightarrow>
          if f \<in> set (map ca_funder_id (sg_candidates b)) then Inr ()
          else case excluded_by_id b f of
            None \<Rightarrow> Inl invalid_transition
          | Some x \<Rightarrow> ensure (missing_overrides x overrides = []) invalid_transition)"

fun outcome_of :: "human_action \<Rightarrow> decision_outcome option" where
  "outcome_of APPROVE = Some APPROVED"
| "outcome_of REJECT = Some REJECTED"
| "outcome_of APPROVE_WITH_CONDITIONS = Some APPROVED_WITH_CONDITIONS"
| "outcome_of SEND_BACK = None"

text \<open>The models strip white space from the texts they are built from.\<close>

definition clean :: "('r, 'q) writeback \<Rightarrow> string \<Rightarrow> string" where
  "clean wb t = strip (wb_redact wb t)"

definition redact_override :: "('r, 'q) writeback \<Rightarrow> decision_override \<Rightarrow> decision_override" where
  "redact_override wb v = v\<lparr>ov_original_result := wb_redact wb (ov_original_result v),
     ov_justification := wb_redact wb (ov_justification v)\<rparr>"

definition seconds_per_day :: int where
  "seconds_per_day = 86400"

definition precedent_case ::
  "('r, 'q) writeback \<Rightarrow> borrower_application \<Rightarrow> human_decision_record \<Rightarrow> decision_outcome \<Rightarrow> string \<Rightarrow> decided_loan_case" where
  "precedent_case wb a d outcome funder =
     \<lparr>dc_case_id = ba_application_id a,
      dc_borrower_name = masked_name (wb_sha256 wb) (ba_application_id a),
      dc_industry = ba_industry a, dc_sub_industry = ba_sub_industry a, dc_region = ba_region a,
      dc_loan_type = loan_type_value (ba_loan_type a), dc_profile = ba_profile a,
      dc_evidence = filter (\<lambda>e. em_name e \<noteq> Borrower_name) (ba_evidence a),
      dc_comments =
        [\<lparr>rc_team = Finance, rc_author = ''Finance review context'', rc_text = clean wb (ba_finance_context a),
           rc_created_at = hr_decided_at d\<rparr>,
         \<lparr>rc_team = Operations, rc_author = ''Operations review context'', rc_text = clean wb (ba_operations_context a),
           rc_created_at = hr_decided_at d\<rparr>],
      dc_decision =
        \<lparr>hd_outcome = outcome, hd_funder_id = strip funder, hd_decided_by = ''Verified human reviewer'',
         hd_decided_at = hr_decided_at d, hd_rationale = clean wb (hr_reason d),
         hd_conditions = map (clean wb) (hr_conditions d), hd_overrides = map (redact_override wb) (hr_overrides d)\<rparr>,
      dc_lifecycle_status = ACTIVE, dc_policy_hash = wb_policy_hash wb,
      dc_valid_until = map_option (\<lambda>days. hr_decided_at d + days * seconds_per_day) (wb_validity_days wb),
      dc_supersedes_case_id = None\<rparr>"

definition build_case ::
  "('r, 'q) writeback \<Rightarrow> suggestion_bundle \<Rightarrow> human_decision_record \<Rightarrow> py_exn + decided_loan_case" where
  "build_case wb b d =
     (case outcome_of (hr_action d) of
        None \<Rightarrow> Inl (KeyError ''send_back'')
      | Some outcome \<Rightarrow>
          (case hr_funder_id d of
             None \<Rightarrow> Inl (ValueError ''validation error'')
           | Some f \<Rightarrow> raising_value (validate_case (precedent_case wb (sg_application b) d outcome f))))"

definition payload_hash :: "('r, 'q) writeback \<Rightarrow> decided_loan_case \<Rightarrow> string" where
  "payload_hash wb c = wb_sha256 wb (wb_canonical wb c)"

section \<open>The service\<close>

record writeback_result =
  wr_transition :: transition_result
  wr_precedent :: decided_loan_case

definition read_confirmed :: "('r, 'q) writeback \<Rightarrow> precedent_write_receipt \<Rightarrow> ('q, py_exn, decided_loan_case) io" where
  "read_confirmed wb receipt =
     io_bind (fetch_case (wb_store wb) (wr_collection receipt) (wr_point_id receipt)
       (RuntimeError ''precedent is no longer available'')) (\<lambda>c.
     io_bind (io_ensure (payload_hash wb c = wr_payload_sha256 receipt)
       (RuntimeError ''precedent no longer matches its receipt'')) (\<lambda>_. io_ret c))"

definition mark_written ::
  "('r, 'q) writeback \<Rightarrow> app_id \<Rightarrow> precedent_write_command \<Rightarrow> precedent_write_receipt \<Rightarrow> actor_claims \<Rightarrow>
   (('r, 'j, 'q, 'y) memory_world, py_exn, transition_result) io" where
  "mark_written wb app command receipt actor =
     repo_call (wb_tick wb) (mark_precedent_written (rp_transition (wb_repo wb)) app command receipt actor)"

text \<open>The guards before anything is written: the bundle, the decision and the case to write.\<close>

definition decided_case ::
  "('r, 'q) writeback \<Rightarrow> app_id \<Rightarrow> precedent_write_command \<Rightarrow> workflow_record \<Rightarrow> py_exn + decided_loan_case" where
  "decided_case wb app command current =
     (case wf_decision current of
        None \<Rightarrow> Inl invalid_transition
      | Some d \<Rightarrow>
          ebind (ensure (wf_state current = HUMAN_DECIDED) invalid_transition) (\<lambda>_.
          ebind (ensure (wf_version current = pw_expected_version command) workflow_conflict) (\<lambda>_.
          ebind (ensure (hr_action d \<noteq> SEND_BACK) invalid_transition) (\<lambda>_.
          case wf_suggestion current of
            None \<Rightarrow> Inl invalid_transition
          | Some o1 \<Rightarrow>
              ebind (load_bundle wb o1) (\<lambda>b.
              ebind (ensure (ba_application_id (sg_application b) = app) invalid_transition) (\<lambda>_.
              ebind (validate_selected_funder b (hr_funder_id d) (hr_overrides d)) (\<lambda>_.
              build_case wb b d)))))))"

definition writeback_operation :: string where
  "writeback_operation = ''precedent_writeback''"

definition confirmed_write ::
  "('r, 'q) writeback \<Rightarrow> precedent_write_command \<Rightarrow> decided_loan_case \<Rightarrow>
   (('r, 'j, 'q, 'y) memory_world, py_exn, decided_loan_case) io" where
  "confirmed_write wb command c =
     io_catch (on_qdrant (write_one (wb_store wb) (wb_embedder wb) c)) (\<lambda>e.
       io_bind (on_systems (outbox_fail (wb_outbox wb) (pw_command_id command) ''precedent_writeback_failed''))
         (\<lambda>_. io_raise e))"

definition make_receipt_of ::
  "('r, 'q) writeback \<Rightarrow> decided_loan_case \<Rightarrow> timestamp \<Rightarrow> precedent_write_receipt" where
  "make_receipt_of wb c now =
     \<lparr>wr_case_id = dc_case_id c, wr_point_id = point_id (wb_store wb) (dc_case_id c),
      wr_collection = st_collection (wb_store wb), wr_payload_sha256 = payload_hash wb c, wr_written_at = now\<rparr>"

definition clock_now :: "('r, 'q) writeback \<Rightarrow> (('r, 'j, 'q, 'y) memory_world, py_exn, timestamp) io" where
  "clock_now wb w = (Inr (tk_now (wb_tick wb (wd_ticks w))), w)"

definition write_decided ::
  "('r, 'q) writeback \<Rightarrow> app_id \<Rightarrow> precedent_write_command \<Rightarrow> actor_claims \<Rightarrow> workflow_record \<Rightarrow>
   (('r, 'j, 'q, 'y) memory_world, py_exn, writeback_result) io" where
  "write_decided wb app command actor current =
     io_bind (io_lift (decided_case wb app command current)) (\<lambda>c.
     io_bind (on_systems (outbox_begin (wb_outbox wb) (pw_command_id command) app writeback_operation (payload_hash wb c))) (\<lambda>_.
     io_bind (confirmed_write wb command c) (\<lambda>confirmed.
     io_bind (clock_now wb) (\<lambda>now.
     let receipt = make_receipt_of wb confirmed now in
     io_bind (on_systems (outbox_complete (wb_outbox wb) (pw_command_id command) (wb_receipt_json wb receipt))) (\<lambda>_.
     io_bind (mark_written wb app command receipt actor) (\<lambda>transition.
     io_ret \<lparr>wr_transition = transition, wr_precedent = confirmed\<rparr>))))))"

definition replay_written ::
  "('r, 'q) writeback \<Rightarrow> app_id \<Rightarrow> precedent_write_command \<Rightarrow> actor_claims \<Rightarrow> precedent_write_receipt option \<Rightarrow>
   (('r, 'j, 'q, 'y) memory_world, py_exn, writeback_result) io" where
  "replay_written wb app command actor receipt =
     (case receipt of
        None \<Rightarrow> io_raise (RuntimeError ''written workflow is missing its precedent receipt'')
      | Some receipt \<Rightarrow>
          io_bind (mark_written wb app command receipt actor) (\<lambda>transition.
          io_bind (on_qdrant (read_confirmed wb receipt)) (\<lambda>c.
          io_ret \<lparr>wr_transition = transition, wr_precedent = c\<rparr>)))"

definition write_known ::
  "('r, 'q) writeback \<Rightarrow> app_id \<Rightarrow> precedent_write_command \<Rightarrow> actor_claims \<Rightarrow> workflow_record \<Rightarrow>
   (('r, 'j, 'q, 'y) memory_world, py_exn, writeback_result) io" where
  "write_known wb app command actor current =
     (if wf_state current = PRECEDENT_WRITTEN
      then replay_written wb app command actor (wf_precedent_receipt current)
      else write_decided wb app command actor current)"

definition write_precedent ::
  "('r, 'q) writeback \<Rightarrow> app_id \<Rightarrow> precedent_write_command \<Rightarrow> actor_claims \<Rightarrow>
   (('r, 'j, 'q, 'y) memory_world, py_exn, writeback_result) io" where
  "write_precedent wb app command actor =
     io_bind (io_ensure (PIPELINE \<in> ac_roles actor) workflow_forbidden) (\<lambda>_.
     io_bind (repo_get (wb_repo wb) app) (write_known wb app command actor))"

end
