(* ===== verification/FM_Runtime.thy ===== *)
theory FM_Runtime
  imports FM_Agent FM_Writeback
begin

text \<open>
  The intake-facing runtime around the graph (\<open>orchestration/runtime.py\<close>) with the router of
  send-back requests (\<open>orchestration/supervisor.py\<close>): staging, the activity bridge into the job
  store, start, resume, cancel, send-back, and what a run leaves in its job. The language model
  and the prompt file are parameters.
\<close>

section \<open>Routing a send-back\<close>

record routing_config =
  ro_model_id :: string
  ro_revision :: string
  ro_temperature :: rat
  ro_seed :: nat
  ro_max_tokens :: nat
  ro_min_confidence :: rat

record chat_request =
  ch_model :: string
  ch_temperature :: rat
  ch_seed :: nat
  ch_max_tokens :: nat
  ch_system :: string
  ch_reason :: string

record supervisor_route =
  su_stage :: "worker_name option"
  su_confidence :: rat
  su_ambiguous :: bool

definition validate_route :: "supervisor_route \<Rightarrow> supervisor_route option" where
  "validate_route r = (if 0 \<le> su_confidence r \<and> su_confidence r \<le> 1 then Some r else None)"

text \<open>
  What the request for a completion may give: one of the exceptions the router catches, another
  one, or the parsed content of the answer, \<open>None\<close> when it is no route.
\<close>

datatype chat_reply = Chat_Caught | Chat_Raised py_exn | Chat_Content "supervisor_route option"

record 'x router =
  rt_config :: routing_config
  rt_prompt :: "py_exn + string"
  rt_ask :: "chat_request \<Rightarrow> 'x \<Rightarrow> chat_reply \<times> 'x"

definition routed_stage :: "rat \<Rightarrow> supervisor_route \<Rightarrow> worker_name option" where
  "routed_stage min_confidence r =
     (if su_ambiguous r \<or> su_confidence r < min_confidence then None
      else if su_stage r = None \<or> su_stage r = Some HUMAN_REVIEW then None
      else su_stage r)"

definition route_request :: "routing_config \<Rightarrow> string \<Rightarrow> string \<Rightarrow> chat_request" where
  "route_request c prompt reason =
     \<lparr>ch_model = ro_model_id c, ch_temperature = ro_temperature c, ch_seed = ro_seed c,
      ch_max_tokens = ro_max_tokens c, ch_system = strip prompt, ch_reason = reason\<rparr>"

definition route_send_back :: "'x router \<Rightarrow> string \<Rightarrow> ('x, py_exn, worker_name option) io" where
  "route_send_back r reason x =
     (case rt_prompt r of
        Inl e \<Rightarrow> (Inl e, x)
      | Inr prompt \<Rightarrow>
          (case rt_ask r (route_request (rt_config r) prompt reason) x of
             (Chat_Caught, x') \<Rightarrow> (Inr None, x')
           | (Chat_Raised e, x') \<Rightarrow> (Inl e, x')
           | (Chat_Content c, x') \<Rightarrow>
               (Inr (case Option.bind c validate_route of
                       None \<Rightarrow> None
                     | Some answer \<Rightarrow> routed_stage (ro_min_confidence (rt_config r)) answer), x')))"

text \<open>The identity of a prompt file, and the hash of the settings with it.\<close>

record prompt_identity =
  pi_template_id :: string
  pi_version :: string
  pi_sha256 :: string

definition template_id_ok :: "string \<Rightarrow> bool" where
  "template_id_ok s = (max_items 120 s \<and>
     (case s of [] \<Rightarrow> False | c # cs \<Rightarrow> (is_lower c \<or> is_digit c) \<and>
        list_all (\<lambda>x. is_lower x \<or> is_digit x \<or> x \<in> set ''_.-'') cs))"

definition identify_prompt :: "(string \<Rightarrow> string) \<Rightarrow> string \<Rightarrow> string \<Rightarrow> py_exn + prompt_identity" where
  "identify_prompt sha256 stem raw =
     (let template = strip raw; digest = sha256 template in
      ebind (ensure (template \<noteq> []) (ValueError ''prompt is empty'')) (\<lambda>_.
      ebind (ensure (template_id_ok stem \<and> hex_sha256 digest) (ValueError ''validation error'')) (\<lambda>_.
      Inr \<lparr>pi_template_id = stem, pi_version = take 12 digest, pi_sha256 = digest\<rparr>)))"

section \<open>The runtime and its state\<close>

text \<open>
  \<open>ru_hash_settings\<close> is the canonical hash of the router's settings with the prompt digest,
  \<open>ru_prompt_stem\<close> the stem of the prompt path.
\<close>

record ('r, 'j, 'q, 'y, 'l) runtime =
  ru_guard :: "('r, ('j, 'q, 'y) systems) guard"
  ru_outside :: "('j, 'q, 'y) systems outside"
  ru_life :: "'l life_ops"
  ru_jobs :: "'j job_ops"
  ru_router :: "('j, 'q, 'y) systems router option"
  ru_prompt_stem :: string
  ru_hash_settings :: "routing_config \<Rightarrow> string \<Rightarrow> string"
  ru_max_file_bytes :: nat
  ru_max_batch_bytes :: nat

type_synonym ('r, 'j, 'q, 'y, 'l) service_state = "(('r, 'j, 'q, 'y) memory_world, 'l) graph_state"

type_synonym ('r, 'j, 'q, 'y, 'l, 'a) service_io = "(('r, 'j, 'q, 'y, 'l) service_state, py_exn, 'a) io"

definition ru_workspace :: "('r, 'j, 'q, 'y, 'l) runtime \<Rightarrow> workspace" where
  "ru_workspace rt = dp_workspace (gd_deps (ru_guard rt))"

text \<open>The activity bridge: a stage is shown by the job its application is bound to.\<close>

definition bridge_bind :: "app_id \<Rightarrow> string \<Rightarrow> (('j, 'q, 'y) systems, py_exn, unit) io" where
  "bridge_bind app job_id x = (Inr (), x\<lparr>sy_bound := dict_set app job_id (sy_bound x)\<rparr>)"

definition spaced :: "string \<Rightarrow> string" where
  "spaced s = map (\<lambda>c. if c = CHR ''_'' then CHR '' '' else c) s"

definition append_activity ::
  "'j job_ops \<Rightarrow> timestamp \<Rightarrow> string \<Rightarrow> string \<Rightarrow> string \<Rightarrow> activity_details \<Rightarrow> (('j, 'q, 'y) systems, py_exn, unit) io" where
  "append_activity ops now job_id stage msg d x =
     (case jo_append ops now job_id stage msg d (sy_jobs x) of
        Inl e \<Rightarrow> (Inl e, x)
      | Inr (_, j) \<Rightarrow> (Inr (), x\<lparr>sy_jobs := j\<rparr>))"

definition bridge_call ::
  "'j job_ops \<Rightarrow> timestamp \<Rightarrow> app_id \<Rightarrow> string \<Rightarrow> activity_details \<Rightarrow> (('j, 'q, 'y) systems, py_exn, unit) io" where
  "bridge_call ops now app stage d x =
     (case dict_get (sy_bound x) app of
        None \<Rightarrow> (Inr (), x)
      | Some job_id \<Rightarrow> append_activity ops now job_id stage (''Agent worker active: '' @ spaced stage) d x)"

definition activity_of :: "activity \<Rightarrow> activity_details" where
  "activity_of a = no_details\<lparr>ad_worker := Some (worker_value (ac_worker a)), ad_attempt := Some (int (ac_attempt a)),
     ad_error_code := ac_error_code a, ad_retryable := ac_retryable a, ad_guardrail_code := ac_guardrail_code a\<rparr>"

definition bridge_activity ::
  "'j job_ops \<Rightarrow> (('j, 'q, 'y) systems \<Rightarrow> timestamp) \<Rightarrow> activity \<Rightarrow> ('j, 'q, 'y) systems \<Rightarrow>
   py_exn option \<times> ('j, 'q, 'y) systems" where
  "bridge_activity ops clock a x =
     (case bridge_call ops (clock x) (ac_application_id a) (ac_stage a) (activity_of a) x of
        (Inl e, x') \<Rightarrow> (Some e, x')
      | (Inr _, x') \<Rightarrow> (None, x'))"

text \<open>The graph whose activity goes through the bridge.\<close>

definition ru_env :: "('r, 'j, 'q, 'y, 'l) runtime \<Rightarrow> ('r, 'j, 'q, 'y) memory_world graph_env" where
  "ru_env rt = agent_env (ru_guard rt)
     ((ru_outside rt)\<lparr>ou_activity := Some (bridge_activity (ru_jobs rt) (ou_clock (ru_outside rt)))\<rparr>)"

definition in_systems :: "(('j, 'q, 'y) systems, py_exn, 'a) io \<Rightarrow> ('r, 'j, 'q, 'y, 'l, 'a) service_io" where
  "in_systems m = in_world (on_systems m)"

definition in_files :: "'a ws_io \<Rightarrow> ('r, 'j, 'q, 'y, 'l, 'a) service_io" where
  "in_files m = in_world (\<lambda>w. case m (wd_fs w) of (r, fs) \<Rightarrow> (r, w\<lparr>wd_fs := fs\<rparr>))"

definition job_append ::
  "('r, 'j, 'q, 'y, 'l) runtime \<Rightarrow> string \<Rightarrow> string \<Rightarrow> string \<Rightarrow> activity_details \<Rightarrow> ('r, 'j, 'q, 'y, 'l, unit) service_io" where
  "job_append rt job_id stage msg d =
     in_systems (\<lambda>x. append_activity (ru_jobs rt) (ou_clock (ru_outside rt) x) job_id stage msg d x)"

definition job_finish ::
  "('r, 'j, 'q, 'y, 'l) runtime \<Rightarrow> string \<Rightarrow> job_status \<Rightarrow> string option \<Rightarrow> bool option \<Rightarrow>
   ('r, 'j, 'q, 'y, 'l, unit) service_io" where
  "job_finish rt job_id status error retryable =
     in_systems (\<lambda>x. case jo_finish (ru_jobs rt) (ou_clock (ru_outside rt) x) job_id status error retryable (sy_jobs x) of
        Inl e \<Rightarrow> (Inl e, x)
      | Inr (_, j) \<Rightarrow> (Inr (), x\<lparr>sy_jobs := j\<rparr>))"

definition job_get :: "('r, 'j, 'q, 'y, 'l) runtime \<Rightarrow> string \<Rightarrow> ('r, 'j, 'q, 'y, 'l, intake_job) service_io" where
  "job_get rt job_id = in_systems (\<lambda>x. (jo_get (ru_jobs rt) job_id (sy_jobs x), x))"

definition thread_state :: "('r, 'j, 'q, 'y, 'l) runtime \<Rightarrow> app_id \<Rightarrow> ('r, 'j, 'q, 'y, 'l, memory_state) service_io" where
  "thread_state rt app g = (state_of (ru_env rt) app g, g)"

section \<open>Operations\<close>

text \<open>What a run leaves in its job: a checkpoint event, and the end of the job when the run stopped.\<close>

definition checkpoint_details :: "memory_state \<Rightarrow> string option \<Rightarrow> activity_details" where
  "checkpoint_details s checkpoint = no_details\<lparr>ad_retryable := map_option we_retryable (ms_last_error s),
     ad_error_code := map_option we_code (ms_last_error s), ad_checkpoint_id := checkpoint\<rparr>"

definition settle_job :: "('r, 'j, 'q, 'y, 'l) runtime \<Rightarrow> string \<Rightarrow> memory_state \<Rightarrow> ('r, 'j, 'q, 'y, 'l, unit) service_io" where
  "settle_job rt job_id s =
     (if ms_status s = WAITING_FOR_REVIEW then
        io_bind (job_append rt job_id ''waiting_for_review''
          ''Agent flow paused for an authoritative human decision'' no_details) (\<lambda>_.
        job_finish rt job_id Job_Completed None None)
      else if ms_status s \<in> {FAILED_RETRYABLE, NEEDS_ATTENTION, FAILED_TERMINAL} then
        job_finish rt job_id Job_Failed
          (Some (case ms_last_error s of Some e \<Rightarrow> we_code e | None \<Rightarrow> status_value (ms_status s)))
          (Some (ms_status s = FAILED_RETRYABLE))
      else io_ret ())"

definition execute_run ::
  "('r, 'j, 'q, 'y, 'l) runtime \<Rightarrow> string \<Rightarrow> ('r, 'j, 'q, 'y, 'l, memory_state) service_io \<Rightarrow>
   ('r, 'j, 'q, 'y, 'l, memory_state) service_io" where
  "execute_run rt job_id execution =
     io_bind execution (\<lambda>s.
     io_bind (\<lambda>g. job_append rt job_id ''checkpoint'' (''Checkpoint saved after '' @ worker_value (ms_current_node s))
       (checkpoint_details s (ge_checkpoint_id (ru_env rt) (ms_application_id s) (gr_world g))) g) (\<lambda>_.
     io_bind (settle_job rt job_id s) (\<lambda>_. io_ret s)))"

definition ru_start ::
  "('r, 'j, 'q, 'y, 'l) runtime \<Rightarrow> intake_metadata \<Rightarrow> (string \<times> string) list \<Rightarrow> string \<Rightarrow>
   ('r, 'j, 'q, 'y, 'l, memory_state) service_io" where
  "ru_start rt metadata files job_id =
     (let app = im_application_id metadata in
      io_bind (in_systems (bridge_bind app job_id)) (\<lambda>_.
      io_bind (in_files (ws_stage (ru_workspace rt) (dp_request_codec (gd_deps (ru_guard rt))) metadata files
        (ru_max_file_bytes rt) (ru_max_batch_bytes rt))) (\<lambda>references.
      execute_run rt job_id (start (ru_env rt) (ru_life rt) app (Some job_id) references))))"

definition ru_resume ::
  "('r, 'j, 'q, 'y, 'l) runtime \<Rightarrow> string \<Rightarrow> ('r, 'j, 'q, 'y, 'l, memory_state) service_io" where
  "ru_resume rt job_id =
     io_bind (job_get rt job_id) (\<lambda>job.
     let app = ij_application_id job in
     io_bind (in_systems (bridge_bind app job_id)) (\<lambda>_.
     io_bind (thread_state rt app) (\<lambda>current.
     if ms_status current \<notin> {FAILED_RETRYABLE, NEEDS_ATTENTION} then io_ret current
     else io_bind (job_append rt job_id ''resume'' ''Resuming from the last successful agent checkpoint'' no_details) (\<lambda>_.
       execute_run rt job_id (resume (ru_env rt) (ru_life rt) app)))))"

definition ru_cancel ::
  "('r, 'j, 'q, 'y, 'l) runtime \<Rightarrow> string \<Rightarrow> ('r, 'j, 'q, 'y, 'l, memory_state) service_io" where
  "ru_cancel rt job_id =
     io_bind (job_get rt job_id) (\<lambda>job.
     let app = ij_application_id job in
     io_bind (thread_state rt app) (\<lambda>current.
     if ms_status current = CANCELLED then io_ret current
     else if terminal (ms_status current) then io_ret current
     else io_bind (mark_terminal (ru_env rt) (ru_life rt) app CANCELLED) (\<lambda>cancelled.
       io_bind (job_append rt job_id ''cancelled'' ''Agent processing was cancelled'' no_details) (\<lambda>_.
       io_bind (job_finish rt job_id Job_Cancelled None None) (\<lambda>_.
       io_ret cancelled)))))"

definition ru_send_back ::
  "('r, 'j, 'q, 'y, 'l) runtime \<Rightarrow> app_id \<Rightarrow> worker_name \<Rightarrow> ('r, 'j, 'q, 'y, 'l, memory_state) service_io" where
  "ru_send_back rt app worker =
     io_bind (thread_state rt app) (\<lambda>s.
     io_bind (case ms_job_id s of
         None \<Rightarrow> io_ret ()
       | Some job_id \<Rightarrow>
           io_bind (in_systems (bridge_bind app job_id)) (\<lambda>_.
           job_append rt job_id ''send_back''
             (''Human reviewer restarted the '' @ spaced (worker_value worker) @ '' worker'') no_details)) (\<lambda>_.
     io_bind (in_files (invalidate_from (ru_workspace rt) app worker)) (\<lambda>_.
     rewind (ru_env rt) (ru_life rt) app worker)))"

definition supervisor_needs_attention ::
  "('r, 'j, 'q, 'y, 'l) runtime \<Rightarrow> app_id \<Rightarrow> ('r, 'j, 'q, 'y, 'l, memory_state) service_io" where
  "supervisor_needs_attention rt app =
     mark_needs_attention (ru_env rt) (ru_life rt) app ''ambiguous_supervisor_route''"

definition route_span ::
  "memory_state \<Rightarrow> routing_config \<Rightarrow> prompt_identity \<Rightarrow> string \<Rightarrow> worker_name option \<Rightarrow> string \<Rightarrow> rat \<Rightarrow> agent_span" where
  "route_span s c p config_hash stage run_id latency =
     \<lparr>sp_application_id = ms_application_id s, sp_job_id = ms_job_id s, sp_run_id = run_id,
      sp_thread_id = ms_application_id s, sp_checkpoint_id = None, sp_worker = None, sp_attempt = 1,
      sp_latency_ms = latency, sp_status = (if stage = None then NEEDS_ATTENTION else RUNNING),
      sp_model_revision = Some (ro_revision c), sp_config_hash = Some config_hash,
      sp_prompt_template_id = Some (pi_template_id p), sp_prompt_version = Some (pi_version p),
      sp_prompt_sha256 = Some (pi_sha256 p),
      sp_document_count = length (ms_documents s), sp_evidence_count = length (ms_evidence s),
      sp_candidate_count = candidate_count s,
      sp_guardrail_code = (if stage = None then Some ''ambiguous_supervisor_route'' else None),
      sp_error_code = None, sp_event = ''supervisor_route''\<rparr>"

definition resolve_supervisor ::
  "('r, 'j, 'q, 'y, 'l) runtime \<Rightarrow> app_id \<Rightarrow> string \<Rightarrow> ('r, 'j, 'q, 'y, 'l, worker_name option) service_io" where
  "resolve_supervisor rt app reason =
     (case ru_router rt of
        None \<Rightarrow> io_ret None
      | Some r \<Rightarrow>
          io_bind (in_systems (route_send_back r reason)) (\<lambda>stage.
          io_bind (thread_state rt app) (\<lambda>s.
          io_bind (io_lift (ebind (rt_prompt r)
            (identify_prompt (dp_sha256 (gd_deps (ru_guard rt))) (ru_prompt_stem rt)))) (\<lambda>p.
          io_bind (\<lambda>g. in_world (record_span (ru_env rt)
            (route_span s (rt_config r) p (ru_hash_settings rt (rt_config r) (pi_sha256 p)) stage
              (ge_run_id (ru_env rt) (gr_world g)) (ge_latency (ru_env rt) (gr_world g)))) g) (\<lambda>_.
          io_ret stage)))))"

section \<open>The recovery view\<close>

record memory_status =
  me_application_id :: app_id
  me_job_id :: "string option"
  me_status :: graph_status
  me_current_worker :: worker_name
  me_attempt :: nat
  me_completed_workers :: "worker_name list"
  me_pending_workers :: "worker_name list"
  me_last_error_code :: "string option"
  me_last_error_retryable :: "bool option"
  me_checkpoint_time :: timestamp

definition ru_memory :: "('r, 'j, 'q, 'y, 'l) runtime \<Rightarrow> app_id \<Rightarrow> ('r, 'j, 'q, 'y, 'l, memory_status) service_io" where
  "ru_memory rt app =
     io_bind (thread_state rt app) (\<lambda>s.
     io_bind (\<lambda>g. (lo_get (ru_life rt) app (gr_lifecycle g), g)) (\<lambda>t.
     io_ret \<lparr>me_application_id = ms_application_id s, me_job_id = ms_job_id s, me_status = ms_status s,
       me_current_worker = ms_current_node s, me_attempt = attempts_of s (ms_current_node s),
       me_completed_workers = ms_completed s, me_pending_workers = ms_pending s,
       me_last_error_code = map_option we_code (ms_last_error s),
       me_last_error_retryable = map_option we_retryable (ms_last_error s),
       me_checkpoint_time = th_updated_at t\<rparr>))"

end
