(* ===== verification/FM_Intake.thy ===== *)
theory FM_Intake
  imports FM_Workers FM_Jobs
begin

text \<open>
  The direct intake (\<open>BorrowerIntakeService\<close> in \<open>intake.py\<close>): one call that stores the PDFs,
  ingests the batch while relaying its activity, extracts the cited facts, runs retrieval and
  assembly, and takes the case from creation to the human review. The extraction service, the
  retriever and the progress reporter are parameters.
\<close>

section \<open>The service\<close>

record ingestion_event =
  gv_sequence :: nat
  gv_stage :: string
  gv_message :: string
  gv_document_name :: "string option"
  gv_document_index :: "int option"
  gv_document_count :: "int option"
  gv_completed :: "int option"
  gv_total :: "int option"

text \<open>
  \<open>is_polls\<close> is how often the wait of 0.75 seconds ends before the batch does; the polls are
  taken before the effects of the batch. \<open>is_activity\<close> is absent when the client has no such
  method.
\<close>

record ('r, 'x) intake_service =
  is_root :: path
  is_repo :: "'r repo_ops"
  is_tick :: "nat \<Rightarrow> tick"
  is_policies :: "funder_policy list"
  is_max_file_bytes :: nat
  is_max_batch_bytes :: nat
  is_ingest :: "ingest_batch_request \<Rightarrow> ('x, findociq_exn, ingest_document_response list) io"
  is_activity :: "(string \<Rightarrow> nat \<Rightarrow> ('x, findociq_exn, ingestion_event list) io) option"
  is_polls :: "'x \<Rightarrow> nat"
  is_extract :: "extract_request \<Rightarrow> ('x, findociq_exn, extract_response) io"
  is_retrieve :: "borrower_application \<Rightarrow> funder_policy list \<Rightarrow> ('x, py_exn, retrieval_result) io"
  is_prompt :: "string \<Rightarrow> py_exn + string"
  is_sha256 :: "string \<Rightarrow> string"
  is_bundle_json :: "suggestion_bundle \<Rightarrow> json_object"
  is_manifest :: "intake_metadata \<Rightarrow> intake_document list \<Rightarrow> workflow_state \<Rightarrow> string"

type_synonym 'x reporter = "(string \<Rightarrow> string \<Rightarrow> activity_details \<Rightarrow> ('x, py_exn, unit) io) option"

type_synonym ('r, 'x, 'a) intake_io = "(('r, 'x) world, findociq_exn, 'a) io"

definition client_exn :: "py_exn + 'a \<Rightarrow> findociq_exn + 'a" where
  "client_exn r = (case r of Inl e \<Rightarrow> Inl (Client_exn e) | Inr x \<Rightarrow> Inr x)"

definition lift_client :: "py_exn + 'a \<Rightarrow> ('r, 'x, 'a) intake_io" where
  "lift_client r = io_lift (client_exn r)"

definition fail_value :: "string \<Rightarrow> ('r, 'x, 'a) intake_io" where
  "fail_value msg = io_raise (Client_exn (ValueError msg))"

definition outside_io :: "('x, findociq_exn, 'a) io \<Rightarrow> ('r, 'x, 'a) intake_io" where
  "outside_io m w = (case m (wd_ext w) of (r, x) \<Rightarrow> (r, w\<lparr>wd_ext := x\<rparr>))"

definition outside_py :: "('x, py_exn, 'a) io \<Rightarrow> ('r, 'x, 'a) intake_io" where
  "outside_py m = outside_io (\<lambda>x. case m x of (r, x') \<Rightarrow> (client_exn r, x'))"

definition modify_files :: "(filesystem \<Rightarrow> filesystem) \<Rightarrow> ('r, 'x, unit) intake_io" where
  "modify_files f w = (Inr (), w\<lparr>wd_fs := f (wd_fs w)\<rparr>)"

definition put_text :: "path \<Rightarrow> string \<Rightarrow> filesystem \<Rightarrow> filesystem" where
  "put_text p t fs = fs\<lparr>fs_files := dict_set p (Plain t) (fs_files fs)\<rparr>"

definition report_progress :: "'x reporter \<Rightarrow> string \<Rightarrow> string \<Rightarrow> activity_details \<Rightarrow> ('r, 'x, unit) intake_io" where
  "report_progress pr stage msg d = (case pr of None \<Rightarrow> io_ret () | Some f \<Rightarrow> outside_py (f stage msg d))"

definition commit ::
  "('r, 'x) intake_service \<Rightarrow> (tick \<Rightarrow> 'r \<Rightarrow> workflow_error + (transition_result \<times> 'r)) \<Rightarrow> ('r, 'x, transition_result) intake_io" where
  "commit sv f w =
     (case f (is_tick sv (wd_ticks w)) (wd_repo w) of
        Inl e \<Rightarrow> (Inl (Client_exn (workflow_exn e)), w\<lparr>wd_ticks := wd_ticks w + 1\<rparr>)
      | Inr (res, repo) \<Rightarrow> (Inr res, w\<lparr>wd_repo := repo, wd_ticks := wd_ticks w + 1\<rparr>))"

section \<open>Storing the upload\<close>

definition app_dir :: "('r, 'x) intake_service \<Rightarrow> app_id \<Rightarrow> path" where
  "app_dir sv app = path_join (is_root sv) app"

definition document_details :: "string \<Rightarrow> nat \<Rightarrow> nat \<Rightarrow> activity_details" where
  "document_details name index n = no_details\<lparr>ad_document_name := Some name,
     ad_document_index := Some (int index), ad_document_count := Some (int n)\<rparr>"

definition store_file ::
  "('r, 'x) intake_service \<Rightarrow> 'x reporter \<Rightarrow> app_id \<Rightarrow> nat \<Rightarrow> nat \<Rightarrow> string \<times> string \<Rightarrow>
   ('r, 'x, ingest_document_request) intake_io" where
  "store_file sv pr app n index = (\<lambda>(filename, content).
     let safe_name = path_name filename in
     io_bind (report_progress pr ''validating_document'' (''Validating '' @ safe_name)
       (document_details safe_name index n)) (\<lambda>_.
     if safe_name \<noteq> filename \<or> \<not> ends_with ''.pdf'' (casefold safe_name)
       then fail_value ''all uploaded files must be safely named PDFs''
     else if \<not> starts_with ''%PDF-'' content then fail_value (safe_name @ '' is not a PDF'')
     else if is_max_file_bytes sv < length content then fail_value (safe_name @ '' exceeds the 25 MB limit'')
     else
       io_bind (modify_files (put_text (path_join (app_dir sv app @ [''documents'']) safe_name) content)) (\<lambda>_.
       io_bind (report_progress pr ''staged_document'' (''Stored '' @ safe_name @ '' for processing'')
         ((document_details safe_name index n)\<lparr>ad_completed := Some (int index), ad_total := Some (int n)\<rparr>)) (\<lambda>_.
       lift_client (make_ingest_document
         \<lparr>iq_version = V1, iq_filename = safe_name, iq_sha256 = is_sha256 sv content,
          iq_content = b64encode content, iq_application_id = None, iq_command_id = None, iq_policy_hash = None\<rparr>)))))"

fun store_files ::
  "('r, 'x) intake_service \<Rightarrow> 'x reporter \<Rightarrow> app_id \<Rightarrow> nat \<Rightarrow> nat \<Rightarrow> (string \<times> string) list \<Rightarrow>
   ('r, 'x, ingest_document_request list) intake_io" where
  "store_files sv pr app n index [] = io_ret []"
| "store_files sv pr app n index (f # fs) =
     io_bind (store_file sv pr app n index f) (\<lambda>q.
     io_bind (store_files sv pr app n (index + 1) fs) (\<lambda>qs. io_ret (q # qs)))"

section \<open>Ingestion with activity\<close>

definition relay_event :: "'x reporter \<Rightarrow> ingestion_event \<Rightarrow> ('r, 'x, unit) intake_io" where
  "relay_event pr e = report_progress pr (gv_stage e) (gv_message e)
     (no_details\<lparr>ad_document_name := gv_document_name e, ad_document_index := gv_document_index e,
        ad_document_count := gv_document_count e, ad_completed := gv_completed e, ad_total := gv_total e\<rparr>)"

text \<open>One poll: an exception of the service is ignored, one of the reporter is not.\<close>

definition poll_once ::
  "('r, 'x) intake_service \<Rightarrow> 'x reporter \<Rightarrow> string \<Rightarrow> nat \<Rightarrow> ('r, 'x, nat) intake_io" where
  "poll_once sv pr batch seen =
     (case is_activity sv of
        None \<Rightarrow> io_ret seen
      | Some method \<Rightarrow>
          io_bind (io_catch (io_bind (outside_io (method batch seen)) (\<lambda>es. io_ret (Some es))) (\<lambda>_. io_ret None)) (\<lambda>r.
          case r of
            None \<Rightarrow> io_ret seen
          | Some es \<Rightarrow> io_bind (io_each (relay_event pr) es) (\<lambda>_. io_ret (fold max (map gv_sequence es) seen))))"

fun poll_activity ::
  "('r, 'x) intake_service \<Rightarrow> 'x reporter \<Rightarrow> string \<Rightarrow> nat \<Rightarrow> nat \<Rightarrow> ('r, 'x, nat) intake_io" where
  "poll_activity sv pr batch 0 seen = io_ret seen"
| "poll_activity sv pr batch (Suc n) seen = io_bind (poll_once sv pr batch seen) (poll_activity sv pr batch n)"

definition ingest_with_activity ::
  "('r, 'x) intake_service \<Rightarrow> 'x reporter \<Rightarrow> ingest_batch_request \<Rightarrow> ('r, 'x, ingest_document_response list) intake_io" where
  "ingest_with_activity sv pr q =
     (case ib_batch_id q of
        None \<Rightarrow> outside_io (is_ingest sv q)
      | Some batch \<Rightarrow>
          io_bind (\<lambda>w. poll_activity sv pr batch (is_polls sv (wd_ext w)) 0 w) (\<lambda>seen.
          io_bind (outside_io (is_ingest sv q)) (\<lambda>r.
          io_bind (poll_once sv pr batch seen) (\<lambda>_. io_ret r))))"

section \<open>Extraction\<close>

definition metric_words :: "fact_name \<Rightarrow> string" where
  "metric_words n = map (\<lambda>c. if c = CHR ''_'' then CHR '' '' else c) (fact_str n)"

definition metric_details :: "fact_name \<Rightarrow> nat \<Rightarrow> activity_details" where
  "metric_details n completed = no_details\<lparr>ad_metric := Some (fact_str n), ad_completed := Some (int completed),
     ad_total := Some (int (length EXTRACTED_FACTS))\<rparr>"

definition extract_fact ::
  "('r, 'x) intake_service \<Rightarrow> 'x reporter \<Rightarrow> app_id \<Rightarrow> string list \<Rightarrow> nat \<Rightarrow> fact_name \<Rightarrow> ('r, 'x, evidence_metric) intake_io" where
  "extract_fact sv pr app document_ids done_before n =
     io_bind (report_progress pr ''extracting_metric'' (''Extracting cited '' @ metric_words n)
       (metric_details n done_before)) (\<lambda>_.
     io_bind (lift_client (ebind (is_prompt sv (''extract_'' @ fact_str n)) (\<lambda>question.
       make_extract_question question (Some (app @ '':'' @ fact_str n)) document_ids))) (\<lambda>q.
     io_bind (outside_io (is_extract sv q)) (\<lambda>response.
     io_bind (lift_client (ebind (select_figure (xr_figures response) n) (make_evidence n))) (\<lambda>e.
     io_bind (report_progress pr ''metric_completed'' (''Extracted cited '' @ metric_words n)
       (metric_details n (done_before + 1))) (\<lambda>_. io_ret e)))))"

fun extract_facts ::
  "('r, 'x) intake_service \<Rightarrow> 'x reporter \<Rightarrow> app_id \<Rightarrow> string list \<Rightarrow> nat \<Rightarrow> fact_name list \<Rightarrow>
   ('r, 'x, evidence_metric list) intake_io" where
  "extract_facts sv pr app document_ids k [] = io_ret []"
| "extract_facts sv pr app document_ids k (n # ns) =
     io_bind (extract_fact sv pr app document_ids k n) (\<lambda>e.
     io_bind (extract_facts sv pr app document_ids (k + 1) ns) (\<lambda>es. io_ret (e # es)))"

definition extract_application ::
  "('r, 'x) intake_service \<Rightarrow> 'x reporter \<Rightarrow> intake_metadata \<Rightarrow> intake_document list \<Rightarrow> ('r, 'x, borrower_application) intake_io" where
  "extract_application sv pr m documents =
     io_bind (extract_facts sv pr (im_application_id m) (map id_document_id documents) 0 EXTRACTED_FACTS) (\<lambda>evidence.
     lift_client (build_application (im_application_id m) m evidence))"

section \<open>To the review\<close>

text \<open>The command identifier is a fresh one; the version is the one the last step returned.\<close>

definition advance_once ::
  "('r, 'x) intake_service \<Rightarrow> app_id \<Rightarrow> actor_claims \<Rightarrow> nat \<Rightarrow> workflow_state \<times> string \<times> json_object option \<Rightarrow>
   ('r, 'x, transition_result) intake_io" where
  "advance_once sv app actor version = (\<lambda>(target, reason, bundle).
     commit sv (\<lambda>t. advance_pipeline (rp_transition (is_repo sv)) app
       \<lparr>pa_command_id = tk_uuid t, pa_expected_version = version, pa_target_state = target, pa_reason = reason,
        pa_suggestion = bundle\<rparr> actor t))"

fun advance_all ::
  "('r, 'x) intake_service \<Rightarrow> app_id \<Rightarrow> actor_claims \<Rightarrow> transition_result \<Rightarrow>
   (workflow_state \<times> string \<times> json_object option) list \<Rightarrow> ('r, 'x, transition_result) intake_io" where
  "advance_all sv app actor res [] = io_ret res"
| "advance_all sv app actor res (step # steps) =
     io_bind (advance_once sv app actor (wf_version (tr_workflow res)) step) (\<lambda>res'. advance_all sv app actor res' steps)"

definition review_steps :: "json_object \<Rightarrow> (workflow_state \<times> string \<times> json_object option) list" where
  "review_steps bundle =
     [(EXTRACTED, ''FinDocIQ extracted cited borrower metrics'', None),
      (RULE_GATED, ''Deterministic funder rules evaluated'', None),
      (AI_SUGGESTED, ''Eligible precedents assembled as advisory evidence'', Some bundle),
      (AWAITING_HUMAN, ''Case queued for authoritative human review'', None)]"

definition open_case ::
  "('r, 'x) intake_service \<Rightarrow> app_id \<Rightarrow> actor_claims \<Rightarrow> json_object \<Rightarrow> ('r, 'x, transition_result) intake_io" where
  "open_case sv app actor bundle =
     io_bind (commit sv (create_workflow (rp_create (is_repo sv)) app actor None ''Borrower PDFs accepted into intake'')) (\<lambda>res.
     advance_all sv app actor res (review_steps bundle))"

section \<open>The process\<close>

record intake_result =
  it_workflow :: workflow_record
  it_documents :: "intake_document list"

definition intake_document_of :: "ingest_document_response \<Rightarrow> intake_document" where
  "intake_document_of r = \<lparr>id_filename = ir_filename r, id_sha256 = ir_sha256 r, id_document_id = ir_document_id r,
     id_page_count = ir_page_count r, id_chunk_count = ir_chunk_count r\<rparr>"

text \<open>From the stored files to the advisory bundle.\<close>

definition prepare_suggestion ::
  "('r, 'x) intake_service \<Rightarrow> 'x reporter \<Rightarrow> string option \<Rightarrow> intake_metadata \<Rightarrow> (string \<times> string) list \<Rightarrow>
   ('r, 'x, intake_document list \<times> suggestion_bundle) intake_io" where
  "prepare_suggestion sv pr job_id m files =
     io_bind (report_progress pr ''validating_upload'' (''Validating '' @ str_nat (length files) @ '' uploaded PDF(s)'')
       (no_details\<lparr>ad_total := Some (int (length files))\<rparr>)) (\<lambda>_.
     io_bind (store_files sv pr (im_application_id m) (length files) 1 files) (\<lambda>requests.
     io_bind (report_progress pr ''submitting_batch'' ''Submitting one GPU-optimized document batch to FinDocIQ''
       (no_details\<lparr>ad_total := Some (int (length requests))\<rparr>)) (\<lambda>_.
     io_bind (lift_client (make_ingest_batch \<lparr>ib_version = V1, ib_batch_id = job_id, ib_documents = requests\<rparr>)) (\<lambda>q.
     io_bind (ingest_with_activity sv pr q) (\<lambda>responses.
     let documents = map intake_document_of responses in
     io_bind (extract_application sv pr m documents) (\<lambda>application.
     io_bind (report_progress pr ''rule_gating'' ''Evaluating deterministic funder rules'' no_details) (\<lambda>_.
     io_bind (outside_py (is_retrieve sv application (is_policies sv))) (\<lambda>retrieval.
     io_bind (report_progress pr ''assembling_suggestions'' ''Assembling eligible funders and precedent evidence''
       no_details) (\<lambda>_.
     io_bind (lift_client (raising_value (assemble (is_sha256 sv) None application (is_policies sv) retrieval))) (\<lambda>bundle.
     io_ret (documents, bundle)))))))))))"

definition process_body ::
  "('r, 'x) intake_service \<Rightarrow> 'x reporter \<Rightarrow> string option \<Rightarrow> actor_claims \<Rightarrow> intake_metadata \<Rightarrow> (string \<times> string) list \<Rightarrow>
   ('r, 'x, intake_result) intake_io" where
  "process_body sv pr job_id actor m files =
     (let app = im_application_id m; folder = app_dir sv app in
      io_bind (prepare_suggestion sv pr job_id m files) (\<lambda>(documents, bundle).
      io_bind (open_case sv app actor (is_bundle_json sv bundle)) (\<lambda>res.
      io_bind (modify_files (put_text (folder @ [''manifest.json'']) (is_manifest sv m documents (wf_state (tr_workflow res))))) (\<lambda>_.
      io_bind (modify_files (unlink (folder @ [''FAILED'']))) (\<lambda>_.
      io_bind (report_progress pr ''awaiting_human'' ''Case is ready for authoritative human review'' no_details) (\<lambda>_.
      io_ret \<lparr>it_workflow = tr_workflow res, it_documents = documents\<rparr>))))))"

definition process_intake ::
  "('r, 'x) intake_service \<Rightarrow> 'x reporter \<Rightarrow> string option \<Rightarrow> actor_claims \<Rightarrow> intake_metadata \<Rightarrow> (string \<times> string) list \<Rightarrow>
   ('r, 'x, intake_result) intake_io" where
  "process_intake sv pr job_id actor m files =
     (let app = im_application_id m; folder = app_dir sv app in
      if files = [] then fail_value ''at least one borrower PDF is required''
      else if is_max_batch_bytes sv < sum_list (map (length \<circ> snd) files)
        then fail_value ''PDF batch exceeds the 512 MB aggregate limit''
      else (\<lambda>w.
        if dict_get (fs_files (wd_fs w)) (folder @ [''manifest.json'']) \<noteq> None
        then fail_value (''application '' @ app @ '' is already processed'') w
        else io_bind (modify_files (make_dirs (folder @ [''documents'']))) (\<lambda>_.
          io_catch (process_body sv pr job_id actor m files) (\<lambda>e.
            io_bind (modify_files (put_text (folder @ [''FAILED'']) (''Intake failed; inspect server logs.'' @ [CHR 0x0A]))) (\<lambda>_.
            io_raise e))) w))"

end
