(* ===== verification/FM_API.thy ===== *)
theory FM_API
  imports FM_Runtime FM_Intake FM_RateLimit
begin

text \<open>
  The endpoints of the HTTP interface (\<open>api/app.py\<close>) as operations on the whole service: the
  threads, the lifecycle records, the repository, the files, the jobs, the guardrail tables and
  the vector database. Routing, parsing of the transport and the token check are parameters;
  a background task is a separate operation.
\<close>

section \<open>Responses\<close>

datatype api_exn = Http_error nat string | Raised py_exn

type_synonym ('r, 'j, 'q, 'y, 'l, 'a) api_io = "(('r, 'j, 'q, 'y, 'l) service_state, api_exn, 'a) io"

definition api :: "('r, 'j, 'q, 'y, 'l, 'a) service_io \<Rightarrow> ('r, 'j, 'q, 'y, 'l, 'a) api_io" where
  "api m g = (case m g of (Inl e, g') \<Rightarrow> (Inl (Raised e), g') | (Inr x, g') \<Rightarrow> (Inr x, g'))"

definition http :: "nat \<Rightarrow> string \<Rightarrow> ('r, 'j, 'q, 'y, 'l, 'a) api_io" where
  "http code detail = io_raise (Http_error code detail)"

text \<open>The exception handlers of the application, then the server's own answer.\<close>

fun error_status :: "api_exn \<Rightarrow> nat" where
  "error_status (Http_error code detail) = code"
| "error_status (Raised e) =
     (if e = OtherException ''WorkflowNotFoundError'' then 404
      else if e = OtherException ''WorkflowConflictError'' then 409
      else if e = OtherException ''InvalidTransitionError'' then 422
      else if e = OtherException ''WorkflowAuthorizationError'' then 403
      else 500)"

definition response_status :: "nat \<Rightarrow> api_exn + 'a \<Rightarrow> nat" where
  "response_status success r = (case r of Inl e \<Rightarrow> error_status e | Inr _ \<Rightarrow> success)"

definition key_error_404 :: "string \<Rightarrow> ('r, 'j, 'q, 'y, 'l, 'a) service_io \<Rightarrow> ('r, 'j, 'q, 'y, 'l, 'a) api_io" where
  "key_error_404 detail m g =
     (case m g of
        (Inl (KeyError _), g') \<Rightarrow> (Inl (Http_error 404 detail), g')
      | (Inl e, g') \<Rightarrow> (Inl (Raised e), g')
      | (Inr x, g') \<Rightarrow> (Inr x, g'))"

section \<open>The service\<close>

text \<open>
  \<open>sv_database\<close> says whether the pool is configured, \<open>sv_policy_hash\<close> loads the policy file,
  \<open>sv_submission\<close> parses the metadata form, \<open>sv_job_id\<close> and \<open>sv_new_app\<close> are the fresh
  identifiers of an upload.
\<close>

record ('r, 'j, 'q, 'y, 'l) service =
  sv_repo :: "'r repo_ops"
  sv_audit :: "app_id \<Rightarrow> 'r \<Rightarrow> workflow_error + audit_event list"
  sv_tick :: "nat \<Rightarrow> tick"
  sv_jobs :: "'j job_ops"
  sv_clock :: "('j, 'q, 'y) systems \<Rightarrow> timestamp"
  sv_writeback :: "('r, 'q) writeback option"
  sv_intake :: "('r, ('j, 'q, 'y) systems) intake_service option"
  sv_runtime :: "('r, 'j, 'q, 'y, 'l) runtime option"
  sv_production :: bool
  sv_database :: bool
  sv_policy_hash :: "py_exn + string"
  sv_uuid5 :: "string \<Rightarrow> uuid"
  sv_submission :: "string \<Rightarrow> (decimal \<times> loan_type) option"
  sv_new_app :: "tick \<Rightarrow> app_id"
  sv_job_id :: "tick \<Rightarrow> string"

definition commit_call ::
  "('r, 'j, 'q, 'y, 'l) service \<Rightarrow> (tick \<Rightarrow> 'r \<Rightarrow> workflow_error + (transition_result \<times> 'r)) \<Rightarrow>
   ('r, 'j, 'q, 'y, 'l, transition_result) service_io" where
  "commit_call sv f = in_world (repo_call (sv_tick sv) f)"

definition case_record :: "('r, 'j, 'q, 'y, 'l) service \<Rightarrow> app_id \<Rightarrow> ('r, 'j, 'q, 'y, 'l, workflow_record) service_io" where
  "case_record sv app = in_world (repo_get (sv_repo sv) app)"

definition fresh_tick :: "('r, 'j, 'q, 'y, 'l) service \<Rightarrow> ('r, 'j, 'q, 'y, 'l, tick) service_io" where
  "fresh_tick sv = in_world (\<lambda>w. (Inr (sv_tick sv (wd_ticks w)), w\<lparr>wd_ticks := wd_ticks w + 1\<rparr>))"

definition note_job ::
  "('r, 'j, 'q, 'y, 'l) service \<Rightarrow> string \<Rightarrow> string \<Rightarrow> string \<Rightarrow> activity_details \<Rightarrow> ('r, 'j, 'q, 'y, 'l, unit) service_io" where
  "note_job sv job_id stage msg d =
     in_systems (\<lambda>x. append_activity (sv_jobs sv) (sv_clock sv x) job_id stage msg d x)"

definition close_job ::
  "('r, 'j, 'q, 'y, 'l) service \<Rightarrow> string \<Rightarrow> job_status \<Rightarrow> string option \<Rightarrow> bool option \<Rightarrow>
   ('r, 'j, 'q, 'y, 'l, unit) service_io" where
  "close_job sv job_id status error retryable =
     in_systems (\<lambda>x. case jo_finish (sv_jobs sv) (sv_clock sv x) job_id status error retryable (sy_jobs x) of
        Inl e \<Rightarrow> (Inl e, x)
      | Inr (_, j) \<Rightarrow> (Inr (), x\<lparr>sy_jobs := j\<rparr>))"

definition open_job ::
  "('r, 'j, 'q, 'y, 'l) service \<Rightarrow> string \<Rightarrow> app_id \<Rightarrow> ('r, 'j, 'q, 'y, 'l, unit) service_io" where
  "open_job sv job_id app =
     in_systems (\<lambda>x. case jo_create (sv_jobs sv) (sv_clock sv x) job_id app (sy_jobs x) of
        Inl e \<Rightarrow> (Inl e, x)
      | Inr (_, j) \<Rightarrow> (Inr (), x\<lparr>sy_jobs := j\<rparr>))"

text \<open>The dependencies that answer 503, and the roles.\<close>

definition need :: "string \<Rightarrow> 'v option \<Rightarrow> ('v \<Rightarrow> ('r, 'j, 'q, 'y, 'l, 'a) api_io) \<Rightarrow> ('r, 'j, 'q, 'y, 'l, 'a) api_io" where
  "need detail v f = (case v of None \<Rightarrow> http 503 detail | Some x \<Rightarrow> f x)"

definition need_role :: "actor_role \<Rightarrow> actor_claims \<Rightarrow> ('r, 'j, 'q, 'y, 'l, unit) api_io" where
  "need_role role actor = io_ensure (role \<in> ac_roles actor) (Raised workflow_forbidden)"

definition require_reader :: "actor_claims \<Rightarrow> ('r, 'j, 'q, 'y, 'l, unit) api_io" where
  "require_reader actor =
     io_ensure (PIPELINE \<in> ac_roles actor \<or> HUMAN_REVIEWER \<in> ac_roles actor) (Raised workflow_forbidden)"

section \<open>The uploaded files\<close>

definition MAX_PDF_BYTES :: nat where
  "MAX_PDF_BYTES = 25 * 1024 * 1024"

definition MAX_BATCH_BYTES :: nat where
  "MAX_BATCH_BYTES = 512 * 1024 * 1024"

fun read_files :: "nat \<Rightarrow> (string option \<times> string) list \<Rightarrow> py_exn + (string \<times> string) list" where
  "read_files so_far [] = Inr []"
| "read_files so_far ((name, content) # items) =
     (if MAX_PDF_BYTES < length content then Inl (ValueError (or_default name ''PDF'' @ '' exceeds the 25 MB limit''))
      else if MAX_BATCH_BYTES < so_far + length content then Inl (ValueError ''PDF batch exceeds the 512 MB aggregate limit'')
      else ebind (read_files (so_far + length content) items) (\<lambda>rest. Inr ((or_default name [], content) # rest)))"

definition read_uploaded_pdfs :: "(string option \<times> string) list \<Rightarrow> py_exn + (string \<times> string) list" where
  "read_uploaded_pdfs items =
     ebind (read_files 0 items) (\<lambda>payloads.
     ebind (ensure (payloads \<noteq> []) (ValueError ''at least one borrower PDF is required'')) (\<lambda>_. Inr payloads))"

definition parse_metadata ::
  "('r, 'j, 'q, 'y, 'l) service \<Rightarrow> string \<Rightarrow> tick \<Rightarrow> py_exn + intake_metadata" where
  "parse_metadata sv raw t =
     (case sv_submission sv raw of
        None \<Rightarrow> Inl (ValueError ''validation error'')
      | Some (amount, loan) \<Rightarrow>
          validate_metadata \<lparr>im_application_id = sv_new_app sv t, im_requested_amount_crore = amount, im_loan_type = loan\<rparr>)"

text \<open>\<open>except ValueError\<close>: 422 with the message.\<close>

definition value_422 :: "py_exn + 'a \<Rightarrow> ('r, 'j, 'q, 'y, 'l, 'a) api_io" where
  "value_422 r = (case r of Inl (ValueError m) \<Rightarrow> http 422 m | Inl e \<Rightarrow> io_raise (Raised e) | Inr x \<Rightarrow> io_ret x)"

section \<open>Workflow endpoints\<close>

definition create_workflow_endpoint ::
  "('r, 'j, 'q, 'y, 'l) service \<Rightarrow> actor_claims \<Rightarrow> app_id \<Rightarrow> uuid \<Rightarrow> string \<Rightarrow> ('r, 'j, 'q, 'y, 'l, transition_result) api_io" where
  "create_workflow_endpoint sv actor app command_id reason =
     (if \<not> (bounded_text 1 200 app \<and> bounded_text 1 2000 reason) then http 422 ''validation error''
      else api (commit_call sv (create_workflow (rp_create (sv_repo sv)) app actor (Some command_id) reason)))"

definition advance_endpoint ::
  "('r, 'j, 'q, 'y, 'l) service \<Rightarrow> actor_claims \<Rightarrow> app_id \<Rightarrow> pipeline_advance_command \<Rightarrow>
   ('r, 'j, 'q, 'y, 'l, transition_result) api_io" where
  "advance_endpoint sv actor app command =
     (if \<not> bounded_text 1 2000 (pa_reason command) then http 422 ''validation error''
      else api (commit_call sv (advance_pipeline (rp_transition (sv_repo sv)) app command actor)))"

definition audit_endpoint ::
  "('r, 'j, 'q, 'y, 'l) service \<Rightarrow> actor_claims \<Rightarrow> app_id \<Rightarrow> ('r, 'j, 'q, 'y, 'l, audit_event list) api_io" where
  "audit_endpoint sv actor app =
     io_bind (require_reader actor) (\<lambda>_.
     api (in_world (\<lambda>w. case sv_audit sv app (wd_repo w) of
       Inl e \<Rightarrow> (Inl (workflow_exn e), w) | Inr evs \<Rightarrow> (Inr evs, w))))"

section \<open>Masking\<close>

text \<open>
  Values of the JSON form of a bundle. A value of another shape than the bundle gives makes
  \<open>dict\<close> or the iteration raise.
\<close>

fun json_truthy :: "json \<Rightarrow> bool" where
  "json_truthy JNull = False"
| "json_truthy (JBool b) = b"
| "json_truthy (JNum n) = (n \<noteq> 0)"
| "json_truthy (JStr s) = (s \<noteq> [])"
| "json_truthy (JArr xs) = (xs \<noteq> [])"
| "json_truthy (JObj o1) = (o1 \<noteq> [])"

definition masked :: json where
  "masked = JStr ''[MASKED]''"

definition as_dict :: "json option \<Rightarrow> py_exn + json_object" where
  "as_dict v =
     (case v of
        None \<Rightarrow> Inr []
      | Some (JObj o1) \<Rightarrow> Inr o1
      | Some (JArr []) \<Rightarrow> Inr []
      | Some (JStr []) \<Rightarrow> Inr []
      | Some _ \<Rightarrow> Inl (OtherException ''TypeError''))"

definition as_items :: "json option \<Rightarrow> py_exn + json list" where
  "as_items v =
     (case v of
        None \<Rightarrow> Inr []
      | Some (JArr xs) \<Rightarrow> Inr xs
      | Some (JStr []) \<Rightarrow> Inr []
      | Some (JObj []) \<Rightarrow> Inr []
      | Some _ \<Rightarrow> Inl (OtherException ''TypeError''))"

definition masked_fields :: "string list" where
  "masked_fields = [''borrower_name'', ''finance_context'', ''operations_context'']"

definition mask_field :: "string \<Rightarrow> json_object \<Rightarrow> json_object" where
  "mask_field name o1 =
     (case dict_get o1 name of
        None \<Rightarrow> o1
      | Some v \<Rightarrow> if json_truthy v then dict_set name masked o1 else o1)"

definition mask_evidence :: "json \<Rightarrow> py_exn + json" where
  "mask_evidence v =
     ebind (as_dict (Some v)) (\<lambda>o1.
     Inr (JObj (if dict_get o1 ''name'' = Some (JStr ''borrower_name'') then dict_set ''value'' masked o1 else o1)))"

definition mask_suggestion :: "json_object \<Rightarrow> py_exn + json_object" where
  "mask_suggestion s =
     ebind (as_dict (dict_get s ''application'')) (\<lambda>raw.
     let application = fold mask_field masked_fields raw in
     ebind (as_items (dict_get application ''evidence'')) (\<lambda>items.
     ebind (emap mask_evidence items) (\<lambda>evidence.
     Inr (dict_set ''application''
       (JObj (if evidence \<noteq> [] then dict_set ''evidence'' (JArr evidence) application else application)) s))))"

definition mask_workflow :: "workflow_record \<Rightarrow> py_exn + workflow_record" where
  "mask_workflow r =
     (case wf_suggestion r of
        None \<Rightarrow> Inr r
      | Some s \<Rightarrow> ebind (mask_suggestion s) (\<lambda>s'. Inr (r\<lparr>wf_suggestion := Some s'\<rparr>)))"

definition get_workflow_endpoint ::
  "('r, 'j, 'q, 'y, 'l) service \<Rightarrow> actor_claims \<Rightarrow> app_id \<Rightarrow> ('r, 'j, 'q, 'y, 'l, workflow_record) api_io" where
  "get_workflow_endpoint sv actor app =
     io_bind (require_reader actor) (\<lambda>_.
     api (io_bind (case_record sv app) (\<lambda>r. if sv_production sv then io_lift (mask_workflow r) else io_ret r)))"

section \<open>The human decision\<close>

fun stage_of_worker :: "worker_name \<Rightarrow> restart_stage option" where
  "stage_of_worker DOCUMENT_PROCESSING = Some RS_DOCUMENT_PROCESSING"
| "stage_of_worker FINANCIAL_ANALYSIS = Some RS_FINANCIAL_ANALYSIS"
| "stage_of_worker ELIGIBILITY = Some RS_ELIGIBILITY"
| "stage_of_worker PRECEDENT_RETRIEVAL = Some RS_PRECEDENT_RETRIEVAL"
| "stage_of_worker SUGGESTION = Some RS_SUGGESTION"
| "stage_of_worker GUARDRAILS = Some RS_GUARDRAILS"
| "stage_of_worker HUMAN_REVIEW = None"

fun worker_of_stage :: "restart_stage \<Rightarrow> worker_name option" where
  "worker_of_stage RS_SUPERVISOR = None"
| "worker_of_stage RS_DOCUMENT_PROCESSING = Some DOCUMENT_PROCESSING"
| "worker_of_stage RS_FINANCIAL_ANALYSIS = Some FINANCIAL_ANALYSIS"
| "worker_of_stage RS_ELIGIBILITY = Some ELIGIBILITY"
| "worker_of_stage RS_PRECEDENT_RETRIEVAL = Some PRECEDENT_RETRIEVAL"
| "worker_of_stage RS_SUGGESTION = Some SUGGESTION"
| "worker_of_stage RS_GUARDRAILS = Some GUARDRAILS"

definition agent_actor :: actor_claims where
  "agent_actor = \<lparr>ac_actor_id = ''fundermatch-agent-pipeline'', ac_display_name = ''FunderMatch Agent Pipeline'',
     ac_roles = {PIPELINE}\<rparr>"

definition finalize_command :: "('r, 'j, 'q, 'y, 'l) service \<Rightarrow> app_id \<Rightarrow> nat \<Rightarrow> precedent_write_command" where
  "finalize_command sv app version =
     \<lparr>pw_command_id = sv_uuid5 sv (''fundermatch:'' @ app @ '':verified-precedent:'' @ str_nat version),
      pw_expected_version = version, pw_reason = ''Verified human decision written to precedent memory''\<rparr>"

text \<open>What the graph keeps of a receipt.\<close>

definition graph_receipt :: "precedent_write_receipt \<Rightarrow> write_receipt" where
  "graph_receipt r = \<lparr>wt_store = ''qdrant:'' @ wr_collection r, wt_record_id = wr_case_id r,
     wt_payload_sha256 = wr_payload_sha256 r\<rparr>"

definition complete_thread ::
  "('r, 'j, 'q, 'y, 'l) runtime \<Rightarrow> app_id \<Rightarrow> string \<Rightarrow> writeback_result \<Rightarrow> ('r, 'j, 'q, 'y, 'l, memory_state) service_io" where
  "complete_thread rt app missing result =
     (case wf_precedent_receipt (tr_workflow (wr_transition result)) of
        None \<Rightarrow> io_raise (RuntimeError missing)
      | Some receipt \<Rightarrow> complete_after_writeback (ru_env rt) (ru_life rt) app (graph_receipt receipt))"

definition finalize_failed ::
  "('r, 'j, 'q, 'y, 'l) runtime \<Rightarrow> app_id \<Rightarrow> ('r, 'j, 'q, 'y, 'l, unit) service_io" where
  "finalize_failed rt app =
     io_bind (mark_retryable (ru_env rt) (ru_life rt) app ''precedent_writeback_failed''
       ''Human decision is saved; verified precedent write-back can be retried'') (\<lambda>s.
     case ms_job_id s of
       None \<Rightarrow> io_ret ()
     | Some job_id \<Rightarrow> job_append rt job_id ''worker_failed''
         ''Human decision saved; precedent write-back will resume safely''
         (no_details\<lparr>ad_worker := Some (worker_value HUMAN_REVIEW), ad_error_code := Some ''precedent_writeback_failed'',
            ad_retryable := Some True\<rparr>))"

definition finalize_human_decision ::
  "('r, 'j, 'q, 'y, 'l) service \<Rightarrow> ('r, 'j, 'q, 'y, 'l) runtime \<Rightarrow> app_id \<Rightarrow> nat \<Rightarrow> ('r, 'j, 'q, 'y, 'l, bool) service_io" where
  "finalize_human_decision sv rt app version =
     (case sv_writeback sv of
        None \<Rightarrow> io_raise (OtherException ''AttributeError'')
      | Some wb \<Rightarrow>
          io_catch
            (io_bind (in_world (write_precedent wb app (finalize_command sv app version) agent_actor)) (\<lambda>result.
             io_bind (complete_thread rt app ''precedent receipt missing'' result) (\<lambda>_. io_ret True)))
            (\<lambda>_. io_bind (finalize_failed rt app) (\<lambda>_. io_ret False)))"

definition reopen_command ::
  "('r, 'j, 'q, 'y, 'l) service \<Rightarrow> app_id \<Rightarrow> human_decision_command \<Rightarrow> nat \<Rightarrow> restart_stage \<Rightarrow> pipeline_reopen_command" where
  "reopen_command sv app command version stage =
     \<lparr>pr_command_id = sv_uuid5 sv (''fundermatch:'' @ app @ '':reopen:'' @ hc_command_id command),
      pr_expected_version = version, pr_restart_stage = stage, pr_reason = hc_reason command\<rparr>"

definition reopen_and_restart ::
  "('r, 'j, 'q, 'y, 'l) service \<Rightarrow> ('r, 'j, 'q, 'y, 'l) runtime \<Rightarrow> app_id \<Rightarrow> human_decision_command \<Rightarrow> actor_claims \<Rightarrow> nat \<Rightarrow>
   restart_stage \<Rightarrow> ('r, 'j, 'q, 'y, 'l, unit) service_io" where
  "reopen_and_restart sv rt app command actor version stage =
     (case worker_of_stage stage of
        None \<Rightarrow> io_ret ()
      | Some worker \<Rightarrow>
          io_bind (commit_call sv (reopen_after_send_back (rp_transition (sv_repo sv)) app
            (reopen_command sv app command version stage) actor)) (\<lambda>_.
          io_bind (ru_send_back rt app worker) (\<lambda>_. io_ret ())))"

definition restart_case ::
  "('r, 'j, 'q, 'y, 'l) service \<Rightarrow> ('r, 'j, 'q, 'y, 'l) runtime \<Rightarrow> app_id \<Rightarrow> human_decision_command \<Rightarrow> actor_claims \<Rightarrow> nat \<Rightarrow>
   ('r, 'j, 'q, 'y, 'l, unit) service_io" where
  "restart_case sv rt app command actor version =
     (let restart = (case hc_restart_stage command of None \<Rightarrow> RS_SUPERVISOR | Some s \<Rightarrow> s) in
      if restart = RS_SUPERVISOR then
        io_bind (resolve_supervisor rt app (hc_reason command)) (\<lambda>resolved.
        case resolved of
          None \<Rightarrow> io_bind (supervisor_needs_attention rt app) (\<lambda>_. io_ret ())
        | Some worker \<Rightarrow>
            (case stage_of_worker worker of
               None \<Rightarrow> io_raise (ValueError ''not a valid RestartStage'')
             | Some stage \<Rightarrow> reopen_and_restart sv rt app command actor version stage))
      else reopen_and_restart sv rt app command actor version restart)"

definition decision_fields_ok :: "human_decision_command \<Rightarrow> bool" where
  "decision_fields_ok c \<longleftrightarrow> bounded_text 1 2000 (hc_reason c) \<and>
     (case hc_funder_id c of None \<Rightarrow> True | Some f \<Rightarrow> bounded_text 1 200 f)"

definition human_decision_endpoint ::
  "('r, 'j, 'q, 'y, 'l) service \<Rightarrow> actor_claims \<Rightarrow> app_id \<Rightarrow> human_decision_command \<Rightarrow>
   ('r, 'j, 'q, 'y, 'l, transition_result) api_io" where
  "human_decision_endpoint sv actor app command =
     (if \<not> decision_fields_ok command \<or> \<not> is_ok (validate_conditions command) then http 422 ''validation error''
      else api (io_bind (commit_call sv (decide (rp_transition (sv_repo sv)) app command actor)) (\<lambda>result.
        io_bind (case sv_runtime sv of
            None \<Rightarrow> io_ret ()
          | Some rt \<Rightarrow>
              if hc_action command = SEND_BACK
              then restart_case sv rt app command actor (wf_version (tr_workflow result))
              else io_bind (finalize_human_decision sv rt app (wf_version (tr_workflow result))) (\<lambda>_. io_ret ()))
          (\<lambda>_. io_ret result))))"

definition write_precedent_endpoint ::
  "('r, 'j, 'q, 'y, 'l) service \<Rightarrow> actor_claims \<Rightarrow> app_id \<Rightarrow> precedent_write_command \<Rightarrow>
   ('r, 'j, 'q, 'y, 'l, writeback_result) api_io" where
  "write_precedent_endpoint sv actor app command =
     (if \<not> bounded_text 1 2000 (pw_reason command) then http 422 ''validation error''
      else need ''precedent write-back is not configured'' (sv_writeback sv) (\<lambda>wb.
        api (io_bind (in_world (write_precedent wb app command actor)) (\<lambda>result.
          case sv_runtime sv of
            None \<Rightarrow> io_ret result
          | Some rt \<Rightarrow> io_bind (complete_thread rt app ''verified precedent write-back returned no receipt'' result)
              (\<lambda>_. io_ret result)))))"

end
