(* ===== verification/FM_Retention.thy ===== *)
theory FM_Retention
  imports FM_Writeback FM_Client
begin

text \<open>
  The retention cleanup of \<open>api/app.py\<close>: one deletion of an application, in the extraction
  service and in the artifact store, through the outbox. It is the cleanup the graph calls for
  an expired thread.
\<close>

section \<open>The deletion\<close>

text \<open>\<open>RetentionDeleteResponse\<close>, with the form that goes into the outbox.\<close>

record retention_receipt =
  rdr_application_id :: app_id
  rdr_deleted_document_ids :: "string list"
  rdr_receipt_sha256 :: string
  rdr_policy_hash :: string

definition retention_json :: "retention_receipt \<Rightarrow> json_object" where
  "retention_json r =
     [(''application_id'', JStr (rdr_application_id r)), (''contract_version'', JStr ''2.0''),
      (''deleted_document_ids'', JArr (map JStr (rdr_deleted_document_ids r))),
      (''policy_hash'', JStr (rdr_policy_hash r)), (''receipt_sha256'', JStr (rdr_receipt_sha256 r))]"

text \<open>\<open>rd_delete\<close> is \<open>FinDocIQClient.retention_delete\<close>, a call to a service without access to the tables.\<close>

record 'y retention =
  rd_workspace :: workspace
  rd_delete :: "app_id \<Rightarrow> uuid \<Rightarrow> ('y, py_exn, retention_receipt) io"
  rd_policy_hash :: string
  rd_uuid5 :: "string \<Rightarrow> uuid"
  rd_sha256 :: "string \<Rightarrow> string"

type_synonym ('j, 'q, 'y, 'a) cleanup_io = "(filesystem \<times> ('j, 'q, 'y) systems, py_exn, 'a) io"

definition retention_command :: "'y retention \<Rightarrow> app_id \<Rightarrow> uuid" where
  "retention_command rd app = rd_uuid5 rd (''fundermatch:'' @ app @ '':retention-delete:'' @ rd_policy_hash rd)"

definition retention_payload :: "'y retention \<Rightarrow> app_id \<Rightarrow> string" where
  "retention_payload rd app = rd_sha256 rd (app @ ''|'' @ rd_policy_hash rd)"

definition retention_operation :: string where
  "retention_operation = ''retention_delete''"

definition cleanup_files :: "'a ws_io \<Rightarrow> ('j, 'q, 'y, 'a) cleanup_io" where
  "cleanup_files m = (\<lambda>(fs, x). case m fs of (r, fs') \<Rightarrow> (r, fs', x))"

definition cleanup_systems :: "(('j, 'q, 'y) systems, py_exn, 'a) io \<Rightarrow> ('j, 'q, 'y, 'a) cleanup_io" where
  "cleanup_systems m = (\<lambda>(fs, x). case m x of (r, x') \<Rightarrow> (r, fs, x'))"

definition in_rest :: "('y, py_exn, 'a) io \<Rightarrow> (('j, 'q, 'y) systems, py_exn, 'a) io" where
  "in_rest m x = (case m (sy_rest x) of (r, y) \<Rightarrow> (r, x\<lparr>sy_rest := y\<rparr>))"

definition put_outbox :: "(outbox_row list \<Rightarrow> outbox_row list) \<Rightarrow> (('j, 'q, 'y) systems, py_exn, unit) io" where
  "put_outbox f x = (Inr (), x\<lparr>sy_outbox := f (sy_outbox x)\<rparr>)"

definition add_tombstone :: "tombstone \<Rightarrow> (('j, 'q, 'y) systems, py_exn, unit) io" where
  "add_tombstone t x =
     (Inr (), if list_ex (\<lambda>u. ts_application_id u = ts_application_id t) (sy_tombstones x) then x
              else x\<lparr>sy_tombstones := sy_tombstones x @ [t]\<rparr>)"

definition claim_retention ::
  "'y retention \<Rightarrow> app_id \<Rightarrow> (('j, 'q, 'y) systems, py_exn, outbox_row) io" where
  "claim_retention rd app x =
     (case outbox_insert (retention_command rd app) app retention_operation (retention_payload rd app) (sy_outbox x) of
        (r, rows) \<Rightarrow> (Inr r, x\<lparr>sy_outbox := rows\<rparr>))"

text \<open>The two deletions; an exception of either is recorded in the outbox and raised again.\<close>

definition delete_everywhere ::
  "'y retention \<Rightarrow> app_id \<Rightarrow> ('j, 'q, 'y, retention_receipt) cleanup_io" where
  "delete_everywhere rd app =
     io_catch
       (io_bind (cleanup_systems (in_rest (rd_delete rd app (retention_command rd app)))) (\<lambda>receipt.
        io_bind (cleanup_files (delete_application (rd_workspace rd) app)) (\<lambda>_. io_ret receipt)))
       (\<lambda>e. io_bind (cleanup_systems (put_outbox (outbox_update (retention_command rd app)
              (outbox_failed ''retention_dependency_failed'')))) (\<lambda>_. io_raise e))"

definition retention_cleanup ::
  "'y retention \<Rightarrow> app_id \<Rightarrow> ('j, 'q, 'y, unit) cleanup_io" where
  "retention_cleanup rd app =
     io_bind (cleanup_systems (claim_retention rd app)) (\<lambda>row.
     io_bind (io_ensure (same_effect app retention_operation (retention_payload rd app) row)
       (RuntimeError ''retention command identity conflict'')) (\<lambda>_.
     if ob_status row = Outbox_Completed
     then io_bind (cleanup_files (delete_application (rd_workspace rd) app)) (\<lambda>_. io_ret ())
     else io_bind (delete_everywhere rd app) (\<lambda>receipt.
       io_bind (cleanup_systems (put_outbox (outbox_update (retention_command rd app)
         (outbox_completed (retention_json receipt))))) (\<lambda>_.
       cleanup_systems (add_tombstone \<lparr>ts_application_id = app, ts_policy_hash = rd_policy_hash rd,
         ts_receipt = rdr_receipt_sha256 receipt, ts_payload = retention_payload rd app\<rparr>)))))"

end
