(* ===== verification/FM_Endpoints.thy ===== *)
theory FM_Endpoints
  imports FM_API FM_Retention
begin

text \<open>
  The endpoints of the intake jobs, the background tasks they start, and the governance endpoints
  (\<open>api/app.py\<close>): reveal of a masked field, lifecycle of a precedent, readiness.
\<close>

section \<open>Uploads\<close>

definition in_intake ::
  "('r, ('j, 'q, 'y) systems, 'a) intake_io \<Rightarrow> (('r, 'j, 'q, 'y, 'l) service_state, findociq_exn, 'a) io" where
  "in_intake m g = (case m (gr_world g) of (r, w) \<Rightarrow> (r, g\<lparr>gr_world := w\<rparr>))"

definition intake_failure :: "findociq_exn \<Rightarrow> api_exn" where
  "intake_failure e =
     (case e of
        FinDocIQUnavailable _ _ \<Rightarrow> Http_error 503 ''FinDocIQ could not process the borrower documents; retry is safe''
      | FinDocIQContractError _ \<Rightarrow> Raised (OtherException ''FinDocIQContractError'')
      | Client_exn (ValueError m) \<Rightarrow> Http_error 422 m
      | Client_exn e' \<Rightarrow> Raised e')"

definition borrower_intake_endpoint ::
  "('r, 'j, 'q, 'y, 'l) service \<Rightarrow> actor_claims \<Rightarrow> string \<Rightarrow> (string option \<times> string) list \<Rightarrow>
   ('r, 'j, 'q, 'y, 'l, intake_result) api_io" where
  "borrower_intake_endpoint sv actor raw items =
     need ''borrower intake is not configured'' (sv_intake sv) (\<lambda>pipeline.
     io_bind (need_role PIPELINE actor) (\<lambda>_.
     io_bind (api (fresh_tick sv)) (\<lambda>t.
     io_bind (value_422 (parse_metadata sv raw t)) (\<lambda>m.
     io_bind (value_422 (read_files 0 items)) (\<lambda>payloads.
     io_catch (in_intake (process_intake pipeline None None actor m payloads)) (\<lambda>e. io_raise (intake_failure e)))))))"

record job_accepted =
  ja_job_id :: string
  ja_application_id :: app_id
  ja_status_url :: string
  ja_events_url :: string

text \<open>The task an accepted upload starts.\<close>

record intake_task =
  tk_job :: string
  tk_metadata :: intake_metadata
  tk_payloads :: "(string \<times> string) list"
  tk_actor :: actor_claims

definition upload_details :: "nat \<Rightarrow> activity_details" where
  "upload_details n = no_details\<lparr>ad_completed := Some (int n), ad_total := Some (int n)\<rparr>"

text \<open>\<open>ValueError\<close> gives 422, a violated unique index 409.\<close>

definition upload_errors :: "app_id \<Rightarrow> ('r, 'j, 'q, 'y, 'l, 'a) service_io \<Rightarrow> ('r, 'j, 'q, 'y, 'l, 'a) api_io" where
  "upload_errors app m = io_catch m (\<lambda>e.
     case e of
       ValueError msg \<Rightarrow> http 422 msg
     | _ \<Rightarrow> if e = unique_violation then http 409 (''application '' @ app @ '' already has an active intake job'')
            else io_raise (Raised e))"

definition create_intake_job ::
  "('r, 'j, 'q, 'y, 'l) service \<Rightarrow> actor_claims \<Rightarrow> string \<Rightarrow> (string option \<times> string) list \<Rightarrow>
   ('r, 'j, 'q, 'y, 'l, job_accepted \<times> intake_task) api_io" where
  "create_intake_job sv actor raw items =
     need ''borrower intake is not configured'' (sv_intake sv) (\<lambda>_.
     io_bind (need_role PIPELINE actor) (\<lambda>_.
     io_bind (api (fresh_tick sv)) (\<lambda>t.
     io_bind (value_422 (parse_metadata sv raw t)) (\<lambda>m.
     io_bind (value_422 (read_uploaded_pdfs items)) (\<lambda>payloads.
     let job_id = sv_job_id sv t; app = im_application_id m in
     io_bind (upload_errors app (io_bind (open_job sv job_id app) (\<lambda>_.
       note_job sv job_id ''upload_received'' (''Received '' @ str_nat (length payloads) @ '' PDF(s) for processing'')
         (upload_details (length payloads))))) (\<lambda>_.
     io_ret (\<lparr>ja_job_id = job_id, ja_application_id = app, ja_status_url = ''/v1/intake-jobs/'' @ job_id,
               ja_events_url = ''/v1/intake-jobs/'' @ job_id @ ''/events''\<rparr>,
             \<lparr>tk_job = job_id, tk_metadata = m, tk_payloads = payloads, tk_actor = actor\<rparr>)))))))"

section \<open>The tasks\<close>

record job_outcome =
  jf_stage :: string
  jf_message :: string
  jf_error :: string
  jf_retryable :: bool

definition intake_outcome :: "findociq_exn \<Rightarrow> job_outcome" where
  "intake_outcome e =
     (case e of
        FinDocIQUnavailable _ _ \<Rightarrow> \<lparr>jf_stage = ''failed'', jf_message = ''FinDocIQ could not complete the current processing stage'',
          jf_error = ''findociq_unavailable'', jf_retryable = True\<rparr>
      | Client_exn (ValueError _) \<Rightarrow> \<lparr>jf_stage = ''failed'', jf_message = ''The intake data could not be validated or grounded'',
          jf_error = ''intake_validation_failed'', jf_retryable = False\<rparr>
      | _ \<Rightarrow> \<lparr>jf_stage = ''failed'', jf_message = ''An unexpected local processing error occurred'',
          jf_error = ''internal_processing_error'', jf_retryable = True\<rparr>)"

definition report_outcome ::
  "('r, 'j, 'q, 'y, 'l) service \<Rightarrow> string \<Rightarrow> job_outcome \<Rightarrow> ('r, 'j, 'q, 'y, 'l, unit) service_io" where
  "report_outcome sv job_id o1 =
     io_bind (note_job sv job_id (jf_stage o1) (jf_message o1)
       (no_details\<lparr>ad_error_code := Some (jf_error o1), ad_retryable := Some (jf_retryable o1)\<rparr>)) (\<lambda>_.
     close_job sv job_id Job_Failed (Some (jf_error o1)) (Some (jf_retryable o1)))"

definition job_reporter :: "('r, 'j, 'q, 'y, 'l) service \<Rightarrow> string \<Rightarrow> ('j, 'q, 'y) systems reporter" where
  "job_reporter sv job_id = Some (\<lambda>stage msg d x. append_activity (sv_jobs sv) (sv_clock sv x) job_id stage msg d x)"

definition run_intake_job ::
  "('r, 'j, 'q, 'y, 'l) service \<Rightarrow> ('r, ('j, 'q, 'y) systems) intake_service \<Rightarrow> intake_task \<Rightarrow>
   ('r, 'j, 'q, 'y, 'l, unit) service_io" where
  "run_intake_job sv pipeline t g =
     (case in_intake (process_intake pipeline (job_reporter sv (tk_job t)) (Some (tk_job t)) (tk_actor t)
        (tk_metadata t) (tk_payloads t)) g of
        (Inl e, g') \<Rightarrow> report_outcome sv (tk_job t) (intake_outcome e) g'
      | (Inr _, g') \<Rightarrow>
          io_bind (note_job sv (tk_job t) ''completed'' ''Processing completed; opening human review'' no_details) (\<lambda>_.
          close_job sv (tk_job t) Job_Completed None None) g')"

definition agent_outcome :: job_outcome where
  "agent_outcome = \<lparr>jf_stage = ''failed'', jf_message = ''Agent execution failed before a safe status could be returned'',
     jf_error = ''agent_runtime_error'', jf_retryable = True\<rparr>"

definition run_agent_intake_job ::
  "('r, 'j, 'q, 'y, 'l) service \<Rightarrow> ('r, 'j, 'q, 'y, 'l) runtime \<Rightarrow> intake_task \<Rightarrow> ('r, 'j, 'q, 'y, 'l, unit) service_io" where
  "run_agent_intake_job sv rt t =
     io_catch (io_bind (ru_start rt (tk_metadata t) (tk_payloads t) (tk_job t)) (\<lambda>_. io_ret ()))
       (\<lambda>_. report_outcome sv (tk_job t) agent_outcome)"

text \<open>What a task that is cancelled does last, before it raises the cancellation again.\<close>

definition cancelled_outcome :: "bool \<Rightarrow> job_outcome" where
  "cancelled_outcome agent =
     (if agent then \<lparr>jf_stage = ''interrupted'', jf_message = ''Agent execution stopped; the last checkpoint remains resumable'',
        jf_error = ''service_stopped'', jf_retryable = True\<rparr>
      else \<lparr>jf_stage = ''failed'', jf_message = ''Processing stopped because the local service shut down'',
        jf_error = ''service_stopped'', jf_retryable = True\<rparr>)"

definition cancel_task ::
  "('r, 'j, 'q, 'y, 'l) service \<Rightarrow> bool \<Rightarrow> string \<Rightarrow> ('r, 'j, 'q, 'y, 'l, unit) service_io" where
  "cancel_task sv agent job_id = report_outcome sv job_id (cancelled_outcome agent)"

definition run_task ::
  "('r, 'j, 'q, 'y, 'l) service \<Rightarrow> ('r, ('j, 'q, 'y) systems) intake_service \<Rightarrow> intake_task \<Rightarrow>
   ('r, 'j, 'q, 'y, 'l, unit) service_io" where
  "run_task sv pipeline t =
     (case sv_runtime sv of
        None \<Rightarrow> run_intake_job sv pipeline t
      | Some rt \<Rightarrow> run_agent_intake_job sv rt t)"

section \<open>Job endpoints\<close>

definition job_snapshot ::
  "('r, 'j, 'q, 'y, 'l) service \<Rightarrow> string \<Rightarrow> int \<Rightarrow> ('r, 'j, 'q, 'y, 'l, intake_job \<times> intake_event list) api_io" where
  "job_snapshot sv job_id after =
     key_error_404 ''intake job not found''
       (io_bind (in_systems (\<lambda>x. (jo_get (sv_jobs sv) job_id (sy_jobs x), x))) (\<lambda>job.
        io_bind (in_systems (\<lambda>x. (jo_events_after (sv_jobs sv) job_id after (sy_jobs x), x))) (\<lambda>events.
        io_ret (job, events))))"

definition job_status_endpoint ::
  "('r, 'j, 'q, 'y, 'l) service \<Rightarrow> actor_claims \<Rightarrow> string \<Rightarrow> ('r, 'j, 'q, 'y, 'l, intake_job \<times> intake_event list) api_io" where
  "job_status_endpoint sv actor job_id = io_bind (require_reader actor) (\<lambda>_. job_snapshot sv job_id 0)"

definition job_events_endpoint ::
  "('r, 'j, 'q, 'y, 'l) service \<Rightarrow> actor_claims \<Rightarrow> string \<Rightarrow> int \<Rightarrow>
   ('r, 'j, 'q, 'y, 'l, intake_job \<times> intake_event list) api_io" where
  "job_events_endpoint sv actor job_id after =
     io_bind (require_reader actor) (\<lambda>_. job_snapshot sv job_id (max 0 after))"

definition awaits_finalization :: "memory_state \<Rightarrow> workflow_record \<Rightarrow> bool" where
  "awaits_finalization s r \<longleftrightarrow> ms_status s = FAILED_RETRYABLE \<and> wf_state r = HUMAN_DECIDED \<and>
     (case wf_decision r of None \<Rightarrow> False | Some d \<Rightarrow> hr_action d \<noteq> SEND_BACK)"

definition resume_job_body ::
  "('r, 'j, 'q, 'y, 'l) service \<Rightarrow> ('r, 'j, 'q, 'y, 'l) runtime \<Rightarrow> string \<Rightarrow> ('r, 'j, 'q, 'y, 'l, memory_status) service_io" where
  "resume_job_body sv rt job_id =
     (let resumed = io_bind (ru_resume rt job_id) (\<lambda>s. ru_memory rt (ms_application_id s)) in
      io_bind (job_get rt job_id) (\<lambda>job.
      let app = ij_application_id job in
      io_bind (thread_state rt app) (\<lambda>s.
      if ms_current_node s \<noteq> HUMAN_REVIEW then resumed
      else io_bind (case_record sv app) (\<lambda>r.
        if awaits_finalization s r
        then io_bind (finalize_human_decision sv rt app (wf_version r)) (\<lambda>_. ru_memory rt app)
        else resumed))))"

definition resume_job_endpoint ::
  "('r, 'j, 'q, 'y, 'l) service \<Rightarrow> actor_claims \<Rightarrow> string \<Rightarrow> ('r, 'j, 'q, 'y, 'l, memory_status) api_io" where
  "resume_job_endpoint sv actor job_id =
     need ''agent orchestration is not configured'' (sv_runtime sv) (\<lambda>rt.
     io_bind (need_role PIPELINE actor) (\<lambda>_.
     key_error_404 ''intake job not found'' (resume_job_body sv rt job_id)))"

definition cancel_job_endpoint ::
  "('r, 'j, 'q, 'y, 'l) service \<Rightarrow> actor_claims \<Rightarrow> string \<Rightarrow> ('r, 'j, 'q, 'y, 'l, memory_status) api_io" where
  "cancel_job_endpoint sv actor job_id =
     need ''agent orchestration is not configured'' (sv_runtime sv) (\<lambda>rt.
     io_bind (need_role PIPELINE actor) (\<lambda>_.
     key_error_404 ''intake job not found''
       (io_bind (ru_cancel rt job_id) (\<lambda>s. ru_memory rt (ms_application_id s)))))"

definition application_memory_endpoint ::
  "('r, 'j, 'q, 'y, 'l) service \<Rightarrow> actor_claims \<Rightarrow> app_id \<Rightarrow> ('r, 'j, 'q, 'y, 'l, memory_status) api_io" where
  "application_memory_endpoint sv actor app =
     need ''agent orchestration is not configured'' (sv_runtime sv) (\<lambda>rt.
     io_bind (require_reader actor) (\<lambda>_.
     key_error_404 ''application memory not found'' (ru_memory rt app)))"

section \<open>Reveal of a masked field\<close>

record reveal_request =
  rq_command_id :: uuid
  rq_expected_version :: nat
  rq_field_name :: string
  rq_reason :: string

definition reveal_request_ok :: "reveal_request \<Rightarrow> bool" where
  "reveal_request_ok q \<longleftrightarrow> rq_field_name q \<in> set masked_fields \<and> bounded_text 10 1000 (rq_reason q)"

text \<open>\<open>getattr\<close> on the metadata of the staged request, as text.\<close>

definition metadata_attribute :: "intake_metadata \<Rightarrow> string \<Rightarrow> py_exn + string" where
  "metadata_attribute m name =
     (if name = ''application_id'' then Inr (im_application_id m)
      else if name = ''requested_amount_crore'' then Inr (str_decimal (im_requested_amount_crore m))
      else if name = ''loan_type'' then Inr (loan_type_value (im_loan_type m))
      else Inl (OtherException ''AttributeError''))"

definition record_reveal :: "reveal_row \<Rightarrow> (('j, 'q, 'y) systems, py_exn, unit) io" where
  "record_reveal row x =
     (Inr (), if list_ex (\<lambda>r. rv_command_id r = rv_command_id row) (sy_reveals x) then x
              else x\<lparr>sy_reveals := sy_reveals x @ [row]\<rparr>)"

definition reveal_endpoint ::
  "('r, 'j, 'q, 'y, 'l) service \<Rightarrow> actor_claims \<Rightarrow> app_id \<Rightarrow> reveal_request \<Rightarrow> ('r, 'j, 'q, 'y, 'l, string) api_io" where
  "reveal_endpoint sv actor app q =
     io_bind (io_ensure (reveal_request_ok q) (Http_error 422 ''validation error'')) (\<lambda>_.
     io_bind (need_role HUMAN_REVIEWER actor) (\<lambda>_.
     io_bind (api (case_record sv app)) (\<lambda>r.
     io_bind (io_ensure (wf_version r = rq_expected_version q) (Raised workflow_conflict)) (\<lambda>_.
     need ''application workspace is not configured'' (sv_runtime sv) (\<lambda>rt.
     io_bind (api (in_files (ws_request (ru_workspace rt) (dp_request_codec (gd_deps (ru_guard rt))) app))) (\<lambda>request.
     io_bind (api (io_lift (metadata_attribute (sa_metadata request) (rq_field_name q)))) (\<lambda>v.
     io_bind (io_ensure (sv_database sv) (Http_error 503 ''reveal audit storage is unavailable'')) (\<lambda>_.
     io_bind (api (in_systems (record_reveal \<lparr>rv_command_id = rq_command_id q, rv_application_id = app,
       rv_actor_id = ac_actor_id actor, rv_field_name = rq_field_name q, rv_reason = rq_reason q\<rparr>))) (\<lambda>_.
     io_ret v)))))))))"

section \<open>Lifecycle of a precedent\<close>

record lifecycle_request =
  lq_command_id :: uuid
  lq_expected_status :: precedent_status
  lq_status :: precedent_status
  lq_replacement_case_id :: "string option"
  lq_reason :: string

record lifecycle_response =
  lp_case_id :: string
  lp_status :: precedent_status
  lp_command_id :: uuid
  lp_policy_hash :: string

definition lifecycle_request_ok :: "lifecycle_request \<Rightarrow> bool" where
  "lifecycle_request_ok q \<longleftrightarrow> lq_status q \<in> {REVOKED, SUPERSEDED} \<and> bounded_text 10 1000 (lq_reason q) \<and>
     (case lq_replacement_case_id q of None \<Rightarrow> True | Some c \<Rightarrow> bounded_text 3 200 c)"

text \<open>The insertion: an existing command is skipped, an existing case violates the primary key.\<close>

definition insert_lifecycle :: "lifecycle_row \<Rightarrow> (('j, 'q, 'y) systems, py_exn, unit) io" where
  "insert_lifecycle row x =
     (if list_ex (\<lambda>r. lr_command_id r = lr_command_id row) (sy_lifecycle x) then (Inr (), x)
      else if list_ex (\<lambda>r. lr_case_id r = lr_case_id row) (sy_lifecycle x) then (Inl unique_violation, x)
      else (Inr (), x\<lparr>sy_lifecycle := sy_lifecycle x @ [row]\<rparr>))"

definition known_lifecycle :: "uuid \<Rightarrow> (('j, 'q, 'y) systems, py_exn, lifecycle_row option) io" where
  "known_lifecycle command_id x = (Inr (find (\<lambda>r. lr_command_id r = command_id) (sy_lifecycle x)), x)"

definition lifecycle_changed ::
  "('r, 'q) writeback \<Rightarrow> string \<Rightarrow> lifecycle_request \<Rightarrow> ('r, 'j, 'q, 'y, 'l, decided_loan_case) api_io" where
  "lifecycle_changed wb case_id q =
     io_catch (in_world (on_qdrant (set_lifecycle (wb_store wb) case_id (lq_expected_status q) (lq_status q)))) (\<lambda>e.
       case e of
         KeyError _ \<Rightarrow> http 404 ''precedent not found''
       | ValueError _ \<Rightarrow> io_raise (Raised workflow_conflict)
       | _ \<Rightarrow> io_raise (Raised e))"

definition precedent_lifecycle_endpoint ::
  "('r, 'j, 'q, 'y, 'l) service \<Rightarrow> actor_claims \<Rightarrow> string \<Rightarrow> lifecycle_request \<Rightarrow>
   ('r, 'j, 'q, 'y, 'l, lifecycle_response) api_io" where
  "precedent_lifecycle_endpoint sv actor case_id q =
     need ''precedent write-back is not configured'' (sv_writeback sv) (\<lambda>wb.
     io_bind (io_ensure (lifecycle_request_ok q) (Http_error 422 ''validation error'')) (\<lambda>_.
     io_bind (need_role HUMAN_REVIEWER actor) (\<lambda>_.
     io_bind (io_ensure (lq_status q \<noteq> SUPERSEDED \<or> lq_replacement_case_id q \<noteq> None) (Raised invalid_transition)) (\<lambda>_.
     io_bind (io_ensure (sv_database sv) (Http_error 503 ''precedent lifecycle audit storage is unavailable'')) (\<lambda>_.
     io_bind (api (in_systems (known_lifecycle (lq_command_id q)))) (\<lambda>existing.
     case existing of
       Some row \<Rightarrow> io_ret \<lparr>lp_case_id = lr_case_id row, lp_status = lr_status row, lp_command_id = lq_command_id q,
         lp_policy_hash = lr_policy_hash row\<rparr>
     | None \<Rightarrow>
         io_bind (api (io_lift (sv_policy_hash sv))) (\<lambda>policy_hash.
         io_bind (lifecycle_changed wb case_id q) (\<lambda>changed.
         io_bind (api (in_systems (insert_lifecycle \<lparr>lr_case_id = case_id, lr_status = dc_lifecycle_status changed,
           lr_policy_hash = policy_hash, lr_valid_until = dc_valid_until changed,
           lr_supersedes_case_id = lq_replacement_case_id q, lr_command_id = lq_command_id q,
           lr_reason = lq_reason q, lr_actor_id = ac_actor_id actor\<rparr>))) (\<lambda>_.
         io_ret \<lparr>lp_case_id = case_id, lp_status = dc_lifecycle_status changed, lp_command_id = lq_command_id q,
           lp_policy_hash = policy_hash\<rparr>)))))))))"

section \<open>Readiness\<close>

text \<open>What the probes answer; the vLLM and Langfuse probes are absent when no URL is configured.\<close>

record probes =
  pb_postgresql :: bool
  pb_qdrant :: bool
  pb_findociq :: bool
  pb_vllm :: "bool option"
  pb_langfuse :: "bool option"

definition health_word :: "bool \<Rightarrow> string" where
  "health_word b = (if b then ''healthy'' else ''unavailable'')"

definition http_dependency_health :: "bool \<Rightarrow> bool option \<Rightarrow> string" where
  "http_dependency_health warning answer =
     (case answer of
        None \<Rightarrow> if warning then ''warning_not_configured'' else ''unavailable''
      | Some True \<Rightarrow> ''healthy''
      | Some False \<Rightarrow> if warning then ''warning_unavailable'' else ''unavailable'')"

definition dependencies :: "probes \<Rightarrow> (string \<times> string) list" where
  "dependencies p =
     [(''postgresql'', health_word (pb_postgresql p)), (''qdrant'', health_word (pb_qdrant p)),
      (''findociq'', health_word (pb_findociq p)), (''vllm'', http_dependency_health False (pb_vllm p)),
      (''langfuse'', http_dependency_health True (pb_langfuse p))]"

definition readiness :: "probes \<Rightarrow> nat \<times> bool \<times> (string \<times> string) list" where
  "readiness p =
     (let d = dependencies p;
          ready = list_all (\<lambda>item. dict_get d item = Some ''healthy'') [''postgresql'', ''qdrant'', ''findociq'', ''vllm'']
      in (if ready then 200 else 503, ready, d))"

end
