(* ===== verification/FM_API_Facts.thy ===== *)
theory FM_API_Facts
  imports FM_Endpoints
begin

text \<open>
  What the operations of the service keep: frame rules for a property of the state over the
  operations of every layer, and the closure of the audit contract under all endpoints.
\<close>

section \<open>Frame rules\<close>

definition preserves :: "('w \<Rightarrow> bool) \<Rightarrow> ('w, 'e, 'a) io \<Rightarrow> bool" where
  "preserves P m \<longleftrightarrow> (\<forall>w. P w \<longrightarrow> P (snd (m w)))"

named_theorems preserve

lemma preservesI: "(\<And>w r w'. P w \<Longrightarrow> m w = (r, w') \<Longrightarrow> P w') \<Longrightarrow> preserves P m"
  unfolding preserves_def by (metis prod.collapse)

lemma preservesD: "preserves P m \<Longrightarrow> P w \<Longrightarrow> m w = (r, w') \<Longrightarrow> P w'"
  unfolding preserves_def by (metis snd_conv)

lemma preserves_bind [preserve]:
  assumes "preserves P m" and "\<And>x. preserves P (f x)"
  shows "preserves P (io_bind m f)"
  by (rule preservesI) (auto simp: io_bind_def split: prod.splits sum.splits dest: preservesD [OF assms(1)] preservesD [OF assms(2)])

lemma preserves_catch [preserve]:
  assumes "preserves P m" and "\<And>e. preserves P (h e)"
  shows "preserves P (io_catch m h)"
  by (rule preservesI) (auto simp: io_catch_def split: prod.splits sum.splits dest: preservesD [OF assms(1)] preservesD [OF assms(2)])

lemma preserves_basic [preserve]:
  "preserves P (io_ret x)" "preserves P (io_raise e)" "preserves P (io_lift r)" "preserves P (io_ensure b e)"
  by (auto simp: preserves_def io_ret_def io_raise_def io_lift_def io_ensure_def)

lemma preserves_each [preserve]: "(\<And>x. preserves P (f x)) \<Longrightarrow> preserves P (io_each f xs)"
proof (induction xs)
  case (Cons x xs)
  have x: "preserves P (f x)" and xs: "preserves P (io_each f xs)" using Cons by blast+
  have "P (snd (io_each f (x # xs) w))" if w: "P w" for w
  proof -
    obtain r w' where one: "f x w = (r, w')" by fastforce
    from preservesD [OF x w one] have "P w'" .
    with one xs show ?thesis by (cases r) (auto simp: preserves_def)
  qed
  then show ?case by (simp add: preserves_def)
qed (simp add: preserves_def)

lemma preserves_if [preserve]: "preserves P m \<Longrightarrow> preserves P m' \<Longrightarrow> preserves P (if b then m else m')"
  by simp

lemma preserves_cond: "preserves P m \<Longrightarrow> preserves P m' \<Longrightarrow> preserves P (\<lambda>w. if c w then m w else m' w)"
  by (simp add: preserves_def)

lemma preserves_option [preserve]:
  "preserves P m \<Longrightarrow> (\<And>x. preserves P (f x)) \<Longrightarrow> preserves P (case v of None \<Rightarrow> m | Some x \<Rightarrow> f x)"
  by (simp split: option.splits)

lemma preserves_state: "(\<And>w. preserves P (f w)) \<Longrightarrow> preserves P (\<lambda>w. f w w)"
  by (simp add: preserves_def)

section \<open>The audit contract in a service\<close>

text \<open>
  The wiring of \<open>create_app\<close>: every component acts on the one Postgres repository, and their draws
  of clocks and identifiers come from one supply.
\<close>

definition wired :: "(nat \<Rightarrow> tick) \<Rightarrow> (postgres_repo, 'j, 'q, 'y, 'l) service \<Rightarrow> bool" where
  "wired ticks sv \<longleftrightarrow> inj (\<lambda>n. tk_audit_id (ticks n)) \<and> sv_repo sv = postgres_ops \<and> sv_tick sv = ticks \<and>
     (\<forall>wb. sv_writeback sv = Some wb \<longrightarrow> wb_repo wb = postgres_ops \<and> wb_tick wb = ticks) \<and>
     (\<forall>s. sv_intake sv = Some s \<longrightarrow> is_repo s = postgres_ops \<and> is_tick s = ticks) \<and>
     (\<forall>rt. sv_runtime sv = Some rt \<longrightarrow> dp_repo (gd_deps (ru_guard rt)) = postgres_ops \<and>
        dp_tick (gd_deps (ru_guard rt)) = ticks)"

abbreviation recorded_in ::
  "(nat \<Rightarrow> tick) \<Rightarrow> (postgres_repo, 'j, 'q, 'y, 'l) service_state \<Rightarrow> bool" where
  "recorded_in ticks g \<equiv> recorded ticks (gr_world g)"

lemma postgres_ops_simps [simp]:
  "rp_create postgres_ops = pg_create" "rp_get postgres_ops = pg_get" "rp_transition postgres_ops = pg_transition"
  by (simp_all add: postgres_ops_def)

lemma in_world_preserve [preserve]:
  "preserves (recorded ticks) m \<Longrightarrow> preserves (recorded_in ticks) (in_world m)"
  using preservesD [of "recorded ticks" m] by (auto intro!: preservesI simp: in_world_def split: prod.splits)

lemma on_systems_preserve [preserve]: "preserves (recorded ticks) (on_systems m)"
  by (auto intro!: preservesI simp: on_systems_def recorded_def split: prod.splits)

lemma on_qdrant_preserve [preserve]: "preserves (recorded ticks) (on_qdrant m)"
  by (simp add: on_qdrant_def on_systems_preserve)

lemma in_systems_preserve [preserve]: "preserves (recorded_in ticks) (in_systems m)"
  by (simp add: in_systems_def preserve)

lemma in_files_preserve [preserve]: "preserves (recorded_in ticks) (in_files m)"
  by (auto intro!: preservesI simp: in_files_def in_world_def recorded_def split: prod.splits)

lemma repo_get_preserve [preserve]: "preserves P (repo_get ops app)"
  by (auto simp: preserves_def repo_get_def split: sum.splits)

lemma clock_preserve [preserve]: "preserves P (clock_now wb)"
  by (simp add: preserves_def clock_now_def)

lemma repo_call_preserve:
  assumes "inj (\<lambda>n. tk_audit_id (ticks n))"
    and "\<And>t r. f t r = service_apply pg_create pg_transition c t r"
  shows "preserves (recorded ticks) (repo_call ticks f)"
  using recorded_step [OF assms(1)] recorded_later
  by (auto intro!: preservesI simp: repo_call_def assms(2) split: sum.splits)

lemma commit_call_preserve:
  assumes "wired ticks sv" and "\<And>t r. f t r = service_apply pg_create pg_transition c t r"
  shows "preserves (recorded_in ticks) (commit_call sv f)"
  using assms by (auto simp: commit_call_def wired_def intro!: in_world_preserve repo_call_preserve)

lemma fresh_tick_preserve [preserve]: "preserves (recorded_in ticks) (fresh_tick sv)"
  by (auto intro!: preservesI simp: fresh_tick_def in_world_def recorded_later [simplified])

lemma case_record_preserve [preserve]: "preserves (recorded_in ticks) (case_record sv app)"
  by (simp add: case_record_def preserve)

lemma job_calls_preserve [preserve]:
  "preserves (recorded_in ticks) (note_job sv job_id stage msg d)"
  "preserves (recorded_in ticks) (close_job sv job_id status err retryable)"
  "preserves (recorded_in ticks) (open_job sv job_id app)"
  "preserves (recorded_in ticks) (job_append rt job_id stage msg d)"
  "preserves (recorded_in ticks) (job_finish rt job_id status err retryable)"
  "preserves (recorded_in ticks) (job_get rt job_id)"
  by (simp_all add: note_job_def close_job_def open_job_def job_append_def job_finish_def job_get_def preserve)

lemma thread_state_preserve [preserve]: "preserves P (thread_state rt app)"
  by (simp add: preserves_def thread_state_def)

section \<open>The responses\<close>

lemma api_preserve [preserve]: "preserves P m \<Longrightarrow> preserves P (api m)"
  by (auto simp: preserves_def api_def split: prod.splits sum.splits)

lemma key_error_preserve [preserve]: "preserves P m \<Longrightarrow> preserves P (key_error_404 detail m)"
  by (auto simp: preserves_def key_error_404_def split: prod.splits sum.splits py_exn.splits)

lemma http_preserve [preserve]:
  "preserves P (http code detail)" "preserves P (value_422 r)" "preserves P (need_role role actor)"
  "preserves P (require_reader actor)"
  by (auto simp: http_def value_422_def need_role_def require_reader_def preserve split: sum.splits py_exn.splits)

lemma need_preserve [preserve]: "(\<And>x. v = Some x \<Longrightarrow> preserves P (f x)) \<Longrightarrow> preserves P (need detail v f)"
  by (cases v) (simp_all add: need_def preserve)

section \<open>The graph and the runtime\<close>

definition agent_wired :: "(nat \<Rightarrow> tick) \<Rightarrow> (postgres_repo, 'j, 'q, 'y, 'l) runtime \<Rightarrow> bool" where
  "agent_wired ticks rt \<longleftrightarrow> inj (\<lambda>n. tk_audit_id (ticks n)) \<and>
     dp_repo (gd_deps (ru_guard rt)) = postgres_ops \<and> dp_tick (gd_deps (ru_guard rt)) = ticks"

lemma wired_agent: "wired ticks sv \<Longrightarrow> sv_runtime sv = Some rt \<Longrightarrow> agent_wired ticks rt"
  by (simp add: wired_def agent_wired_def)

lemma agent_wired_audited: "agent_wired ticks rt \<Longrightarrow> audited (gd_deps (ru_guard rt)) = recorded ticks"
  by (rule ext) (simp add: agent_wired_def audited_def fresh_ticks_def)

lemma graph_preserve:
  assumes "agent_wired ticks rt"
  shows "preserves (recorded_in ticks) (start (ru_env rt) ops app job_id inputs)"
    and "preserves (recorded_in ticks) (resume (ru_env rt) ops app)"
    and "preserves (recorded_in ticks) (rewind (ru_env rt) ops app worker)"
    and "preserves (recorded_in ticks) (mark_terminal (ru_env rt) ops app status)"
    and "preserves (recorded_in ticks) (complete_after_writeback (ru_env rt) ops app receipt)"
    and "preserves (recorded_in ticks) (mark_needs_attention (ru_env rt) ops app code)"
    and "preserves (recorded_in ticks) (mark_retryable (ru_env rt) ops app code msg)"
    and "preserves (recorded ticks) (record_span (ru_env rt) event)"
  unfolding preserves_def agent_wired_audited [OF assms, symmetric] ru_env_def
        apply (intro allI impI, erule audited_agent.start_world [OF TrueI])
       apply (intro allI impI, erule audited_agent.resume_world [OF TrueI])
      apply (intro allI impI, erule audited_agent.rewind_world [OF TrueI])
     apply (rule audited_agent.terminal_world)
    apply (rule audited_agent.complete_world)
   apply (rule audited_agent.mark_world)+
  by (metis prod.collapse step_keeps_state [OF audited_agent.span_keeps])

text \<open>Operations of the runtime.\<close>

lemma state_call_preserve:
  "preserves (recorded_in ticks) (\<lambda>g. job_append rt job_id stage msg (d g) g)"
  "agent_wired ticks rt \<Longrightarrow> preserves (recorded_in ticks) (\<lambda>g. in_world (record_span (ru_env rt) (event g)) g)"
  by (rule preserves_state, rule preserve) (rule preserves_state, rule in_world_preserve, erule graph_preserve(8))

lemma graph_now_preserve [preserve]: "preserves P (\<lambda>g. (lo_get (ru_life rt) app (gr_lifecycle g), g))"
  by (simp add: preserves_def)

lemma settle_preserve [preserve]: "preserves (recorded_in ticks) (settle_job rt job_id s)"
  by (simp add: settle_job_def preserve)

lemma execute_preserve [preserve]:
  assumes "preserves (recorded_in ticks) m"
  shows "preserves (recorded_in ticks) (execute_run rt job_id m)"
  unfolding execute_run_def by (intro preserve state_call_preserve assms)

lemma runtime_preserve:
  assumes "agent_wired ticks rt"
  shows "preserves (recorded_in ticks) (ru_start rt m files job_id)"
    and "preserves (recorded_in ticks) (ru_resume rt job_id)"
    and "preserves (recorded_in ticks) (ru_cancel rt job_id)"
    and "preserves (recorded_in ticks) (ru_send_back rt app worker)"
    and "preserves (recorded_in ticks) (supervisor_needs_attention rt app)"
    and "preserves (recorded_in ticks) (resolve_supervisor rt app reason)"
    and "preserves (recorded_in ticks) (ru_memory rt app)"
  unfolding ru_start_def ru_resume_def ru_cancel_def ru_send_back_def supervisor_needs_attention_def
    resolve_supervisor_def ru_memory_def Let_def
  by (intro preserve state_call_preserve graph_preserve [OF assms] assms)+

section \<open>Write-back and decision\<close>

definition writeback_wired :: "(nat \<Rightarrow> tick) \<Rightarrow> (postgres_repo, 'q) writeback \<Rightarrow> bool" where
  "writeback_wired ticks wb \<longleftrightarrow> inj (\<lambda>n. tk_audit_id (ticks n)) \<and> wb_repo wb = postgres_ops \<and> wb_tick wb = ticks"

lemma wired_writeback: "wired ticks sv \<Longrightarrow> sv_writeback sv = Some wb \<Longrightarrow> writeback_wired ticks wb"
  by (simp add: wired_def writeback_wired_def)

lemma mark_written_preserve:
  assumes "writeback_wired ticks wb"
  shows "preserves (recorded ticks) (mark_written wb app command receipt actor)"
  using assms unfolding mark_written_def
  by (auto simp: writeback_wired_def intro!: repo_call_preserve [where c = "Written app command receipt actor"])

lemma write_precedent_preserve:
  assumes "writeback_wired ticks wb"
  shows "preserves (recorded ticks) (write_precedent wb app command actor)"
proof -
  note [preserve] = mark_written_preserve [OF assms]
  have "preserves (recorded ticks) (replay_written wb app command actor receipt)" for receipt
    unfolding replay_written_def by (intro preserve)
  moreover have "preserves (recorded ticks) (write_decided wb app command actor cur)" for cur
    unfolding write_decided_def confirmed_write_def Let_def by (intro preserve)
  ultimately show ?thesis
    unfolding write_precedent_def write_known_def by (intro preserve)
qed

lemma complete_thread_preserve:
  "agent_wired ticks rt \<Longrightarrow> preserves (recorded_in ticks) (complete_thread rt app missing res)"
  unfolding complete_thread_def by (intro preserve graph_preserve)

lemma finalize_preserve:
  assumes "wired ticks sv" and "agent_wired ticks rt"
  shows "preserves (recorded_in ticks) (finalize_human_decision sv rt app version)"
proof (cases "sv_writeback sv")
  case (Some wb)
  note [preserve] = write_precedent_preserve [OF wired_writeback [OF assms(1) Some]]
    complete_thread_preserve [OF assms(2)] graph_preserve [OF assms(2)]
  show ?thesis unfolding finalize_human_decision_def Some option.case finalize_failed_def by (intro preserve)
qed (simp add: finalize_human_decision_def preserve)

lemma restart_preserve:
  assumes "wired ticks sv" and "agent_wired ticks rt"
  shows "preserves (recorded_in ticks) (restart_case sv rt app command actor version)"
proof -
  have "preserves (recorded_in ticks) (commit_call sv (reopen_after_send_back (rp_transition (sv_repo sv)) app c actor))" for c
    using assms(1) by (intro commit_call_preserve [where c = "Reopen app c actor"]) (simp_all add: wired_def)
  note [preserve] = this runtime_preserve [OF assms(2)]
  show ?thesis
    unfolding restart_case_def reopen_and_restart_def Let_def by (intro preserve)
qed

section \<open>The direct intake\<close>

text \<open>A property of the repository and of the supply of identifiers, whatever else the world holds.\<close>

definition repo_only :: "(('r, 'x) world \<Rightarrow> bool) \<Rightarrow> bool" where
  "repo_only P \<longleftrightarrow> (\<forall>w w'. wd_repo w' = wd_repo w \<longrightarrow> wd_ticks w' = wd_ticks w \<longrightarrow> P w \<longrightarrow> P w')"

lemma repo_only_recorded [preserve]: "repo_only (recorded ticks)"
  by (simp add: repo_only_def recorded_def)

lemma repo_only_update:
  "repo_only P \<Longrightarrow> P w \<Longrightarrow> P (w\<lparr>wd_ext := x\<rparr>)" "repo_only P \<Longrightarrow> P w \<Longrightarrow> P (w\<lparr>wd_fs := fs\<rparr>)"
  by (simp_all add: repo_only_def)

lemma intake_calls_preserve [preserve]:
  assumes "repo_only P"
  shows "preserves P (outside_io m1)" and "preserves P (outside_py m2)" and "preserves P (modify_files f)"
    and "preserves P (lift_client r)" and "preserves P (fail_value msg)" and "preserves P (report_progress pr stage msg d)"
  using repo_only_update [OF assms]
  by (auto intro!: preservesI simp: outside_io_def outside_py_def modify_files_def lift_client_def io_lift_def
      fail_value_def io_raise_def report_progress_def io_ret_def split: prod.splits option.splits)

definition intake_wired :: "(nat \<Rightarrow> tick) \<Rightarrow> (postgres_repo, 'x) intake_service \<Rightarrow> bool" where
  "intake_wired ticks s \<longleftrightarrow> inj (\<lambda>n. tk_audit_id (ticks n)) \<and> is_repo s = postgres_ops \<and> is_tick s = ticks"

lemma wired_intake: "wired ticks sv \<Longrightarrow> sv_intake sv = Some s \<Longrightarrow> intake_wired ticks s"
  by (simp add: wired_def intake_wired_def)

lemma commit_preserve:
  assumes "intake_wired ticks s" and "\<And>t r. f t r = service_apply pg_create pg_transition c t r"
  shows "preserves (recorded ticks) (commit s f)"
  using assms recorded_step [of ticks _ c] recorded_later [of ticks]
  by (auto intro!: preservesI simp: commit_def intake_wired_def split: sum.splits)

lemma advance_all_preserve:
  assumes "intake_wired ticks s"
  shows "preserves (recorded ticks) (advance_all s app actor res steps)"
proof (induction steps arbitrary: res)
  case (Cons step steps)
  have "preserves (recorded ticks) (advance_once s app actor version x)" for version x
    using assms recorded_step [of ticks _ "Advance app _ actor"] recorded_later [of ticks]
    by (auto intro!: preservesI simp: advance_once_def commit_def intake_wired_def split: prod.splits sum.splits)
  then show ?case unfolding advance_all.simps by (intro preserve Cons.IH)
qed (simp add: preserve)

lemma store_files_preserve: "repo_only P \<Longrightarrow> preserves P (store_files s pr app n i fs)"
proof (induction fs arbitrary: i)
  case (Cons f fs)
  note [preserve] = Cons.prems Cons.IH [OF Cons.prems]
  have "preserves P (store_file s pr app n i f)"
    unfolding store_file_def Let_def case_prod_unfold by (intro preserve)
  then show ?case unfolding store_files.simps by (intro preserve)
qed (simp add: preserve)

lemma poll_once_preserve: "repo_only P \<Longrightarrow> preserves P (poll_once s pr batch seen)"
  unfolding poll_once_def relay_event_def by (intro preserve)

lemma poll_preserve: "repo_only P \<Longrightarrow> preserves P (poll_activity s pr batch n seen)"
proof (induction n arbitrary: seen)
  case (Suc n)
  show ?case unfolding poll_activity.simps by (intro preserve poll_once_preserve Suc)
qed (simp add: preserve)

lemma extract_facts_preserve: "repo_only P \<Longrightarrow> preserves P (extract_facts s pr app ids k ns)"
proof (induction ns arbitrary: k)
  case (Cons n ns)
  note [preserve] = Cons.prems Cons.IH [OF Cons.prems]
  have "preserves P (extract_fact s pr app ids k n)"
    unfolding extract_fact_def by (intro preserve)
  then show ?case unfolding extract_facts.simps by (intro preserve)
qed (simp add: preserve)

lemma ingest_preserve:
  assumes "repo_only P"
  shows "preserves P (ingest_with_activity s pr q)"
proof -
  have "preserves P (\<lambda>w. poll_activity s pr batch (is_polls s (wd_ext w)) 0 w)" for batch
    by (rule preserves_state) (rule poll_preserve [OF assms])
  then show ?thesis
    unfolding ingest_with_activity_def by (intro preserve poll_once_preserve assms)
qed

lemma prepare_preserve: "repo_only P \<Longrightarrow> preserves P (prepare_suggestion s pr job_id m files)"
  unfolding prepare_suggestion_def extract_application_def Let_def
  by (intro preserve store_files_preserve ingest_preserve extract_facts_preserve)

lemma process_intake_preserve:
  assumes "intake_wired ticks s"
  shows "preserves (recorded ticks) (process_intake s pr job_id actor m files)"
proof -
  note [preserve] = prepare_preserve advance_all_preserve [OF assms]
  have "preserves (recorded ticks)
      (commit s (create_workflow (rp_create (is_repo s)) app actor None reason))" for app reason
    using assms by (intro commit_preserve [where c = "Create app actor None reason"]) (simp_all add: intake_wired_def)
  then have "preserves (recorded ticks) (open_case s app actor b)" for app b
    unfolding open_case_def by (intro preserve)
  then have "preserves (recorded ticks) (process_body s pr job_id actor m files)"
    unfolding process_body_def Let_def case_prod_unfold by (intro preserve)
  note [preserve] = this
  show ?thesis
    unfolding process_intake_def Let_def
    by (intro preserve preserves_cond)
qed

section \<open>Sessions\<close>

text \<open>The requests and the background work of a running service, in any order.\<close>

datatype api_request =
    Create_Workflow actor_claims app_id uuid string
  | Advance_Workflow actor_claims app_id pipeline_advance_command
  | Get_Workflow actor_claims app_id
  | Get_Audit actor_claims app_id
  | Human_Decision actor_claims app_id human_decision_command
  | Write_Precedent actor_claims app_id precedent_write_command
  | Borrower_Intake actor_claims string "(string option \<times> string) list"
  | Upload actor_claims string "(string option \<times> string) list"
  | Task intake_task
  | Stop_Task bool string
  | Job_Status actor_claims string
  | Job_Events actor_claims string int
  | Resume_Job actor_claims string
  | Cancel_Job actor_claims string
  | Application_Memory actor_claims app_id
  | Reveal actor_claims app_id reveal_request
  | Precedent_Lifecycle actor_claims string lifecycle_request
  | Maintenance timestamp timestamp

fun api_apply ::
  "('r, 'j, 'q, 'y, 'l) service \<Rightarrow> api_request \<Rightarrow> ('r, 'j, 'q, 'y, 'l) service_state \<Rightarrow> ('r, 'j, 'q, 'y, 'l) service_state" where
  "api_apply sv (Create_Workflow actor app cid reason) g = snd (create_workflow_endpoint sv actor app cid reason g)"
| "api_apply sv (Advance_Workflow actor app c) g = snd (advance_endpoint sv actor app c g)"
| "api_apply sv (Get_Workflow actor app) g = snd (get_workflow_endpoint sv actor app g)"
| "api_apply sv (Get_Audit actor app) g = snd (audit_endpoint sv actor app g)"
| "api_apply sv (Human_Decision actor app c) g = snd (human_decision_endpoint sv actor app c g)"
| "api_apply sv (Write_Precedent actor app c) g = snd (write_precedent_endpoint sv actor app c g)"
| "api_apply sv (Borrower_Intake actor raw items) g = snd (borrower_intake_endpoint sv actor raw items g)"
| "api_apply sv (Upload actor raw items) g = snd (create_intake_job sv actor raw items g)"
| "api_apply sv (Task t) g = (case sv_intake sv of None \<Rightarrow> g | Some p \<Rightarrow> snd (run_task sv p t g))"
| "api_apply sv (Stop_Task agent job_id) g = snd (cancel_task sv agent job_id g)"
| "api_apply sv (Job_Status actor job_id) g = snd (job_status_endpoint sv actor job_id g)"
| "api_apply sv (Job_Events actor job_id n) g = snd (job_events_endpoint sv actor job_id n g)"
| "api_apply sv (Resume_Job actor job_id) g = snd (resume_job_endpoint sv actor job_id g)"
| "api_apply sv (Cancel_Job actor job_id) g = snd (cancel_job_endpoint sv actor job_id g)"
| "api_apply sv (Application_Memory actor app) g = snd (application_memory_endpoint sv actor app g)"
| "api_apply sv (Reveal actor app q) g = snd (reveal_endpoint sv actor app q g)"
| "api_apply sv (Precedent_Lifecycle actor case_id q) g = snd (precedent_lifecycle_endpoint sv actor case_id q g)"
| "api_apply sv (Maintenance stale_after now) g =
     (case sv_runtime sv of None \<Rightarrow> g | Some rt \<Rightarrow> snd (run_once (ru_env rt) (ru_life rt) stale_after now g))"

definition api_run ::
  "('r, 'j, 'q, 'y, 'l) service \<Rightarrow> api_request list \<Rightarrow> ('r, 'j, 'q, 'y, 'l) service_state \<Rightarrow> ('r, 'j, 'q, 'y, 'l) service_state" where
  "api_run sv = fold (api_apply sv)"

lemma workflow_endpoints_preserve:
  assumes "wired ticks sv"
  shows "preserves (recorded_in ticks) (create_workflow_endpoint sv actor app cid reason)"
    and "preserves (recorded_in ticks) (advance_endpoint sv actor app c)"
    and "preserves (recorded_in ticks) (get_workflow_endpoint sv actor app)"
    and "preserves (recorded_in ticks) (audit_endpoint sv actor app)"
proof -
  have [simp]: "sv_repo sv = postgres_ops" using assms by (simp add: wired_def)
  show "preserves (recorded_in ticks) (create_workflow_endpoint sv actor app cid reason)"
    unfolding create_workflow_endpoint_def
    by (intro preserve commit_call_preserve [OF assms, where c = "Create app actor (Some cid) reason"]) simp
  show "preserves (recorded_in ticks) (advance_endpoint sv actor app c)"
    unfolding advance_endpoint_def
    by (intro preserve commit_call_preserve [OF assms, where c = "Advance app c actor"]) simp
  show "preserves (recorded_in ticks) (get_workflow_endpoint sv actor app)"
    unfolding get_workflow_endpoint_def by (intro preserve)
  have "preserves (recorded ticks) (\<lambda>w. case sv_audit sv app (wd_repo w) of
      Inl e \<Rightarrow> (Inl (workflow_exn e), w) | Inr evs \<Rightarrow> (Inr evs, w))"
    by (auto intro!: preservesI split: sum.splits)
  then show "preserves (recorded_in ticks) (audit_endpoint sv actor app)"
    unfolding audit_endpoint_def by (intro preserve)
qed

lemma decision_endpoints_preserve:
  assumes "wired ticks sv"
  shows "preserves (recorded_in ticks) (human_decision_endpoint sv actor app c)"
    and "preserves (recorded_in ticks) (write_precedent_endpoint sv actor app c')"
proof -
  have decided: "preserves (recorded_in ticks) (commit_call sv (decide (rp_transition (sv_repo sv)) app c actor))"
    using assms by (intro commit_call_preserve [where c = "Decide app c actor"]) (simp_all add: wired_def)
  show "preserves (recorded_in ticks) (human_decision_endpoint sv actor app c)"
  proof (cases "sv_runtime sv")
    case (Some rt)
    note [preserve] = decided restart_preserve [OF assms wired_agent [OF assms Some]]
      finalize_preserve [OF assms wired_agent [OF assms Some]]
    show ?thesis unfolding human_decision_endpoint_def Some option.case by (intro preserve)
  qed (use decided in \<open>simp add: human_decision_endpoint_def preserve\<close>)
  have "preserves (recorded_in ticks) (api (io_bind (in_world (write_precedent wb app c' actor)) (\<lambda>result.
      case sv_runtime sv of
        None \<Rightarrow> io_ret result
      | Some rt \<Rightarrow> io_bind (complete_thread rt app missing result) (\<lambda>_. io_ret result))))"
    if "sv_writeback sv = Some wb" for wb missing
    by (cases "sv_runtime sv") (auto intro!: preserve write_precedent_preserve wired_writeback [OF assms that]
        complete_thread_preserve wired_agent [OF assms])
  then show "preserves (recorded_in ticks) (write_precedent_endpoint sv actor app c')"
    unfolding write_precedent_endpoint_def by (intro preserves_if [OF http_preserve(1)] need_preserve)
qed

lemma preserves_either:
  assumes "preserves P m" and "\<And>e. preserves P (h e)" and "\<And>x. preserves P (k x)"
  shows "preserves P (\<lambda>g. case m g of (Inl e, g') \<Rightarrow> h e g' | (Inr x, g') \<Rightarrow> k x g')"
  by (rule preservesI) (auto split: prod.splits sum.splits
      dest: preservesD [OF assms(1)] preservesD [OF assms(2)] preservesD [OF assms(3)])

lemma in_intake_preserve: "preserves (recorded ticks) m \<Longrightarrow> preserves (recorded_in ticks) (in_intake m)"
  using preservesD [of "recorded ticks" m] by (auto intro!: preservesI simp: in_intake_def split: prod.splits)

lemma upload_errors_preserve [preserve]: "preserves P m \<Longrightarrow> preserves P (upload_errors app m)"
  unfolding upload_errors_def by (auto intro!: preserve split: py_exn.splits)

lemma intake_endpoint_preserve:
  assumes "wired ticks sv"
  shows "preserves (recorded_in ticks) (borrower_intake_endpoint sv actor raw items)"
    and "preserves (recorded_in ticks) (create_intake_job sv actor raw items)"
proof -
  have "preserves (recorded_in ticks) (in_intake (process_intake p None None actor m files))"
    if "sv_intake sv = Some p" for p m files
    by (intro in_intake_preserve process_intake_preserve wired_intake [OF assms that])
  then show "preserves (recorded_in ticks) (borrower_intake_endpoint sv actor raw items)"
    unfolding borrower_intake_endpoint_def by (intro preserve)
  show "preserves (recorded_in ticks) (create_intake_job sv actor raw items)"
    unfolding create_intake_job_def Let_def by (intro preserve)
qed

lemma report_preserve [preserve]: "preserves (recorded_in ticks) (report_outcome sv job_id o1)"
  unfolding report_outcome_def by (intro preserve)

lemma task_preserve:
  assumes "wired ticks sv" and "sv_intake sv = Some p"
  shows "preserves (recorded_in ticks) (run_task sv p t)"
proof (cases "sv_runtime sv")
  case None
  have "preserves (recorded_in ticks) (run_intake_job sv p t)"
    unfolding run_intake_job_def
    by (intro preserves_either preserve in_intake_preserve process_intake_preserve wired_intake [OF assms])
  with None show ?thesis by (simp add: run_task_def)
next
  case (Some rt)
  note [preserve] = runtime_preserve [OF wired_agent [OF assms(1) Some]]
  show ?thesis
    unfolding run_task_def Some option.case run_agent_intake_job_def by (intro preserve)
qed

lemma job_endpoints_preserve:
  assumes "wired ticks sv"
  shows "preserves (recorded_in ticks) (job_snapshot sv job_id n)"
    and "preserves (recorded_in ticks) (resume_job_endpoint sv actor job_id)"
    and "preserves (recorded_in ticks) (cancel_job_endpoint sv actor job_id)"
    and "preserves (recorded_in ticks) (application_memory_endpoint sv actor app)"
proof -
  show "preserves (recorded_in ticks) (job_snapshot sv job_id n)"
    unfolding job_snapshot_def by (intro preserve)
  have "preserves (recorded_in ticks) (resume_job_body sv rt job_id)" if "sv_runtime sv = Some rt" for rt
    unfolding resume_job_body_def Let_def
    by (intro preserve runtime_preserve finalize_preserve assms wired_agent [OF assms that])
  then show "preserves (recorded_in ticks) (resume_job_endpoint sv actor job_id)"
    unfolding resume_job_endpoint_def by (intro preserve)
  show "preserves (recorded_in ticks) (cancel_job_endpoint sv actor job_id)"
    unfolding cancel_job_endpoint_def by (intro preserve runtime_preserve wired_agent [OF assms])
  show "preserves (recorded_in ticks) (application_memory_endpoint sv actor app)"
    unfolding application_memory_endpoint_def by (intro preserve runtime_preserve wired_agent [OF assms])
qed

lemma governance_endpoints_preserve [preserve]:
  "preserves (recorded_in ticks) (reveal_endpoint sv actor app q)"
  "preserves (recorded_in ticks) (precedent_lifecycle_endpoint sv actor case_id q')"
proof -
  show "preserves (recorded_in ticks) (reveal_endpoint sv actor app q)"
    unfolding reveal_endpoint_def by (intro preserve)
  have "preserves (recorded_in ticks) (lifecycle_changed wb case_id q')" for wb
    unfolding lifecycle_changed_def by (auto intro!: preserve split: py_exn.splits)
  then show "preserves (recorded_in ticks) (precedent_lifecycle_endpoint sv actor case_id q')"
    unfolding precedent_lifecycle_endpoint_def by (intro preserve)
qed

lemma maintenance_preserve:
  assumes "agent_wired ticks rt"
  shows "preserves (recorded_in ticks) (run_once (ru_env rt) ops stale_after now)"
proof (rule preservesI)
  fix g r g'
  assume "recorded_in ticks g" and run: "run_once (ru_env rt) ops stale_after now g = (r, g')"
  then have "recorded_in ticks (snd (flag_stale ops (now - stale_after) g))"
    by (auto simp: flag_stale_def split: prod.splits)
  moreover have "preserves (recorded_in ticks) (cleanup_expired (ru_env rt) ops now)"
    unfolding preserves_def agent_wired_audited [OF assms, symmetric] ru_env_def by (rule audited_agent.cleanup_world)
  ultimately show "recorded_in ticks g'"
    using run by (auto simp: run_once_def io_bind_def split: prod.splits sum.splits dest: preservesD)
qed

lemma api_apply_recorded:
  assumes "wired ticks sv" and "recorded_in ticks g"
  shows "recorded_in ticks (api_apply sv q g)"
proof -
  note w = workflow_endpoints_preserve [OF assms(1)] decision_endpoints_preserve [OF assms(1)]
    intake_endpoint_preserve [OF assms(1)] job_endpoints_preserve [OF assms(1)] governance_endpoints_preserve
  have j: "preserves (recorded_in ticks) (cancel_task sv agent job_id)"
    "preserves (recorded_in ticks) (job_status_endpoint sv actor job_id)"
    "preserves (recorded_in ticks) (job_events_endpoint sv actor job_id n)" for agent job_id actor n
    unfolding cancel_task_def job_status_endpoint_def job_events_endpoint_def by (intro preserve w)+
  note [simp] = w [unfolded preserves_def, rule_format, OF assms(2)] j [unfolded preserves_def, rule_format, OF assms(2)]
  show ?thesis
  proof (cases q)
    case (Task t)
    then show ?thesis
      using task_preserve [OF assms(1), unfolded preserves_def, rule_format, OF _ assms(2)] assms(2)
      by (simp split: option.splits)
  next
    case (Maintenance stale_after now)
    then show ?thesis
      using maintenance_preserve [OF wired_agent [OF assms(1)], unfolded preserves_def, rule_format, OF _ assms(2)] assms(2)
      by (simp split: option.splits)
  qed simp_all
qed

lemma api_run_recorded: "wired ticks sv \<Longrightarrow> recorded_in ticks g \<Longrightarrow> recorded_in ticks (api_run sv qs g)"
  unfolding api_run_def by (induction qs arbitrary: g) (simp_all add: api_apply_recorded)

end
