(* ===== verification/FM_Writeback_Props.thy ===== *)
theory FM_Writeback_Props
  imports FM_Writeback FM_Advisory_Props FM_Agent_Props
begin

text \<open>
  What the write-back guarantees: who and what may change precedent memory, that a decided case
  becomes a valid precedent without the borrower's name, that a confirmed write reads back, and
  what it does with the masked suggestion of production.
\<close>

section \<open>Facts\<close>

text \<open>An operation on the world that leaves the vector database alone.\<close>

definition spares_qdrant :: "(('r, 'j, 'q, 'y) memory_world, py_exn, 'a) io \<Rightarrow> bool" where
  "spares_qdrant m \<longleftrightarrow> (\<forall>w. sy_qdrant (wd_ext (snd (m w))) = sy_qdrant (wd_ext w))"

named_theorems spares

lemma spares_bind [spares]:
  assumes "spares_qdrant m" and "\<And>x. spares_qdrant (f x)"
  shows "spares_qdrant (io_bind m f)"
  unfolding spares_qdrant_def
proof
  fix w
  obtain r w' where m: "m w = (r, w')" by (cases "m w")
  with assms(1) have "sy_qdrant (wd_ext w') = sy_qdrant (wd_ext w)" by (auto simp: spares_qdrant_def dest: spec [of _ w])
  with m assms(2) show "sy_qdrant (wd_ext (snd (io_bind m f w))) = sy_qdrant (wd_ext w)"
    by (auto simp: spares_qdrant_def io_bind_def split: sum.splits)
qed

lemma spares_basic [spares]:
  "spares_qdrant (io_ret x)" "spares_qdrant (io_raise e)" "spares_qdrant (io_lift r)" "spares_qdrant (io_ensure b e)"
  "spares_qdrant (clock_now wb)" "spares_qdrant (repo_get ops app)"
  by (auto simp: spares_qdrant_def io_ret_def io_raise_def io_lift_def io_ensure_def clock_now_def repo_get_def
      split: sum.splits)

lemma spares_repo_call [spares]: "spares_qdrant (repo_call ticks f)"
  by (auto simp: spares_qdrant_def repo_call_def split: sum.splits)

lemma spares_outbox [spares]:
  "spares_qdrant (on_systems (outbox_begin on cid app op h))"
  "spares_qdrant (on_systems (outbox_complete on cid r))"
  "spares_qdrant (on_systems (outbox_fail on cid c))"
  by (auto simp: spares_qdrant_def on_systems_def outbox_begin_def outbox_complete_def outbox_fail_def
      split: prod.splits)

definition retrieve_reads :: "'q qdrant \<Rightarrow> bool" where
  "retrieve_reads cl \<longleftrightarrow> (\<forall>collection ids q. snd (qd_retrieve cl collection ids q) = q)"

lemma retrieve_readsD: "retrieve_reads cl \<Longrightarrow> qd_retrieve cl collection ids q = (r, q') \<Longrightarrow> q' = q"
  unfolding retrieve_reads_def by (metis snd_conv)

lemma fetch_case_reads:
  "retrieve_reads (st_client st) \<Longrightarrow> snd (fetch_case st collection point missing q) = q"
  by (auto simp: fetch_case_def io_bind_def io_raise_def io_lift_def
      split: prod.splits sum.splits option.splits dest: retrieve_readsD)

lemma read_confirmed_reads:
  "retrieve_reads (st_client (wb_store wb)) \<Longrightarrow> snd (read_confirmed wb receipt q) = q"
  using fetch_case_reads [of "wb_store wb"]
  by (auto simp: read_confirmed_def io_bind_def io_ret_def io_ensure_def split: prod.splits sum.splits)
    (metis snd_conv)+

lemma spares_read_confirmed:
  assumes "retrieve_reads (st_client (wb_store wb))"
  shows "spares_qdrant (on_qdrant (read_confirmed wb receipt))"
  using read_confirmed_reads [OF assms, of receipt]
  by (auto simp: spares_qdrant_def on_qdrant_def on_systems_def split: prod.splits) (metis snd_conv)

lemma spares_replay:
  assumes "retrieve_reads (st_client (wb_store wb))"
  shows "spares_qdrant (replay_written wb app command actor receipt)"
proof -
  have "spares_qdrant (mark_written wb app command r actor)" for r
    unfolding mark_written_def by (rule spares)
  then show ?thesis
    by (auto simp: replay_written_def split: option.splits intro!: spares spares_read_confirmed [OF assms])
qed

lemma write_decided_Inl: "decided_case wb app command cur = Inl e \<Longrightarrow> write_decided wb app command actor cur = io_raise e"
  by (simp add: write_decided_def)

section \<open>Authority\<close>

lemma decided_case_Inr:
  assumes "decided_case wb app command cur = Inr c"
  obtains d o1 b where "wf_state cur = HUMAN_DECIDED" "wf_decision cur = Some d"
    "wf_version cur = pw_expected_version command" "hr_action d \<noteq> SEND_BACK" "wf_suggestion cur = Some o1"
    "load_bundle wb o1 = Inr b" "ba_application_id (sg_application b) = app"
    "validate_selected_funder b (hr_funder_id d) (hr_overrides d) = Inr ()" "build_case wb b d = Inr c"
  using assms by (auto simp: decided_case_def result_elims split: option.splits)

text \<open>A funder the decision may name: a candidate, or an excluded one whose failed checks are all overridden.\<close>

definition chosen_funder :: "suggestion_bundle \<Rightarrow> string \<Rightarrow> decision_override list \<Rightarrow> bool" where
  "chosen_funder b f overrides \<longleftrightarrow>
     list_ex (\<lambda>c. ca_funder_id c = f) (sg_candidates b) \<or>
     list_ex (\<lambda>x. ex_funder_id x = f \<and>
       list_all (\<lambda>k. criterion_value (ck_criterion k) \<in> set (map ov_criterion overrides)) (ex_failed_checks x))
       (sg_excluded_funders b)"

lemma dict_of_source: "dict_get (dict_of kvs) k = Some v \<Longrightarrow> (k, v) \<in> set kvs"
proof -
  have "dict_get (fold (\<lambda>(k, v). dict_set k v) kvs d) k = Some v \<Longrightarrow> (k, v) \<in> set kvs \<or> dict_get d k = Some v" for d
  proof (induction kvs arbitrary: d)
    case (Cons kv kvs)
    from Cons.IH [of "dict_set (fst kv) (snd kv) d"] Cons.prems show ?case
      by (cases kv) (auto split: if_splits)
  qed simp
  from this [of "[]"] show "dict_get (dict_of kvs) k = Some v \<Longrightarrow> (k, v) \<in> set kvs" by (simp add: dict_of_def)
qed

lemma selected_funder_chosen:
  assumes "validate_selected_funder b funder overrides = Inr ()"
  obtains f where "funder = Some f" "chosen_funder b f overrides"
proof -
  from assms obtain f where f: "funder = Some f" by (cases funder) (auto simp: validate_selected_funder_def)
  have "chosen_funder b f overrides"
  proof (cases "f \<in> set (map ca_funder_id (sg_candidates b))")
    case True
    then show ?thesis by (auto simp: chosen_funder_def list_ex_iff)
  next
    case False
    with assms f obtain x where x: "excluded_by_id b f = Some x" "missing_overrides x overrides = []"
      by (auto simp: validate_selected_funder_def result_elims split: option.splits)
    from dict_of_source [OF x(1) [unfolded excluded_by_id_def]] have "x \<in> set (sg_excluded_funders b)" "ex_funder_id x = f"
      by auto
    with x(2) show ?thesis
      by (auto simp: chosen_funder_def list_ex_iff list_all_iff missing_overrides_def filter_empty_conv)
  qed
  with f show ?thesis by (rule that)
qed


section \<open>The evidence of a precedent\<close>

lemma dict_get_of: "dict_get (dict_of kvs) k = map_of (rev kvs) k"
proof -
  have "dict_get (fold (\<lambda>(k, v). dict_set k v) kvs d) k =
      (case map_of (rev kvs) k of None \<Rightarrow> dict_get d k | Some v \<Rightarrow> Some v)" for d
    by (induction kvs arbitrary: d) (auto simp: map_add_def split: option.splits)
  from this [of "[]"] show ?thesis by (simp add: dict_of_def split: option.splits)
qed

lemma map_of_filter_key: "map_of (filter (\<lambda>p. fst p \<noteq> x) kvs) k = (if k = x then None else map_of kvs k)"
  by (induction kvs) auto

definition nameless :: "evidence_metric list \<Rightarrow> evidence_metric list" where
  "nameless es = filter (\<lambda>e. em_name e \<noteq> Borrower_name) es"

lemma metric_dict_nameless:
  "dict_get (metric_dict (nameless es)) n = (if n = Borrower_name then None else dict_get (metric_dict es) n)"
proof -
  have "map (\<lambda>e. (em_name e, em_value e)) (nameless es) =
      filter (\<lambda>p. fst p \<noteq> Borrower_name) (map (\<lambda>e. (em_name e, em_value e)) es)"
    by (induction es) (simp_all add: nameless_def)
  then show ?thesis
    by (simp add: metric_dict_def dict_get_of map_of_filter_key rev_filter)
qed

lemma evidence_matches_iff:
  "evidence_matches p b i s r es \<longleftrightarrow>
     list_all (\<lambda>n. dict_get (metric_dict es) n \<noteq> None) required_facts \<and>
     (\<forall>n v. dict_get (metric_dict es) n = Some v \<longrightarrow> fact_eq (expected_fact p b i s r n) v)"
proof -
  have "dict_wf (metric_dict es)" by (simp add: metric_dict_def)
  then show ?thesis by (auto simp: evidence_matches_def Let_def list_all_iff dict_get_in_iff)
qed

lemma expected_fact_name: "n \<noteq> Borrower_name \<Longrightarrow> expected_fact p b i s r n = expected_fact p b' i s r n"
  by (cases n) auto

lemma evidence_matches_nameless:
  assumes "evidence_matches p b i s r es"
  shows "evidence_matches p b' i s r (nameless es)"
  using assms expected_fact_name [of _ p b' i s r b]
  by (auto simp: evidence_matches_iff metric_dict_nameless required_facts_def split: if_splits)

lemma evidence_matches_three:
  assumes "evidence_matches p b i s r es"
  shows "3 \<le> length es"
proof -
  have "set required_facts \<subseteq> em_name ` set es"
  proof
    fix n assume "n \<in> set required_facts"
    with assms obtain v where "dict_get (metric_dict es) n = Some v"
      by (auto simp: evidence_matches_iff list_all_iff)
    then show "n \<in> em_name ` set es"
      unfolding metric_dict_def by (auto dest!: dict_of_source)
  qed
  then have "card (set required_facts) \<le> card (em_name ` set es)" by (rule card_mono [rotated]) simp
  also have "\<dots> \<le> length es" by (meson card_image_le card_length finite_set le_trans)
  finally show ?thesis by (simp add: required_facts_def)
qed

lemma masked_evidence_mismatch:
  assumes "evidence_matches p b i s r es" and "Borrower_name \<in> em_name ` set es" and "b' \<noteq> b"
  shows "\<not> evidence_matches p b' i s r es"
proof -
  have "fst ` set (metric_dict es) = em_name ` set es"
    by (simp add: metric_dict_def image_image)
  with assms(2) obtain v where v: "dict_get (metric_dict es) Borrower_name = Some v"
    by (metis map_of_eq_None_iff not_None_eq)
  with assms(1) have "fact_eq (expected_fact p b i s r Borrower_name) v" unfolding evidence_matches_iff by blast
  then have "fact_eq (FText b) v" by simp
  with assms(3) have "\<not> fact_eq (FText b') v" by (cases v) auto
  with v show ?thesis by (auto simp: evidence_matches_iff intro!: exI [of _ Borrower_name])
qed

section \<open>A valid precedent\<close>

lemma loan_type_code: "valid_loan_code (loan_type_value t)"
  by (cases t) (simp_all add: valid_loan_code_def max_items_def is_lower_def is_digit_def)

lemma bundle_application: "validate_bundle b = Inr b' \<Longrightarrow> validate_application (sg_application b) = Inr (sg_application b)"
  by (auto simp: validate_bundle_def validate_application_def validate_evidence_def result_elims split: if_splits)

definition clean_text_ok :: "('r, 'q) writeback \<Rightarrow> string \<Rightarrow> bool" where
  "clean_text_ok wb t \<longleftrightarrow> clean wb t \<noteq> [] \<and> max_items 2000 (clean wb t)"

lemma precedent_case_valid:
  assumes b: "validate_bundle b = Inr b'"
    and conds: "(hr_conditions d \<noteq> []) = (outcome = APPROVED_WITH_CONDITIONS)"
    and app: "valid_case_id (ba_application_id (sg_application b))" and f: "strip f \<noteq> []"
    and texts: "list_all (clean_text_ok wb)
      [ba_finance_context (sg_application b), ba_operations_context (sg_application b), hr_reason d]"
    and hash: "list_all hex_sha256 (case wb_policy_hash wb of None \<Rightarrow> [] | Some h \<Rightarrow> [h])"
    and days: "list_all (\<lambda>n. 0 < n) (case wb_validity_days wb of None \<Rightarrow> [] | Some n \<Rightarrow> [n])"
  shows "validate_case (precedent_case wb (sg_application b) d outcome f) =
    Inr (precedent_case wb (sg_application b) d outcome f)"
proof -
  let ?a = "sg_application b"
  have a: "application_fields_ok ?a" "evidence_matches (ba_profile ?a) (ba_borrower_name ?a) (ba_industry ?a)
      (ba_sub_industry ?a) (ba_region ?a) (ba_evidence ?a)"
    using bundle_application [OF b]
    by (auto simp: validate_application_def validate_evidence_def result_elims split: if_splits)
  note m = evidence_matches_nameless [OF a(2), of "masked_name (wb_sha256 wb) (ba_application_id ?a)", unfolded nameless_def]
  have "3 \<le> length (filter (\<lambda>e. em_name e \<noteq> Borrower_name) (ba_evidence ?a))"
    by (rule evidence_matches_three [OF m])
  moreover have "length (filter (\<lambda>e. em_name e \<noteq> Borrower_name) (ba_evidence ?a)) \<le> 20"
    using a(1) by (simp add: application_fields_ok_def le_trans [OF length_filter_le])
  moreover have "list_all valid_metric (filter (\<lambda>e. em_name e \<noteq> Borrower_name) (ba_evidence ?a))"
    using a(1) by (simp add: application_fields_ok_def list_all_iff)
  moreover have "masked_name (wb_sha256 wb) (ba_application_id ?a) \<noteq> []" by (simp add: masked_name_def)
  ultimately have fields: "case_fields_ok (precedent_case wb ?a d outcome f)"
    using a(1) app f texts hash
    by (auto simp: case_fields_ok_def precedent_case_def application_fields_ok_def loan_type_code clean_text_ok_def
        split: option.splits)
  have "hr_decided_at d < hr_decided_at d + n * seconds_per_day" if "wb_validity_days wb = Some n" for n
    using days that by (simp add: seconds_per_day_def)
  then show ?thesis
    using fields m conds
    by (auto simp: validate_case_def validate_decision_conditions_def validate_internal_consistency_def
        precedent_case_def split: option.splits)
qed

lemma precedent_case_needs:
  assumes "validate_case (precedent_case wb a d outcome f) = Inr c"
  shows "valid_case_id (ba_application_id a)" and "strip f \<noteq> []"
    and "list_all (clean_text_ok wb) [ba_finance_context a, ba_operations_context a, hr_reason d]"
    and "list_all hex_sha256 (case wb_policy_hash wb of None \<Rightarrow> [] | Some h \<Rightarrow> [h])"
    and "list_all (\<lambda>n. 0 < n) (case wb_validity_days wb of None \<Rightarrow> [] | Some n \<Rightarrow> [n])"
proof -
  from assms have fields: "case_fields_ok (precedent_case wb a d outcome f)"
    by (auto simp: validate_case_def result_elims)
  from fields show "valid_case_id (ba_application_id a)" "strip f \<noteq> []"
    "list_all (clean_text_ok wb) [ba_finance_context a, ba_operations_context a, hr_reason d]"
    "list_all hex_sha256 (case wb_policy_hash wb of None \<Rightarrow> [] | Some h \<Rightarrow> [h])"
    by (simp_all add: case_fields_ok_def precedent_case_def clean_text_ok_def split: option.splits)
  from assms show "list_all (\<lambda>n. 0 < n) (case wb_validity_days wb of None \<Rightarrow> [] | Some n \<Rightarrow> [n])"
    by (auto simp: validate_case_def validate_internal_consistency_def result_elims precedent_case_def
        seconds_per_day_def split: if_splits option.splits)
qed

text \<open>With a valid bundle only the fields and the validity can be refused.\<close>

lemma precedent_case_errors:
  assumes "validate_bundle b = Inr b'" and "(hr_conditions d \<noteq> []) = (outcome = APPROVED_WITH_CONDITIONS)"
    and "validate_case (precedent_case wb (sg_application b) d outcome f) = Inl e"
  shows "e = ''validation error'' \<or> e = ''precedent validity must extend beyond its human decision''"
proof -
  let ?a = "sg_application b"
  have "evidence_matches (ba_profile ?a) (ba_borrower_name ?a) (ba_industry ?a) (ba_sub_industry ?a) (ba_region ?a)
      (ba_evidence ?a)"
    using bundle_application [OF assms(1)]
    by (auto simp: validate_application_def validate_evidence_def result_elims split: if_splits)
  note m = evidence_matches_nameless [OF this, of "masked_name (wb_sha256 wb) (ba_application_id ?a)", unfolded nameless_def]
  let ?c = "precedent_case wb ?a d outcome f"
  have "is_ok (validate_decision_conditions (dc_decision ?c))"
    using assms(2) by (auto simp: validate_decision_conditions_def precedent_case_def)
  with assms(3) have "e = ''validation error'' \<or> validate_internal_consistency ?c = Inl e"
    by (cases "case_fields_ok ?c") (auto simp: validate_case_def is_ok_iff)
  with m show ?thesis
    by (auto simp: validate_internal_consistency_def precedent_case_def split: if_splits)
qed

section \<open>A small memory\<close>

text \<open>
  A database that holds the last upsert under the identifier of each point, and a case that the
  service took from intake to an approval of an excluded funder whose failed check is overridden.
\<close>

type_synonym demo_db = "(uuid \<times> json_object) list"

definition demo_qdrant :: "demo_db qdrant" where
  "demo_qdrant = \<lparr>qd_exists = (\<lambda>_ q. (Inr True, q)), qd_delete_collection = (\<lambda>_ q. (Inr (), [])),
     qd_create_collection = (\<lambda>_ _ q. (Inr (), q)),
     qd_upsert = (\<lambda>_ points q. (Inr (), map (\<lambda>p. (vp_id p, vp_payload p)) points @ q)),
     qd_retrieve = (\<lambda>_ ids q. (Inr (map (\<lambda>i. dict_get q i) ids), q)),
     qd_set_payload = (\<lambda>_ _ _ _ q. (Inr (), q))\<rparr>"

definition demo_case_store :: "decided_loan_case \<Rightarrow> demo_db store" where
  "demo_case_store c = \<lparr>st_client = demo_qdrant, st_collection = ''precedents'', st_uuid5 = (\<lambda>s. s),
     st_dump = (\<lambda>_. [(''k'', JNull)]), st_parse = (\<lambda>_. Some c)\<rparr>"

definition demo_embedder :: precedent_embedder where
  "demo_embedder = \<lparr>eb_vector_size = 1, eb_profiles = (\<lambda>cs. Inr (map (\<lambda>_. [0]) cs)),
     eb_comments = (\<lambda>cs. Inr (map (\<lambda>_. [0]) cs))\<rparr>"

definition demo_writeback :: "decided_loan_case \<Rightarrow> suggestion_bundle \<Rightarrow> (postgres_repo, demo_db) writeback" where
  "demo_writeback c b = \<lparr>wb_repo = postgres_ops, wb_tick = demo_tick, wb_store = demo_case_store c,
     wb_embedder = demo_embedder, wb_policy_hash = None, wb_validity_days = Some 30, wb_outbox = True,
     wb_sha256 = sample_hash, wb_redact = (\<lambda>t. t), wb_canonical = (\<lambda>_. ''c''), wb_parse_bundle = (\<lambda>_. Some b),
     wb_receipt_json = (\<lambda>_. [])\<rparr>"

definition plain_bundle :: "borrower_application \<Rightarrow> suggestion_bundle" where
  "plain_bundle a = \<lparr>sg_authority = ''advisory_only'', sg_requires_human_decision = True, sg_advisory_notice = ''n'',
     sg_application = a, sg_candidates = [],
     sg_excluded_funders = [\<lparr>ex_funder_id = ''f1'', ex_display_name = ''F'',
       ex_failed_checks = [\<lparr>ck_criterion = C_dscr, ck_passed = False, ck_actual = ''1'', ck_requirement = ''2''\<rparr>]\<rparr>],
     sg_claims = []\<rparr>"

definition dscr_override :: decision_override where
  "dscr_override = \<lparr>ov_criterion = ''dscr'', ov_original_result = ''failed'', ov_justification = ''j''\<rparr>"

definition approved_session :: "(service_command \<times> tick) list" where
  "approved_session = take 5 demo_session @
     [(Decide ''app-1'' \<lparr>hc_command_id = ''c5'', hc_expected_version = 4, hc_action = APPROVE, hc_funder_id = Some ''f1'',
         hc_reason = ''r'', hc_conditions = [], hc_overrides = [dscr_override], hc_restart_stage = None\<rparr> demo_human,
       plain_tick ''s5'')]"

definition approved_world :: "(postgres_repo, unit, demo_db, unit) memory_world" where
  "approved_world = \<lparr>wd_fs = demo_files, wd_repo = service_run pg_create pg_transition approved_session pg_empty,
     wd_ext = \<lparr>sy_jobs = (), sy_bound = [], sy_outbox = [], sy_reveals = [], sy_lifecycle = [],
       sy_tombstones = [], sy_qdrant = [], sy_rest = ()\<rparr>, wd_ticks = 0\<rparr>"

definition write_command :: precedent_write_command where
  "write_command = \<lparr>pw_command_id = ''c6'', pw_expected_version = 5, pw_reason = ''r''\<rparr>"

definition approval :: human_decision_record where
  "approval = \<lparr>hr_action = APPROVE, hr_funder_id = Some ''f1'', hr_reason = ''r'', hr_conditions = [],
     hr_overrides = [dscr_override], hr_actor_id = ''r'', hr_actor_display_name = ''r'', hr_decided_at = 1\<rparr>"

lemma demo_retrieve_reads: "retrieve_reads (st_client (wb_store (demo_writeback c b)))"
  by (simp add: retrieve_reads_def demo_writeback_def demo_case_store_def demo_qdrant_def)

definition approved_case :: decided_loan_case where
  "approved_case = precedent_case (demo_writeback sample_precedent (plain_bundle sample_application)) sample_application approval APPROVED ''f1''"

definition approved_service :: "(postgres_repo, demo_db) writeback" where
  "approved_service = demo_writeback approved_case (plain_bundle sample_application)"

definition approved_write :: "(py_exn + writeback_result) \<times> (postgres_repo, unit, demo_db, unit) memory_world" where
  "approved_write = write_precedent approved_service ''app-1'' write_command demo_actor approved_world"

lemma approved_write_check: "case approved_write of (r, w) \<Rightarrow> is_ok r \<and> sy_qdrant (wd_ext w) \<noteq> []"
  by code_simp

lemma approved_write_ok: "is_ok (fst approved_write)" "sy_qdrant (wd_ext (snd approved_write)) \<noteq> []"
  using approved_write_check unfolding case_prod_unfold by auto

section \<open>Properties\<close>

text \<open>
  C6. A write-back needs authority: when a call of the write-back changes the vector database, the
  actor is the pipeline, the case was decided by a human with an action other than send-back, the
  version is the one the command was reviewed at, the suggestion is a valid bundle of this very
  application, and the funder is one of its candidates or an excluded one whose every failed check
  the human overrode by name. (The lifecycle endpoint, which changes the status of a stored precedent
  for a human reviewer, is not a write-back.)
\<close>

theorem precedent_needs_authority:
  assumes "retrieve_reads (st_client (wb_store wb))"
    and "sy_qdrant (wd_ext (snd (write_precedent wb app command actor w))) \<noteq> sy_qdrant (wd_ext w)"
  shows "PIPELINE \<in> ac_roles actor \<and> (\<exists>cur d o1 b f. rp_get (wb_repo wb) app (wd_repo w) = Inr cur \<and>
    wf_state cur = HUMAN_DECIDED \<and> wf_version cur = pw_expected_version command \<and> wf_decision cur = Some d \<and>
    hr_action d \<noteq> SEND_BACK \<and> wf_suggestion cur = Some o1 \<and> load_bundle wb o1 = Inr b \<and>
    ba_application_id (sg_application b) = app \<and> hr_funder_id d = Some f \<and> chosen_funder b f (hr_overrides d))"
proof -
  let ?changed = "\<lambda>m. sy_qdrant (wd_ext (snd (m w))) \<noteq> sy_qdrant (wd_ext w)"
  have role: "PIPELINE \<in> ac_roles actor"
    using assms(2) by (cases "PIPELINE \<in> ac_roles actor") (auto simp: write_precedent_def io_raise_def)
  obtain cur where cur: "rp_get (wb_repo wb) app (wd_repo w) = Inr cur"
  proof (cases "rp_get (wb_repo wb) app (wd_repo w)")
    case (Inl e)
    with assms(2) role show ?thesis by (simp add: write_precedent_def io_bind_def repo_get_def)
  qed blast
  then have known: "?changed (write_known wb app command actor cur)"
    using assms(2) role by (simp add: write_precedent_def io_bind_def repo_get_def)
  have "\<not> ?changed (replay_written wb app command actor (wf_precedent_receipt cur))"
    by (simp add: spares_replay [OF assms(1), unfolded spares_qdrant_def, rule_format])
  with known have "?changed (write_decided wb app command actor cur)" by (auto simp: write_known_def split: if_splits)
  then obtain c where "decided_case wb app command cur = Inr c"
    by (cases "decided_case wb app command cur") (auto simp: write_decided_Inl io_raise_def)
  then show ?thesis
    using role cur by (elim decided_case_Inr selected_funder_chosen) auto
qed

theorem precedent_needs_authority_witness:
  "PIPELINE \<in> ac_roles demo_actor \<and> (\<exists>cur d. pg_get ''app-1'' (wd_repo approved_world) = Inr cur \<and>
     wf_decision cur = Some d \<and> hr_action d \<noteq> SEND_BACK)"
proof -
  have "sy_qdrant (wd_ext (snd (write_precedent approved_service ''app-1'' write_command demo_actor approved_world)))
      \<noteq> sy_qdrant (wd_ext approved_world)"
    using approved_write_ok(2) by (simp add: approved_write_def approved_world_def)
  from precedent_needs_authority [OF demo_retrieve_reads this [unfolded approved_service_def]]
  show ?thesis by (auto simp: demo_writeback_def postgres_ops_def)
qed

text \<open>
  C11. When a decided case becomes a precedent: for a valid bundle and a final decision for a funder,
  with conditions exactly when it approves with conditions, the write-back can build the precedent
  if and only if the application id is a case id, the funder is not blank, the two contexts and the
  reason are neither blank nor over 2000 characters after redaction, and a configured policy hash
  and validity are a digest and positive; a reason of white space only is therefore refused. The
  case built passes every validator, is retrievable when it is decided, carries the human's outcome
  and funder, and has the masked name for the borrower and no evidence that cites the name. The
  contexts and the reason are redacted by pattern, which does not look for the name.
\<close>

theorem decided_case_is_valid_precedent:
  assumes "validate_bundle b = Inr b'" and "outcome_of (hr_action d) = Some outcome"
    and "(hr_conditions d \<noteq> []) = (hr_action d = APPROVE_WITH_CONDITIONS)" and "hr_funder_id d = Some f"
  shows "(is_ok (build_case wb b d) \<longleftrightarrow>
      valid_case_id (ba_application_id (sg_application b)) \<and> strip f \<noteq> [] \<and>
      list_all (clean_text_ok wb)
        [ba_finance_context (sg_application b), ba_operations_context (sg_application b), hr_reason d] \<and>
      list_all hex_sha256 (case wb_policy_hash wb of None \<Rightarrow> [] | Some h \<Rightarrow> [h]) \<and>
      list_all (\<lambda>n. 0 < n) (case wb_validity_days wb of None \<Rightarrow> [] | Some n \<Rightarrow> [n])) \<and>
    (case build_case wb b d of
       Inl e \<Rightarrow> e = ValueError ''validation error'' \<or>
         e = ValueError ''precedent validity must extend beyond its human decision''
     | Inr c \<Rightarrow> validate_case c = Inr c \<and> is_retrievable c (hr_decided_at d) \<and>
         dc_case_id c = ba_application_id (sg_application b) \<and> hd_outcome (dc_decision c) = outcome \<and>
         hd_funder_id (dc_decision c) = strip f \<and>
         dc_borrower_name c = masked_name (wb_sha256 wb) (ba_application_id (sg_application b)) \<and>
         dc_evidence c = nameless (ba_evidence (sg_application b)))"
proof -
  let ?c = "precedent_case wb (sg_application b) d outcome f"
  have conds: "(hr_conditions d \<noteq> []) = (outcome = APPROVED_WITH_CONDITIONS)"
    using assms(2,3) by (cases "hr_action d") auto
  have build: "build_case wb b d = raising_value (validate_case ?c)"
    using assms(2,4) by (simp add: build_case_def)
  have "is_retrievable ?c (hr_decided_at d)" if "validate_case ?c = Inr ?c"
    using precedent_case_needs(5) [OF that]
    by (simp add: is_retrievable_def precedent_case_def seconds_per_day_def split: option.splits)
  then show ?thesis
    unfolding build
    using precedent_case_valid [OF assms(1) conds] precedent_case_needs [of wb "sg_application b" d outcome f]
      precedent_case_errors [OF assms(1) conds, of wb f]
    by (cases "validate_case ?c")
      (auto simp: raising_value_def dest: validate_case_id simp: precedent_case_def nameless_def)
qed

definition named_metric :: evidence_metric where
  "named_metric = (sample_metric Borrower_name 0)\<lparr>em_value := FText ''b''\<rparr>"

definition named_application :: borrower_application where
  "named_application = sample_application\<lparr>ba_evidence := ba_evidence sample_application @ [named_metric]\<rparr>"

lemma named_bundle_ok: "is_ok (validate_bundle (plain_bundle named_application))"
  by code_simp

theorem decided_case_is_valid_precedent_witness:
  "map_sum id (map em_name \<circ> dc_evidence) (build_case approved_service (plain_bundle named_application) approval) =
     Inr [Annual_revenue_crore, Ebitda_margin_pct, Dscr]"
proof -
  obtain b' where "validate_bundle (plain_bundle named_application) = Inr b'"
    using named_bundle_ok by (auto simp: is_ok_iff)
  then have main: "(is_ok (build_case approved_service (plain_bundle named_application) approval) \<longleftrightarrow>
      valid_case_id ''app-1'' \<and> strip ''f1'' \<noteq> [] \<and> list_all (clean_text_ok approved_service) [''f'', ''o'', ''r''] \<and>
      list_all hex_sha256 [] \<and> list_all (\<lambda>n. 0 < n) [30 :: int]) \<and>
    (case build_case approved_service (plain_bundle named_application) approval of
       Inl e \<Rightarrow> True | Inr c \<Rightarrow> dc_evidence c = nameless (ba_evidence named_application))"
    using decided_case_is_valid_precedent [of "plain_bundle named_application" b' approval APPROVED "''f1''" approved_service]
    by (auto simp: approval_def approved_service_def demo_writeback_def plain_bundle_def named_application_def
        sample_application_def split: sum.splits)
  then have "is_ok (build_case approved_service (plain_bundle named_application) approval)"
    by (simp add: strip_def is_space_def valid_case_id_def is_alnum_def id_tail_char_def is_digit_def
        max_items_def clean_text_ok_def clean_def approved_service_def demo_writeback_def)
  with main obtain c where "build_case approved_service (plain_bundle named_application) approval = Inr c"
    "dc_evidence c = nameless (ba_evidence named_application)" by (auto simp: is_ok_iff)
  then show ?thesis
    by (simp add: nameless_def named_application_def sample_application_def named_metric_def sample_metric_def)
qed

text \<open>
  C14. A confirmed write reads back: whenever the write-back returns, on a first write and on a
  replay alike, the receipt it handed to the workflow resolves in the final database, under the
  recorded hash, to the very precedent it returned.
\<close>

lemma fetch_again:
  assumes "retrieve_reads (st_client st)" and "fetch_case st collection point missing q = (Inr c, q')"
  shows "fetch_case st collection point missing' q' = (Inr c, q')"
proof -
  have same: "q' = q" using fetch_case_reads [OF assms(1), of collection point missing q] assms(2) by simp
  obtain records q1 where r: "qd_retrieve (st_client st) collection [point] q = (records, q1)" by fastforce
  with assms(1) have "q1 = q" by (auto dest: retrieve_readsD)
  with r assms(2) same show ?thesis
    by (auto simp: fetch_case_def io_bind_def io_raise_def split: sum.splits option.splits)
qed

lemma write_one_stored:
  assumes "retrieve_reads (st_client st)" and "write_one st eb c q = (Inr stored, q')"
  shows "stored = c \<and> fetch_case st (st_collection st) (point_id st (dc_case_id c)) missing q' = (Inr c, q')"
  using assms by (auto simp: write_one_def io_elims dest: fetch_again)

lemma confirmed_write_Inr:
  assumes "confirmed_write wb command c w = (Inr stored, w')"
  shows "write_one (wb_store wb) (wb_embedder wb) c (sy_qdrant (wd_ext w)) = (Inr stored, sy_qdrant (wd_ext w'))"
  using assms
  by (auto simp: confirmed_write_def io_catch_def on_qdrant_def on_systems_def io_bind_def outbox_fail_def io_raise_def
      split: prod.splits sum.splits)

lemma read_back_receipt:
  assumes "retrieve_reads (st_client (wb_store wb))"
    and "write_one (wb_store wb) (wb_embedder wb) c q = (Inr stored, q')"
  shows "fst (read_confirmed wb (make_receipt_of wb stored now) q') = Inr stored"
  using write_one_stored [OF assms]
  by (simp add: read_confirmed_def make_receipt_of_def io_bind_def io_ret_def)

lemma spares_same: "spares_qdrant m \<Longrightarrow> m w = (r, w') \<Longrightarrow> sy_qdrant (wd_ext w') = sy_qdrant (wd_ext w)"
  unfolding spares_qdrant_def by (metis snd_conv)

lemma write_decided_reads_back:
  fixes w w' :: "('r, 'j, 'q, 'y) memory_world"
  assumes "retrieve_reads (st_client (wb_store wb))"
    and "write_decided wb app command actor cur w = (Inr res, w')"
  shows "\<exists>receipt (v :: ('r, 'j, 'q, 'y) memory_world). fst (mark_written wb app command receipt actor v) = Inr (wr_transition res) \<and>
    fst (read_confirmed wb receipt (sy_qdrant (wd_ext w'))) = Inr (wr_precedent res)"
proof -
  from assms(2) obtain c stored now t w1 w2 w3 w4 where
    "confirmed_write wb command c w1 = (Inr stored, w2)"
    "on_systems (outbox_complete (wb_outbox wb) (pw_command_id command)
       (wb_receipt_json wb (make_receipt_of wb stored now))) w3 = (Inr (), w4)"
    "clock_now wb w2 = (Inr now, w3)"
    "mark_written wb app command (make_receipt_of wb stored now) actor w4 = (Inr t, w')"
    "res = \<lparr>wr_transition = t, wr_precedent = stored\<rparr>"
    by (auto simp: write_decided_def Let_def io_elims)
  moreover from this have "sy_qdrant (wd_ext w') = sy_qdrant (wd_ext w2)"
    using spares_same [OF spares_basic(5)] spares_same [OF spares_outbox(2)]
      spares_same [OF spares_repo_call] unfolding mark_written_def by metis
  ultimately show ?thesis
    using read_back_receipt [OF assms(1) confirmed_write_Inr, of command c w1 stored w2 now]
    by (intro exI [of _ "make_receipt_of wb stored now"] exI [of _ w4]) simp
qed

theorem confirmed_write_reads_back:
  fixes w w' :: "('r, 'j, 'q, 'y) memory_world"
  assumes "retrieve_reads (st_client (wb_store wb))"
    and "write_precedent wb app command actor w = (Inr res, w')"
  shows "\<exists>receipt (v :: ('r, 'j, 'q, 'y) memory_world). fst (mark_written wb app command receipt actor v) = Inr (wr_transition res) \<and>
    fst (read_confirmed wb receipt (sy_qdrant (wd_ext w'))) = Inr (wr_precedent res)"
proof -
  from assms(2) obtain cur v where known: "write_known wb app command actor cur v = (Inr res, w')"
    by (auto simp: write_precedent_def io_elims)
  show ?thesis
  proof (cases "wf_state cur = PRECEDENT_WRITTEN")
    case True
    with known obtain receipt t v' where
      r: "mark_written wb app command receipt actor v = (Inr t, v')" "wr_transition res = t"
        "on_qdrant (read_confirmed wb receipt) v' = (Inr (wr_precedent res), w')"
      by (auto simp: write_known_def replay_written_def io_elims split: option.splits)
    have "sy_qdrant (wd_ext w') = sy_qdrant (wd_ext v')"
      by (rule spares_same [OF spares_read_confirmed [OF assms(1)] r(3)])
    moreover have "fst (read_confirmed wb receipt (sy_qdrant (wd_ext v'))) = Inr (wr_precedent res)"
      using r(3) by (auto simp: on_qdrant_def on_systems_def split: prod.splits)
    ultimately show ?thesis
      using r by (intro exI [of _ receipt] exI [of _ v]) simp
  next
    case False
    with known write_decided_reads_back [OF assms(1)] show ?thesis by (simp add: write_known_def)
  qed
qed

theorem confirmed_write_reads_back_witness:
  "\<exists>receipt. is_ok (fst (read_confirmed approved_service receipt (sy_qdrant (wd_ext (snd approved_write)))))"
proof -
  obtain res w' where w: "approved_write = (Inr res, w')"
    using approved_write_ok(1) by (auto simp: is_ok_iff) (metis prod.collapse)
  from confirmed_write_reads_back [OF demo_retrieve_reads w [unfolded approved_write_def approved_service_def]]
  show ?thesis by (auto simp: w approved_service_def is_ok_iff)
qed

text \<open>
  C36. The masked suggestion of production can never become a precedent: the suggestion worker masks
  the borrower's name in the application but leaves the evidence that cites it, so the stored
  bundle fails its own validation and every write-back of the decided case fails without effect.
\<close>

theorem masked_suggestion_never_written:
  assumes "dp_production d" and "validate_bundle b = Inr b'"
    and "Borrower_name \<in> em_name ` set (ba_evidence (sg_application b))"
    and "ba_borrower_name (sg_application b) \<noteq> masked_name (dp_sha256 d) app"
    and "rp_get (wb_repo wb) app (wd_repo w) = Inr cur" and "wf_state cur \<noteq> PRECEDENT_WRITTEN"
    and "wf_suggestion cur = Some (dp_bundle_json d (persisted_suggestion d app b))"
    and "wb_parse_bundle wb (dp_bundle_json d (persisted_suggestion d app b)) = Some (persisted_suggestion d app b)"
  shows "\<exists>e. write_precedent wb app command actor w = (Inl e, w)"
proof -
  let ?m = "persisted_suggestion d app b" and ?a = "sg_application b"
  have "evidence_matches (ba_profile ?a) (ba_borrower_name ?a) (ba_industry ?a) (ba_sub_industry ?a) (ba_region ?a) (ba_evidence ?a)"
    using bundle_application [OF assms(2)]
    by (auto simp: validate_application_def validate_evidence_def result_elims split: if_splits)
  from masked_evidence_mismatch [OF this assms(3)] assms(4)
  have "\<not> is_ok (validate_application (sg_application ?m))"
    by (auto simp: assms(1) persisted_suggestion_def mask_application_def validate_application_def validate_evidence_def
        is_ok_iff result_elims)
  then have "\<not> is_ok (load_bundle wb (dp_bundle_json d ?m))"
    by (auto simp: load_bundle_def assms(8) is_ok_iff result_elims validate_bundle_def)
  then obtain e where "decided_case wb app command cur = Inl e"
    using assms(7) by (cases "decided_case wb app command cur") (auto elim!: decided_case_Inr)
  then show ?thesis
    using assms(5,6)
    by (simp add: write_precedent_def write_known_def write_decided_Inl io_bind_def io_ensure_def repo_get_def io_raise_def)
qed

text \<open>The approved case, had its suggestion been stored by a production worker.\<close>

definition production_deps :: "(postgres_repo, unit) deps" where
  "production_deps = demo_deps\<lparr>dp_production := True\<rparr>"

definition masked_bundle :: suggestion_bundle where
  "masked_bundle = persisted_suggestion production_deps ''app-1'' (plain_bundle named_application)"

lemma approved_world_case:
  "case rp_get postgres_ops ''app-1'' (wd_repo approved_world) of
     Inl _ \<Rightarrow> False
   | Inr cur \<Rightarrow> wf_state cur = HUMAN_DECIDED \<and> wf_suggestion cur = Some [(''k'', JNull)]"
  by code_simp

theorem masked_suggestion_never_written_witness:
  "\<not> is_ok (fst (write_precedent (demo_writeback approved_case masked_bundle) ''app-1'' write_command demo_actor approved_world))"
proof -
  obtain b' where b: "validate_bundle (plain_bundle named_application) = Inr b'"
    using named_bundle_ok by (auto simp: is_ok_iff)
  obtain cur where cur: "rp_get postgres_ops ''app-1'' (wd_repo approved_world) = Inr cur"
    "wf_state cur = HUMAN_DECIDED" "wf_suggestion cur = Some [(''k'', JNull)]"
    using approved_world_case by (auto split: sum.splits)
  have "\<exists>e. write_precedent (demo_writeback approved_case masked_bundle) ''app-1'' write_command demo_actor approved_world =
      (Inl e, approved_world)"
    by (rule masked_suggestion_never_written [OF _ b, of production_deps "''app-1''" _ approved_world cur])
      (simp_all add: cur production_deps_def demo_deps_def demo_writeback_def masked_bundle_def plain_bundle_def
        named_application_def sample_application_def named_metric_def sample_metric_def masked_name_def)
  then show ?thesis by auto
qed

end
