(* ===== verification/FM_Governance_Props.thy ===== *)
theory FM_Governance_Props
  imports FM_API_Facts FM_Writeback_Props
begin

text \<open>
  The governance operations: what a retention cleanup deletes and how often it asks the
  extraction service, and what becomes of a reveal request and of a second change in the
  lifecycle of a precedent.
\<close>

section \<open>Retention\<close>

lemma outbox_insert_row:
  assumes "outbox_insert cid app op h rows = (r, rows')"
  shows "outbox_row_of cid rows' = Some r" and "ob_command_id r = cid"
proof -
  show "outbox_row_of cid rows' = Some r"
    using assms by (auto simp: outbox_insert_def outbox_row_of_def Let_def find_append split: option.splits)
  then show "ob_command_id r = cid" by (auto simp: outbox_row_of_def find_Some_iff)
qed

lemma outbox_row_update:
  assumes "\<And>r. ob_command_id (f r) = ob_command_id r"
  shows "outbox_row_of cid (outbox_update cid f rows) = map_option f (outbox_row_of cid rows)"
  by (induction rows) (auto simp: outbox_row_of_def outbox_update_def assms)

lemma outbox_insert_again: "outbox_row_of cid rows = Some r \<Longrightarrow> outbox_insert cid app op h rows = (r, rows)"
  by (simp add: outbox_insert_def)

text \<open>The files of an application: those below its folder.\<close>

definition files_below :: "path \<Rightarrow> filesystem \<Rightarrow> (path \<times> stored) list" where
  "files_below folder fs = filter (\<lambda>(p, _). prefix folder p) (fs_files fs)"

definition files_elsewhere :: "path \<Rightarrow> filesystem \<Rightarrow> (path \<times> stored) list" where
  "files_elsewhere folder fs = filter (\<lambda>(p, _). \<not> prefix folder p) (fs_files fs)"

lemma delete_application_Inr:
  assumes "delete_application ws app fs = (Inr b, fs')"
  obtains folder where "app_folder ws app = Inr folder" "folder \<notin> set (fs_dirs fs')"
    "folder \<in> set (fs_dirs fs) \<Longrightarrow> files_below folder fs' = []" "files_elsewhere folder fs' = files_elsewhere folder fs"
  using assms
  by (fastforce simp: delete_application_def io_elims ws_modify_def ws_read_def remove_tree_def files_below_def
      files_elsewhere_def filter_empty_conv split: if_splits)

text \<open>The tombstones of an application and those of all others.\<close>

definition tombstones_of :: "app_id \<Rightarrow> ('j, 'q, 'y) systems \<Rightarrow> tombstone list" where
  "tombstones_of app x = filter (\<lambda>t. ts_application_id t = app) (sy_tombstones x)"

definition other_tombstones :: "app_id \<Rightarrow> ('j, 'q, 'y) systems \<Rightarrow> tombstone list" where
  "other_tombstones app x = filter (\<lambda>t. ts_application_id t \<noteq> app) (sy_tombstones x)"

lemma add_tombstone_counts:
  assumes "sy_tombstones x' = sy_tombstones (snd (add_tombstone t x))" and "ts_application_id t = app"
  shows "length (tombstones_of app x') = max 1 (length (tombstones_of app x))"
    and "other_tombstones app x' = other_tombstones app x"
proof -
  have "tombstones_of app x = [] \<longleftrightarrow> \<not> list_ex (\<lambda>u. ts_application_id u = app) (sy_tombstones x)"
    by (auto simp: tombstones_of_def filter_empty_conv list_ex_iff)
  with assms show "length (tombstones_of app x') = max 1 (length (tombstones_of app x))"
    by (cases "tombstones_of app x") (auto simp: tombstones_of_def add_tombstone_def)
  from assms show "other_tombstones app x' = other_tombstones app x"
    by (auto simp: other_tombstones_def add_tombstone_def)
qed

text \<open>A cleanup whose command is completed deletes the files again and asks nobody.\<close>

lemma retention_again:
  assumes "outbox_row_of (retention_command rd app) (sy_outbox x) = Some r"
    and "same_effect app retention_operation (retention_payload rd app) r" and "ob_status r = Outbox_Completed"
  shows "retention_cleanup rd app (fs, x) =
    (case delete_application (rd_workspace rd) app fs of
       (Inl e, fs') \<Rightarrow> (Inl e, fs', x) | (Inr _, fs') \<Rightarrow> (Inr (), fs', x))"
  using assms outbox_insert_again [OF assms(1)]
  by (auto simp: retention_cleanup_def io_bind_def cleanup_systems_def claim_retention_def cleanup_files_def
      io_ret_def split: prod.splits sum.splits)

lemma delete_everywhere_Inr:
  assumes "delete_everywhere rd app (fs, x) = (Inr receipt, fs', x')"
  shows "\<exists>b. delete_application (rd_workspace rd) app fs = (Inr b, fs')" and "sy_outbox x' = sy_outbox x"
    and "sy_tombstones x' = sy_tombstones x"
  using assms
  by (auto simp: delete_everywhere_def io_catch_def io_bind_def io_ret_def io_raise_def cleanup_systems_def
      cleanup_files_def in_rest_def put_outbox_def split: prod.splits sum.splits)

lemma retention_first:
  assumes run: "retention_cleanup rd app (fs, x) = (Inr (), fs', x')"
    and ins: "outbox_insert (retention_command rd app) app retention_operation (retention_payload rd app) (sy_outbox x) = (row, rows)"
    and "ob_status row \<noteq> Outbox_Completed"
  shows "(\<exists>b. delete_application (rd_workspace rd) app fs = (Inr b, fs')) \<and>
    (\<exists>receipt. sy_outbox x' = outbox_update (retention_command rd app) (outbox_completed receipt) rows) \<and>
    length (tombstones_of app x') = max 1 (length (tombstones_of app x)) \<and>
    other_tombstones app x' = other_tombstones app x"
proof -
  let ?x = "x\<lparr>sy_outbox := rows\<rparr>"
  have claim: "cleanup_systems (claim_retention rd app) (fs, x) = (Inr row, fs, ?x)"
    by (simp add: cleanup_systems_def claim_retention_def ins)
  obtain receipt fs1 x1 where d: "delete_everywhere rd app (fs, ?x) = (Inr receipt, fs1, x1)"
    using run assms(3) by (auto simp: retention_cleanup_def io_elims claim)
  have same: "same_effect app retention_operation (retention_payload rd app) row"
    using run by (auto simp: retention_cleanup_def io_elims claim)
  from d have x': "fs' = fs1" "x' = snd (add_tombstone \<lparr>ts_application_id = app, ts_policy_hash = rd_policy_hash rd,
      ts_receipt = rdr_receipt_sha256 receipt, ts_payload = retention_payload rd app\<rparr>
      (snd (put_outbox (outbox_update (retention_command rd app) (outbox_completed (retention_json receipt))) x1)))"
    using run assms(3) same claim
    by (simp_all add: retention_cleanup_def io_bind_def io_ensure_def cleanup_systems_def put_outbox_def add_tombstone_def
        split: if_splits)
  let ?x2 = "snd (put_outbox (outbox_update (retention_command rd app) (outbox_completed (retention_json receipt))) x1)"
  have old: "tombstones_of app ?x2 = tombstones_of app x" "other_tombstones app ?x2 = other_tombstones app x"
    using delete_everywhere_Inr(3) [OF d] by (simp_all add: put_outbox_def tombstones_of_def other_tombstones_def)
  have "sy_outbox x' = outbox_update (retention_command rd app) (outbox_completed (retention_json receipt)) rows"
    using x'(2) delete_everywhere_Inr(2) [OF d] by (simp add: put_outbox_def add_tombstone_def)
  with add_tombstone_counts [OF arg_cong [OF x'(2), of sy_tombstones]] old x'(1) delete_everywhere_Inr(1) [OF d]
  show ?thesis by auto
qed

text \<open>
  C30. A retention cleanup happens once: when it returns, the folder of the application and every
  file in it are gone while all other files are as before, and its command is completed in the
  outbox. Unless it was completed before, and then no table changes, one tombstone stands for the
  application, added only if there was none, and those of all others are as before. From then on a
  cleanup deletes files only, whatever the extraction service would answer, and leaves every table
  as it is.
\<close>

theorem retention_deletes_once:
  assumes "retention_cleanup rd app (fs, x) = (Inr (), fs', x')"
  shows "\<exists>folder r. app_folder (rd_workspace rd) app = Inr folder \<and> folder \<notin> set (fs_dirs fs') \<and>
    (folder \<in> set (fs_dirs fs) \<longrightarrow> files_below folder fs' = []) \<and>
    files_elsewhere folder fs' = files_elsewhere folder fs \<and>
    outbox_row_of (retention_command rd app) (sy_outbox x') = Some r \<and> ob_status r = Outbox_Completed \<and>
    (outbox_row_of (retention_command rd app) (sy_outbox x) = Some r \<and> x' = x \<or>
      length (tombstones_of app x') = max 1 (length (tombstones_of app x)) \<and>
      other_tombstones app x' = other_tombstones app x) \<and>
    (\<forall>delete fs2. retention_cleanup (rd\<lparr>rd_delete := delete\<rparr>) app (fs2, x') =
      (case delete_application (rd_workspace rd) app fs2 of
         (Inl e, fs3) \<Rightarrow> (Inl e, fs3, x') | (Inr _, fs3) \<Rightarrow> (Inr (), fs3, x')))"
proof -
  let ?cmd = "retention_command rd app" and ?pay = "retention_payload rd app"
  obtain row rows where ins: "outbox_insert ?cmd app retention_operation ?pay (sy_outbox x) = (row, rows)" by fastforce
  note row = outbox_insert_row [OF ins]
  have same: "same_effect app retention_operation ?pay row"
    using assms ins by (auto simp: retention_cleanup_def io_elims cleanup_systems_def claim_retention_def split: prod.splits)
  obtain r b where r: "outbox_row_of ?cmd (sy_outbox x') = Some r" "ob_status r = Outbox_Completed"
      "same_effect app retention_operation ?pay r" "delete_application (rd_workspace rd) app fs = (Inr b, fs')"
      "outbox_row_of ?cmd (sy_outbox x) = Some r \<and> x' = x \<or>
        length (tombstones_of app x') = max 1 (length (tombstones_of app x)) \<and>
        other_tombstones app x' = other_tombstones app x"
  proof (cases "ob_status row = Outbox_Completed")
    case True
    with ins have old: "outbox_row_of ?cmd (sy_outbox x) = Some row"
      by (auto simp: outbox_insert_def Let_def split: option.splits)
    from retention_again [OF this same True, of fs] assms show ?thesis
      by (auto split: prod.splits sum.splits intro!: that [of row] simp: old True same)
  next
    case False
    from retention_first [OF assms ins False] obtain b receipt where
      "delete_application (rd_workspace rd) app fs = (Inr b, fs')"
      "sy_outbox x' = outbox_update ?cmd (outbox_completed receipt) rows"
      "length (tombstones_of app x') = max 1 (length (tombstones_of app x))"
      "other_tombstones app x' = other_tombstones app x" by blast
    with row same outbox_row_update [of "outbox_completed receipt" ?cmd rows] show ?thesis
      by (intro that [of "outbox_completed receipt row"]) (simp_all add: outbox_completed_def same_effect_def)
  qed
  have other: "retention_command (rd\<lparr>rd_delete := d\<rparr>) app = ?cmd" "retention_payload (rd\<lparr>rd_delete := d\<rparr>) app = ?pay"
    "rd_workspace (rd\<lparr>rd_delete := d\<rparr>) = rd_workspace rd" for d
    by (simp_all add: retention_command_def retention_payload_def)
  have "retention_cleanup (rd\<lparr>rd_delete := d\<rparr>) app (fs2, x') =
      (case delete_application (rd_workspace rd) app fs2 of
         (Inl e, fs3) \<Rightarrow> (Inl e, fs3, x') | (Inr _, fs3) \<Rightarrow> (Inr (), fs3, x'))" for d fs2
    using retention_again [of "rd\<lparr>rd_delete := d\<rparr>" app x' r fs2] r(1-3) by (simp add: other)
  moreover obtain folder where "app_folder (rd_workspace rd) app = Inr folder" "folder \<notin> set (fs_dirs fs')"
      "folder \<in> set (fs_dirs fs) \<Longrightarrow> files_below folder fs' = []" "files_elsewhere folder fs' = files_elsewhere folder fs"
    using delete_application_Inr [OF r(4)] by blast
  ultimately show ?thesis
    using r(1,2,5) by (intro exI [of _ folder] exI [of _ r] conjI allI impI) simp_all
qed

text \<open>A small cleanup: one stored application, and a service that deletes one document.\<close>

definition demo_retention :: "unit retention" where
  "demo_retention = \<lparr>rd_workspace = demo_workspace,
     rd_delete = (\<lambda>app _ y. (Inr \<lparr>rdr_application_id = app, rdr_deleted_document_ids = [''d1''], rdr_receipt_sha256 = zero_hash [],
       rdr_policy_hash = zero_hash []\<rparr>, y)),
     rd_policy_hash = zero_hash [], rd_uuid5 = (\<lambda>s. s), rd_sha256 = (\<lambda>s. s)\<rparr>"

definition kept_files :: filesystem where
  "kept_files = demo_files\<lparr>fs_dirs := [[''data'', ''app-1'']]\<rparr>"

definition cleaned :: "(py_exn + unit) \<times> filesystem \<times> (unit, demo_db, unit) systems" where
  "cleaned = retention_cleanup demo_retention ''app-1'' (kept_files, wd_ext approved_world)"

lemma cleaned_ok: "is_ok (fst cleaned)"
  by code_simp

theorem retention_deletes_once_witness: "length (tombstones_of ''app-1'' (snd (snd cleaned))) = 1"
proof -
  obtain fs' x' where run: "cleaned = (Inr (), fs', x')"
    using cleaned_ok
    by (intro that [of "fst (snd cleaned)" "snd (snd cleaned)"] prod_eqI) (auto simp: is_ok_iff)
  have "outbox_row_of c (sy_outbox (wd_ext approved_world)) = None" for c
    by (simp add: approved_world_def outbox_row_of_def)
  moreover have "tombstones_of ''app-1'' (wd_ext approved_world) = []"
    by (simp add: approved_world_def tombstones_of_def)
  ultimately show ?thesis using retention_deletes_once [OF run [unfolded cleaned_def]] by (auto simp: run)
qed

section \<open>Reveal\<close>

lemma reveal_field_missing: "reveal_request_ok q \<Longrightarrow> metadata_attribute m (rq_field_name q) = Inl (OtherException ''AttributeError'')"
  by (auto simp: reveal_request_ok_def masked_fields_def metadata_attribute_def)

text \<open>
  A masked field is never revealed: whoever asks for whatever field, the endpoint raises, and
  no reveal is recorded, because the fields it accepts are not fields of the staged metadata.
\<close>

theorem reveal_never_succeeds:
  "\<not> is_ok (fst (reveal_endpoint sv actor app q g)) \<and>
   sy_reveals (wd_ext (gr_world (snd (reveal_endpoint sv actor app q g)))) = sy_reveals (wd_ext (gr_world g))"
proof (cases "reveal_request_ok q")
  case True
  let ?P = "\<lambda>g'. sy_reveals (wd_ext (gr_world g')) = sy_reveals (wd_ext (gr_world g))"
  have never: "api (io_lift (metadata_attribute (sa_metadata request) (rq_field_name q))) =
      io_raise (Raised (OtherException ''AttributeError''))" for request
    by (simp add: reveal_field_missing [OF True] api_def io_raise_def fun_eq_iff)
  have "preserves ?P (case_record sv app)" "preserves ?P (in_files f)" for f :: "staged_application ws_io"
    by (auto intro!: preservesI simp: case_record_def repo_get_def in_files_def in_world_def
        split: prod.splits sum.splits)
  then have "preserves ?P (reveal_endpoint sv actor app q)"
    unfolding reveal_endpoint_def never io_simps by (intro preserve)
  moreover have "fst (reveal_endpoint sv actor app q g) \<noteq> Inr v" for v
    by (cases "reveal_endpoint sv actor app q g")
      (auto simp: reveal_endpoint_def never need_def http_def io_elims split: option.splits)
  ultimately show ?thesis by (auto simp: preserves_def is_ok_iff)
qed (simp add: reveal_endpoint_def io_raise_def)

section \<open>Lifecycle\<close>

text \<open>
  C37. A second change in the lifecycle of a precedent is lost to the audit: once a case has an
  audited change, a further change under a new command is made in the vector database, but its
  audit row violates the primary key of the table, so the reviewer gets a server error and the
  table does not show it.
\<close>

theorem second_lifecycle_change_is_lost:
  assumes "sv_writeback sv = Some wb" and "sv_database sv" and "sv_policy_hash sv = Inr h"
    and "lifecycle_request_ok q" and "HUMAN_REVIEWER \<in> ac_roles actor"
    and "lq_status q = SUPERSEDED \<Longrightarrow> lq_replacement_case_id q \<noteq> None"
    and "list_all (\<lambda>r. lr_command_id r \<noteq> lq_command_id q) (sy_lifecycle (wd_ext (gr_world g)))"
    and "list_ex (\<lambda>r. lr_case_id r = case_id) (sy_lifecycle (wd_ext (gr_world g)))"
    and "set_lifecycle (wb_store wb) case_id (lq_expected_status q) (lq_status q) (sy_qdrant (wd_ext (gr_world g))) =
      (Inr changed, db)"
  shows "\<exists>g'. precedent_lifecycle_endpoint sv actor case_id q g = (Inl (Raised unique_violation), g') \<and>
    sy_qdrant (wd_ext (gr_world g')) = db \<and> sy_lifecycle (wd_ext (gr_world g')) = sy_lifecycle (wd_ext (gr_world g))"
proof -
  have new: "find (\<lambda>r. lr_command_id r = lq_command_id q) (sy_lifecycle (wd_ext (gr_world g))) = None"
    "\<not> list_ex (\<lambda>r. lr_command_id r = lq_command_id q) (sy_lifecycle (wd_ext (gr_world g)))"
    using assms(7) by (auto simp: find_None_iff list_all_iff list_ex_iff)
  then show ?thesis
    using assms(1-6,8,9)
    by (simp add: precedent_lifecycle_endpoint_def need_def need_role_def io_bind_def io_ensure_def io_lift_def io_ret_def
        api_def in_systems_def in_world_def on_systems_def on_qdrant_def known_lifecycle_def lifecycle_changed_def
        io_catch_def insert_lifecycle_def)
qed

definition revoked_row :: lifecycle_row where
  "revoked_row = \<lparr>lr_case_id = ''app-1'', lr_status = REVOKED, lr_policy_hash = zero_hash [], lr_valid_until = None,
     lr_supersedes_case_id = None, lr_command_id = ''c1'', lr_reason = ''expired case'', lr_actor_id = ''r''\<rparr>"

text \<open>A store whose points keep the status only.\<close>

definition status_payload :: "precedent_status \<Rightarrow> json_object" where
  "status_payload s = [(''lifecycle_status'', JStr (lifecycle_value s))]"

definition status_store :: "demo_db store" where
  "status_store = \<lparr>st_client = demo_qdrant\<lparr>qd_set_payload := (\<lambda>_ key value ids db.
       (Inr (), map (\<lambda>(k, v). (k, if k \<in> set ids then [(key, JStr value)] else v)) db))\<rparr>,
     st_collection = ''precedents'', st_uuid5 = (\<lambda>s. s), st_dump = (\<lambda>c. status_payload (dc_lifecycle_status c)),
     st_parse = (\<lambda>o1. if o1 = status_payload SUPERSEDED then Some (approved_case\<lparr>dc_lifecycle_status := SUPERSEDED\<rparr>)
       else Some (approved_case\<lparr>dc_lifecycle_status := REVOKED\<rparr>))\<rparr>"

definition status_db :: demo_db where
  "status_db = [(point_id status_store ''app-1'', status_payload REVOKED)]"

definition governed_service :: "(postgres_repo, postgres_jobs, demo_db, unit, life_store) service" where
  "governed_service = \<lparr>sv_repo = postgres_ops, sv_audit = pg_audit_of, sv_tick = demo_tick, sv_jobs = postgres_job_ops,
     sv_clock = (\<lambda>_. 1), sv_writeback = Some (approved_service\<lparr>wb_store := status_store\<rparr>), sv_intake = None, sv_runtime = None,
     sv_production = True, sv_database = True, sv_policy_hash = Inr (zero_hash []), sv_uuid5 = (\<lambda>s. s),
     sv_submission = (\<lambda>_. None), sv_new_app = tk_uuid, sv_job_id = tk_uuid\<rparr>"

definition governed_state :: "(postgres_repo, postgres_jobs, demo_db, unit, life_store) service_state" where
  "governed_state = \<lparr>gr_checkpoints = [], gr_lifecycle = [], gr_world = \<lparr>wd_fs = demo_files, wd_repo = pg_empty,
     wd_ext = \<lparr>sy_jobs = pj_empty, sy_bound = [], sy_outbox = [], sy_reveals = [], sy_lifecycle = [revoked_row],
       sy_tombstones = [], sy_qdrant = status_db, sy_rest = ()\<rparr>, wd_ticks = 0\<rparr>\<rparr>"

definition supersede :: lifecycle_request where
  "supersede = \<lparr>lq_command_id = ''c2'', lq_expected_status = REVOKED, lq_status = SUPERSEDED,
     lq_replacement_case_id = Some ''app-2'', lq_reason = ''replaced case''\<rparr>"

lemma superseded_ok: "is_ok (fst (set_lifecycle status_store ''app-1'' REVOKED SUPERSEDED status_db))"
  by code_simp

theorem second_lifecycle_change_is_lost_witness:
  "fst (precedent_lifecycle_endpoint governed_service demo_human ''app-1'' supersede governed_state) = Inl (Raised unique_violation)"
proof -
  obtain changed db where s: "set_lifecycle status_store ''app-1'' REVOKED SUPERSEDED status_db = (Inr changed, db)"
    using superseded_ok by (cases "set_lifecycle status_store ''app-1'' REVOKED SUPERSEDED status_db") (auto simp: is_ok_iff)
  have "\<exists>g'. precedent_lifecycle_endpoint governed_service demo_human ''app-1'' supersede governed_state =
        (Inl (Raised unique_violation), g') \<and> sy_qdrant (wd_ext (gr_world g')) = db \<and>
      sy_lifecycle (wd_ext (gr_world g')) = sy_lifecycle (wd_ext (gr_world governed_state))"
    by (rule second_lifecycle_change_is_lost [where wb = "approved_service\<lparr>wb_store := status_store\<rparr>"])
      (simp_all add: governed_service_def governed_state_def supersede_def revoked_row_def lifecycle_request_ok_def
        bounded_text_def demo_human_def s)
  then show ?thesis by auto
qed

end
