(* ===== verification/FM_API_Props.thy ===== *)
theory FM_API_Props
  imports FM_Governance_Props
begin

text \<open>
  What holds of the whole service: the audit contract over any mixture of requests and background
  work, and the completion of a decision whose write-back failed.
\<close>

section \<open>The audit contract\<close>

text \<open>
  C1. The whole service keeps the audit contract: whatever requests with whatever bodies and roles
  arrive, and whatever tasks of the intake and of the agent run between them, the history of
  every case in the database is gapless, follows the state machine, ends in the recorded state and
  has each decision signed by a human reviewer.
\<close>

theorem api_keeps_audit_contract:
  assumes "wired ticks sv" and "wd_repo (gr_world g) = pg_empty"
    and "pg_get a (wd_repo (gr_world (api_run sv requests g))) = Inr w"
    and "pg_audit_of a (wd_repo (gr_world (api_run sv requests g))) = Inr evs"
  shows "history_ok a w evs"
proof -
  have "recorded_in ticks g"
    using assms(2) pg.tracked_empty pg.used_empty by (simp add: recorded_def)
  from api_run_recorded [OF assms(1) this] have r: "pg.tracked (wd_repo (gr_world (api_run sv requests g)))"
    by (simp add: recorded_def)
  then have "pg_inv (wd_repo (gr_world (api_run sv requests g)))" by (simp add: pg.tracked_def)
  from pg.get_view [OF this, of a] pg.audit_view [OF this, of a] r show ?thesis
    using assms(3,4) by (auto simp: pg.tracked_def split: option.splits)
qed

definition advance_request :: "nat \<Rightarrow> workflow_state \<Rightarrow> api_request" where
  "advance_request n target = Advance_Workflow demo_actor ''app-1''
     \<lparr>pa_command_id = ''c'' @ str_nat (n + 1), pa_expected_version = n, pa_target_state = target, pa_reason = ''r'',
      pa_suggestion = None\<rparr>"

definition demo_requests :: "api_request list" where
  "demo_requests = [Create_Workflow demo_actor ''app-1'' ''c0'' ''r'', advance_request 0 EXTRACTED,
     advance_request 1 RULE_GATED, Get_Workflow demo_human ''app-1'']"

definition served :: postgres_repo where
  "served = wd_repo (gr_world (api_run governed_service demo_requests governed_state))"

lemma served_ok: "answers_in ''app-1'' [RULE_GATED] served"
  unfolding served_def demo_requests_def advance_request_def api_run_def fold_simps api_apply.simps
  by code_simp

theorem api_keeps_audit_contract_witness:
  "\<exists>w evs. pg_get ''app-1'' served = Inr w \<and> wf_state w = RULE_GATED \<and> history_ok ''app-1'' w evs"
proof -
  obtain w evs where s: "pg_get ''app-1'' served = Inr w" "pg_audit_of ''app-1'' served = Inr evs" "wf_state w = RULE_GATED"
    using served_ok by (auto elim!: answers_inD)
  have "wired demo_tick governed_service"
    using demo_ticks
    by (simp add: wired_def governed_service_def approved_service_def demo_writeback_def)
  from api_keeps_audit_contract [OF this _ s(1,2) [unfolded served_def]] s show ?thesis
    by (auto simp: governed_state_def)
qed

section \<open>Completion of a decision\<close>

lemma mark_written_completes:
  fixes w :: "(postgres_repo, 'j, 'q, 'y) memory_world"
  assumes wb: "writeback_wired ticks wb" and rec: "recorded ticks w"
    and cur: "pg_get app (wd_repo w) = Inr cur" "wf_state cur = HUMAN_DECIDED"
      "wf_decision cur = Some d" "hr_action d \<noteq> SEND_BACK" "wf_version cur = pw_expected_version command"
    and actor: "PIPELINE \<in> ac_roles actor"
    and new: "command_result app (pw_command_id command) (wd_repo w) = None"
  shows "\<exists>tr w'. mark_written wb app command receipt actor w = (Inr tr, w') \<and>
    wf_precedent_receipt (tr_workflow tr) = Some receipt \<and> wf_state (tr_workflow tr) = PRECEDENT_WRITTEN \<and>
    pg_get app (wd_repo w') = Inr (tr_workflow tr) \<and> wd_ext w' = wd_ext w"
proof -
  let ?t = "ticks (wd_ticks w)" and ?r = "wd_repo w"
  have r: "pg.tracked ?r" "\<not> pg_used ?r (tk_audit_id ?t)" using rec by (simp_all add: recorded_def)
  then have inv: "pg_inv ?r" by (simp add: pg.tracked_def)
  obtain evs where view: "pg_view ?r app = Some (cur, evs)"
    using pg.get_view [OF inv, of app] cur(1) by (auto split: option.splits)
  with r(1) have h: "history_ok app cur evs" by (simp add: pg.tracked_def)
  let ?f = "written_transition command receipt actor ?t"
  obtain w' ev where f: "?f cur (length evs + 1) = Inr (w', ev)" and w': "wf_precedent_receipt w' = Some receipt"
      "wf_state w' = PRECEDENT_WRITTEN"
    using cur by (auto simp: written_transition_def require_version_def Let_def)
  from written_good [OF actor, of app command ?t receipt] f h
  have g: "good_step app (pw_command_id command) (tk_audit_id ?t) cur (length evs + 1) w' ev"
    by (auto simp: good_transition_def history_ok_def)
  then have aid: "ae_audit_id ev = tk_audit_id ?t" by (simp add: good_step_def)
  from pg.transition_ok [of ?r app "pw_command_id command" cur evs ?f w' ev] inv new view f g aid r(2)
  obtain r' where r': "pg_transition app (pw_command_id command) ?f ?r = Inr (\<lparr>tr_workflow = w', tr_audit_event = ev\<rparr>, r')"
      "pg_inv r'" "pg_view r' = (pg_view ?r)(app \<mapsto> (w', evs @ [ev]))" by auto
  then have "pg_get app r' = Inr w'" using pg.get_view [OF r'(2), of app] by simp
  then show ?thesis
    using r'(1) w' wb actor
    by (simp add: mark_written_def repo_call_def writeback_wired_def mark_precedent_written_def require_role_def)
qed

lemma outbox_begin_ok:
  assumes "list_all (same_effect app op h) (filter (\<lambda>r. ob_command_id r = cid) (sy_outbox x))"
  shows "\<exists>rows. outbox_begin on cid app op h x = (Inr (), x\<lparr>sy_outbox := rows\<rparr>)"
proof (cases "outbox_row_of cid (sy_outbox x)")
  case (Some r)
  then have "r \<in> set (filter (\<lambda>r. ob_command_id r = cid) (sy_outbox x))"
    by (auto simp: outbox_row_of_def find_Some_iff)
  with assms have "same_effect app op h r" by (simp only: list_all_iff)
  with Some show ?thesis
    by (auto simp: outbox_begin_def outbox_insert_def intro: exI [of _ "sy_outbox x"])
qed (auto simp: outbox_begin_def outbox_insert_def same_effect_def Let_def intro: exI [of _ "sy_outbox x"])

text \<open>
  The database answers: the case is stored and read back. The side effect of the command, if it was
  tried before, was this one, and the workflow has not recorded it.
\<close>

definition retry_safe ::
  "(postgres_repo, 'q) writeback \<Rightarrow> app_id \<Rightarrow> precedent_write_command \<Rightarrow> decided_loan_case \<Rightarrow>
   (postgres_repo, 'j, 'q, 'y) memory_world \<Rightarrow> bool" where
  "retry_safe wb app command c w \<longleftrightarrow>
     command_result app (pw_command_id command) (wd_repo w) = None \<and>
     list_all (same_effect app writeback_operation (payload_hash wb c))
       (filter (\<lambda>r. ob_command_id r = pw_command_id command) (sy_outbox (wd_ext w))) \<and>
     is_ok (fst (write_one (wb_store wb) (wb_embedder wb) c (sy_qdrant (wd_ext w))))"

lemma write_completes:
  fixes w :: "(postgres_repo, 'j, 'q, 'y) memory_world"
  assumes wb: "writeback_wired ticks wb" and rec: "recorded ticks w" and actor: "PIPELINE \<in> ac_roles actor"
    and cur: "pg_get app (wd_repo w) = Inr cur" and c: "decided_case wb app command cur = Inr c"
    and safe: "retry_safe wb app command c w"
  shows "\<exists>res receipt w'. write_precedent wb app command actor w = (Inr res, w') \<and>
    wf_precedent_receipt (tr_workflow (wr_transition res)) = Some receipt \<and> wr_case_id receipt = dc_case_id c \<and>
    pg_get app (wd_repo w') = Inr (tr_workflow (wr_transition res)) \<and>
    wf_state (tr_workflow (wr_transition res)) = PRECEDENT_WRITTEN"
proof -
  from c obtain d where d: "wf_state cur = HUMAN_DECIDED" "wf_decision cur = Some d" "hr_action d \<noteq> SEND_BACK"
      "wf_version cur = pw_expected_version command" by (rule decided_case_Inr) blast
  obtain rows where begin_ok: "outbox_begin (wb_outbox wb) (pw_command_id command) app writeback_operation
      (payload_hash wb c) (wd_ext w) = (Inr (), wd_ext w\<lparr>sy_outbox := rows\<rparr>)"
    using outbox_begin_ok [of app writeback_operation "payload_hash wb c" "pw_command_id command" "wd_ext w" "wb_outbox wb"] safe
    by (auto simp: retry_safe_def)
  obtain stored db where put: "write_one (wb_store wb) (wb_embedder wb) c (sy_qdrant (wd_ext w)) = (Inr stored, db)"
    using safe by (cases "write_one (wb_store wb) (wb_embedder wb) c (sy_qdrant (wd_ext w))")
      (auto simp: retry_safe_def is_ok_iff)
  then have stored: "stored = c" by (auto simp: write_one_def io_elims)
  let ?receipt = "make_receipt_of wb c (tk_now (ticks (wd_ticks w)))"
  let ?v = "w\<lparr>wd_ext := wd_ext w\<lparr>sy_qdrant := db, sy_outbox := (if wb_outbox wb
      then outbox_update (pw_command_id command) (outbox_completed (wb_receipt_json wb ?receipt)) rows else rows)\<rparr>\<rparr>"
  have "recorded ticks ?v" using rec by (simp add: recorded_def)
  moreover have "pg_get app (wd_repo ?v) = Inr cur" "command_result app (pw_command_id command) (wd_repo ?v) = None"
    using cur safe by (simp_all add: retry_safe_def)
  ultimately obtain tr w' where tr: "mark_written wb app command ?receipt actor ?v = (Inr tr, w')"
      "wf_precedent_receipt (tr_workflow tr) = Some ?receipt" "wf_state (tr_workflow tr) = PRECEDENT_WRITTEN"
      "pg_get app (wd_repo w') = Inr (tr_workflow tr)"
    using mark_written_completes [OF wb, of ?v app cur d command actor ?receipt] d actor by blast
  have swap: "x\<lparr>sy_outbox := a\<rparr>\<lparr>sy_qdrant := b\<rparr> = x\<lparr>sy_qdrant := b\<rparr>\<lparr>sy_outbox := a\<rparr>"
    for x :: "('j, 'q, 'y) systems" and a b by simp
  have "write_precedent wb app command actor w = (Inr \<lparr>wr_transition = tr, wr_precedent = c\<rparr>, w')"
    using wb actor cur c d begin_ok put stored tr(1)
    by (cases "wb_outbox wb")
      (simp_all add: write_precedent_def write_known_def write_decided_def io_bind_def io_ensure_def repo_get_def
        writeback_wired_def on_systems_def confirmed_write_def io_catch_def on_qdrant_def clock_now_def Let_def
        outbox_complete_def io_ret_def swap)
  with tr show ?thesis by (auto simp: make_receipt_of_def)
qed

lemma state_of_world: "state_of env app (g\<lparr>gr_world := w\<rparr>) = state_of env app g"
  by (simp add: state_of_def state_or_none_def)

lemma ru_memory_reads: "snd (ru_memory rt app g) = g"
  by (auto simp: ru_memory_def io_bind_def thread_state_def io_ret_def split: sum.splits)

lemma job_get_reads: "job_get rt job_id g = (jo_get (ru_jobs rt) job_id (sy_jobs (wd_ext (gr_world g))), g)"
  by (simp add: job_get_def in_systems_def in_world_def on_systems_def)

lemma key_error_404_state: "snd (key_error_404 d m g) = snd (m g)"
  by (simp add: key_error_404_def split: prod.splits sum.splits py_exn.splits)

text \<open>The thread of a saved decision, to which the lifecycle store still listens.\<close>

definition awaiting_thread ::
  "(postgres_repo, 'j, 'q, 'y, 'l) runtime \<Rightarrow> app_id \<Rightarrow> memory_state \<Rightarrow> (postgres_repo, 'j, 'q, 'y, 'l) service_state \<Rightarrow> bool" where
  "awaiting_thread rt app s g \<longleftrightarrow> state_of (ru_env rt) app g = Inr s \<and> ms_current_node s = HUMAN_REVIEW \<and>
     (\<forall>now. is_ok (lo_set_status (ru_life rt) (ge_retention (ru_env rt)) app COMPLETED (Some HUMAN_REVIEW) None now
       (gr_lifecycle g)))"

lemma complete_awaiting:
  assumes s: "awaiting_thread rt app s g" and "ms_status s = FAILED_RETRYABLE"
    and "wf_precedent_receipt (tr_workflow (wr_transition res)) = Some receipt"
  shows "\<exists>s' l. complete_thread rt app missing res (g\<lparr>gr_world := w\<rparr>) =
      (Inr s', g\<lparr>gr_world := w, gr_checkpoints := dict_set app s' (gr_checkpoints g), gr_lifecycle := l\<rparr>) \<and>
    ms_status s' = COMPLETED \<and> ms_write_receipts s' = ms_write_receipts s @ [graph_receipt receipt]"
proof -
  let ?s = "s\<lparr>ms_status := COMPLETED, ms_write_receipts := ms_write_receipts s @ [graph_receipt receipt], ms_last_error := None\<rparr>"
  obtain t l where "lo_set_status (ru_life rt) (ge_retention (ru_env rt)) app COMPLETED (Some HUMAN_REVIEW) None
      (ge_clock (ru_env rt) w) (gr_lifecycle g) = Inr (t, l)"
    using s by (force simp: awaiting_thread_def is_ok_iff)
  then have "complete_thread rt app missing res (g\<lparr>gr_world := w\<rparr>) =
      (Inr ?s, g\<lparr>gr_world := w, gr_checkpoints := dict_set app ?s (gr_checkpoints g), gr_lifecycle := l\<rparr>)"
    using assms
    by (simp add: complete_thread_def complete_after_writeback_def state_of_world awaiting_thread_def io_bind_def io_ret_def
        update_thread_def save_checkpoint_def life_status_def)
  then show ?thesis by auto
qed

text \<open>
  C10. A saved decision completes: when the write-back of a final decision failed, the thread waits as
  retryable and the case stays decided; the next resume of its job, once the vector database
  stores the case and reads it back, ends with the case written, the receipt of the precedent in
  the thread, and the thread completed, with no second decision asked of anybody.
\<close>

theorem finalization_retry_completes:
  fixes g :: "(postgres_repo, 'j, 'q, 'y, 'l) service_state"
  assumes "wired ticks sv" and "recorded_in ticks g" and "sv_runtime sv = Some rt" and "sv_writeback sv = Some wb"
    and "PIPELINE \<in> ac_roles actor"
    and "jo_get (ru_jobs rt) job_id (sy_jobs (wd_ext (gr_world g))) = Inr job" and "ij_application_id job = app"
    and "awaiting_thread rt app s g" and "pg_get app (wd_repo (gr_world g)) = Inr cur" and "awaits_finalization s cur"
    and "decided_case wb app (finalize_command sv app (wf_version cur)) cur = Inr c"
    and "retry_safe wb app (finalize_command sv app (wf_version cur)) c (gr_world g)"
  shows "\<exists>s' w' receipt.
    dict_get (gr_checkpoints (snd (resume_job_endpoint sv actor job_id g))) app = Some s' \<and> ms_status s' = COMPLETED \<and>
    ms_write_receipts s' = ms_write_receipts s @ [graph_receipt receipt] \<and>
    pg_get app (wd_repo (gr_world (snd (resume_job_endpoint sv actor job_id g)))) = Inr w' \<and>
    wf_state w' = PRECEDENT_WRITTEN \<and> wf_precedent_receipt w' = Some receipt \<and> wr_case_id receipt = dc_case_id c"
proof -
  let ?cmd = "finalize_command sv app (wf_version cur)"
  have agent: "PIPELINE \<in> ac_roles agent_actor" by (simp add: agent_actor_def)
  obtain res receipt w' where w: "write_precedent wb app ?cmd agent_actor (gr_world g) = (Inr res, w')"
      "wf_precedent_receipt (tr_workflow (wr_transition res)) = Some receipt" "wr_case_id receipt = dc_case_id c"
      "pg_get app (wd_repo w') = Inr (tr_workflow (wr_transition res))"
      "wf_state (tr_workflow (wr_transition res)) = PRECEDENT_WRITTEN"
    using write_completes [OF wired_writeback [OF assms(1,4)] assms(2) agent assms(9,11,12)] by blast
  have status: "ms_status s = FAILED_RETRYABLE" using assms(10) by (simp add: awaits_finalization_def)
  obtain s' l where t: "complete_thread rt app ''precedent receipt missing'' res (g\<lparr>gr_world := w'\<rparr>) =
      (Inr s', g\<lparr>gr_world := w', gr_checkpoints := dict_set app s' (gr_checkpoints g), gr_lifecycle := l\<rparr>)"
      "ms_status s' = COMPLETED" "ms_write_receipts s' = ms_write_receipts s @ [graph_receipt receipt]"
    using complete_awaiting [OF assms(8) status w(2)] by blast
  let ?g = "g\<lparr>gr_world := w', gr_checkpoints := dict_set app s' (gr_checkpoints g), gr_lifecycle := l\<rparr>"
  have fin: "finalize_human_decision sv rt app (wf_version cur) g = (Inr True, ?g)"
    using w(1) t(1) by (simp add: finalize_human_decision_def assms(4) io_catch_def io_bind_def in_world_def io_ret_def)
  have "sv_repo sv = postgres_ops" using assms(1) by (simp add: wired_def)
  then have body: "resume_job_body sv rt job_id g = ru_memory rt app ?g"
    using fin assms(6-10)
    by (simp add: resume_job_body_def io_bind_def job_get_reads thread_state_def awaiting_thread_def case_record_def
        in_world_def repo_get_def Let_def)
  from body have "snd (resume_job_endpoint sv actor job_id g) = ?g"
    using assms(3,5) ru_memory_reads [of rt app ?g]
    by (simp add: resume_job_endpoint_def need_def need_role_def key_error_404_state)
  with w t show ?thesis by simp
qed

text \<open>A decided case whose write-back failed, with its job and its thread.\<close>

definition idle_deps :: "(postgres_repo, 'x) deps" where
  "idle_deps = \<lparr>dp_workspace = demo_workspace, dp_repo = postgres_ops, dp_tick = demo_tick, dp_actor = agent_actor,
     dp_policies = [], dp_production = False, dp_policy_hash = None,
     dp_ingest = (\<lambda>_ _ x. (Inl WTimeout, x)), dp_extract = (\<lambda>_ _ x. (Inl WTimeout, x)),
     dp_retrieve = (\<lambda>_ _ _ x. (Inl WTimeout, x)),
     dp_report = None, dp_prompt = Inr, dp_sha256 = zero_hash, dp_uuid5 = (\<lambda>s. s), dp_redact = (\<lambda>s. s),
     dp_bbox_json = (\<lambda>_. []), dp_bundle_json = (\<lambda>_. []),
     dp_request_codec = unknown, dp_document_codec = known demo_document, dp_metric_codec = unknown,
     dp_application_codec = unknown, dp_eligibility_codec = unknown, dp_retrieval_codec = unknown,
     dp_suggestion_codec = unknown\<rparr>"

definition one_job :: "unit job_ops" where
  "one_job = \<lparr>jo_create = (\<lambda>_ _ _ _. Inl unique_violation), jo_append = (\<lambda>_ j _ _ _ _. Inl (KeyError j)),
     jo_get = (\<lambda>_ _. Inr (new_job 1 ''j1'' ''app-1'')), jo_events_after = (\<lambda>_ _ _. Inr []),
     jo_finish = (\<lambda>_ j _ _ _ _. Inl (KeyError j)), jo_fail_interrupted = (\<lambda>_ x. (0, x))\<rparr>"

definition idle_runtime :: "(postgres_repo, unit, demo_db, unit, life_store) runtime" where
  "idle_runtime = \<lparr>ru_guard = \<lparr>gd_deps = idle_deps, gd_resolver = None, gd_policy_hash = None, gd_verify = None,
       gd_execution = [], gd_dump_size = (\<lambda>_. 0)\<rparr>,
     ru_outside = \<lparr>ou_activity = None, ou_recorder = noop_record, ou_cleanup = None, ou_late = (\<lambda>_ _ _. False),
       ou_clock = (\<lambda>_. 100), ou_latency = (\<lambda>_. 0), ou_sleep = (\<lambda>_ x. x), ou_run_id = (\<lambda>_. ''run''),
       ou_checkpoint_id = (\<lambda>_ _. None), ou_signer = None, ou_retention = 30\<rparr>,
     ru_life = memory_life_ops, ru_jobs = one_job, ru_router = None, ru_prompt_stem = ''route'',
     ru_hash_settings = (\<lambda>_ _. []), ru_max_file_bytes = 100, ru_max_batch_bytes = 1000\<rparr>"

definition retryable_thread :: memory_state where
  "retryable_thread = (case initial_state (\<lambda>_. 0) (\<lambda>s. s) ''app-1'' DEFAULT_WORKER_ORDER (Some ''j1'') [] of
     Inr s \<Rightarrow> s\<lparr>ms_status := FAILED_RETRYABLE, ms_current_node := HUMAN_REVIEW, ms_completed := DEFAULT_WORKER_ORDER,
       ms_pending := []\<rparr>)"

definition decided_state :: "(postgres_repo, unit, demo_db, unit, life_store) service_state" where
  "decided_state = \<lparr>gr_checkpoints = [(''app-1'', retryable_thread)],
     gr_lifecycle = [(''app-1'', new_thread ''app-1'' HUMAN_REVIEW 1)], gr_world = approved_world\<rparr>"

definition resuming_service :: "(postgres_repo, unit, demo_db, unit, life_store) service" where
  "resuming_service = \<lparr>sv_repo = postgres_ops, sv_audit = pg_audit_of, sv_tick = demo_tick, sv_jobs = one_job,
     sv_clock = (\<lambda>_. 1), sv_writeback = Some approved_service, sv_intake = None, sv_runtime = Some idle_runtime,
     sv_production = True, sv_database = True, sv_policy_hash = Inr (zero_hash []), sv_uuid5 = (\<lambda>s. s),
     sv_submission = (\<lambda>_. None), sv_new_app = tk_uuid, sv_job_id = tk_uuid\<rparr>"

lemma retryable_thread_valid:
  "validate_compact_state (\<lambda>_. 0) retryable_thread = Inr retryable_thread \<and> ms_current_node retryable_thread = HUMAN_REVIEW \<and>
   ms_status retryable_thread = FAILED_RETRYABLE \<and> ms_application_id retryable_thread = ''app-1''"
  by code_simp

lemma thread_loaded:
  "case state_of (ru_env idle_runtime) ''app-1'' decided_state of
     Inr s \<Rightarrow> ms_current_node s = HUMAN_REVIEW \<and> ms_status s = FAILED_RETRYABLE | Inl _ \<Rightarrow> False"
  using retryable_thread_valid
  by (simp add: state_of_def state_or_none_def decided_state_def ru_env_def agent_env_def idle_runtime_def)

lemma approved_case_stands:
  "case pg_get ''app-1'' (wd_repo approved_world) of
     Inr cur \<Rightarrow> wf_state cur = HUMAN_DECIDED \<and> wf_version cur = 5 \<and>
       (case wf_decision cur of None \<Rightarrow> False | Some d \<Rightarrow> hr_action d = APPROVE) \<and>
       command_result ''app-1'' (pw_command_id (finalize_command resuming_service ''app-1'' 5)) (wd_repo approved_world) = None
   | Inl _ \<Rightarrow> False"
  by code_simp

text \<open>What the successful write of the same case shows of this one.\<close>

lemma approved_decided:
  assumes "pg_get ''app-1'' (wd_repo approved_world) = Inr cur" and "wf_state cur = HUMAN_DECIDED"
  shows "\<exists>c. decided_case approved_service ''app-1'' write_command cur = Inr c \<and>
    is_ok (fst (write_one (wb_store approved_service) (wb_embedder approved_service) c (sy_qdrant (wd_ext approved_world))))"
proof -
  obtain res w' where "approved_write = (Inr res, w')"
    using approved_write_ok(1) by (intro that [of "projr (fst approved_write)" "snd approved_write"] prod_eqI) (auto simp: is_ok_iff)
  then have d: "write_decided approved_service ''app-1'' write_command demo_actor cur approved_world = (Inr res, w')"
    using assms by (auto simp: approved_write_def write_precedent_def io_elims repo_get_def write_known_def
        approved_service_def demo_writeback_def split: sum.splits)
  then obtain c stored w1 w2 where c: "decided_case approved_service ''app-1'' write_command cur = Inr c"
      "on_systems (outbox_begin (wb_outbox approved_service) (pw_command_id write_command) ''app-1'' writeback_operation
        (payload_hash approved_service c)) approved_world = (Inr (), w1)"
      "confirmed_write approved_service write_command c w1 = (Inr stored, w2)"
    by (auto simp: write_decided_def io_elims)
  from confirmed_write_Inr [OF c(3)] spares_same [OF spares_outbox(1) c(2)] c(1) show ?thesis by auto
qed

theorem finalization_retry_completes_witness:
  "\<exists>s w. dict_get (gr_checkpoints (snd (resume_job_endpoint resuming_service demo_actor ''j1'' decided_state))) ''app-1'' = Some s \<and>
     ms_status s = COMPLETED \<and>
     pg_get ''app-1'' (wd_repo (gr_world (snd (resume_job_endpoint resuming_service demo_actor ''j1'' decided_state)))) = Inr w \<and>
     wf_state w = PRECEDENT_WRITTEN"
proof -
  let ?cmd = "finalize_command resuming_service ''app-1'' 5"
  obtain s where s: "state_of (ru_env idle_runtime) ''app-1'' decided_state = Inr s" "ms_current_node s = HUMAN_REVIEW"
      "ms_status s = FAILED_RETRYABLE"
    using thread_loaded by (auto split: sum.splits)
  obtain cur d where cur: "pg_get ''app-1'' (wd_repo approved_world) = Inr cur" "wf_state cur = HUMAN_DECIDED" "wf_version cur = 5"
      "wf_decision cur = Some d" "hr_action d = APPROVE"
      "command_result ''app-1'' (pw_command_id ?cmd) (wd_repo approved_world) = None"
    using approved_case_stands by (auto split: sum.splits option.splits)
  obtain c where c: "decided_case approved_service ''app-1'' write_command cur = Inr c"
      "is_ok (fst (write_one (wb_store approved_service) (wb_embedder approved_service) c (sy_qdrant (wd_ext approved_world))))"
    using approved_decided [OF cur(1,2)] by blast
  have decided: "decided_case approved_service ''app-1'' ?cmd cur = Inr c"
    using c(1) by (simp add: decided_case_def finalize_command_def write_command_def split: option.splits)
  have wired: "wired demo_tick resuming_service"
    using demo_ticks
    by (simp add: wired_def resuming_service_def approved_service_def demo_writeback_def idle_runtime_def idle_deps_def)
  have ids: "distinct (map (tk_audit_id \<circ> snd) approved_session)" "\<forall>(k, t) \<in> set approved_session. \<not> pg_used pg_empty (tk_audit_id t)"
    using pg.used_empty by (auto simp: approved_session_def demo_session_def plain_tick_def)
  have other: "replicate n CHR ''t'' \<noteq> i" if "CHR ''s'' \<in> set i" for n i using that by auto
  have "\<not> pg_used (wd_repo approved_world) (tk_audit_id (demo_tick n))" for n
    using service_run_used [OF pg.tracked_empty ids, of "tk_audit_id (demo_tick n)"] pg.used_empty other
    by (auto simp: approved_world_def approved_session_def demo_session_def plain_tick_def demo_tick_def)
  moreover have "pg.tracked (wd_repo approved_world)"
    using pg.service_run_tracked [OF pg.tracked_empty ids(1)] pg.used_empty by (auto simp: approved_world_def)
  ultimately have rec: "recorded_in demo_tick decided_state" by (simp add: recorded_def decided_state_def)
  have await: "awaiting_thread idle_runtime ''app-1'' s decided_state"
    using s(1,2)
    by (simp add: awaiting_thread_def idle_runtime_def memory_life_ops_def life_set_status_def Let_def decided_state_def)
  have "awaits_finalization s cur" using s(3) cur by (simp add: awaits_finalization_def)
  moreover have "retry_safe approved_service ''app-1'' ?cmd c (gr_world decided_state)"
    using c(2) cur(6) by (simp add: retry_safe_def decided_state_def) (simp add: approved_world_def)
  ultimately have "\<exists>s' w' receipt.
    dict_get (gr_checkpoints (snd (resume_job_endpoint resuming_service demo_actor ''j1'' decided_state))) ''app-1'' = Some s' \<and>
    ms_status s' = COMPLETED \<and> ms_write_receipts s' = ms_write_receipts s @ [graph_receipt receipt] \<and>
    pg_get ''app-1'' (wd_repo (gr_world (snd (resume_job_endpoint resuming_service demo_actor ''j1'' decided_state)))) = Inr w' \<and>
    wf_state w' = PRECEDENT_WRITTEN \<and> wf_precedent_receipt w' = Some receipt \<and> wr_case_id receipt = dc_case_id c"
    using cur(1,3) decided
    by (intro finalization_retry_completes [OF wired rec _ _ _ _ _ await, of approved_service demo_actor "''j1''"
          "new_job 1 ''j1'' ''app-1''" cur c])
      (simp_all add: resuming_service_def idle_runtime_def demo_actor_def one_job_def new_job_def decided_state_def)
  then show ?thesis by blast
qed

end
