(* ===== verification/FM_Intake_Props.thy ===== *)
theory FM_Intake_Props
  imports FM_API_Props
begin

text \<open>
  What the direct intake delivers: a call that returns has taken a new case to the human review,
  with the bundle it assembled, and no second call is made for the application.
\<close>

section \<open>Steps on a fresh case\<close>

text \<open>Command identifiers still to be drawn are new.\<close>

definition unused_commands :: "(nat \<Rightarrow> tick) \<Rightarrow> app_id \<Rightarrow> (postgres_repo, 'x) world \<Rightarrow> bool" where
  "unused_commands ticks app w \<longleftrightarrow> (\<forall>n \<ge> wd_ticks w. command_result app (tk_uuid (ticks n)) (wd_repo w) = None)"

definition fresh_world :: "(nat \<Rightarrow> tick) \<Rightarrow> app_id \<Rightarrow> (postgres_repo, 'x) world \<Rightarrow> bool" where
  "fresh_world ticks app w \<longleftrightarrow> recorded ticks w \<and> unused_commands ticks app w"

text \<open>The case stands at a record in the repository.\<close>

definition stands_at :: "(nat \<Rightarrow> tick) \<Rightarrow> app_id \<Rightarrow> workflow_record \<Rightarrow> (postgres_repo, 'x) world \<Rightarrow> bool" where
  "stands_at ticks app r w \<longleftrightarrow> fresh_world ticks app w \<and> pg_get app (wd_repo w) = Inr r"

lemma fresh_world_same:
  "wd_repo w' = wd_repo w \<Longrightarrow> wd_ticks w' = wd_ticks w \<Longrightarrow> fresh_world ticks app w' = fresh_world ticks app w"
  by (simp add: fresh_world_def recorded_def unused_commands_def)

lemma advance_once_step:
  assumes s: "intake_wired ticks s" and uuids: "inj (\<lambda>n. tk_uuid (ticks n))"
    and w: "stands_at ticks app r w"
    and run: "advance_once s app actor version (target, reason, b) w = (Inr res, w')"
  shows "stands_at ticks app (tr_workflow res) w' \<and> wf_state (tr_workflow res) = target \<and>
    wf_suggestion (tr_workflow res) = suggestion_or b (wf_suggestion r) \<and>
    wf_version (tr_workflow res) = wf_version r + 1 \<and> wd_fs w' = wd_fs w"
proof -
  let ?t = "ticks (wd_ticks w)" and ?repo = "wd_repo w"
  let ?c = "\<lparr>pa_command_id = tk_uuid ?t, pa_expected_version = version, pa_target_state = target, pa_reason = reason,
      pa_suggestion = b\<rparr>"
  let ?f = "advance_transition ?c actor ?t"
  from w have rec: "recorded ticks w" and new: "command_result app (tk_uuid ?t) ?repo = None"
    and get: "pg_get app ?repo = Inr r"
    by (auto simp: stands_at_def fresh_world_def unused_commands_def)
  from rec have inv: "pg_inv ?repo" and tracked: "pg.tracked ?repo" and unused: "\<not> pg_used ?repo (tk_audit_id ?t)"
    by (auto simp: recorded_def pg.tracked_def)
  obtain evs where view: "pg_view ?repo app = Some (r, evs)"
    using pg.get_view [OF inv, of app] get by (auto split: option.splits)
  from run s obtain r' where adv: "advance_pipeline pg_transition app ?c actor ?t ?repo = Inr (res, r')"
    and w': "w' = w\<lparr>wd_repo := r', wd_ticks := wd_ticks w + 1\<rparr>"
    by (auto simp: advance_once_def commit_def intake_wired_def split: sum.splits)
  then have tr: "pg_transition app (tk_uuid ?t) ?f ?repo = Inr (res, r')" and actor: "PIPELINE \<in> ac_roles actor"
    by (auto simp: advance_pipeline_def require_role_def result_elims)
  show ?thesis
  proof (cases "?f r (length evs + 1)")
    case (Inl e)
    with pg.transition_raises [OF inv _ view, of "tk_uuid ?t" ?f e] new tr show ?thesis by simp
  next
    case (Inr q)
    then obtain r1 ev where q: "?f r (length evs + 1) = Inr (r1, ev)" by (cases q) auto
    then have r1: "wf_state r1 = target" "wf_suggestion r1 = suggestion_or b (wf_suggestion r)" "wf_version r1 = wf_version r + 1"
      by (auto simp: advance_transition_def require_version_def result_elims Let_def split: if_splits)
    from tracked view have h: "history_ok app r evs" by (simp add: pg.tracked_def)
    from advance_good [OF actor, of app ?c ?t] q h
    have g: "good_step app (tk_uuid ?t) (tk_audit_id ?t) r (length evs + 1) r1 ev"
      by (auto simp: good_transition_def history_ok_def)
    then have aid: "ae_audit_id ev = tk_audit_id ?t" by (simp add: good_step_def)
    from pg.transition_ok [of ?repo app "tk_uuid ?t" r evs ?f r1 ev] inv new view q g aid unused tr
    have r': "res = \<lparr>tr_workflow = r1, tr_audit_event = ev\<rparr>" "pg_inv r'"
        "pg_view r' = (pg_view ?repo)(app \<mapsto> (r1, evs @ [ev]))"
        "command_result app k r' = (if k = tk_uuid ?t then Some res else command_result app k ?repo)" for k
      by (auto simp: fun_eq_iff)
    have "command_result app (tk_uuid (ticks n)) r' = None" if "wd_ticks w + 1 \<le> n" for n
    proof -
      have "tk_uuid (ticks n) \<noteq> tk_uuid ?t" using uuids that by (auto dest: injD)
      with r'(4) w that show ?thesis by (simp add: stands_at_def fresh_world_def unused_commands_def)
    qed
    moreover have "recorded ticks w'"
      using recorded_step [of ticks w "Advance app ?c actor" res r'] s rec adv w' by (simp add: intake_wired_def)
    moreover have "pg_get app r' = Inr r1" using pg.get_view [OF r'(2), of app] r'(3) by simp
    ultimately show ?thesis
      using r1 r'(1) w' by (simp add: stands_at_def fresh_world_def unused_commands_def)
  qed
qed

lemma intake_create_step:
  assumes s: "intake_wired ticks s" and uuids: "inj (\<lambda>n. tk_uuid (ticks n))" and w: "fresh_world ticks app w"
    and run: "commit s (create_workflow (rp_create (is_repo s)) app actor None reason) w = (Inr res, w')"
  shows "stands_at ticks app (tr_workflow res) w' \<and> wf_suggestion (tr_workflow res) = None \<and>
    wf_version (tr_workflow res) = 0 \<and> is_ok (pg_get app (wd_repo w)) = False \<and> wd_fs w' = wd_fs w"
proof -
  let ?t = "ticks (wd_ticks w)" and ?repo = "wd_repo w"
  let ?w = "initial_workflow app ?t"
  let ?ev = "service_event (tk_uuid ?t) ?w 1 actor None INTAKE ''create'' reason [(''state'', ChState INTAKE)] ?t"
  from w have rec: "recorded ticks w" and new: "command_result app (tk_uuid ?t) ?repo = None"
    by (auto simp: fresh_world_def unused_commands_def)
  from rec have inv: "pg_inv ?repo" and unused: "\<not> pg_used ?repo (tk_audit_id ?t)"
    by (auto simp: recorded_def pg.tracked_def)
  from run s obtain r' where cr: "create_workflow pg_create app actor None reason ?t ?repo = Inr (res, r')"
    and w': "w' = w\<lparr>wd_repo := r', wd_ticks := wd_ticks w + 1\<rparr>"
    by (auto simp: commit_def intake_wired_def split: sum.splits)
  then have c: "pg_create ?w ?ev ?repo = Inr (res, r')"
    by (auto simp: create_workflow_def result_elims Let_def split: if_splits)
  have "pg_view ?repo app = None"
  proof (rule ccontr)
    assume "pg_view ?repo app \<noteq> None"
    then obtain p where "pg_view ?repo app = Some p" by blast
    from pg.create_exists [OF inv this, of ?w ?ev] new c show False
      by (simp add: initial_workflow_def service_event_def)
  qed
  from pg.create_fresh [OF inv this, of ?w ?ev] c unused
  have r': "res = \<lparr>tr_workflow = ?w, tr_audit_event = ?ev\<rparr>" "pg_inv r'" "pg_view r' = (pg_view ?repo)(app \<mapsto> (?w, [?ev]))"
      "command_result app k r' = (if k = tk_uuid ?t then Some res else command_result app k ?repo)" for k
    by (auto simp: fun_eq_iff initial_workflow_def service_event_def)
  have "command_result app (tk_uuid (ticks n)) r' = None" if "wd_ticks w + 1 \<le> n" for n
  proof -
    have "tk_uuid (ticks n) \<noteq> tk_uuid ?t" using uuids that by (auto dest: injD)
    with r'(4) w that show ?thesis by (simp add: fresh_world_def unused_commands_def)
  qed
  moreover have "recorded ticks w'"
    using recorded_step [of ticks w "Create app actor None reason" res r'] s rec cr w' by (simp add: intake_wired_def)
  moreover have "pg_get app r' = Inr ?w" using pg.get_view [OF r'(2), of app] r'(3) by simp
  moreover have "pg_get app ?repo = Inl (WorkflowNotFoundError app)"
    using pg.get_view [OF inv, of app] \<open>pg_view ?repo app = None\<close> by simp
  ultimately show ?thesis
    using r'(1) w' by (simp add: stands_at_def fresh_world_def unused_commands_def initial_workflow_def)
qed

lemma open_case_reviews:
  assumes s: "intake_wired ticks s" and uuids: "inj (\<lambda>n. tk_uuid (ticks n))" and w: "fresh_world ticks app w"
    and run: "open_case s app actor b w = (Inr res, w')" and b: "b \<noteq> []"
  shows "stands_at ticks app (tr_workflow res) w' \<and> wf_state (tr_workflow res) = AWAITING_HUMAN \<and>
    wf_suggestion (tr_workflow res) = Some b \<and> wf_version (tr_workflow res) = 4 \<and>
    \<not> is_ok (pg_get app (wd_repo w)) \<and> wd_fs w' = wd_fs w"
proof -
  obtain r0 w0 where c: "commit s (create_workflow (rp_create (is_repo s)) app actor None ''Borrower PDFs accepted into intake'') w = (Inr r0, w0)"
    and adv: "advance_all s app actor r0 (review_steps b) w0 = (Inr res, w')"
    using run by (auto simp: open_case_def io_elims)
  note r0 = intake_create_step [OF s uuids w c]
  obtain r1 w1 r2 w2 r3 w3 where
    a: "advance_once s app actor (wf_version (tr_workflow r0)) (EXTRACTED, ''FinDocIQ extracted cited borrower metrics'', None) w0 = (Inr r1, w1)"
      "advance_once s app actor (wf_version (tr_workflow r1)) (RULE_GATED, ''Deterministic funder rules evaluated'', None) w1 = (Inr r2, w2)"
      "advance_once s app actor (wf_version (tr_workflow r2))
        (AI_SUGGESTED, ''Eligible precedents assembled as advisory evidence'', Some b) w2 = (Inr r3, w3)"
      "advance_once s app actor (wf_version (tr_workflow r3))
        (AWAITING_HUMAN, ''Case queued for authoritative human review'', None) w3 = (Inr res, w')"
    using adv by (auto simp: review_steps_def io_elims)
  note r1 = advance_once_step [OF s uuids conjunct1 [OF r0] a(1)]
  note r2 = advance_once_step [OF s uuids conjunct1 [OF r1] a(2)]
  note r3 = advance_once_step [OF s uuids conjunct1 [OF r2] a(3)]
  note r4 = advance_once_step [OF s uuids conjunct1 [OF r3] a(4)]
  from r0 r1 r2 r3 r4 b show ?thesis by (cases b) (simp_all add: suggestion_or_def)
qed

section \<open>The whole call\<close>

lemma prepare_same:
  assumes "prepare_suggestion s pr job_id m files w = (r, w')"
  shows "wd_repo w' = wd_repo w \<and> wd_ticks w' = wd_ticks w"
proof -
  let ?P = "\<lambda>v. wd_repo v = wd_repo w \<and> wd_ticks v = wd_ticks w"
  have "repo_only ?P" by (simp add: repo_only_def)
  from preservesD [OF prepare_preserve [OF this] _ assms] show ?thesis by simp
qed

lemma lift_client_Inr: "lift_client r w = (Inr x, w') \<longleftrightarrow> r = Inr x \<and> w' = w"
  by (auto simp: lift_client_def io_lift_def client_exn_def split: sum.splits)

lemma prepare_bundle:
  assumes "prepare_suggestion s pr job_id m files w = (Inr (documents, b), w')"
  shows "\<exists>a retrieval. assemble (is_sha256 s) None a (is_policies s) retrieval = Inr b"
  using assms by (auto simp: prepare_suggestion_def io_elims lift_client_Inr raising_value_Inr Let_def)

lemma process_intake_body:
  assumes "process_intake s pr job_id actor m files w = (Inr res, w')"
  obtains w1 where "process_body s pr job_id actor m files w1 = (Inr res, w')" "wd_repo w1 = wd_repo w"
    "wd_ticks w1 = wd_ticks w"
  using assms
  by (auto simp: process_intake_def Let_def fail_value_def io_raise_def io_bind_def io_catch_def modify_files_def
      split: if_splits prod.splits sum.splits)

text \<open>
  C13. An intake that succeeds waits for its review: the case is new, it stands in the repository at
  the review with version four and with the bundle assembled under the configured policies, no
  decision is recorded, its manifest is stored and no failure marker is left; and while the
  manifest stands, no further intake of the application succeeds, for whatever files.
\<close>

theorem intake_success_awaits_review:
  assumes "intake_wired ticks s" and "inj (\<lambda>n. tk_uuid (ticks n))" and "fresh_world ticks (im_application_id m) w"
    and "\<And>b. is_bundle_json s b \<noteq> []"
    and "process_intake s pr job_id actor m files w = (Inr res, w')"
  shows "\<not> is_ok (pg_get (im_application_id m) (wd_repo w)) \<and>
    pg_get (im_application_id m) (wd_repo w') = Inr (it_workflow res) \<and>
    wf_state (it_workflow res) = AWAITING_HUMAN \<and> wf_version (it_workflow res) = 4 \<and>
    (\<exists>a retrieval b. assemble (is_sha256 s) None a (is_policies s) retrieval = Inr b \<and>
      wf_suggestion (it_workflow res) = Some (is_bundle_json s b)) \<and>
    dict_get (fs_files (wd_fs w')) (app_dir s (im_application_id m) @ [''FAILED'']) = None \<and>
    (\<forall>pr2 job2 actor2 files2 v. wd_fs v = wd_fs w' \<longrightarrow> \<not> is_ok (fst (process_intake s pr2 job2 actor2 m files2 v)))"
proof -
  let ?app = "im_application_id m"
  let ?dir = "app_dir s ?app"
  obtain w1 where body: "process_body s pr job_id actor m files w1 = (Inr res, w')" and w1: "wd_repo w1 = wd_repo w" "wd_ticks w1 = wd_ticks w"
    by (rule process_intake_body [OF assms(5)])
  obtain documents b w2 r w3 where prep: "prepare_suggestion s pr job_id m files w1 = (Inr (documents, b), w2)"
    and opened: "open_case s ?app actor (is_bundle_json s b) w2 = (Inr r, w3)"
    and res: "it_workflow res = tr_workflow r" and repo: "wd_repo w' = wd_repo w3"
    and files: "fs_files (wd_fs w') = dict_pop (?dir @ [''FAILED'']) (dict_set (?dir @ [''manifest.json''])
      (Plain (is_manifest s m documents (wf_state (tr_workflow r)))) (fs_files (wd_fs w3)))"
    using body
    by (auto simp: process_body_def Let_def io_elims modify_files_def unlink_def put_text_def report_progress_def
        outside_py_def outside_io_def split: prod.splits option.splits)
  have "fresh_world ticks ?app w2"
    using assms(3) prepare_same [OF prep] w1 fresh_world_same [of w2 w ticks ?app] by simp
  note o = open_case_reviews [OF assms(1,2) this opened assms(4)]
  have repo2: "wd_repo w2 = wd_repo w" using prepare_same [OF prep] w1 by simp
  have "\<not> is_ok (fst (process_intake s pr2 job2 actor2 m files2 v))" if "wd_fs v = wd_fs w'" for pr2 job2 actor2 files2 v
    using that files by (simp add: process_intake_def Let_def fail_value_def io_raise_def)
  with o repo2 repo res files prepare_bundle [OF prep] show ?thesis
    by (auto simp: stands_at_def)
qed

text \<open>An intake of one PDF: the extraction answers every question with one figure, and no policy is configured.\<close>

definition demo_response :: ingest_document_response where
  "demo_response = \<lparr>ir_document_id = ''d'', ir_filename = ''a.pdf'', ir_sha256 = zero_hash [], ir_page_count = 1,
     ir_chunk_count = 1, ir_chunk_ids = [], ir_config_hash = zero_hash [], ir_application_id = None, ir_policy_hash = None,
     ir_scan_status = None, ir_scan_receipt = None, ir_dlp_receipt = None, ir_storage_receipt = None,
     ir_ownership_receipt = None\<rparr>"

definition counted_tick :: "nat \<Rightarrow> tick" where
  "counted_tick n = (demo_tick n)\<lparr>tk_uuid := replicate n CHR ''u''\<rparr>"

definition two_figure :: figure where
  "two_figure = \<lparr>fg_label = ''f'', fg_value = ''2'', fg_unit = None, fg_period = None, fg_citation = sample_citation\<rparr>"

definition demo_intake :: "(postgres_repo, unit) intake_service" where
  "demo_intake = \<lparr>is_root = [''data''], is_repo = postgres_ops, is_tick = counted_tick, is_policies = [],
     is_max_file_bytes = 100, is_max_batch_bytes = 100, is_ingest = (\<lambda>_ x. (Inr [demo_response], x)), is_activity = None,
     is_polls = (\<lambda>_. 0),
     is_extract = (\<lambda>_ x. (Inr \<lparr>xr_figures = [two_figure], xr_application_id = None, xr_command_id = None, xr_policy_hash = None\<rparr>, x)),
     is_retrieve = (\<lambda>a _ x. (Inr \<lparr>rr_application_id = ba_application_id a, rr_eligibility = [], rr_matches = []\<rparr>, x)),
     is_prompt = Inr, is_sha256 = zero_hash, is_bundle_json = (\<lambda>_. [(''k'', JNull)]), is_manifest = (\<lambda>_ _ _. ''m'')\<rparr>"

definition demo_metadata :: intake_metadata where
  "demo_metadata = \<lparr>im_application_id = ''app-1'', im_requested_amount_crore = Dec False 10 0, im_loan_type = Term_loan\<rparr>"

definition empty_world :: "(postgres_repo, unit) world" where
  "empty_world = \<lparr>wd_fs = \<lparr>fs_files = [], fs_dirs = [], fs_draws = 0\<rparr>, wd_repo = pg_empty, wd_ext = (), wd_ticks = 0\<rparr>"

definition two_metric :: "fact_name \<Rightarrow> evidence_metric" where
  "two_metric n = \<lparr>em_name = n, em_value = (if n \<in> set text_facts then FText ''2'' else FNum (Dec False 2 0)),
     em_unit = default_unit n, em_period = ''latest reported period'', em_citation = sample_citation\<rparr>"

lemma extract_fact_two: "extract_fact demo_intake None ''app-1'' [''d''] k n w = (Inr (two_metric n), w)"
proof -
  have "is_ok (make_extract_question (''extract_'' @ fact_str n) (Some (''app-1'' @ '':'' @ fact_str n)) [''d''])"
    by (cases n; hypsubst; code_simp)
  then obtain q where "make_extract_question (''extract_'' @ fact_str n) (Some (''app-1'' @ '':'' @ fact_str n)) [''d''] = Inr q"
    by (auto simp: is_ok_iff)
  moreover have "make_evidence n two_figure = Inr (two_metric n)"
    by (cases n; hypsubst; code_simp)
  moreover have "select_figure [two_figure] n = Inr two_figure" by (simp add: select_figure_def)
  ultimately show ?thesis
    by (simp add: extract_fact_def io_bind_def report_progress_def io_ret_def lift_client_def client_exn_def io_lift_def
        outside_io_def demo_intake_def two_figure_def)
qed

lemma extract_facts_two: "extract_facts demo_intake None ''app-1'' [''d''] k ns w = (Inr (map two_metric ns), w)"
  by (induction ns arbitrary: k) (simp_all add: io_bind_def io_ret_def extract_fact_two)

definition two_application :: borrower_application where
  "two_application = (case build_application ''app-1'' demo_metadata (map two_metric EXTRACTED_FACTS) of Inr a \<Rightarrow> a)"

lemma two_application: "build_application ''app-1'' demo_metadata (map two_metric EXTRACTED_FACTS) = Inr two_application"
proof -
  have "is_ok (build_application ''app-1'' demo_metadata (map two_metric EXTRACTED_FACTS))" by code_simp
  then show ?thesis by (auto simp: two_application_def is_ok_iff)
qed

definition no_precedents :: retrieval_result where
  "no_precedents = \<lparr>rr_application_id = ba_application_id two_application, rr_eligibility = [], rr_matches = []\<rparr>"

lemma two_assembled: "is_ok (assemble zero_hash None two_application [] no_precedents)"
  by code_simp

definition upload_world :: "(postgres_repo, unit) world" where
  "upload_world = empty_world\<lparr>wd_fs := make_dirs [''data'', ''app-1'', ''documents''] (wd_fs empty_world)\<rparr>"

definition two_request :: ingest_document_request where
  "two_request = \<lparr>iq_version = V1, iq_filename = ''a.pdf'', iq_sha256 = zero_hash [], iq_content = ''JVBERi0x'',
     iq_application_id = None, iq_command_id = None, iq_policy_hash = None\<rparr>"

lemma b64_two: "b64encode ''%PDF-1'' = ''JVBERi0x''"
  by (simp add: b64_digit_def b64_alphabet_def)

lemma request_two: "make_ingest_document two_request = Inr two_request"
  by code_simp

lemma stored_two: "\<exists>w. store_files demo_intake None ''app-1'' 1 1 [(''a.pdf'', ''%PDF-1'')] upload_world = (Inr [two_request], w)"
proof -
  have "path_name ''a.pdf'' = ''a.pdf''" "ends_with ''.pdf'' (casefold ''a.pdf'')" "starts_with ''%PDF-'' ''%PDF-1''" by (code_simp, code_simp, code_simp)
  moreover have "make_ingest_document \<lparr>iq_version = V1, iq_filename = ''a.pdf'', iq_sha256 = is_sha256 demo_intake c,
      iq_content = ''JVBERi0x'', iq_application_id = None, iq_command_id = None, iq_policy_hash = None\<rparr> = Inr two_request" for c
    using request_two by (simp add: two_request_def demo_intake_def zero_hash_def)
  ultimately show ?thesis
    by (simp add: store_file_def b64_two io_bind_def report_progress_def io_ret_def lift_client_def client_exn_def io_lift_def
        modify_files_def Let_def del: b64encode.simps) (simp add: demo_intake_def)
qed

lemma prepared_two:
  "\<exists>documents b w. prepare_suggestion demo_intake None None demo_metadata [(''a.pdf'', ''%PDF-1'')] upload_world = (Inr (documents, b), w)"
proof -
  obtain w where store: "store_files demo_intake None ''app-1'' 1 1 [(''a.pdf'', ''%PDF-1'')] upload_world = (Inr [two_request], w)"
    using stored_two by blast
  let ?q = "\<lparr>ib_version = V1, ib_batch_id = None, ib_documents = [two_request]\<rparr>"
  have batch: "make_ingest_batch ?q = Inr ?q"
    by (simp add: make_ingest_batch_def consistent_contract_def raising_value_def two_request_def)
  have fixed: "im_application_id demo_metadata = ''app-1''" "is_sha256 demo_intake = zero_hash" "is_policies demo_intake = []"
    by (simp_all add: demo_metadata_def demo_intake_def)
  obtain b where b: "assemble zero_hash None two_application [] no_precedents = Inr b"
    using two_assembled by (auto simp: is_ok_iff)
  have facts: "extract_application demo_intake None demo_metadata (map intake_document_of [demo_response]) v = (Inr two_application, v)" for v
    using extract_facts_two [of 0 EXTRACTED_FACTS v] two_application
    by (simp add: extract_application_def io_bind_def lift_client_def client_exn_def io_lift_def demo_metadata_def
        intake_document_of_def demo_response_def io_ret_def)
  have "ingest_with_activity demo_intake None ?q v = (Inr [demo_response], v)" for v
    by (simp add: ingest_with_activity_def outside_io_def demo_intake_def)
  moreover have "outside_py (is_retrieve demo_intake two_application []) v = (Inr no_precedents, v)"
    for v :: "(postgres_repo, unit) world"
    by (simp add: outside_py_def outside_io_def client_exn_def demo_intake_def no_precedents_def)
  ultimately show ?thesis
    using store batch facts b
    by (simp add: prepare_suggestion_def io_bind_def report_progress_def io_ret_def lift_client_def client_exn_def
        io_lift_def raising_value_def Let_def fixed)
qed

definition taken :: "(findociq_exn + intake_result) \<times> (postgres_repo, unit) world" where
  "taken = process_intake demo_intake None None demo_actor demo_metadata [(''a.pdf'', ''%PDF-1'')] empty_world"

lemma taken_ok: "is_ok (fst taken)"
proof -
  obtain documents b w where prep: "prepare_suggestion demo_intake None None demo_metadata [(''a.pdf'', ''%PDF-1'')] upload_world =
      (Inr (documents, b), w)"
    using prepared_two by blast
  then have w: "wd_repo w = pg_empty" "wd_ticks w = 0"
    using prepare_same [OF prep] by (simp_all add: upload_world_def empty_world_def)
  have moved: "is_ok (fst (open_case demo_intake ''app-1'' demo_actor [(''k'', JNull)] w))"
  proof -
    have "w = empty_world\<lparr>wd_fs := wd_fs w\<rparr>" using w by (simp add: empty_world_def)
    moreover have "is_ok (fst (open_case demo_intake ''app-1'' demo_actor [(''k'', JNull)] (empty_world\<lparr>wd_fs := fs\<rparr>)))" for fs
      by code_simp
    ultimately show ?thesis by metis
  qed
  then obtain r w' where "open_case demo_intake ''app-1'' demo_actor [(''k'', JNull)] w = (Inr r, w')"
    by (cases "open_case demo_intake ''app-1'' demo_actor [(''k'', JNull)] w") (auto simp: is_ok_iff)
  with prep show ?thesis
    by (simp add: taken_def process_intake_def process_body_def Let_def io_bind_def io_catch_def modify_files_def
        report_progress_def io_ret_def demo_metadata_def upload_world_def empty_world_def app_dir_def demo_intake_def
        path_join_def path_parts_def path_absolute_def)
qed

theorem intake_success_awaits_review_witness:
  "\<exists>res w'. taken = (Inr res, w') \<and> wf_state (it_workflow res) = AWAITING_HUMAN"
proof -
  obtain res w' where run: "taken = (Inr res, w')"
    using taken_ok by (intro that [of "projr (fst taken)" "snd taken"] prod_eqI) (auto simp: is_ok_iff)
  have ticks: "inj (\<lambda>n. tk_audit_id (counted_tick n))" "inj (\<lambda>n. tk_uuid (counted_tick n))"
    by (auto intro!: inj_onI simp: counted_tick_def demo_tick_def dest: arg_cong [of _ _ length])
  have "fresh_world counted_tick (im_application_id demo_metadata) empty_world"
    using pg.tracked_empty pg.used_empty
    by (simp add: fresh_world_def recorded_def unused_commands_def empty_world_def command_result_def pg_empty_def)
  moreover have "intake_wired counted_tick demo_intake"
    using ticks by (simp add: intake_wired_def demo_intake_def)
  ultimately have "wf_state (it_workflow res) = AWAITING_HUMAN"
    using intake_success_awaits_review [OF _ ticks(2) _ _ run [unfolded taken_def]] by (simp add: demo_intake_def)
  with run show ?thesis by blast
qed

end
