(* ===== verification/FM_Regex.thy ===== *)
theory FM_Regex
  imports FM_Precedent
begin

text \<open>
  The part of Python's \<open>re\<close> that the code uses: character classes, word boundaries, a look to
  one character behind or ahead, sequence, ordered alternatives and greedy repetition. A
  matcher lists the ends of a match in the order in which \<open>re\<close> tries them, so the first one is the
  match it takes. The text is ASCII, as the classes of the patterns are.
\<close>

section \<open>Patterns\<close>

datatype regex =
    Class "char \<Rightarrow> bool"
  | Boundary
  | Not_Behind "char \<Rightarrow> bool"
  | Not_Ahead "char \<Rightarrow> bool"
  | Then regex regex
  | Else regex regex
  | Times nat "nat option" regex

definition is_upper :: "char \<Rightarrow> bool" where
  "is_upper c \<longleftrightarrow> 65 \<le> (of_char c :: int) \<and> (of_char c :: int) \<le> 90"

definition is_word :: "char \<Rightarrow> bool" where
  "is_word c \<longleftrightarrow> is_upper c \<or> is_lower c \<or> is_digit c \<or> c = CHR ''_''"

definition among :: "string \<Rightarrow> char \<Rightarrow> bool" where
  "among cs c \<longleftrightarrow> c \<in> set cs"

definition letter :: "char \<Rightarrow> bool" where
  "letter c \<longleftrightarrow> is_upper c \<or> is_lower c"

definition letter_digit :: "char \<Rightarrow> bool" where
  "letter_digit c \<longleftrightarrow> letter c \<or> is_digit c"

text \<open>The classes on the bits of a character, for evaluation.\<close>

lemma is_digit_bits [code]:
  "is_digit (Char b0 b1 b2 b3 b4 b5 b6 b7) = (\<not> b7 \<and> \<not> b6 \<and> b5 \<and> b4 \<and> (\<not> b3 \<or> (\<not> b2 \<and> \<not> b1)))"
  by (cases b0; cases b1; cases b2; cases b3; cases b4; cases b5; cases b6; cases b7; simp add: is_digit_def)

lemma is_upper_bits [code]:
  "is_upper (Char b0 b1 b2 b3 b4 b5 b6 b7) = (\<not> b7 \<and> b6 \<and> \<not> b5 \<and>
     (b0 \<or> b1 \<or> b2 \<or> b3 \<or> b4) \<and> \<not> (b4 \<and> b3 \<and> (b2 \<or> (b1 \<and> b0))))"
  by (cases b0; cases b1; cases b2; cases b3; cases b4; cases b5; cases b6; cases b7; simp add: is_upper_def)

lemma is_lower_bits [code]:
  "is_lower (Char b0 b1 b2 b3 b4 b5 b6 b7) = (\<not> b7 \<and> b6 \<and> b5 \<and>
     (b0 \<or> b1 \<or> b2 \<or> b3 \<or> b4) \<and> \<not> (b4 \<and> b3 \<and> (b2 \<or> (b1 \<and> b0))))"
  by (cases b0; cases b1; cases b2; cases b3; cases b4; cases b5; cases b6; cases b7; simp add: is_lower_def)

lemma is_space_bits [code]:
  "is_space (Char b0 b1 b2 b3 b4 b5 b6 b7) = (\<not> b7 \<and> \<not> b6 \<and>
     (if b5 then \<not> b4 \<and> \<not> b3 \<and> \<not> b2 \<and> \<not> b1 \<and> \<not> b0
      else b3 \<and> (if b4 then b2 else (if b2 then \<not> b1 else b1 \<or> b0))))"
  by (cases b0; cases b1; cases b2; cases b3; cases b4; cases b5; cases b6; cases b7; simp add: is_space_def)

lemma lower_char_bits [code]:
  "lower_char (Char b0 b1 b2 b3 b4 b5 b6 b7) =
     Char b0 b1 b2 b3 b4 (b5 \<or> is_upper (Char b0 b1 b2 b3 b4 b5 b6 b7)) b6 b7"
  by (cases b0; cases b1; cases b2; cases b3; cases b4; cases b5; cases b6; cases b7; simp add: is_upper_def lower_char_def char_of_def)

text \<open>Sequences, alternatives and a word in either case.\<close>

fun seq :: "regex list \<Rightarrow> regex" where
  "seq [] = Times 0 (Some 0) Boundary"
| "seq [r] = r"
| "seq (r # s # rs) = Then r (seq (s # rs))"

fun one_of_these :: "regex list \<Rightarrow> regex" where
  "one_of_these [] = Class (\<lambda>_. False)"
| "one_of_these [r] = r"
| "one_of_these (r # s # rs) = Else r (one_of_these (s # rs))"

definition nocase :: "string \<Rightarrow> regex" where
  "nocase w = seq (map (\<lambda>x. Class (\<lambda>c. lower_char c = x)) w)"

definition some :: "regex \<Rightarrow> regex" where
  "some r = Times 1 None r"

definition maybe :: "regex \<Rightarrow> regex" where
  "maybe r = Times 0 (Some 1) r"

definition exactly :: "nat \<Rightarrow> regex \<Rightarrow> regex" where
  "exactly n r = Times n (Some n) r"

section \<open>Matching\<close>

text \<open>A place in a text: the character before it, if there is one, and the rest of the text.\<close>

type_synonym place = "char option \<times> string"

definition word_at :: "char option \<Rightarrow> bool" where
  "word_at x = (case x of None \<Rightarrow> False | Some c \<Rightarrow> is_word c)"

definition next_char :: "string \<Rightarrow> char option" where
  "next_char s = (case s of [] \<Rightarrow> None | c # _ \<Rightarrow> Some c)"

primrec required :: "(place \<Rightarrow> place list) \<Rightarrow> nat \<Rightarrow> place \<Rightarrow> place list" where
  "required f 0 p = [p]"
| "required f (Suc n) p = concat (map (required f n) (f p))"

text \<open>Greedy: more iterations first; an iteration that reads nothing ends the repetition.\<close>

primrec greedy :: "(place \<Rightarrow> place list) \<Rightarrow> nat \<Rightarrow> place \<Rightarrow> place list" where
  "greedy f 0 p = [p]"
| "greedy f (Suc n) p = concat (map (greedy f n) (filter (\<lambda>q. length (snd q) < length (snd p)) (f p))) @ [p]"

definition extend :: "(place \<Rightarrow> place list) \<Rightarrow> nat \<Rightarrow> nat option \<Rightarrow> place \<Rightarrow> place list" where
  "extend f lo hi q = greedy f (case hi of None \<Rightarrow> length (snd q) | Some n \<Rightarrow> n - lo) q"

primrec ends :: "regex \<Rightarrow> place \<Rightarrow> place list" where
  "ends (Class f) p = (case snd p of [] \<Rightarrow> [] | c # cs \<Rightarrow> if f c then [(Some c, cs)] else [])"
| "ends Boundary p = (if word_at (fst p) \<noteq> word_at (next_char (snd p)) then [p] else [])"
| "ends (Not_Behind f) p = (case fst p of None \<Rightarrow> [p] | Some c \<Rightarrow> if f c then [] else [p])"
| "ends (Not_Ahead f) p = (case snd p of [] \<Rightarrow> [p] | c # _ \<Rightarrow> if f c then [] else [p])"
| "ends (Then r s) p = concat (map (ends s) (ends r p))"
| "ends (Else r s) p = ends r p @ ends s p"
| "ends (Times lo hi r) p =
     concat (map (extend (ends r) lo hi) (required (ends r) lo p))"

text \<open>The match at a place: what it reads, which is not empty for the patterns of the code.\<close>

definition match_at :: "regex \<Rightarrow> place \<Rightarrow> place option" where
  "match_at r p =
     (case ends r p of
        [] \<Rightarrow> None
      | q # _ \<Rightarrow> if length (snd q) < length (snd p) then Some q else None)"

section \<open>Search, findall and sub\<close>

text \<open>
  A text cut at the leftmost matches that do not overlap: \<open>Inl c\<close> a character outside a match,
  \<open>Inr m\<close> the text of a match.
\<close>

lemma match_at_shorter: "match_at r p = Some q \<Longrightarrow> length (snd q) < length (snd p)"
  by (auto simp: match_at_def split: list.splits if_splits)

function cuts :: "regex \<Rightarrow> place \<Rightarrow> (char + string) list" where
  "cuts r p =
     (case match_at r p of
        Some q \<Rightarrow> Inr (take (length (snd p) - length (snd q)) (snd p)) # cuts r q
      | None \<Rightarrow> (case snd p of [] \<Rightarrow> [] | c # cs \<Rightarrow> Inl c # cuts r (Some c, cs)))"
  by pat_completeness auto
termination
  by (relation "measure (length \<circ> snd \<circ> snd)") (auto dest: match_at_shorter)

declare cuts.simps [simp del]

lemma cuts_simps:
  "match_at r p = Some q \<Longrightarrow> cuts r p = Inr (take (length (snd p) - length (snd q)) (snd p)) # cuts r q"
  "match_at r p = None \<Longrightarrow> snd p = [] \<Longrightarrow> cuts r p = []"
  "match_at r p = None \<Longrightarrow> snd p = c # cs \<Longrightarrow> cuts r p = Inl c # cuts r (Some c, cs)"
  by (simp_all add: cuts.simps [of r p])

definition pieces :: "regex \<Rightarrow> string \<Rightarrow> (char + string) list" where
  "pieces r s = cuts r (None, s)"

definition find_all :: "regex \<Rightarrow> string \<Rightarrow> string list" where
  "find_all r s = concat (map (case_sum (\<lambda>_. []) (\<lambda>m. [m])) (pieces r s))"

definition found :: "regex \<Rightarrow> string \<Rightarrow> bool" where
  "found r s = (find_all r s \<noteq> [])"

definition sub_all :: "regex \<Rightarrow> string \<Rightarrow> string \<Rightarrow> string" where
  "sub_all r repl s = concat (map (case_sum (\<lambda>c. [c]) (\<lambda>_. repl)) (pieces r s))"

section \<open>What matching reads\<close>

text \<open>An end lies behind its start, on the same text.\<close>

definition reads :: "place \<Rightarrow> place \<Rightarrow> bool" where
  "reads p q \<longleftrightarrow> (\<exists>m. snd p = m @ snd q \<and> fst q = (if m = [] then fst p else Some (last m)))"

lemma reads_refl [simp]: "reads p p"
  by (simp add: reads_def)

lemma reads_trans: "reads p q \<Longrightarrow> reads q t \<Longrightarrow> reads p t"
proof -
  assume "reads p q" "reads q t"
  then obtain m n where "snd p = m @ snd q" "fst q = (if m = [] then fst p else Some (last m))"
    "snd q = n @ snd t" "fst t = (if n = [] then fst q else Some (last n))"
    by (auto simp: reads_def)
  then show ?thesis
    unfolding reads_def by (intro exI [of _ "m @ n"]) auto
qed

lemma required_reads:
  assumes "\<And>p q. q \<in> set (f p) \<Longrightarrow> reads p q"
  shows "q \<in> set (required f n p) \<Longrightarrow> reads p q"
proof (induction n arbitrary: p)
  case (Suc n)
  then obtain t where "t \<in> set (f p)" "q \<in> set (required f n t)" by auto
  with Suc.IH assms show ?case by (blast intro: reads_trans)
qed simp

lemma greedy_reads:
  assumes "\<And>p q. q \<in> set (f p) \<Longrightarrow> reads p q"
  shows "q \<in> set (greedy f n p) \<Longrightarrow> reads p q"
proof (induction n arbitrary: p)
  case (Suc n)
  then consider "q = p" | t where "t \<in> set (f p)" "q \<in> set (greedy f n t)" by auto
  then show ?case
    using Suc.IH assms by cases (simp, blast intro: reads_trans)
qed simp

lemma ends_reads: "q \<in> set (ends r p) \<Longrightarrow> reads p q"
proof (induction r arbitrary: p q)
  case (Class f)
  then obtain c cs where "snd p = c # cs" "q = (Some c, cs)"
    by (cases "snd p") (auto split: if_splits)
  then show ?case by (auto simp: reads_def intro!: exI [of _ "[c]"])
next
  case (Then r s)
  then obtain t where "t \<in> set (ends r p)" "q \<in> set (ends s t)" by auto
  with Then.IH show ?case by (blast intro: reads_trans)
next
  case (Times lo hi r)
  then obtain t where t: "t \<in> set (required (ends r) lo p)"
    "q \<in> set (greedy (ends r) (case hi of None \<Rightarrow> length (snd t) | Some n \<Rightarrow> n - lo) t)"
    by (auto simp: extend_def)
  have "reads p t" by (rule required_reads [OF Times.IH t(1)])
  moreover have "reads t q" by (rule greedy_reads [OF Times.IH t(2)])
  ultimately show ?case by (rule reads_trans)
qed (auto split: if_splits option.splits list.splits)

lemma match_at_reads:
  assumes "match_at r p = Some q"
  obtains m where "m \<noteq> []" "snd p = m @ snd q" "fst q = Some (last m)" "q \<in> set (ends r p)"
proof -
  from assms have q: "q \<in> set (ends r p)" "length (snd q) < length (snd p)"
    by (auto simp: match_at_def split: list.splits if_splits)
  from ends_reads [OF q(1)] obtain m where "snd p = m @ snd q" "fst q = (if m = [] then fst p else Some (last m))"
    by (auto simp: reads_def)
  with q that show ?thesis by (cases "m = []") auto
qed

text \<open>The pieces are the text.\<close>

lemma pieces_text: "concat (map (case_sum (\<lambda>c. [c]) (\<lambda>m. m)) (cuts r p)) = snd p"
proof (induction r p rule: cuts.induct)
  case (1 r p)
  show ?case
  proof (cases "match_at r p")
    case None
    show ?thesis
    proof (cases "snd p")
      case (Cons c cs)
      with 1(1) [OF None Cons] show ?thesis by (simp add: cuts_simps(3) [OF None Cons])
    qed (simp add: cuts_simps(2) [OF None])
  next
    case (Some q)
    then obtain m where "snd p = m @ snd q" by (rule match_at_reads)
    with 1(2) [OF Some] show ?thesis by (simp add: cuts_simps(1) [OF Some])
  qed
qed

section \<open>What a pattern needs\<close>

text \<open>Whether every match of a pattern reads a character of a class.\<close>

primrec needs :: "(char \<Rightarrow> bool) \<Rightarrow> regex \<Rightarrow> bool" where
  "needs g (Class f) = (\<forall>c. f c \<longrightarrow> g c)"
| "needs g Boundary = False"
| "needs g (Not_Behind f) = False"
| "needs g (Not_Ahead f) = False"
| "needs g (Then r s) = (needs g r \<or> needs g s)"
| "needs g (Else r s) = (needs g r \<and> needs g s)"
| "needs g (Times lo hi r) = (0 < lo \<and> needs g r)"

lemma needs_reads:
  assumes "needs g r" and "q \<in> set (ends r p)"
  shows "\<exists>c \<in> set (snd p). g c"
  using assms
proof (induction r arbitrary: p q)
  case (Class f)
  then show ?case by (cases "snd p") (auto split: if_splits)
next
  case (Then r s)
  then obtain t where t: "t \<in> set (ends r p)" "q \<in> set (ends s t)" by auto
  from ends_reads [OF t(1)] obtain m where m: "snd p = m @ snd t" by (auto simp: reads_def)
  from Then.prems(1) consider "needs g r" | "needs g s" by auto
  then show ?case
  proof cases
    case 1
    from Then.IH(1) [OF this t(1)] show ?thesis .
  next
    case 2
    from Then.IH(2) [OF this t(2)] m show ?thesis by auto
  qed
next
  case (Times lo hi r)
  then obtain n t where "lo = Suc n" "t \<in> set (ends r p)" by (cases lo) auto
  with Times show ?case by auto
qed auto

text \<open>A text without the characters that a pattern needs has no match of it.\<close>

lemma cuts_none:
  "needs g r \<Longrightarrow> \<forall>c \<in> set (snd p). \<not> g c \<Longrightarrow> cuts r p = map Inl (snd p)"
proof (induction r p rule: cuts.induct)
  case (1 r p)
  have none: "match_at r p = None"
  proof (cases "ends r p")
    case (Cons q qs)
    with needs_reads [OF 1(3), of q p] 1(4) show ?thesis by simp
  qed (simp add: match_at_def)
  show ?case
  proof (cases "snd p")
    case (Cons c cs)
    with 1(1) [OF none Cons 1(3)] 1(4) show ?thesis by (simp add: cuts_simps(3) [OF none Cons])
  qed (simp add: cuts_simps(2) [OF none])
qed

lemma sub_all_none:
  "needs g r \<Longrightarrow> \<forall>c \<in> set s. \<not> g c \<Longrightarrow> sub_all r repl s = s"
  using cuts_none [of g r "(None, s)"] by (simp add: sub_all_def pieces_def comp_def)

text \<open>\<open>found\<close> is a match at some place of the text.\<close>

definition place_of :: "string \<Rightarrow> string \<Rightarrow> place" where
  "place_of u v = (if u = [] then None else Some (last u), v)"

lemma place_of_snoc: "place_of (w @ [c]) v = (Some c, v)"
  by (simp add: place_of_def)

lemma cuts_found:
  "match_at r (place_of (w @ u) v) \<noteq> None \<Longrightarrow> snd p = u @ v \<Longrightarrow> p = place_of w (u @ v) \<Longrightarrow>
     \<exists>m. Inr m \<in> set (cuts r p)"
proof (induction u arbitrary: w p)
  case Nil
  then obtain q where "match_at r p = Some q" by auto
  from cuts_simps(1) [OF this] show ?case by auto
next
  case (Cons c u)
  show ?case
  proof (cases "match_at r p")
    case None
    have "match_at r (place_of ((w @ [c]) @ u) v) \<noteq> None" using Cons.prems(1) by (simp only: append.simps append_assoc simp_thms)
    then have "\<exists>m. Inr m \<in> set (cuts r (Some c, u @ v))"
      by (rule Cons.IH) (simp_all only: snd_conv place_of_snoc)
    moreover have "cuts r p = Inl c # cuts r (Some c, u @ v)"
      using Cons.prems(2) by (intro cuts_simps(3) [OF None]) simp
    ultimately show ?thesis by auto
  next
    case (Some q)
    from cuts_simps(1) [OF this] show ?thesis by auto
  qed
qed

lemma not_found:
  assumes "\<not> found r (u @ v)"
  shows "match_at r (place_of u v) = None"
proof (rule ccontr)
  assume "match_at r (place_of u v) \<noteq> None"
  then have "match_at r (place_of ([] @ u) v) \<noteq> None" by (simp only: append.simps simp_thms)
  then have "\<exists>m. Inr m \<in> set (cuts r (None, u @ v))"
    by (rule cuts_found) (simp_all only: snd_conv place_of_def if_True simp_thms)
  then obtain m where "Inr m \<in> set (cuts r (None, u @ v))" ..
  then have "m \<in> set (find_all r (u @ v))"
    by (force simp: find_all_def pieces_def)
  with assms show False by (auto simp: found_def)
qed

end
