(* ===== verification/FM_Redaction.thy ===== *)
theory FM_Redaction
  imports FM_Regex
begin

text \<open>
  The local redaction of \<open>security/pii.py\<close>: the seven patterns, applied one after another. It is
  what the write-back and the workers get as their redaction of free text.
\<close>

section \<open>The patterns\<close>

definition digit :: regex where
  "digit = Class is_digit"

definition spaces :: regex where
  "spaces = Times 0 None (Class is_space)"

definition mail_pattern :: regex where
  "mail_pattern = seq
     [Boundary, some (Class (\<lambda>c. letter_digit c \<or> among ''._%+-'' c)), Class (among ''@''),
      some (Class (\<lambda>c. letter_digit c \<or> among ''.-'' c)), Class (among ''.''), Times 2 None (Class letter), Boundary]"

definition pan_pattern :: regex where
  "pan_pattern = seq [Boundary, exactly 5 (Class letter), exactly 4 digit, Class letter, Boundary]"

definition ifsc_pattern :: regex where
  "ifsc_pattern = seq [Boundary, exactly 4 (Class letter), Class (among ''0''), exactly 6 (Class letter_digit), Boundary]"

definition aadhaar_pattern :: regex where
  "aadhaar_pattern = seq
     [Boundary, Class (among ''23456789''), exactly 3 digit, maybe (Class (among '' -'')), exactly 4 digit,
      maybe (Class (among '' -'')), exactly 4 digit, Boundary]"

definition phone_pattern :: regex where
  "phone_pattern = seq
     [Not_Behind is_digit, maybe (seq [Class (among ''+''), Class (among ''9''), Class (among ''1''), maybe (Class (among ''- ''))]),
      Class (among ''6789''), exactly 9 digit, Not_Ahead is_digit]"

definition address_pattern :: regex where
  "address_pattern = seq
     [Boundary,
      one_of_these
        [seq [nocase ''registered'', some (Class is_space), nocase ''office''],
         seq [nocase ''residential'', some (Class is_space), nocase ''address''],
         nocase ''address''],
      spaces, Class (among '':-''), spaces, Times 5 (Some 250) (Class (\<lambda>c. c \<noteq> CHR 0x0A))]"

definition secret_pattern :: regex where
  "secret_pattern = seq
     [Boundary,
      one_of_these
        [nocase ''password'', nocase ''secret'', seq [nocase ''api'', maybe (Class (among ''_ -'')), nocase ''key''], nocase ''token''],
      spaces, Class (among '':=''), spaces, some (Class (\<lambda>c. \<not> is_space c))]"

definition PATTERNS :: "regex list" where
  "PATTERNS = [aadhaar_pattern, pan_pattern, ifsc_pattern, mail_pattern, phone_pattern, address_pattern, secret_pattern]"

definition redact_pattern :: "regex \<Rightarrow> string \<Rightarrow> string" where
  "redact_pattern r s = sub_all r ''[REDACTED]'' s"

definition redact_sensitive_text :: "string \<Rightarrow> string" where
  "redact_sensitive_text s = fold redact_pattern PATTERNS s"

section \<open>Examples of each pattern\<close>

lemma redacted_aadhaar: "redact_sensitive_text ''id 2345 6789-0123 ok'' = ''id [REDACTED] ok''"
  by code_simp

lemma redacted_pan: "redact_sensitive_text ''pan abcde1234f.'' = ''pan [REDACTED].''"
  by code_simp

lemma redacted_mail: "redact_sensitive_text ''mail a.b@c-d.org now'' = ''mail [REDACTED] now''"
  by code_simp

lemma redacted_phone: "redact_sensitive_text ''call +91-9876543210'' = ''call [REDACTED]''"
  by code_simp

lemma redacted_secret: "redact_sensitive_text ''API key = xyz!'' = ''[REDACTED]''"
  by code_simp

text \<open>One pass per pattern: what a later mark sets free for an earlier pattern stays.\<close>

lemma glued_identifier_stays: "redact_sensitive_text ''9876543210ABCDE1234F'' = ''[REDACTED]ABCDE1234F''"
  by code_simp

lemma second_pass_redacts_more: "redact_sensitive_text ''[REDACTED]ABCDE1234F'' = ''[REDACTED][REDACTED]''"
  by code_simp

section \<open>No text is changed without a cause\<close>

definition sensitive_char :: "char \<Rightarrow> bool" where
  "sensitive_char c \<longleftrightarrow> is_digit c \<or> among ''@:=-'' c"

lemmas pattern_defs = PATTERNS_def aadhaar_pattern_def pan_pattern_def ifsc_pattern_def mail_pattern_def phone_pattern_def
  address_pattern_def secret_pattern_def

lemma PATTERNS_need: "list_all (needs sensitive_char) PATTERNS"
  by (auto simp: pattern_defs exactly_def maybe_def digit_def sensitive_char_def among_def is_digit_def)

lemma fold_redact_none:
  "list_all (needs g) rs \<Longrightarrow> \<forall>c \<in> set s. \<not> g c \<Longrightarrow> fold redact_pattern rs s = s"
  by (induction rs) (auto simp: redact_pattern_def sub_all_none)

lemma redaction_leaves_plain_text:
  "\<forall>c \<in> set s. \<not> sensitive_char c \<Longrightarrow> redact_sensitive_text s = s"
  unfolding redact_sensitive_text_def by (rule fold_redact_none [OF PATTERNS_need])

end
