(* ===== verification/FM_Narrative.thy ===== *)
theory FM_Narrative
  imports FM_Redaction FM_Suggest FM_Runtime
begin

text \<open>
  The optional narrative of \<open>suggest/narrative.py\<close>: the facts a language model is given, the checks
  its answer must pass, and the fixed text that replaces it in production. The model, the prompt
  file and the JSON rendering of the facts are parameters.
\<close>

section \<open>The guarded phrases\<close>

definition words :: "string list \<Rightarrow> regex" where
  "words ws = one_of_these (map nocase ws)"

definition blank :: regex where
  "blank = some (Class is_space)"

definition PROHIBITED_AUTHORITY :: regex where
  "PROHIBITED_AUTHORITY = Else
     (seq [Boundary,
        one_of_these [nocase ''should'', nocase ''must'',
          seq [nocase ''recommend'', maybe (words [''s'', ''ed'', ''ation''])]],
        blank, maybe (seq [nocase ''be'', blank]), words [''approve'', ''approved'', ''reject'', ''rejected''], Boundary])
     (seq [Boundary, words [''approve'', ''reject''], blank, words [''this'', ''the''], blank, nocase ''application'', Boundary])"

definition SENSITIVE_OUTPUT :: regex where
  "SENSITIVE_OUTPUT = one_of_these [pan_pattern, ifsc_pattern, mail_pattern]"

definition AUTHORITY_OUTPUT :: regex where
  "AUTHORITY_OUTPUT = seq
     [Boundary,
      one_of_these
        [seq [nocase ''automatically'', blank, words [''approved'', ''rejected'']],
         seq [nocase ''guaranteed'', blank, nocase ''approval''],
         seq [nocase ''we'', blank, words [''approve'', ''reject'']]],
      Boundary]"

definition NUMBER :: regex where
  "NUMBER = seq [maybe (Class (among ''-+'')), some digit, maybe (seq [Class (among ''.''), some digit])]"

section \<open>Models\<close>

record narrative_config =
  nc_model_id :: string
  nc_revision :: string
  nc_temperature :: rat
  nc_seed :: int
  nc_max_tokens :: nat
  nc_production :: bool

record generated_narrative =
  gn_summary :: string
  gn_similarities :: "string list"
  gn_differences :: "string list"
  gn_caveat :: string

definition narrative_text :: "generated_narrative \<Rightarrow> string" where
  "narrative_text n = join_str '' '' (gn_summary n # gn_similarities n @ gn_differences n @ [gn_caveat n])"

definition prohibit_decision_authority :: "generated_narrative \<Rightarrow> py_exn + generated_narrative" where
  "prohibit_decision_authority n =
     ebind (ensure (gn_summary n \<noteq> [] \<and> max_items 1000 (gn_summary n) \<and>
         gn_similarities n \<noteq> [] \<and> max_items 8 (gn_similarities n) \<and>
         gn_differences n \<noteq> [] \<and> max_items 8 (gn_differences n) \<and>
         gn_caveat n \<noteq> [] \<and> max_items 500 (gn_caveat n)) (ValueError ''validation error'')) (\<lambda>_.
     ebind (ensure (\<not> found PROHIBITED_AUTHORITY (narrative_text n))
       (ValueError ''narrative attempted to exercise decision authority'')) (\<lambda>_. Inr n))"

record precedent_facts =
  pf_case_id :: string
  pf_similarity_score :: rat
  pf_historical_outcome :: string
  pf_comparisons :: "string list"
  pf_finance_comment :: string
  pf_operations_comment :: string

record narrative_facts =
  nf_funder_id :: string
  nf_display_name :: string
  nf_passed_rule_count :: nat
  nf_no_close_precedent :: bool
  nf_precedents :: "precedent_facts list"

fun outcome_value :: "decision_outcome \<Rightarrow> string" where
  "outcome_value APPROVED = ''approved''"
| "outcome_value REJECTED = ''rejected''"
| "outcome_value APPROVED_WITH_CONDITIONS = ''approved_with_conditions''"

text \<open>A comment of a team; of several the last one stands.\<close>

definition comment_of :: "reviewer_comment list \<Rightarrow> team \<Rightarrow> string \<Rightarrow> py_exn + string" where
  "comment_of comments team key =
     (case dict_get (dict_of (map (\<lambda>c. (rc_team c, rc_text c)) comments)) team of
        None \<Rightarrow> Inl (KeyError key) | Some t \<Rightarrow> Inr t)"

definition facts_of_precedent :: "explained_precedent \<Rightarrow> py_exn + precedent_facts" where
  "facts_of_precedent e =
     (let c = pm_precedent (ep_match e) in
      ebind (comment_of (dc_comments c) Finance ''finance'') (\<lambda>finance.
      ebind (comment_of (dc_comments c) Operations ''operations'') (\<lambda>operations.
      Inr \<lparr>pf_case_id = dc_case_id c, pf_similarity_score = pm_score (ep_match e),
        pf_historical_outcome = outcome_value (hd_outcome (dc_decision c)),
        pf_comparisons = map (\<lambda>f. sm_metric f @ '': '' @ sm_observation f) (ep_factors e),
        pf_finance_comment = finance, pf_operations_comment = operations\<rparr>)))"

definition from_candidate :: "advisory_candidate \<Rightarrow> py_exn + narrative_facts" where
  "from_candidate c =
     ebind (emap facts_of_precedent (take 2 (ca_precedents c))) (\<lambda>precedents.
     Inr \<lparr>nf_funder_id = ca_funder_id c, nf_display_name = ca_display_name c,
       nf_passed_rule_count = length (ca_passed_checks c), nf_no_close_precedent = ca_no_close_precedent c,
       nf_precedents = precedents\<rparr>)"

record narrative_run =
  nr_model_id :: string
  nr_revision :: string
  nr_temperature :: rat
  nr_seed :: int
  nr_prompt :: prompt_identity
  nr_config_hash :: string
  nr_output :: generated_narrative

section \<open>The client\<close>

record narrative_request =
  nq_model :: string
  nq_temperature :: rat
  nq_seed :: int
  nq_max_tokens :: nat
  nq_system :: string
  nq_facts :: narrative_facts

text \<open>
  What the request may give: one of the exceptions the client catches, another one, or the content
  of the answer, \<open>None\<close> when it is not the JSON of a narrative.
\<close>

datatype narrative_reply = Reply_Caught | Reply_Raised py_exn | Reply_Content "generated_narrative option"

record 'x narrator =
  nv_config :: narrative_config
  nv_stem :: string
  nv_prompt :: "py_exn + string"
  nv_sha256 :: "string \<Rightarrow> string"
  nv_hash_settings :: "narrative_config \<Rightarrow> string \<Rightarrow> string"
  nv_dump :: "narrative_facts \<Rightarrow> string"
  nv_ask :: "narrative_request \<Rightarrow> 'x \<Rightarrow> narrative_reply \<times> 'x"

definition validate_grounded :: "'x narrator \<Rightarrow> generated_narrative \<Rightarrow> narrative_facts \<Rightarrow> py_exn + generated_narrative" where
  "validate_grounded nv output facts =
     (let rendered = narrative_text output in
      ebind (ensure (set (find_all NUMBER rendered) \<subseteq> set (find_all NUMBER (nv_dump nv facts)))
        (ValueError ''narrative introduced an unsupported numeric claim'')) (\<lambda>_.
      ebind (ensure (\<not> found SENSITIVE_OUTPUT rendered)
        (ValueError ''narrative contains a protected identifier'')) (\<lambda>_.
      ebind (ensure (\<not> found AUTHORITY_OUTPUT rendered)
        (ValueError ''narrative attempted to make a lending decision'')) (\<lambda>_.
      ebind (ensure (contains_str ''human'' (casefold (gn_caveat output)))
        (ValueError ''narrative omitted human-decision authority'')) (\<lambda>_. Inr output)))))"

definition make_run ::
  "'x narrator \<Rightarrow> string \<Rightarrow> string \<Rightarrow> rat \<Rightarrow> prompt_identity \<Rightarrow> generated_narrative \<Rightarrow> py_exn + narrative_run" where
  "make_run nv model revision temperature identity output =
     (let config_hash = nv_hash_settings nv (nv_config nv) (pi_sha256 identity) in
      ebind (ensure (hex_sha256 config_hash) (ValueError ''validation error'')) (\<lambda>_.
      Inr \<lparr>nr_model_id = model, nr_revision = revision, nr_temperature = temperature,
        nr_seed = nc_seed (nv_config nv), nr_prompt = identity, nr_config_hash = config_hash, nr_output = output\<rparr>))"

definition fallback_narrative :: "narrative_facts \<Rightarrow> generated_narrative" where
  "fallback_narrative facts =
     \<lparr>gn_summary = nf_display_name facts @ '' passed the configured deterministic checks.'',
      gn_similarities =
        [if nf_precedents facts \<noteq> [] then ''Verified historical precedents are available for reviewer comparison.''
         else ''No close verified precedent is available.''],
      gn_differences = [''Review the cited application evidence and policy checks.''],
      gn_caveat = ''Decision support only; a human reviewer makes the lending decision.''\<rparr>"

definition fallback_run :: "'x narrator \<Rightarrow> narrative_facts \<Rightarrow> prompt_identity \<Rightarrow> py_exn + narrative_run" where
  "fallback_run nv facts identity =
     ebind (prohibit_decision_authority (fallback_narrative facts)) (\<lambda>output.
     make_run nv ''deterministic-template'' ''guardrail-fallback-v1'' 0 identity output)"

definition narrative_request_of :: "'x narrator \<Rightarrow> string \<Rightarrow> narrative_facts \<Rightarrow> narrative_request" where
  "narrative_request_of nv raw facts =
     (let c = nv_config nv in
      \<lparr>nq_model = nc_model_id c, nq_temperature = nc_temperature c, nq_seed = nc_seed c,
       nq_max_tokens = nc_max_tokens c, nq_system = strip raw, nq_facts = facts\<rparr>)"

text \<open>The answer, checked; \<open>Inl\<close> is an exception of the guarded block.\<close>

definition checked_answer :: "'x narrator \<Rightarrow> narrative_facts \<Rightarrow> generated_narrative option \<Rightarrow> py_exn + generated_narrative" where
  "checked_answer nv facts content =
     (case content of
        None \<Rightarrow> Inl (ValueError ''validation error'')
      | Some n \<Rightarrow>
          ebind (prohibit_decision_authority n) (\<lambda>output. validate_grounded nv output facts))"

definition replaced :: "'x narrator \<Rightarrow> narrative_facts \<Rightarrow> prompt_identity \<Rightarrow> py_exn + narrative_run" where
  "replaced nv facts identity =
     (if nc_production (nv_config nv) then fallback_run nv facts identity
      else Inl (RuntimeError ''Gemma narrative generation failed''))"

definition narrated :: "'x narrator \<Rightarrow> narrative_facts \<Rightarrow> prompt_identity \<Rightarrow> narrative_reply \<Rightarrow> py_exn + narrative_run" where
  "narrated nv facts identity reply =
     (case reply of
        Reply_Raised e \<Rightarrow> Inl e
      | Reply_Caught \<Rightarrow> replaced nv facts identity
      | Reply_Content content \<Rightarrow>
          (case checked_answer nv facts content of
             Inl _ \<Rightarrow> replaced nv facts identity
           | Inr output \<Rightarrow>
               make_run nv (nc_model_id (nv_config nv)) (nc_revision (nv_config nv)) (nc_temperature (nv_config nv))
                 identity output))"

definition explain :: "'x narrator \<Rightarrow> advisory_candidate \<Rightarrow> ('x, py_exn, narrative_run) io" where
  "explain nv candidate =
     io_bind (io_lift (nv_prompt nv)) (\<lambda>raw.
     io_bind (io_lift (identify_prompt (nv_sha256 nv) (nv_stem nv) raw)) (\<lambda>identity.
     io_bind (io_lift (from_candidate candidate)) (\<lambda>facts x.
     (case nv_ask nv (narrative_request_of nv raw facts) x of
        (reply, x') \<Rightarrow> (narrated nv facts identity reply, x')))))"

section \<open>What a returned narrative is\<close>

lemma prohibit_decision_authority_Inr:
  "prohibit_decision_authority n = Inr m \<Longrightarrow> m = n \<and> \<not> found PROHIBITED_AUTHORITY (narrative_text n)"
  by (auto simp: prohibit_decision_authority_def result_elims)

lemma validate_grounded_Inr:
  "validate_grounded nv n facts = Inr m \<longleftrightarrow> m = n \<and>
     set (find_all NUMBER (narrative_text n)) \<subseteq> set (find_all NUMBER (nv_dump nv facts)) \<and>
     \<not> found SENSITIVE_OUTPUT (narrative_text n) \<and> \<not> found AUTHORITY_OUTPUT (narrative_text n) \<and>
     contains_str ''human'' (casefold (gn_caveat n))"
  by (auto simp: validate_grounded_def Let_def result_elims)

lemma make_run_Inr:
  "make_run nv model revision temperature identity output = Inr run \<Longrightarrow>
     nr_output run = output \<and> nr_model_id run = model \<and> nr_prompt run = identity \<and> hex_sha256 (nr_config_hash run)"
  by (auto simp: make_run_def Let_def result_elims)

lemma map_sum_Inr_iff: "map_sum f g r = Inr y \<longleftrightarrow> (\<exists>x. r = Inr x \<and> g x = y)"
  by (cases r) auto

lemma fallback_names_human: "contains_str ''human'' (casefold (gn_caveat (fallback_narrative facts)))"
  unfolding fallback_narrative_def generated_narrative.simps by code_simp

lemma fallback_run_Inr:
  assumes "fallback_run nv facts identity = Inr run"
  shows "nr_output run = fallback_narrative facts" and "nr_model_id run = ''deterministic-template''"
    and "\<not> found PROHIBITED_AUTHORITY (narrative_text (nr_output run))"
  using assms by (auto simp: fallback_run_def result_elims dest!: prohibit_decision_authority_Inr make_run_Inr)

lemma narrated_cases:
  assumes "narrated nv facts identity reply = Inr run"
  obtains (fallen_back) "fallback_run nv facts identity = Inr run" "nc_production (nv_config nv)"
  | (answered) n where "reply = Reply_Content (Some n)" "nr_output run = n" "nr_model_id run = nc_model_id (nv_config nv)"
      "prohibit_decision_authority n = Inr n" "validate_grounded nv n facts = Inr n"
proof -
  have fallen: thesis if "replaced nv facts identity = Inr run"
    using that by (auto simp: replaced_def split: if_splits intro: fallen_back)
  show thesis
  proof (cases reply)
    case (Reply_Content content)
    show thesis
    proof (cases "checked_answer nv facts content")
      case (Inr n)
      then obtain m where m: "content = Some m" "prohibit_decision_authority m = Inr m" "validate_grounded nv m facts = Inr n"
        by (auto simp: checked_answer_def result_elims dest: prohibit_decision_authority_Inr split: option.splits)
      then have "n = m" by (simp add: validate_grounded_Inr)
      with m assms Reply_Content Inr show thesis
        by (intro answered [of m]) (auto simp: narrated_def dest: make_run_Inr)
    qed (use assms Reply_Content fallen in \<open>simp add: narrated_def\<close>)
  qed (use assms fallen in \<open>simp_all add: narrated_def\<close>)
qed

text \<open>
  C22. A narrative carries no authority and no fact of its own: whatever the language model answers, a
  narrative that is returned contains no phrase that claims a decision, its caveat names the human,
  and unless it is the fixed text of production its numbers all occur in the facts given to the
  model, it holds no identifier of a person or a bank and no promise of an outcome.
\<close>

theorem narrative_stays_grounded:
  assumes "explain nv candidate x = (Inr run, x')"
  shows "\<exists>facts. from_candidate candidate = Inr facts \<and>
    \<not> found PROHIBITED_AUTHORITY (narrative_text (nr_output run)) \<and>
    contains_str ''human'' (casefold (gn_caveat (nr_output run))) \<and>
    (nc_production (nv_config nv) \<and> nr_output run = fallback_narrative facts \<and> nr_model_id run = ''deterministic-template''
     \<or> set (find_all NUMBER (narrative_text (nr_output run))) \<subseteq> set (find_all NUMBER (nv_dump nv facts)) \<and>
       \<not> found SENSITIVE_OUTPUT (narrative_text (nr_output run)) \<and>
       \<not> found AUTHORITY_OUTPUT (narrative_text (nr_output run)))"
proof -
  obtain raw identity facts reply where facts: "from_candidate candidate = Inr facts"
    and run: "narrated nv facts identity reply = Inr run"
    using assms by (auto simp: explain_def io_elims case_prod_beta)
  from run show ?thesis
  proof (cases rule: narrated_cases)
    case fallen_back
    with facts fallback_run_Inr [OF fallen_back(1)] fallback_names_human show ?thesis by auto
  next
    case (answered n)
    with facts prohibit_decision_authority_Inr [OF answered(4)] show ?thesis by (auto simp: validate_grounded_Inr)
  qed
qed

definition told_candidate :: advisory_candidate where
  "told_candidate = \<lparr>ca_funder_id = ''f1'', ca_display_name = ''Alpha'', ca_passed_checks = [], ca_precedents = [],
     ca_evidence_summary = ''none'', ca_no_close_precedent = True\<rparr>"

definition told_answer :: generated_narrative where
  "told_answer = \<lparr>gn_summary = ''0 rules'', gn_similarities = [''none''], gn_differences = [''none''], gn_caveat = ''Human''\<rparr>"

definition told_narrator :: "bool \<Rightarrow> narrative_reply \<Rightarrow> unit narrator" where
  "told_narrator production reply =
     \<lparr>nv_config = \<lparr>nc_model_id = ''m'', nc_revision = ''r'', nc_temperature = 0, nc_seed = 17, nc_max_tokens = 500,
        nc_production = production\<rparr>,
      nv_stem = ''s'', nv_prompt = Inr ''p'', nv_sha256 = (\<lambda>_. replicate 64 CHR ''0''),
      nv_hash_settings = (\<lambda>_ s. s), nv_dump = (\<lambda>f. str_nat (nf_passed_rule_count f)), nv_ask = (\<lambda>_ x. (reply, x))\<rparr>"

lemma told_ok:
  "map_sum id nr_output (fst (explain (told_narrator False (Reply_Content (Some told_answer))) told_candidate ())) = Inr told_answer"
  by code_simp

lemma told_fallback:
  "map_sum id nr_model_id (fst (explain (told_narrator True
     (Reply_Content (Some (told_answer\<lparr>gn_summary := ''7 rules''\<rparr>)))) told_candidate ())) = Inr ''deterministic-template''"
  by code_simp

theorem narrative_stays_grounded_witness:
  "\<exists>run. fst (explain (told_narrator False (Reply_Content (Some told_answer))) told_candidate ()) = Inr run \<and>
     nr_output run = told_answer \<and> \<not> found PROHIBITED_AUTHORITY (narrative_text (nr_output run))"
proof -
  obtain run u where run: "explain (told_narrator False (Reply_Content (Some told_answer))) told_candidate () = (Inr run, u)"
    "nr_output run = told_answer"
    using told_ok by (cases "explain (told_narrator False (Reply_Content (Some told_answer))) told_candidate ()")
      (auto simp: map_sum_Inr_iff)
  from narrative_stays_grounded [OF run(1)] run show ?thesis by auto
qed

text \<open>In production the model alone cannot make the narrative fail.\<close>

lemma narrative_falls_back:
  assumes "nc_production (nv_config nv)" and "prohibit_decision_authority (fallback_narrative facts) = Inr (fallback_narrative facts)"
    and "hex_sha256 (nv_hash_settings nv (nv_config nv) (pi_sha256 identity))" and "\<And>e. reply \<noteq> Reply_Raised e"
  shows "is_ok (narrated nv facts identity reply)"
  using assms
  by (auto simp: narrated_def replaced_def fallback_run_def make_run_def Let_def
      split: narrative_reply.splits sum.splits)

end
