(* ===== verification/FM_Identity.thy ===== *)
theory FM_Identity
  imports FM_Endpoints
begin

text \<open>
  Prompt files (\<open>prompts.py\<close>), the shared identity of the two services
  (\<open>security/service_identity.py\<close>) and the tokens of the actors (\<open>api/auth.py\<close>). YAML, SHA-256,
  the random token and the check of a JWT's signature, times and audience are parameters.
\<close>

section \<open>Text files\<close>

text \<open>A file is its text and its mode. \<open>make_parents\<close> is \<open>mkdir(parents=True, exist_ok=True)\<close> of the parent.\<close>

record disk =
  dk_files :: "(path \<times> string \<times> nat) list"
  dk_dirs :: "path list"

definition disk_has :: "path \<Rightarrow> disk \<Rightarrow> bool" where
  "disk_has p d \<longleftrightarrow> dict_get (dk_files d) p \<noteq> None \<or> p \<in> set (dk_dirs d)"

definition read_text :: "path \<Rightarrow> disk \<Rightarrow> py_exn + string" where
  "read_text p d =
     (case dict_get (dk_files d) p of None \<Rightarrow> Inl (OtherException ''FileNotFoundError'') | Some (t, _) \<Rightarrow> Inr t)"

definition put_file :: "path \<Rightarrow> string \<Rightarrow> nat \<Rightarrow> disk \<Rightarrow> disk" where
  "put_file p t mode d = d\<lparr>dk_files := dict_set p (t, mode) (dk_files d)\<rparr>"

definition drop_file :: "path \<Rightarrow> disk \<Rightarrow> disk" where
  "drop_file p d = d\<lparr>dk_files := dict_pop p (dk_files d)\<rparr>"

definition make_parents :: "path \<Rightarrow> disk \<Rightarrow> disk" where
  "make_parents p d = d\<lparr>dk_dirs := dk_dirs d @ filter (\<lambda>q. q \<notin> set (dk_dirs d)) (prefixes (butlast p))\<rparr>"

section \<open>Prompts\<close>

definition load_prompt :: "string \<Rightarrow> path \<Rightarrow> disk \<Rightarrow> py_exn + string" where
  "load_prompt name folder d =
     ebind (ensure (name \<noteq> [] \<and> path_name name = name) (ValueError ''unsafe prompt name'')) (\<lambda>_.
     ebind (read_text (folder @ [name @ ''.txt'']) d) (\<lambda>raw.
     let prompt = strip raw in
     ebind (ensure (prompt \<noteq> []) (ValueError (''prompt '' @ name @ '' is empty''))) (\<lambda>_. Inr prompt)))"

text \<open>The settings without the prompt path, with the digest of the prompt.\<close>

definition prompt_config_hash :: "(json_object \<Rightarrow> string) \<Rightarrow> json_object \<Rightarrow> prompt_identity \<Rightarrow> string" where
  "prompt_config_hash canonical_sha256 settings identity =
     canonical_sha256 (dict_set ''prompt_sha256'' (JStr (pi_sha256 identity)) (dict_pop ''prompt_path'' settings))"

section \<open>The policy of the service identity\<close>

record identity_policy =
  ip_issuer :: string
  ip_audience :: string
  ip_maximum_token_age_seconds :: int
  ip_required_correlation_header :: string
  ip_policy_hash :: string

text \<open>
  \<open>yaml.safe_load\<close>, the digest of the canonical JSON, and \<open>str\<close> of a value that is not a string.
\<close>

record policy_reader =
  py_load :: "string \<Rightarrow> py_exn + json"
  py_sha256 :: "json_object \<Rightarrow> string"
  py_render :: "json \<Rightarrow> string"

definition py_str :: "policy_reader \<Rightarrow> json \<Rightarrow> string" where
  "py_str pr v = (case v of JStr s \<Rightarrow> s | _ \<Rightarrow> py_render pr v)"

text \<open>\<open>int\<close> of a number truncates; of a text it reads a sign and digits with single underscores between them.\<close>

definition int_digits :: "string \<Rightarrow> bool" where
  "int_digits s \<longleftrightarrow> s \<noteq> [] \<and> list_all (\<lambda>c. is_digit c \<or> c = CHR ''_'') s \<and> hd s \<noteq> CHR ''_'' \<and> last s \<noteq> CHR ''_'' \<and>
     \<not> contains_str ''__'' s"

definition int_of_text :: "string \<Rightarrow> int option" where
  "int_of_text s =
     (case split_sign (strip s) of
        (neg, rest) \<Rightarrow>
          if int_digits rest
          then Some ((if neg then -1 else 1) * int (nat_of_digits (filter is_digit rest)))
          else None)"

definition py_int :: "json \<Rightarrow> py_exn + int" where
  "py_int v =
     (case v of
        JNum n \<Rightarrow> Inr (if 0 \<le> n then \<lfloor>n\<rfloor> else - \<lfloor>- n\<rfloor>)
      | JBool b \<Rightarrow> Inr (if b then 1 else 0)
      | JStr s \<Rightarrow> (case int_of_text s of None \<Rightarrow> Inl (ValueError ''invalid literal for int()'') | Some i \<Rightarrow> Inr i)
      | _ \<Rightarrow> Inl (OtherException ''TypeError''))"

definition item_of :: "json_object \<Rightarrow> string \<Rightarrow> py_exn + json" where
  "item_of o1 key = (case dict_get o1 key of None \<Rightarrow> Inl (KeyError key) | Some v \<Rightarrow> Inr v)"

definition identity_document :: "json \<Rightarrow> py_exn + (json_object \<times> json_object)" where
  "identity_document doc =
     (case doc of
        JObj payload \<Rightarrow>
          (case dict_get payload ''service_auth'' of
             Some (JObj auth) \<Rightarrow> Inr (payload, auth)
           | _ \<Rightarrow> Inl (ValueError ''service_auth policy is missing''))
      | _ \<Rightarrow> Inl (ValueError ''service_auth policy is missing''))"

definition load_service_identity_policy :: "policy_reader \<Rightarrow> path \<Rightarrow> disk \<Rightarrow> py_exn + identity_policy" where
  "load_service_identity_policy pr p d =
     ebind (read_text p d) (\<lambda>raw.
     ebind (py_load pr raw) (\<lambda>doc.
     ebind (identity_document doc) (\<lambda>(payload, auth).
     let calculated = py_sha256 pr (dict_pop ''policy_hash'' payload) in
     ebind (ensure (case dict_get payload ''policy_hash'' of
         None \<Rightarrow> True | Some supplied \<Rightarrow> json_truthy supplied \<longrightarrow> supplied = JStr calculated)
       (ValueError ''guardrail policy hash is invalid'')) (\<lambda>_.
     ebind (item_of auth ''issuer'') (\<lambda>issuer.
     ebind (item_of auth ''audience'') (\<lambda>audience.
     ebind (ebind (item_of auth ''maximum_token_age_seconds'') py_int) (\<lambda>age.
     ebind (item_of auth ''required_correlation_header'') (\<lambda>header.
     Inr \<lparr>ip_issuer = py_str pr issuer, ip_audience = py_str pr audience, ip_maximum_token_age_seconds = age,
       ip_required_correlation_header = py_str pr header, ip_policy_hash = calculated\<rparr>))))))))"

definition policy_fields :: "identity_policy \<Rightarrow> (string \<times> json) list" where
  "policy_fields p =
     [(''issuer'', JStr (ip_issuer p)), (''audience'', JStr (ip_audience p)),
      (''maximum_token_age_seconds'', JNum (of_int (ip_maximum_token_age_seconds p))),
      (''required_correlation_header'', JStr (ip_required_correlation_header p)),
      (''policy_hash'', JStr (ip_policy_hash p))]"

definition verify_service_identity_policies ::
  "policy_reader \<Rightarrow> path \<Rightarrow> path \<Rightarrow> disk \<Rightarrow> py_exn + identity_policy" where
  "verify_service_identity_policies pr fundermatch_policy findociq_policy d =
     ebind (load_service_identity_policy pr fundermatch_policy d) (\<lambda>consumer.
     ebind (load_service_identity_policy pr findociq_policy d) (\<lambda>producer.
     ebind (ensure (consumer = producer)
       (ValueError (''FinDocIQ service policy mismatch: '' @ join_str '', ''
         (map fst (filter (\<lambda>(name, v). dict_get (policy_fields producer) name \<noteq> Some v) (policy_fields consumer))))))
       (\<lambda>_. Inr consumer)))"

section \<open>Provisioning the shared secret\<close>

text \<open>
  \<open>pv_temp\<close> is the random part of the name of a temporary file; a fault is an \<open>OSError\<close> of the
  creation of the temporary file or of its replacement.
\<close>

record provisioner =
  pv_resolve :: "path \<Rightarrow> path"
  pv_token :: string
  pv_temp :: "path \<Rightarrow> string"
  pv_write_fails :: "path \<Rightarrow> bool"
  pv_replace_fails :: "path \<Rightarrow> bool"
  pv_sha256 :: "string \<Rightarrow> string"

definition os_error :: py_exn where
  "os_error = OtherException ''OSError''"

definition temp_path :: "provisioner \<Rightarrow> path \<Rightarrow> path" where
  "temp_path pv p = butlast p @ [''.'' @ last p @ ''.'' @ pv_temp pv p]"

definition owner_only :: nat where
  "owner_only = 384"

definition secret_line :: "string \<Rightarrow> string" where
  "secret_line value = value @ [CHR 0x0A]"

fun stage_secrets ::
  "provisioner \<Rightarrow> path list \<Rightarrow> (path \<times> path) list \<Rightarrow> disk \<Rightarrow> py_exn option \<times> (path \<times> path) list \<times> disk" where
  "stage_secrets pv [] staged d = (None, staged, d)"
| "stage_secrets pv (p # ps) staged d =
     (let d1 = make_parents p d in
      if pv_write_fails pv p then (Some os_error, staged, d1)
      else stage_secrets pv ps (staged @ [(temp_path pv p, p)])
        (put_file (temp_path pv p) (secret_line (pv_token pv)) owner_only d1))"

fun publish_secrets :: "provisioner \<Rightarrow> (path \<times> path) list \<Rightarrow> disk \<Rightarrow> py_exn option \<times> disk" where
  "publish_secrets pv [] d = (None, d)"
| "publish_secrets pv ((t, p) # rest) d =
     (if pv_replace_fails pv p then (Some os_error, d)
      else case dict_get (dk_files d) t of
        None \<Rightarrow> (Some (OtherException ''FileNotFoundError''), d)
      | Some (text, mode) \<Rightarrow> publish_secrets pv rest (put_file p text owner_only (drop_file t d)))"

definition provision_shared_secret :: "provisioner \<Rightarrow> path list \<Rightarrow> (disk, py_exn, string) io" where
  "provision_shared_secret pv destinations d =
     (let resolved = map (pv_resolve pv) destinations in
      if length destinations < 2 then (Inl (ValueError ''at least two deployment secret destinations are required''), d)
      else if \<not> distinct resolved then (Inl (ValueError ''deployment secret destinations must be distinct''), d)
      else if list_ex (\<lambda>p. disk_has p d) resolved then (Inl (OtherException ''FileExistsError''), d)
      else case stage_secrets pv resolved [] d of
        (Some e, staged, d1) \<Rightarrow> (Inl e, fold (drop_file \<circ> fst) staged d1)
      | (None, staged, d1) \<Rightarrow>
          (case publish_secrets pv staged d1 of
             (Some e, d2) \<Rightarrow> (Inl e, fold (drop_file \<circ> fst) staged d2)
           | (None, d2) \<Rightarrow> (Inr (pv_sha256 pv (pv_token pv)), fold (drop_file \<circ> fst) staged d2)))"

section \<open>Verifying the identity\<close>

definition MINIMUM_SECRET_LENGTH :: nat where
  "MINIMUM_SECRET_LENGTH = 32"

record identity_receipt =
  sr_policy :: identity_policy
  sr_secret_fingerprint :: string
  sr_verified_at :: string

definition verify_service_identity ::
  "policy_reader \<Rightarrow> (string \<Rightarrow> string) \<Rightarrow> string \<Rightarrow> path \<Rightarrow> path \<Rightarrow> path \<Rightarrow> path \<Rightarrow> disk \<Rightarrow> py_exn + identity_receipt" where
  "verify_service_identity pr sha256 now fundermatch_secret findociq_secret fundermatch_policy findociq_policy d =
     ebind (verify_service_identity_policies pr fundermatch_policy findociq_policy d) (\<lambda>consumer.
     ebind (read_text fundermatch_secret d) (\<lambda>c.
     ebind (read_text findociq_secret d) (\<lambda>p.
     let consumer_secret = strip c; producer_secret = strip p in
     ebind (ensure (MINIMUM_SECRET_LENGTH \<le> length consumer_secret \<and> MINIMUM_SECRET_LENGTH \<le> length producer_secret)
       (ValueError ''service JWT secret must contain at least 32 characters'')) (\<lambda>_.
     ebind (ensure (consumer_secret = producer_secret)
       (ValueError ''FunderMatch and FinDocIQ service JWT secrets differ'')) (\<lambda>_.
     Inr \<lparr>sr_policy = consumer, sr_secret_fingerprint = sha256 consumer_secret, sr_verified_at = now\<rparr>)))))"

section \<open>The tokens of the actors\<close>

text \<open>
  \<open>au_decode\<close> is \<open>jwt.decode\<close> with the algorithm, issuer, audience and required claims of the
  code; \<open>None\<close> is one of its errors.
\<close>

record authenticator =
  au_decode :: "string \<Rightarrow> string \<Rightarrow> json_object option"
  au_secret :: string

definition make_authenticator :: "(string \<Rightarrow> string \<Rightarrow> json_object option) \<Rightarrow> string \<Rightarrow> py_exn + authenticator" where
  "make_authenticator decode secret =
     ebind (ensure (32 \<le> length secret) (ValueError ''JWT secret must contain at least 32 characters'')) (\<lambda>_.
     Inr \<lparr>au_decode = decode, au_secret = secret\<rparr>)"

definition role_of :: "json \<Rightarrow> actor_role option" where
  "role_of v = (if v = JStr (role_value PIPELINE) then Some PIPELINE
     else if v = JStr (role_value HUMAN_REVIEWER) then Some HUMAN_REVIEWER else None)"

definition jwt_claims :: "json_object \<Rightarrow> actor_claims option" where
  "jwt_claims payload =
     (case (dict_get payload ''sub'', dict_get payload ''name'', dict_get payload ''roles'') of
        (Some (JStr sub), Some (JStr name), Some (JArr roles)) \<Rightarrow>
          if sub \<noteq> [] \<and> name \<noteq> [] \<and> list_all (\<lambda>r. role_of r \<noteq> None) roles
          then Some \<lparr>ac_actor_id = sub, ac_display_name = name, ac_roles = set (map (the \<circ> role_of) roles)\<rparr>
          else None
      | _ \<Rightarrow> None)"

definition authenticate :: "authenticator \<Rightarrow> string \<Rightarrow> py_exn + actor_claims" where
  "authenticate au token =
     (case Option.bind (au_decode au (au_secret au) token) jwt_claims of
        None \<Rightarrow> Inl workflow_forbidden | Some claims \<Rightarrow> Inr claims)"

definition actor_from_token :: "authenticator \<Rightarrow> string option \<Rightarrow> api_exn + actor_claims" where
  "actor_from_token au token =
     (case token of
        None \<Rightarrow> Inl (Http_error 401 ''bearer token required'')
      | Some t \<Rightarrow>
          (case authenticate au t of
             Inl e \<Rightarrow> Inl (if e = workflow_forbidden then Http_error 401 ''invalid bearer token'' else Raised e)
           | Inr claims \<Rightarrow> Inr claims))"

text \<open>An endpoint behind the token check.\<close>

definition with_actor ::
  "authenticator \<Rightarrow> string option \<Rightarrow> (actor_claims \<Rightarrow> ('r, 'j, 'q, 'y, 'l, 'a) api_io) \<Rightarrow> ('r, 'j, 'q, 'y, 'l, 'a) api_io" where
  "with_actor au token endpoint = io_bind (io_lift (actor_from_token au token)) endpoint"

end
