(* ===== verification/FM_Identity_Props.thy ===== *)
theory FM_Identity_Props
  imports FM_Identity FM_Governance_Props
begin

text \<open>
  What provisioning and verifying the shared secret guarantee together, and which token a recorded
  decision needs.
\<close>

section \<open>The files of a provisioning\<close>

abbreviation file_at :: "disk \<Rightarrow> path \<Rightarrow> (string \<times> nat) option" where
  "file_at d \<equiv> dict_get (dk_files d)"

lemma file_at_simps [simp]:
  "file_at (put_file p t mode d) q = (if q = p then Some (t, mode) else file_at d q)"
  "file_at (drop_file p d) q = (if q = p then None else file_at d q)"
  "file_at (make_parents p d) q = file_at d q"
  by (simp_all add: put_file_def drop_file_def make_parents_def)

lemma file_at_drops: "file_at (fold (drop_file \<circ> fst) staged d) q = (if q \<in> fst ` set staged then None else file_at d q)"
  by (induction staged arbitrary: d) auto

abbreviation staged_secret :: "provisioner \<Rightarrow> (string \<times> nat) option" where
  "staged_secret pv \<equiv> Some (secret_line (pv_token pv), owner_only)"

lemma stage_secrets_files:
  assumes "stage_secrets pv ps staged d = (e, staged', d')"
  shows "\<exists>made. prefix made ps \<and> staged' = staged @ map (\<lambda>p. (temp_path pv p, p)) made \<and> (e = None \<longrightarrow> made = ps) \<and>
    (\<forall>q. file_at d' q = (if q \<in> temp_path pv ` set made then staged_secret pv else file_at d q))"
  using assms
proof (induction pv ps staged d arbitrary: e staged' d' rule: stage_secrets.induct)
  case (1 pv staged d)
  then show ?case by (intro exI [of _ "[]"]) auto
next
  case (2 pv p ps staged d)
  show ?case
  proof (cases "pv_write_fails pv p")
    case True
    with 2(2) show ?thesis by (intro exI [of _ "[]"]) (auto simp: Let_def)
  next
    case False
    let ?d = "put_file (temp_path pv p) (secret_line (pv_token pv)) owner_only (make_parents p d)"
    have "stage_secrets pv ps (staged @ [(temp_path pv p, p)]) ?d = (e, staged', d')"
      using 2(2) False by (simp add: Let_def)
    from 2(1) [OF refl False this] obtain made where made: "prefix made ps"
      "staged' = (staged @ [(temp_path pv p, p)]) @ map (\<lambda>p. (temp_path pv p, p)) made" "e = None \<longrightarrow> made = ps"
      "\<forall>q. file_at d' q = (if q \<in> temp_path pv ` set made then staged_secret pv else file_at ?d q)"
      by blast
    have "file_at d' q = (if q \<in> temp_path pv ` set (p # made) then staged_secret pv else file_at d q)" for q
      using made(4) by (cases "q = temp_path pv p") auto
    with made(1-3) show ?thesis by (intro exI [of _ "p # made"]) auto
  qed
qed

lemma publish_secrets_files:
  assumes "publish_secrets pv staged d = (e, d')"
    and "distinct (map fst staged @ map snd staged)"
    and "\<And>t. t \<in> fst ` set staged \<Longrightarrow> file_at d t = staged_secret pv"
  shows "(e = None \<longrightarrow> (\<forall>p \<in> snd ` set staged. file_at d' p = staged_secret pv)) \<and>
    (\<forall>q. q \<notin> fst ` set staged \<union> snd ` set staged \<longrightarrow> file_at d' q = file_at d q)"
  using assms
proof (induction pv staged d arbitrary: e d' rule: publish_secrets.induct)
  case (2 pv t p rest d)
  let ?d = "put_file p (secret_line (pv_token pv)) owner_only (drop_file t d)"
  have t: "file_at d t = staged_secret pv" using 2(4) [of t] by simp
  show ?case
  proof (cases "pv_replace_fails pv p")
    case False
    with 2(2) t have pub: "publish_secrets pv rest ?d = (e, d')" by simp
    have rest: "file_at ?d u = staged_secret pv" if "u \<in> fst ` set rest" for u
      using that 2(3) 2(4) [of u] by auto
    have dist: "distinct (map fst rest @ map snd rest)" using 2(3) by auto
    have ih: "(e = None \<longrightarrow> (\<forall>p \<in> snd ` set rest. file_at d' p = staged_secret pv)) \<and>
      (\<forall>q. q \<notin> fst ` set rest \<union> snd ` set rest \<longrightarrow> file_at d' q = file_at ?d q)"
      using t by (intro 2(1) [OF False _ _ pub dist rest]) simp_all
    have "p \<notin> fst ` set rest \<union> snd ` set rest" using 2(3) by auto
    with ih have "file_at d' p = staged_secret pv" by simp
    with ih show ?thesis by auto
  qed (use 2(2) in auto)
qed auto

lemma strip_secret_line:
  assumes "list_all (\<lambda>c. \<not> is_space c) t"
  shows "strip (secret_line t) = t"
proof -
  have "is_space (CHR 0x0A)" by (simp add: is_space_def)
  moreover have keep: "dropWhile is_space u = u" if "list_all (\<lambda>c. \<not> is_space c) u" for u
    using that by (cases u) auto
  moreover have "dropWhile is_space (t @ [CHR 0x0A]) = (if t = [] then [] else t @ [CHR 0x0A])"
    using assms calculation(1) by (cases t) auto
  ultimately show ?thesis
    using assms keep [of "rev t"] by (auto simp: strip_def secret_line_def)
qed

section \<open>One secret for two deployments\<close>

text \<open>
  C23. What is provisioned verifies: when provisioning returns a fingerprint, every destination holds
  the same secret readable by its owner only, no temporary file is left and no other file is
  touched; and verifying any two of the destinations, under policies that agree, gives a receipt
  with that fingerprint.
\<close>

theorem provisioned_identity_verifies:
  assumes "provision_shared_secret pv destinations d = (Inr fingerprint, d')"
    and "resolved = map (pv_resolve pv) destinations" and "distinct (map (temp_path pv) resolved @ resolved)"
    and "MINIMUM_SECRET_LENGTH \<le> length (pv_token pv)" and "list_all (\<lambda>c. \<not> is_space c) (pv_token pv)"
    and "p \<in> set resolved" and "q \<in> set resolved"
    and "verify_service_identity_policies pr consumer producer d' = Inr policy"
  shows "verify_service_identity pr (pv_sha256 pv) now p q consumer producer d' =
      Inr \<lparr>sr_policy = policy, sr_secret_fingerprint = fingerprint, sr_verified_at = now\<rparr> \<and>
    dict_get (dk_files d') p = Some (secret_line (pv_token pv), owner_only) \<and>
    dict_get (dk_files d') (temp_path pv p) = None \<and>
    (f \<notin> set (map (temp_path pv) resolved @ resolved) \<longrightarrow> dict_get (dk_files d') f = dict_get (dk_files d) f)"
proof -
  let ?staged = "map (\<lambda>p. (temp_path pv p, p)) resolved"
  obtain e1 st d1 where stage: "stage_secrets pv resolved [] d = (e1, st, d1)" by (rule prod_cases3)
  obtain e2 d2 where publish: "publish_secrets pv st d1 = (e2, d2)" by (rule prod.exhaust)
  have none: "e1 = None" "e2 = None" and d': "d' = fold (drop_file \<circ> fst) st d2"
    and fp: "fingerprint = pv_sha256 pv (pv_token pv)"
    using assms(1,2) stage publish by (auto simp: provision_shared_secret_def Let_def split: if_splits option.splits)
  from stage_secrets_files [OF stage] none have st: "st = ?staged"
    and files1: "file_at d1 u = (if u \<in> temp_path pv ` set resolved then staged_secret pv else file_at d u)" for u
    by auto
  have fst_st: "fst ` set st = temp_path pv ` set resolved" "snd ` set st = set resolved"
    by (force simp: st)+
  have published: "(e2 = None \<longrightarrow> (\<forall>p \<in> snd ` set st. file_at d2 p = staged_secret pv)) \<and>
      (\<forall>u. u \<notin> fst ` set st \<union> snd ` set st \<longrightarrow> file_at d2 u = file_at d1 u)"
    using assms(3) by (intro publish_secrets_files [OF publish]) (simp_all add: fst_st files1, simp add: st comp_def)
  have files2: "file_at d2 u = staged_secret pv" if "u \<in> set resolved" for u
    using published that none fst_st by auto
  have other: "file_at d2 u = file_at d1 u" if "u \<notin> temp_path pv ` set resolved \<union> set resolved" for u
    using published that fst_st by auto
  have files: "file_at d' u = (if u \<in> temp_path pv ` set resolved then None else file_at d2 u)" for u
    by (simp add: d' file_at_drops fst_st)
  have disjoint: "u \<notin> temp_path pv ` set resolved" if "u \<in> set resolved" for u
    using assms(3) that by auto
  have "read_text u d' = Inr (secret_line (pv_token pv))" if "u \<in> set resolved" for u
    using files files2 disjoint that by (simp add: read_text_def)
  then have "verify_service_identity pr (pv_sha256 pv) now p q consumer producer d' =
      Inr \<lparr>sr_policy = policy, sr_secret_fingerprint = fingerprint, sr_verified_at = now\<rparr>"
    using assms(4-8) by (simp add: verify_service_identity_def strip_secret_line fp Let_def)
  moreover have "file_at d' f = file_at d f" if "f \<notin> set (map (temp_path pv) resolved @ resolved)"
    using files other files1 that by simp
  ultimately show ?thesis
    using files files2 disjoint assms(6) by simp
qed

definition two_homes :: "path list" where
  "two_homes = [[''a'', ''jwt''], [''b'', ''jwt'']]"

definition demo_provisioner :: "(path \<Rightarrow> bool) \<Rightarrow> provisioner" where
  "demo_provisioner fails = \<lparr>pv_resolve = id, pv_token = replicate 64 CHR ''k'', pv_temp = (\<lambda>_. ''tmp''),
     pv_write_fails = (\<lambda>_. False), pv_replace_fails = fails, pv_sha256 = id\<rparr>"

definition policy_disk :: disk where
  "policy_disk = \<lparr>dk_files = [([''policy''], ''yaml'', 420)], dk_dirs = []\<rparr>"

definition demo_reader :: policy_reader where
  "demo_reader = \<lparr>py_load = (\<lambda>_. Inr (JObj [(''service_auth'', JObj [(''issuer'', JStr ''i''), (''audience'', JStr ''a''),
     (''maximum_token_age_seconds'', JNum 300), (''required_correlation_header'', JStr ''h'')])])),
     py_sha256 = (\<lambda>_. ''0''), py_render = (\<lambda>_. [])\<rparr>"

definition demo_identity_policy :: identity_policy where
  "demo_identity_policy = \<lparr>ip_issuer = ''i'', ip_audience = ''a'', ip_maximum_token_age_seconds = 300,
     ip_required_correlation_header = ''h'', ip_policy_hash = ''0''\<rparr>"

lemma demo_provisioned:
  "case provision_shared_secret (demo_provisioner (\<lambda>_. False)) two_homes policy_disk of (r, d') \<Rightarrow>
     is_ok r \<and> verify_service_identity_policies demo_reader [''policy''] [''policy''] d' = Inr demo_identity_policy"
  by code_simp

theorem provisioned_identity_verifies_witness:
  "\<exists>fingerprint d'. provision_shared_secret (demo_provisioner (\<lambda>_. False)) two_homes policy_disk = (Inr fingerprint, d') \<and>
     verify_service_identity demo_reader id ''now'' [''a'', ''jwt''] [''b'', ''jwt''] [''policy''] [''policy''] d' =
       Inr \<lparr>sr_policy = demo_identity_policy, sr_secret_fingerprint = fingerprint, sr_verified_at = ''now''\<rparr>"
proof -
  let ?pv = "demo_provisioner (\<lambda>_. False)"
  obtain fp d' where run: "provision_shared_secret ?pv two_homes policy_disk = (Inr fp, d')"
    and policy: "verify_service_identity_policies demo_reader [''policy''] [''policy''] d' = Inr demo_identity_policy"
    using demo_provisioned by (auto simp: is_ok_iff split: prod.splits)
  have "verify_service_identity demo_reader (pv_sha256 ?pv) ''now'' [''a'', ''jwt''] [''b'', ''jwt''] [''policy''] [''policy''] d' =
       Inr \<lparr>sr_policy = demo_identity_policy, sr_secret_fingerprint = fp, sr_verified_at = ''now''\<rparr>"
    by (rule conjunct1 [OF provisioned_identity_verifies [OF run refl _ _ _ _ _ policy]])
      (simp_all add: demo_provisioner_def two_homes_def temp_path_def MINIMUM_SECRET_LENGTH_def is_space_def list_all_iff)
  with run show ?thesis by (auto simp: demo_provisioner_def)
qed

text \<open>
  A fault between the two replacements leaves one destination with the secret, and the next attempt is
  refused because that file exists.
\<close>

lemma half_provisioned:
  "case provision_shared_secret (demo_provisioner (\<lambda>p. p = [''b'', ''jwt''])) two_homes policy_disk of (r, d') \<Rightarrow>
     \<not> is_ok r \<and> disk_has [''a'', ''jwt''] d' \<and> \<not> disk_has [''b'', ''jwt''] d' \<and>
     fst (provision_shared_secret (demo_provisioner (\<lambda>_. False)) two_homes d') = Inl (OtherException ''FileExistsError'')"
  by code_simp

section \<open>Decisions and tokens\<close>

text \<open>
  C21. A decision needs a signed role: whoever sends it, a decision request succeeds only when its bearer
  token passes the check of the signature and the signed claims list the role of a human reviewer.
\<close>

theorem decision_needs_signed_role:
  assumes "with_actor au token (\<lambda>actor. human_decision_endpoint sv actor app command) g = (Inr res, g')"
  shows "\<exists>t payload roles. token = Some t \<and> au_decode au (au_secret au) t = Some payload \<and>
    dict_get payload ''roles'' = Some (JArr roles) \<and> JStr ''human_reviewer'' \<in> set roles"
proof -
  obtain actor t where t: "token = Some t" "authenticate au t = Inr actor"
    and run: "human_decision_endpoint sv actor app command g = (Inr res, g')"
    using assms
    by (auto simp: with_actor_def io_elims actor_from_token_def split: option.splits sum.splits)
  have "HUMAN_REVIEWER \<in> ac_roles actor"
    using run
    by (auto simp: human_decision_endpoint_def http_def io_raise_def api_def commit_call_def in_world_def repo_call_def
        decide_def require_role_def io_bind_def ebind_Inr_iff ensure_Inr_iff split: if_splits prod.splits sum.splits)
  moreover obtain payload where "au_decode au (au_secret au) t = Some payload" "jwt_claims payload = Some actor"
    using t(2) by (auto simp: authenticate_def bind_eq_Some_conv split: option.splits)
  ultimately show ?thesis
    using t(1)
    by (force simp: jwt_claims_def role_of_def list_all_iff split: option.splits json.splits if_splits)
qed

definition reviewer_token :: "string \<Rightarrow> string \<Rightarrow> json_object option" where
  "reviewer_token secret t =
     (if t = ''signed'' then Some [(''sub'', JStr ''h''), (''name'', JStr ''H''), (''roles'', JArr [JStr ''human_reviewer''])]
      else None)"

definition demo_authenticator :: authenticator where
  "demo_authenticator = \<lparr>au_decode = reviewer_token, au_secret = replicate 32 CHR ''s''\<rparr>"

definition token_decision :: human_decision_command where
  "token_decision = \<lparr>hc_command_id = ''c5'', hc_expected_version = 4, hc_action = REJECT, hc_funder_id = Some ''f1'',
     hc_reason = ''r'', hc_conditions = [], hc_overrides = [], hc_restart_stage = None\<rparr>"

definition queued_state :: "(postgres_repo, postgres_jobs, demo_db, unit, life_store) service_state" where
  "queued_state = governed_state\<lparr>gr_world := (gr_world governed_state)
     \<lparr>wd_repo := service_run pg_create pg_transition (take 5 demo_session) pg_empty\<rparr>\<rparr>"

definition decided_with :: "string option \<Rightarrow> api_exn + transition_result" where
  "decided_with token = fst (with_actor demo_authenticator token
     (\<lambda>actor. human_decision_endpoint governed_service actor ''app-1'' token_decision) queued_state)"

lemma decided_with_token: "is_ok (decided_with (Some ''signed''))"
  by code_simp

lemma decided_without_token: "decided_with None = Inl (Http_error 401 ''bearer token required'')"
  by (simp add: decided_with_def with_actor_def actor_from_token_def io_bind_def io_raise_def)

theorem decision_needs_signed_role_witness:
  "\<exists>t payload roles. Some ''signed'' = Some t \<and> reviewer_token (au_secret demo_authenticator) t = Some payload \<and>
     dict_get payload ''roles'' = Some (JArr roles) \<and> JStr ''human_reviewer'' \<in> set roles"
proof -
  obtain res g' where "with_actor demo_authenticator (Some ''signed'')
      (\<lambda>actor. human_decision_endpoint governed_service actor ''app-1'' token_decision) queued_state = (Inr res, g')"
    using decided_with_token by (auto simp: decided_with_def is_ok_iff prod_eq_iff)
  from decision_needs_signed_role [OF this] show ?thesis by (simp add: demo_authenticator_def)
qed

end
