(* ===== verification/FM_Evals.thy ===== *)
theory FM_Evals
  imports FM_Writeback
begin

text \<open>
  The release evaluation: the metrics of \<open>evals/metrics.py\<close>, the held-out cases of
  \<open>evals/schema.py\<close>, the corpus loader of \<open>precedent/corpus.py\<close> and the gate of
  \<open>evals/release_runner.py\<close> from the loaded files to its report and exit status. Numbers are exact
  rationals; the parsing of a line into a record is a parameter.
\<close>

section \<open>Retrieval metrics\<close>

record retrieval_observation =
  rl_case_id :: string
  rl_expected_precedent_ids :: "string list"
  rl_ranked_precedent_ids :: "string list"
  rl_forbidden_funder_leakage :: bool

record retrieval_report =
  rm_n :: nat
  rm_eligible_only_recall_at_3 :: rat
  rm_mrr :: rat
  rm_ndcg_at_3 :: rat

definition mean :: "rat list \<Rightarrow> rat" where
  "mean xs = sum_list xs / of_nat (length xs)"

text \<open>\<open>1.0 / math.log2(index + 1)\<close> for the indices 1, 2 and 3; the logarithm of 3 is the double nearest to it.\<close>

definition LOG2_OF_3 :: rat where
  "LOG2_OF_3 = 892254565955501 / 562949953421312"

definition discounts :: "rat list" where
  "discounts = [1, 1 / LOG2_OF_3, 1 / 2]"

definition recall_at_3 :: "string list \<Rightarrow> string list \<Rightarrow> rat" where
  "recall_at_3 expected ranked =
     of_nat (length (filter (\<lambda>x. x \<in> set (take 3 ranked)) (remdups expected))) / of_nat (length (remdups expected))"

definition first_rank :: "string list \<Rightarrow> string list \<Rightarrow> nat option" where
  "first_rank expected ranked =
     (let i = length (takeWhile (\<lambda>x. x \<notin> set expected) ranked) in if i < length ranked then Some (i + 1) else None)"

definition reciprocal_rank :: "string list \<Rightarrow> string list \<Rightarrow> rat" where
  "reciprocal_rank expected ranked =
     (case first_rank expected ranked of None \<Rightarrow> 0 | Some rank \<Rightarrow> 1 / of_nat rank)"

definition dcg :: "string list \<Rightarrow> string list \<Rightarrow> rat" where
  "dcg expected ranked =
     sum_list (map snd (filter (\<lambda>(x, _). x \<in> set expected) (zip (take 3 ranked) discounts)))"

definition ideal_dcg :: "string list \<Rightarrow> rat" where
  "ideal_dcg expected = sum_list (take (length (remdups expected)) discounts)"

definition ndcg_at_3 :: "string list \<Rightarrow> string list \<Rightarrow> rat" where
  "ndcg_at_3 expected ranked = dcg expected ranked / ideal_dcg expected"

definition unit_interval :: "rat \<Rightarrow> bool" where
  "unit_interval x \<longleftrightarrow> 0 \<le> x \<and> x \<le> 1"

definition valid_retrieval_report :: "retrieval_report \<Rightarrow> bool" where
  "valid_retrieval_report m \<longleftrightarrow> 1 \<le> rm_n m \<and> unit_interval (rm_eligible_only_recall_at_3 m) \<and>
     unit_interval (rm_mrr m) \<and> unit_interval (rm_ndcg_at_3 m)"

definition retrieval_metrics_of :: "retrieval_observation list \<Rightarrow> retrieval_report" where
  "retrieval_metrics_of observations =
     \<lparr>rm_n = length observations,
      rm_eligible_only_recall_at_3 =
        mean (map (\<lambda>ob. recall_at_3 (rl_expected_precedent_ids ob) (rl_ranked_precedent_ids ob)) observations),
      rm_mrr = mean (map (\<lambda>ob. reciprocal_rank (rl_expected_precedent_ids ob) (rl_ranked_precedent_ids ob)) observations),
      rm_ndcg_at_3 = mean (map (\<lambda>ob. ndcg_at_3 (rl_expected_precedent_ids ob) (rl_ranked_precedent_ids ob)) observations)\<rparr>"

definition retrieval_metrics :: "retrieval_observation list \<Rightarrow> py_exn + retrieval_report" where
  "retrieval_metrics observations =
     ebind (ensure (observations \<noteq> []) (ValueError ''retrieval metrics require at least one observation'')) (\<lambda>_.
     ebind (ensure (\<not> list_ex rl_forbidden_funder_leakage observations)
       (ValueError ''eligible-only retrieval contained a forbidden funder'')) (\<lambda>_.
     ebind (ensure (valid_retrieval_report (retrieval_metrics_of observations)) (ValueError ''validation error'')) (\<lambda>_.
     Inr (retrieval_metrics_of observations))))"

section \<open>Performance metrics\<close>

datatype environment = Cpu | Gpu

fun environment_value :: "environment \<Rightarrow> string" where
  "environment_value Cpu = ''cpu''"
| "environment_value Gpu = ''gpu''"

instantiation environment :: linorder
begin

definition less_eq_environment :: "environment \<Rightarrow> environment \<Rightarrow> bool" where
  "less_eq_environment x y \<longleftrightarrow> environment_value x \<le> environment_value y"

definition less_environment :: "environment \<Rightarrow> environment \<Rightarrow> bool" where
  "less_environment x y \<longleftrightarrow> environment_value x < environment_value y"

instance
proof
  fix x y z :: environment
  have inj: "environment_value x = environment_value y \<Longrightarrow> x = y" by (cases x; cases y) simp_all
  show "x < y \<longleftrightarrow> x \<le> y \<and> \<not> y \<le> x" unfolding less_eq_environment_def less_environment_def by (rule less_le_not_le)
  show "x \<le> x" by (simp add: less_eq_environment_def)
  show "x \<le> y \<Longrightarrow> y \<le> z \<Longrightarrow> x \<le> z" unfolding less_eq_environment_def by (rule order_trans)
  show "x \<le> y \<Longrightarrow> y \<le> x \<Longrightarrow> x = y" unfolding less_eq_environment_def by (rule inj) (rule order_antisym)
  show "x \<le> y \<or> y \<le> x" unfolding less_eq_environment_def by (rule linear)
qed

end

record performance_observation =
  pb_environment :: environment
  pb_stage :: string
  pb_latency_ms :: rat

record stage_performance =
  pq_environment :: environment
  pq_stage :: string
  pq_n :: nat
  pq_p50_ms :: rat
  pq_p95_ms :: rat

definition observe :: "environment \<Rightarrow> string \<Rightarrow> rat \<Rightarrow> py_exn + performance_observation" where
  "observe env stage latency =
     ebind (ensure (0 \<le> latency) (ValueError ''validation error'')) (\<lambda>_.
     Inr \<lparr>pb_environment = env, pb_stage = stage, pb_latency_ms = latency\<rparr>)"

definition group_key :: "performance_observation \<Rightarrow> environment \<times> string" where
  "group_key ob = (pb_environment ob, pb_stage ob)"

fun add_latency ::
  "performance_observation \<Rightarrow> ((environment \<times> string) \<times> rat list) list \<Rightarrow> ((environment \<times> string) \<times> rat list) list" where
  "add_latency ob groups =
     dict_set (group_key ob)
       ((case dict_get groups (group_key ob) of None \<Rightarrow> [] | Some values \<Rightarrow> values) @ [pb_latency_ms ob]) groups"

definition group_latencies :: "performance_observation list \<Rightarrow> ((environment \<times> string) \<times> rat list) list" where
  "group_latencies observations = fold add_latency observations []"

text \<open>\<open>statistics.median\<close> of a sorted list, and \<open>max(0, math.ceil(0.95 * n) - 1)\<close>.\<close>

definition median_of :: "rat list \<Rightarrow> rat" where
  "median_of ordered =
     (let n = length ordered in
      if n mod 2 = 1 then ordered ! (n div 2) else (ordered ! (n div 2 - 1) + ordered ! (n div 2)) / 2)"

definition p95_index :: "nat \<Rightarrow> nat" where
  "p95_index n = (95 * n + 99) div 100 - 1"

fun summarize_group :: "(environment \<times> string) \<times> rat list \<Rightarrow> py_exn + stage_performance" where
  "summarize_group ((env, stage), values) =
     (let ordered = sort values;
          p50 = median_of ordered;
          p95 = ordered ! p95_index (length ordered) in
      ebind (ensure (1 \<le> length ordered \<and> 0 \<le> p50 \<and> 0 \<le> p95) (ValueError ''validation error'')) (\<lambda>_.
      Inr \<lparr>pq_environment = env, pq_stage = stage, pq_n = length ordered, pq_p50_ms = p50, pq_p95_ms = p95\<rparr>))"

text \<open>The keys of a dictionary are distinct, so sorting its items sorts them by their key.\<close>

definition performance_metrics :: "performance_observation list \<Rightarrow> py_exn + stage_performance list" where
  "performance_metrics observations = emap summarize_group (sort_key fst (group_latencies observations))"

section \<open>Held-out cases\<close>

record invented_application =
  iv_application_id :: string
  iv_industry :: string
  iv_region :: string
  iv_requested_amount_crore :: decimal
  iv_annual_revenue_crore :: decimal
  iv_ebitda_margin_pct :: decimal
  iv_dscr :: decimal
  iv_debt_to_ebitda :: decimal
  iv_collateral_cover :: decimal
  iv_years_operating :: int
  iv_employee_count :: int

datatype cohort = Eligible_aligned | Hard_rule | No_close_precedent | Adversarial

record release_case =
  cs_case_id :: string
  cs_cohort :: cohort
  cs_application :: invented_application
  cs_expected_eligible_funders :: "string list"
  cs_forbidden_funders :: "string list"
  cs_expected_citation_metrics :: "string list"
  cs_expected_precedent_ids :: "string list"
  cs_expected_guardrail_codes :: "string list"
  cs_expected_stop_state :: graph_status

definition disjoint :: "'a list \<Rightarrow> 'a list \<Rightarrow> bool" where
  "disjoint xs ys \<longleftrightarrow> list_all (\<lambda>x. x \<notin> set ys) xs"

definition validate_expectations :: "release_case \<Rightarrow> string + release_case" where
  "validate_expectations c =
     (if \<not> disjoint (cs_expected_eligible_funders c) (cs_forbidden_funders c)
      then Inl ''eligible and forbidden funders must be disjoint''
      else if cs_cohort c = Adversarial \<and> cs_expected_guardrail_codes c = []
      then Inl ''adversarial cases require expected guardrail codes''
      else if cs_cohort c \<noteq> Adversarial \<and> cs_expected_stop_state c \<noteq> WAITING_FOR_REVIEW
      then Inl ''non-adversarial cases must reach human review''
      else Inr c)"

text \<open>\<open>str.splitlines\<close>: its line breaks among the Latin-1 characters, a carriage return with a line feed as one.\<close>

definition line_break :: "char \<Rightarrow> bool" where
  "line_break c \<longleftrightarrow> (of_char c :: int) \<in> set [10, 11, 12, 13, 28, 29, 30, 133]"

fun split_lines :: "string \<Rightarrow> bool \<Rightarrow> string \<Rightarrow> string list" where
  "split_lines line after_cr [] = (if line = [] then [] else [line])"
| "split_lines line after_cr (c # s) =
     (if after_cr \<and> c = CHR 0x0A then split_lines line False s
      else if line_break c then line # split_lines [] (c = CHR 0x0D) s
      else split_lines (line @ [c]) False s)"

definition content_lines :: "string \<Rightarrow> string list" where
  "content_lines text = filter (\<lambda>l. strip l \<noteq> []) (split_lines [] False text)"

definition load_release_cases :: "(string \<Rightarrow> py_exn + release_case) \<Rightarrow> string \<Rightarrow> py_exn + release_case list" where
  "load_release_cases parse text =
     emap (\<lambda>line. ebind (parse line) (\<lambda>c. raising_value (validate_expectations c))) (content_lines text)"

definition synthetic_evidence :: "decided_loan_case \<Rightarrow> bool" where
  "synthetic_evidence c \<longleftrightarrow>
     list_all (\<lambda>metric. starts_with ''synthetic-'' (ct_document_id (em_citation metric))) (dc_evidence c)"

definition load_cases :: "(string \<Rightarrow> py_exn + decided_loan_case) \<Rightarrow> string \<Rightarrow> py_exn + decided_loan_case list" where
  "load_cases parse text =
     ebind (emap (\<lambda>line. ebind (parse line) (\<lambda>c. raising_value (validate_case c))) (content_lines text)) (\<lambda>cases.
     ebind (ensure (cases \<noteq> []) (ValueError ''synthetic precedent corpus is empty'')) (\<lambda>_.
     ebind (ensure (distinct (map dc_case_id cases))
       (ValueError ''synthetic precedent corpus contains duplicate case_id values'')) (\<lambda>_.
     ebind (ensure (list_all synthetic_evidence cases)
       (ValueError ''the checked-in Phase 1 corpus must use synthetic document IDs'')) (\<lambda>_. Inr cases))))"

section \<open>The gate\<close>

definition held_out_profile :: "invented_application \<Rightarrow> financial_profile" where
  "held_out_profile v =
     \<lparr>fp_annual_revenue_crore = iv_annual_revenue_crore v, fp_requested_amount_crore = iv_requested_amount_crore v,
      fp_ebitda_margin_pct = iv_ebitda_margin_pct v, fp_pat_crore = Dec False 0 0, fp_dscr = iv_dscr v,
      fp_debt_to_equity = Dec False 0 0, fp_debt_to_ebitda = iv_debt_to_ebitda v,
      fp_collateral_cover = iv_collateral_cover v, fp_years_operating = iv_years_operating v,
      fp_employee_count = iv_employee_count v\<rparr>"

definition held_out_metric :: "invented_application \<Rightarrow> fact_name \<Rightarrow> decimal \<Rightarrow> string \<Rightarrow> evidence_metric" where
  "held_out_metric v name value unit =
     \<lparr>em_name = name, em_value = FNum value, em_unit = unit, em_period = ''FY2026'',
      em_citation = \<lparr>ct_document_id = ''synthetic-eval-'' @ casefold (iv_application_id v), ct_page_number = 1,
        ct_bbox = \<lparr>bx0 = 10, by0 = 10, bx1 = 100, by1 = 30\<rparr>\<rparr>\<rparr>"

text \<open>The model strips the texts of an application. \<open>lower\<close> and \<open>casefold\<close> agree on ASCII.\<close>

definition held_out_application :: "invented_application \<Rightarrow> borrower_application" where
  "held_out_application v =
     \<lparr>ba_application_id = strip (iv_application_id v),
      ba_borrower_name = strip (''Synthetic held-out borrower '' @ iv_application_id v),
      ba_industry = strip (iv_industry v), ba_sub_industry = ''Unclassified'', ba_region = strip (iv_region v),
      ba_loan_type = Term_loan, ba_profile = held_out_profile v,
      ba_evidence =
        [held_out_metric v Annual_revenue_crore (iv_annual_revenue_crore v) ''INR crore'',
         held_out_metric v Ebitda_margin_pct (iv_ebitda_margin_pct v) ''percent'',
         held_out_metric v Dscr (iv_dscr v) ''ratio''],
      ba_finance_context = ''Held-out finance evidence for deterministic release evaluation.'',
      ba_operations_context = ''Held-out operations evidence for deterministic release evaluation.''\<rparr>"

definition application_of :: "invented_application \<Rightarrow> py_exn + borrower_application" where
  "application_of v = raising_value (validate_application (held_out_application v))"

text \<open>
  What the runner is given: the vector store and its embedder, the text embedder and the search of
  the retriever over the same database, and the clock readings as durations.
\<close>

record ('q, 'v, 'p) release_bench =
  rb_store :: "'q store"
  rb_embedder :: precedent_embedder
  rb_texts :: "'v embedder"
  rb_search :: "'q \<Rightarrow> ('v, 'p) searcher"
  rb_parse :: "'p \<Rightarrow> py_exn + decided_loan_case"
  rb_now :: timestamp
  rb_environment :: environment
  rb_seed_ms :: rat
  rb_retrieval_ms :: "string \<Rightarrow> rat"

record release_args =
  ra_cases :: "release_case list"
  ra_corpus :: "decided_loan_case list"
  ra_policies :: "funder_policy list"
  ra_collection :: string
  ra_min_score :: rat
  ra_skip_seed :: bool

record eligibility_failure =
  ef_case_id :: string
  ef_expected :: "string list"
  ef_actual :: "string list"

record retrieval_row =
  rt_case_id :: string
  rt_ranked_precedent_ids :: "string list"
  rt_leakage :: bool

record release_report =
  rx_n :: nat
  rx_environment :: environment
  rx_eligibility_failures :: "eligibility_failure list"
  rx_missing_expected :: "string list"
  rx_unexpected_no_close :: "string list"
  rx_retrieval_metrics :: retrieval_report
  rx_performance :: "stage_performance list"
  rx_retrieval_cases :: "retrieval_row list"
  rx_adversarial_n :: nat

definition system_exit :: "string \<Rightarrow> py_exn" where
  "system_exit message = OtherException (''SystemExit: '' @ message)"

definition unresolved_ids :: "release_case list \<Rightarrow> decided_loan_case list \<Rightarrow> string list" where
  "unresolved_ids cases corpus =
     sort (filter (\<lambda>x. x \<notin> set (map dc_case_id corpus)) (concat (map cs_expected_precedent_ids cases)))"

definition actual_funders :: "borrower_application \<Rightarrow> funder_policy list \<Rightarrow> string list" where
  "actual_funders application policies = map fe_funder_id (filter fe_eligible (evaluate_all application policies))"

definition eligibility_failure_of ::
  "funder_policy list \<Rightarrow> release_case \<Rightarrow> borrower_application \<Rightarrow> eligibility_failure option" where
  "eligibility_failure_of policies c application =
     (let actual = actual_funders application policies; expected = cs_expected_eligible_funders c in
      if set actual \<noteq> set expected \<or> \<not> disjoint actual (cs_forbidden_funders c)
      then Some \<lparr>ef_case_id = cs_case_id c, ef_expected = sort (remdups expected), ef_actual = sort (remdups actual)\<rparr>
      else None)"

definition release_config :: "release_args \<Rightarrow> retrieval_config" where
  "release_config args =
     \<lparr>cf_collection = ra_collection args, cf_top_k = 5, cf_candidate_limit = 20, cf_profile_weight = 3 / 4,
      cf_comments_weight = 1 / 4, cf_min_score = ra_min_score args, cf_require_active = True\<rparr>"

definition seed_corpus ::
  "('q, 'v, 'p) release_bench \<Rightarrow> release_args \<Rightarrow> ('q, py_exn, performance_observation list) io" where
  "seed_corpus rb args =
     (if ra_skip_seed args then io_ret []
      else io_bind (seed (rb_store rb) (rb_embedder rb) (ra_corpus args) True) (\<lambda>_.
        io_bind (io_lift (observe (rb_environment rb) ''seed'' (rb_seed_ms rb))) (\<lambda>ob. io_ret [ob])))"

definition retrieved :: "cohort \<Rightarrow> bool" where
  "retrieved k \<longleftrightarrow> k \<in> {Eligible_aligned, No_close_precedent}"

definition retrieve_release_case ::
  "('q, 'v, 'p) release_bench \<Rightarrow> release_args \<Rightarrow> 'q \<Rightarrow> (string \<times> borrower_application) list \<Rightarrow> release_case \<Rightarrow>
   py_exn + (retrieval_row \<times> performance_observation)" where
  "retrieve_release_case rb args q applications c =
     (case dict_get applications (cs_case_id c) of
        None \<Rightarrow> Inl (KeyError (cs_case_id c))
      | Some application \<Rightarrow>
          ebind (retrieve (release_config args) (rb_texts rb) (rb_search rb q) (rb_parse rb) (rb_now rb) application
            (ra_policies args)) (\<lambda>result.
          ebind (observe (rb_environment rb) ''retrieval'' (rb_retrieval_ms rb (cs_case_id c))) (\<lambda>ob.
          Inr (\<lparr>rt_case_id = cs_case_id c,
             rt_ranked_precedent_ids = map (\<lambda>m. dc_case_id (pm_precedent m)) (rr_matches result),
             rt_leakage = \<not> disjoint (map (\<lambda>m. hd_funder_id (dc_decision (pm_precedent m))) (rr_matches result))
               (cs_forbidden_funders c)\<rparr>, ob))))"

definition observation_of :: "release_case \<times> retrieval_row \<Rightarrow> retrieval_observation option" where
  "observation_of = (\<lambda>(c, row).
     if cs_expected_precedent_ids c = [] then None
     else Some \<lparr>rl_case_id = cs_case_id c, rl_expected_precedent_ids = cs_expected_precedent_ids c,
       rl_ranked_precedent_ids = rt_ranked_precedent_ids row, rl_forbidden_funder_leakage = rt_leakage row\<rparr>)"

definition missing_expected :: "retrieval_observation list \<Rightarrow> string list" where
  "missing_expected observations =
     map rl_case_id (filter (\<lambda>ob. disjoint (rl_expected_precedent_ids ob) (rl_ranked_precedent_ids ob)) observations)"

definition unexpected_no_close :: "release_case list \<Rightarrow> retrieval_row list \<Rightarrow> string list" where
  "unexpected_no_close cases rows =
     map rt_case_id (filter (\<lambda>row. rt_case_id row \<in> set (map cs_case_id (filter (\<lambda>c. cs_cohort c = No_close_precedent) cases)) \<and>
       rt_ranked_precedent_ids row \<noteq> []) rows)"

text \<open>\<open>main\<close> after the files are loaded: the printed report and whether the process exits with 0.\<close>

definition report_release ::
  "('q, 'v, 'p) release_bench \<Rightarrow> release_args \<Rightarrow> eligibility_failure list \<Rightarrow> performance_observation list \<Rightarrow>
   (retrieval_row \<times> performance_observation) list \<Rightarrow> py_exn + (release_report \<times> bool)" where
  "report_release rb args failures perf runs =
     (let cases = ra_cases args;
          rows = map fst runs;
          observations = List.map_filter observation_of (zip (filter (\<lambda>c. retrieved (cs_cohort c)) cases) rows);
          missing = missing_expected observations;
          unexpected = unexpected_no_close cases rows in
      ebind (retrieval_metrics observations) (\<lambda>metrics.
      ebind (performance_metrics (perf @ map snd runs)) (\<lambda>performance.
      Inr (\<lparr>rx_n = length cases, rx_environment = rb_environment rb, rx_eligibility_failures = failures,
         rx_missing_expected = missing, rx_unexpected_no_close = unexpected, rx_retrieval_metrics = metrics,
         rx_performance = performance, rx_retrieval_cases = rows,
         rx_adversarial_n = length (filter (\<lambda>c. cs_cohort c = Adversarial) cases)\<rparr>,
       failures = [] \<and> missing = [] \<and> unexpected = []))))"

definition run_release ::
  "('q, 'v, 'p) release_bench \<Rightarrow> release_args \<Rightarrow> ('q, py_exn, release_report \<times> bool) io" where
  "run_release rb args =
     (let cases = ra_cases args; ids = map cs_case_id cases in
      io_bind (io_ensure (length cases = 24) (system_exit ''release dataset must contain n=24'')) (\<lambda>_.
      io_bind (io_ensure (unresolved_ids cases (ra_corpus args) = [])
        (system_exit (''unresolved expected precedent IDs: '' @ join_str '', '' (unresolved_ids cases (ra_corpus args))))) (\<lambda>_.
      io_bind (io_lift (emap (application_of \<circ> cs_application) cases)) (\<lambda>applications.
      let failures = List.map_filter (\<lambda>(c, a). eligibility_failure_of (ra_policies args) c a) (zip cases applications) in
      io_bind (seed_corpus rb args) (\<lambda>perf.
      io_bind (io_ensure (config_fields_ok (release_config args) \<and> is_ok (validate_weights (release_config args)))
        (ValueError ''validation error'')) (\<lambda>_ q.
      io_lift
        (ebind (emap (retrieve_release_case rb args q (dict_of (zip ids applications)))
           (filter (\<lambda>c. retrieved (cs_cohort c)) cases)) (\<lambda>runs.
         report_release rb args failures perf runs)) q))))))"

end
