(* ===== verification/FM_Evals_Props.thy ===== *)
theory FM_Evals_Props
  imports FM_Evals FM_Advisory_Props
begin

text \<open>
  The metrics stay in their ranges and mean what they are called; the gate lets a release pass only
  when the rules, the expected precedents and the absence of unexpected ones agree with the
  held-out cases.
\<close>

section \<open>Retrieval metrics\<close>

lemma mean_unit:
  assumes "xs \<noteq> []" and "list_all unit_interval xs"
  shows "unit_interval (mean xs)" and "mean xs = 1 \<longleftrightarrow> list_all (\<lambda>x. x = 1) xs"
proof -
  have sums: "0 \<le> sum_list xs \<and> sum_list xs \<le> of_nat (length xs) \<and>
      (sum_list xs = of_nat (length xs) \<longleftrightarrow> list_all (\<lambda>x. x = 1) xs)"
    using assms(2) by (induction xs) (auto simp: unit_interval_def)
  then show "unit_interval (mean xs)" and "mean xs = 1 \<longleftrightarrow> list_all (\<lambda>x. x = 1) xs"
    using assms(1) by (auto simp: unit_interval_def mean_def divide_le_eq_1)
qed

lemma length_filter_all: "length (filter P xs) = length xs \<longleftrightarrow> list_all P xs"
proof (induction xs)
  case (Cons x xs)
  have "length (filter P xs) \<noteq> Suc (length xs)" by (metis Suc_n_not_le_n length_filter_le)
  with Cons show ?case by auto
qed simp

lemma recall_at_3_unit:
  assumes "expected \<noteq> []"
  shows "unit_interval (recall_at_3 expected ranked)"
    and "recall_at_3 expected ranked = 1 \<longleftrightarrow> set expected \<subseteq> set (take 3 ranked)"
proof -
  let ?hits = "filter (\<lambda>x. x \<in> set (take 3 ranked)) (remdups expected)"
  have le: "length ?hits \<le> length (remdups expected)" by (rule length_filter_le)
  have pos: "0 < length (remdups expected)" using assms by simp
  have all: "length ?hits = length (remdups expected) \<longleftrightarrow> set expected \<subseteq> set (take 3 ranked)"
    by (subst length_filter_all) (auto simp: list_all_iff)
  show "unit_interval (recall_at_3 expected ranked)"
    using le pos by (simp add: recall_at_3_def unit_interval_def divide_le_eq_1)
  show "recall_at_3 expected ranked = 1 \<longleftrightarrow> set expected \<subseteq> set (take 3 ranked)"
    using pos by (auto simp: recall_at_3_def all [symmetric])
qed

lemma reciprocal_rank_unit:
  shows "unit_interval (reciprocal_rank expected ranked)"
    and "reciprocal_rank expected ranked = 1 \<longleftrightarrow> ranked \<noteq> [] \<and> hd ranked \<in> set expected"
  by (cases ranked; simp add: reciprocal_rank_def first_rank_def Let_def unit_interval_def)+

lemma hits_bounded:
  assumes "distinct ranked"
  shows "length (filter (\<lambda>x. x \<in> set expected) (take 3 ranked)) \<le> length (remdups expected)"
proof -
  let ?hits = "filter (\<lambda>x. x \<in> set expected) (take 3 ranked)"
  have "length ?hits = card (set ?hits)" using assms by (intro distinct_card [symmetric]) simp
  also have "\<dots> \<le> card (set expected)" by (intro card_mono) auto
  finally show ?thesis by (simp add: length_remdups_card_conv)
qed

lemma LOG2_OF_3_bounds: "1 / LOG2_OF_3 < 1" "1 / 2 < 1 / LOG2_OF_3"
  by (simp_all add: LOG2_OF_3_def)

text \<open>What three positions can gain, by the number of hits.\<close>

lemma dcg_cases:
  "let hits = length (filter (\<lambda>x. x \<in> set expected) (take 3 ranked)) in
   0 \<le> dcg expected ranked \<and> dcg expected ranked \<le> 1 + 1 / LOG2_OF_3 + 1 / 2 \<and>
   (hits \<le> 1 \<longrightarrow> dcg expected ranked \<le> 1) \<and> (hits \<le> 2 \<longrightarrow> dcg expected ranked \<le> 1 + 1 / LOG2_OF_3)"
proof -
  define d where "d = 1 / LOG2_OF_3"
  have d: "1 / 2 < d" "d < 1" using LOG2_OF_3_bounds by (simp_all add: d_def)
  have gains: "discounts = [1, d, 1 / 2]" by (simp add: discounts_def d_def)
  have unfolded: "dcg expected ranked = sum_list (map snd (filter (\<lambda>(x, _). x \<in> set expected) (zip (take 3 ranked) [1, d, 1 / 2])))"
    by (simp add: dcg_def gains)
  consider "ranked = []" | a where "ranked = [a]" | a b where "ranked = [a, b]" | a b c r where "ranked = a # b # c # r"
    by (metis neq_Nil_conv)
  then show ?thesis
    unfolding d_def [symmetric] unfolded using d
    by cases (simp_all add: Let_def)
qed

lemma ndcg_unit:
  assumes "expected \<noteq> []" and "distinct ranked"
  shows "unit_interval (ndcg_at_3 expected ranked)"
proof -
  define k where "k = length (remdups expected)"
  have "k \<noteq> 0" using assms(1) by (simp add: k_def)
  then have k: "k = 1 \<or> k = 2 \<or> (\<exists>r. k = Suc (Suc (Suc r)))" by presburger
  have bound: "length (filter (\<lambda>x. x \<in> set expected) (take 3 ranked)) \<le> k"
    using hits_bounded [OF assms(2)] by (simp add: k_def)
  have "0 \<le> dcg expected ranked \<and> dcg expected ranked \<le> sum_list (take k discounts) \<and> 0 < sum_list (take k discounts)"
    using k bound dcg_cases [of expected ranked, unfolded Let_def] LOG2_OF_3_bounds
    by (auto simp: discounts_def numeral_2_eq_2)
  then show ?thesis by (simp add: ndcg_at_3_def ideal_dcg_def k_def unit_interval_def divide_le_eq_1)
qed

text \<open>
  C40. The metrics of a retrieval mean what they are called: for at least one observation, each with an
  expected precedent, a ranking without repetition and no forbidden funder, there is a report, its
  three values lie between 0 and 1, recall is 1 exactly when every expected precedent is among the
  first three of its ranking, and the reciprocal rank is 1 exactly when every ranking starts
  with an expected one.
\<close>

theorem retrieval_metrics_bounded:
  assumes "observations \<noteq> []"
    and "\<And>ob. ob \<in> set observations \<Longrightarrow>
      rl_expected_precedent_ids ob \<noteq> [] \<and> distinct (rl_ranked_precedent_ids ob) \<and> \<not> rl_forbidden_funder_leakage ob"
  shows "\<exists>m. retrieval_metrics observations = Inr m \<and> rm_n m = length observations \<and>
    unit_interval (rm_eligible_only_recall_at_3 m) \<and> unit_interval (rm_mrr m) \<and> unit_interval (rm_ndcg_at_3 m) \<and>
    (rm_eligible_only_recall_at_3 m = 1 \<longleftrightarrow>
      (\<forall>ob \<in> set observations. set (rl_expected_precedent_ids ob) \<subseteq> set (take 3 (rl_ranked_precedent_ids ob)))) \<and>
    (rm_mrr m = 1 \<longleftrightarrow>
      (\<forall>ob \<in> set observations. rl_ranked_precedent_ids ob \<noteq> [] \<and> hd (rl_ranked_precedent_ids ob) \<in> set (rl_expected_precedent_ids ob)))"
proof -
  let ?m = "retrieval_metrics_of observations"
  let ?e = rl_expected_precedent_ids and ?r = rl_ranked_precedent_ids
  have recall: "unit_interval (rm_eligible_only_recall_at_3 ?m)"
    "rm_eligible_only_recall_at_3 ?m = 1 \<longleftrightarrow> (\<forall>ob \<in> set observations. set (?e ob) \<subseteq> set (take 3 (?r ob)))"
    unfolding retrieval_metrics_of_def
    using mean_unit [of "map (\<lambda>ob. recall_at_3 (?e ob) (?r ob)) observations"] assms
    by (simp_all add: list_all_iff recall_at_3_unit)
  have mrr: "unit_interval (rm_mrr ?m)"
    "rm_mrr ?m = 1 \<longleftrightarrow> (\<forall>ob \<in> set observations. ?r ob \<noteq> [] \<and> hd (?r ob) \<in> set (?e ob))"
    unfolding retrieval_metrics_of_def
    using mean_unit [of "map (\<lambda>ob. reciprocal_rank (?e ob) (?r ob)) observations"] assms(1)
    by (simp_all add: list_all_iff reciprocal_rank_unit)
  have ndcg: "unit_interval (rm_ndcg_at_3 ?m)"
    unfolding retrieval_metrics_of_def
    using mean_unit(1) [of "map (\<lambda>ob. ndcg_at_3 (?e ob) (?r ob)) observations"] assms
    by (simp add: list_all_iff ndcg_unit)
  have n: "rm_n ?m = length observations" by (simp add: retrieval_metrics_of_def)
  have "\<not> list_ex rl_forbidden_funder_leakage observations"
    using assms(2) by (auto simp: list_ex_iff)
  with recall mrr ndcg n assms(1) show ?thesis
    by (intro exI [of _ ?m]) (simp add: retrieval_metrics_def valid_retrieval_report_def Suc_le_eq)
qed

definition ranked_once :: "string list \<Rightarrow> retrieval_observation" where
  "ranked_once ranked = \<lparr>rl_case_id = ''r1'', rl_expected_precedent_ids = [''p1''], rl_ranked_precedent_ids = ranked,
     rl_forbidden_funder_leakage = False\<rparr>"

theorem retrieval_metrics_bounded_witness:
  "\<exists>m. retrieval_metrics [ranked_once [''p2'', ''p1'']] = Inr m \<and> rm_eligible_only_recall_at_3 m = 1 \<and> rm_mrr m \<noteq> 1"
proof -
  obtain m where "retrieval_metrics [ranked_once [''p2'', ''p1'']] = Inr m"
    "rm_eligible_only_recall_at_3 m = 1 \<longleftrightarrow> (\<forall>ob \<in> set [ranked_once [''p2'', ''p1'']].
       set (rl_expected_precedent_ids ob) \<subseteq> set (take 3 (rl_ranked_precedent_ids ob)))"
    "rm_mrr m = 1 \<longleftrightarrow> (\<forall>ob \<in> set [ranked_once [''p2'', ''p1'']].
       rl_ranked_precedent_ids ob \<noteq> [] \<and> hd (rl_ranked_precedent_ids ob) \<in> set (rl_expected_precedent_ids ob))"
    using retrieval_metrics_bounded [of "[ranked_once [''p2'', ''p1'']]"] by (auto simp: ranked_once_def)
  then show ?thesis by (auto simp: ranked_once_def)
qed

text \<open>A ranking with a repeated precedent gains more than the ideal and is refused by the validator.\<close>

lemma repeated_precedent_refused:
  "retrieval_metrics [ranked_once [''p1'', ''p1'']] = Inl (ValueError ''validation error'')"
  by code_simp

section \<open>Performance metrics\<close>

definition latencies_of :: "environment \<times> string \<Rightarrow> performance_observation list \<Rightarrow> rat list" where
  "latencies_of k observations = map pb_latency_ms (filter (\<lambda>ob. group_key ob = k) observations)"

lemma group_latencies_get:
  "dict_wf (group_latencies observations) \<and>
   dict_get (group_latencies observations) k =
     (if latencies_of k observations = [] then None else Some (latencies_of k observations))"
proof (induction observations arbitrary: k rule: rev_induct)
  case (snoc ob observations)
  let ?g = "group_latencies observations"
  have step: "group_latencies (observations @ [ob]) = add_latency ob ?g" by (simp add: group_latencies_def)
  have "dict_wf ?g" using snoc by blast
  moreover have "dict_get ?g (group_key ob) =
      (if latencies_of (group_key ob) observations = [] then None else Some (latencies_of (group_key ob) observations))"
    using snoc by blast
  ultimately show ?case
    using snoc [of k] unfolding step by (auto simp: latencies_of_def split: option.splits)
qed (simp add: group_latencies_def latencies_of_def)

lemma p95_index_bounds:
  assumes "1 \<le> n"
  shows "p95_index n < n" and "n div 2 \<le> p95_index n" and "95 * n \<le> 100 * Suc (p95_index n)"
proof -
  let ?q = "(95 * n + 99) div 100"
  have "100 * ?q \<le> 95 * n + 99" by (rule times_div_less_eq_dividend)
  moreover have "95 * n + 99 < 100 * ?q + 100" using dividend_less_times_div [of 100 "95 * n + 99"] by simp
  ultimately have q: "1 \<le> ?q" "100 * ?q \<le> 95 * n + 99" "95 * n < 100 * ?q + 1"
    using assms by linarith+
  then have s: "Suc (p95_index n) = ?q" by (simp add: p95_index_def)
  with q assms show "p95_index n < n" by linarith
  from q show "95 * n \<le> 100 * Suc (p95_index n)" unfolding s by linarith
  consider "n = 1" | "n = 2" | "3 \<le> n" using assms by linarith
  then show "n div 2 \<le> p95_index n"
  proof cases
    case 3
    have "2 * (n div 2) \<le> n" by (rule times_div_less_eq_dividend)
    with q s 3 show ?thesis by linarith
  qed (simp_all add: p95_index_def)
qed

lemma median_le_p95:
  assumes "sorted ordered" and "ordered \<noteq> []"
  shows "median_of ordered \<le> ordered ! p95_index (length ordered)"
proof -
  let ?n = "length ordered"
  have n: "1 \<le> ?n" using assms(2) by (simp add: Suc_le_eq)
  have "ordered ! (?n div 2) \<le> ordered ! p95_index ?n"
    using assms(1) p95_index_bounds [OF n] by (intro sorted_nth_mono) auto
  moreover have "ordered ! (?n div 2 - 1) \<le> ordered ! (?n div 2)"
    using assms(1) n by (intro sorted_nth_mono) auto
  ultimately show ?thesis by (simp add: median_of_def Let_def)
qed

lemma sorted_below_nth:
  assumes "sorted ordered" and "i < length ordered"
  shows "Suc i \<le> length (filter (\<lambda>x. x \<le> ordered ! i) ordered)"
proof -
  have "filter (\<lambda>x. x \<le> ordered ! i) (take (Suc i) ordered) = take (Suc i) ordered"
    using assms by (auto simp: filter_id_conv in_set_conv_nth intro!: sorted_nth_mono)
  moreover have "filter (\<lambda>x. x \<le> ordered ! i) ordered =
      filter (\<lambda>x. x \<le> ordered ! i) (take (Suc i) ordered) @ filter (\<lambda>x. x \<le> ordered ! i) (drop (Suc i) ordered)"
    by (metis append_take_drop_id filter_append)
  ultimately show ?thesis using assms(2) by simp
qed

lemma length_filter_sort: "length (filter P (sort xs)) = length (filter P xs)"
  by (metis mset_filter mset_sort size_mset)

definition summary_of :: "rat list \<Rightarrow> stage_performance \<Rightarrow> bool" where
  "summary_of vs m \<longleftrightarrow> pq_n m = length vs \<and> pq_p50_ms m \<le> pq_p95_ms m \<and> pq_p95_ms m \<in> set vs \<and>
     95 * length vs \<le> 100 * length (filter (\<lambda>x. x \<le> pq_p95_ms m) vs)"

lemma summarize_group_ok:
  assumes "vs \<noteq> []" and "list_all (\<lambda>x. 0 \<le> x) vs"
  shows "\<exists>m. summarize_group (k, vs) = Inr m \<and> (pq_environment m, pq_stage m) = k \<and> summary_of vs m"
proof -
  let ?o = "sort vs" and ?i = "p95_index (length vs)"
  have n: "1 \<le> length vs" using assms(1) by (simp add: Suc_le_eq)
  have o: "?o \<noteq> []" using assms(1) by (metis length_0_conv length_sort)
  note i = p95_index_bounds [OF n]
  have nth_in: "?o ! j \<in> set vs" if "j < length vs" for j
    using that nth_mem [of j ?o] by simp
  then have nonneg: "0 \<le> ?o ! j" if "j < length vs" for j
    using that assms(2) by (auto simp: list_all_iff)
  have "0 \<le> median_of ?o"
    using n nonneg [of "length vs div 2"] nonneg [of "length vs div 2 - 1"]
    by (auto simp: median_of_def Let_def)
  moreover have "median_of ?o \<le> ?o ! ?i" using median_le_p95 [of ?o] o by simp
  moreover have "Suc ?i \<le> length (filter (\<lambda>x. x \<le> ?o ! ?i) vs)"
    using sorted_below_nth [of ?o ?i] i(1) by (simp add: length_filter_sort)
  ultimately show ?thesis
    using n i nth_in [OF i(1)] nonneg [OF i(1)]
    by (cases k) (auto simp: Let_def summary_of_def)
qed

lemma emap_total:
  "\<forall>x \<in> set xs. \<exists>y. f x = Inr y \<and> P x y \<Longrightarrow> \<exists>ys. emap f xs = Inr ys \<and> list_all2 P xs ys"
  by (induction xs) fastforce+

text \<open>
  The performance report is a partition of the observations by environment and stage: with
  latencies that are not negative there is one, with its groups in strictly increasing order of
  their keys and a group for exactly the keys observed; each group counts its observations, its 95th
  percentile is one of its latencies, is not below its median, and at least 95 % of its
  latencies do not exceed it.
\<close>

theorem performance_report_partitions:
  assumes "\<And>ob. ob \<in> set observations \<Longrightarrow> 0 \<le> pb_latency_ms ob"
  shows "\<exists>ms. performance_metrics observations = Inr ms \<and>
    sorted_wrt (<) (map (\<lambda>m. (pq_environment m, pq_stage m)) ms) \<and>
    (\<lambda>m. (pq_environment m, pq_stage m)) ` set ms = group_key ` set observations \<and>
    (\<forall>m \<in> set ms. summary_of (latencies_of (pq_environment m, pq_stage m) observations) m)"
proof -
  let ?g = "group_latencies observations" and ?key = "\<lambda>m. (pq_environment m, pq_stage m)"
  have wf: "dict_wf ?g" using group_latencies_get by blast
  have get: "(k, vs) \<in> set ?g \<longleftrightarrow> vs = latencies_of k observations \<and> vs \<noteq> []" for k vs
    using group_latencies_get [of observations k] dict_get_in_iff [OF wf, of k vs] by auto
  have "\<exists>m. summarize_group kv = Inr m \<and> ?key m = fst kv \<and> summary_of (latencies_of (fst kv) observations) m"
    if "kv \<in> set (sort_key fst ?g)" for kv
  proof (cases kv)
    case (Pair k vs)
    then have "vs = latencies_of k observations" "vs \<noteq> []" using that get by auto
    moreover have "list_all (\<lambda>x. 0 \<le> x) (latencies_of k observations)"
      using assms by (auto simp: latencies_of_def list_all_iff)
    ultimately show ?thesis using summarize_group_ok [of vs k] Pair by auto
  qed
  then have "\<forall>kv \<in> set (sort_key fst ?g). \<exists>m. summarize_group kv = Inr m \<and>
      (?key m = fst kv \<and> summary_of (latencies_of (fst kv) observations) m)" by blast
  from emap_total [OF this] obtain ms where ms: "performance_metrics observations = Inr ms"
    and rel: "list_all2 (\<lambda>kv m. ?key m = fst kv \<and> summary_of (latencies_of (fst kv) observations) m) (sort_key fst ?g) ms"
    by (auto simp: performance_metrics_def)
  from rel have keys: "map ?key ms = map fst (sort_key fst ?g)"
    by (induction rule: list_all2_induct) auto
  from rel have each: "\<forall>m \<in> set ms. summary_of (latencies_of (?key m) observations) m"
    by (induction rule: list_all2_induct) auto
  have "distinct (map fst (sort_key fst ?g))"
    using wf unfolding dict_wf_def by (metis distinct_map distinct_sort set_sort)
  then have "sorted_wrt (<) (map ?key ms)"
    unfolding keys by (simp add: strict_sorted_iff)
  moreover have "?key ` set ms = group_key ` set observations"
  proof -
    have "?key ` set ms = fst ` set ?g" using arg_cong [OF keys, of set] by simp
    also have "\<dots> = {k. latencies_of k observations \<noteq> []}"
    proof (intro set_eqI iffI)
      fix k assume "k \<in> {k. latencies_of k observations \<noteq> []}"
      then have "(k, latencies_of k observations) \<in> set ?g" using get by blast
      then show "k \<in> fst ` set ?g" by (rule image_eqI [rotated]) simp
    next
      fix k assume "k \<in> fst ` set ?g"
      then obtain vs where "(k, vs) \<in> set ?g" by auto
      with get [of k vs] show "k \<in> {k. latencies_of k observations \<noteq> []}" by auto
    qed
    also have "\<dots> = group_key ` set observations"
      unfolding latencies_of_def map_is_Nil_conv filter_empty_conv by blast
    finally show ?thesis .
  qed
  ultimately show ?thesis using ms each by blast
qed

definition demo_latencies :: "performance_observation list" where
  "demo_latencies =
     [\<lparr>pb_environment = Cpu, pb_stage = ''seed'', pb_latency_ms = 5\<rparr>,
      \<lparr>pb_environment = Cpu, pb_stage = ''retrieval'', pb_latency_ms = 2\<rparr>,
      \<lparr>pb_environment = Cpu, pb_stage = ''retrieval'', pb_latency_ms = 1\<rparr>]"

lemma demo_latencies_nonneg: "ob \<in> set demo_latencies \<Longrightarrow> 0 \<le> pb_latency_ms ob"
  by (auto simp: demo_latencies_def)

theorem performance_report_partitions_witness:
  "\<exists>ms. performance_metrics demo_latencies = Inr ms \<and>
     (\<lambda>m. (pq_environment m, pq_stage m)) ` set ms = {(Cpu, ''seed''), (Cpu, ''retrieval'')}"
proof -
  obtain ms where "performance_metrics demo_latencies = Inr ms"
    "(\<lambda>m. (pq_environment m, pq_stage m)) ` set ms = group_key ` set demo_latencies"
    using performance_report_partitions [of demo_latencies, OF demo_latencies_nonneg] by blast
  then show ?thesis by (auto simp: demo_latencies_def group_key_def)
qed

section \<open>The release gate\<close>

lemma emap_zip:
  "emap f xs = Inr ys \<Longrightarrow> x \<in> set xs \<Longrightarrow> \<exists>y. f x = Inr y \<and> (x, y) \<in> set (zip xs ys)"
  by (induction xs arbitrary: ys) (auto simp: result_elims)

lemma zip_map_snd: "(x, y) \<in> set (zip xs ys) \<Longrightarrow> (x, f y) \<in> set (zip xs (map f ys))"
  by (induction xs ys rule: list_induct2') auto

lemma set_map_filter: "f x = Some y \<Longrightarrow> x \<in> set xs \<Longrightarrow> y \<in> set (List.map_filter f xs)"
  by (induction xs) (auto simp: List.map_filter_simps split: option.splits)

lemma map_filter_Nil: "List.map_filter f xs = [] \<Longrightarrow> x \<in> set xs \<Longrightarrow> f x = None"
  by (metis list.set(1) empty_iff not_None_eq set_map_filter)

lemma dict_of_zip:
  assumes "(c, a) \<in> set (zip cs as)" and "length as = length cs" and "distinct (map f cs)"
  shows "dict_get (dict_of (zip (map f cs) as)) (f c) = Some a"
proof -
  have "(f c, a) \<in> set (zip (map f cs) as)"
    using assms(1) by (induction cs as rule: list_induct2') auto
  moreover have "distinct (map fst (zip (map f cs) as))" using assms(2,3) by simp
  ultimately show ?thesis by (simp add: dict_of_distinct)
qed

text \<open>What a run that ends with a report went through.\<close>

lemma run_release_steps:
  assumes "run_release rb args q = (Inr (shown, ok), q')"
  obtains applications perf runs where
    "unresolved_ids (ra_cases args) (ra_corpus args) = []"
    "emap (application_of \<circ> cs_application) (ra_cases args) = Inr applications"
    "emap (retrieve_release_case rb args q' (dict_of (zip (map cs_case_id (ra_cases args)) applications)))
       (filter (\<lambda>c. retrieved (cs_cohort c)) (ra_cases args)) = Inr runs"
    "report_release rb args
       (List.map_filter (\<lambda>(c, a). eligibility_failure_of (ra_policies args) c a) (zip (ra_cases args) applications))
       perf runs = Inr (shown, ok)"
  using assms
  by (auto simp: run_release_def Let_def io_elims result_elims intro: that)

lemma passed_report:
  assumes "report_release rb args failures perf runs = Inr (shown, True)"
  shows "failures = []" and "unexpected_no_close (ra_cases args) (map fst runs) = []"
    and "missing_expected (List.map_filter observation_of
      (zip (filter (\<lambda>c. retrieved (cs_cohort c)) (ra_cases args)) (map fst runs))) = []"
  using assms by (auto simp: report_release_def Let_def result_elims)

lemma actual_funders_policies:
  "f \<in> set (actual_funders a policies) \<longleftrightarrow> (\<exists>po \<in> set policies. po_funder_id po = f \<and> satisfies_policy a po)"
  unfolding actual_funders_def by (rule eligible_funder_policy)

lemma no_eligibility_failure:
  "eligibility_failure_of policies c a = None \<Longrightarrow>
     set (actual_funders a policies) = set (cs_expected_eligible_funders c) \<and>
     disjoint (actual_funders a policies) (cs_forbidden_funders c)"
  by (auto simp: eligibility_failure_of_def Let_def split: if_splits)

text \<open>What a passed report says of the row of one case.\<close>

lemma passed_row:
  assumes rep: "report_release rb args failures perf runs = Inr (shown, True)"
    and zipped: "(c, row) \<in> set (zip (filter (\<lambda>c. retrieved (cs_cohort c)) (ra_cases args)) (map fst runs))"
    and c: "rt_case_id row = cs_case_id c" "c \<in> set (ra_cases args)"
  shows "cs_expected_precedent_ids c \<noteq> [] \<Longrightarrow> set (cs_expected_precedent_ids c) \<inter> set (rt_ranked_precedent_ids row) \<noteq> {}"
    and "cs_cohort c = No_close_precedent \<Longrightarrow> rt_ranked_precedent_ids row = []"
proof -
  assume some: "cs_expected_precedent_ids c \<noteq> []"
  then have "observation_of (c, row) = Some \<lparr>rl_case_id = cs_case_id c, rl_expected_precedent_ids = cs_expected_precedent_ids c,
      rl_ranked_precedent_ids = rt_ranked_precedent_ids row, rl_forbidden_funder_leakage = rt_leakage row\<rparr>"
    by (simp add: observation_of_def)
  from set_map_filter [where f = observation_of, OF this zipped] passed_report(3) [OF rep]
  show "set (cs_expected_precedent_ids c) \<inter> set (rt_ranked_precedent_ids row) \<noteq> {}"
    by (force simp: missing_expected_def filter_empty_conv disjoint_def list_all_iff)
next
  assume cohort: "cs_cohort c = No_close_precedent"
  have "row \<in> set (map fst runs)" using zipped by (rule set_zip_rightD)
  with passed_report(2) [OF rep] have "rt_case_id row \<in> cs_case_id ` {c \<in> set (ra_cases args). cs_cohort c = No_close_precedent} \<Longrightarrow>
      rt_ranked_precedent_ids row = []"
    by (auto simp: unexpected_no_close_def filter_empty_conv)
  with cohort c show "rt_ranked_precedent_ids row = []" by force
qed

definition matched_ids :: "retrieval_result \<Rightarrow> string list" where
  "matched_ids r = map (\<lambda>m. dc_case_id (pm_precedent m)) (rr_matches r)"

text \<open>
  C18. The release gate: when the run exits with 0 over cases with distinct ids, there are 24 of them,
  and for every held-out case the funders expected are exactly those whose policy the application
  satisfies, none of them forbidden, its expected precedents are in the corpus, and, if it is
  retrieved, the retrieval over the seeded database finds at least one of the expected precedents
  where there are any, finds nothing where no close precedent should exist, and shows no precedent
  of a forbidden funder.
\<close>

theorem release_gate_sound:
  assumes "run_release rb args q = (Inr (shown, True), q')"
    and "distinct (map cs_case_id (ra_cases args))" and "c \<in> set (ra_cases args)"
  shows "length (ra_cases args) = 24 \<and> (\<exists>a. application_of (cs_application c) = Inr a \<and>
    set (cs_expected_eligible_funders c) = po_funder_id ` {po \<in> set (ra_policies args). satisfies_policy a po} \<and>
    set (cs_expected_eligible_funders c) \<inter> set (cs_forbidden_funders c) = {} \<and>
    set (cs_expected_precedent_ids c) \<subseteq> dc_case_id ` set (ra_corpus args) \<and>
    (retrieved (cs_cohort c) \<longrightarrow>
      (\<exists>r. retrieve (release_config args) (rb_texts rb) (rb_search rb q') (rb_parse rb) (rb_now rb) a (ra_policies args) = Inr r \<and>
        (cs_expected_precedent_ids c \<noteq> [] \<longrightarrow> set (cs_expected_precedent_ids c) \<inter> set (matched_ids r) \<noteq> {}) \<and>
        (cs_cohort c = No_close_precedent \<longrightarrow> rr_matches r = []) \<and>
        (\<forall>m \<in> set (rr_matches r). hd_funder_id (dc_decision (pm_precedent m)) \<notin> set (cs_forbidden_funders c)))))"
proof -
  let ?cases = "ra_cases args" and ?picked = "filter (\<lambda>c. retrieved (cs_cohort c)) (ra_cases args)"
  obtain apps perf runs where resolved: "unresolved_ids ?cases (ra_corpus args) = []"
    and apps: "emap (application_of \<circ> cs_application) ?cases = Inr apps"
    and runs: "emap (retrieve_release_case rb args q' (dict_of (zip (map cs_case_id ?cases) apps))) ?picked = Inr runs"
    and rep: "report_release rb args
       (List.map_filter (\<lambda>(c, a). eligibility_failure_of (ra_policies args) c a) (zip ?cases apps)) perf runs = Inr (shown, True)"
    using assms(1) by (rule run_release_steps)
  from emap_zip [OF apps assms(3)] obtain a where a: "application_of (cs_application c) = Inr a"
    and ca: "(c, a) \<in> set (zip ?cases apps)" by auto
  have eligible: "set (actual_funders a (ra_policies args)) = set (cs_expected_eligible_funders c)"
    "disjoint (actual_funders a (ra_policies args)) (cs_forbidden_funders c)"
    using no_eligibility_failure map_filter_Nil [OF passed_report(1) [OF rep] ca] by auto
  have "set (cs_expected_eligible_funders c) = po_funder_id ` {po \<in> set (ra_policies args). satisfies_policy a po}"
    unfolding eligible(1) [symmetric] by (auto simp: actual_funders_policies)
  moreover have "set (cs_expected_eligible_funders c) \<inter> set (cs_forbidden_funders c) = {}"
    unfolding eligible(1) [symmetric] using eligible(2) by (auto simp: disjoint_def list_all_iff)
  moreover have "set (cs_expected_precedent_ids c) \<subseteq> dc_case_id ` set (ra_corpus args)"
  proof -
    have "set (unresolved_ids ?cases (ra_corpus args)) = {}" using resolved by simp
    with assms(3) show ?thesis by (auto simp: unresolved_ids_def)
  qed
  moreover have "\<exists>r. retrieve (release_config args) (rb_texts rb) (rb_search rb q') (rb_parse rb) (rb_now rb) a (ra_policies args) = Inr r \<and>
        (cs_expected_precedent_ids c \<noteq> [] \<longrightarrow> set (cs_expected_precedent_ids c) \<inter> set (matched_ids r) \<noteq> {}) \<and>
        (cs_cohort c = No_close_precedent \<longrightarrow> rr_matches r = []) \<and>
        (\<forall>m \<in> set (rr_matches r). hd_funder_id (dc_decision (pm_precedent m)) \<notin> set (cs_forbidden_funders c))"
    if "retrieved (cs_cohort c)"
  proof -
    have picked: "c \<in> set ?picked" using that assms(3) by simp
    from emap_zip [OF runs picked] obtain row ob where
      row: "retrieve_release_case rb args q' (dict_of (zip (map cs_case_id ?cases) apps)) c = Inr (row, ob)"
      and crow: "(c, (row, ob)) \<in> set (zip ?picked runs)" by auto
    have "dict_get (dict_of (zip (map cs_case_id ?cases) apps)) (cs_case_id c) = Some a"
      using ca emap_Inr_length [OF apps] assms(2) by (intro dict_of_zip) simp_all
    with row obtain r where
      r: "retrieve (release_config args) (rb_texts rb) (rb_search rb q') (rb_parse rb) (rb_now rb) a (ra_policies args) = Inr r"
      and ids: "rt_case_id row = cs_case_id c" "rt_ranked_precedent_ids row = matched_ids r"
      by (auto simp: retrieve_release_case_def matched_ids_def result_elims)
    have zipped: "(c, row) \<in> set (zip ?picked (map fst runs))" using zip_map_snd [OF crow, of fst] by simp
    note passed = passed_row [OF rep zipped ids(1) assms(3), unfolded ids(2)]
    have "hd_funder_id (dc_decision (pm_precedent m)) \<notin> set (cs_forbidden_funders c)" if "m \<in> set (rr_matches r)" for m
      using retrieve_matches_ok [OF r that] eligible(2)
      by (auto simp: match_ok_def disjoint_def list_all_iff actual_funders_def)
    moreover have "rr_matches r = []" if "cs_cohort c = No_close_precedent"
      using passed(2) [OF that] by (simp add: matched_ids_def)
    ultimately show ?thesis using r passed(1) by blast
  qed
  moreover have "length ?cases = 24"
    using assms(1) by (auto simp: run_release_def Let_def io_elims)
  ultimately show ?thesis using a by blast
qed

definition held_out :: invented_application where
  "held_out = \<lparr>iv_application_id = ''X1'', iv_industry = ''i'', iv_region = ''r'', iv_requested_amount_crore = Dec False 5 0,
     iv_annual_revenue_crore = Dec False 9 0, iv_ebitda_margin_pct = Dec False 9 0, iv_dscr = Dec False 2 0,
     iv_debt_to_ebitda = Dec False 2 0, iv_collateral_cover = Dec False 2 0, iv_years_operating = 5,
     iv_employee_count = 9\<rparr>"

definition held_out_case :: "cohort \<Rightarrow> string \<Rightarrow> string list \<Rightarrow> release_case" where
  "held_out_case k case_id ids = \<lparr>cs_case_id = case_id, cs_cohort = k, cs_application = held_out,
     cs_expected_eligible_funders = [''f1''], cs_forbidden_funders = [''f2''], cs_expected_citation_metrics = [],
     cs_expected_precedent_ids = ids, cs_expected_guardrail_codes = [''g''], cs_expected_stop_state = WAITING_FOR_REVIEW\<rparr>"

definition aligned_case :: release_case where
  "aligned_case = held_out_case Eligible_aligned ''a'' [''case-1'']"

definition demo_release :: release_args where
  "demo_release = \<lparr>ra_cases = aligned_case # map (\<lambda>n. held_out_case Adversarial [n] []) ''bcdefghijklmnopqrstuvwx'',
     ra_corpus = [sample_precedent], ra_policies = sample_policies, ra_collection = ''c'', ra_min_score = 0,
     ra_skip_seed = True\<rparr>"

definition demo_bench :: "(unit, unit, decided_loan_case) release_bench" where
  "demo_bench = \<lparr>rb_store = undefined, rb_embedder = undefined, rb_texts = sample_embed, rb_search = (\<lambda>_. sample_query),
     rb_parse = Inr, rb_now = 10, rb_environment = Cpu, rb_seed_ms = 0, rb_retrieval_ms = (\<lambda>_. 1)\<rparr>"

definition held_out_borrower :: borrower_application where
  "held_out_borrower = held_out_application held_out"

lemma held_out_borrower: "application_of held_out = Inr held_out_borrower"
  unfolding held_out_borrower_def application_of_def by code_simp

lemma held_out_eligible: "actual_funders held_out_borrower sample_policies = [''f1'']"
  by (simp add: actual_funders_def evaluate_all_def sample_policies_def eligible_iff satisfies_policy_def sample_funder_def
      held_out_borrower_def held_out_application_def held_out_profile_def held_out_def dval_def strip_def is_space_def)

lemma held_out_case_ok: "eligibility_failure_of sample_policies (held_out_case k i ids) held_out_borrower = None"
  by (simp add: eligibility_failure_of_def held_out_eligible held_out_case_def disjoint_def)

lemma emap_map: "\<forall>x \<in> set xs. f x = Inr (g x) \<Longrightarrow> emap f xs = Inr (map g xs)"
  by (induction xs) auto

definition adversarial_cases :: "release_case list" where
  "adversarial_cases = map (\<lambda>n. held_out_case Adversarial [n] []) ''bcdefghijklmnopqrstuvwx''"

lemma demo_cases: "ra_cases demo_release = aligned_case # adversarial_cases" "ra_policies demo_release = sample_policies"
  by (simp_all add: demo_release_def adversarial_cases_def)

lemma demo_retrieved:
  "case retrieve_release_case demo_bench demo_release () [(''a'', held_out_borrower)] aligned_case of
     Inl _ \<Rightarrow> False | Inr (row, ob) \<Rightarrow> rt_ranked_precedent_ids row = [''case-1''] \<and> \<not> rt_leakage row \<and> pb_latency_ms ob = 1"
  by code_simp

lemma adversarial_in: "c \<in> set adversarial_cases \<Longrightarrow> \<exists>i. c = held_out_case Adversarial i []"
  by (auto simp: adversarial_cases_def)

lemma demo_ids: "distinct (map cs_case_id (ra_cases demo_release))" "length (ra_cases demo_release) = 24"
  unfolding demo_cases by (simp_all add: adversarial_cases_def aligned_case_def held_out_case_def)

lemma demo_picked: "filter (\<lambda>c. retrieved (cs_cohort c)) (ra_cases demo_release) = [aligned_case]"
  unfolding demo_cases
  by (auto simp: filter_empty_conv retrieved_def aligned_case_def held_out_case_def dest!: adversarial_in)

lemma demo_unresolved: "unresolved_ids (ra_cases demo_release) (ra_corpus demo_release) = []"
proof -
  have none: "concat (map cs_expected_precedent_ids adversarial_cases) = []"
    by (auto simp: held_out_case_def dest!: adversarial_in)
  show ?thesis
    unfolding unresolved_ids_def demo_cases list.map concat.simps none
    by (simp add: aligned_case_def held_out_case_def demo_release_def sample_precedent_def)
qed

definition demo_applications :: "borrower_application list" where
  "demo_applications = map (\<lambda>_. held_out_borrower) (ra_cases demo_release)"

lemma demo_applications: "emap (application_of \<circ> cs_application) (ra_cases demo_release) = Inr demo_applications"
  unfolding demo_applications_def
proof (rule emap_map, rule ballI)
  fix c assume "c \<in> set (ra_cases demo_release)"
  then have "cs_application c = held_out"
    unfolding demo_cases by (auto simp: aligned_case_def held_out_case_def dest!: adversarial_in)
  then show "(application_of \<circ> cs_application) c = Inr held_out_borrower" by (simp add: held_out_borrower)
qed

lemma map_filter_none: "\<forall>x \<in> set xs. f x = None \<Longrightarrow> List.map_filter f xs = []"
  by (induction xs) (auto simp: List.map_filter_simps)

lemma demo_no_failures:
  "List.map_filter (\<lambda>(c, a). eligibility_failure_of (ra_policies demo_release) c a)
     (zip (ra_cases demo_release) demo_applications) = []"
proof (rule map_filter_none, clarify)
  fix c a assume "(c, a) \<in> set (zip (ra_cases demo_release) demo_applications)"
  then have "a = held_out_borrower" "c \<in> set (ra_cases demo_release)"
    by (auto simp: demo_applications_def dest: set_zip_leftD set_zip_rightD)
  then show "eligibility_failure_of (ra_policies demo_release) c a = None"
    unfolding demo_cases by (auto simp: aligned_case_def held_out_case_ok dest!: adversarial_in)
qed

lemma demo_application_get:
  "dict_get (dict_of (zip (map cs_case_id (ra_cases demo_release)) demo_applications)) ''a'' = Some held_out_borrower"
proof -
  have "dict_get (dict_of (zip (map cs_case_id (ra_cases demo_release)) demo_applications)) (cs_case_id aligned_case) = Some held_out_borrower"
    using demo_ids(1) by (intro dict_of_zip) (simp_all add: demo_cases demo_applications_def)
  then show ?thesis by (simp add: aligned_case_def held_out_case_def)
qed

lemma demo_config:
  "ra_skip_seed demo_release" "config_fields_ok (release_config demo_release)"
  "is_ok (validate_weights (release_config demo_release))"
  by (simp_all add: demo_release_def release_config_def config_fields_ok_def validate_weights_def)

lemma demo_release_passes: "\<exists>shown. run_release demo_bench demo_release () = (Inr (shown, True), ())"
proof -
  obtain row ob where row: "retrieve_release_case demo_bench demo_release () [(''a'', held_out_borrower)] aligned_case = Inr (row, ob)"
    "rt_ranked_precedent_ids row = [''case-1'']" "\<not> rt_leakage row" "pb_latency_ms ob = 1"
    using demo_retrieved by (auto split: sum.splits prod.splits)
  have run: "retrieve_release_case demo_bench demo_release () (dict_of (zip (map cs_case_id (ra_cases demo_release)) demo_applications))
      aligned_case = Inr (row, ob)"
    using row(1) demo_application_get by (simp add: retrieve_release_case_def aligned_case_def held_out_case_def)
  have obs: "observation_of (aligned_case, row) =
      Some \<lparr>rl_case_id = ''a'', rl_expected_precedent_ids = [''case-1''], rl_ranked_precedent_ids = [''case-1''],
        rl_forbidden_funder_leakage = False\<rparr>"
    using row(2,3) by (simp add: observation_of_def aligned_case_def held_out_case_def)
  have metrics: "is_ok (retrieval_metrics [\<lparr>rl_case_id = ''a'', rl_expected_precedent_ids = [''case-1''],
      rl_ranked_precedent_ids = [''case-1''], rl_forbidden_funder_leakage = False\<rparr>])"
    by code_simp
  have perf: "is_ok (performance_metrics [ob])"
    using row(4)
    by (simp add: performance_metrics_def group_latencies_def group_key_def median_of_def p95_index_def Let_def)
  have close: "unexpected_no_close (ra_cases demo_release) [row] = []"
    unfolding demo_cases
    by (auto simp: unexpected_no_close_def filter_empty_conv aligned_case_def held_out_case_def dest!: adversarial_in)
  have "\<exists>shown. report_release demo_bench demo_release [] [] [(row, ob)] = Inr (shown, True)"
    using metrics perf close
    by (auto simp: report_release_def Let_def demo_picked List.map_filter_simps obs is_ok_iff missing_expected_def disjoint_def)
  then show ?thesis
    by (auto simp: run_release_def Let_def demo_ids demo_config demo_unresolved demo_applications demo_no_failures demo_picked run
        seed_corpus_def io_bind_def io_ensure_def io_lift_def io_ret_def)
qed

theorem release_gate_sound_witness:
  "length (ra_cases demo_release) = 24 \<and> set (cs_expected_eligible_funders aligned_case) =
     po_funder_id ` {po \<in> set sample_policies. satisfies_policy held_out_borrower po}"
proof -
  obtain shown where shown: "run_release demo_bench demo_release () = (Inr (shown, True), ())"
    using demo_release_passes by blast
  have "aligned_case \<in> set (ra_cases demo_release)" by (simp add: demo_cases)
  from release_gate_sound [OF shown demo_ids(1) this] show ?thesis
    by (auto simp: aligned_case_def held_out_case_def held_out_borrower demo_cases)
qed

end
