(* ===== verification/FM_Corpus.thy ===== *)
theory FM_Corpus
  imports FM_Evals
begin

text \<open>
  The invented precedents of \<open>scripts/generate_synthetic_corpus.py\<close>: the table, the case built from
  a row, and the file that \<open>precedent/corpus.py\<close> loads. A number of the table is its text, because
  the generator makes a decimal of \<open>str(value)\<close>. SHA-256 and the JSON of a case are parameters.
\<close>

section \<open>The table\<close>

record raw_case =
  rw_borrower :: string
  rw_industry :: string
  rw_region :: string
  rw_revenue :: string
  rw_requested :: string
  rw_margin :: string
  rw_dscr :: string
  rw_leverage :: string
  rw_collateral :: string
  rw_years :: int
  rw_employees :: int
  rw_outcome :: string
  rw_funder :: string

definition raw ::
  "string \<Rightarrow> string \<Rightarrow> string \<Rightarrow> string \<Rightarrow> string \<Rightarrow> string \<Rightarrow> string \<Rightarrow> string \<Rightarrow> string \<Rightarrow> int \<Rightarrow> int \<Rightarrow> string \<Rightarrow> string \<Rightarrow> raw_case" where
  "raw = raw_case.make"

definition RAW_CASES :: "raw_case list" where
  "RAW_CASES =
    [raw ''Aster Forge Components'' ''Auto components'' ''West'' ''184'' ''28'' ''14.2'' ''1.72'' ''2.1'' ''1.45'' 12 218
       ''approved'' ''northstar-capital'',
     raw ''Bluehaven Foods'' ''Food processing'' ''South'' ''96'' ''18'' ''11.8'' ''1.41'' ''2.8'' ''1.22'' 8 146
       ''approved_with_conditions'' ''harborline-credit'',
     raw ''Cedar Loom Textiles'' ''Textiles'' ''West'' ''132'' ''24'' ''8.4'' ''1.08'' ''4.2'' ''0.94'' 16 305
       ''rejected'' ''meridian-growth-finance'',
     raw ''Delta Grid Controls'' ''Electrical equipment'' ''South'' ''248'' ''42'' ''17.6'' ''1.93'' ''1.7'' ''1.61'' 11 192
       ''approved'' ''cobalt-infrastructure-fund'',
     raw ''Everbrook Diagnostics'' ''Healthcare services'' ''North'' ''74'' ''15'' ''19.1'' ''1.56'' ''2.0'' ''1.18'' 7 124
       ''approved'' ''northstar-capital'',
     raw ''Fircrest Packaging'' ''Packaging'' ''West'' ''158'' ''31'' ''12.7'' ''1.34'' ''3.1'' ''1.33'' 14 267
       ''approved_with_conditions'' ''harborline-credit'',
     raw ''Glenrock Ceramics'' ''Building materials'' ''North'' ''205'' ''39'' ''9.2'' ''1.12'' ''3.9'' ''1.08'' 18 336
       ''rejected'' ''cobalt-infrastructure-fund'',
     raw ''Highfield Cold Chain'' ''Logistics'' ''East'' ''119'' ''26'' ''15.4'' ''1.67'' ''2.4'' ''1.52'' 9 173
       ''approved'' ''meridian-growth-finance'',
     raw ''Indigo Water Systems'' ''Industrial services'' ''South'' ''88'' ''17'' ''13.6'' ''1.48'' ''2.6'' ''1.27'' 10 118
       ''approved_with_conditions'' ''northstar-capital'',
     raw ''Juniper Farm Inputs'' ''Agricultural inputs'' ''Central'' ''143'' ''29'' ''10.1'' ''1.21'' ''3.5'' ''1.11'' 13 229
       ''approved_with_conditions'' ''harborline-credit'',
     raw ''Keystone Meditech'' ''Medical devices'' ''West'' ''267'' ''46'' ''21.3'' ''2.04'' ''1.5'' ''1.74'' 15 284
       ''approved'' ''meridian-growth-finance'',
     raw ''Lakewood Paperworks'' ''Paper products'' ''East'' ''111'' ''23'' ''7.9'' ''0.96'' ''4.6'' ''0.86'' 20 312
       ''rejected'' ''cobalt-infrastructure-fund'',
     raw ''Meadowlane Solar Parts'' ''Renewable components'' ''South'' ''176'' ''36'' ''16.8'' ''1.79'' ''2.2'' ''1.46'' 6 155
       ''approved'' ''northstar-capital'',
     raw ''Northwind Precision Tools'' ''Engineering'' ''West'' ''221'' ''38'' ''18.2'' ''1.88'' ''1.9'' ''1.58'' 17 241
       ''approved'' ''harborline-credit'',
     raw ''Oakridge Dairy Products'' ''Dairy processing'' ''North'' ''127'' ''27'' ''9.8'' ''1.19'' ''3.7'' ''1.04'' 9 198
       ''approved_with_conditions'' ''meridian-growth-finance'',
     raw ''Pinecrest Safety Glass'' ''Specialty glass'' ''West'' ''193'' ''35'' ''13.1'' ''1.52'' ''2.9'' ''1.36'' 12 276
       ''approved'' ''cobalt-infrastructure-fund'',
     raw ''Quartzline Data Services'' ''Business services'' ''South'' ''68'' ''14'' ''24.6'' ''1.83'' ''1.3'' ''0.72'' 5 109
       ''approved_with_conditions'' ''northstar-capital'',
     raw ''Riverbend Pumps'' ''Industrial machinery'' ''Central'' ''154'' ''32'' ''14.9'' ''1.61'' ''2.5'' ''1.49'' 19 263
       ''approved'' ''harborline-credit'',
     raw ''Silverfern Homeware'' ''Consumer products'' ''East'' ''102'' ''21'' ''6.8'' ''0.91'' ''4.9'' ''0.81'' 11 187
       ''rejected'' ''meridian-growth-finance'',
     raw ''Timberline Biofuels'' ''Bioenergy'' ''Central'' ''236'' ''44'' ''15.7'' ''1.69'' ''2.3'' ''1.63'' 8 214
       ''approved_with_conditions'' ''cobalt-infrastructure-fund'']"

section \<open>A case from a row\<close>

definition decimal_value :: "string \<Rightarrow> py_exn + decimal" where
  "decimal_value text =
     (case decimal_of_string text of None \<Rightarrow> Inl (OtherException ''InvalidOperation'') | Some d \<Rightarrow> Inr d)"

definition pad3 :: "nat \<Rightarrow> string" where
  "pad3 n = (let s = str_nat n in replicate (3 - length s) CHR ''0'' @ s)"

definition synthetic_case_id :: "nat \<Rightarrow> string" where
  "synthetic_case_id index = ''SYN-'' @ pad3 index"

definition synthetic_profile :: "raw_case \<Rightarrow> py_exn + financial_profile" where
  "synthetic_profile r =
     ebind (decimal_value (rw_revenue r)) (\<lambda>revenue.
     ebind (decimal_value (rw_requested r)) (\<lambda>requested.
     ebind (decimal_value (rw_margin r)) (\<lambda>margin.
     ebind (decimal_value (rw_dscr r)) (\<lambda>dscr.
     ebind (decimal_value (rw_leverage r)) (\<lambda>leverage.
     ebind (decimal_value (rw_collateral r)) (\<lambda>collateral.
     Inr \<lparr>fp_annual_revenue_crore = revenue, fp_requested_amount_crore = requested, fp_ebitda_margin_pct = margin,
       fp_pat_crore = Dec False 0 0, fp_dscr = dscr, fp_debt_to_equity = Dec False 0 0, fp_debt_to_ebitda = leverage,
       fp_collateral_cover = collateral, fp_years_operating = rw_years r, fp_employee_count = rw_employees r\<rparr>))))))"

definition synthetic_metric :: "string \<Rightarrow> fact_name \<Rightarrow> decimal \<Rightarrow> string \<Rightarrow> nat \<Rightarrow> evidence_metric" where
  "synthetic_metric document_id name value unit page =
     \<lparr>em_name = name, em_value = FNum value, em_unit = unit, em_period = ''FY2025'',
      em_citation = \<lparr>ct_document_id = document_id, ct_page_number = page,
        ct_bbox = \<lparr>bx0 = 42, by0 = 100 + of_nat page, bx1 = 554, by1 = 124 + of_nat page\<rparr>\<rparr>\<rparr>"

text \<open>\<open>datetime(2025, 4, 1)\<close> in seconds; a case of row \<open>index\<close> is dated that many days later.\<close>

definition corpus_epoch :: timestamp where
  "corpus_epoch = 1743465600"

definition synthetic_created_at :: "nat \<Rightarrow> timestamp" where
  "synthetic_created_at index = corpus_epoch + 86400 * int index"

definition synthetic_comments :: "nat \<Rightarrow> financial_profile \<Rightarrow> reviewer_comment list" where
  "synthetic_comments index p =
     [\<lparr>rc_team = Finance, rc_author = ''synthetic-finance-'' @ str_nat (index mod 3 + 1),
       rc_text = ''Reviewed DSCR of '' @ str_decimal (fp_dscr p) @ '' and debt-to-EBITDA of '' @
         str_decimal (fp_debt_to_ebitda p) @ ''; figures reconcile to the synthetic pack.'',
       rc_created_at = synthetic_created_at index\<rparr>,
      \<lparr>rc_team = Operations, rc_author = ''synthetic-ops-'' @ str_nat (index mod 3 + 1),
       rc_text = ''Confirmed '' @ str_int (fp_years_operating p) @ '' years of operating history and a synthetic workforce of '' @
         str_int (fp_employee_count p) @ ''.'',
       rc_created_at = synthetic_created_at index + 7200\<rparr>]"

definition outcome_named :: "string \<Rightarrow> py_exn + decision_outcome" where
  "outcome_named value =
     (if value = ''approved'' then Inr APPROVED
      else if value = ''rejected'' then Inr REJECTED
      else if value = ''approved_with_conditions'' then Inr APPROVED_WITH_CONDITIONS
      else Inl (ValueError ''not a valid DecisionOutcome''))"

fun outcome_conditions :: "decision_outcome \<Rightarrow> string list" where
  "outcome_conditions APPROVED_WITH_CONDITIONS =
     [''Quarterly covenant reporting'', ''No additional senior debt without consent'']"
| "outcome_conditions _ = []"

fun outcome_rationale :: "decision_outcome \<Rightarrow> string" where
  "outcome_rationale APPROVED = ''Human committee accepted the documented risk-return profile.''"
| "outcome_rationale REJECTED = ''Human committee declined after reviewing weak coverage metrics.''"
| "outcome_rationale APPROVED_WITH_CONDITIONS =
     ''Human committee accepted the case subject to explicit monitoring conditions.''"

definition synthetic_decision :: "nat \<Rightarrow> raw_case \<Rightarrow> decision_outcome \<Rightarrow> human_decision" where
  "synthetic_decision index r outcome =
     \<lparr>hd_outcome = outcome, hd_funder_id = strip (rw_funder r),
      hd_decided_by = ''synthetic-committee-'' @ str_nat (index mod 4 + 1),
      hd_decided_at = synthetic_created_at index + 7 * 86400, hd_rationale = outcome_rationale outcome,
      hd_conditions = outcome_conditions outcome, hd_overrides = []\<rparr>"

definition synthetic_case :: "(string \<Rightarrow> string) \<Rightarrow> nat \<Rightarrow> raw_case \<Rightarrow> financial_profile \<Rightarrow> decision_outcome \<Rightarrow> decided_loan_case" where
  "synthetic_case sha256 index r p outcome =
     (let document_id = ''synthetic-'' @ sha256 (synthetic_case_id index) in
      \<lparr>dc_case_id = synthetic_case_id index, dc_borrower_name = strip (rw_borrower r), dc_industry = strip (rw_industry r),
       dc_sub_industry = ''Unclassified'', dc_region = strip (rw_region r), dc_loan_type = ''term_loan'', dc_profile = p,
       dc_evidence =
         [synthetic_metric document_id Annual_revenue_crore (fp_annual_revenue_crore p) ''INR crore'' 4,
          synthetic_metric document_id Ebitda_margin_pct (fp_ebitda_margin_pct p) ''percent'' 5,
          synthetic_metric document_id Dscr (fp_dscr p) ''ratio'' 6],
       dc_comments = synthetic_comments index p, dc_decision = synthetic_decision index r outcome,
       dc_lifecycle_status = ACTIVE, dc_policy_hash = None, dc_valid_until = None, dc_supersedes_case_id = None\<rparr>)"

definition build_synthetic_case :: "(string \<Rightarrow> string) \<Rightarrow> nat \<times> raw_case \<Rightarrow> py_exn + decided_loan_case" where
  "build_synthetic_case sha256 = (\<lambda>(index, r).
     ebind (synthetic_profile r) (\<lambda>p.
     ebind (outcome_named (rw_outcome r)) (\<lambda>outcome.
     raising_value (validate_case (synthetic_case sha256 index r p outcome)))))"

definition corpus_cases :: "(string \<Rightarrow> string) \<Rightarrow> py_exn + decided_loan_case list" where
  "corpus_cases sha256 = emap (build_synthetic_case sha256) (List.enumerate 1 RAW_CASES)"

definition corpus_text :: "(decided_loan_case \<Rightarrow> string) \<Rightarrow> decided_loan_case list \<Rightarrow> string" where
  "corpus_text dump cases = join_str [CHR 0x0A] (map dump cases) @ [CHR 0x0A]"

section \<open>Every row gives a valid case\<close>

fun begins_visibly :: "string \<Rightarrow> bool" where
  "begins_visibly [] = False"
| "begins_visibly (c # s) = (\<not> is_space c)"

text \<open>A positive number of at most six digits, two of them behind the point: what the table holds.\<close>

fun plain :: "decimal \<Rightarrow> bool" where
  "plain (Dec neg c e) \<longleftrightarrow> \<not> neg \<and> 0 < c \<and> c < 1000000 \<and> - 2 \<le> e \<and> e \<le> 0"

definition profile_ok :: "financial_profile \<Rightarrow> bool" where
  "profile_ok p \<longleftrightarrow> plain (fp_annual_revenue_crore p) \<and> plain (fp_requested_amount_crore p) \<and>
     plain (fp_ebitda_margin_pct p) \<and> dec_coeff (fp_ebitda_margin_pct p) \<le> 1000 \<and> dec_exp (fp_ebitda_margin_pct p) = - 1 \<and>
     plain (fp_dscr p) \<and> plain (fp_debt_to_ebitda p) \<and> plain (fp_collateral_cover p)"

definition row_ok :: "raw_case \<Rightarrow> bool" where
  "row_ok r \<longleftrightarrow> begins_visibly (rw_borrower r) \<and> begins_visibly (rw_industry r) \<and> begins_visibly (rw_region r) \<and>
     begins_visibly (rw_funder r) \<and> is_ok (outcome_named (rw_outcome r)) \<and>
     0 \<le> rw_years r \<and> rw_years r < 1000000 \<and> 0 < rw_employees r \<and> rw_employees r < 1000000 \<and>
     (case synthetic_profile r of Inl _ \<Rightarrow> False | Inr p \<Rightarrow> profile_ok p)"

lemmas reading = decimal_value_def decimal_of_string_def split_sign_def parse_exponent_def nat_of_digits_def digit_val_def
  is_digit_def strip_def is_space_def

lemma rows_ok: "list_all row_ok RAW_CASES"
  unfolding RAW_CASES_def list.pred_inject
  by (intro conjI TrueI; simp add: row_ok_def raw_def raw_case.defs outcome_named_def synthetic_profile_def profile_ok_def reading Let_def)

lemma strip_visible: "begins_visibly s \<Longrightarrow> strip s \<noteq> []"
  by (cases s) (auto simp: strip_def dropWhile_eq_Nil_conv)

lemma length_str_int: "0 \<le> i \<Longrightarrow> i < 1000000 \<Longrightarrow> length (str_int i) \<le> 6"
  using length_str_nat [of "nat i" 5] by (simp add: str_int_def)

lemma length_str_plain:
  assumes "plain d"
  shows "length (str_decimal d) \<le> 15"
proof (cases d)
  case (Dec neg c e)
  have n: "length (str_nat c) \<le> 6" "0 < length (str_nat c)"
    using length_str_nat [of c 5] assms Dec by simp_all
  with assms Dec show ?thesis
    by (auto simp: str_decimal_def dec_body_def Let_def)
qed

lemma plain_pos: "plain d \<Longrightarrow> 0 < dval d"
  by (cases d) (simp add: dval_def)

lemma profile_ok_valid:
  assumes "profile_ok p" and "0 \<le> fp_years_operating p" and "0 < fp_employee_count p" and "fp_debt_to_equity p = Dec False 0 0"
  shows "valid_profile p"
proof -
  have "dval (fp_ebitda_margin_pct p) \<le> 100"
  proof (cases "fp_ebitda_margin_pct p")
    case (Dec neg c e)
    with assms(1) have "\<not> neg" "c \<le> 1000" "e = - 1" by (auto simp: profile_ok_def)
    then have "(of_nat c :: rat) \<le> 1000" by (simp add: of_nat_le_iff [where 'a = rat, of _ 1000, simplified])
    with \<open>\<not> neg\<close> \<open>e = - 1\<close> Dec show ?thesis by (simp add: dval_def pow10_def)
  qed
  with assms show ?thesis
    unfolding valid_profile_def profile_ok_def
    by (auto dest!: plain_pos simp: dval_def [of "Dec False 0 0"])
qed

lemma nat_of_zeros: "nat_of_digits (replicate k CHR ''0'' @ s) = nat_of_digits s"
  by (induction k) (simp_all add: nat_of_digits_def digit_val_def)

lemma synthetic_case_id_inj: "synthetic_case_id m = synthetic_case_id n \<longleftrightarrow> m = n"
proof
  assume "synthetic_case_id m = synthetic_case_id n"
  then have "nat_of_digits (pad3 m) = nat_of_digits (pad3 n)" by (simp add: synthetic_case_id_def)
  then show "m = n" by (simp add: pad3_def Let_def nat_of_zeros)
qed simp

lemma is_digit_tail: "is_digit c \<Longrightarrow> id_tail_char c"
  by (simp add: id_tail_char_def is_alnum_def)

lemma synthetic_case_id_valid:
  assumes "index < 1000"
  shows "valid_case_id (synthetic_case_id index)"
proof -
  have len: "length (str_nat index) \<le> 3" using length_str_nat [of index 2] assms by simp
  have "list_all is_digit (pad3 index)"
    using str_nat_digits [of index] by (auto simp: pad3_def Let_def list_all_iff is_digit_def)
  then have "list_all id_tail_char (pad3 index)" by (auto simp: list_all_iff intro: is_digit_tail)
  moreover have "is_alnum CHR ''S''" "id_tail_char CHR ''Y''" "id_tail_char CHR ''N''" "id_tail_char CHR ''-''"
    by (simp_all add: is_alnum_def id_tail_char_def)
  ultimately show ?thesis
    using len by (simp add: valid_case_id_def synthetic_case_id_def pad3_def Let_def max_items_def)
qed

lemma synthetic_profile_Inr:
  "synthetic_profile r = Inr p \<Longrightarrow> fp_years_operating p = rw_years r \<and> fp_employee_count p = rw_employees r \<and>
     fp_debt_to_equity p = Dec False 0 0"
  by (auto simp: synthetic_profile_def result_elims)

lemma synthetic_comments_ok:
  assumes "profile_ok p" and "0 \<le> fp_years_operating p" and "fp_years_operating p < 1000000"
    and "0 < fp_employee_count p" and "fp_employee_count p < 1000000"
  shows "list_all (\<lambda>m. rc_author m \<noteq> [] \<and> rc_text m \<noteq> [] \<and> max_items 2000 (rc_text m)) (synthetic_comments index p)"
  using assms length_str_plain [of "fp_dscr p"] length_str_plain [of "fp_debt_to_ebitda p"]
    length_str_int [of "fp_years_operating p"] length_str_int [of "fp_employee_count p"]
  by (simp add: synthetic_comments_def max_items_def profile_ok_def)

lemma synthetic_case_valid:
  assumes "row_ok r" and "index < 1000" and "synthetic_profile r = Inr p"
  shows "validate_case (synthetic_case sha256 index r p outcome) = Inr (synthetic_case sha256 index r p outcome)"
proof -
  have row: "profile_ok p" "0 \<le> fp_years_operating p" "fp_years_operating p < 1000000"
    "0 < fp_employee_count p" "fp_employee_count p < 1000000" "fp_debt_to_equity p = Dec False 0 0"
    using assms(1,3) synthetic_profile_Inr [OF assms(3)] by (auto simp: row_ok_def)
  have texts: "strip (rw_borrower r) \<noteq> []" "strip (rw_industry r) \<noteq> []" "strip (rw_region r) \<noteq> []" "strip (rw_funder r) \<noteq> []"
    using assms(1) by (simp_all add: row_ok_def strip_visible)
  have rationale: "outcome_rationale outcome \<noteq> []" "max_items 2000 (outcome_rationale outcome)"
    by (cases outcome; simp add: max_items_def)+
  have loan: "valid_loan_code ''term_loan''" by (simp add: valid_loan_code_def max_items_def is_lower_def)
  let ?c = "synthetic_case sha256 index r p outcome"
  have "case_fields_ok ?c"
    using synthetic_case_id_valid [OF assms(2)] texts rationale loan synthetic_comments_ok [OF row(1-5)]
      profile_ok_valid [OF row(1) row(2) row(4) row(6)]
    by (simp add: case_fields_ok_def synthetic_case_def Let_def synthetic_decision_def synthetic_metric_def valid_metric_def
        valid_citation_def validate_coordinates_def, simp add: synthetic_comments_def)
  moreover have "validate_decision_conditions (dc_decision ?c) = Inr (dc_decision ?c)"
    by (cases outcome) (simp_all add: validate_decision_conditions_def synthetic_case_def Let_def synthetic_decision_def)
  moreover have "validate_internal_consistency ?c = Inr ?c"
    by (simp add: validate_internal_consistency_def synthetic_case_def Let_def evidence_matches_def metric_dict_def
        dict_of_def required_facts_def synthetic_metric_def synthetic_comments_def insert_commute)
  ultimately show ?thesis by (simp add: validate_case_def)
qed

lemma build_synthetic_case_ok:
  assumes "row_ok r" and "index < 1000"
  shows "\<exists>c. build_synthetic_case sha256 (index, r) = Inr c \<and> dc_case_id c = synthetic_case_id index \<and> synthetic_evidence c \<and>
    validate_case c = Inr c"
proof -
  obtain p where p: "synthetic_profile r = Inr p" using assms(1) by (auto simp: row_ok_def split: sum.splits)
  obtain outcome where o: "outcome_named (rw_outcome r) = Inr outcome" using assms(1) by (auto simp: row_ok_def is_ok_iff)
  note valid = synthetic_case_valid [OF assms p, of sha256 outcome]
  then show ?thesis
    using p o
    by (simp add: build_synthetic_case_def raising_value_def synthetic_evidence_def, simp add: synthetic_case_def Let_def synthetic_metric_def)
qed

section \<open>The generated file loads\<close>

lemma split_line:
  "list_all (\<lambda>c. \<not> line_break c) l \<Longrightarrow>
     split_lines acc False (l @ CHR 0x0A # rest) = (acc @ l) # split_lines [] False rest"
  by (induction l arbitrary: acc) (simp_all add: line_break_def)

definition one_line :: "string \<Rightarrow> bool" where
  "one_line l \<longleftrightarrow> list_all (\<lambda>c. \<not> line_break c) l \<and> strip l \<noteq> []"

lemma corpus_text_Cons: "cases \<noteq> [] \<Longrightarrow> corpus_text dump (c # cases) = dump c @ CHR 0x0A # corpus_text dump cases"
  by (cases cases) (simp_all add: corpus_text_def)

lemma content_lines_corpus:
  "cases \<noteq> [] \<Longrightarrow> list_all (\<lambda>c. one_line (dump c)) cases \<Longrightarrow> content_lines (corpus_text dump cases) = map dump cases"
proof (induction cases rule: list_nonempty_induct)
  case (single c)
  then show ?case
    using split_line [of "dump c" "[]" "[]"] by (simp add: content_lines_def corpus_text_def one_line_def)
next
  case (cons c cases)
  then show ?case
    using split_line [of "dump c" "[]" "corpus_text dump cases"]
    by (simp add: content_lines_def corpus_text_Cons one_line_def)
qed

lemma load_cases_of_text:
  assumes "cases \<noteq> []" and "list_all (\<lambda>c. one_line (dump c) \<and> parse (dump c) = Inr c) cases"
    and "list_all (\<lambda>c. validate_case c = Inr c) cases" and "distinct (map dc_case_id cases)"
    and "list_all synthetic_evidence cases"
  shows "load_cases parse (corpus_text dump cases) = Inr cases"
proof -
  have "content_lines (corpus_text dump cases) = map dump cases"
    using assms(1,2) by (intro content_lines_corpus) (auto simp: list_all_iff)
  moreover have "emap (\<lambda>line. ebind (parse line) (\<lambda>c. raising_value (validate_case c))) (map dump cases) = Inr cases"
    using assms(2,3) by (induction cases) (auto simp: raising_value_def)
  ultimately show ?thesis using assms(1,4,5) by (simp add: load_cases_def)
qed

lemma corpus_cases_ok:
  "list_all row_ok rows \<Longrightarrow> k + length rows \<le> 1000 \<Longrightarrow>
   \<exists>cases. emap (build_synthetic_case sha256) (List.enumerate k rows) = Inr cases \<and>
     map dc_case_id cases = map synthetic_case_id (map fst (List.enumerate k rows)) \<and>
     list_all (\<lambda>c. validate_case c = Inr c) cases \<and> list_all synthetic_evidence cases"
proof (induction rows arbitrary: k)
  case (Cons r rows)
  then have "row_ok r" "k < 1000" "list_all row_ok rows" "Suc k + length rows \<le> 1000" by simp_all
  then obtain c cases where "build_synthetic_case sha256 (k, r) = Inr c" "dc_case_id c = synthetic_case_id k"
    "synthetic_evidence c" "validate_case c = Inr c"
    "emap (build_synthetic_case sha256) (List.enumerate (Suc k) rows) = Inr cases"
    "map dc_case_id cases = map synthetic_case_id (map fst (List.enumerate (Suc k) rows))"
    "list_all (\<lambda>c. validate_case c = Inr c) cases" "list_all synthetic_evidence cases"
    using build_synthetic_case_ok [of r k sha256] Cons.IH [of "Suc k"] by blast
  then show ?case by (intro exI [of _ "c # cases"]) simp
qed simp

text \<open>
  C19. The generated corpus is valid and loads: whatever the hash, every row of the table gives a case,
  the twenty cases have distinct ids, and the loader reads the written file back as exactly these
  cases whenever the JSON of a case is one line that parses to it.
\<close>

theorem generated_corpus_loads:
  assumes "corpus_cases sha256 = result"
    and "\<And>cases c. result = Inr cases \<Longrightarrow> c \<in> set cases \<Longrightarrow> one_line (dump c) \<and> parse (dump c) = Inr c"
  shows "\<exists>cases. result = Inr cases \<and> length cases = 20 \<and> distinct (map dc_case_id cases) \<and>
    load_cases parse (corpus_text dump cases) = Inr cases"
proof -
  have rows: "length RAW_CASES = 20" by (simp add: RAW_CASES_def)
  obtain cases where cases: "result = Inr cases"
    "map dc_case_id cases = map synthetic_case_id (map fst (List.enumerate 1 RAW_CASES))"
    "list_all (\<lambda>c. validate_case c = Inr c) cases" "list_all synthetic_evidence cases"
    using corpus_cases_ok [OF rows_ok, of 1 sha256] assms(1) rows by (auto simp: corpus_cases_def)
  have "length cases = 20" using arg_cong [OF cases(2), of length] rows by simp
  moreover have "distinct (map dc_case_id cases)"
    unfolding cases(2) by (simp add: map_fst_enumerate distinct_map inj_on_def synthetic_case_id_inj)
  moreover have "list_all (\<lambda>c. one_line (dump c) \<and> parse (dump c) = Inr c) cases"
    using assms(2) [OF cases(1)] by (auto simp: list_all_iff)
  ultimately show ?thesis
    using cases by (intro exI [of _ cases]) (auto intro!: load_cases_of_text)
qed

definition lookup_case :: "decided_loan_case list \<Rightarrow> string \<Rightarrow> py_exn + decided_loan_case" where
  "lookup_case cases text =
     (case find (\<lambda>c. dc_case_id c = text) cases of None \<Rightarrow> Inl (ValueError ''validation error'') | Some c \<Rightarrow> Inr c)"

lemma lookup_case_of: "distinct (map dc_case_id cases) \<Longrightarrow> c \<in> set cases \<Longrightarrow> lookup_case cases (dc_case_id c) = Inr c"
  unfolding lookup_case_def by (induction cases) (auto simp: rev_image_eqI)

lemma one_line_id: "one_line (synthetic_case_id index)"
proof -
  have "list_all is_digit (pad3 index)"
    using str_nat_digits [of index] by (auto simp: pad3_def Let_def list_all_iff is_digit_def)
  moreover have "\<not> line_break c" if "is_digit c" for c
    using that by (auto simp: is_digit_def line_break_def)
  ultimately have "list_all (\<lambda>c. \<not> line_break c) (pad3 index)" by (auto simp: list_all_iff)
  then show ?thesis
    unfolding one_line_def synthetic_case_id_def
    by (intro conjI strip_visible) (simp_all add: line_break_def is_space_def)
qed

definition corpus_of_ids :: "decided_loan_case list" where
  "corpus_of_ids = (case corpus_cases id of Inr cases \<Rightarrow> cases)"

lemma corpus_of_ids:
  "corpus_cases id = Inr corpus_of_ids"
  "map dc_case_id corpus_of_ids = map synthetic_case_id (map fst (List.enumerate 1 RAW_CASES))"
proof -
  have "1 + length RAW_CASES \<le> 1000" by (simp add: RAW_CASES_def)
  from corpus_cases_ok [OF rows_ok this, of id] show
    "corpus_cases id = Inr corpus_of_ids"
    "map dc_case_id corpus_of_ids = map synthetic_case_id (map fst (List.enumerate 1 RAW_CASES))"
    by (auto simp: corpus_cases_def corpus_of_ids_def)
qed

theorem generated_corpus_loads_witness:
  "load_cases (lookup_case corpus_of_ids) (corpus_text dc_case_id corpus_of_ids) = Inr corpus_of_ids \<and> length corpus_of_ids = 20"
proof -
  have distinct: "distinct (map dc_case_id corpus_of_ids)"
    unfolding corpus_of_ids(2) by (simp add: map_fst_enumerate distinct_map inj_on_def synthetic_case_id_inj)
  have "one_line (dc_case_id c)" if "c \<in> set corpus_of_ids" for c
  proof -
    have "dc_case_id c \<in> set (map dc_case_id corpus_of_ids)" using that by simp
    then show ?thesis unfolding corpus_of_ids(2) using one_line_id by auto
  qed
  then have "\<exists>cases. Inr corpus_of_ids = (Inr cases :: py_exn + _) \<and> length cases = 20 \<and> distinct (map dc_case_id cases) \<and>
      load_cases (lookup_case corpus_of_ids) (corpus_text dc_case_id cases) = Inr cases"
    using lookup_case_of [OF distinct] by (intro generated_corpus_loads [OF corpus_of_ids(1)]) auto
  then show ?thesis by auto
qed

end
