(* ===== verification/FM_Validation.thy ===== *)
theory FM_Validation
  imports FM_API
begin

text \<open>
  The release checks of the wire contract (\<open>validation/contracts.py\<close>) and of the Compose file
  (\<open>validation/topology.py\<close>), over the parsed documents. The JSON schemas of the models and the text
  of a difference are parameters.
\<close>

section \<open>Values as Python compares them\<close>

definition attribute_error :: py_exn where
  "attribute_error = OtherException ''AttributeError''"

text \<open>\<open>value.get(key, default)\<close>; a value that is no dictionary has no such method.\<close>

definition json_get :: "string \<Rightarrow> json \<Rightarrow> json \<Rightarrow> py_exn + json" where
  "json_get key absent value =
     (case value of
        JObj o1 \<Rightarrow> Inr (case dict_get o1 key of None \<Rightarrow> absent | Some v \<Rightarrow> v)
      | _ \<Rightarrow> Inl attribute_error)"

definition json_items :: "json \<Rightarrow> py_exn + json_object" where
  "json_items value = (case value of JObj o1 \<Rightarrow> Inr o1 | _ \<Rightarrow> Inl attribute_error)"

text \<open>\<open>text in value\<close>.\<close>

definition json_contains :: "string \<Rightarrow> json \<Rightarrow> py_exn + bool" where
  "json_contains text value =
     (case value of
        JArr xs \<Rightarrow> Inr (JStr text \<in> set xs)
      | JStr s \<Rightarrow> Inr (contains_str text s)
      | JObj o1 \<Rightarrow> Inr (dict_get o1 text \<noteq> None)
      | _ \<Rightarrow> Inl (OtherException ''TypeError''))"

text \<open>\<open>==\<close>: dictionaries without regard to order, a truth value as the number it is.\<close>

lemma size_in_items: "(k, v) \<in> set xs \<Longrightarrow> size (v :: json) < Suc (size_list (size_prod (\<lambda>_. 0) size) xs)"
  by (induction xs) auto

lemma size_in_elements: "(v :: json) \<in> set xs \<Longrightarrow> size v < Suc (size_list size xs)"
  by (induction xs) auto

function json_eq :: "json \<Rightarrow> json \<Rightarrow> bool" where
  "json_eq JNull w = (w = JNull)"
| "json_eq (JStr s) w = (w = JStr s)"
| "json_eq (JBool b) w = (w = JBool b \<or> w = JNum (if b then 1 else 0))"
| "json_eq (JNum n) w = (w = JNum n \<or> (n = 1 \<and> w = JBool True) \<or> (n = 0 \<and> w = JBool False))"
| "json_eq (JArr xs) w =
     (case w of JArr ys \<Rightarrow> length xs = length ys \<and> list_all (\<lambda>(x, y). json_eq x y) (zip xs ys) | _ \<Rightarrow> False)"
| "json_eq (JObj xs) w =
     (case w of
        JObj ys \<Rightarrow> length xs = length ys \<and>
          list_all (\<lambda>(k, v). case dict_get ys k of None \<Rightarrow> False | Some u \<Rightarrow> json_eq v u) xs
      | _ \<Rightarrow> False)"
  by pat_completeness auto

termination
  by (relation "measure (\<lambda>(v, _). size v)")
     (auto intro!: size_in_elements intro: size_in_items dest: set_zip_leftD)

section \<open>The wire contract\<close>

fun normalize_schema :: "json \<Rightarrow> json"
  and normalize_list :: "json list \<Rightarrow> json list"
  and normalize_items :: "json_object \<Rightarrow> json_object" where
  "normalize_schema (JObj o1) =
     JObj (sort_key fst (filter (\<lambda>(k, _). k \<noteq> ''description'' \<and> k \<noteq> ''title'') (normalize_items o1)))"
| "normalize_schema (JArr xs) = JArr (normalize_list xs)"
| "normalize_schema JNull = JNull"
| "normalize_schema (JBool b) = JBool b"
| "normalize_schema (JNum n) = JNum n"
| "normalize_schema (JStr s) = JStr s"
| "normalize_list [] = []"
| "normalize_list (x # xs) = normalize_schema x # normalize_list xs"
| "normalize_items [] = []"
| "normalize_items ((k, v) # o1) = (k, normalize_schema v) # normalize_items o1"

definition consumer_schemas :: "(string \<times> json_object) list \<Rightarrow> json_object" where
  "consumer_schemas models = map (\<lambda>(name, schema). (name, normalize_schema (JObj schema))) (sort_key fst models)"

definition schema_failure :: "(string \<Rightarrow> json \<Rightarrow> json \<Rightarrow> string) \<Rightarrow> json_object \<Rightarrow> string \<times> json \<Rightarrow> string option" where
  "schema_failure diff consumer = (\<lambda>(name, expected).
     case dict_get consumer name of
       None \<Rightarrow> Some (''consumer model is missing: '' @ name)
     | Some actual \<Rightarrow>
         if json_eq actual expected then None
         else Some (''schema mismatch for '' @ name @ '': '' @ diff name expected actual))"

definition unexpected_schemas :: "json_object \<Rightarrow> json_object \<Rightarrow> string list" where
  "unexpected_schemas consumer producer = sort (filter (\<lambda>name. dict_get producer name = None) (map fst consumer))"

definition validate_contract ::
  "(string \<Rightarrow> json \<Rightarrow> json \<Rightarrow> string) \<Rightarrow> (string \<times> json_object) list \<Rightarrow> json_object \<Rightarrow> string list" where
  "validate_contract diff models contract =
     (let versions =
        (if dict_get contract ''bundle_version'' \<noteq> Some (JStr ''1.0'')
         then [''unsupported FinDocIQ contract bundle version''] else []) @
        (if dict_get contract ''supported_contract_versions'' \<noteq> Some (JArr [JStr ''1.0'', JStr ''2.0''])
         then [''FinDocIQ must publish development v1.0 and production v2.0''] else []) in
      case dict_get contract ''schemas'' of
        Some (JObj producer) \<Rightarrow>
          (let consumer = consumer_schemas models; unexpected = unexpected_schemas consumer producer in
           versions @ List.map_filter (schema_failure diff consumer) producer @
           (if unexpected \<noteq> []
            then [''producer bundle is missing consumer schemas: '' @ join_str '', '' unexpected] else []))
      | _ \<Rightarrow> versions @ [''contract bundle has no schema mapping''])"

section \<open>The Compose file\<close>

definition fail_if :: "bool \<Rightarrow> string \<Rightarrow> string list" where
  "fail_if b message = (if b then [message] else [])"

definition empty_object :: json where
  "empty_object = JObj []"

definition published_names :: "json \<Rightarrow> py_exn + string list" where
  "published_names services =
     ebind (json_items services) (\<lambda>items.
     ebind (emap (\<lambda>(name, service). ebind (json_get ''ports'' JNull service) (\<lambda>ports. Inr (name, json_truthy ports))) items)
       (\<lambda>flags. Inr (map fst (filter snd flags))))"

definition check_published :: "json \<Rightarrow> py_exn + string list" where
  "check_published services =
     ebind (published_names services) (\<lambda>published.
     Inr (fail_if (set published \<noteq> {''proxy''})
       (''only proxy may publish host ports; found '' @ join_str '', '' (sort (remdups published)))))"

definition check_unpublished :: "json \<Rightarrow> string \<Rightarrow> py_exn + string list" where
  "check_unpublished services name =
     ebind (json_get name empty_object services) (\<lambda>service.
     ebind (json_get ''ports'' JNull service) (\<lambda>ports.
     Inr (fail_if (json_truthy ports) (name @ '' must not publish host ports''))))"

definition check_internal :: "json \<Rightarrow> string \<Rightarrow> py_exn + string list" where
  "check_internal networks name =
     ebind (json_get name empty_object networks) (\<lambda>network.
     ebind (json_get ''internal'' JNull network) (\<lambda>flag.
     Inr (fail_if (flag \<noteq> JBool True) (''network '' @ name @ '' must remain internal''))))"

definition check_nested :: "json \<Rightarrow> string \<Rightarrow> string \<Rightarrow> string \<Rightarrow> string \<Rightarrow> py_exn + string list" where
  "check_nested service outer inner expected message =
     ebind (json_get outer empty_object service) (\<lambda>part.
     ebind (json_get inner JNull part) (\<lambda>value.
     Inr (fail_if (value \<noteq> JStr expected) message)))"

definition check_secret :: "json \<Rightarrow> string \<Rightarrow> py_exn + string list" where
  "check_secret service message =
     ebind (json_get ''secrets'' (JArr []) service) (\<lambda>secrets.
     ebind (json_contains ''service_jwt'' secrets) (\<lambda>present.
     Inr (fail_if (\<not> present) message)))"

definition PRIVATE_SERVICES :: "string list" where
  "PRIVATE_SERVICES = [''findociq'', ''postgres'', ''qdrant'', ''vllm'', ''clamav'']"

definition INTERNAL_NETWORKS :: "string list" where
  "INTERNAL_NETWORKS = [''application'', ''model_data'']"

definition service_checks :: "json \<Rightarrow> json \<Rightarrow> (py_exn + string list) list" where
  "service_checks findociq fundermatch =
     [check_nested findociq ''build'' ''context'' ''${FINDOCIQ_REPO_PATH:-../FinDocs_Analysis_Evals}''
        ''FinDocIQ build context must use the canonical repository name'',
      check_nested fundermatch ''environment'' ''FINDOCIQ_BASE_URL'' ''http://findociq:8989''
        ''FunderMatch must call FinDocIQ over the private service network'',
      check_secret fundermatch ''FunderMatch must receive the shared FinDocIQ service JWT secret'',
      check_secret findociq ''FinDocIQ must receive the shared service JWT secret'',
      check_nested fundermatch ''environment'' ''FUNDERMATCH_PRODUCTION_GUARDRAILS_ENABLED'' ''true''
        ''FunderMatch production guardrails must be enabled'',
      check_nested findociq ''environment'' ''FINDOCIQ_PRODUCTION_GUARDRAILS_ENABLED'' ''true''
        ''FinDocIQ production guardrails must be enabled'']"

definition validate_topology :: "json \<Rightarrow> py_exn + string list" where
  "validate_topology payload =
     ebind (json_get ''services'' empty_object payload) (\<lambda>services.
     ebind (json_get ''networks'' empty_object payload) (\<lambda>networks.
     ebind (emap id (check_published services # map (check_unpublished services) PRIVATE_SERVICES @
       map (check_internal networks) INTERNAL_NETWORKS)) (\<lambda>boundary.
     ebind (json_get ''findociq'' empty_object services) (\<lambda>findociq.
     ebind (json_get ''fundermatch'' empty_object services) (\<lambda>fundermatch.
     ebind (emap id (service_checks findociq fundermatch)) (\<lambda>settings.
     Inr (concat boundary @ concat settings)))))))"

end
