(* ===== verification/FM_Validation_Props.thy ===== *)
theory FM_Validation_Props
  imports FM_Validation
begin

text \<open>
  The checks of the contract and of the Compose file against what they are to establish: agreement of
  the schemas, and a trust boundary read off the document by paths.
\<close>

section \<open>The contract\<close>

lemma dict_get_sort:
  assumes "distinct (map fst d)"
  shows "dict_get (sort_key fst d) = dict_get d"
proof
  fix k
  have wf: "dict_wf d" "dict_wf (sort_key fst d)"
    using assms by (simp_all add: dict_wf_def) (metis distinct_map distinct_sort set_sort)
  show "dict_get (sort_key fst d) k = dict_get d k"
    using dict_get_in_iff [OF wf(1), of k] dict_get_in_iff [OF wf(2), of k]
    by (cases "dict_get d k"; cases "dict_get (sort_key fst d) k") auto
qed

lemma consumer_schemas_get:
  assumes "distinct (map fst models)"
  shows "dict_get (consumer_schemas models) name = map_option (\<lambda>s. normalize_schema (JObj s)) (dict_get models name)"
  by (simp add: consumer_schemas_def map_of_map comp_def dict_get_sort [OF assms] del: normalize_schema.simps)

lemma consumer_schemas_names: "set (map fst (consumer_schemas models)) = fst ` set models"
  by (force simp: consumer_schemas_def)

lemma map_filter_Nil_iff: "List.map_filter f xs = [] \<longleftrightarrow> (\<forall>x \<in> set xs. f x = None)"
  by (induction xs) (auto simp: List.map_filter_simps split: option.splits)

text \<open>
  C39. The contract check accepts exactly agreement: for a bundle with a schema mapping and distinct names, it
  reports nothing if and only if the two version entries are the supported ones, producer and
  consumer name the same models, and every producer schema equals the normalized schema of
  the consumer's model as Python compares values.
\<close>

theorem contract_accepted_iff_agreed:
  assumes "dict_get contract ''schemas'' = Some (JObj producer)"
    and "distinct (map fst models)"
  shows "validate_contract diff models contract = [] \<longleftrightarrow>
    dict_get contract ''bundle_version'' = Some (JStr ''1.0'') \<and>
    dict_get contract ''supported_contract_versions'' = Some (JArr [JStr ''1.0'', JStr ''2.0'']) \<and>
    fst ` set producer = fst ` set models \<and>
    (\<forall>(name, expected) \<in> set producer. \<exists>schema. dict_get models name = Some schema \<and>
       json_eq (normalize_schema (JObj schema)) expected)"
proof -
  let ?agree = "\<forall>(name, expected) \<in> set producer. \<exists>schema. dict_get models name = Some schema \<and>
       json_eq (normalize_schema (JObj schema)) expected"
  have failures: "List.map_filter (schema_failure diff (consumer_schemas models)) producer = [] \<longleftrightarrow> ?agree"
    unfolding map_filter_Nil_iff
    by (fastforce simp: schema_failure_def consumer_schemas_get [OF assms(2)] simp del: normalize_schema.simps
        split: option.splits if_splits)
  have "unexpected_schemas (consumer_schemas models) producer = [] \<longleftrightarrow>
      (\<forall>name \<in> fst ` set models. dict_get producer name \<noteq> None)"
    unfolding consumer_schemas_names [symmetric]
    by (auto simp: unexpected_schemas_def filter_empty_conv simp flip: set_empty)
  also have "\<dots> \<longleftrightarrow> fst ` set models \<subseteq> fst ` set producer"
    by (auto simp: map_of_eq_None_iff)
  finally have unexpected: "unexpected_schemas (consumer_schemas models) producer = [] \<longleftrightarrow> fst ` set models \<subseteq> fst ` set producer" .
  have "fst ` set producer \<subseteq> fst ` set models" if ?agree
    using that by (force dest: map_of_SomeD)
  then show ?thesis
    unfolding validate_contract_def Let_def assms(1)
    using failures unexpected by auto
qed

definition demo_contract :: json_object where
  "demo_contract =
     [(''bundle_version'', JStr ''1.0''), (''supported_contract_versions'', JArr [JStr ''1.0'', JStr ''2.0'']),
      (''schemas'', JObj [(''ExtractRequest'', JObj [(''type'', JStr ''object''), (''maxItems'', JNum 1)])])]"

definition demo_models :: "(string \<times> json_object) list" where
  "demo_models = [(''ExtractRequest'', [(''title'', JStr ''t''), (''maxItems'', JNum 1), (''type'', JStr ''object'')])]"

theorem contract_accepted_iff_agreed_witness:
  "validate_contract (\<lambda>_ _ _. []) demo_models demo_contract = []"
proof -
  have "dict_get demo_contract ''schemas'' =
      Some (JObj [(''ExtractRequest'', JObj [(''type'', JStr ''object''), (''maxItems'', JNum 1)])])"
    by (simp add: demo_contract_def)
  from contract_accepted_iff_agreed [OF this, of demo_models "\<lambda>_ _ _. []"] show ?thesis
    by (simp add: demo_contract_def demo_models_def)
qed

section \<open>The trust boundary\<close>

text \<open>The value at a path of keys.\<close>

fun json_at :: "string list \<Rightarrow> json \<Rightarrow> json option" where
  "json_at [] v = Some v"
| "json_at (k # ks) (JObj o1) = (case dict_get o1 k of None \<Rightarrow> None | Some v \<Rightarrow> json_at ks v)"
| "json_at (k # ks) _ = None"

definition publishes :: "json \<Rightarrow> string \<Rightarrow> bool" where
  "publishes payload name = (case json_at [''services'', name, ''ports''] payload of None \<Rightarrow> False | Some v \<Rightarrow> json_truthy v)"

definition receives_jwt :: "json \<Rightarrow> string \<Rightarrow> bool" where
  "receives_jwt payload name =
     (case json_at [''services'', name, ''secrets''] payload of None \<Rightarrow> False | Some v \<Rightarrow> json_contains ''service_jwt'' v = Inr True)"

definition secure_topology :: "json \<Rightarrow> bool" where
  "secure_topology p \<longleftrightarrow>
     (\<forall>name. publishes p name \<longleftrightarrow> name = ''proxy'') \<and>
     json_at [''networks'', ''application'', ''internal''] p = Some (JBool True) \<and>
     json_at [''networks'', ''model_data'', ''internal''] p = Some (JBool True) \<and>
     json_at [''services'', ''findociq'', ''build'', ''context''] p = Some (JStr ''${FINDOCIQ_REPO_PATH:-../FinDocs_Analysis_Evals}'') \<and>
     json_at [''services'', ''fundermatch'', ''environment'', ''FINDOCIQ_BASE_URL''] p = Some (JStr ''http://findociq:8989'') \<and>
     receives_jwt p ''fundermatch'' \<and> receives_jwt p ''findociq'' \<and>
     json_at [''services'', ''fundermatch'', ''environment'', ''FUNDERMATCH_PRODUCTION_GUARDRAILS_ENABLED''] p = Some (JStr ''true'') \<and>
     json_at [''services'', ''findociq'', ''environment'', ''FINDOCIQ_PRODUCTION_GUARDRAILS_ENABLED''] p = Some (JStr ''true'')"

lemma json_get_Inr:
  "json_get k absent v = Inr w \<longleftrightarrow> (\<exists>o1. v = JObj o1 \<and> w = (case dict_get o1 k of None \<Rightarrow> absent | Some x \<Rightarrow> x))"
  by (cases v) (auto simp: json_get_def)

lemma json_at_get:
  assumes "json_get k empty_object v = Inr w"
  shows "json_at (k # k' # ks) v = json_at (k' # ks) w"
  using assms by (auto simp: json_get_Inr empty_object_def split: option.splits)

lemma json_at_leaf: "json_get k JNull v = Inr w \<Longrightarrow> w \<noteq> JNull \<Longrightarrow> json_at [k] v = Some w"
  "json_get k JNull v = Inr JNull \<Longrightarrow> json_at [k] v \<in> {None, Some JNull}"
  by (auto simp: json_get_Inr split: option.splits)

lemma fail_if_Nil [simp]: "fail_if b m = [] \<longleftrightarrow> \<not> b"
  by (simp add: fail_if_def)

lemma check_nested_Nil:
  "check_nested service outer inner expected m = Inr l \<Longrightarrow> l = [] \<longleftrightarrow> json_at [outer, inner] service = Some (JStr expected)"
  by (auto simp: check_nested_def result_elims json_get_Inr empty_object_def split: option.splits)

lemma check_secret_Nil:
  "check_secret service m = Inr l \<Longrightarrow>
     l = [] \<longleftrightarrow> (case json_at [''secrets''] service of None \<Rightarrow> False | Some v \<Rightarrow> json_contains ''service_jwt'' v = Inr True)"
  by (auto simp: check_secret_def result_elims json_get_Inr json_contains_def split: option.splits)

lemma check_internal_Nil:
  "check_internal networks name = Inr l \<Longrightarrow> l = [] \<longleftrightarrow> json_at [name, ''internal''] networks = Some (JBool True)"
  by (auto simp: check_internal_def result_elims json_get_Inr empty_object_def split: option.splits)

lemma check_unpublished_Nil:
  "check_unpublished services name = Inr l \<Longrightarrow>
     l = [] \<longleftrightarrow> \<not> (case json_at [name, ''ports''] services of None \<Rightarrow> False | Some v \<Rightarrow> json_truthy v)"
  by (auto simp: check_unpublished_def result_elims json_get_Inr empty_object_def split: option.splits)

definition port_flag :: "json \<Rightarrow> bool" where
  "port_flag service = (case json_at [''ports''] service of None \<Rightarrow> False | Some v \<Rightarrow> json_truthy v)"

lemma json_get_ports: "json_get ''ports'' JNull service = Inr w \<Longrightarrow> json_truthy w \<longleftrightarrow> port_flag service"
  by (auto simp: json_get_Inr port_flag_def split: option.splits)

lemma port_flags:
  "emap (\<lambda>(name, service). ebind (json_get ''ports'' JNull service) (\<lambda>ports. Inr (name, json_truthy ports))) items = Inr flags \<Longrightarrow>
   flags = map (\<lambda>(name, service). (name, port_flag service)) items"
  by (induction items arbitrary: flags) (auto simp: result_elims json_get_ports)

lemma check_published_Nil:
  assumes "check_published services = Inr l" and "\<And>items. services = JObj items \<Longrightarrow> dict_wf items"
  shows "l = [] \<longleftrightarrow> (\<forall>name. (case json_at [name, ''ports''] services of None \<Rightarrow> False | Some v \<Rightarrow> json_truthy v) \<longleftrightarrow> name = ''proxy'')"
proof -
  from assms(1) obtain items where items: "services = JObj items"
    and l: "l = [] \<longleftrightarrow> set (map fst (filter snd (map (\<lambda>(name, service). (name, port_flag service)) items))) = {''proxy''}"
    by (auto simp: check_published_def published_names_def json_items_def result_elims split: json.splits dest!: port_flags)
  have names: "set (map fst (filter snd (map (\<lambda>(name, service). (name, port_flag service)) items))) =
      {name. \<exists>service. (name, service) \<in> set items \<and> port_flag service}"
    by force
  have "(\<exists>service. (name, service) \<in> set items \<and> port_flag service) \<longleftrightarrow>
      (case json_at [name, ''ports''] services of None \<Rightarrow> False | Some v \<Rightarrow> json_truthy v)" for name
    unfolding items dict_get_in_iff [OF assms(2) [OF items], of name]
    by (cases "dict_get items name") (auto simp: port_flag_def)
  with l show ?thesis unfolding names by (auto simp: set_eq_iff)
qed

lemma list_all_Nil_True: "list_all P [] = True"
  by simp

lemma drop_implied: "(A \<Longrightarrow> H) \<Longrightarrow> X = (A \<and> H \<and> N) \<Longrightarrow> X = (A \<and> N)"
  by blast

text \<open>A check that returns reports nothing exactly when its condition holds.\<close>

definition establishes :: "py_exn + string list \<Rightarrow> bool \<Rightarrow> bool" where
  "establishes check Q \<longleftrightarrow> (\<forall>l. check = Inr l \<longrightarrow> (l = [] \<longleftrightarrow> Q))"

lemma concat_checks:
  "emap id checks = Inr ls \<Longrightarrow> list_all2 establishes checks Qs \<Longrightarrow> concat ls = [] \<longleftrightarrow> list_all id Qs"
proof (induction checks arbitrary: ls Qs)
  case (Cons c checks)
  then obtain l ls' Q Qs' where ls: "ls = l # ls'" "c = Inr l" "Qs = Q # Qs'" "establishes c Q"
    and rest: "emap id checks = Inr ls'" "list_all2 establishes checks Qs'"
    using Cons.prems by (auto simp: result_elims list_all2_Cons1 id_def)
  have "l = [] \<longleftrightarrow> Q" using ls(2,4) by (simp add: establishes_def)
  with Cons.IH [OF rest] show ?case
    unfolding ls(1,3) concat.simps append_is_Nil_conv list.pred_inject id_apply by blast
qed simp

lemma establishes_checks:
  "establishes (check_nested service k k' expected m) (json_at [k, k'] service = Some (JStr expected))"
  "establishes (check_secret service m)
     (case json_at [''secrets''] service of None \<Rightarrow> False | Some v \<Rightarrow> json_contains ''service_jwt'' v = Inr True)"
  "establishes (check_internal networks name) (json_at [name, ''internal''] networks = Some (JBool True))"
  "establishes (check_unpublished services name)
     (\<not> (case json_at [name, ''ports''] services of None \<Rightarrow> False | Some v \<Rightarrow> json_truthy v))"
  unfolding establishes_def
  using check_nested_Nil check_secret_Nil check_internal_Nil check_unpublished_Nil by blast+

text \<open>
  C38. The Compose check is the trust boundary: for a document whose services have distinct names, when
  the check ends without an exception it reports nothing if and only if the proxy and no other
  service publishes ports, both networks are internal, FinDocIQ is built from its canonical
  context and reached over the private network, both services receive the shared secret, and both
  run with production guardrails.
\<close>

theorem topology_accepted_iff_secure:
  assumes "validate_topology payload = Inr failures"
    and "\<And>items. json_at [''services''] payload = Some (JObj items) \<Longrightarrow> dict_wf items"
  shows "failures = [] \<longleftrightarrow> secure_topology payload"
proof -
  obtain services networks boundary findociq fundermatch settings where
    top: "json_get ''services'' empty_object payload = Inr services" "json_get ''networks'' empty_object payload = Inr networks"
    and boundary: "emap id (check_published services # map (check_unpublished services) PRIVATE_SERVICES @
       map (check_internal networks) INTERNAL_NETWORKS) = Inr boundary"
    and parts: "json_get ''findociq'' empty_object services = Inr findociq"
      "json_get ''fundermatch'' empty_object services = Inr fundermatch"
    and settings: "emap id (service_checks findociq fundermatch) = Inr settings"
    and failures: "failures = concat boundary @ concat settings"
    using assms(1) unfolding validate_topology_def by (auto simp: result_elims)
  have wf: "dict_wf items" if "services = JObj items" for items
    using that top(1) assms(2) by (cases "json_at [''services''] payload")
      (auto simp: json_get_Inr empty_object_def split: option.splits)
  note at = json_at_get [OF top(1)] json_at_get [OF top(2)] json_at_get [OF parts(1)] json_at_get [OF parts(2)]
  have "establishes (check_published services) (\<forall>name. publishes payload name \<longleftrightarrow> name = ''proxy'')"
    unfolding establishes_def publishes_def at using check_published_Nil [OF _ wf] by blast
  then have "list_all2 establishes (check_published services # map (check_unpublished services) PRIVATE_SERVICES @
       map (check_internal networks) INTERNAL_NETWORKS)
     ((\<forall>name. publishes payload name \<longleftrightarrow> name = ''proxy'') # map (\<lambda>name. \<not> publishes payload name) PRIVATE_SERVICES @
       map (\<lambda>name. json_at [''networks'', name, ''internal''] payload = Some (JBool True)) INTERNAL_NETWORKS)"
    unfolding publishes_def at PRIVATE_SERVICES_def INTERNAL_NETWORKS_def by (simp add: establishes_checks)
  note boundary_holds = concat_checks [OF boundary this]
  let ?proxy = "\<forall>name. publishes payload name \<longleftrightarrow> name = ''proxy''"
  have hidden: "list_all (\<lambda>name. \<not> publishes payload name) PRIVATE_SERVICES" if ?proxy
    unfolding list_all_iff using that by (simp add: PRIVATE_SERVICES_def)
  have split: "list_all id (?proxy # map (\<lambda>name. \<not> publishes payload name) PRIVATE_SERVICES @
       map (\<lambda>name. json_at [''networks'', name, ''internal''] payload = Some (JBool True)) INTERNAL_NETWORKS) \<longleftrightarrow>
     ?proxy \<and> list_all (\<lambda>name. \<not> publishes payload name) PRIVATE_SERVICES \<and>
       list_all (\<lambda>name. json_at [''networks'', name, ''internal''] payload = Some (JBool True)) INTERNAL_NETWORKS"
    by (simp only: list.pred_inject id_apply list_all_append list.pred_map comp_def)
  have "concat boundary = [] \<longleftrightarrow> ?proxy \<and>
     list_all (\<lambda>name. json_at [''networks'', name, ''internal''] payload = Some (JBool True)) INTERNAL_NETWORKS"
    by (rule drop_implied [OF hidden trans [OF boundary_holds split]])
  then have boundary_iff: "concat boundary = [] \<longleftrightarrow> ?proxy \<and>
     json_at [''networks'', ''application'', ''internal''] payload = Some (JBool True) \<and>
     json_at [''networks'', ''model_data'', ''internal''] payload = Some (JBool True)"
    unfolding INTERNAL_NETWORKS_def list_all_Nil_True list.pred_inject(2) simp_thms .
  have "list_all2 establishes (service_checks findociq fundermatch)
    [json_at [''services'', ''findociq'', ''build'', ''context''] payload = Some (JStr ''${FINDOCIQ_REPO_PATH:-../FinDocs_Analysis_Evals}''),
     json_at [''services'', ''fundermatch'', ''environment'', ''FINDOCIQ_BASE_URL''] payload = Some (JStr ''http://findociq:8989''),
     receives_jwt payload ''fundermatch'', receives_jwt payload ''findociq'',
     json_at [''services'', ''fundermatch'', ''environment'', ''FUNDERMATCH_PRODUCTION_GUARDRAILS_ENABLED''] payload = Some (JStr ''true''),
     json_at [''services'', ''findociq'', ''environment'', ''FINDOCIQ_PRODUCTION_GUARDRAILS_ENABLED''] payload = Some (JStr ''true'')]"
    unfolding service_checks_def receives_jwt_def at by (simp only: list_all2_Cons list_all2_Nil establishes_checks)
  note settings_hold = concat_checks [OF settings this, unfolded list.pred_inject(2) list_all_Nil_True id_apply simp_thms]
  show ?thesis
    unfolding failures append_is_Nil_conv secure_topology_def boundary_iff settings_hold conj_assoc ..
qed

definition production_compose :: json where
  "production_compose = JObj
     [(''services'', JObj
        [(''proxy'', JObj [(''ports'', JArr [JStr ''443:443''])]),
         (''fundermatch'', JObj
            [(''environment'', JObj [(''FINDOCIQ_BASE_URL'', JStr ''http://findociq:8989''),
               (''FUNDERMATCH_PRODUCTION_GUARDRAILS_ENABLED'', JStr ''true'')]),
             (''secrets'', JArr [JStr ''service_jwt''])]),
         (''findociq'', JObj
            [(''build'', JObj [(''context'', JStr ''${FINDOCIQ_REPO_PATH:-../FinDocs_Analysis_Evals}'')]),
             (''environment'', JObj [(''FINDOCIQ_PRODUCTION_GUARDRAILS_ENABLED'', JStr ''true'')]),
             (''secrets'', JArr [JStr ''service_jwt''])])]),
      (''networks'', JObj
        [(''application'', JObj [(''internal'', JBool True)]), (''model_data'', JObj [(''internal'', JBool True)])])]"

lemma production_compose_ok: "validate_topology production_compose = Inr []"
  by code_simp

theorem topology_accepted_iff_secure_witness: "secure_topology production_compose"
proof -
  have "dict_wf items" if "json_at [''services''] production_compose = Some (JObj items)" for items
    using that by (auto simp: production_compose_def dict_wf_def)
  from topology_accepted_iff_secure [OF production_compose_ok this] show ?thesis by simp
qed

end
