(* ===== verification/FM_Startup.thy ===== *)
theory FM_Startup
  imports FM_Identity FM_Retention FM_Redaction
begin

text \<open>
  The start of the service: the switches and secrets of the environment, and the lifespan of
  \<open>create_app\<close> in \<open>api/app.py\<close>, which builds every part from them. The environment, the files and
  the loaders are parameters; a record of \<open>parts\<close> holds what the classes get from elsewhere (JSON
  forms, clients, clocks), and the lifespan sets the fields the code sets.
\<close>

section \<open>Environment\<close>

record startup_env =
  se_getenv :: "string \<Rightarrow> string option"
  se_read_text :: "string \<Rightarrow> py_exn + string"
  se_path :: "string \<Rightarrow> path"
  se_guardrail_policy :: "string \<Rightarrow> py_exn + production_policy"
  se_funder_policies :: "string \<Rightarrow> py_exn + funder_policy list"
  se_decode64 :: "string \<Rightarrow> py_exn + string"

definition getenv_or :: "startup_env \<Rightarrow> string \<Rightarrow> string \<Rightarrow> string" where
  "getenv_or env name fallback = (case se_getenv env name of None \<Rightarrow> fallback | Some v \<Rightarrow> v)"

text \<open>A variable that is set and not empty.\<close>

definition getenv_truthy :: "startup_env \<Rightarrow> string \<Rightarrow> string option" where
  "getenv_truthy env name = (case se_getenv env name of None \<Rightarrow> None | Some v \<Rightarrow> if v = [] then None else Some v)"

definition read_secret :: "startup_env \<Rightarrow> string \<Rightarrow> py_exn + string" where
  "read_secret env name =
     (case getenv_truthy env (name @ ''_FILE'') of
        Some file \<Rightarrow> ebind (se_read_text env file) (\<lambda>text. Inr (strip text))
      | None \<Rightarrow>
          (case getenv_truthy env name of
             Some v \<Rightarrow> Inr v
           | None \<Rightarrow> Inl (RuntimeError (''required secret is not configured: '' @ name))))"

definition optional_secret :: "startup_env \<Rightarrow> string \<Rightarrow> py_exn + string option" where
  "optional_secret env name =
     (case read_secret env name of
        Inl (RuntimeError _) \<Rightarrow> Inr None
      | Inl e \<Rightarrow> Inl e
      | Inr v \<Rightarrow> Inr (Some v))"

definition agent_orchestration_enabled :: "startup_env \<Rightarrow> bool" where
  "agent_orchestration_enabled env \<longleftrightarrow>
     casefold (getenv_or env ''FUNDERMATCH_AGENT_ORCHESTRATION_ENABLED'' ''false'') \<in> {''1'', ''true'', ''yes'', ''on''}"

definition production_guardrails_enabled :: "startup_env \<Rightarrow> bool" where
  "production_guardrails_enabled env \<longleftrightarrow>
     casefold (getenv_or env ''FUNDERMATCH_PRODUCTION_GUARDRAILS_ENABLED'' ''false'') \<in> {''1'', ''true'', ''yes''}"

definition policy_path :: "startup_env \<Rightarrow> string" where
  "policy_path env = getenv_or env ''FUNDERMATCH_GUARDRAIL_POLICY'' ''configs/guardrails/production.yaml''"

definition maintenance_interval :: "startup_env \<Rightarrow> py_exn + int" where
  "maintenance_interval env =
     ebind (py_int (JStr (getenv_or env ''FUNDERMATCH_MAINTENANCE_INTERVAL_SECONDS'' ''3600''))) (\<lambda>i. Inr (max 60 i))"

section \<open>The parts\<close>

type_synonym ('q, 'y) app_systems = "(postgres_jobs, 'q, 'y) systems"
type_synonym ('q, 'y) app_state = "(postgres_repo, postgres_jobs, 'q, 'y, life_table) service_state"
type_synonym ('q, 'y) app_service = "(postgres_repo, postgres_jobs, 'q, 'y, life_table) service"

record ('q, 'y) parts =
  pt_ticks :: "nat \<Rightarrow> tick"
  pt_writeback :: "(postgres_repo, 'q) writeback"
  pt_intake :: "(postgres_repo, ('q, 'y) app_systems) intake_service"
  pt_deps :: "(postgres_repo, ('q, 'y) app_systems) deps"
  pt_dump_size :: "memory_state \<Rightarrow> nat"
  pt_outside :: "('q, 'y) app_systems outside"
  pt_runtime :: "(postgres_repo, postgres_jobs, 'q, 'y, life_table) runtime"
  pt_service :: "('q, 'y) app_service"
  pt_ingest :: "client_config \<Rightarrow> ingest_batch_request \<Rightarrow> (('q, 'y) app_systems, findociq_exn, ingest_document_response list) io"
  pt_agent_ingest ::
    "client_config \<Rightarrow> ingest_batch_request \<Rightarrow> (('q, 'y) app_systems, findociq_exn + ingest_document_response list) operation"
  pt_extract :: "client_config \<Rightarrow> extract_request \<Rightarrow> (('q, 'y) app_systems, findociq_exn, extract_response) io"
  pt_agent_extract :: "client_config \<Rightarrow> extract_request \<Rightarrow> (('q, 'y) app_systems, findociq_exn + extract_response) operation"
  pt_activity :: "client_config \<Rightarrow> string \<Rightarrow> nat \<Rightarrow> (('q, 'y) app_systems, findociq_exn, ingestion_event list) io"
  pt_retrieve ::
    "retrieval_config \<Rightarrow> borrower_application \<Rightarrow> funder_policy list \<Rightarrow> (('q, 'y) app_systems, py_exn, retrieval_result) io"
  pt_agent_retrieve ::
    "retrieval_config \<Rightarrow> borrower_application \<Rightarrow> funder_policy list \<Rightarrow> (('q, 'y) app_systems, retrieval_result) operation"
  pt_resolver :: "string \<Rightarrow> string list \<Rightarrow> (('q, 'y) app_systems, bool) operation"
  pt_recorder ::
    "path \<Rightarrow> (string \<times> string \<times> string) option \<Rightarrow> agent_span \<Rightarrow> filesystem \<times> ('q, 'y) app_systems \<Rightarrow>
     py_exn option \<times> (filesystem \<times> ('q, 'y) app_systems)"
  pt_delete :: "client_config \<Rightarrow> app_id \<Rightarrow> uuid \<Rightarrow> ('y, py_exn, retention_receipt) io"
  pt_router :: "string \<Rightarrow> ('q, 'y) app_systems router"
  pt_hmac :: "string \<Rightarrow> signed_part \<Rightarrow> string"
  pt_cipher :: cipher
  pt_decode :: "string \<Rightarrow> string \<Rightarrow> json_object option"

definition started_policy :: "startup_env \<Rightarrow> py_exn + production_policy option" where
  "started_policy env =
     ebind (ensure (production_guardrails_enabled env \<longrightarrow> agent_orchestration_enabled env)
       (RuntimeError ''production guardrails require the checkpointed agent orchestration path'')) (\<lambda>_.
     if production_guardrails_enabled env
     then ebind (se_guardrail_policy env (policy_path env)) (\<lambda>p. Inr (Some p))
     else Inr None)"

definition precedent_collection :: "startup_env \<Rightarrow> string" where
  "precedent_collection env = getenv_or env ''FUNDERMATCH_QDRANT_COLLECTION'' ''fundermatch_precedents''"

definition started_writeback ::
  "startup_env \<Rightarrow> ('q, 'y) parts \<Rightarrow> production_policy option \<Rightarrow> (postgres_repo, 'q) writeback" where
  "started_writeback env pt policy = (pt_writeback pt)
     \<lparr>wb_repo := postgres_ops, wb_tick := pt_ticks pt,
      wb_store := (wb_store (pt_writeback pt))\<lparr>st_collection := precedent_collection env\<rparr>,
      wb_policy_hash := map_option po_policy_hash policy,
      wb_validity_days := map_option (pp_default_validity_days \<circ> po_precedent) policy, wb_outbox := True,
      wb_redact := redact_sensitive_text\<rparr>"

definition secret_if :: "startup_env \<Rightarrow> production_policy option \<Rightarrow> string \<Rightarrow> py_exn + string option" where
  "secret_if env policy name =
     (case policy of None \<Rightarrow> Inr None | Some _ \<Rightarrow> ebind (read_secret env name) (\<lambda>s. Inr (Some s)))"

definition started_signer ::
  "startup_env \<Rightarrow> ('q, 'y) parts \<Rightarrow> production_policy option \<Rightarrow> py_exn + (signed_part \<Rightarrow> string) option" where
  "started_signer env pt policy =
     ebind (secret_if env policy ''FUNDERMATCH_RECEIPT_SIGNING_SECRET'') (\<lambda>secret.
     case secret of None \<Rightarrow> Inr None | Some s \<Rightarrow> ebind (receipt_signer (pt_hmac pt) s) (\<lambda>f. Inr (Some f)))"

definition optional_at_least :: "nat \<Rightarrow> string option \<Rightarrow> bool" where
  "optional_at_least n v = (case v of None \<Rightarrow> True | Some s \<Rightarrow> n \<le> length s)"

definition valid_client_config :: "client_config \<Rightarrow> bool" where
  "valid_client_config c \<longleftrightarrow> optional_at_least 16 (cc_ingest_token c) \<and> optional_at_least 32 (cc_jwt_secret c) \<and>
     (case cc_policy_hash c of None \<Rightarrow> True | Some h \<Rightarrow> hex_sha256 h)"

definition started_client :: "startup_env \<Rightarrow> production_policy option \<Rightarrow> py_exn + client_config" where
  "started_client env policy =
     ebind (secret_if env policy ''FINDOCIQ_SERVICE_JWT_SECRET'') (\<lambda>secret.
     let c = \<lparr>cc_ingest_token = se_getenv env ''FINDOCIQ_INGEST_TOKEN'', cc_production = production_guardrails_enabled env,
           cc_jwt_secret = secret,
           cc_jwt_issuer = (case policy of None \<Rightarrow> ''fundermatch'' | Some p \<Rightarrow> sa_issuer (po_service_auth p)),
           cc_jwt_audience = (case policy of None \<Rightarrow> ''findociq-api'' | Some p \<Rightarrow> sa_audience (po_service_auth p)),
           cc_policy_hash = map_option po_policy_hash policy\<rparr> in
     ebind (ensure (valid_client_config c) (ValueError ''validation error'')) (\<lambda>_. Inr c))"

definition started_retrieval :: "startup_env \<Rightarrow> retrieval_config" where
  "started_retrieval env =
     \<lparr>cf_collection = precedent_collection env, cf_top_k = 5, cf_candidate_limit = 25, cf_profile_weight = 3 / 4,
      cf_comments_weight = 1 / 4, cf_min_score = 9 / 20, cf_require_active = production_guardrails_enabled env\<rparr>"

definition started_intake ::
  "startup_env \<Rightarrow> ('q, 'y) parts \<Rightarrow> path \<Rightarrow> client_config \<Rightarrow> funder_policy list \<Rightarrow>
   (postgres_repo, ('q, 'y) app_systems) intake_service" where
  "started_intake env pt base_dir client policies = (pt_intake pt)
     \<lparr>is_root := base_dir, is_repo := postgres_ops, is_tick := pt_ticks pt, is_policies := policies,
      is_ingest := pt_ingest pt client, is_activity := Some (pt_activity pt client), is_extract := pt_extract pt client,
      is_retrieve := pt_retrieve pt (started_retrieval env)\<rparr>"

definition started_workspace ::
  "startup_env \<Rightarrow> ('q, 'y) parts \<Rightarrow> production_policy option \<Rightarrow> path \<Rightarrow> py_exn + workspace" where
  "started_workspace env pt policy base_dir =
     ebind (secret_if env policy ''FUNDERMATCH_DOCUMENT_MASTER_KEY'') (\<lambda>secret.
     ebind (case secret of None \<Rightarrow> Inr None | Some s \<Rightarrow> ebind (se_decode64 env s) (\<lambda>k. Inr (Some k))) (\<lambda>master_key.
     make_workspace (pt_cipher pt) (dp_sha256 (pt_deps pt)) base_dir master_key
       (getenv_or env ''FUNDERMATCH_DOCUMENT_KEY_VERSION'' ''v1'')))"

definition pipeline_actor :: actor_claims where
  "pipeline_actor = \<lparr>ac_actor_id = ''fundermatch-agent-pipeline'', ac_display_name = ''FunderMatch Agent Pipeline'',
     ac_roles = {PIPELINE}\<rparr>"

definition started_deps ::
  "startup_env \<Rightarrow> ('q, 'y) parts \<Rightarrow> workspace \<Rightarrow> client_config \<Rightarrow> funder_policy list \<Rightarrow>
   (postgres_repo, ('q, 'y) app_systems) deps" where
  "started_deps env pt ws client policies = (pt_deps pt)
     \<lparr>dp_workspace := ws, dp_repo := postgres_ops, dp_tick := pt_ticks pt, dp_actor := pipeline_actor,
      dp_policies := policies, dp_redact := redact_sensitive_text, dp_production := cc_production client, dp_policy_hash := cc_policy_hash client,
      dp_ingest := pt_agent_ingest pt client, dp_extract := pt_agent_extract pt client,
      dp_retrieve := pt_agent_retrieve pt (started_retrieval env)\<rparr>"

definition started_guard ::
  "startup_env \<Rightarrow> ('q, 'y) parts \<Rightarrow> production_policy option \<Rightarrow> (signed_part \<Rightarrow> string) option \<Rightarrow>
   (postgres_repo, ('q, 'y) app_systems) deps \<Rightarrow> (postgres_repo, ('q, 'y) app_systems) guard" where
  "started_guard env pt policy signer d =
     \<lparr>gd_deps = d, gd_resolver = Some (pt_resolver pt (precedent_collection env)),
      gd_policy_hash = map_option po_policy_hash policy, gd_verify = map_option signer_verify signer,
      gd_execution = (case policy of None \<Rightarrow> [] | Some p \<Rightarrow> po_workers p), gd_dump_size = pt_dump_size pt\<rparr>"

text \<open>The OTLP exporter joins the recorder when its endpoint and both keys are configured.\<close>

definition otlp_settings :: "startup_env \<Rightarrow> py_exn + (string \<times> string \<times> string) option" where
  "otlp_settings env =
     ebind (optional_secret env ''LANGFUSE_PUBLIC_KEY'') (\<lambda>public_key.
     ebind (optional_secret env ''LANGFUSE_SECRET_KEY'') (\<lambda>secret_key.
     Inr (case (getenv_truthy env ''FUNDERMATCH_LANGFUSE_OTLP_ENDPOINT'', public_key, secret_key) of
            (Some endpoint, Some p, Some s) \<Rightarrow> if p \<noteq> [] \<and> s \<noteq> [] then Some (endpoint, p, s) else None
          | _ \<Rightarrow> None)))"

definition started_retention ::
  "('q, 'y) parts \<Rightarrow> production_policy option \<Rightarrow> workspace \<Rightarrow> client_config \<Rightarrow> 'y retention" where
  "started_retention pt policy ws client =
     \<lparr>rd_workspace = ws, rd_delete = pt_delete pt client,
      rd_policy_hash = (case policy of None \<Rightarrow> [] | Some p \<Rightarrow> po_policy_hash p),
      rd_uuid5 = dp_uuid5 (pt_deps pt), rd_sha256 = dp_sha256 (pt_deps pt)\<rparr>"

definition started_runtime ::
  "startup_env \<Rightarrow> ('q, 'y) parts \<Rightarrow> production_policy option \<Rightarrow> (signed_part \<Rightarrow> string) option \<Rightarrow> client_config \<Rightarrow>
   funder_policy list \<Rightarrow> path \<Rightarrow> py_exn + (postgres_repo, postgres_jobs, 'q, 'y, life_table) runtime option" where
  "started_runtime env pt policy signer client policies base_dir =
     (if \<not> agent_orchestration_enabled env then Inr None
      else ebind (started_workspace env pt policy base_dir) (\<lambda>ws.
        ebind (otlp_settings env) (\<lambda>otlp.
        Inr (Some ((pt_runtime pt)
          \<lparr>ru_guard := started_guard env pt policy signer (started_deps env pt ws client policies),
           ru_outside := (pt_outside pt)
             \<lparr>ou_recorder := pt_recorder pt base_dir otlp, ou_signer := signer,
              ou_cleanup := Some (retention_cleanup (started_retention pt policy ws client))\<rparr>,
           ru_life := postgres_life_ops, ru_jobs := postgres_job_ops,
           ru_router := Some (pt_router pt (getenv_or env ''FUNDERMATCH_VLLM_BASE_URL'' ''http://127.0.0.1:8900/v1''))\<rparr>)))))"

section \<open>The lifespan\<close>

definition fail_interrupted_jobs :: "('q, 'y) parts \<Rightarrow> (('q, 'y) app_state, py_exn, nat) io" where
  "fail_interrupted_jobs pt =
     in_systems (\<lambda>x. case pj_fail_interrupted (sv_clock (pt_service pt) x) (sy_jobs x) of
       (n, jobs) \<Rightarrow> (Inr n, x\<lparr>sy_jobs := jobs\<rparr>))"

text \<open>The intake and the agent, when the intake directory and a way to authenticate are configured.\<close>

definition started_processing ::
  "startup_env \<Rightarrow> ('q, 'y) parts \<Rightarrow> production_policy option \<Rightarrow>
   py_exn + ((postgres_repo, ('q, 'y) app_systems) intake_service option \<times>
     (postgres_repo, postgres_jobs, 'q, 'y, life_table) runtime option)" where
  "started_processing env pt policy =
     (case getenv_truthy env ''FUNDERMATCH_INTAKE_DIR'' of
        None \<Rightarrow> Inr (None, None)
      | Some folder \<Rightarrow>
          if getenv_truthy env ''FINDOCIQ_INGEST_TOKEN'' = None \<and> \<not> production_guardrails_enabled env then Inr (None, None)
          else ebind (started_signer env pt policy) (\<lambda>signer.
            ebind (started_client env policy) (\<lambda>client.
            ebind (se_funder_policies env (getenv_or env ''FUNDERMATCH_POLICY_PATH'' ''configs/funder_policies.yaml'')) (\<lambda>policies.
            let base_dir = se_path env folder in
            ebind (started_runtime env pt policy signer client policies base_dir) (\<lambda>rt.
            Inr (Some (started_intake env pt base_dir client policies), rt))))))"

definition lifespan :: "startup_env \<Rightarrow> ('q, 'y) parts \<Rightarrow> (('q, 'y) app_state, py_exn, ('q, 'y) app_service) io" where
  "lifespan env pt =
     io_bind (io_lift (read_secret env ''FUNDERMATCH_DATABASE_URL'')) (\<lambda>_.
     io_bind (fail_interrupted_jobs pt) (\<lambda>_.
     io_bind (io_lift (started_policy env)) (\<lambda>policy.
     io_bind (io_lift (started_processing env pt policy)) (\<lambda>(intake, rt).
     io_ret ((pt_service pt)
       \<lparr>sv_repo := postgres_ops, sv_audit := pg_audit_of, sv_tick := pt_ticks pt, sv_jobs := postgres_job_ops,
        sv_writeback := Some (started_writeback env pt policy), sv_intake := intake, sv_runtime := rt,
        sv_production := production_guardrails_enabled env, sv_database := True,
        sv_policy_hash := ebind (se_guardrail_policy env (policy_path env)) (\<lambda>p. Inr (po_policy_hash p))\<rparr>)))))"

text \<open>\<open>create_app\<close> makes the authenticator before the lifespan runs.\<close>

definition start_service ::
  "startup_env \<Rightarrow> ('q, 'y) parts \<Rightarrow> (('q, 'y) app_state, py_exn, authenticator \<times> ('q, 'y) app_service) io" where
  "start_service env pt =
     io_bind (io_lift (ebind (read_secret env ''FUNDERMATCH_JWT_SECRET'') (make_authenticator (pt_decode pt)))) (\<lambda>au.
     io_bind (lifespan env pt) (\<lambda>sv. io_ret (au, sv)))"

end
