(* ===== verification/FM_Startup_Props.thy ===== *)
theory FM_Startup_Props
  imports FM_Startup FM_Governance_Props
begin

text \<open>
  What the start of the service establishes: the wiring that the properties of the service assume,
  so that the audit contract holds across restarts, and the guardrails of production in every part.
\<close>

section \<open>The audit contract across restarts\<close>

lemma started_runtime_Some:
  assumes "started_runtime env pt policy signer client policies base_dir = Inr (Some rt)"
  obtains ws otlp where "agent_orchestration_enabled env" "started_workspace env pt policy base_dir = Inr ws"
    "ru_guard rt = started_guard env pt policy signer (started_deps env pt ws client policies)"
    "ou_signer (ru_outside rt) = signer"
    "ou_cleanup (ru_outside rt) = Some (retention_cleanup (started_retention pt policy ws client))"
  using assms by (auto simp: started_runtime_def result_elims split: if_splits)

lemma started_processing_cases:
  assumes "started_processing env pt policy = Inr (intake, rt)"
  obtains (off) "intake = None" "rt = None"
  | (on) signer client policies base_dir where "started_signer env pt policy = Inr signer" "started_client env policy = Inr client"
      "started_runtime env pt policy signer client policies base_dir = Inr rt"
      "intake = Some (started_intake env pt base_dir client policies)"
  using assms by (auto simp: started_processing_def result_elims Let_def split: option.splits if_splits)

lemma lifespan_Inr:
  assumes "lifespan env pt g = (Inr sv, g')"
  obtains policy intake rt where "started_policy env = Inr policy" "started_processing env pt policy = Inr (intake, rt)"
    "sv = (pt_service pt)
       \<lparr>sv_repo := postgres_ops, sv_audit := pg_audit_of, sv_tick := pt_ticks pt, sv_jobs := postgres_job_ops,
        sv_writeback := Some (started_writeback env pt policy), sv_intake := intake, sv_runtime := rt,
        sv_production := production_guardrails_enabled env, sv_database := True,
        sv_policy_hash := ebind (se_guardrail_policy env (policy_path env)) (\<lambda>p. Inr (po_policy_hash p))\<rparr>"
  using assms by (auto simp: lifespan_def io_elims)

lemma processing_wired:
  assumes "started_processing env pt policy = Inr (intake, rt)"
  shows "(\<forall>s. intake = Some s \<longrightarrow> is_repo s = postgres_ops \<and> is_tick s = pt_ticks pt) \<and>
    (\<forall>r. rt = Some r \<longrightarrow> dp_repo (gd_deps (ru_guard r)) = postgres_ops \<and> dp_tick (gd_deps (ru_guard r)) = pt_ticks pt)"
  using assms
proof (cases rule: started_processing_cases)
  case (on signer client policies base_dir)
  have "dp_repo (gd_deps (ru_guard r)) = postgres_ops \<and> dp_tick (gd_deps (ru_guard r)) = pt_ticks pt" if "rt = Some r" for r
  proof -
    have "started_runtime env pt policy signer client policies base_dir = Inr (Some r)" using on(3) that by simp
    then show ?thesis by (rule started_runtime_Some) (simp add: started_guard_def started_deps_def)
  qed
  with on(4) show ?thesis by (auto simp: started_intake_def)
qed auto

lemma started_wired:
  assumes "lifespan env pt g = (Inr sv, g')" and "inj (\<lambda>n. tk_audit_id (pt_ticks pt n))"
  shows "wired (pt_ticks pt) sv"
  using assms(1)
proof (rule lifespan_Inr)
  fix policy intake rt
  assume "started_processing env pt policy = Inr (intake, rt)"
    and sv: "sv = (pt_service pt)
       \<lparr>sv_repo := postgres_ops, sv_audit := pg_audit_of, sv_tick := pt_ticks pt, sv_jobs := postgres_job_ops,
        sv_writeback := Some (started_writeback env pt policy), sv_intake := intake, sv_runtime := rt,
        sv_production := production_guardrails_enabled env, sv_database := True,
        sv_policy_hash := ebind (se_guardrail_policy env (policy_path env)) (\<lambda>p. Inr (po_policy_hash p))\<rparr>"
  from processing_wired [OF this(1)] assms(2) show "wired (pt_ticks pt) sv"
    by (simp add: sv wired_def started_writeback_def)
qed

lemma start_service_recorded:
  assumes "start_service env pt g = (r, g')" and "recorded_in ticks g"
  shows "recorded_in ticks g'"
proof -
  have "preserves (recorded_in ticks) (start_service env pt)"
    unfolding start_service_def lifespan_def fail_interrupted_jobs_def
    by (intro preserve) (auto intro!: preserve split: prod.splits)
  with assms show ?thesis by (metis preservesD snd_conv)
qed

text \<open>
  One life of the service: it starts and serves its requests, or it does not start. What only the
  memory of the process held, the jobs bound to the activity bridge, is gone at its start.
\<close>

definition new_process :: "('q, 'y) app_state \<Rightarrow> ('q, 'y) app_state" where
  "new_process g = g\<lparr>gr_world := (gr_world g)\<lparr>wd_ext := (wd_ext (gr_world g))\<lparr>sy_bound := []\<rparr>\<rparr>\<rparr>"

lemma new_process_recorded: "recorded_in ticks (new_process g) = recorded_in ticks g"
  by (simp add: new_process_def recorded_def)

definition serve_session ::
  "startup_env \<times> ('q, 'y) parts \<times> api_request list \<Rightarrow> ('q, 'y) app_state \<Rightarrow> ('q, 'y) app_state" where
  "serve_session = (\<lambda>(env, pt, requests) g.
     case start_service env pt (new_process g) of
       (Inl e, g') \<Rightarrow> g'
     | (Inr (au, sv), g') \<Rightarrow> api_run sv requests g')"

lemma serve_session_recorded:
  assumes "inj (\<lambda>n. tk_audit_id (ticks n))" and "pt_ticks pt = ticks" and "recorded_in ticks g"
  shows "recorded_in ticks (serve_session (env, pt, requests) g)"
proof (cases "start_service env pt (new_process g)")
  case (Pair r g')
  have g': "recorded_in ticks g'"
    using assms(3) by (intro start_service_recorded [OF Pair]) (simp only: new_process_recorded)
  show ?thesis
  proof (cases r)
    case (Inr started)
    then obtain au sv where r: "r = Inr (au, sv)" by (cases started) auto
    with Pair have "\<exists>g1 g2. lifespan env pt g1 = (Inr sv, g2)"
      by (auto simp: start_service_def io_elims)
    then have "wired ticks sv" using started_wired assms(1,2) by blast
    from api_run_recorded [OF this g'] Pair r show ?thesis by (simp add: serve_session_def)
  qed (use Pair g' in \<open>simp add: serve_session_def\<close>)
qed

text \<open>
  C2. The audit contract survives restarts: however often the service is started, with whatever
  environment and configuration, whether or not it comes up, and whatever each life serves, the
  history of every case is gapless, follows the state machine, ends in the recorded state and has
  each decision signed by a human reviewer. The start itself establishes the wiring.
\<close>

theorem restarts_keep_audit_contract:
  assumes "inj (\<lambda>n. tk_audit_id (ticks n))"
    and "list_all (\<lambda>(env, pt, requests). pt_ticks pt = ticks) sessions"
    and "wd_repo (gr_world g) = pg_empty"
    and "pg_get a (wd_repo (gr_world (fold serve_session sessions g))) = Inr w"
    and "pg_audit_of a (wd_repo (gr_world (fold serve_session sessions g))) = Inr evs"
  shows "history_ok a w evs"
proof -
  have start: "recorded_in ticks g"
    using assms(3) pg.tracked_empty pg.used_empty by (simp add: recorded_def)
  have "recorded_in ticks (fold serve_session sessions g)"
    using start assms(2)
  proof (induction sessions arbitrary: g)
    case (Cons s sessions)
    obtain env pt requests where s: "s = (env, pt, requests)" by (rule prod_cases3)
    have step: "recorded_in ticks (serve_session s g)"
      unfolding s using Cons.prems by (intro serve_session_recorded assms(1)) (auto simp: s)
    with Cons show ?case by simp
  qed simp
  then have r: "pg.tracked (wd_repo (gr_world (fold serve_session sessions g)))" by (simp add: recorded_def)
  then have "pg_inv (wd_repo (gr_world (fold serve_session sessions g)))" by (simp add: pg.tracked_def)
  from pg.get_view [OF this, of a] pg.audit_view [OF this, of a] r show ?thesis
    using assms(4,5) by (auto simp: pg.tracked_def split: option.splits)
qed

definition blank_service :: "(demo_db, unit) app_service" where
  "blank_service = \<lparr>sv_repo = postgres_ops, sv_audit = pg_audit_of, sv_tick = demo_tick, sv_jobs = postgres_job_ops,
     sv_clock = (\<lambda>_. 1), sv_writeback = None, sv_intake = None, sv_runtime = None, sv_production = False,
     sv_database = False, sv_policy_hash = Inr [], sv_uuid5 = (\<lambda>s. s), sv_submission = (\<lambda>_. None),
     sv_new_app = tk_uuid, sv_job_id = tk_uuid\<rparr>"

text \<open>The classes' own parts; the fields left open are not read by the start.\<close>

definition demo_parts :: "(demo_db, unit) parts" where
  "demo_parts =
     \<lparr>pt_ticks = demo_tick, pt_writeback = approved_service, pt_intake = undefined, pt_deps = undefined,
      pt_dump_size = (\<lambda>_. 0), pt_outside = undefined, pt_runtime = undefined, pt_service = blank_service,
      pt_ingest = undefined, pt_agent_ingest = undefined, pt_extract = undefined, pt_agent_extract = undefined,
      pt_activity = undefined, pt_retrieve = undefined, pt_agent_retrieve = undefined, pt_resolver = undefined,
      pt_recorder = undefined, pt_delete = undefined, pt_router = undefined, pt_hmac = (\<lambda>s _. s),
      pt_cipher = undefined, pt_decode = (\<lambda>_ _. None)\<rparr>"

definition env_of :: "(string \<times> string) list \<Rightarrow> startup_env" where
  "env_of settings = \<lparr>se_getenv = dict_get settings, se_read_text = Inr, se_path = (\<lambda>s. [s]),
     se_guardrail_policy = (\<lambda>_. Inl (OtherException ''FileNotFoundError'')), se_funder_policies = (\<lambda>_. Inr []),
     se_decode64 = Inr\<rparr>"

definition long_secret :: string where
  "long_secret = replicate 32 CHR ''s''"

definition plain_env :: startup_env where
  "plain_env = env_of [(''FUNDERMATCH_DATABASE_URL'', ''d''), (''FUNDERMATCH_JWT_SECRET'', long_secret)]"

definition empty_state :: "(demo_db, unit) app_state" where
  "empty_state = \<lparr>gr_checkpoints = [], gr_lifecycle = [], gr_world = gr_world governed_state\<rparr>"

definition two_lives :: "(startup_env \<times> (demo_db, unit) parts \<times> api_request list) list" where
  "two_lives =
     [(env_of [], demo_parts, []),
      (plain_env, demo_parts, [Create_Workflow demo_actor ''app-1'' ''c0'' ''r'']),
      (plain_env, demo_parts, [Get_Workflow demo_human ''app-1''])]"

definition lived :: postgres_repo where
  "lived = wd_repo (gr_world (fold serve_session two_lives empty_state))"

lemma lived_ok: "answers_in ''app-1'' [INTAKE] lived"
  unfolding lived_def two_lives_def fold_simps serve_session_def prod.case api_run_def api_apply.simps comp_apply id_apply
  by code_simp

theorem restarts_keep_audit_contract_witness:
  "\<exists>w evs. pg_get ''app-1'' lived = Inr w \<and> wf_state w = INTAKE \<and> history_ok ''app-1'' w evs"
proof -
  obtain w evs where s: "pg_get ''app-1'' lived = Inr w" "pg_audit_of ''app-1'' lived = Inr evs" "wf_state w = INTAKE"
    using lived_ok by (auto elim!: answers_inD)
  have "list_all (\<lambda>(env, pt, requests). pt_ticks pt = demo_tick) two_lives"
    by (simp add: two_lives_def demo_parts_def)
  from restarts_keep_audit_contract [OF demo_ticks this _ s(1,2) [unfolded lived_def]] s show ?thesis
    by (auto simp: empty_state_def governed_state_def)
qed

section \<open>Production is guarded in every part\<close>

lemma started_policy_production:
  assumes "started_policy env = Inr policy" and "production_guardrails_enabled env"
  obtains p where "policy = Some p" "se_guardrail_policy env (policy_path env) = Inr p" "agent_orchestration_enabled env"
  using assms by (auto simp: started_policy_def result_elims)

lemma started_signer_Some:
  "started_signer env pt (Some p) = Inr signer \<Longrightarrow> \<exists>f. signer = Some f"
  by (auto simp: started_signer_def secret_if_def result_elims)

lemma started_workspace_key:
  "started_workspace env pt (Some p) base_dir = Inr ws \<Longrightarrow> \<exists>k. wk_master_key ws = Some k \<and> length k = 32"
  by (auto simp: started_workspace_def secret_if_def make_workspace_def result_elims)

lemma started_client_production:
  "started_client env (Some p) = Inr client \<Longrightarrow>
     cc_production client = production_guardrails_enabled env \<and> cc_policy_hash client = Some (po_policy_hash p) \<and>
     (\<exists>s. cc_jwt_secret client = Some s \<and> 32 \<le> length s)"
  by (auto simp: started_client_def secret_if_def valid_client_config_def optional_at_least_def Let_def result_elims)

definition guarded_runtime ::
  "production_policy \<Rightarrow> (postgres_repo, postgres_jobs, 'q, 'y, life_table) runtime \<Rightarrow> bool" where
  "guarded_runtime p rt \<longleftrightarrow>
     gd_policy_hash (ru_guard rt) = Some (po_policy_hash p) \<and> gd_execution (ru_guard rt) = po_workers p \<and>
     dp_production (gd_deps (ru_guard rt)) \<and> dp_policy_hash (gd_deps (ru_guard rt)) = Some (po_policy_hash p) \<and>
     dp_redact (gd_deps (ru_guard rt)) = redact_sensitive_text \<and>
     (\<exists>k. wk_master_key (ru_workspace rt) = Some k \<and> length k = 32) \<and>
     (\<exists>sign check. ou_signer (ru_outside rt) = Some sign \<and> gd_verify (ru_guard rt) = Some check \<and>
       (\<forall>part. check part (sign part)))"

lemma started_runtime_guarded:
  assumes "started_runtime env pt (Some p) signer client policies base_dir = Inr (Some rt)"
    and "started_signer env pt (Some p) = Inr signer" and "started_client env (Some p) = Inr client"
    and "production_guardrails_enabled env"
  shows "guarded_runtime p rt"
  using assms(1)
proof (rule started_runtime_Some)
  fix ws
  assume ws: "started_workspace env pt (Some p) base_dir = Inr ws"
    and rt: "ru_guard rt = started_guard env pt (Some p) signer (started_deps env pt ws client policies)"
      "ou_signer (ru_outside rt) = signer"
  obtain f where "signer = Some f" using started_signer_Some [OF assms(2)] by blast
  with rt started_workspace_key [OF ws] started_client_production [OF assms(3)] assms(4) show ?thesis
    by (simp add: guarded_runtime_def ru_workspace_def started_guard_def started_deps_def signer_verify_def)
qed

text \<open>
  C17. Production is guarded in every part: when the service starts with the production switch on, the
  policy file was loaded and its hash is in the write-back, the workers and the guardrails; there is
  an intake only together with the agent; and the agent encrypts its artifacts under a key of 32
  bytes, signs its receipts with a signature the guardrail accepts, redacts text locally and runs
  its workers under the budgets of the policy.
\<close>

theorem production_start_is_guarded:
  assumes "start_service env pt g = (Inr (au, sv), g')" and "production_guardrails_enabled env"
  shows "\<exists>p wb. se_guardrail_policy env (policy_path env) = Inr p \<and> 32 \<le> length (au_secret au) \<and> sv_production sv \<and>
    sv_policy_hash sv = Inr (po_policy_hash p) \<and> sv_writeback sv = Some wb \<and> wb_policy_hash wb = Some (po_policy_hash p) \<and>
    wb_validity_days wb = Some (pp_default_validity_days (po_precedent p)) \<and> wb_outbox wb \<and>
    wb_redact wb = redact_sensitive_text \<and> (sv_intake sv = None \<longleftrightarrow> sv_runtime sv = None) \<and>
    (case sv_runtime sv of None \<Rightarrow> True | Some rt \<Rightarrow> guarded_runtime p rt)"
proof -
  obtain secret g1 g2 where au: "make_authenticator (pt_decode pt) secret = Inr au" and life: "lifespan env pt g1 = (Inr sv, g2)"
    using assms(1) by (auto simp: start_service_def io_elims result_elims)
  have secret: "32 \<le> length (au_secret au)" using au by (auto simp: make_authenticator_def result_elims)
  from life obtain policy intake rt where policy: "started_policy env = Inr policy"
    and parts: "started_processing env pt policy = Inr (intake, rt)"
    and sv: "sv = (pt_service pt)
       \<lparr>sv_repo := postgres_ops, sv_audit := pg_audit_of, sv_tick := pt_ticks pt, sv_jobs := postgres_job_ops,
        sv_writeback := Some (started_writeback env pt policy), sv_intake := intake, sv_runtime := rt,
        sv_production := production_guardrails_enabled env, sv_database := True,
        sv_policy_hash := ebind (se_guardrail_policy env (policy_path env)) (\<lambda>p. Inr (po_policy_hash p))\<rparr>"
    by (rule lifespan_Inr)
  obtain p where p: "policy = Some p" "se_guardrail_policy env (policy_path env) = Inr p" "agent_orchestration_enabled env"
    using policy assms(2) by (rule started_policy_production)
  from parts have "(intake = None \<longleftrightarrow> rt = None) \<and> (case rt of None \<Rightarrow> True | Some r \<Rightarrow> guarded_runtime p r)"
  proof (cases rule: started_processing_cases)
    case (on signer client policies base_dir)
    then obtain r where "rt = Some r"
      using p(3) by (auto simp: started_runtime_def result_elims)
    with on assms(2) show ?thesis
      using started_runtime_guarded by (auto simp: p(1))
  qed simp
  with secret p(2) assms(2) show ?thesis
    by (auto simp: sv p(1) started_writeback_def)
qed

definition guard_policy :: production_policy where
  "guard_policy = undefined
     \<lparr>po_service_auth := \<lparr>sa_issuer = ''i'', sa_audience = ''a'', sa_maximum_token_age_seconds = 300,
        sa_required_correlation_header = ''h''\<rparr>,
      po_workers := [], po_precedent := \<lparr>pp_default_validity_days = 365, pp_require_human_decision = True\<rparr>,
      po_policy_hash := replicate 64 CHR ''0''\<rparr>"

definition guarded_env :: startup_env where
  "guarded_env = (env_of
     [(''FUNDERMATCH_DATABASE_URL'', ''d''), (''FUNDERMATCH_JWT_SECRET'', long_secret),
      (''FUNDERMATCH_PRODUCTION_GUARDRAILS_ENABLED'', ''True''), (''FUNDERMATCH_AGENT_ORCHESTRATION_ENABLED'', ''on''),
      (''FUNDERMATCH_INTAKE_DIR'', ''in''), (''FUNDERMATCH_RECEIPT_SIGNING_SECRET'', long_secret),
      (''FINDOCIQ_SERVICE_JWT_SECRET'', long_secret), (''FUNDERMATCH_DOCUMENT_MASTER_KEY'', long_secret)])
     \<lparr>se_guardrail_policy := (\<lambda>_. Inr guard_policy)\<rparr>"

lemma guarded_switches: "production_guardrails_enabled guarded_env" "agent_orchestration_enabled guarded_env"
  by code_simp+

lemma guarded_secrets:
  "read_secret guarded_env ''FUNDERMATCH_DATABASE_URL'' = Inr ''d''"
  "read_secret guarded_env ''FUNDERMATCH_JWT_SECRET'' = Inr long_secret"
  "read_secret guarded_env ''FUNDERMATCH_RECEIPT_SIGNING_SECRET'' = Inr long_secret"
  "read_secret guarded_env ''FINDOCIQ_SERVICE_JWT_SECRET'' = Inr long_secret"
  "read_secret guarded_env ''FUNDERMATCH_DOCUMENT_MASTER_KEY'' = Inr long_secret"
  "getenv_truthy guarded_env ''FUNDERMATCH_INTAKE_DIR'' = Some ''in''"
  "se_getenv guarded_env ''FINDOCIQ_INGEST_TOKEN'' = None"
  "otlp_settings guarded_env = Inr None"
  by (simp_all add: read_secret_def otlp_settings_def optional_secret_def getenv_truthy_def guarded_env_def env_of_def long_secret_def)

lemma guarded_files:
  "se_guardrail_policy guarded_env f = Inr guard_policy" "se_funder_policies guarded_env f = Inr []"
  "se_decode64 guarded_env s = Inr s" "se_path guarded_env s = [s]"
  by (simp_all add: guarded_env_def env_of_def)

lemma guard_hash: "hex_sha256 (po_policy_hash guard_policy)"
  by (simp add: guard_policy_def hex_sha256_def list_all_iff)

lemma length_long_secret: "length long_secret = 32"
  by (simp add: long_secret_def)

lemma guarded_start:
  "\<exists>au sv g'. start_service guarded_env demo_parts empty_state = (Inr (au, sv), g') \<and> sv_runtime sv \<noteq> None"
proof -
  have "case started_processing guarded_env demo_parts (Some guard_policy) of Inr (_, Some _) \<Rightarrow> True | _ \<Rightarrow> False"
    by (simp add: started_processing_def started_signer_def started_client_def started_runtime_def started_workspace_def
        secret_if_def guarded_switches guarded_secrets guarded_files receipt_signer_def make_workspace_def
        valid_client_config_def optional_at_least_def guard_hash length_long_secret Let_def)
  then obtain intake rt where "started_processing guarded_env demo_parts (Some guard_policy) = Inr (intake, Some rt)"
    by (auto split: sum.splits option.splits)
  moreover have "started_policy guarded_env = Inr (Some guard_policy)"
    by (simp add: started_policy_def guarded_switches guarded_files)
  moreover have "make_authenticator d long_secret = Inr \<lparr>au_decode = d, au_secret = long_secret\<rparr>" for d
    by (simp add: make_authenticator_def long_secret_def)
  ultimately show ?thesis
    by (simp add: start_service_def lifespan_def fail_interrupted_jobs_def in_systems_def in_world_def on_systems_def
        guarded_secrets io_bind_def io_lift_def io_ret_def split: prod.splits)
qed

theorem production_start_is_guarded_witness:
  "\<exists>au sv g' rt. start_service guarded_env demo_parts empty_state = (Inr (au, sv), g') \<and> sv_runtime sv = Some rt \<and>
     guarded_runtime guard_policy rt"
proof -
  obtain au sv g' rt where run: "start_service guarded_env demo_parts empty_state = (Inr (au, sv), g')" "sv_runtime sv = Some rt"
    using guarded_start by blast
  from production_start_is_guarded [OF run(1) guarded_switches(1)] run show ?thesis
    by (auto simp: guarded_files)
qed

text \<open>
  The two switches read their value differently: \<open>on\<close> turns the agent on and leaves the guardrails
  off without an error.
\<close>

lemma on_is_not_production:
  "agent_orchestration_enabled (env_of [(''FUNDERMATCH_AGENT_ORCHESTRATION_ENABLED'', ''on'')])"
  "\<not> production_guardrails_enabled (env_of [(''FUNDERMATCH_PRODUCTION_GUARDRAILS_ENABLED'', ''on'')])"
  by (code_simp, code_simp)

end
