(* ===== verification/Spec2Isabelle.thy ===== *)
theory Spec2Isabelle
  imports FM_Advisory_Props FM_Graph_Props FM_Workflow_Props FM_Workspace_Props FM_Agent_Props FM_Jobs_Props
    FM_RateLimit FM_Governance_Props FM_API_Props FM_Intake_Props FM_Narrative FM_Identity_Props
    FM_Evals_Props FM_Corpus FM_Validation_Props FM_Startup_Props
begin

text \<open>
  FunderMatch takes the PDFs of a borrower, has an extraction service read cited facts from them,
  decides by fixed rules which funders may be considered, retrieves earlier decisions of those
  funders from a vector database, and puts an advisory bundle in front of a human reviewer. The
  decision of the reviewer becomes a new precedent. These theories model the Python package
  \<open>src/src/fundermatch\<close> and prove what makes it safe: no lending decision without a human, no
  precedent of a funder the rules exclude, no artifact read across applications, one
  authoritative audit history for each case.

  \<^bold>\<open>The parts and how they interact.\<close> A request enters through \<open>api/app.py\<close>. An upload becomes a
  job (\<open>intake_jobs.py\<close>) and is processed either by the direct intake (\<open>intake.py\<close>) or by the
  agent: a graph of seven fixed workers (\<open>orchestration/graph.py\<close>, \<open>workers.py\<close>, \<open>guardrails.py\<close>)
  over a checkpoint per application, driven by \<open>runtime.py\<close>. Both call the extraction service
  (\<open>clients/\<close>), the rules (\<open>rules/\<close>), the retrieval (\<open>matching/\<close>) and the assembler (\<open>suggest/\<close>),
  and both move the case through the review workflow (\<open>workflow/\<close>). A decision is written to
  precedent memory by \<open>precedent/writeback.py\<close> through an outbox. \<open>security/\<close> holds the policy
  file, the receipts, the redaction, the shared service identity and the rate limits. The lifespan of
  \<open>create_app\<close> builds all of these from the environment. Beside the service, \<open>evals/\<close> measures a
  release on held-out cases, \<open>scripts/generate_synthetic_corpus.py\<close> writes the invented precedents, and
  \<open>validation/\<close> compares the published contract and the Compose file with what the code expects.

  \<^bold>\<open>The theories, in the order of the imports.\<close>

  \<^item> \<open>FM_Prelude\<close>, \<open>FM_Decimal\<close>: results with errors, Python strings and dictionaries in insertion
    order, JSON values, exact decimals as \<open>Decimal\<close> prints and compares them.
  \<^item> \<open>FM_Contract\<close>, \<open>FM_Precedent\<close>, \<open>FM_Rules\<close>, \<open>FM_Matching\<close>, \<open>FM_Suggest\<close>: the models of
    \<open>clients/findociq_contract.py\<close>, \<open>precedent/schema.py\<close>, \<open>rules/\<close>, \<open>matching/\<close> and \<open>suggest/\<close> with
    their pydantic validators as functions that return the error or the value;
    \<open>FM_Advisory_Props\<close> proves the retrieval and the bundle, and when assembly cannot fail.
  \<^item> \<open>FM_Workflow_Schema\<close>, \<open>FM_Workflow_Service\<close>: records, commands and the five transitions of
    \<open>workflow/service.py\<close>, each a function of the repository operations. \<open>FM_Workflow_Repository\<close>
    states the contract of a repository as the locale \<open>workflow_repository\<close>, in which the audit contract
    is proved; \<open>FM_Workflow_Memory\<close> and \<open>FM_Workflow_Postgres\<close> model the two implementations and
    interpret it; \<open>FM_Workflow_Props\<close> rests on the interpretations.
  \<^item> \<open>FM_Agent_Schema\<close>, \<open>FM_Policy\<close>, \<open>FM_Lifecycle\<close>, \<open>FM_Observability\<close>, \<open>FM_Graph\<close>: the
    checkpoint with its validators, the production policy, the lifecycle table, the telemetry
    records and the graph. \<open>FM_Graph_Facts\<close> keeps a checkpoint well-formed through every
    operation; \<open>FM_Graph_Props\<close> states it.
  \<^item> \<open>FM_Client\<close>, \<open>FM_Requests\<close>, \<open>FM_Extraction\<close>, \<open>FM_Workspace\<close>, \<open>FM_Context\<close>, \<open>FM_Workers\<close>,
    \<open>FM_Guardrails\<close>, \<open>FM_Agent\<close>: the client of the extraction service, fact extraction, the
    encrypted artifact store, the budget of a worker, the workers, the guardrails and their wiring.
    \<open>FM_Worker_Facts\<close>, \<open>FM_Workspace_Props\<close> and \<open>FM_Agent_Props\<close> prove what they keep: the locale \<open>worker_property\<close>
    of \<open>FM_Worker_Facts\<close> carries a property through every worker, and the calls a worker makes are
    observed in a log of the services.
  \<^item> \<open>FM_Jobs\<close>, \<open>FM_Jobs_Props\<close>: both job stores, equivalent under the locale \<open>job_store\<close>.
  \<^item> \<open>FM_Writeback\<close>, \<open>FM_Writeback_Props\<close>: the precedent store and the write-back.
  \<^item> \<open>FM_Runtime\<close>, \<open>FM_Intake\<close>, \<open>FM_RateLimit\<close>, \<open>FM_Retention\<close>: the runtime around the graph with the
    send-back router, the direct intake, the limits with the middleware, the retention cleanup.
  \<^item> \<open>FM_API\<close>, \<open>FM_Endpoints\<close>: every endpoint of \<open>api/app.py\<close> as an operation on the whole state, a
    background task as an operation of its own. \<open>FM_API_Facts\<close> frames them; \<open>FM_Governance_Props\<close>,
    \<open>FM_API_Props\<close> and \<open>FM_Intake_Props\<close> state the properties that span components.
  \<^item> \<open>FM_Regex\<close>, \<open>FM_Redaction\<close>, \<open>FM_Narrative\<close>: a matcher for the regular expressions of the code, the
    redaction of \<open>security/pii.py\<close>, and \<open>suggest/narrative.py\<close> with \<open>prompts.py\<close>, whose checks keep the
    text of the language model grounded.
  \<^item> \<open>FM_Identity\<close>, \<open>FM_Identity_Props\<close>: \<open>security/service_identity.py\<close> and \<open>api/auth.py\<close>; a provisioned
    secret verifies, and a decision needs a signed role.
  \<^item> \<open>FM_Evals\<close>, \<open>FM_Evals_Props\<close>: the metrics and the release runner of \<open>evals/\<close> with the loaders of
    \<open>precedent/corpus.py\<close>; what a passing run guarantees, and the bounds of its metrics.
  \<^item> \<open>FM_Corpus\<close>: the table and the generator of the synthetic corpus, which loads back.
  \<^item> \<open>FM_Validation\<close>, \<open>FM_Validation_Props\<close>: both checks of \<open>validation/\<close>, each equivalent to the
    declarative requirement it stands for.
  \<^item> \<open>FM_Startup\<close>, \<open>FM_Startup_Props\<close>: secrets, switches and the start of the service. A start
    establishes the wiring that the properties of the API assume, so the audit contract survives any
    number of restarts, and a production start is guarded in every part.

  \<^bold>\<open>How code becomes a definition.\<close> A pydantic model is a record with a validator; an enum is a
  datatype; a raised exception is the left value of a sum, with the exception's name where a
  caller distinguishes it. Stateful code is a function from a state to a result and a new state,
  composed by \<open>io_bind\<close>, and an exception keeps the state reached so far. Files, tables, checkpoints
  and the vector database are fields of one state record. SHA-256, JSON rendering, AES-GCM, the
  clock, fresh identifiers, the language model, the embedder, the extraction service and Qdrant are
  functions in the configuration records; a hypothesis such as \<open>wired\<close> or \<open>inj\<close> states what the
  code relies on, and every property with hypotheses has a witness at a concrete input.

  \<^bold>\<open>Bounds.\<close> The graph loop takes the recursion limit of LangGraph, 25, as fuel and reports its
  error when it is used up; \<open>graph_run_ends\<close> proves that a run takes at most one step for each of
  the seven stages, so the limit is never met. The other loops recurse on their data. Versions and
  sequences are natural numbers as Python's are.

  \<^bold>\<open>Concurrency.\<close> Every lock, transaction and \<open>await\<close>-free section takes effect as one step, and
  the properties quantify over all sequences of steps. A cancelled background task is the
  operation \<open>cancel_task\<close>. A deadline is an outcome of a worker. Polling of the ingestion activity
  runs as often as a field of the configuration says.

  \<^bold>\<open>Floating point.\<close> Latencies, scores and metrics are rationals; the logarithm of the discounted
  gain is a rational between the neighbouring doubles, and rounding is not modelled.

  \<^bold>\<open>Not modelled.\<close> Transport (routing, form parsing, headers) and the closing of clients at
  shutdown, the third-party model loaders and checkpoint savers, the exporters of telemetry, the
  SQL migration runner, command lines, demonstrations and operator scripts, the browser console.
  They hold no decision of the program: they call the operations above or the libraries that are
  parameters here.
\<close>

end
